(* ===== verification/NsPrelude.thy ===== *)
theory NsPrelude
  imports Main "HOL-Library.AList" "HOL-Library.List_Lexorder" "HOL-Library.Char_ord"
    "HOL-Library.Product_Lexorder"
begin

text \<open>
  The prelude of the NetStrike development: what every component theory uses of Python and of
  its standard library.

  \<^item> Python exceptions are the datatype \<open>exc\<close>; a computation that may raise is a value of
    \<open>exc + 'a\<close>.
  \<^item> A method that reads and writes object state is a \<open>prog\<close>: a function from the state to the
    result \<^emph>\<open>and\<close> the state it leaves. As in Python, what was written before a raise
    stays written.
  \<^item> JSON-like values (\<open>Any\<close> in the source) are the datatype \<open>val\<close>, dictionaries are association
    lists in insertion order with distinct keys, updated by \<open>AList.update\<close> (in place, or appended) and
    \<open>AList.delete\<close>.
  \<^item> Strings are lists of bytes (UTF-8). The character classes used by \<open>strip\<close>, \<open>lower\<close>,
    \<open>casefold\<close> and \<open>isalnum\<close> are those of ASCII.
\<close>

section \<open>Collections of facts\<close>

named_theorems prog_simps \<open>how each combinator of the state and exception monad runs\<close>
named_theorems keeps_intros \<open>which programs leave a projection of the state unchanged\<close>

section \<open>Lists\<close>

lemma sort_key_Nil_iff [simp]: "sort_key f xs = [] \<longleftrightarrow> xs = []"
  by (metis length_0_conv length_sort)

lemma sorted_wrt_snoc:
  "sorted_wrt r (xs @ [x]) \<longleftrightarrow> sorted_wrt r xs \<and> (\<forall>y\<in>set xs. r y x)"
  by (simp add: sorted_wrt_append)

section \<open>Exceptions\<close>

text \<open>
  The exception classes the modelled code raises or catches. \<open>OtherError\<close> stands for any exception
  of code that is not in the repository (class name and text).
\<close>

datatype exc =
    KeyError string
  | TypeError string
  | ValueError string
  | RuntimeError string
  | TimeoutError string
  | EventContractError string
  | EventCompatibilityError string
  | EventValidationError string
  | EventLedgerError string
  | ActionContractError string
  | ActionValidationError string
  | ActionCancelled string
  | ActionExecutionError string string
  | ControllerError string
  | ScenarioDefinitionError string
  | ProfileInitializationError string
  | OtherError string string

text \<open>\<open>str(exc)\<close> (of a \<open>KeyError\<close>: the quoted key) and \<open>type(exc).__name__\<close>.\<close>

fun exc_text :: "exc \<Rightarrow> string" where
  "exc_text (KeyError k) = CHR 0x27 # k @ [CHR 0x27]"
| "exc_text (TypeError m) = m"
| "exc_text (ValueError m) = m"
| "exc_text (RuntimeError m) = m"
| "exc_text (TimeoutError m) = m"
| "exc_text (EventContractError m) = m"
| "exc_text (EventCompatibilityError m) = m"
| "exc_text (EventValidationError m) = m"
| "exc_text (EventLedgerError m) = m"
| "exc_text (ActionContractError m) = m"
| "exc_text (ActionValidationError m) = m"
| "exc_text (ActionCancelled m) = m"
| "exc_text (ActionExecutionError c m) = m"
| "exc_text (ControllerError m) = m"
| "exc_text (ScenarioDefinitionError m) = m"
| "exc_text (ProfileInitializationError m) = m"
| "exc_text (OtherError c m) = m"

fun exc_name :: "exc \<Rightarrow> string" where
  "exc_name (KeyError m) = ''KeyError''"
| "exc_name (TypeError m) = ''TypeError''"
| "exc_name (ValueError m) = ''ValueError''"
| "exc_name (RuntimeError m) = ''RuntimeError''"
| "exc_name (TimeoutError m) = ''TimeoutError''"
| "exc_name (EventContractError m) = ''EventContractError''"
| "exc_name (EventCompatibilityError m) = ''EventCompatibilityError''"
| "exc_name (EventValidationError m) = ''EventValidationError''"
| "exc_name (EventLedgerError m) = ''EventLedgerError''"
| "exc_name (ActionContractError m) = ''ActionContractError''"
| "exc_name (ActionValidationError m) = ''ActionValidationError''"
| "exc_name (ActionCancelled m) = ''ActionCancelled''"
| "exc_name (ActionExecutionError c m) = ''ActionExecutionError''"
| "exc_name (ControllerError m) = ''ControllerError''"
| "exc_name (ScenarioDefinitionError m) = ''ScenarioDefinitionError''"
| "exc_name (ProfileInitializationError m) = ''ProfileInitializationError''"
| "exc_name (OtherError c m) = c"

text \<open>
  Membership in the classes that \<open>except\<close> clauses name. \<open>EventContractError\<close>,
  \<open>ActionContractError\<close>, \<open>ScenarioDefinitionError\<close> and \<open>ProfileInitializationError\<close> derive from
  \<open>ValueError\<close>; \<open>ControllerError\<close> derives from \<open>RuntimeError\<close>.
\<close>

fun is_action_contract_error :: "exc \<Rightarrow> bool" where
  "is_action_contract_error (ActionContractError m) = True"
| "is_action_contract_error (ActionValidationError m) = True"
| "is_action_contract_error (ActionCancelled m) = True"
| "is_action_contract_error (ActionExecutionError c m) = True"
| "is_action_contract_error e = False"

fun is_event_contract_error :: "exc \<Rightarrow> bool" where
  "is_event_contract_error (EventContractError m) = True"
| "is_event_contract_error (EventCompatibilityError m) = True"
| "is_event_contract_error (EventValidationError m) = True"
| "is_event_contract_error (EventLedgerError m) = True"
| "is_event_contract_error e = False"

fun is_value_error :: "exc \<Rightarrow> bool" where
  "is_value_error (ValueError m) = True"
| "is_value_error (ScenarioDefinitionError m) = True"
| "is_value_error (ProfileInitializationError m) = True"
| "is_value_error e = (is_action_contract_error e \<or> is_event_contract_error e)"

section \<open>Results that may be exceptions\<close>

text \<open>Code that may raise but has no state to change is a value of \<open>exc + 'a\<close>.\<close>

definition bindR :: "exc + 'a \<Rightarrow> ('a \<Rightarrow> exc + 'b) \<Rightarrow> exc + 'b" where
  "bindR r f = (case r of Inl e \<Rightarrow> Inl e | Inr x \<Rightarrow> f x)"

definition requireR :: "bool \<Rightarrow> exc \<Rightarrow> exc + unit" where
  "requireR b e = (if b then Inr () else Inl e)"

text \<open>\<open>[f(x) for x in xs]\<close>.\<close>

fun mapR :: "('a \<Rightarrow> exc + 'b) \<Rightarrow> 'a list \<Rightarrow> exc + 'b list" where
  "mapR f [] = Inr []"
| "mapR f (x # xs) = bindR (f x) (\<lambda>y. bindR (mapR f xs) (\<lambda>ys. Inr (y # ys)))"

lemma bindR_simps [simp]: "bindR (Inr x) f = f x" "bindR (Inl e) f = Inl e"
  by (simp_all add: bindR_def)

lemma bindR_Inr [simp]: "bindR r f = Inr y \<longleftrightarrow> (\<exists>x. r = Inr x \<and> f x = Inr y)"
  by (cases r) simp_all

lemma requireR_Inr [simp]: "requireR b e = Inr u \<longleftrightarrow> b"
  by (simp add: requireR_def)

lemma mapR_Inr: "mapR f xs = Inr ys \<longleftrightarrow> list_all2 (\<lambda>x y. f x = Inr y) xs ys"
  by (induction xs arbitrary: ys) (auto simp: list_all2_Cons1)

section \<open>Programs: state and exceptions\<close>

type_synonym ('s, 'a) prog = "'s \<Rightarrow> (exc + 'a) \<times> 's"

definition ret :: "'a \<Rightarrow> ('s, 'a) prog" where
  "ret x = (\<lambda>s. (Inr x, s))"

definition raise :: "exc \<Rightarrow> ('s, 'a) prog" where
  "raise e = (\<lambda>s. (Inl e, s))"

definition bindE :: "('s, 'a) prog \<Rightarrow> ('a \<Rightarrow> ('s, 'b) prog) \<Rightarrow> ('s, 'b) prog" where
  "bindE m f = (\<lambda>s. case m s of (Inl e, s') \<Rightarrow> (Inl e, s') | (Inr x, s') \<Rightarrow> f x s')"

definition thenE :: "('s, 'a) prog \<Rightarrow> ('s, 'b) prog \<Rightarrow> ('s, 'b) prog" where
  "thenE m n = bindE m (\<lambda>_. n)"

definition liftE :: "exc + 'a \<Rightarrow> ('s, 'a) prog" where
  "liftE r = (\<lambda>s. (r, s))"

definition getE :: "('s \<Rightarrow> 'a) \<Rightarrow> ('s, 'a) prog" where
  "getE f = (\<lambda>s. (Inr (f s), s))"

definition updE :: "('s \<Rightarrow> 's) \<Rightarrow> ('s, unit) prog" where
  "updE f = (\<lambda>s. (Inr (), f s))"

text \<open>\<open>if not b: raise e\<close>.\<close>

definition requireE :: "bool \<Rightarrow> exc \<Rightarrow> ('s, unit) prog" where
  "requireE b e = (if b then ret () else raise e)"

text \<open>\<open>try: m except: h\<close>; the handler decides which exceptions it catches and re-raises others.\<close>

definition tryE :: "('s, 'a) prog \<Rightarrow> (exc \<Rightarrow> ('s, 'a) prog) \<Rightarrow> ('s, 'a) prog" where
  "tryE m h = (\<lambda>s. case m s of (Inl e, s') \<Rightarrow> h e s' | (Inr x, s') \<Rightarrow> (Inr x, s'))"

text \<open>\<open>try: m finally: c\<close>, for a cleanup \<open>c\<close> that does not raise.\<close>

definition finallyE :: "('s, 'a) prog \<Rightarrow> ('s \<Rightarrow> 's) \<Rightarrow> ('s, 'a) prog" where
  "finallyE m c = (\<lambda>s. case m s of (r, s') \<Rightarrow> (r, c s'))"

text \<open>\<open>for x in xs: f x\<close>.\<close>

fun forE :: "('a \<Rightarrow> ('s, unit) prog) \<Rightarrow> 'a list \<Rightarrow> ('s, unit) prog" where
  "forE f [] = ret ()"
| "forE f (x # xs) = thenE (f x) (forE f xs)"

text \<open>Run a program on a part of the state: \<open>g\<close> reads the part, \<open>p\<close> writes it back.\<close>

definition zoomE :: "('s \<Rightarrow> 't) \<Rightarrow> ('t \<Rightarrow> 's \<Rightarrow> 's) \<Rightarrow> ('t, 'a) prog \<Rightarrow> ('s, 'a) prog" where
  "zoomE g p m = (\<lambda>s. case m (g s) of (r, t) \<Rightarrow> (r, p t s))"

lemma ret_run [prog_simps, simp]: "ret x s = (Inr x, s)"
  by (simp add: ret_def)

lemma raise_run [prog_simps, simp]: "raise e s = (Inl e, s)"
  by (simp add: raise_def)

lemma liftE_run [prog_simps, simp]: "liftE r s = (r, s)"
  by (simp add: liftE_def)

lemma getE_run [prog_simps, simp]: "getE f s = (Inr (f s), s)"
  by (simp add: getE_def)

lemma updE_run [prog_simps, simp]: "updE f s = (Inr (), f s)"
  by (simp add: updE_def)

lemma requireE_run [prog_simps]:
  "requireE b e s = (if b then (Inr (), s) else (Inl e, s))"
  by (simp add: requireE_def)

lemma requireE_True [simp]: "requireE True e = ret ()"
  by (simp add: requireE_def)

lemma requireE_False [simp]: "requireE False e = raise e"
  by (simp add: requireE_def)

lemma bindE_run [prog_simps]:
  "bindE m f s = (case m s of (Inl e, s') \<Rightarrow> (Inl e, s') | (Inr x, s') \<Rightarrow> f x s')"
  by (simp add: bindE_def)

lemma thenE_run [prog_simps]:
  "thenE m n s = (case m s of (Inl e, s') \<Rightarrow> (Inl e, s') | (Inr x, s') \<Rightarrow> n s')"
  by (simp add: thenE_def bindE_def)

lemma tryE_run [prog_simps]:
  "tryE m h s = (case m s of (Inl e, s') \<Rightarrow> h e s' | (Inr x, s') \<Rightarrow> (Inr x, s'))"
  by (simp add: tryE_def)

lemma finallyE_run [prog_simps]: "finallyE m c s = (case m s of (r, s') \<Rightarrow> (r, c s'))"
  by (simp add: finallyE_def)

lemma zoomE_run [prog_simps]: "zoomE g p m s = (case m (g s) of (r, t) \<Rightarrow> (r, p t s))"
  by (simp add: zoomE_def)

text \<open>The monad laws, and the ones that let a \<open>ret\<close> or a \<open>raise\<close> at the head evaluate.\<close>

lemma bindE_ret [simp]: "bindE (ret x) f = f x" "bindE (Pair (Inr x)) f = f x"
  by (rule ext, simp add: prog_simps)+

lemma bindE_raise [simp]: "bindE (raise e) f = raise e" "bindE (Pair (Inl e)) f = raise e"
  by (rule ext, simp add: prog_simps)+

lemma bindE_assoc: "bindE (bindE m f) g = bindE m (\<lambda>x. bindE (f x) g)"
  by (rule ext) (simp add: prog_simps split: prod.splits sum.splits)

lemma thenE_ret [simp]: "thenE (ret x) n = n" "thenE (Pair (Inr x)) n = n"
  by (simp_all add: thenE_def)

lemma thenE_raise [simp]: "thenE (raise e) n = raise e" "thenE (Pair (Inl e)) n = raise e"
  by (simp_all add: thenE_def)

lemma forE_append: "forE f (xs @ ys) = thenE (forE f xs) (forE f ys)"
  by (induction xs) (simp_all add: thenE_def bindE_assoc)

text \<open>Inversion of a successful sequence.\<close>

lemma bindE_InrE:
  assumes "bindE m f s = (Inr y, t)"
  obtains x s' where "m s = (Inr x, s')" and "f x s' = (Inr y, t)"
  using assms by (auto simp: prog_simps split: prod.splits sum.splits)

lemma thenE_InrE:
  assumes "thenE m n s = (Inr y, t)"
  obtains x s' where "m s = (Inr x, s')" and "n s' = (Inr y, t)"
  using assms by (auto simp: prog_simps split: prod.splits sum.splits)

subsection \<open>Programs that leave a projection of the state unchanged\<close>

definition keeps :: "('s \<Rightarrow> 'p) \<Rightarrow> ('s, 'a) prog \<Rightarrow> bool" where
  "keeps f m \<longleftrightarrow> (\<forall>s. f (snd (m s)) = f s)"

lemma keepsI: "(\<And>s. f (snd (m s)) = f s) \<Longrightarrow> keeps f m"
  by (simp add: keeps_def)

lemma keepsD: "keeps f m \<Longrightarrow> f (snd (m s)) = f s"
  by (simp add: keeps_def)

lemma keeps_run: "keeps f m \<Longrightarrow> m s = (r, s') \<Longrightarrow> f s' = f s"
  unfolding keeps_def by (metis snd_conv)

lemma keeps_ret [keeps_intros]: "keeps f (ret x)"
  by (simp add: keeps_def)

lemma keeps_raise [keeps_intros]: "keeps f (raise e)"
  by (simp add: keeps_def)

lemma keeps_liftE [keeps_intros]: "keeps f (liftE r)" "keeps f (Pair r)"
  by (simp_all add: keeps_def)

lemma keeps_getE [keeps_intros]: "keeps f (getE g)"
  by (simp add: keeps_def)

lemma keeps_requireE [keeps_intros]: "keeps f (requireE b e)"
  by (simp add: keeps_def requireE_def)

lemma keeps_updE [keeps_intros]: "(\<And>s. f (g s) = f s) \<Longrightarrow> keeps f (updE g)"
  by (simp add: keeps_def)

lemma keeps_bindE [keeps_intros]:
  assumes "keeps f m" and "\<And>x. keeps f (n x)"
  shows "keeps f (bindE m n)"
  unfolding keeps_def
proof
  fix s
  show "f (snd (bindE m n s)) = f s"
    using keepsD [OF assms(1), of s] keepsD [OF assms(2)]
    by (auto simp: prog_simps split: prod.splits sum.splits)
qed

lemma keeps_thenE [keeps_intros]: "keeps f m \<Longrightarrow> keeps f n \<Longrightarrow> keeps f (thenE m n)"
  unfolding thenE_def by (rule keeps_bindE)

lemma keeps_tryE [keeps_intros]:
  assumes "keeps f m" and "\<And>e. keeps f (h e)"
  shows "keeps f (tryE m h)"
  unfolding keeps_def
proof
  fix s
  show "f (snd (tryE m h s)) = f s"
    using keepsD [OF assms(1), of s] keepsD [OF assms(2)]
    by (auto simp: prog_simps split: prod.splits sum.splits)
qed

lemma keeps_finallyE [keeps_intros]:
  assumes "keeps f m" and "\<And>s. f (c s) = f s"
  shows "keeps f (finallyE m c)"
  unfolding keeps_def
proof
  fix s
  show "f (snd (finallyE m c s)) = f s"
    using keepsD [OF assms(1), of s] assms(2)
    by (auto simp: prog_simps split: prod.splits)
qed

lemma keeps_forE [keeps_intros]: "(\<And>x. keeps f (g x)) \<Longrightarrow> keeps f (forE g xs)"
  by (induction xs) (auto intro: keeps_intros)

lemma keeps_zoomE [keeps_intros]:
  assumes "\<And>t s. f (p t s) = f s"
  shows "keeps f (zoomE g p m)"
  using assms by (simp add: keeps_def prog_simps split: prod.splits)

lemma keeps_zoom_part:
  assumes "keeps h m" and "\<And>s. f s = h (g s)" and "\<And>t s. g (p t s) = t"
  shows "keeps f (zoomE g p m)"
  unfolding keeps_def
proof
  fix s
  show "f (snd (zoomE g p m s)) = f s"
    using keepsD [OF assms(1), of "g s"] assms(2,3)
    by (cases "m (g s)") (simp add: prog_simps)
qed

lemma keeps_if [keeps_intros]:
  "(b \<Longrightarrow> keeps f m) \<Longrightarrow> (\<not> b \<Longrightarrow> keeps f n) \<Longrightarrow> keeps f (if b then m else n)"
  by simp

lemma keeps_option [keeps_intros]:
  "(x = None \<Longrightarrow> keeps f m) \<Longrightarrow> (\<And>y. x = Some y \<Longrightarrow> keeps f (n y)) \<Longrightarrow>
   keeps f (case x of None \<Rightarrow> m | Some y \<Rightarrow> n y)"
  by (cases x) simp_all

end
