(* ===== verification/PyData.thy ===== *)
theory PyData
  imports NsPrelude
begin

text \<open>
  Python data: JSON-like values, dictionaries, strings, decimal numerals, canonical JSON and
  timestamps, as far as the modelled code uses them.
\<close>

section \<open>Values and dictionaries\<close>

datatype val =
    VNone
  | VBool bool
  | VInt int
  | VStr string
  | VList "val list"
  | VTuple "val list"
  | VDict "(string \<times> val) list"

type_synonym 'v dict = "(string \<times> 'v) list"
type_synonym row = "val dict"
type_synonym table = "row dict"

text \<open>\<open>d[k]\<close>, which raises \<open>KeyError\<close>; \<open>d.get(k)\<close> is \<open>map_of d k\<close>.\<close>

definition ditem :: "'v dict \<Rightarrow> string \<Rightarrow> exc + 'v" where
  "ditem d k = (case map_of d k of None \<Rightarrow> Inl (KeyError k) | Some v \<Rightarrow> Inr v)"

abbreviation dset :: "string \<Rightarrow> 'v \<Rightarrow> 'v dict \<Rightarrow> 'v dict" where
  "dset \<equiv> AList.update"

abbreviation dpop :: "string \<Rightarrow> 'v dict \<Rightarrow> 'v dict" where
  "dpop \<equiv> AList.delete"

definition has_key :: "'v dict \<Rightarrow> string \<Rightarrow> bool" where
  "has_key d k \<longleftrightarrow> map_of d k \<noteq> None"

definition keys_are :: "'v dict \<Rightarrow> string list \<Rightarrow> bool" where
  "keys_are d ks \<longleftrightarrow> set (map fst d) = set ks"

text \<open>\<open>{**d, **e}\<close>.\<close>

definition dmerge :: "'v dict \<Rightarrow> 'v dict \<Rightarrow> 'v dict" where
  "dmerge d e = fold (\<lambda>(k, v). dset k v) e d"

definition table_val :: "table \<Rightarrow> val" where
  "table_val t = VDict (map (\<lambda>(k, r). (k, VDict r)) t)"

lemma ditem_Inr [simp]: "ditem d k = Inr v \<longleftrightarrow> map_of d k = Some v"
  by (simp add: ditem_def split: option.splits)

lemma ditem_Inl: "ditem d k = Inl e \<longleftrightarrow> map_of d k = None \<and> e = KeyError k"
  by (auto simp: ditem_def split: option.splits)

lemma map_of_dset [simp]: "map_of (dset k v d) = (map_of d)(k \<mapsto> v)"
  by (rule update_conv')

lemma map_of_dpop_same [simp]: "map_of (dpop k d) k = None"
  by (simp add: delete_conv')

lemma has_key_dset [simp]: "has_key (dset k v d) k' \<longleftrightarrow> k' = k \<or> has_key d k'"
  by (auto simp: has_key_def)

lemma map_of_dmerge: "map_of (dmerge d e) = map_of d ++ map_of (rev e)"
proof (induction e arbitrary: d)
  case Nil
  then show ?case by (simp add: dmerge_def)
next
  case (Cons x e)
  obtain k v where x: "x = (k, v)" by (cases x)
  have "dmerge d (x # e) = dmerge (dset k v d) e"
    by (simp add: dmerge_def x)
  then show ?case
    using Cons.IH [of "dset k v d"] by (simp add: x map_add_def fun_eq_iff split: option.splits)
qed

text \<open>Truth value of an object, and \<open>x + 1\<close> of an integer (a boolean is an integer).\<close>

fun truthy :: "val \<Rightarrow> bool" where
  "truthy VNone = False"
| "truthy (VBool b) = b"
| "truthy (VInt n) = (n \<noteq> 0)"
| "truthy (VStr s) = (s \<noteq> [])"
| "truthy (VList xs) = (xs \<noteq> [])"
| "truthy (VTuple xs) = (xs \<noteq> [])"
| "truthy (VDict d) = (d \<noteq> [])"

definition num_of :: "val \<Rightarrow> int option" where
  "num_of v = (case v of VInt n \<Rightarrow> Some n | VBool b \<Rightarrow> Some (if b then 1 else 0) | _ \<Rightarrow> None)"

definition vincr :: "val \<Rightarrow> exc + val" where
  "vincr v = (case num_of v of Some n \<Rightarrow> Inr (VInt (n + 1))
     | None \<Rightarrow> Inl (TypeError ''unsupported operand type(s) for +=''))"

text \<open>
  \<open>==\<close> of two values: a boolean equals the integer it stands for, dictionaries are compared without
  regard to their order, a list never equals a tuple.
\<close>

fun val_eq :: "val \<Rightarrow> val \<Rightarrow> bool" where
  "val_eq VNone w = (w = VNone)"
| "val_eq (VBool b) w = (num_of w = Some (if b then 1 else 0))"
| "val_eq (VInt n) w = (num_of w = Some n)"
| "val_eq (VStr s) w = (w = VStr s)"
| "val_eq (VList xs) w = (case w of VList ys \<Rightarrow> list_all2 val_eq xs ys | _ \<Rightarrow> False)"
| "val_eq (VTuple xs) w = (case w of VTuple ys \<Rightarrow> list_all2 val_eq xs ys | _ \<Rightarrow> False)"
| "val_eq (VDict d) w = (case w of
       VDict e \<Rightarrow> length d = length e \<and>
         list_all (\<lambda>(k, v). case map_of e k of None \<Rightarrow> False | Some u \<Rightarrow> val_eq v u) d
     | _ \<Rightarrow> False)"

text \<open>Well-formed values: the keys of every dictionary in them are distinct.\<close>

fun wf_val :: "val \<Rightarrow> bool" where
  "wf_val (VList xs) = list_all wf_val xs"
| "wf_val (VTuple xs) = list_all wf_val xs"
| "wf_val (VDict d) = (distinct (map fst d) \<and> list_all (\<lambda>(k, v). wf_val v) d)"
| "wf_val v = True"

lemma val_eq_refl: "wf_val v \<Longrightarrow> val_eq v v"
proof (induction v rule: wf_val.induct)
  case (3 d)
  then have "list_all (\<lambda>(k, v). case map_of d k of None \<Rightarrow> False | Some u \<Rightarrow> val_eq v u) d"
    by (auto simp: list_all_iff)
  then show ?case by simp
qed (auto simp: num_of_def list_all_iff list_all2_same)

section \<open>Strings\<close>

definition upper_az :: string where "upper_az = ''ABCDEFGHIJKLMNOPQRSTUVWXYZ''"
definition lower_az :: string where "lower_az = ''abcdefghijklmnopqrstuvwxyz''"
definition digits09 :: string where "digits09 = ''0123456789''"

definition is_digit :: "char \<Rightarrow> bool" where "is_digit c \<longleftrightarrow> c \<in> set digits09"
definition is_alnum :: "char \<Rightarrow> bool" where
  "is_alnum c \<longleftrightarrow> c \<in> set lower_az \<or> c \<in> set upper_az \<or> is_digit c"
definition is_space :: "char \<Rightarrow> bool" where
  "is_space c \<longleftrightarrow> c \<in> set [CHR 0x20, CHR 0x09, CHR 0x0A, CHR 0x0B, CHR 0x0C, CHR 0x0D,
     CHR 0x1C, CHR 0x1D, CHR 0x1E, CHR 0x1F]"

definition lower_char :: "char \<Rightarrow> char" where
  "lower_char c = (case map_of (zip upper_az lower_az) c of None \<Rightarrow> c | Some d \<Rightarrow> d)"

definition lower :: "string \<Rightarrow> string" where "lower s = map lower_char s"

definition strip :: "string \<Rightarrow> string" where
  "strip s = rev (dropWhile is_space (rev (dropWhile is_space s)))"

definition starts_with :: "string \<Rightarrow> string \<Rightarrow> bool" where
  "starts_with p s \<longleftrightarrow> take (length p) s = p"

definition ends_with :: "string \<Rightarrow> string \<Rightarrow> bool" where
  "ends_with p s \<longleftrightarrow> starts_with (rev p) (rev s)"

fun join :: "string \<Rightarrow> string list \<Rightarrow> string" where
  "join sep [] = []"
| "join sep [x] = x"
| "join sep (x # y # ys) = x @ sep @ join sep (y # ys)"

text \<open>\<open>list(dict.fromkeys(xs))\<close> and \<open>sorted(set(xs))\<close>.\<close>

definition dedup :: "'a list \<Rightarrow> 'a list" where
  "dedup xs = rev (remdups (rev xs))"

definition sorted_set :: "'a::linorder list \<Rightarrow> 'a list" where
  "sorted_set xs = sort (remdups xs)"

lemma set_dedup [simp]: "set (dedup xs) = set xs"
  by (simp add: dedup_def)

lemma distinct_dedup [simp]: "distinct (dedup xs)"
  by (simp add: dedup_def)

lemma set_sorted_set [simp]: "set (sorted_set xs) = set xs"
  by (simp add: sorted_set_def)

lemma sorted_set_sorted [simp]: "sorted (sorted_set xs)" "distinct (sorted_set xs)"
  by (simp_all add: sorted_set_def)

lemma dropWhile_twice [simp]: "dropWhile p (dropWhile p xs) = dropWhile p xs"
  by (induction xs) auto

lemma strip_no_lead: "dropWhile is_space (strip s) = strip s"
proof -
  define t where "t = dropWhile is_space s"
  have "t = [] \<or> \<not> is_space (hd t)"
    by (metis t_def hd_dropWhile)
  then show ?thesis
  proof
    assume "t = []"
    then show ?thesis by (simp add: strip_def t_def [symmetric])
  next
    assume a: "\<not> is_space (hd t)"
    obtain u where u: "u = dropWhile is_space (rev t)" by simp
    obtain w where w: "rev t = w @ u"
      using u by (metis takeWhile_dropWhile_id)
    then have t: "t = rev u @ rev w" by (metis rev_append rev_rev_ident)
    have strip: "strip s = rev u" by (simp add: strip_def t_def u)
    show ?thesis
    proof (cases "rev u")
      case Nil
      then show ?thesis by (simp only: strip) simp
    next
      case (Cons c cs)
      with a t have "\<not> is_space c" by simp
      then show ?thesis by (simp only: strip Cons) simp
    qed
  qed
qed

lemma strip_strip [simp]: "strip (strip s) = strip s"
  using strip_no_lead [of s] by (simp add: strip_def)

section \<open>Decimal numerals\<close>

fun nat_str :: "nat \<Rightarrow> string" where
  "nat_str n = (if n < 10 then [digits09 ! n] else nat_str (n div 10) @ [digits09 ! (n mod 10)])"

declare nat_str.simps [simp del]

definition int_str :: "int \<Rightarrow> string" where
  "int_str i = (if i < 0 then CHR ''-'' # nat_str (nat (- i)) else nat_str (nat i))"

definition digit_value :: "char \<Rightarrow> nat" where
  "digit_value c = (case map_of (zip digits09 [0..<10]) c of None \<Rightarrow> 0 | Some d \<Rightarrow> d)"

definition digits_value :: "string \<Rightarrow> nat" where
  "digits_value s = foldl (\<lambda>n c. 10 * n + digit_value c) 0 s"

lemma less_10_cases:
  fixes n :: nat
  shows "n < 10 \<longleftrightarrow> n = 0 \<or> n = 1 \<or> n = 2 \<or> n = 3 \<or> n = 4 \<or> n = 5 \<or> n = 6 \<or> n = 7 \<or> n = 8 \<or> n = 9"
  by arith

lemma digit_value_nth: "n < 10 \<Longrightarrow> digit_value (digits09 ! n) = n"
  unfolding less_10_cases by (elim disjE) (simp_all add: digit_value_def digits09_def upt_rec)

lemma is_digit_nth: "n < 10 \<Longrightarrow> is_digit (digits09 ! n)"
  unfolding less_10_cases by (elim disjE) (simp_all add: is_digit_def digits09_def)

lemma nat_str_nonempty [simp]: "nat_str n \<noteq> []"
  by (subst nat_str.simps) simp

lemma nat_str_digits: "list_all is_digit (nat_str n)"
proof (induction n rule: nat_str.induct)
  case (1 n)
  then show ?case
    by (subst nat_str.simps) (simp add: is_digit_nth)
qed

lemma digits_value_nat_str: "digits_value (nat_str n) = n"
proof (induction n rule: nat_str.induct)
  case (1 n)
  show ?case
  proof (cases "n < 10")
    case True
    then show ?thesis by (subst nat_str.simps) (simp add: digits_value_def digit_value_nth)
  next
    case False
    with "1.IH" have "digits_value (nat_str (n div 10)) = n div 10" by simp
    with False show ?thesis
      by (subst nat_str.simps) (simp add: digits_value_def digit_value_nth)
  qed
qed

lemma nat_str_inject [simp]: "nat_str m = nat_str n \<longleftrightarrow> m = n"
  by (metis digits_value_nat_str)

lemma nat_str_no_minus: "CHR ''-'' # s \<noteq> nat_str n"
proof
  assume "CHR ''-'' # s = nat_str n"
  then have "list_all is_digit (CHR ''-'' # s)"
    using nat_str_digits by metis
  then show False by (simp add: is_digit_def digits09_def)
qed

lemma int_str_inject [simp]: "int_str i = int_str j \<longleftrightarrow> i = j"
  using nat_str_no_minus nat_str_no_minus [symmetric]
  by (auto simp: int_str_def)

section \<open>Canonical JSON\<close>

text \<open>
  \<open>json.dumps(v, sort_keys=True, separators=(",", ":"))\<close>. Control characters are escaped; a byte outside ASCII is
  copied (Python would write the numeric escape of its character).
\<close>

definition HEX_DIGITS :: string where "HEX_DIGITS = ''0123456789abcdef''"

definition json_char :: "char \<Rightarrow> string" where
  "json_char c =
    (if c = CHR 0x22 then [CHR 0x5C, CHR 0x22]
     else if c = CHR 0x5C then [CHR 0x5C, CHR 0x5C]
     else if c = CHR 0x0A then [CHR 0x5C, CHR ''n'']
     else if c = CHR 0x0D then [CHR 0x5C, CHR ''r'']
     else if c = CHR 0x09 then [CHR 0x5C, CHR ''t'']
     else if c = CHR 0x08 then [CHR 0x5C, CHR ''b'']
     else if c = CHR 0x0C then [CHR 0x5C, CHR ''f'']
     else if (of_char c :: nat) < 32 \<or> c = CHR 0x7F
     then CHR 0x5C # ''u00'' @ [HEX_DIGITS ! (of_char c div 16), HEX_DIGITS ! (of_char c mod 16)]
     else [c])"

definition json_quote :: "string \<Rightarrow> string" where
  "json_quote s = CHR 0x22 # concat (map json_char s) @ [CHR 0x22]"

definition json_member :: "string \<times> string \<Rightarrow> string" where
  "json_member kv = json_quote (fst kv) @ '':'' @ snd kv"

primrec json_dumps :: "val \<Rightarrow> string" where
  "json_dumps VNone = ''null''"
| "json_dumps (VBool b) = (if b then ''true'' else ''false'')"
| "json_dumps (VInt n) = int_str n"
| "json_dumps (VStr s) = json_quote s"
| "json_dumps (VList xs) = ''['' @ join '','' (map json_dumps xs) @ '']''"
| "json_dumps (VTuple xs) = ''['' @ join '','' (map json_dumps xs) @ '']''"
| "json_dumps (VDict d) =
     CHR 0x7B # join '','' (map json_member (sort_key fst (map (map_prod id json_dumps) d))) @ [CHR 0x7D]"

section \<open>Timestamps\<close>

text \<open>
  A \<open>datetime\<close> is an instant in microseconds since 1970-01-01T00:00Z and whether it carries a time
  zone. Calendar dates are computed with the proleptic Gregorian rules in days since the epoch.
\<close>

record datetime =
  dt_us :: int
  dt_aware :: bool

definition civil_of_days :: "int \<Rightarrow> int \<times> int \<times> int" where
  "civil_of_days days =
    (let z = days + 719468; era = z div 146097; doe = z mod 146097;
         yoe = (doe - doe div 1460 + doe div 36524 - doe div 146096) div 365;
         doy = doe - (365 * yoe + yoe div 4 - yoe div 100);
         mp = (5 * doy + 2) div 153;
         d = doy - (153 * mp + 2) div 5 + 1;
         m = (if mp < 10 then mp + 3 else mp - 9)
     in (yoe + era * 400 + (if m \<le> 2 then 1 else 0), m, d))"

definition days_of_civil :: "int \<Rightarrow> int \<Rightarrow> int \<Rightarrow> int" where
  "days_of_civil y m d =
    (let y' = (if m \<le> 2 then y - 1 else y); era = y' div 400; yoe = y' mod 400;
         doy = (153 * (if 2 < m then m - 3 else m + 9) + 2) div 5 + d - 1
     in era * 146097 + (yoe * 365 + yoe div 4 - yoe div 100 + doy) - 719468)"

definition pad0 :: "nat \<Rightarrow> int \<Rightarrow> string" where
  "pad0 w n = (let s = int_str n in replicate (w - length s) (CHR ''0'') @ s)"

text \<open>\<open>value.isoformat(timespec="milliseconds").replace("+00:00", "Z")\<close> of a UTC instant.\<close>

definition iso_millis :: "int \<Rightarrow> string" where
  "iso_millis us =
    (let (y, m, d) = civil_of_days (us div 86400000000); t = us mod 86400000000
     in pad0 4 y @ ''-'' @ pad0 2 m @ ''-'' @ pad0 2 d @ ''T''
        @ pad0 2 (t div 3600000000) @ '':'' @ pad0 2 (t div 60000000 mod 60) @ '':''
        @ pad0 2 (t div 1000000 mod 60) @ ''.'' @ pad0 3 (t div 1000 mod 1000) @ ''Z'')"

end
