(* ===== verification/Events.thy ===== *)
theory Events
  imports PyData
begin

text \<open>
  The event contract of \<^verbatim>\<open>shared/events.py\<close>: the run-wide sequencer, redaction, the event
  builder with its schema check, and the append-only ledger.

  The events of the system are the record \<open>event\<close>, one field per field of the contract;
  \<open>event_row\<close> is the JSON object the builder writes. The third-party \<^verbatim>\<open>jsonschema\<close> validator
  (\<open>iter_errors\<close>), the clock, \<^verbatim>\<open>uuid4\<close>, the monotonic clock, SHA-256 and the event sink the
  deployment supplies are the fields of \<open>env\<close>; \<open>world\<close> counts how often the nondeterministic ones
  were consulted, and holds the accepted events.
\<close>

section \<open>Event data\<close>

record entity =
  en_type :: string
  en_id :: string
  en_display_name :: "string option"
  en_role :: "string option"

definition opt_text :: "string option \<Rightarrow> string option" where
  "opt_text x = (case x of None \<Rightarrow> None | Some s \<Rightarrow> if s = [] then None else Some s)"

definition entity :: "string \<Rightarrow> string \<Rightarrow> string option \<Rightarrow> string option \<Rightarrow> entity" where
  "entity entity_type entity_id display_name role =
     \<lparr>en_type = entity_type, en_id = entity_id,
      en_display_name = opt_text display_name, en_role = opt_text role\<rparr>"

definition opt_field :: "string \<Rightarrow> string option \<Rightarrow> row" where
  "opt_field k x = (case x of None \<Rightarrow> [] | Some s \<Rightarrow> [(k, VStr s)])"

definition entity_row :: "entity \<Rightarrow> row" where
  "entity_row e = [(''type'', VStr (en_type e)), (''id'', VStr (en_id e))]
     @ opt_field ''display_name'' (en_display_name e) @ opt_field ''role'' (en_role e)"

definition str_list :: "string list \<Rightarrow> val" where
  "str_list xs = VList (map VStr xs)"

definition opt_val :: "string option \<Rightarrow> val" where
  "opt_val x = (case x of None \<Rightarrow> VNone | Some s \<Rightarrow> VStr s)"

record safety =
  sf_simulation_only :: bool
  sf_dry_run :: bool
  sf_within_allowlist :: bool
  sf_destructive :: bool
  sf_controls :: "string list"

definition safety_marker :: "bool \<Rightarrow> bool \<Rightarrow> string list \<Rightarrow> safety" where
  "safety_marker dry_run within_allowlist controls =
     \<lparr>sf_simulation_only = True, sf_dry_run = dry_run, sf_within_allowlist = within_allowlist,
      sf_destructive = False, sf_controls = sorted_set controls\<rparr>"

record event_context =
  cx_exercise_id :: string
  cx_run_id :: string
  cx_source_kind :: string
  cx_source_component :: string
  cx_producer_version :: string
  cx_source_host :: "string option"

record event =
  ev_schema_version :: string
  ev_event_id :: string
  ev_timestamp :: string
  ev_exercise_id :: string
  ev_run_id :: string
  ev_sequence :: int
  ev_event_type :: string
  ev_phase :: string
  ev_source_kind :: string
  ev_source_component :: string
  ev_source_host :: "string option"
  ev_actor :: entity
  ev_action :: string
  ev_target :: "entity option"
  ev_outcome_status :: string
  ev_outcome_reason :: "string option"
  ev_severity :: string
  ev_visibility :: string
  ev_safety :: safety
  ev_producer :: string
  ev_producer_version :: string
  ev_source_event_id :: "string option"
  ev_integrity :: "string option"
  ev_message :: string
  ev_objective_ids :: "string list"
  ev_checkpoint_id :: "string option"
  ev_correlation_ids :: "string list"
  ev_raw_data_ref :: "string option"
  ev_data :: row
  ev_extensions :: row
  ev_attack :: "(string \<times> string) option"

text \<open>The JSON object of an event, key by key in the order \<open>build\<close> writes them.\<close>

definition event_row :: "event \<Rightarrow> row" where
  "event_row e =
    [(''schema_version'', VStr (ev_schema_version e)), (''event_id'', VStr (ev_event_id e)),
     (''timestamp'', VStr (ev_timestamp e)), (''exercise_id'', VStr (ev_exercise_id e)),
     (''run_id'', VStr (ev_run_id e)), (''sequence'', VInt (ev_sequence e)),
     (''event_type'', VStr (ev_event_type e)), (''phase'', VStr (ev_phase e)),
     (''source'', VDict ([(''kind'', VStr (ev_source_kind e)),
        (''component'', VStr (ev_source_component e))] @ opt_field ''host'' (ev_source_host e))),
     (''actor'', VDict (entity_row (ev_actor e))), (''action'', VStr (ev_action e)),
     (''target'', (case ev_target e of None \<Rightarrow> VNone | Some t \<Rightarrow> VDict (entity_row t))),
     (''outcome'', VDict ([(''status'', VStr (ev_outcome_status e))]
        @ opt_field ''reason'' (ev_outcome_reason e))),
     (''severity'', VStr (ev_severity e)), (''visibility'', VStr (ev_visibility e)),
     (''safety'', VDict [(''simulation_only'', VBool (sf_simulation_only (ev_safety e))),
        (''dry_run'', VBool (sf_dry_run (ev_safety e))),
        (''within_allowlist'', VBool (sf_within_allowlist (ev_safety e))),
        (''destructive'', VBool (sf_destructive (ev_safety e))),
        (''controls'', str_list (sf_controls (ev_safety e)))]),
     (''provenance'', VDict ([(''producer'', VStr (ev_producer e)),
        (''producer_version'', VStr (ev_producer_version e))]
        @ opt_field ''source_event_id'' (ev_source_event_id e)
        @ (case ev_integrity e of None \<Rightarrow> [] | Some d \<Rightarrow>
             [(''integrity'', VDict [(''algorithm'', VStr ''sha256''), (''digest'', VStr d)])]))),
     (''message'', VStr (ev_message e)), (''objective_ids'', str_list (ev_objective_ids e)),
     (''checkpoint_id'', opt_val (ev_checkpoint_id e)),
     (''correlation_ids'', str_list (ev_correlation_ids e)),
     (''raw_data_ref'', opt_val (ev_raw_data_ref e)),
     (''data'', VDict (ev_data e)), (''extensions'', VDict (ev_extensions e))]
    @ (case ev_attack e of None \<Rightarrow> [] | Some (technique, tactic) \<Rightarrow>
         [(''attack'', VDict [(''technique_id'', VStr technique), (''tactic'', VStr tactic)])])"

section \<open>Surroundings\<close>

text \<open>One error of \<open>iter_errors\<close>: the parts of its absolute path as strings, and its message.\<close>

type_synonym schema_error = "string list \<times> string"

record env =
  e_sink :: "event list \<Rightarrow> event \<Rightarrow> exc option"
  e_event_errors :: "val \<Rightarrow> schema_error list"
  e_action_errors :: "val \<Rightarrow> schema_error list"
  e_uuid :: "nat \<Rightarrow> string"
  e_clock :: "nat \<Rightarrow> datetime"
  e_mono :: "nat \<Rightarrow> int"
  e_sha256 :: "string \<Rightarrow> string"

record world =
  w_log :: "event list"
  w_sequence :: int
  w_uuids :: nat
  w_clocks :: nat
  w_monos :: nat

definition new_uuid :: "env \<Rightarrow> (world, string) prog" where
  "new_uuid env = bindE (getE w_uuids) (\<lambda>n.
     thenE (updE (\<lambda>w. w\<lparr>w_uuids := Suc n\<rparr>)) (ret (e_uuid env n)))"

definition read_clock :: "env \<Rightarrow> (world, datetime) prog" where
  "read_clock env = bindE (getE w_clocks) (\<lambda>n.
     thenE (updE (\<lambda>w. w\<lparr>w_clocks := Suc n\<rparr>)) (ret (e_clock env n)))"

definition read_mono :: "env \<Rightarrow> (world, int) prog" where
  "read_mono env = bindE (getE w_monos) (\<lambda>n.
     thenE (updE (\<lambda>w. w\<lparr>w_monos := Suc n\<rparr>)) (ret (e_mono env n)))"

text \<open>The event sink accepts an event, which is then part of the log, or raises.\<close>

definition sink_event :: "env \<Rightarrow> event \<Rightarrow> (world, unit) prog" where
  "sink_event env ev = bindE (getE w_log) (\<lambda>log.
     case e_sink env log ev of
       Some e \<Rightarrow> raise e
     | None \<Rightarrow> updE (\<lambda>w. w\<lparr>w_log := log @ [ev]\<rparr>))"

text \<open>A deployment in which neither the sink nor the validators object.\<close>

definition quiet_env :: "env \<Rightarrow> bool" where
  "quiet_env env \<longleftrightarrow> (\<forall>log ev. e_sink env log ev = None) \<and> (\<forall>v. e_event_errors env v = [])
     \<and> (\<forall>v. e_action_errors env v = []) \<and> (\<forall>n. dt_aware (e_clock env n))"

section \<open>The sequencer\<close>

text \<open>\<open>EventSequencer\<close>: its state is \<open>w_sequence\<close> of the world.\<close>

definition sequencer_start :: "int \<Rightarrow> exc + int" where
  "sequencer_start start = (if start < 0
     then Inl (EventContractError ''start_sequence cannot be negative'') else Inr start)"

definition sequencer_next :: "(world, int) prog" where
  "sequencer_next =
     thenE (updE (\<lambda>w. w\<lparr>w_sequence := w_sequence w + 1\<rparr>)) (getE w_sequence)"

definition sequencer_reset :: "int \<Rightarrow> (world, unit) prog" where
  "sequencer_reset start =
     thenE (requireE (\<not> start < 0) (EventContractError ''start_sequence cannot be negative''))
       (updE (\<lambda>w. w\<lparr>w_sequence := start\<rparr>))"

section \<open>Validation and redaction\<close>

fun split_on :: "char \<Rightarrow> string \<Rightarrow> string list" where
  "split_on c [] = [[]]"
| "split_on c (x # xs) = (if x = c then [] # split_on c xs
     else (case split_on c xs of [] \<Rightarrow> [[x]] | p # ps \<Rightarrow> (x # p) # ps))"

text \<open>\<open>_VERSION_PATTERN.fullmatch\<close>: three dot-separated runs of digits.\<close>

definition version_parts :: "string \<Rightarrow> string list option" where
  "version_parts s = (let ps = split_on (CHR ''.'') s in
     if length ps = 3 \<and> list_all (\<lambda>p. p \<noteq> [] \<and> list_all is_digit p) ps then Some ps else None)"

definition schema_major :: "val option \<Rightarrow> exc + nat" where
  "schema_major version = (case version of
     Some (VStr s) \<Rightarrow> (case version_parts s of
        None \<Rightarrow> Inl (EventCompatibilityError
          (''schema_version '' @ s @ '' is not formatted as MAJOR.MINOR.PATCH''))
      | Some ps \<Rightarrow> Inr (digits_value (hd ps)))
   | _ \<Rightarrow> Inl (EventCompatibilityError ''schema_version must be a semantic-version string''))"

definition SUPPORTED_SCHEMA_MAJOR :: nat where "SUPPORTED_SCHEMA_MAJOR = 1"

definition error_detail :: "schema_error \<Rightarrow> string" where
  "error_detail er = (let location = join ''.'' (fst er) in
     (if location = [] then ''<root>'' else location) @ '': '' @ snd er)"

definition validate_event :: "env \<Rightarrow> row \<Rightarrow> exc + unit" where
  "validate_event env event = (case schema_major (map_of event ''schema_version'') of
     Inl e \<Rightarrow> Inl e
   | Inr major \<Rightarrow>
       if major \<noteq> SUPPORTED_SCHEMA_MAJOR
       then Inl (EventCompatibilityError (''unsupported event schema major '' @ nat_str major
              @ ''; this consumer supports major '' @ nat_str SUPPORTED_SCHEMA_MAJOR))
       else (let errors = sort_key fst (e_event_errors env (VDict event)) in
         if errors = [] then Inr ()
         else Inl (EventValidationError (''event schema validation failed: ''
                @ join ''; '' (map error_detail errors)))))"

definition SENSITIVE_KEYS :: "string list" where
  "SENSITIVE_KEYS = [''accesstoken'', ''apikey'', ''authorization'', ''clientsecret'', ''cookie'',
     ''credential'', ''mfasecret'', ''password'', ''refreshtoken'', ''secret'', ''sessiontoken'',
     ''token'']"

definition normalized_key :: "string \<Rightarrow> string" where
  "normalized_key s = filter (\<lambda>c. c \<in> set lower_az \<or> is_digit c) (lower s)"

definition REDACTED :: val where "REDACTED = VStr ''[REDACTED]''"

definition redact_field :: "string list \<Rightarrow> string \<times> val \<Rightarrow> string \<times> val" where
  "redact_field configured kv =
     (fst kv, if normalized_key (fst kv) \<in> set configured then REDACTED else snd kv)"

text \<open>The inner function of \<open>redact_sensitive\<close>: children first, then the sensitive fields.\<close>

primrec redact :: "string list \<Rightarrow> val \<Rightarrow> val" where
  "redact ks VNone = VNone"
| "redact ks (VBool b) = VBool b"
| "redact ks (VInt n) = VInt n"
| "redact ks (VStr s) = VStr s"
| "redact ks (VList xs) = VList (map (redact ks) xs)"
| "redact ks (VTuple xs) = VList (map (redact ks) xs)"
| "redact ks (VDict d) = VDict (map (redact_field ks) (map (map_prod id (redact ks)) d))"

definition redact_sensitive :: "val \<Rightarrow> string list option \<Rightarrow> val" where
  "redact_sensitive v sensitive_keys = redact (map normalized_key
     (case sensitive_keys of None \<Rightarrow> SENSITIVE_KEYS
      | Some [] \<Rightarrow> SENSITIVE_KEYS | Some ks \<Rightarrow> ks)) v"

definition redact_row :: "row \<Rightarrow> row" where
  "redact_row d = (case redact_sensitive (VDict d) None of VDict e \<Rightarrow> e | _ \<Rightarrow> [])"

section \<open>The event builder\<close>

text \<open>The keyword arguments of \<open>EventBuilder.build\<close>, and their defaults.\<close>

record event_args =
  ea_event_type :: string
  ea_phase :: string
  ea_actor :: entity
  ea_action :: string
  ea_target :: "entity option"
  ea_outcome_status :: string
  ea_message :: string
  ea_severity :: string
  ea_visibility :: string
  ea_outcome_reason :: "string option"
  ea_dry_run :: bool
  ea_within_allowlist :: bool
  ea_safety_controls :: "string list"
  ea_data :: row
  ea_attack_technique_id :: "string option"
  ea_attack_tactic :: "string option"
  ea_objective_ids :: "string list"
  ea_checkpoint_id :: "string option"
  ea_correlation_ids :: "string list"
  ea_raw_data_ref :: "string option"
  ea_extensions :: row
  ea_source_event_id :: "string option"
  ea_integrity_sha256 :: "string option"
  ea_timestamp :: "datetime option"
  ea_event_id :: "string option"

definition event_args :: "string \<Rightarrow> string \<Rightarrow> entity \<Rightarrow> string \<Rightarrow> entity option \<Rightarrow> string \<Rightarrow> string
    \<Rightarrow> event_args" where
  "event_args event_type phase actor action target outcome_status message =
    \<lparr>ea_event_type = event_type, ea_phase = phase, ea_actor = actor, ea_action = action,
     ea_target = target, ea_outcome_status = outcome_status, ea_message = message,
     ea_severity = ''info'', ea_visibility = ''participant'', ea_outcome_reason = None,
     ea_dry_run = False, ea_within_allowlist = True, ea_safety_controls = [], ea_data = [],
     ea_attack_technique_id = None, ea_attack_tactic = None, ea_objective_ids = [],
     ea_checkpoint_id = None, ea_correlation_ids = [], ea_raw_data_ref = None,
     ea_extensions = [], ea_source_event_id = None, ea_integrity_sha256 = None,
     ea_timestamp = None, ea_event_id = None\<rparr>"

text \<open>
  A builder: its context, the last validated sequence number, and whether its
  \<open>sequence_factory\<close> is the run's sequencer (otherwise it counts by itself).
\<close>

record builder =
  bl_context :: event_context
  bl_sequence :: int
  bl_shared :: bool

definition new_builder :: "event_context \<Rightarrow> int \<Rightarrow> bool \<Rightarrow> exc + builder" where
  "new_builder context start shared = (if start < 0
     then Inl (EventContractError ''start_sequence cannot be negative'')
     else Inr \<lparr>bl_context = context, bl_sequence = start, bl_shared = shared\<rparr>)"

definition fresh_builder :: "event_context \<Rightarrow> bool \<Rightarrow> builder" where
  "fresh_builder context shared = \<lparr>bl_context = context, bl_sequence = 0, bl_shared = shared\<rparr>"

definition format_timestamp :: "datetime \<Rightarrow> exc + string" where
  "format_timestamp t = (if dt_aware t then Inr (iso_millis (dt_us t))
     else Inl (EventContractError ''timestamps must be timezone-aware''))"

definition both_text :: "string option \<Rightarrow> string option \<Rightarrow> (string \<times> string) option" where
  "both_text x y = (case (opt_text x, opt_text y) of (Some a, Some b) \<Rightarrow> Some (a, b) | _ \<Rightarrow> None)"

definition make_event :: "event_context \<Rightarrow> event_args \<Rightarrow> int \<Rightarrow> string \<Rightarrow> string \<Rightarrow> event" where
  "make_event cx a sequence event_id timestamp =
    \<lparr>ev_schema_version = ''1.0.0'', ev_event_id = event_id, ev_timestamp = timestamp,
     ev_exercise_id = cx_exercise_id cx, ev_run_id = cx_run_id cx, ev_sequence = sequence,
     ev_event_type = ea_event_type a, ev_phase = ea_phase a,
     ev_source_kind = cx_source_kind cx, ev_source_component = cx_source_component cx,
     ev_source_host = opt_text (cx_source_host cx), ev_actor = ea_actor a,
     ev_action = ea_action a, ev_target = ea_target a,
     ev_outcome_status = ea_outcome_status a, ev_outcome_reason = opt_text (ea_outcome_reason a),
     ev_severity = ea_severity a, ev_visibility = ea_visibility a,
     ev_safety = safety_marker (ea_dry_run a) (ea_within_allowlist a) (ea_safety_controls a),
     ev_producer = cx_source_component cx, ev_producer_version = cx_producer_version cx,
     ev_source_event_id = opt_text (ea_source_event_id a),
     ev_integrity = opt_text (ea_integrity_sha256 a), ev_message = ea_message a,
     ev_objective_ids = sorted_set (ea_objective_ids a), ev_checkpoint_id = ea_checkpoint_id a,
     ev_correlation_ids = dedup (ea_correlation_ids a), ev_raw_data_ref = ea_raw_data_ref a,
     ev_data = redact_row (ea_data a), ev_extensions = redact_row (ea_extensions a),
     ev_attack = both_text (ea_attack_technique_id a) (ea_attack_tactic a)\<rparr>"

text \<open>
  \<open>EventBuilder.build\<close>. The sequencer is consulted first and keeps the number it gave out even when
  the event is refused afterwards; the builder's own \<open>_sequence\<close> moves only with a valid event.
\<close>

definition world_part :: "(world, 'a) prog \<Rightarrow> (world \<times> builder, 'a) prog" where
  "world_part m = zoomE fst (\<lambda>w p. (w, snd p)) m"

definition build_next :: "(world \<times> builder, int) prog" where
  "build_next = bindE (getE snd) (\<lambda>b.
     if bl_shared b then world_part sequencer_next else ret (bl_sequence b + 1))"

definition build :: "env \<Rightarrow> event_args \<Rightarrow> (world \<times> builder, event) prog" where
  "build env a =
    thenE (requireE ((ea_attack_technique_id a = None) = (ea_attack_tactic a = None))
      (EventContractError ''attack_technique_id and attack_tactic must be supplied together''))
   (bindE build_next (\<lambda>next.
    bindE (getE snd) (\<lambda>b.
    thenE (requireE (bl_sequence b < next) (EventContractError
      ''sequence_factory must return strictly increasing positive integers''))
   (bindE (case opt_text (ea_event_id a) of Some i \<Rightarrow> ret i | None \<Rightarrow> world_part (new_uuid env))
     (\<lambda>event_id.
    bindE (case ea_timestamp a of Some t \<Rightarrow> ret t | None \<Rightarrow> world_part (read_clock env)) (\<lambda>t.
    bindE (liftE (format_timestamp t)) (\<lambda>timestamp.
    let event = make_event (bl_context b) a next event_id timestamp in
    thenE (liftE (validate_event env (event_row event)))
   (thenE (updE (\<lambda>(w, c). (w, c\<lparr>bl_sequence := next\<rparr>)))
     (ret event)))))))))"

text \<open>What every producer does: build an event and hand it to the sink.\<close>

definition build_and_sink :: "env \<Rightarrow> event_args \<Rightarrow> (world \<times> builder, event) prog" where
  "build_and_sink env a = bindE (build env a) (\<lambda>event.
     thenE (world_part (sink_event env event)) (ret event))"

definition correlation_key :: "event \<Rightarrow> string \<times> string" where
  "correlation_key e = (ev_exercise_id e, ev_run_id e)"

section \<open>What redaction guarantees\<close>

text \<open>\<open>clean ks v\<close>: at every depth of \<open>v\<close>, a field with a configured name holds the marker.\<close>

fun clean :: "string list \<Rightarrow> val \<Rightarrow> bool" where
  "clean ks (VList xs) = list_all (clean ks) xs"
| "clean ks (VTuple xs) = list_all (clean ks) xs"
| "clean ks (VDict d) = list_all (\<lambda>(k, v).
     if normalized_key k \<in> set ks then v = REDACTED else clean ks v) d"
| "clean ks v = True"

lemma redact_field_simp [simp]:
  "redact_field ks (k, v) = (k, if normalized_key k \<in> set ks then REDACTED else v)"
  by (simp add: redact_field_def)

lemma redact_REDACTED [simp]: "redact ks REDACTED = REDACTED"
  by (simp add: REDACTED_def)

lemma clean_redact: "clean ks (redact ks v)"
  by (induction v) (auto simp: list_all_iff)

lemma redact_twice [simp]: "redact ks (redact ks v) = redact ks v"
  by (induction v) auto

lemma redact_sensitive_None: "redact_sensitive v None = redact (map normalized_key SENSITIVE_KEYS) v"
  by (simp add: redact_sensitive_def)

lemma normalized_SENSITIVE [simp]: "map normalized_key SENSITIVE_KEYS = SENSITIVE_KEYS"
  by code_simp

lemma redact_row_eq:
  "redact_row d = map (redact_field SENSITIVE_KEYS) (map (map_prod id (redact SENSITIVE_KEYS)) d)"
  by (simp add: redact_row_def redact_sensitive_None)

lemma redact_row_twice [simp]: "redact_row (redact_row d) = redact_row d"
  using redact_twice [of SENSITIVE_KEYS "VDict d"] by (simp add: redact_row_eq)

lemma VDict_redact_row: "VDict (redact_row d) = redact SENSITIVE_KEYS (VDict d)"
  by (simp add: redact_row_eq)

lemma redact_row_keys [simp]: "map fst (redact_row d) = map fst d"
  by (simp add: redact_row_eq redact_field_def)

text \<open>
  The fixed field names of the event object are not sensitive, so redacting a whole event (as
  \<open>EventLedger.append\<close> and the exports do) is redacting its two open fields.
\<close>

definition redact_event :: "event \<Rightarrow> event" where
  "redact_event e = e\<lparr>ev_data := redact_row (ev_data e), ev_extensions := redact_row (ev_extensions e)\<rparr>"

definition EVENT_KEYS :: "string list" where
  "EVENT_KEYS = [''schema_version'', ''event_id'', ''timestamp'', ''exercise_id'', ''run_id'',
     ''sequence'', ''event_type'', ''phase'', ''source'', ''kind'', ''component'', ''host'',
     ''actor'', ''type'', ''id'', ''display_name'', ''role'', ''action'', ''target'', ''outcome'',
     ''status'', ''reason'', ''severity'', ''visibility'', ''safety'', ''simulation_only'',
     ''dry_run'', ''within_allowlist'', ''destructive'', ''controls'', ''provenance'', ''producer'',
     ''producer_version'', ''source_event_id'', ''integrity'', ''algorithm'', ''digest'',
     ''message'', ''objective_ids'', ''checkpoint_id'', ''correlation_ids'', ''raw_data_ref'',
     ''data'', ''extensions'', ''attack'', ''technique_id'', ''tactic'']"

lemma EVENT_KEYS_open:
  "list_all (\<lambda>k. \<not> List.member SENSITIVE_KEYS (normalized_key k)) EVENT_KEYS"
  by code_simp

lemmas event_key_open = EVENT_KEYS_open [unfolded EVENT_KEYS_def, simplified]

lemma redact_str_list [simp]: "redact ks (str_list xs) = str_list xs"
  by (simp add: str_list_def)

lemma redact_opt_val [simp]: "redact ks (opt_val x) = opt_val x"
  by (simp add: opt_val_def split: option.splits)

lemma redact_opt_field:
  "normalized_key k \<notin> set ks \<Longrightarrow>
   map (redact_field ks) (map (map_prod id (redact ks)) (opt_field k x)) = opt_field k x"
  by (simp add: opt_field_def split: option.splits)

lemma redact_entity_row:
  "map (redact_field SENSITIVE_KEYS) (map (map_prod id (redact SENSITIVE_KEYS)) (entity_row e))
   = entity_row e"
  by (simp only: entity_row_def map_append redact_opt_field event_key_open not_False_eq_True)
     (simp add: event_key_open)

lemma redact_event_row: "redact_row (event_row e) = event_row (redact_event e)"
  unfolding redact_row_eq event_row_def redact_event_def
  by (simp add: event_key_open redact_entity_row [simplified] redact_opt_field [simplified]
        redact_row_eq split: option.splits prod.splits)

section \<open>Facts about the builder\<close>

lemma validate_event_quiet:
  assumes "quiet_env env"
  shows "validate_event env (event_row (make_event cx a n eid ts)) = Inr ()"
proof -
  have "schema_major (Some (VStr ''1.0.0'')) = Inr 1" by code_simp
  then show ?thesis
    using assms
    by (simp add: validate_event_def event_row_def make_event_def quiet_env_def
        SUPPORTED_SCHEMA_MAJOR_def sort_key_def)
qed

lemma validate_event_major:
  assumes "validate_event env event = Inr ()"
  shows "\<exists>s ps. map_of event ''schema_version'' = Some (VStr s) \<and> version_parts s = Some ps
     \<and> digits_value (hd ps) = 1 \<and> e_event_errors env (VDict event) = []"
  using assms
  by (auto simp: validate_event_def schema_major_def SUPPORTED_SCHEMA_MAJOR_def Let_def
      split: sum.splits option.splits val.splits if_splits)

lemma new_uuid_run [prog_simps]:
  "new_uuid env w = (Inr (e_uuid env (w_uuids w)), w\<lparr>w_uuids := Suc (w_uuids w)\<rparr>)"
  by (simp add: new_uuid_def prog_simps)

lemma read_clock_run [prog_simps]:
  "read_clock env w = (Inr (e_clock env (w_clocks w)), w\<lparr>w_clocks := Suc (w_clocks w)\<rparr>)"
  by (simp add: read_clock_def prog_simps)

lemma read_mono_run [prog_simps]:
  "read_mono env w = (Inr (e_mono env (w_monos w)), w\<lparr>w_monos := Suc (w_monos w)\<rparr>)"
  by (simp add: read_mono_def prog_simps)

lemma sink_event_run [prog_simps]:
  "sink_event env ev w = (case e_sink env (w_log w) ev of
     Some e \<Rightarrow> (Inl e, w) | None \<Rightarrow> (Inr (), w\<lparr>w_log := w_log w @ [ev]\<rparr>))"
  by (simp add: sink_event_def prog_simps split: option.splits)

lemma world_part_run [prog_simps]:
  "world_part m (w, b) = (case m w of (r, w') \<Rightarrow> (r, (w', b)))"
  by (simp add: world_part_def prog_simps)

lemma keeps_world_part [keeps_intros]: "keeps snd (world_part m)"
  by (simp add: world_part_def keeps_def prog_simps split: prod.splits)

lemma keeps_log_world_part [keeps_intros]:
  "keeps w_log m \<Longrightarrow> keeps (\<lambda>s. w_log (fst s)) (world_part m)"
  unfolding world_part_def by (rule keeps_zoom_part) auto

lemma keeps_world_part_through:
  "keeps f m \<Longrightarrow> keeps (\<lambda>s. f (fst s)) (world_part m)"
  unfolding world_part_def by (rule keeps_zoom_part) auto

lemma keeps_log_sources [keeps_intros]:
  "keeps w_log sequencer_next" "keeps w_log (new_uuid env)" "keeps w_log (read_clock env)"
  "keeps w_log (read_mono env)"
  by (simp_all add: keeps_def sequencer_next_def new_uuid_def read_clock_def read_mono_def prog_simps)

lemma keeps_seq_sources [keeps_intros]:
  "keeps w_sequence (new_uuid env)" "keeps w_sequence (read_clock env)"
  "keeps w_sequence (read_mono env)" "keeps w_sequence (sink_event env ev)"
  by (simp_all add: keeps_def sink_event_def new_uuid_def read_clock_def read_mono_def prog_simps
      split: option.splits)

lemma keeps_log_build_next: "keeps (\<lambda>s. w_log (fst s)) build_next"
  unfolding build_next_def by (intro keeps_intros)

lemma keeps_log_build: "keeps (\<lambda>s. w_log (fst s)) (build env a)"
  unfolding build_def Let_def
  by (intro keeps_intros keeps_log_build_next) (auto simp: keeps_def)

text \<open>What a successful \<open>build\<close> returns and leaves behind.\<close>

lemma build_next_run:
  "build_next (w, b) = (if bl_shared b
     then (Inr (w_sequence w + 1), (w\<lparr>w_sequence := w_sequence w + 1\<rparr>, b))
     else (Inr (bl_sequence b + 1), (w, b)))"
  by (simp add: build_next_def world_part_def sequencer_next_def prog_simps)

lemma build_Inr:
  assumes "build env a (w, b) = (Inr ev, (w', b'))"
  shows "\<exists>nx eid ts. ev = make_event (bl_context b) a nx eid ts
    \<and> nx = (if bl_shared b then w_sequence w + 1 else bl_sequence b + 1)
    \<and> bl_sequence b < nx \<and> b' = b\<lparr>bl_sequence := nx\<rparr>
    \<and> w_sequence w' = (if bl_shared b then w_sequence w + 1 else w_sequence w)
    \<and> w_log w' = w_log w \<and> validate_event env (event_row ev) = Inr ()"
  using assms unfolding build_def Let_def
  by (cases "opt_text (ea_event_id a)"; cases "ea_timestamp a")
    (auto simp: prog_simps build_next_run elim!: thenE_InrE bindE_InrE split: if_splits sum.splits)

lemma build_frame:
  assumes "build env a (w, b) = (r, (w', b'))"
  shows "w_sequence w \<le> w_sequence w' \<and> w_sequence w' \<le> w_sequence w + 1
    \<and> bl_shared b' = bl_shared b \<and> bl_context b' = bl_context b
    \<and> (\<not> bl_shared b \<longrightarrow> w_sequence w' = w_sequence w)
    \<and> (\<forall>e. r = Inl e \<longrightarrow> b' = b)"
  using assms unfolding build_def Let_def
  by (cases "opt_text (ea_event_id a)"; cases "ea_timestamp a")
    (auto simp: prog_simps build_next_run split: if_splits sum.splits)

lemma build_quiet:
  assumes "quiet_env env"
    and "bl_shared b \<Longrightarrow> bl_sequence b \<le> w_sequence w"
    and "(ea_attack_technique_id a = None) = (ea_attack_tactic a = None)"
    and "\<And>t. ea_timestamp a = Some t \<Longrightarrow> dt_aware t"
  shows "\<exists>ev s'. build env a (w, b) = (Inr ev, s')"
proof -
  have aware: "dt_aware (e_clock env n)" for n
    using assms(1) by (simp add: quiet_env_def)
  show ?thesis
    using assms(2-4) unfolding build_def Let_def
    by (cases "opt_text (ea_event_id a)"; cases "ea_timestamp a")
      (auto simp: prog_simps build_next_run format_timestamp_def aware
        validate_event_quiet [OF assms(1)])
qed

section \<open>Several producers over one sequencer\<close>

text \<open>
  The events of one run, in the order the sink accepted them, carry strictly increasing sequence
  numbers, none above the sequencer.
\<close>

definition run_log :: "string \<Rightarrow> world \<Rightarrow> event list" where
  "run_log rid w = filter (\<lambda>e. ev_run_id e = rid) (w_log w)"

definition log_ordered :: "string \<Rightarrow> world \<Rightarrow> bool" where
  "log_ordered rid w \<longleftrightarrow> sorted_wrt (<) (map ev_sequence (run_log rid w))
     \<and> (\<forall>e\<in>set (run_log rid w). ev_sequence e \<le> w_sequence w)"

lemma log_ordered_frame:
  assumes "log_ordered rid w" and "w_log w' = w_log w" and "w_sequence w \<le> w_sequence w'"
  shows "log_ordered rid w'"
  using assms by (auto simp: log_ordered_def run_log_def)

lemma log_ordered_extend:
  assumes "log_ordered rid w" and "w_log w' = w_log w @ [ev]"
    and "w_sequence w < ev_sequence ev" and "ev_sequence ev \<le> w_sequence w'"
  shows "log_ordered rid w'"
  using assms by (fastforce simp: log_ordered_def run_log_def sorted_wrt_snoc)

lemma build_and_sink_log:
  assumes "build_and_sink env a (w, b) = (r, (w', b'))"
  shows "(w_log w' = w_log w \<and> w_sequence w \<le> w_sequence w' \<and> (\<forall>ev. r \<noteq> Inr ev))
    \<or> (\<exists>ev. w_log w' = w_log w @ [ev] \<and> r = Inr ev
        \<and> w_sequence w' = (if bl_shared b then w_sequence w + 1 else w_sequence w)
        \<and> (bl_shared b \<longrightarrow> ev_sequence ev = w_sequence w')
        \<and> (\<exists>nx eid ts. ev = make_event (bl_context b) a nx eid ts)
        \<and> validate_event env (event_row ev) = Inr ())"
proof -
  obtain q v c where b: "build env a (w, b) = (q, (v, c))"
    by (metis prod.exhaust)
  have log: "w_log v = w_log w"
    using keeps_run [OF keeps_log_build b] by simp
  show ?thesis
  proof (cases q)
    case (Inl e)
    then show ?thesis
      using assms b log build_frame [OF b] by (auto simp: build_and_sink_def prog_simps)
  next
    case (Inr ev)
    show ?thesis
    proof (cases "e_sink env (w_log v) ev")
      case None
      then show ?thesis
        using assms b Inr log build_Inr [OF b [unfolded Inr]]
        by (auto simp: build_and_sink_def prog_simps make_event_def)
    next
      case (Some x)
      then show ?thesis
        using assms b Inr log build_frame [OF b] by (auto simp: build_and_sink_def prog_simps)
    qed
  qed
qed

lemma build_and_sink_builder:
  assumes "build_and_sink env a (w, b) = (r, (w', b'))"
  shows "bl_shared b' = bl_shared b \<and> bl_context b' = bl_context b"
  using assms build_frame [of env a w b]
  by (cases "build env a (w, b)")
    (auto simp: build_and_sink_def prog_simps split: sum.splits prod.splits option.splits)

lemma build_and_sink_ordered:
  assumes "bl_shared b" and "log_ordered rid w" and "build_and_sink env a (w, b) = (r, (w', b'))"
  shows "log_ordered rid w'"
  using build_and_sink_log [OF assms(3)] assms(1,2)
  by (elim disjE exE conjE) (auto intro: log_ordered_frame log_ordered_extend)

text \<open>
  Producers numbered by their position emit in any interleaving; a producer whose emission raises
  is skipped, as a caller that handles the exception would.
\<close>

fun produce_all :: "env \<Rightarrow> (nat \<times> event_args) list \<Rightarrow> world \<times> builder list \<Rightarrow> world \<times> builder list" where
  "produce_all env [] (w, bs) = (w, bs)"
| "produce_all env ((i, a) # jobs) (w, bs) =
     (if i < length bs
      then (let (w', b') = snd (build_and_sink env a (w, bs ! i))
            in produce_all env jobs (w', bs[i := b']))
      else produce_all env jobs (w, bs))"

lemma produce_all_ordered:
  assumes "list_all bl_shared bs" and "log_ordered rid w"
  shows "log_ordered rid (fst (produce_all env jobs (w, bs)))"
  using assms
proof (induction env jobs "(w, bs)" arbitrary: w bs rule: produce_all.induct)
  case (1 env w bs)
  then show ?case by simp
next
  case (2 env i a jobs w bs)
  show ?case
  proof (cases "i < length bs")
    case False
    then show ?thesis using 2 by simp
  next
    case True
    obtain r w' b' where run: "build_and_sink env a (w, bs ! i) = (r, (w', b'))"
      by (metis prod.exhaust)
    have shared: "bl_shared (bs ! i)"
      using 2(3) True by (simp add: list_all_length)
    have "log_ordered rid w'"
      using build_and_sink_ordered [OF shared 2(4) run] .
    moreover have "list_all bl_shared (bs[i := b'])"
      using 2(3) build_and_sink_builder [OF run] shared
      by (auto simp: list_all_iff dest!: set_update_subset_insert [THEN subsetD])
    ultimately show ?thesis
      using 2(1) [OF True] run True by simp
  qed
qed

end
