(* ===== verification/Actions.thy ===== *)
theory Actions
  imports Events
begin

text \<open>
  The safe-action contract of \<^verbatim>\<open>shared/actions.py\<close>: requests, results, the registry, and
  \<open>SafeActionAdapter\<close> with its admission checks, execution, audit, idempotency, fail-safe stop and
  rollback.

  A handler works on the module state \<open>'m\<close> it closes over in the source; here it is a program on
  \<open>'m\<close>. The state of an adapter call is the surroundings, the adapter's own fields and the module
  state. \<open>execute\<close> is split at the points where another thread can run (the adapter's lock is not
  held while a handler runs): \<open>begin_execution\<close>, \<open>run_pending\<close>, \<open>finish_pending\<close>. The controls
  handed to running handlers are objects shared with the \<open>_running\<close> table, so they live in the store
  \<open>ad_controls\<close> and are named by their index.
\<close>

section \<open>Records of the contract\<close>

definition ACTION_SCHEMA_VERSION :: string where "ACTION_SCHEMA_VERSION = ''1.0.0''"

record action_request =
  rq_schema_version :: string
  rq_request_id :: string
  rq_idempotency_key :: string
  rq_timestamp :: string
  rq_exercise_id :: string
  rq_run_id :: string
  rq_actor :: entity
  rq_action_id :: string
  rq_target :: entity
  rq_parameters :: row
  rq_dry_run :: bool
  rq_timeout_seconds :: int

definition request_row :: "action_request \<Rightarrow> row" where
  "request_row r =
    [(''schema_version'', VStr (rq_schema_version r)), (''record_type'', VStr ''request''),
     (''request_id'', VStr (rq_request_id r)),
     (''idempotency_key'', VStr (rq_idempotency_key r)), (''timestamp'', VStr (rq_timestamp r)),
     (''exercise_id'', VStr (rq_exercise_id r)), (''run_id'', VStr (rq_run_id r)),
     (''actor'', VDict (entity_row (rq_actor r))), (''action_id'', VStr (rq_action_id r)),
     (''target'', VDict (entity_row (rq_target r))), (''parameters'', VDict (rq_parameters r)),
     (''dry_run'', VBool (rq_dry_run r)), (''timeout_seconds'', VInt (rq_timeout_seconds r))]"

record rollback_info =
  rb_supported :: bool
  rb_required :: bool
  rb_attempted :: bool
  rb_succeeded :: bool
  rb_method :: "string option"
  rb_token :: "string option"

definition no_rollback :: rollback_info where
  "no_rollback = \<lparr>rb_supported = False, rb_required = False, rb_attempted = False,
     rb_succeeded = False, rb_method = None, rb_token = None\<rparr>"

definition rollback_row :: "rollback_info \<Rightarrow> row" where
  "rollback_row r =
    [(''supported'', VBool (rb_supported r)), (''required'', VBool (rb_required r)),
     (''attempted'', VBool (rb_attempted r)), (''succeeded'', VBool (rb_succeeded r))]
    @ opt_field ''method'' (rb_method r) @ opt_field ''token'' (rb_token r)"

record action_result =
  rs_schema_version :: string
  rs_request_id :: string
  rs_idempotency_key :: string
  rs_exercise_id :: string
  rs_run_id :: string
  rs_action_id :: string
  rs_target :: entity
  rs_status :: string
  rs_successful :: bool
  rs_started_at :: string
  rs_finished_at :: string
  rs_cached :: bool
  rs_effects :: "string list"
  rs_rollback :: rollback_info
  rs_error_code :: "string option"
  rs_message :: string

definition result_row :: "action_result \<Rightarrow> row" where
  "result_row r =
    [(''schema_version'', VStr (rs_schema_version r)), (''record_type'', VStr ''result''),
     (''request_id'', VStr (rs_request_id r)), (''idempotency_key'', VStr (rs_idempotency_key r)),
     (''exercise_id'', VStr (rs_exercise_id r)), (''run_id'', VStr (rs_run_id r)),
     (''action_id'', VStr (rs_action_id r)), (''target'', VDict (entity_row (rs_target r))),
     (''status'', VStr (rs_status r)), (''successful'', VBool (rs_successful r)),
     (''started_at'', VStr (rs_started_at r)), (''finished_at'', VStr (rs_finished_at r)),
     (''cached'', VBool (rs_cached r)), (''effects'', str_list (rs_effects r)),
     (''rollback'', VDict (rollback_row (rs_rollback r))),
     (''error_code'', opt_val (rs_error_code r)), (''message'', VStr (rs_message r))]"

text \<open>\<open>ActionValidator.validate\<close>.\<close>

definition validate_action :: "env \<Rightarrow> row \<Rightarrow> exc + unit" where
  "validate_action env record = (case map_of record ''schema_version'' of
     Some (VStr version) \<Rightarrow>
       if starts_with ''1.'' version
       then (let errors = sort_key fst (e_action_errors env (VDict record)) in
         if errors = [] then Inr ()
         else Inl (ActionValidationError (join ''; '' (map error_detail errors))))
       else Inl (ActionValidationError ''unsupported action schema major version'')
   | _ \<Rightarrow> Inl (ActionValidationError ''unsupported action schema major version''))"

text \<open>\<open>_timestamp\<close>.\<close>

definition action_timestamp :: "datetime \<Rightarrow> exc + string" where
  "action_timestamp t = (if dt_aware t then Inr (iso_millis (dt_us t))
     else Inl (ActionContractError ''action timestamps must be timezone-aware''))"

section \<open>Control, effects, definitions\<close>

record control =
  ct_deadline :: int
  ct_cancelled :: bool

text \<open>\<open>ExecutionControl.checkpoint\<close> at the monotonic time \<open>now\<close>.\<close>

definition checkpoint :: "control \<Rightarrow> int \<Rightarrow> exc + unit" where
  "checkpoint control now =
    (if ct_cancelled control then Inl (ActionCancelled ''action cancelled by fail-safe stop'')
     else if ct_deadline control < now then Inl (TimeoutError ''action deadline exceeded'')
     else Inr ())"

record action_effect =
  ef_effects :: "string list"
  ef_rollback_token :: "string option"
  ef_metadata :: row

definition action_effect :: "string list \<Rightarrow> string option \<Rightarrow> action_effect" where
  "action_effect effects token =
     \<lparr>ef_effects = effects, ef_rollback_token = token, ef_metadata = []\<rparr>"

text \<open>
  A handler gets the parameters, the target, its control, and the monotonic time its
  \<open>control.checkpoint()\<close> reads.
\<close>

type_synonym 'm handler = "row \<Rightarrow> entity \<Rightarrow> control \<Rightarrow> int \<Rightarrow> ('m, action_effect) prog"
type_synonym 'm rollback_handler = "string \<Rightarrow> control \<Rightarrow> int \<Rightarrow> ('m, string list) prog"

record 'm action_definition =
  df_action_id :: string
  df_phase :: string
  df_allowed_roles :: "string list"
  df_allowed_targets :: "string list"
  df_allowed_run_states :: "string list"
  df_max_timeout_seconds :: int
  df_expected_effects :: "string list"
  df_rollback_method :: string
  df_handler :: "'m handler"
  df_rollback_handler :: "'m rollback_handler"
  df_parameter_validator :: "(row \<Rightarrow> exc + unit) option"

text \<open>\<open>ActionDefinition.__post_init__\<close>.\<close>

definition check_definition :: "'m action_definition \<Rightarrow> exc + 'm action_definition" where
  "check_definition d =
    (if df_allowed_roles d = [] \<or> df_allowed_targets d = []
     then Inl (ActionContractError ''actions require explicit roles and targets'')
     else if df_expected_effects d = [] \<or> df_rollback_method d = []
     then Inl (ActionContractError ''actions require expected effects and rollback metadata'')
     else if df_max_timeout_seconds d < 1
     then Inl (ActionContractError ''action timeout must be positive'')
     else Inr d)"

type_synonym 'm registry = "'m action_definition dict"

definition register :: "'m action_definition \<Rightarrow> 'm registry \<Rightarrow> exc + 'm registry" where
  "register d reg =
    (if has_key reg (df_action_id d)
     then Inl (ActionContractError (''duplicate action registration: '' @ df_action_id d))
     else Inr (dset (df_action_id d) d reg))"

text \<open>A registration block: construct each definition, register it, stop at the first error.\<close>

fun register_all :: "'m action_definition list \<Rightarrow> 'm registry \<Rightarrow> exc + 'm registry" where
  "register_all [] reg = Inr reg"
| "register_all (d # ds) reg = (case check_definition d of Inl e \<Rightarrow> Inl e
     | Inr d' \<Rightarrow> (case register d' reg of Inl e \<Rightarrow> Inl e | Inr reg' \<Rightarrow> register_all ds reg'))"

section \<open>The adapter\<close>

type_synonym result_key = "string \<times> string"

record 'm adapter =
  ad_context :: event_context
  ad_registry :: "'m registry"
  ad_run_state :: "'m \<Rightarrow> string \<Rightarrow> string \<Rightarrow> string"
  ad_builder :: builder
  ad_results :: "(result_key \<times> action_result) list"
  ad_fingerprints :: "(result_key \<times> string) list"
  ad_executions :: "('m action_definition \<times> action_request \<times> action_effect) dict"
  ad_running :: "(string \<times> nat) dict"
  ad_controls :: "control list"
  ad_stopped_runs :: "string list"

record 'm astate =
  as_world :: world
  as_adapter :: "'m adapter"
  as_mod :: 'm

definition new_adapter :: "event_context \<Rightarrow> 'm registry \<Rightarrow> ('m \<Rightarrow> string \<Rightarrow> string \<Rightarrow> string) \<Rightarrow> bool
    \<Rightarrow> 'm adapter" where
  "new_adapter context registry run_state shared =
    \<lparr>ad_context = context, ad_registry = registry, ad_run_state = run_state,
     ad_builder = fresh_builder context shared, ad_results = [], ad_fingerprints = [],
     ad_executions = [], ad_running = [], ad_controls = [], ad_stopped_runs = []\<rparr>"

definition on_world :: "(world, 'a) prog \<Rightarrow> ('m astate, 'a) prog" where
  "on_world m = zoomE as_world (\<lambda>w s. s\<lparr>as_world := w\<rparr>) m"

definition on_mod :: "('m, 'a) prog \<Rightarrow> ('m astate, 'a) prog" where
  "on_mod m = zoomE as_mod (\<lambda>x s. s\<lparr>as_mod := x\<rparr>) m"

definition upd_adapter :: "('m adapter \<Rightarrow> 'm adapter) \<Rightarrow> ('m astate, unit) prog" where
  "upd_adapter f = updE (\<lambda>s. s\<lparr>as_adapter := f (as_adapter s)\<rparr>)"

definition on_builder :: "(world \<times> builder, 'a) prog \<Rightarrow> ('m astate, 'a) prog" where
  "on_builder m = zoomE (\<lambda>s. (as_world s, ad_builder (as_adapter s)))
     (\<lambda>(w, b) s. s\<lparr>as_world := w, as_adapter := (as_adapter s)\<lparr>ad_builder := b\<rparr>\<rparr>) m"

text \<open>The fields of a request (or of the record a fail-safe stop makes up) that an audit event uses.\<close>

record audit_source =
  au_request_id :: string
  au_actor :: entity
  au_action_id :: string
  au_target :: entity
  au_dry_run :: bool

definition audit_of :: "action_request \<Rightarrow> audit_source" where
  "audit_of r = \<lparr>au_request_id = rq_request_id r, au_actor = rq_actor r,
     au_action_id = rq_action_id r, au_target = rq_target r, au_dry_run = rq_dry_run r\<rparr>"

text \<open>\<open>_emit\<close>.\<close>

definition audit_args :: "audit_source \<Rightarrow> string \<Rightarrow> string \<Rightarrow> string \<Rightarrow> string \<Rightarrow> bool \<Rightarrow> row
    \<Rightarrow> event_args" where
  "audit_args src event_type outcome message phase within_allowlist data =
     (event_args event_type phase (au_actor src)
        (if au_action_id src = [] then ''action.unknown'' else au_action_id src)
        (Some (au_target src)) outcome message)
     \<lparr>ea_visibility := ''facilitator'', ea_dry_run := au_dry_run src,
      ea_within_allowlist := within_allowlist,
      ea_safety_controls := [''safe-action-adapter'', ''role-policy'', ''target-allowlist''],
      ea_correlation_ids := (if au_request_id src = [] then [] else [au_request_id src]),
      ea_data := data\<rparr>"

definition emit :: "env \<Rightarrow> audit_source \<Rightarrow> string \<Rightarrow> string \<Rightarrow> string \<Rightarrow> string \<Rightarrow> bool \<Rightarrow> row
    \<Rightarrow> ('m astate, unit) prog" where
  "emit env src event_type outcome message phase within_allowlist data =
     thenE (on_builder (build_and_sink env
       (audit_args src event_type outcome message phase within_allowlist data))) (ret ())"

text \<open>\<open>_fingerprint\<close>.\<close>

definition fingerprint :: "env \<Rightarrow> action_request \<Rightarrow> string" where
  "fingerprint env r = e_sha256 env (json_dumps (VDict
    [(''exercise_id'', VStr (rq_exercise_id r)), (''run_id'', VStr (rq_run_id r)),
     (''actor'', VDict (entity_row (rq_actor r))), (''action_id'', VStr (rq_action_id r)),
     (''target'', VDict (entity_row (rq_target r))), (''parameters'', VDict (rq_parameters r)),
     (''dry_run'', VBool (rq_dry_run r)), (''timeout_seconds'', VInt (rq_timeout_seconds r))]))"

text \<open>\<open>_result\<close>: the finishing time is read while the record is built, then it is validated.\<close>

definition make_result :: "env \<Rightarrow> action_request \<Rightarrow> string \<Rightarrow> bool \<Rightarrow> datetime \<Rightarrow> string list
    \<Rightarrow> rollback_info \<Rightarrow> string option \<Rightarrow> string \<Rightarrow> ('m astate, action_result) prog" where
  "make_result env r status successful started effects rollback error_code message =
    bindE (liftE (action_timestamp started)) (\<lambda>started_at.
    bindE (on_world (read_clock env)) (\<lambda>now.
    bindE (liftE (action_timestamp now)) (\<lambda>finished_at.
    let result = \<lparr>rs_schema_version = ACTION_SCHEMA_VERSION, rs_request_id = rq_request_id r,
          rs_idempotency_key = rq_idempotency_key r, rs_exercise_id = rq_exercise_id r,
          rs_run_id = rq_run_id r, rs_action_id = rq_action_id r, rs_target = rq_target r,
          rs_status = status, rs_successful = successful, rs_started_at = started_at,
          rs_finished_at = finished_at, rs_cached = False, rs_effects = effects,
          rs_rollback = rollback, rs_error_code = error_code, rs_message = message\<rparr>
    in thenE (liftE (validate_action env (result_row result))) (ret result))))"

text \<open>\<open>_deny\<close>.\<close>

definition deny :: "env \<Rightarrow> action_request \<Rightarrow> datetime \<Rightarrow> string \<Rightarrow> string \<Rightarrow> bool
    \<Rightarrow> ('m astate, action_result) prog" where
  "deny env r started code message within_allowlist =
    thenE (emit env (audit_of r) ''action.authorization.denied'' ''denied'' message ''control''
             within_allowlist [(''error_code'', VStr code)])
      (make_result env r ''denied'' False started [] no_rollback (Some code) message)"

section \<open>Admission\<close>

definition request_key :: "action_request \<Rightarrow> result_key" where
  "request_key r = (rq_run_id r, rq_idempotency_key r)"

definition target_key :: "action_request \<Rightarrow> string" where
  "target_key r = en_type (rq_target r) @ '':'' @ en_id (rq_target r)"

text \<open>
  What \<open>execute\<close> decides from the request, the adapter and the run state, between the audit of the
  request and the audit of its authorization: the checks in the code's order, the first that fails
  wins. Nothing is written while they are made.
\<close>

datatype 'm verdict =
    Fault exc
  | Deny string string bool
  | Replay action_result
  | Allow "'m action_definition"

definition judge_policy :: "'m adapter \<Rightarrow> 'm \<Rightarrow> action_request \<Rightarrow> 'm action_definition
    \<Rightarrow> 'm verdict" where
  "judge_policy ad m r d =
    (if rq_run_id r \<in> set (ad_stopped_runs ad)
     then Deny ''run_stopped'' ''Run is under fail-safe stop'' True
     else if ad_run_state ad m (rq_exercise_id r) (rq_run_id r) \<notin> set (df_allowed_run_states d)
     then Deny ''invalid_run_state'' ''Action is not allowed in the current run state'' True
     else case en_role (rq_actor r) of None \<Rightarrow> Fault (KeyError ''role'')
     | Some role \<Rightarrow>
       if role \<notin> set (df_allowed_roles d)
       then Deny ''role_denied'' ''Actor role is not authorized'' True
       else if target_key r \<notin> set (df_allowed_targets d)
       then Deny ''target_denied'' ''Target is outside the action allowlist'' False
       else if df_max_timeout_seconds d < rq_timeout_seconds r
       then Deny ''timeout_exceeds_policy'' ''Requested timeout exceeds action policy'' True
       else (case df_parameter_validator d of None \<Rightarrow> Allow d
         | Some validator \<Rightarrow> (case validator (rq_parameters r) of
             Inr _ \<Rightarrow> Allow d
           | Inl e \<Rightarrow> if is_value_error e \<or> exc_name e = ''TypeError''
               then Deny ''invalid_parameters'' (exc_text e) True else Fault e)))"

definition judge :: "env \<Rightarrow> 'm adapter \<Rightarrow> 'm \<Rightarrow> action_request \<Rightarrow> 'm verdict" where
  "judge env ad m r =
    (if rq_exercise_id r \<noteq> cx_exercise_id (ad_context ad) \<or> rq_run_id r \<noteq> cx_run_id (ad_context ad)
     then Deny ''correlation_mismatch'' ''Request is for another exercise run'' True
     else case map_of (ad_results ad) (request_key r) of
       Some result \<Rightarrow> (case map_of (ad_fingerprints ad) (request_key r) of
           None \<Rightarrow> Fault (KeyError (rq_idempotency_key r))
         | Some stored \<Rightarrow>
             if stored \<noteq> fingerprint env r
             then Deny ''idempotency_conflict''
               ''Idempotency key was reused for a different action'' True
             else Replay (result\<lparr>rs_cached := True\<rparr>))
     | None \<Rightarrow> (case map_of (ad_registry ad) (rq_action_id r) of
           None \<Rightarrow> Deny ''unregistered_action'' ''Action is not registered'' True
         | Some d \<Rightarrow> judge_policy ad m r d))"

section \<open>Execution\<close>

definition store_result :: "env \<Rightarrow> action_request \<Rightarrow> action_result \<Rightarrow> ('m astate, unit) prog" where
  "store_result env r result = upd_adapter (\<lambda>ad. ad
     \<lparr>ad_fingerprints := AList.update (request_key r) (fingerprint env r) (ad_fingerprints ad),
      ad_results := AList.update (request_key r) result (ad_results ad)\<rparr>)"

definition supported_rollback :: "'m action_definition \<Rightarrow> string option \<Rightarrow> rollback_info" where
  "supported_rollback d token = \<lparr>rb_supported = True, rb_required = False, rb_attempted = False,
     rb_succeeded = False, rb_method = Some (df_rollback_method d), rb_token = opt_text token\<rparr>"

text \<open>The branch of a granted request that asked for a dry run: the handler is not invoked.\<close>

definition dry_run_result :: "env \<Rightarrow> action_request \<Rightarrow> datetime \<Rightarrow> 'm action_definition
    \<Rightarrow> ('m astate, action_result) prog" where
  "dry_run_result env r started d =
    bindE (make_result env r ''dry_run'' True started (df_expected_effects d)
      (supported_rollback d None) None ''Dry run passed; handler was not invoked'') (\<lambda>result.
    thenE (store_result env r result)
   (thenE (emit env (audit_of r) ''action.execution.completed'' ''success'' (rs_message result)
       (df_phase d) True
       [(''status'', VStr ''dry_run''), (''effects'', str_list (rs_effects result))])
     (ret result)))"

record 'm pending =
  pd_request :: action_request
  pd_started :: datetime
  pd_definition :: "'m action_definition"
  pd_control :: nat

text \<open>
  A granted request that is to run: a control with the requested deadline is created and entered
  in \<open>_running\<close>, then the start is audited.
\<close>

definition start_pending :: "env \<Rightarrow> action_request \<Rightarrow> datetime \<Rightarrow> 'm action_definition
    \<Rightarrow> ('m astate, 'm pending) prog" where
  "start_pending env r started d =
    bindE (on_world (read_mono env)) (\<lambda>now.
    bindE (getE (\<lambda>s. length (ad_controls (as_adapter s)))) (\<lambda>c.
    thenE (upd_adapter (\<lambda>ad. ad
      \<lparr>ad_controls := ad_controls ad
         @ [\<lparr>ct_deadline = now + rq_timeout_seconds r, ct_cancelled = False\<rparr>],
       ad_running := dset (rq_request_id r) (rq_run_id r, c) (ad_running ad)\<rparr>))
   (thenE (emit env (audit_of r) ''action.execution.started'' ''pending''
       ''Action execution started'' (df_phase d) True [])
     (ret \<lparr>pd_request = r, pd_started = started, pd_definition = d, pd_control = c\<rparr>))))"

definition redact_request :: "action_request \<Rightarrow> action_request" where
  "redact_request r = r\<lparr>rq_parameters := redact_row (rq_parameters r)\<rparr>"

text \<open>
  \<open>execute\<close> up to the call of the handler. \<open>screen_request\<close> redacts and validates the request, audits
  it and decides; \<open>answer_verdict\<close> returns the answer, or the pending execution.
\<close>

definition screen_request :: "env \<Rightarrow> action_request
    \<Rightarrow> ('m astate, action_request \<times> datetime \<times> 'm verdict) prog" where
  "screen_request env raw =
    (let r = redact_request raw in
     thenE (liftE (validate_action env (request_row r)))
    (bindE (on_world (read_clock env)) (\<lambda>started.
     thenE (emit env (audit_of r) ''action.requested'' ''pending'' ''Action requested'' ''control''
              True [])
    (bindE (getE (\<lambda>s. judge env (as_adapter s) (as_mod s) r)) (\<lambda>verdict.
       ret (r, started, verdict))))))"

definition answer_verdict :: "env \<Rightarrow> action_request \<times> datetime \<times> 'm verdict
    \<Rightarrow> ('m astate, action_result + 'm pending) prog" where
  "answer_verdict env screened = (case screened of (r, started, verdict) \<Rightarrow>
    (case verdict of
       Fault e \<Rightarrow> raise e
     | Deny code message within_allowlist \<Rightarrow>
         bindE (deny env r started code message within_allowlist) (\<lambda>result. ret (Inl result))
     | Replay cached \<Rightarrow>
         thenE (liftE (validate_action env (result_row cached)))
        (thenE (emit env (audit_of r) ''action.result.replayed'' ''success''
                  ''Returned cached action result'' ''control'' True [])
          (ret (Inl cached)))
     | Allow d \<Rightarrow>
         thenE (emit env (audit_of r) ''action.authorization.granted'' ''success''
                  ''Action authorized'' (df_phase d) True [])
        (if rq_dry_run r
         then bindE (dry_run_result env r started d) (\<lambda>result. ret (Inl result))
         else bindE (start_pending env r started d) (\<lambda>pd. ret (Inr pd)))))"

definition begin_execution :: "env \<Rightarrow> action_request \<Rightarrow> ('m astate, action_result + 'm pending) prog" where
  "begin_execution env raw = bindE (screen_request env raw) (answer_verdict env)"

definition attemptE :: "('s, 'a) prog \<Rightarrow> ('s, exc + 'a) prog" where
  "attemptE m = (\<lambda>s. case m s of (r, s') \<Rightarrow> (Inr r, s'))"

definition current_control :: "nat \<Rightarrow> 'm astate \<Rightarrow> control" where
  "current_control c s = ad_controls (as_adapter s) ! c"

text \<open>The handler, then \<open>control.checkpoint(self.monotonic)\<close>.\<close>

definition call_handler :: "env \<Rightarrow> 'm pending \<Rightarrow> ('m astate, action_effect) prog" where
  "call_handler env pd =
    bindE (on_world (read_mono env)) (\<lambda>now.
    bindE (getE (current_control (pd_control pd))) (\<lambda>control.
      on_mod (df_handler (pd_definition pd) (rq_parameters (pd_request pd))
        (rq_target (pd_request pd)) control now)))"

definition run_handler :: "env \<Rightarrow> 'm pending \<Rightarrow> ('m astate, action_effect) prog" where
  "run_handler env pd =
    bindE (call_handler env pd) (\<lambda>effect.
    bindE (getE (current_control (pd_control pd))) (\<lambda>control.
    bindE (if ct_cancelled control then ret 0 else on_world (read_mono env)) (\<lambda>now.
    thenE (liftE (checkpoint control now)) (ret effect))))"

text \<open>The \<open>except\<close> clauses: status, error code and message of a failed execution.\<close>

fun failure_of :: "exc \<Rightarrow> string \<times> string \<times> string" where
  "failure_of (ActionCancelled m) = (''cancelled'', ''cancelled'', m)"
| "failure_of (TimeoutError m) = (''timed_out'', ''timed_out'', m)"
| "failure_of (ActionExecutionError code m) = (''failed'', code, m)"
| "failure_of e = (''failed'', ''handler_error'', ''Handler failed: '' @ exc_name e)"

definition record_execution :: "action_request \<Rightarrow> 'm action_definition \<Rightarrow> action_effect
    \<Rightarrow> ('m astate, unit) prog" where
  "record_execution r d effect = upd_adapter (\<lambda>ad. ad
     \<lparr>ad_executions := dset (rq_request_id r) (d, r, effect) (ad_executions ad)\<rparr>)"

definition outcome_result :: "env \<Rightarrow> 'm pending \<Rightarrow> exc + action_effect
    \<Rightarrow> ('m astate, action_result \<times> row) prog" where
  "outcome_result env pd outcome =
    (let r = pd_request pd; d = pd_definition pd in
     case outcome of
       Inl e \<Rightarrow> (case failure_of e of (status, code, message) \<Rightarrow>
         bindE (make_result env r status False (pd_started pd) [] no_rollback (Some code) message)
           (\<lambda>result. ret (result, [])))
     | Inr effect \<Rightarrow>
         bindE (make_result env r ''executed'' True (pd_started pd) (ef_effects effect)
             (supported_rollback d (ef_rollback_token effect)) None
             ''Action executed successfully'') (\<lambda>result.
         thenE (record_execution r d effect) (ret (result, ef_metadata effect))))"

text \<open>The \<open>try\<close> statement, whose \<open>finally\<close> takes the request out of \<open>_running\<close>.\<close>

definition drop_running :: "string \<Rightarrow> 'm astate \<Rightarrow> 'm astate" where
  "drop_running rid s = s\<lparr>as_adapter := (as_adapter s)
     \<lparr>ad_running := dpop rid (ad_running (as_adapter s))\<rparr>\<rparr>"

definition run_pending :: "env \<Rightarrow> 'm pending \<Rightarrow> ('m astate, action_result \<times> row) prog" where
  "run_pending env pd =
    finallyE (bindE (attemptE (run_handler env pd)) (outcome_result env pd))
      (drop_running (rq_request_id (pd_request pd)))"

definition finish_pending :: "env \<Rightarrow> 'm pending \<Rightarrow> action_result \<times> row
    \<Rightarrow> ('m astate, action_result) prog" where
  "finish_pending env pd outcome =
    (case outcome of (result, metadata) \<Rightarrow>
     thenE (store_result env (pd_request pd) result)
    (thenE (emit env (audit_of (pd_request pd)) ''action.execution.completed''
        (if rs_successful result then ''success'' else ''failure'') (rs_message result)
        (df_phase (pd_definition pd)) True
        ([(''status'', VStr (rs_status result)), (''effects'', str_list (rs_effects result))]
         @ (if metadata = [] then [] else [(''metadata'', VDict metadata)])))
      (ret result)))"

definition finish_execution :: "env \<Rightarrow> action_result + 'm pending \<Rightarrow> ('m astate, action_result) prog" where
  "finish_execution env begun = (case begun of
     Inl result \<Rightarrow> ret result
   | Inr pd \<Rightarrow> bindE (run_pending env pd) (finish_pending env pd))"

definition execute :: "env \<Rightarrow> action_request \<Rightarrow> ('m astate, action_result) prog" where
  "execute env raw = bindE (begin_execution env raw) (finish_execution env)"

section \<open>Fail-safe stop and rollback\<close>

definition CONTROL_ROLES :: "string list" where
  "CONTROL_ROLES = [''facilitator'', ''technical_operator'']"

definition role_in :: "entity \<Rightarrow> string list \<Rightarrow> bool" where
  "role_in e roles \<longleftrightarrow> (case en_role e of None \<Rightarrow> False | Some role \<Rightarrow> role \<in> set roles)"

definition active_controls :: "string \<Rightarrow> 'm adapter \<Rightarrow> nat list" where
  "active_controls run_id ad =
     map (\<lambda>(_, _, c). c) (filter (\<lambda>(_, active_run, _). active_run = run_id) (ad_running ad))"

definition cancel_controls :: "nat list \<Rightarrow> control list \<Rightarrow> control list" where
  "cancel_controls cs controls =
     map (\<lambda>(i, ctl). if i \<in> set cs then ctl\<lparr>ct_cancelled := True\<rparr> else ctl)
       (enumerate 0 controls)"

definition stop_run :: "string \<Rightarrow> 'm adapter \<Rightarrow> 'm adapter" where
  "stop_run run_id ad = ad
     \<lparr>ad_stopped_runs := List.insert run_id (ad_stopped_runs ad),
      ad_controls := cancel_controls (active_controls run_id ad) (ad_controls ad)\<rparr>"

definition activate_fail_safe :: "env \<Rightarrow> string \<Rightarrow> entity \<Rightarrow> string \<Rightarrow> ('m astate, nat) prog" where
  "activate_fail_safe env run_id operator reason =
    thenE (requireE (role_in operator CONTROL_ROLES)
      (ActionContractError ''fail-safe stop requires an exercise-control role''))
   (thenE (requireE (strip reason \<noteq> [])
      (ActionContractError ''fail-safe stop requires a reason''))
   (bindE (on_world (new_uuid env)) (\<lambda>request_id.
    bindE (getE (\<lambda>s. length (active_controls run_id (as_adapter s)))) (\<lambda>n.
    thenE (upd_adapter (stop_run run_id))
   (thenE (emit env \<lparr>au_request_id = request_id, au_actor = operator,
        au_action_id = ''control.fail_safe.activate'',
        au_target = entity ''exercise_run'' run_id None None, au_dry_run = False\<rparr>
        ''action.fail_safe.activated'' ''success'' ''Fail-safe stop activated'' ''control'' True
        [(''reason'', VStr reason), (''cancelled_actions'', VInt (int n))])
     (ret n))))))"

definition rollback_execution :: "env \<Rightarrow> string \<Rightarrow> entity \<Rightarrow> ('m astate, string list) prog" where
  "rollback_execution env request_id operator =
    bindE (getE (\<lambda>s. map_of (ad_executions (as_adapter s)) request_id)) (\<lambda>execution.
    case execution of
      None \<Rightarrow> raise (ActionContractError ''no rollback-capable execution found'')
    | Some (d, r, effect) \<Rightarrow>
      thenE (requireE (role_in operator CONTROL_ROLES)
        (ActionContractError ''rollback requires an exercise-control role''))
     (case opt_text (ef_rollback_token effect) of
        None \<Rightarrow> raise (ActionContractError ''execution did not return a rollback token'')
      | Some token \<Rightarrow>
        bindE (on_world (read_mono env)) (\<lambda>now.
        let control = \<lparr>ct_deadline = now + df_max_timeout_seconds d, ct_cancelled = False\<rparr> in
        bindE (on_world (read_mono env)) (\<lambda>t.
        bindE (on_mod (df_rollback_handler d token control t)) (\<lambda>changes.
        bindE (on_world (read_mono env)) (\<lambda>t'.
        thenE (liftE (checkpoint control t'))
       (thenE (emit env ((audit_of r)\<lparr>au_actor := operator\<rparr>) ''action.rollback.completed''
            ''success'' ''Action rollback completed'' (df_phase d) True
            [(''effects'', VTuple (map VStr changes)),
             (''method'', VStr (df_rollback_method d))])
         (ret changes))))))))"

text \<open>\<open>make_action_request\<close>; an empty \<open>request_id\<close> counts as none.\<close>

definition make_action_request :: "env \<Rightarrow> string \<Rightarrow> string \<Rightarrow> entity \<Rightarrow> string \<Rightarrow> entity \<Rightarrow> string
    \<Rightarrow> row \<Rightarrow> bool \<Rightarrow> int \<Rightarrow> string option \<Rightarrow> (world, action_request) prog" where
  "make_action_request env exercise_id run_id actor action_id target idempotency_key parameters
     dry_run timeout_seconds request_id =
    bindE (case opt_text request_id of Some i \<Rightarrow> ret i | None \<Rightarrow> new_uuid env) (\<lambda>rid.
    bindE (read_clock env) (\<lambda>now.
    bindE (liftE (action_timestamp now)) (\<lambda>timestamp.
    let r = \<lparr>rq_schema_version = ACTION_SCHEMA_VERSION, rq_request_id = rid,
          rq_idempotency_key = idempotency_key, rq_timestamp = timestamp,
          rq_exercise_id = exercise_id, rq_run_id = run_id, rq_actor = actor,
          rq_action_id = action_id, rq_target = target,
          rq_parameters = redact_row parameters, rq_dry_run = dry_run,
          rq_timeout_seconds = timeout_seconds\<rparr>
    in thenE (liftE (validate_action env (request_row r))) (ret r))))"

section \<open>What each part leaves alone\<close>

text \<open>
  The decisions depend on the adapter without its event builder. \<open>still\<close> is that part of the state
  together with the module state: emitting events does not touch it.
\<close>

definition policy_part :: "'m adapter \<Rightarrow> 'm adapter" where
  "policy_part ad = ad\<lparr>ad_builder := fresh_builder (ad_context ad) False\<rparr>"

definition still :: "'m astate \<Rightarrow> 'm adapter \<times> 'm" where
  "still s = (policy_part (as_adapter s), as_mod s)"

lemma policy_part_sel [simp]:
  "ad_context (policy_part ad) = ad_context ad" "ad_registry (policy_part ad) = ad_registry ad"
  "ad_run_state (policy_part ad) = ad_run_state ad" "ad_results (policy_part ad) = ad_results ad"
  "ad_fingerprints (policy_part ad) = ad_fingerprints ad"
  "ad_executions (policy_part ad) = ad_executions ad" "ad_running (policy_part ad) = ad_running ad"
  "ad_controls (policy_part ad) = ad_controls ad"
  "ad_stopped_runs (policy_part ad) = ad_stopped_runs ad"
  by (simp_all add: policy_part_def)

lemma still_eq: "still s' = still s \<Longrightarrow>
    as_mod s' = as_mod s \<and> ad_results (as_adapter s') = ad_results (as_adapter s)
    \<and> ad_fingerprints (as_adapter s') = ad_fingerprints (as_adapter s)
    \<and> ad_executions (as_adapter s') = ad_executions (as_adapter s)
    \<and> ad_running (as_adapter s') = ad_running (as_adapter s)
    \<and> ad_controls (as_adapter s') = ad_controls (as_adapter s)
    \<and> ad_stopped_runs (as_adapter s') = ad_stopped_runs (as_adapter s)
    \<and> ad_registry (as_adapter s') = ad_registry (as_adapter s)
    \<and> ad_context (as_adapter s') = ad_context (as_adapter s)
    \<and> ad_run_state (as_adapter s') = ad_run_state (as_adapter s)"
  unfolding still_def by (metis policy_part_sel prod.inject)

lemma judge_policy_part [simp]: "judge env (policy_part ad) m r = judge env ad m r"
  unfolding judge_def judge_policy_def policy_part_sel ..

lemma judge_still: "still s' = still s \<Longrightarrow>
  judge env (as_adapter s') (as_mod s') r = judge env (as_adapter s) (as_mod s) r"
  by (metis judge_policy_part prod.inject still_def)

lemma keeps_still_world [keeps_intros]: "keeps still (on_world m)"
  unfolding on_world_def by (rule keeps_zoomE) (simp add: still_def)

lemma keeps_still_builder [keeps_intros]: "keeps still (on_builder m)"
  unfolding on_builder_def by (rule keeps_zoomE) (auto simp: still_def policy_part_def)

lemma keeps_still_emit [keeps_intros]: "keeps still (emit env src ty out msg ph w data)"
  unfolding emit_def by (intro keeps_intros)

lemma keeps_still_result [keeps_intros]: "keeps still (make_result env r st ok t eff rb code msg)"
  unfolding make_result_def Let_def by (intro keeps_intros)

lemma keeps_still_deny [keeps_intros]: "keeps still (deny env r t code msg w)"
  unfolding deny_def by (intro keeps_intros)

lemma keeps_still_screen [keeps_intros]: "keeps still (screen_request env raw)"
  unfolding screen_request_def Let_def by (intro keeps_intros)

lemma keeps_from_still: "keeps still m \<Longrightarrow> (\<And>s s'. still s' = still s \<Longrightarrow> f s' = f s) \<Longrightarrow> keeps f m"
  unfolding keeps_def by blast

lemma keeps_mod_still: "keeps still m \<Longrightarrow> keeps as_mod m"
  by (erule keeps_from_still) (simp add: still_def)

lemma keeps_mod_upd [keeps_intros]: "keeps as_mod (upd_adapter f)"
  by (simp add: keeps_def upd_adapter_def)

lemmas keeps_mod [keeps_intros] =
  keeps_mod_still [OF keeps_still_world] keeps_mod_still [OF keeps_still_builder]
  keeps_mod_still [OF keeps_still_emit] keeps_mod_still [OF keeps_still_result]
  keeps_mod_still [OF keeps_still_deny] keeps_mod_still [OF keeps_still_screen]

lemma keeps_mod_store [keeps_intros]: "keeps as_mod (store_result env r result)"
  unfolding store_result_def by (intro keeps_intros)

lemma keeps_mod_dry_run [keeps_intros]: "keeps as_mod (dry_run_result env r t d)"
  unfolding dry_run_result_def by (intro keeps_intros)

lemma keeps_mod_start [keeps_intros]: "keeps as_mod (start_pending env r t d)"
  unfolding start_pending_def by (intro keeps_intros)

lemma keeps_mod_answer [keeps_intros]: "keeps as_mod (answer_verdict env v)"
  unfolding answer_verdict_def
  by (cases v; rename_tac r t verdict; case_tac verdict) (auto intro!: keeps_intros)

lemma keeps_mod_begin [keeps_intros]: "keeps as_mod (begin_execution env raw)"
  unfolding begin_execution_def by (intro keeps_intros)

lemma keeps_mod_outcome [keeps_intros]: "keeps as_mod (outcome_result env pd outcome)"
  unfolding outcome_result_def Let_def record_execution_def
  by (cases outcome) (auto intro!: keeps_intros split: prod.splits)

lemma keeps_mod_finish [keeps_intros]: "keeps as_mod (finish_pending env pd outcome)"
  unfolding finish_pending_def by (cases outcome) (auto intro!: keeps_intros)

section \<open>Admission\<close>

text \<open>The verdict \<open>Allow\<close> is exactly the conjunction of the checks.\<close>

lemma judge_policy_Allow_iff:
  "judge_policy ad m r d = Allow d' \<longleftrightarrow> d' = d
     \<and> rq_run_id r \<notin> set (ad_stopped_runs ad)
     \<and> ad_run_state ad m (rq_exercise_id r) (rq_run_id r) \<in> set (df_allowed_run_states d)
     \<and> role_in (rq_actor r) (df_allowed_roles d)
     \<and> target_key r \<in> set (df_allowed_targets d)
     \<and> rq_timeout_seconds r \<le> df_max_timeout_seconds d
     \<and> (\<forall>v. df_parameter_validator d = Some v \<longrightarrow> v (rq_parameters r) = Inr ())"
  unfolding judge_policy_def role_in_def
  by (simp split: option.split sum.split) (auto simp: not_less)

lemma judge_Allow_iff:
  "judge env ad m r = Allow d \<longleftrightarrow>
     rq_exercise_id r = cx_exercise_id (ad_context ad) \<and> rq_run_id r = cx_run_id (ad_context ad)
     \<and> map_of (ad_results ad) (request_key r) = None
     \<and> map_of (ad_registry ad) (rq_action_id r) = Some d
     \<and> rq_run_id r \<notin> set (ad_stopped_runs ad)
     \<and> ad_run_state ad m (rq_exercise_id r) (rq_run_id r) \<in> set (df_allowed_run_states d)
     \<and> role_in (rq_actor r) (df_allowed_roles d)
     \<and> target_key r \<in> set (df_allowed_targets d)
     \<and> rq_timeout_seconds r \<le> df_max_timeout_seconds d
     \<and> (\<forall>v. df_parameter_validator d = Some v \<longrightarrow> v (rq_parameters r) = Inr ())"
  by (auto simp: judge_def judge_policy_Allow_iff split: option.split)

text \<open>A pending execution comes from a request that was admitted and is not a dry run.\<close>

lemma screen_request_Inr:
  assumes "screen_request env raw s = (Inr (r, t, v), s')"
  shows "r = redact_request raw \<and> still s' = still s \<and> v = judge env (as_adapter s) (as_mod s) r
    \<and> validate_action env (request_row r) = Inr ()"
proof -
  have st: "still s' = still s"
    using keeps_run [OF keeps_still_screen assms] .
  have "r = redact_request raw \<and> v = judge env (as_adapter s') (as_mod s') r
    \<and> validate_action env (request_row r) = Inr ()"
    using assms unfolding screen_request_def Let_def
    by (elim thenE_InrE bindE_InrE) simp
  then show ?thesis using st judge_still [OF st] by metis
qed

lemma start_pending_Inr:
  assumes "start_pending env r t d s = (Inr pd, s')"
  shows "pd = \<lparr>pd_request = r, pd_started = t, pd_definition = d,
      pd_control = length (ad_controls (as_adapter s))\<rparr>
    \<and> (\<exists>now s2. still s2 = still s \<and> still s' = still (s2\<lparr>as_adapter := (as_adapter s2)
        \<lparr>ad_controls := ad_controls (as_adapter s)
           @ [\<lparr>ct_deadline = now + rq_timeout_seconds r, ct_cancelled = False\<rparr>],
         ad_running := dset (rq_request_id r)
           (rq_run_id r, length (ad_controls (as_adapter s))) (ad_running (as_adapter s))\<rparr>\<rparr>))"
proof -
  obtain now s2 where m: "on_world (read_mono env) s = (Inr now, s2)"
    and rest: "bindE (getE (\<lambda>s. length (ad_controls (as_adapter s)))) (\<lambda>c.
      thenE (upd_adapter (\<lambda>ad. ad\<lparr>ad_controls := ad_controls ad
           @ [\<lparr>ct_deadline = now + rq_timeout_seconds r, ct_cancelled = False\<rparr>],
         ad_running := dset (rq_request_id r) (rq_run_id r, c) (ad_running ad)\<rparr>))
     (thenE (emit env (audit_of r) ''action.execution.started'' ''pending''
         ''Action execution started'' (df_phase d) True [])
       (ret \<lparr>pd_request = r, pd_started = t, pd_definition = d, pd_control = c\<rparr>))) s2
      = (Inr pd, s')"
    using assms unfolding start_pending_def by (rule bindE_InrE)
  have e: "still s2 = still s" using keeps_run [OF keeps_still_world m] .
  have "pd = \<lparr>pd_request = r, pd_started = t, pd_definition = d,
      pd_control = length (ad_controls (as_adapter s))\<rparr>
    \<and> still s' = still (s2\<lparr>as_adapter := (as_adapter s2)
        \<lparr>ad_controls := ad_controls (as_adapter s)
           @ [\<lparr>ct_deadline = now + rq_timeout_seconds r, ct_cancelled = False\<rparr>],
         ad_running := dset (rq_request_id r)
           (rq_run_id r, length (ad_controls (as_adapter s))) (ad_running (as_adapter s))\<rparr>\<rparr>)"
    using rest still_eq [OF e]
    by (auto simp: upd_adapter_def elim!: bindE_InrE thenE_InrE
        dest!: keeps_run [OF keeps_still_emit])
  then show ?thesis using e by blast
qed

lemma answer_verdict_pending:
  assumes "answer_verdict env (r, t, v) s = (Inr (Inr pd), s')"
  shows "\<exists>d s1. v = Allow d \<and> \<not> rq_dry_run r \<and> still s1 = still s
    \<and> start_pending env r t d s1 = (Inr pd, s')"
proof (cases v)
  case (Allow d)
  obtain u s1 where g: "emit env (audit_of r) ''action.authorization.granted'' ''success''
        ''Action authorized'' (df_phase d) True [] s = (Inr u, s1)"
    and rest: "(if rq_dry_run r
         then bindE (dry_run_result env r t d) (\<lambda>result. ret (Inl result))
         else bindE (start_pending env r t d) (\<lambda>pd. ret (Inr pd))) s1 = (Inr (Inr pd), s')"
    using assms Allow by (auto simp: answer_verdict_def elim!: thenE_InrE)
  have "still s1 = still s" using keeps_run [OF keeps_still_emit g] .
  then show ?thesis using rest Allow by (auto elim!: bindE_InrE split: if_splits)
qed (use assms in \<open>auto simp: answer_verdict_def elim!: thenE_InrE bindE_InrE\<close>)

text \<open>
  A pending execution: the request was admitted against the adapter as it was, its control is a
  fresh entry of the store, and it is in \<open>_running\<close>.
\<close>

lemma begin_execution_pending:
  assumes "begin_execution env raw s = (Inr (Inr pd), s')"
  shows "judge env (as_adapter s) (as_mod s) (redact_request raw) = Allow (pd_definition pd)
    \<and> \<not> rq_dry_run raw \<and> pd_request pd = redact_request raw
    \<and> pd_control pd = length (ad_controls (as_adapter s))
    \<and> ad_results (as_adapter s') = ad_results (as_adapter s)
    \<and> ad_fingerprints (as_adapter s') = ad_fingerprints (as_adapter s)
    \<and> ad_stopped_runs (as_adapter s') = ad_stopped_runs (as_adapter s)
    \<and> ad_registry (as_adapter s') = ad_registry (as_adapter s)
    \<and> ad_context (as_adapter s') = ad_context (as_adapter s)
    \<and> ad_run_state (as_adapter s') = ad_run_state (as_adapter s)
    \<and> (\<exists>now. ad_controls (as_adapter s') = ad_controls (as_adapter s)
         @ [\<lparr>ct_deadline = now + rq_timeout_seconds raw, ct_cancelled = False\<rparr>])
    \<and> ad_running (as_adapter s') = dset (rq_request_id raw)
         (rq_run_id raw, length (ad_controls (as_adapter s))) (ad_running (as_adapter s))"
proof -
  obtain r t v s0 where sc: "screen_request env raw s = (Inr (r, t, v), s0)"
    and an: "answer_verdict env (r, t, v) s0 = (Inr (Inr pd), s')"
    using assms unfolding begin_execution_def by (elim bindE_InrE) (metis prod.exhaust)
  note scr = screen_request_Inr [OF sc]
  obtain d s1 where v: "v = Allow d" "\<not> rq_dry_run r" "still s1 = still s0"
    and st: "start_pending env r t d s1 = (Inr pd, s')"
    using answer_verdict_pending [OF an] by blast
  have e: "still s1 = still s" using v(3) scr by simp
  obtain now s2 where pd: "pd = \<lparr>pd_request = r, pd_started = t, pd_definition = d,
      pd_control = length (ad_controls (as_adapter s1))\<rparr>"
    and s2: "still s2 = still s1" and s': "still s' = still (s2\<lparr>as_adapter := (as_adapter s2)
        \<lparr>ad_controls := ad_controls (as_adapter s1)
           @ [\<lparr>ct_deadline = now + rq_timeout_seconds r, ct_cancelled = False\<rparr>],
         ad_running := dset (rq_request_id r)
           (rq_run_id r, length (ad_controls (as_adapter s1))) (ad_running (as_adapter s1))\<rparr>\<rparr>)"
    using start_pending_Inr [OF st] by blast
  have rr: "r = redact_request raw" using scr by simp
  show ?thesis
    using still_eq [OF s'] still_eq [OF s2] still_eq [OF e] scr v pd
    by (simp add: rr redact_request_def)
qed

end
