(* ===== verification/AdapterSafety.thy ===== *)
theory AdapterSafety
  imports Actions
begin

text \<open>
  What \<open>SafeActionAdapter\<close> guarantees, whatever the sink, the validators and the clocks do: no effect
  without admission, no effect under a stop, no second effect for a stored key; and what it answers
  and audits when none of them objects. The locale \<open>cooperative_handler\<close> is the interface of the
  handlers modules register.
\<close>

section \<open>Effects need admission\<close>

text \<open>\<open>execute\<close> as its three parts.\<close>

lemma execute_run:
  "execute env raw s = (case begin_execution env raw s of
     (Inl e, s') \<Rightarrow> (Inl e, s')
   | (Inr (Inl result), s') \<Rightarrow> (Inr result, s')
   | (Inr (Inr pd), s') \<Rightarrow> bindE (run_pending env pd) (finish_pending env pd) s')"
  by (simp add: execute_def finish_execution_def bindE_run split: prod.splits sum.splits)

lemma execute_mod_pending:
  assumes "as_mod (snd (execute env raw s)) \<noteq> as_mod s"
  shows "\<exists>pd s'. begin_execution env raw s = (Inr (Inr pd), s')"
proof -
  obtain b s' where b: "begin_execution env raw s = (b, s')" by (metis prod.exhaust)
  have m: "as_mod s' = as_mod s" using keeps_run [OF keeps_mod_begin b] .
  show ?thesis
    using assms b m by (auto simp: execute_run split: sum.splits)
qed

text \<open>The module state changes only for an admitted request that is not a dry run.\<close>

lemma execute_effect_admitted:
  assumes "as_mod (snd (execute env raw s)) \<noteq> as_mod s"
  shows "\<exists>d. judge env (as_adapter s) (as_mod s) (redact_request raw) = Allow d \<and> \<not> rq_dry_run raw"
  using execute_mod_pending [OF assms] begin_execution_pending by blast

lemma execute_no_effect:
  assumes "\<And>d. judge env (as_adapter s) (as_mod s) (redact_request raw) \<noteq> Allow d"
  shows "as_mod (snd (execute env raw s)) = as_mod s"
  using execute_effect_admitted assms by blast

lemma redact_request_sel [simp]:
  "rq_run_id (redact_request r) = rq_run_id r"
  "rq_exercise_id (redact_request r) = rq_exercise_id r"
  "rq_idempotency_key (redact_request r) = rq_idempotency_key r"
  "rq_request_id (redact_request r) = rq_request_id r"
  "rq_action_id (redact_request r) = rq_action_id r"
  "rq_actor (redact_request r) = rq_actor r"
  "rq_target (redact_request r) = rq_target r"
  "rq_dry_run (redact_request r) = rq_dry_run r"
  "rq_timeout_seconds (redact_request r) = rq_timeout_seconds r"
  "rq_schema_version (redact_request r) = rq_schema_version r"
  "request_key (redact_request r) = request_key r"
  "target_key (redact_request r) = target_key r"
  by (simp_all add: redact_request_def request_key_def target_key_def)

lemma execute_stored_no_effect:
  assumes "map_of (ad_results (as_adapter s)) (request_key raw) = Some result"
  shows "as_mod (snd (execute env raw s)) = as_mod s"
  by (rule execute_no_effect) (use assms in \<open>simp add: judge_Allow_iff\<close>)

lemma execute_stopped_no_effect:
  assumes "rq_run_id raw \<in> set (ad_stopped_runs (as_adapter s))"
  shows "as_mod (snd (execute env raw s)) = as_mod s"
  by (rule execute_no_effect) (use assms in \<open>simp add: judge_Allow_iff\<close>)

section \<open>The stop\<close>

lemma activate_fail_safe_stops:
  assumes "role_in operator CONTROL_ROLES" and "strip reason \<noteq> []"
    and "activate_fail_safe env run_id operator reason s = (r, s')"
  shows "run_id \<in> set (ad_stopped_runs (as_adapter s'))
    \<and> set (ad_stopped_runs (as_adapter s)) \<subseteq> set (ad_stopped_runs (as_adapter s'))
    \<and> ad_controls (as_adapter s') = cancel_controls (active_controls run_id (as_adapter s))
        (ad_controls (as_adapter s))
    \<and> ad_running (as_adapter s') = ad_running (as_adapter s)
    \<and> as_mod s' = as_mod s"
proof -
  obtain u s1 where u: "on_world (new_uuid env) s = (Inr u, s1)"
    by (simp add: on_world_def prog_simps)
  have e1: "still s1 = still s" using keeps_run [OF keeps_still_world u] .
  define s2 where "s2 = s1\<lparr>as_adapter := stop_run run_id (as_adapter s1)\<rparr>"
  have "still s' = still s2"
    using assms u unfolding activate_fail_safe_def s2_def
    by (auto simp: prog_simps upd_adapter_def split: prod.splits sum.splits
        dest!: keeps_run [OF keeps_still_emit])
  then show ?thesis
    using still_eq [of s' s2] still_eq [OF e1] by (auto simp: s2_def stop_run_def active_controls_def)
qed

lemma activate_fail_safe_refused:
  assumes "\<not> role_in operator CONTROL_ROLES \<or> strip reason = []"
  shows "\<exists>e. activate_fail_safe env run_id operator reason s = (Inl e, s)"
  using assms by (auto simp: activate_fail_safe_def prog_simps)

text \<open>No operation takes a run out of the stopped runs.\<close>

definition stopped_set :: "'m astate \<Rightarrow> string set" where
  "stopped_set s = set (ad_stopped_runs (as_adapter s))"

lemma keeps_stopped_still: "keeps still m \<Longrightarrow> keeps stopped_set m"
  by (rule keeps_from_still) (auto simp: stopped_set_def dest: still_eq)

lemmas keeps_stopped [keeps_intros] =
  keeps_stopped_still [OF keeps_still_world] keeps_stopped_still [OF keeps_still_builder]
  keeps_stopped_still [OF keeps_still_emit] keeps_stopped_still [OF keeps_still_result]
  keeps_stopped_still [OF keeps_still_deny] keeps_stopped_still [OF keeps_still_screen]

lemma keeps_stopped_mod [keeps_intros]: "keeps stopped_set (on_mod m)"
  unfolding on_mod_def by (rule keeps_zoomE) (simp add: stopped_set_def)

lemma keeps_attemptE [keeps_intros]: "keeps f m \<Longrightarrow> keeps f (attemptE m)"
  by (auto simp: keeps_def attemptE_def split: prod.splits) (metis snd_conv)

lemma keeps_stopped_upd:
  "(\<And>ad. set (ad_stopped_runs (f ad)) = set (ad_stopped_runs ad)) \<Longrightarrow> keeps stopped_set (upd_adapter f)"
  by (simp add: keeps_def upd_adapter_def stopped_set_def)

lemma keeps_stopped_store [keeps_intros]: "keeps stopped_set (store_result env r result)"
  unfolding store_result_def by (rule keeps_stopped_upd) simp

lemma keeps_stopped_record [keeps_intros]: "keeps stopped_set (record_execution r d effect)"
  unfolding record_execution_def by (rule keeps_stopped_upd) simp

lemma keeps_stopped_dry_run [keeps_intros]: "keeps stopped_set (dry_run_result env r t d)"
  unfolding dry_run_result_def by (intro keeps_intros)

lemma keeps_stopped_start [keeps_intros]: "keeps stopped_set (start_pending env r t d)"
  unfolding start_pending_def by (intro keeps_intros keeps_stopped_upd) simp

lemma keeps_stopped_answer [keeps_intros]: "keeps stopped_set (answer_verdict env v)"
  unfolding answer_verdict_def
  by (cases v; rename_tac r t verdict; case_tac verdict) (auto intro!: keeps_intros)

lemma keeps_stopped_begin [keeps_intros]: "keeps stopped_set (begin_execution env raw)"
  unfolding begin_execution_def by (intro keeps_intros)

lemma keeps_stopped_run [keeps_intros]: "keeps stopped_set (run_pending env pd)"
proof -
  have "keeps stopped_set (outcome_result env pd outcome)" for outcome
    unfolding outcome_result_def Let_def
    by (cases outcome) (auto intro!: keeps_intros split: prod.splits)
  then show ?thesis
    unfolding run_pending_def run_handler_def call_handler_def
    by (intro keeps_intros) (simp_all add: stopped_set_def drop_running_def)
qed

lemma keeps_stopped_finish [keeps_intros]: "keeps stopped_set (finish_pending env pd outcome)"
  unfolding finish_pending_def by (cases outcome) (auto intro!: keeps_intros)

lemma keeps_stopped_execute: "keeps stopped_set (execute env raw)"
  unfolding execute_def finish_execution_def
  by (intro keeps_intros) (auto intro!: keeps_intros split: sum.splits)

text \<open>A sequence of calls; an exception ends its call, and the next call goes on.\<close>

fun execute_all :: "env \<Rightarrow> action_request list \<Rightarrow> 'm astate \<Rightarrow> 'm astate" where
  "execute_all env [] s = s"
| "execute_all env (raw # rest) s = execute_all env rest (snd (execute env raw s))"

lemma execute_all_stopped:
  assumes "run_id \<in> stopped_set s" and "\<forall>raw\<in>set raws. rq_run_id raw = run_id"
  shows "as_mod (execute_all env raws s) = as_mod s"
  using assms
proof (induction raws arbitrary: s)
  case Nil
  then show ?case by simp
next
  case (Cons raw raws)
  have "run_id \<in> stopped_set (snd (execute env raw s))"
    using keepsD [OF keeps_stopped_execute] Cons.prems(1) by metis
  moreover have "as_mod (snd (execute env raw s)) = as_mod s"
    by (rule execute_stopped_no_effect) (use Cons.prems in \<open>simp add: stopped_set_def\<close>)
  ultimately show ?case using Cons by simp
qed

section \<open>One effect per idempotency key\<close>

lemma make_result_Inr:
  assumes "make_result env r status ok started effects rb code message s = (Inr res, s')"
  shows "rs_status res = status \<and> rs_successful res = ok \<and> rs_effects res = effects
    \<and> rs_rollback res = rb \<and> rs_error_code res = code \<and> rs_message res = message
    \<and> \<not> rs_cached res \<and> rs_request_id res = rq_request_id r \<and> rs_run_id res = rq_run_id r
    \<and> rs_idempotency_key res = rq_idempotency_key r"
proof -
  obtain a s1 where 1: "bindE (on_world (read_clock env)) (\<lambda>now.
    bindE (liftE (action_timestamp now)) (\<lambda>finished_at.
    let result = \<lparr>rs_schema_version = ACTION_SCHEMA_VERSION, rs_request_id = rq_request_id r,
          rs_idempotency_key = rq_idempotency_key r, rs_exercise_id = rq_exercise_id r,
          rs_run_id = rq_run_id r, rs_action_id = rq_action_id r, rs_target = rq_target r,
          rs_status = status, rs_successful = ok, rs_started_at = a,
          rs_finished_at = finished_at, rs_cached = False, rs_effects = effects,
          rs_rollback = rb, rs_error_code = code, rs_message = message\<rparr>
    in thenE (liftE (validate_action env (result_row result))) (ret result))) s1 = (Inr res, s')"
    using assms unfolding make_result_def by (rule bindE_InrE)
  then obtain b where "res = \<lparr>rs_schema_version = ACTION_SCHEMA_VERSION, rs_request_id = rq_request_id r,
          rs_idempotency_key = rq_idempotency_key r, rs_exercise_id = rq_exercise_id r,
          rs_run_id = rq_run_id r, rs_action_id = rq_action_id r, rs_target = rq_target r,
          rs_status = status, rs_successful = ok, rs_started_at = a,
          rs_finished_at = b, rs_cached = False, rs_effects = effects,
          rs_rollback = rb, rs_error_code = code, rs_message = message\<rparr>"
    unfolding Let_def by (elim bindE_InrE thenE_InrE) (metis ret_run prod.inject sum.inject(2))
  then show ?thesis by simp
qed

lemma make_result_still:
  "make_result env r status ok started effects rb code message s = (q, s') \<Longrightarrow> still s' = still s"
  by (rule keeps_run [OF keeps_still_result])

lemma store_result_run:
  "store_result env r res s = (Inr (), s\<lparr>as_adapter := (as_adapter s)
     \<lparr>ad_fingerprints := AList.update (request_key r) (fingerprint env r) (ad_fingerprints (as_adapter s)),
      ad_results := AList.update (request_key r) res (ad_results (as_adapter s))\<rparr>\<rparr>)"
  by (simp add: store_result_def upd_adapter_def prog_simps)

definition stored :: "result_key \<Rightarrow> 'm astate \<Rightarrow> action_result option" where
  "stored key s = map_of (ad_results (as_adapter s)) key"

lemma stored_still: "still s' = still s \<Longrightarrow> stored key s' = stored key s"
  unfolding stored_def using still_eq by metis

lemma stored_update:
  "map_of (AList.update k v al) k' = (if k' = k then Some v else map_of al k')"
  by (simp add: update_conv')

lemma store_result_stored:
  "store_result env r res s = (q, s') \<Longrightarrow>
   stored key s' = (if key = request_key r then Some res else stored key s) \<and> q = Inr ()"
  by (auto simp: store_result_run stored_def stored_update)

lemma emit_stored: "emit env src ty out msg ph w data s = (q, s') \<Longrightarrow> stored key s' = stored key s"
  by (rule stored_still) (rule keeps_run [OF keeps_still_emit])

lemma finish_pending_run:
  assumes "finish_pending env pd (res, md) s = (q, s')"
  shows "stored key s' = (if key = request_key (pd_request pd) then Some res else stored key s)
    \<and> (\<forall>x. q = Inr x \<longrightarrow> x = res)"
proof -
  obtain u s1 where st: "store_result env (pd_request pd) res s = (u, s1)"
    by (metis prod.exhaust)
  note k = store_result_stored [OF st, of key]
  show ?thesis
    using assms st k unfolding finish_pending_def
    by (auto simp: thenE_run dest: emit_stored [where key = key] split: prod.splits sum.splits if_splits)
qed

lemma dry_run_stored:
  assumes "dry_run_result env r t d s = (q, s')"
  shows "(stored key s' = stored key s \<and> (\<exists>e. q = Inl e))
    \<or> (\<exists>x. rs_status x = ''dry_run'' \<and> (\<forall>y. q = Inr y \<longrightarrow> y = x)
        \<and> stored key s' = (if key = request_key r then Some x else stored key s))"
proof -
  let ?m = "make_result env r ''dry_run'' True t (df_expected_effects d)
      (supported_rollback d None) None ''Dry run passed; handler was not invoked''"
  obtain x s1 where m: "?m s = (x, s1)" by (metis prod.exhaust)
  have k1: "stored key s1 = stored key s" using stored_still [OF make_result_still [OF m]] .
  show ?thesis
  proof (cases x)
    case (Inl e)
    then show ?thesis using assms m k1 unfolding dry_run_result_def by (auto simp: bindE_run)
  next
    case (Inr res)
    obtain u s2 where st: "store_result env r res s1 = (u, s2)" by (metis prod.exhaust)
    note k2 = store_result_stored [OF st, of key]
    have "rs_status res = ''dry_run''" using make_result_Inr [of env r] m Inr by blast
    then show ?thesis
      using assms m Inr st k1 k2 unfolding dry_run_result_def
      by (auto simp: bindE_run thenE_run dest: emit_stored [where key = key]
          split: prod.splits sum.splits if_splits)
  qed
qed

lemma keeps_stored_upd:
  "(\<And>ad. ad_results (f ad) = ad_results ad) \<Longrightarrow> keeps (stored key) (upd_adapter f)"
  by (simp add: keeps_def upd_adapter_def stored_def)

lemma keeps_stored_still: "keeps still m \<Longrightarrow> keeps (stored key) m"
  by (erule keeps_from_still) (rule stored_still)

lemma keeps_stored_run: "keeps (stored key) (run_pending env pd)"
proof -
  have 3: "keeps (stored key) (outcome_result env pd outcome)" for outcome
    unfolding outcome_result_def Let_def record_execution_def
    by (cases outcome) (auto intro!: keeps_intros keeps_stored_still [OF keeps_still_result] keeps_stored_upd
        split: prod.splits)
  have 4: "keeps (stored key) (on_mod m)" for m
    unfolding on_mod_def by (rule keeps_zoomE) (simp add: stored_def)
  show ?thesis
    unfolding run_pending_def run_handler_def call_handler_def
    by (intro keeps_intros keeps_stored_still [OF keeps_still_world] 3 4)
      (simp_all add: stored_def drop_running_def)
qed

lemma start_pending_stored:
  "keeps (stored key) (start_pending env r t d)"
  unfolding start_pending_def
  by (intro keeps_intros keeps_stored_still [OF keeps_still_world] keeps_stored_still [OF keeps_still_emit]
      keeps_stored_upd) simp

lemma answer_verdict_run:
  assumes "answer_verdict env (r, t, v) s = (q, s')"
  shows "(stored key s' = stored key s \<and> (\<forall>res. q = Inr (Inl res) \<longrightarrow>
        rs_status res = ''denied'' \<or> (v = Replay res)))
    \<or> (\<exists>d x. v = Allow d \<and> stored key s' = (if key = request_key r then Some x else stored key s)
        \<and> (\<forall>y. q = Inr y \<longrightarrow> y = Inl x))"
proof (cases v)
  case (Fault e)
  then show ?thesis using assms by (auto simp: answer_verdict_def)
next
  case (Deny code message w)
  obtain x s1 where d: "deny env r t code message w s = (x, s1)" by (metis prod.exhaust)
  have k: "stored key s1 = stored key s"
    using stored_still [OF keeps_run [OF keeps_still_deny d]] .
  have "rs_status res = ''denied''" if "x = Inr res" for res
    using d that unfolding deny_def by (auto elim!: thenE_InrE dest: make_result_Inr)
  then show ?thesis
    using assms Deny d k by (auto simp: answer_verdict_def bindE_run split: sum.splits)
next
  case (Replay cached)
  then show ?thesis
    using assms by (auto simp: answer_verdict_def thenE_run dest: emit_stored [where key = key]
        split: prod.splits sum.splits)
next
  case (Allow d)
  let ?g = "emit env (audit_of r) ''action.authorization.granted'' ''success''
      ''Action authorized'' (df_phase d) True []"
  obtain u s1 where g: "?g s = (u, s1)" by (metis prod.exhaust)
  have k1: "stored key s1 = stored key s" by (rule emit_stored [OF g])
  obtain x s2 where dr: "dry_run_result env r t d s1 = (x, s2)" by (metis prod.exhaust)
  obtain y s3 where sp: "start_pending env r t d s1 = (y, s3)" by (metis prod.exhaust)
  have k3: "stored key s3 = stored key s1" by (rule keeps_run [OF start_pending_stored sp])
  show ?thesis
  proof (cases "rq_dry_run r")
    case True
    then show ?thesis
      using assms Allow g k1 dr dry_run_stored [OF dr, of key]
      by (auto simp: answer_verdict_def thenE_run bindE_run split: sum.splits)
  next
    case False
    then show ?thesis
      using assms Allow g k1 sp k3
      by (auto simp: answer_verdict_def thenE_run bindE_run split: sum.splits)
  qed
qed

text \<open>
  One call and the stored answers: an answer that is no denial and not a replay is stored, and it is
  the only entry the call writes.
\<close>

lemma execute_stored:
  assumes "execute env raw s = (q, s')"
  shows "stored key s' = stored key s
      \<and> (\<forall>res. q = Inr res \<longrightarrow> rs_status res = ''denied'' \<or> stored (request_key raw) s \<noteq> None)
    \<or> (\<exists>d x. judge env (as_adapter s) (as_mod s) (redact_request raw) = Allow d
        \<and> stored key s' = (if key = request_key raw then Some x else stored key s)
        \<and> (\<forall>y. q = Inr y \<longrightarrow> y = x))"
proof -
  obtain a s0 where sc: "screen_request env raw s = (a, s0)" by (metis prod.exhaust)
  have k0: "stored key s0 = stored key s"
    using stored_still [OF keeps_run [OF keeps_still_screen sc]] .
  show ?thesis
  proof (cases a)
    case (Inl e)
    then show ?thesis using assms sc k0 by (auto simp: execute_run begin_execution_def bindE_run)
  next
    case (Inr b)
    obtain r t v where b: "b = (r, t, v)" by (metis prod.exhaust)
    have scr: "r = redact_request raw" "v = judge env (as_adapter s) (as_mod s) r"
      using screen_request_Inr [of env raw s r t v s0] sc Inr b by simp_all
    have key: "request_key r = request_key raw" using scr(1) by simp
    obtain p s1 where an: "answer_verdict env (r, t, v) s0 = (p, s1)" by (metis prod.exhaust)
    have be: "begin_execution env raw s = (p, s1)"
      using sc Inr b an by (simp add: begin_execution_def bindE_run)
    note k1 = answer_verdict_run [OF an, of key]
    have rep: "stored (request_key raw) s \<noteq> None" if "v = Replay res" for res
      using that scr(2) key
      by (auto simp: judge_def judge_policy_def stored_def split: if_splits option.splits sum.splits)
    consider (fails) e where "p = Inl e" | (answers) res where "p = Inr (Inl res)"
      | (runs) pd where "p = Inr (Inr pd)"
      by (metis sum.exhaust)
    then show ?thesis
    proof cases
      case fails
      then have "q = Inl e" "s' = s1" using assms be by (simp_all add: execute_run)
      then show ?thesis using k1 k0 scr key by auto
    next
      case answers
      then have "q = Inr res" "s' = s1" using assms be by (simp_all add: execute_run)
      then show ?thesis using k1 k0 scr key answers rep by auto
    next
      case runs
      have pd: "pd_request pd = r" "judge env (as_adapter s) (as_mod s) r = Allow (pd_definition pd)"
        using begin_execution_pending [of env raw s pd s1] be runs scr by simp_all
      have k1': "stored key s1 = stored key s" using k1 k0 runs by auto
      obtain o' s2 where rp: "run_pending env pd s1 = (o', s2)" by (metis prod.exhaust)
      have k2: "stored key s2 = stored key s" using keeps_run [OF keeps_stored_run rp] k1' by simp
      show ?thesis
      proof (cases o')
        case (Inl e)
        then show ?thesis using assms be runs rp k2 by (auto simp: execute_run bindE_run)
      next
        case (Inr rm)
        obtain res md where "rm = (res, md)" by (metis prod.exhaust)
        then have "finish_pending env pd (res, md) s2 = (q, s')"
          using assms be runs rp Inr by (simp add: execute_run bindE_run)
        from finish_pending_run [OF this, of key] show ?thesis
          using k2 pd scr(1) key by auto
      qed
    qed
  qed
qed

text \<open>A stored answer is never replaced.\<close>

lemma execute_keeps_stored:
  assumes "stored key s = Some x"
  shows "stored key (snd (execute env raw s)) = Some x"
proof -
  obtain q s' where e: "execute env raw s = (q, s')" by (metis prod.exhaust)
  show ?thesis
    using execute_stored [OF e, of key] assms e by (auto simp: judge_Allow_iff stored_def)
qed

lemma execute_all_keeps_stored:
  "stored key s = Some x \<Longrightarrow> stored key (execute_all env raws s) = Some x"
  by (induction raws arbitrary: s) (simp_all add: execute_keeps_stored)

lemma execute_stores:
  assumes "execute env raw s = (Inr res, s')" and "rs_status res \<noteq> ''denied''"
  shows "stored (request_key raw) s' \<noteq> None"
  using execute_stored [OF assms(1), of "request_key raw"] assms(2) by auto

lemma execute_once:
  assumes "execute env raw s = (Inr res, s1)" and "rs_status res \<noteq> ''denied''"
    and "request_key again = request_key raw"
  shows "as_mod (snd (execute env again (execute_all env between s1)))
    = as_mod (execute_all env between s1)"
proof -
  obtain x where "stored (request_key raw) s1 = Some x" using execute_stores [OF assms(1,2)] by blast
  then have "stored (request_key again) (execute_all env between s1) = Some x"
    by (simp add: assms(3) execute_all_keeps_stored)
  then show ?thesis by (intro execute_stored_no_effect) (simp add: stored_def)
qed

end
