(* ===== verification/AdapterTrails.thy ===== *)
theory AdapterTrails
  imports AdapterSafety
begin

text \<open>
  What \<open>SafeActionAdapter.execute\<close> answers and audits when the sink, the validators and the clock do
  not object (\<open>quiet_env\<close>), on every path: denied, replayed, dry run, executed, failed.
\<close>

section \<open>Quiet surroundings\<close>

text \<open>The builder shares the run's sequencer and is not ahead of it, or has a counter of its own.\<close>

definition builder_ready :: "'m astate \<Rightarrow> bool" where
  "builder_ready s \<longleftrightarrow> (bl_shared (ad_builder (as_adapter s)) \<longrightarrow>
     bl_sequence (ad_builder (as_adapter s)) \<le> w_sequence (as_world s))"

definition trail :: "'m astate \<Rightarrow> string list" where
  "trail s = map ev_event_type (w_log (as_world s))"

text \<open>\<open>s'\<close> is \<open>s\<close> after emitting events of the types \<open>tys\<close>, and nothing else.\<close>

definition emits :: "string list \<Rightarrow> 'm astate \<Rightarrow> 'm astate \<Rightarrow> bool" where
  "emits tys s s' \<longleftrightarrow> builder_ready s' \<and> trail s' = trail s @ tys \<and> still s' = still s"

lemma emits_trans: "emits a s s' \<Longrightarrow> emits b s' s'' \<Longrightarrow> emits (a @ b) s s''"
  by (simp add: emits_def)

lemma emits_ready: "emits a s s' \<Longrightarrow> builder_ready s'"
  by (simp add: emits_def)

lemma emits_still: "emits a s s' \<Longrightarrow> still s' = still s"
  by (simp add: emits_def)

lemma emit_quiet:
  assumes "quiet_env env" and "builder_ready s"
  shows "\<exists>s'. emit env src ty out msg ph w data s = (Inr (), s') \<and> emits [ty] s s'"
proof -
  let ?a = "audit_args src ty out msg ph w data"
  let ?w = "as_world s" and ?b = "ad_builder (as_adapter s)"
  have "ea_attack_technique_id ?a = None" "ea_attack_tactic ?a = None" "ea_timestamp ?a = None"
    by (simp_all add: audit_args_def event_args_def)
  then obtain ev w' b' where b: "build env ?a (?w, ?b) = (Inr ev, (w', b'))"
    using build_quiet [OF assms(1), of ?b ?w ?a] assms(2) by (auto simp: builder_ready_def)
  note B = build_Inr [OF b]
  have none: "e_sink env (w_log w') ev = None" using assms(1) by (simp add: quiet_env_def)
  have ty: "ev_event_type ev = ty" using B by (auto simp: make_event_def audit_args_def event_args_def)
  define s' where "s' = s\<lparr>as_world := w'\<lparr>w_log := w_log w' @ [ev]\<rparr>,
    as_adapter := (as_adapter s)\<lparr>ad_builder := b'\<rparr>\<rparr>"
  have run: "emit env src ty out msg ph w data s = (Inr (), s')"
    using b none by (simp add: emit_def on_builder_def build_and_sink_def prog_simps s'_def)
  have "builder_ready s'" "trail s' = trail s @ [ty]"
    using B ty by (auto simp: builder_ready_def trail_def s'_def)
  moreover have "still s' = still s" by (rule keeps_run [OF keeps_still_emit run])
  ultimately show ?thesis using run by (auto simp: emits_def)
qed

lemma on_world_run: "on_world m s = (case m (as_world s) of (r, w) \<Rightarrow> (r, s\<lparr>as_world := w\<rparr>))"
  by (simp add: on_world_def zoomE_run)

lemma read_clock_quiet:
  assumes "quiet_env env" and "builder_ready s"
  shows "\<exists>t s'. on_world (read_clock env) s = (Inr t, s') \<and> emits [] s s' \<and> dt_aware t"
  using assms by (auto simp: on_world_run read_clock_run emits_def builder_ready_def trail_def
      still_def quiet_env_def)

lemma read_mono_quiet:
  assumes "builder_ready s"
  shows "\<exists>s'. on_world (read_mono env) s = (Inr (e_mono env (w_monos (as_world s))), s')
    \<and> emits [] s s'"
  using assms by (auto simp: on_world_run read_mono_run emits_def builder_ready_def trail_def still_def)

lemma validate_action_quiet:
  assumes "quiet_env env" and "map_of r ''schema_version'' = Some (VStr v)" and "starts_with ''1.'' v"
  shows "validate_action env r = Inr ()"
  using assms by (simp add: validate_action_def quiet_env_def sort_key_def)

lemma make_result_quiet:
  assumes "quiet_env env" and "builder_ready s" and "dt_aware started"
  shows "\<exists>res s'. make_result env r status ok started effects rb code message s = (Inr res, s')
    \<and> emits [] s s' \<and> rs_schema_version res = ACTION_SCHEMA_VERSION"
proof -
  obtain t s' where c: "on_world (read_clock env) s = (Inr t, s')" "emits [] s s'" "dt_aware t"
    using read_clock_quiet [OF assms(1,2)] by blast
  have v: "validate_action env (result_row res) = Inr ()"
    if "rs_schema_version res = ''1.0.0''" for res
    by (rule validate_action_quiet [OF assms(1), where v = "''1.0.0''"])
      (simp_all add: result_row_def that starts_with_def)
  show ?thesis
    using assms(3) c by (simp add: make_result_def Let_def bindE_run thenE_run action_timestamp_def v
        ACTION_SCHEMA_VERSION_def)
qed

section \<open>Each path of a call\<close>

definition version_ok :: "action_request \<Rightarrow> bool" where
  "version_ok r \<longleftrightarrow> starts_with ''1.'' (rq_schema_version r)"

lemma screen_quiet:
  assumes "quiet_env env" and "builder_ready s" and "version_ok raw"
  shows "\<exists>t s'. screen_request env raw s
      = (Inr (redact_request raw, t, judge env (as_adapter s) (as_mod s) (redact_request raw)), s')
    \<and> emits [''action.requested''] s s' \<and> dt_aware t"
proof -
  have v: "validate_action env (request_row (redact_request raw)) = Inr ()"
    by (rule validate_action_quiet [OF assms(1), where v = "rq_schema_version raw"])
      (use assms(3) in \<open>simp_all add: request_row_def version_ok_def\<close>)
  obtain t s1 where c: "on_world (read_clock env) s = (Inr t, s1)" "emits [] s s1" "dt_aware t"
    using read_clock_quiet [OF assms(1,2)] by blast
  obtain s2 where e: "emit env (audit_of (redact_request raw)) ''action.requested'' ''pending''
      ''Action requested'' ''control'' True [] s1 = (Inr (), s2)" "emits [''action.requested''] s1 s2"
    using emit_quiet [OF assms(1) emits_ready [OF c(2)]] by metis
  have em: "emits [''action.requested''] s s2" using emits_trans [OF c(2) e(2)] by simp
  have j: "judge env (as_adapter s2) (as_mod s2) (redact_request raw)
      = judge env (as_adapter s) (as_mod s) (redact_request raw)"
    by (rule judge_still [OF emits_still [OF em]])
  have "screen_request env raw s
      = (Inr (redact_request raw, t, judge env (as_adapter s) (as_mod s) (redact_request raw)), s2)"
    by (simp add: screen_request_def Let_def thenE_run bindE_run v c(1) e(1) j)
  then show ?thesis using em c(3) by blast
qed

lemma execute_screened:
  assumes "screen_request env raw s = (Inr x, s1)"
  shows "execute env raw s = bindE (answer_verdict env x) (finish_execution env) s1"
  using assms by (simp add: execute_def begin_execution_def bindE_assoc) (simp add: bindE_run)

lemma execute_denied_quiet:
  assumes "quiet_env env" and "builder_ready s" and "version_ok raw"
    and "judge env (as_adapter s) (as_mod s) (redact_request raw) = Deny code message w"
  shows "\<exists>res s'. execute env raw s = (Inr res, s') \<and> rs_status res = ''denied''
    \<and> rs_error_code res = Some code \<and> rs_message res = message \<and> rs_effects res = []
    \<and> emits [''action.requested'', ''action.authorization.denied''] s s'"
proof -
  obtain t s1 where sc: "screen_request env raw s = (Inr (redact_request raw, t, Deny code message w), s1)"
    and e1: "emits [''action.requested''] s s1" and t: "dt_aware t"
    using screen_quiet [OF assms(1-3)] assms(4) by metis
  obtain s2 where e2: "emit env (audit_of (redact_request raw)) ''action.authorization.denied''
      ''denied'' message ''control'' w [(''error_code'', VStr code)] s1 = (Inr (), s2)"
    "emits [''action.authorization.denied''] s1 s2"
    using emit_quiet [OF assms(1) emits_ready [OF e1]] by metis
  obtain res s3 where m: "make_result env (redact_request raw) ''denied'' False t [] no_rollback
      (Some code) message s2 = (Inr res, s3)" "emits [] s2 s3"
    using make_result_quiet [OF assms(1) emits_ready [OF e2(2)] t] by metis
  have "execute env raw s = (Inr res, s3)"
    using e2(1) m(1) by (simp add: execute_screened [OF sc] answer_verdict_def deny_def bindE_run
        thenE_run finish_execution_def)
  moreover have "emits [''action.requested'', ''action.authorization.denied''] s s3"
    using emits_trans [OF emits_trans [OF e1 e2(2)] m(2)] by simp
  ultimately show ?thesis using make_result_Inr [OF m(1)] by blast
qed

lemma execute_replay_quiet:
  assumes "quiet_env env" and "builder_ready s" and "version_ok raw"
    and "judge env (as_adapter s) (as_mod s) (redact_request raw) = Replay cached"
    and "starts_with ''1.'' (rs_schema_version cached)"
  shows "\<exists>s'. execute env raw s = (Inr cached, s')
    \<and> emits [''action.requested'', ''action.result.replayed''] s s'"
proof -
  obtain t s1 where sc: "screen_request env raw s = (Inr (redact_request raw, t, Replay cached), s1)"
    and e1: "emits [''action.requested''] s s1"
    using screen_quiet [OF assms(1-3)] assms(4) by metis
  have v: "validate_action env (result_row cached) = Inr ()"
    by (rule validate_action_quiet [OF assms(1), where v = "rs_schema_version cached"])
      (use assms(5) in \<open>simp_all add: result_row_def\<close>)
  obtain s2 where e2: "emit env (audit_of (redact_request raw)) ''action.result.replayed'' ''success''
      ''Returned cached action result'' ''control'' True [] s1 = (Inr (), s2)"
    "emits [''action.result.replayed''] s1 s2"
    using emit_quiet [OF assms(1) emits_ready [OF e1]] by metis
  have "execute env raw s = (Inr cached, s2)"
    using e2(1) v by (simp add: execute_screened [OF sc] answer_verdict_def bindE_run
        thenE_run finish_execution_def)
  then show ?thesis using emits_trans [OF e1 e2(2)] by auto
qed

lemma execute_dry_run_quiet:
  assumes "quiet_env env" and "builder_ready s" and "version_ok raw" and "rq_dry_run raw"
    and "judge env (as_adapter s) (as_mod s) (redact_request raw) = Allow d"
  shows "\<exists>res s'. execute env raw s = (Inr res, s') \<and> rs_status res = ''dry_run''
    \<and> rs_effects res = df_expected_effects d \<and> as_mod s' = as_mod s \<and> builder_ready s'
    \<and> stored (request_key raw) s' = Some res
    \<and> trail s' = trail s @ [''action.requested'', ''action.authorization.granted'',
        ''action.execution.completed'']"
proof -
  let ?r = "redact_request raw"
  obtain t s1 where sc: "screen_request env raw s = (Inr (?r, t, Allow d), s1)"
    and e1: "emits [''action.requested''] s s1" and t: "dt_aware t"
    using screen_quiet [OF assms(1-3)] assms(5) by metis
  obtain s2 where e2: "emit env (audit_of ?r) ''action.authorization.granted'' ''success''
      ''Action authorized'' (df_phase d) True [] s1 = (Inr (), s2)"
    "emits [''action.authorization.granted''] s1 s2"
    using emit_quiet [OF assms(1) emits_ready [OF e1]] by metis
  obtain res s3 where m: "make_result env ?r ''dry_run'' True t (df_expected_effects d)
      (supported_rollback d None) None ''Dry run passed; handler was not invoked'' s2 = (Inr res, s3)"
    "emits [] s2 s3"
    using make_result_quiet [OF assms(1) emits_ready [OF e2(2)] t] by metis
  obtain s4 where st: "store_result env ?r res s3 = (Inr (), s4)"
    using store_result_run by metis
  have r4: "builder_ready s4" "trail s4 = trail s3" "as_mod s4 = as_mod s3"
    using st emits_ready [OF m(2)] by (auto simp: store_result_run builder_ready_def trail_def)
  obtain s5 where e5: "emit env (audit_of ?r) ''action.execution.completed'' ''success''
      (rs_message res) (df_phase d) True
       [(''status'', VStr ''dry_run''), (''effects'', str_list (rs_effects res))] s4 = (Inr (), s5)"
    "emits [''action.execution.completed''] s4 s5"
    using emit_quiet [OF assms(1) r4(1)] by metis
  have ex: "execute env raw s = (Inr res, s5)"
    using e2(1) m(1) st e5(1) assms(4)
    by (simp add: execute_screened [OF sc] answer_verdict_def dry_run_result_def bindE_run
        thenE_run finish_execution_def)
  have "stored (request_key raw) s5 = Some res"
    using store_result_stored [OF st, of "request_key raw"] emit_stored [OF e5(1)] by simp
  moreover have "trail s5 = trail s @ [''action.requested'', ''action.authorization.granted'',
        ''action.execution.completed'']"
    using e1 e2(2) m(2) r4(2) e5(2) by (simp add: emits_def)
  moreover have "as_mod s5 = as_mod s"
    using e1 e2(2) m(2) r4(3) e5(2) by (simp add: emits_def still_def)
  ultimately show ?thesis
    using ex make_result_Inr [OF m(1)] emits_ready [OF e5(2)] by auto
qed

subsection \<open>A call that runs its handler\<close>

definition readings :: "'m astate \<Rightarrow> nat" where
  "readings s = w_monos (as_world s)"

lemma keeps_readings_build: "keeps (\<lambda>s. w_monos (fst s)) (build env a)"
proof -
  have 1: "keeps w_monos (new_uuid env)" "keeps w_monos (read_clock env)" "keeps w_monos sequencer_next"
    by (simp_all add: keeps_def prog_simps sequencer_next_def)
  have 2: "keeps (\<lambda>s. w_monos (fst s)) build_next"
    unfolding build_next_def by (intro keeps_intros keeps_world_part_through 1)
  show ?thesis
    unfolding build_def Let_def
    by (intro keeps_intros keeps_world_part_through 1 2) (auto simp: keeps_def)
qed

lemma keeps_readings_emit: "keeps readings (emit env src ty out msg ph w data)"
proof -
  have "keeps (\<lambda>s. w_monos (fst s)) (build_and_sink env a)" for a
    unfolding build_and_sink_def
    by (intro keeps_intros keeps_world_part_through keeps_readings_build)
      (simp add: keeps_def sink_event_run split: option.splits)
  then have "keeps readings (on_builder (build_and_sink env a))" for a
    unfolding on_builder_def by (rule keeps_zoom_part) (auto simp: readings_def)
  then show ?thesis unfolding emit_def by (intro keeps_intros)
qed

lemma emit_readings: "emit env src ty out msg ph w data s = (q, s') \<Longrightarrow> readings s' = readings s"
  by (rule keeps_run [OF keeps_readings_emit])

lemma read_clock_readings: "on_world (read_clock env) s = (q, s') \<Longrightarrow> readings s' = readings s"
  by (auto simp: on_world_run read_clock_run readings_def)

lemma screen_readings: "screen_request env raw s = (Inr x, s') \<Longrightarrow> readings s' = readings s"
  unfolding screen_request_def Let_def
  by (elim thenE_InrE bindE_InrE) (auto dest!: emit_readings read_clock_readings)

text \<open>The control a request gets when its execution starts at the monotonic time \<open>now\<close>.\<close>

definition fresh_control :: "int \<Rightarrow> action_request \<Rightarrow> control" where
  "fresh_control now r = \<lparr>ct_deadline = now + rq_timeout_seconds r, ct_cancelled = False\<rparr>"

text \<open>
  What the handler of an admitted request gives, and what becomes of it after the last checkpoint;
  \<open>k\<close> is the number of monotonic readings so far.
\<close>

definition handler_run :: "env \<Rightarrow> 'm action_definition \<Rightarrow> action_request \<Rightarrow> nat \<Rightarrow> 'm
    \<Rightarrow> (exc + action_effect) \<times> 'm" where
  "handler_run env d r k m = df_handler d (rq_parameters r) (rq_target r)
     (fresh_control (e_mono env k) r) (e_mono env (Suc k)) m"

definition handler_outcome :: "env \<Rightarrow> action_request \<Rightarrow> nat \<Rightarrow> exc + action_effect \<Rightarrow> exc + action_effect" where
  "handler_outcome env r k q = (case q of Inl e \<Rightarrow> Inl e
     | Inr effect \<Rightarrow> (case checkpoint (fresh_control (e_mono env k) r) (e_mono env (Suc (Suc k))) of
         Inl e \<Rightarrow> Inl e | Inr _ \<Rightarrow> Inr effect))"

lemma begin_quiet:
  assumes "quiet_env env" and "builder_ready s" and "version_ok raw" and "\<not> rq_dry_run raw"
    and "judge env (as_adapter s) (as_mod s) (redact_request raw) = Allow d"
  shows "\<exists>pd s'. begin_execution env raw s = (Inr (Inr pd), s') \<and> pd_definition pd = d
    \<and> dt_aware (pd_started pd) \<and> builder_ready s' \<and> readings s' = Suc (readings s)
    \<and> current_control (pd_control pd) s' = fresh_control (e_mono env (readings s)) raw
    \<and> as_mod s' = as_mod s \<and> ad_executions (as_adapter s') = ad_executions (as_adapter s)
    \<and> trail s' = trail s @ [''action.requested'', ''action.authorization.granted'',
        ''action.execution.started'']"
proof -
  let ?r = "redact_request raw"
  obtain t s1 where sc: "screen_request env raw s = (Inr (?r, t, Allow d), s1)"
    and e1: "emits [''action.requested''] s s1" and t: "dt_aware t"
    using screen_quiet [OF assms(1-3)] assms(5) by metis
  obtain s2 where e2: "emit env (audit_of ?r) ''action.authorization.granted'' ''success''
      ''Action authorized'' (df_phase d) True [] s1 = (Inr (), s2)"
    "emits [''action.authorization.granted''] s1 s2"
    using emit_quiet [OF assms(1) emits_ready [OF e1]] by metis
  have k2: "readings s2 = readings s" using emit_readings [OF e2(1)] screen_readings [OF sc] by simp
  obtain s3 where m: "on_world (read_mono env) s2 = (Inr (e_mono env (readings s)), s3)" "emits [] s2 s3"
    using read_mono_quiet [OF emits_ready [OF e2(2)], of env] k2 unfolding readings_def by metis
  have k3: "readings s3 = Suc (readings s)"
    using m(1) k2 by (auto simp: on_world_run read_mono_run readings_def)
  define c where "c = length (ad_controls (as_adapter s3))"
  define s4 where "s4 = s3\<lparr>as_adapter := (as_adapter s3)
      \<lparr>ad_controls := ad_controls (as_adapter s3) @ [fresh_control (e_mono env (readings s)) raw],
       ad_running := dset (rq_request_id ?r) (rq_run_id ?r, c) (ad_running (as_adapter s3))\<rparr>\<rparr>"
  have r4: "builder_ready s4" "trail s4 = trail s3" "readings s4 = Suc (readings s)"
    using emits_ready [OF m(2)] k3 by (auto simp: s4_def builder_ready_def trail_def readings_def)
  obtain s5 where e5: "emit env (audit_of ?r) ''action.execution.started'' ''pending''
      ''Action execution started'' (df_phase d) True [] s4 = (Inr (), s5)"
    "emits [''action.execution.started''] s4 s5"
    using emit_quiet [OF assms(1) r4(1)] by metis
  let ?pd = "\<lparr>pd_request = ?r, pd_started = t, pd_definition = d, pd_control = c\<rparr>"
  have "begin_execution env raw s = (Inr (Inr ?pd), s5)"
    using sc e2(1) m(1) e5(1) assms(4)
    by (simp add: begin_execution_def answer_verdict_def start_pending_def upd_adapter_def
        bindE_run thenE_run s4_def c_def fresh_control_def)
  moreover have "current_control c s5 = fresh_control (e_mono env (readings s)) raw"
    using still_eq [OF emits_still [OF e5(2)]] by (simp add: current_control_def s4_def c_def)
  moreover have "trail s5 = trail s @ [''action.requested'', ''action.authorization.granted'',
        ''action.execution.started'']"
    using e1 e2(2) m(2) r4(2) e5(2) by (simp add: emits_def)
  moreover have "as_mod s5 = as_mod s" "ad_executions (as_adapter s5) = ad_executions (as_adapter s)"
    using still_eq [OF emits_still [OF e5(2)]] still_eq [OF emits_still [OF m(2)]]
      still_eq [OF emits_still [OF e2(2)]] still_eq [OF emits_still [OF e1]]
    by (simp_all add: s4_def)
  ultimately show ?thesis
    using emits_ready [OF e5(2)] emit_readings [OF e5(1)] r4(3) t by fastforce
qed

text \<open>Running the handler: two readings of the monotonic clock and the module's step between them.\<close>

lemma run_handler_quiet:
  assumes "current_control (pd_control pd) s = fresh_control (e_mono env k) (pd_request pd)"
    and "readings s = Suc k" and "builder_ready s"
    and "handler_run env (pd_definition pd) (pd_request pd) k (as_mod s) = (q, m)"
  shows "\<exists>s'. run_handler env pd s = (handler_outcome env (pd_request pd) k q, s')
    \<and> as_mod s' = m \<and> as_adapter s' = as_adapter s \<and> w_log (as_world s') = w_log (as_world s)
    \<and> w_sequence (as_world s') = w_sequence (as_world s)"
  using assms
  by (cases q) (auto simp: run_handler_def call_handler_def handler_run_def handler_outcome_def
      bindE_run thenE_run on_world_run on_mod_def zoomE_run read_mono_run readings_def
      current_control_def fresh_control_def split: sum.splits)

lemma outcome_result_quiet:
  assumes "quiet_env env" and "builder_ready s" and "dt_aware (pd_started pd)"
  shows "\<exists>res md s'. outcome_result env pd q s = (Inr (res, md), s') \<and> as_mod s' = as_mod s
    \<and> trail s' = trail s \<and> builder_ready s'
    \<and> (case q of Inl e \<Rightarrow> rs_status res = fst (failure_of e) \<and> \<not> rs_successful res \<and> rs_effects res = []
          \<and> rs_error_code res = Some (fst (snd (failure_of e)))
          \<and> ad_executions (as_adapter s') = ad_executions (as_adapter s)
        | Inr eff \<Rightarrow> rs_status res = ''executed'' \<and> rs_successful res \<and> rs_effects res = ef_effects eff
          \<and> rb_token (rs_rollback res) = opt_text (ef_rollback_token eff)
          \<and> ad_executions (as_adapter s') = dset (rq_request_id (pd_request pd))
              (pd_definition pd, pd_request pd, eff) (ad_executions (as_adapter s)))"
proof (cases q)
  case (Inl e)
  obtain st code msg where f: "failure_of e = (st, code, msg)" by (metis prod.exhaust)
  obtain res s1 where m: "make_result env (pd_request pd) st False (pd_started pd) [] no_rollback
      (Some code) msg s = (Inr res, s1)" "emits [] s s1"
    using make_result_quiet [OF assms] by metis
  have "outcome_result env pd q s = (Inr (res, []), s1)"
    using m(1) Inl f by (simp add: outcome_result_def bindE_run)
  moreover have "as_mod s1 = as_mod s" "ad_executions (as_adapter s1) = ad_executions (as_adapter s)"
    using still_eq [OF emits_still [OF m(2)]] by simp_all
  ultimately show ?thesis
    using make_result_Inr [OF m(1)] m(2) Inl f by (auto simp: emits_def)
next
  case (Inr eff)
  obtain res s1 where m: "make_result env (pd_request pd) ''executed'' True (pd_started pd)
      (ef_effects eff) (supported_rollback (pd_definition pd) (ef_rollback_token eff)) None
      ''Action executed successfully'' s = (Inr res, s1)" "emits [] s s1"
    using make_result_quiet [OF assms] by metis
  define s2 where "s2 = s1\<lparr>as_adapter := (as_adapter s1)\<lparr>ad_executions :=
    dset (rq_request_id (pd_request pd)) (pd_definition pd, pd_request pd, eff)
      (ad_executions (as_adapter s1))\<rparr>\<rparr>"
  have run: "outcome_result env pd q s = (Inr (res, ef_metadata eff), s2)"
    using m(1) Inr by (simp add: outcome_result_def Let_def bindE_run thenE_run record_execution_def
        upd_adapter_def s2_def)
  have "as_mod s2 = as_mod s" "trail s2 = trail s" "builder_ready s2"
    "ad_executions (as_adapter s2) = dset (rq_request_id (pd_request pd))
       (pd_definition pd, pd_request pd, eff) (ad_executions (as_adapter s))"
    using still_eq [OF emits_still [OF m(2)]] m(2)
    by (simp_all add: s2_def emits_def trail_def builder_ready_def)
  moreover have "rb_token (rs_rollback res) = opt_text (ef_rollback_token eff)"
    using make_result_Inr [OF m(1)] by (simp add: supported_rollback_def)
  ultimately show ?thesis
    using run make_result_Inr [OF m(1)] Inr by auto
qed

lemma finish_pending_quiet:
  assumes "quiet_env env" and "builder_ready s"
  shows "\<exists>s'. finish_pending env pd (res, md) s = (Inr res, s') \<and> as_mod s' = as_mod s
    \<and> builder_ready s' \<and> trail s' = trail s @ [''action.execution.completed'']
    \<and> ad_executions (as_adapter s') = ad_executions (as_adapter s)"
proof -
  let ?r = "pd_request pd"
  obtain s4 where st: "store_result env ?r res s = (Inr (), s4)" using store_result_run by metis
  have r4: "builder_ready s4" "trail s4 = trail s" "as_mod s4 = as_mod s"
    "ad_executions (as_adapter s4) = ad_executions (as_adapter s)"
    using st assms(2) by (auto simp: store_result_run builder_ready_def trail_def)
  obtain s5 where e5: "emit env (audit_of ?r) ''action.execution.completed''
        (if rs_successful res then ''success'' else ''failure'') (rs_message res)
        (df_phase (pd_definition pd)) True
        ([(''status'', VStr (rs_status res)), (''effects'', str_list (rs_effects res))]
         @ (if md = [] then [] else [(''metadata'', VDict md)])) s4 = (Inr (), s5)"
    "emits [''action.execution.completed''] s4 s5"
    using emit_quiet [OF assms(1) r4(1)] by metis
  have "finish_pending env pd (res, md) s = (Inr res, s5)"
    using st e5(1) by (simp add: finish_pending_def thenE_run)
  moreover have "as_mod s5 = as_mod s" "trail s5 = trail s @ [''action.execution.completed'']"
    "ad_executions (as_adapter s5) = ad_executions (as_adapter s)"
    using r4 e5(2) still_eq [OF emits_still [OF e5(2)]] by (simp_all add: emits_def)
  ultimately show ?thesis using emits_ready [OF e5(2)] by blast
qed

text \<open>
  The whole call. The module state after it is the one the handler left, whatever the answer says.
\<close>

lemma execute_run_quiet:
  assumes "quiet_env env" and "builder_ready s" and "version_ok raw" and "\<not> rq_dry_run raw"
    and "judge env (as_adapter s) (as_mod s) (redact_request raw) = Allow d"
    and "handler_run env d (redact_request raw) (readings s) (as_mod s) = (q, m)"
  shows "\<exists>res s'. execute env raw s = (Inr res, s') \<and> as_mod s' = m \<and> builder_ready s'
    \<and> stored (request_key raw) s' = Some res
    \<and> trail s' = trail s @ [''action.requested'', ''action.authorization.granted'',
        ''action.execution.started'', ''action.execution.completed'']
    \<and> (case handler_outcome env (redact_request raw) (readings s) q of
         Inl e \<Rightarrow> rs_status res = fst (failure_of e) \<and> \<not> rs_successful res \<and> rs_effects res = []
           \<and> rs_error_code res = Some (fst (snd (failure_of e)))
           \<and> ad_executions (as_adapter s') = ad_executions (as_adapter s)
       | Inr eff \<Rightarrow> rs_status res = ''executed'' \<and> rs_successful res \<and> rs_effects res = ef_effects eff
           \<and> rb_token (rs_rollback res) = opt_text (ef_rollback_token eff)
           \<and> ad_executions (as_adapter s') = dset (rq_request_id raw)
               (d, redact_request raw, eff) (ad_executions (as_adapter s)))"
proof -
  let ?r = "redact_request raw"
  obtain pd s1 where be: "begin_execution env raw s = (Inr (Inr pd), s1)"
    and pd: "pd_definition pd = d" "dt_aware (pd_started pd)"
    and s1: "builder_ready s1" "readings s1 = Suc (readings s)" "as_mod s1 = as_mod s"
      "ad_executions (as_adapter s1) = ad_executions (as_adapter s)"
      "current_control (pd_control pd) s1 = fresh_control (e_mono env (readings s)) raw"
    and t1: "trail s1 = trail s @ [''action.requested'', ''action.authorization.granted'',
        ''action.execution.started'']"
    using begin_quiet [OF assms(1-5)] by blast
  have pr: "pd_request pd = ?r" using begin_execution_pending [OF be] by simp
  have fc: "fresh_control now raw = fresh_control now ?r" for now by (simp add: fresh_control_def)
  have hr: "handler_run env (pd_definition pd) (pd_request pd) (readings s) (as_mod s1) = (q, m)"
    unfolding pd(1) pr s1(3) by (rule assms(6))
  have cc: "current_control (pd_control pd) s1 = fresh_control (e_mono env (readings s)) (pd_request pd)"
    unfolding pr s1(5) by (rule fc)
  let ?q = "handler_outcome env ?r (readings s) q"
  obtain s2 where rh: "run_handler env pd s1 = (?q, s2)" and s2: "as_mod s2 = m"
      "as_adapter s2 = as_adapter s1" "w_log (as_world s2) = w_log (as_world s1)"
      "w_sequence (as_world s2) = w_sequence (as_world s1)"
    using run_handler_quiet [OF cc s1(2,1) hr, unfolded pr] by (elim exE conjE) (rule that)
  have r2: "builder_ready s2" "trail s2 = trail s1"
    using s1(1) s2 by (simp_all add: builder_ready_def trail_def)
  obtain res md s3 where oc: "outcome_result env pd ?q s2 = (Inr (res, md), s3)"
    and s3: "as_mod s3 = as_mod s2" "trail s3 = trail s2" "builder_ready s3"
    and ans: "case ?q of Inl e \<Rightarrow> rs_status res = fst (failure_of e) \<and> \<not> rs_successful res
          \<and> rs_effects res = [] \<and> rs_error_code res = Some (fst (snd (failure_of e)))
          \<and> ad_executions (as_adapter s3) = ad_executions (as_adapter s2)
        | Inr eff \<Rightarrow> rs_status res = ''executed'' \<and> rs_successful res \<and> rs_effects res = ef_effects eff
          \<and> rb_token (rs_rollback res) = opt_text (ef_rollback_token eff)
          \<and> ad_executions (as_adapter s3) = dset (rq_request_id (pd_request pd))
              (pd_definition pd, pd_request pd, eff) (ad_executions (as_adapter s2))"
    using outcome_result_quiet [OF assms(1) r2(1) pd(2), of ?q] by (elim exE conjE) (rule that)
  define s4 where "s4 = drop_running (rq_request_id (pd_request pd)) s3"
  have rp: "run_pending env pd s1 = (Inr (res, md), s4)"
    using rh oc by (simp add: run_pending_def finallyE_run bindE_run attemptE_def s4_def)
  have s4: "builder_ready s4" "trail s4 = trail s3" "as_mod s4 = as_mod s3"
    "ad_executions (as_adapter s4) = ad_executions (as_adapter s3)"
    using s3(3) by (simp_all add: s4_def drop_running_def builder_ready_def trail_def)
  obtain s5 where fp: "finish_pending env pd (res, md) s4 = (Inr res, s5)"
    and s5: "as_mod s5 = as_mod s4" "builder_ready s5"
      "trail s5 = trail s4 @ [''action.execution.completed'']"
      "ad_executions (as_adapter s5) = ad_executions (as_adapter s4)"
    using finish_pending_quiet [OF assms(1) s4(1)] by metis
  have ex: "execute env raw s = (Inr res, s5)"
    using be rp fp by (simp add: execute_run bindE_run)
  have "stored (request_key raw) s5 = Some res"
    using finish_pending_run [OF fp, of "request_key raw"] pr by simp
  moreover have "trail s5 = trail s @ [''action.requested'', ''action.authorization.granted'',
        ''action.execution.started'', ''action.execution.completed'']"
    using t1 r2(2) s3(2) s4(2) s5(3) by simp
  moreover have "as_mod s5 = m" using s5(1) s4(3) s3(1) s2(1) by simp
  moreover have "ad_executions (as_adapter s5) = ad_executions (as_adapter s3)"
    using s5(4) s4(4) by simp
  moreover have "ad_executions (as_adapter s2) = ad_executions (as_adapter s)"
    using s2(2) s1(4) by simp
  moreover note ex s5(2) ans
  ultimately show ?thesis
    by (intro exI [of _ res] exI [of _ s5] conjI) (simp_all add: pr pd(1) split: sum.splits)
qed

end
