(* ===== verification/Samples.thy ===== *)
theory Samples
  imports AdapterTrails
begin

text \<open>
  Concrete surroundings, and a module of one counter with one action, at which the general statements
  about the adapter are instantiated. The clocks are counters, the validators accept.
\<close>

definition sample_env :: env where
  "sample_env = \<lparr>e_sink = (\<lambda>_ _. None), e_event_errors = (\<lambda>_. []), e_action_errors = (\<lambda>_. []),
     e_uuid = (\<lambda>n. ''id-'' @ nat_str n), e_clock = (\<lambda>_. \<lparr>dt_us = 0, dt_aware = True\<rparr>),
     e_mono = int, e_sha256 = id\<rparr>"

definition sample_world :: world where
  "sample_world = \<lparr>w_log = [], w_sequence = 0, w_uuids = 0, w_clocks = 0, w_monos = 0\<rparr>"

definition sample_context :: event_context where
  "sample_context = \<lparr>cx_exercise_id = ''ex'', cx_run_id = ''run'', cx_source_kind = ''module'',
     cx_source_component = ''sample'', cx_producer_version = ''1.0.0'', cx_source_host = None\<rparr>"

text \<open>The handler counts its calls; it fails with a deadline of zero.\<close>

definition sample_definition :: "nat action_definition" where
  "sample_definition = \<lparr>df_action_id = ''count.up'', df_phase = ''impact'',
     df_allowed_roles = [''operator''], df_allowed_targets = [''asset:a''],
     df_allowed_run_states = [''running''], df_max_timeout_seconds = 30,
     df_expected_effects = [''counted''], df_rollback_method = ''undo'',
     df_handler = (\<lambda>_ _ control now n. case checkpoint control now of
        Inl e \<Rightarrow> (Inl e, n) | Inr _ \<Rightarrow> (Inr (action_effect [''counted''] (Some ''t'')), Suc n)),
     df_rollback_handler = (\<lambda>_ _ _ n. (Inr [''undone''], n - 1)), df_parameter_validator = None\<rparr>"

definition sample_state :: "nat astate" where
  "sample_state = \<lparr>as_world = sample_world,
     as_adapter = new_adapter sample_context [(''count.up'', sample_definition)]
       (\<lambda>_ _ _. ''running'') True,
     as_mod = 0\<rparr>"

definition sample_entity :: "string \<Rightarrow> string \<Rightarrow> entity" where
  "sample_entity kind role = entity kind ''a'' None (Some role)"

definition sample_request :: "string \<Rightarrow> bool \<Rightarrow> int \<Rightarrow> action_request" where
  "sample_request key dry timeout = \<lparr>rq_schema_version = ''1.0.0'', rq_request_id = ''req-'' @ key,
     rq_idempotency_key = key, rq_timestamp = ''t'', rq_exercise_id = ''ex'', rq_run_id = ''run'',
     rq_actor = entity ''user'' ''u'' None (Some ''operator''), rq_action_id = ''count.up'',
     rq_target = entity ''asset'' ''a'' None None, rq_parameters = [], rq_dry_run = dry,
     rq_timeout_seconds = timeout\<rparr>"

lemmas sample_defs = sample_env_def sample_world_def sample_context_def sample_definition_def
  sample_state_def sample_entity_def sample_request_def

lemma sample_quiet: "quiet_env sample_env"
  by (simp add: quiet_env_def sample_env_def)

lemma sample_ready: "builder_ready sample_state"
  by (simp add: builder_ready_def sample_defs new_adapter_def fresh_builder_def)

lemma sample_version: "version_ok (sample_request k d t)"
  by (simp add: version_ok_def sample_request_def starts_with_def)

lemma sample_judge: "t \<le> 30 \<Longrightarrow> judge sample_env (as_adapter sample_state) (as_mod sample_state)
    (redact_request (sample_request k d t)) = Allow sample_definition"
  by (simp add: judge_Allow_iff)
    (simp add: sample_defs new_adapter_def role_in_def entity_def opt_text_def target_key_def)

lemma sample_executes:
  "\<exists>res s'. execute sample_env (sample_request k False 5) sample_state = (Inr res, s')
     \<and> rs_status res = ''executed'' \<and> as_mod s' = Suc 0"
proof -
  have h: "handler_run sample_env sample_definition (redact_request (sample_request k False 5))
      (readings sample_state) (as_mod sample_state) = (Inr (action_effect [''counted''] (Some ''t'')), Suc 0)"
    by (simp add: handler_run_def fresh_control_def checkpoint_def readings_def sample_defs)
  have o: "handler_outcome sample_env (redact_request (sample_request k False 5)) (readings sample_state)
      (Inr (action_effect [''counted''] (Some ''t''))) = Inr (action_effect [''counted''] (Some ''t''))"
    by (simp add: handler_outcome_def fresh_control_def checkpoint_def readings_def sample_defs)
  have nd: "\<not> rq_dry_run (sample_request k False 5)" by (simp add: sample_request_def)
  show ?thesis
    using execute_run_quiet [OF sample_quiet sample_ready sample_version nd sample_judge h]
    unfolding o by auto
qed

end
