(* ===== verification/Ledger.thy ===== *)
theory Ledger
  imports Events
begin

text \<open>
  \<open>EventLedger\<close> of \<^verbatim>\<open>shared/events.py\<close>: an append-only JSONL file with an index of the event
  identifiers and of the last sequence number of each exercise run.

  The file is the list of its lines, each as \<open>json.loads\<close> reads it. A line that is a JSON object
  with the fields of the contract is \<open>Entry e\<close>; the others are the cases \<open>iter_jsonl\<close> and
  \<open>_check\<close> tell apart.
\<close>

section \<open>Reading timestamps\<close>

definition num_at :: "nat \<Rightarrow> nat \<Rightarrow> string \<Rightarrow> int option" where
  "num_at i n s = (let t = take n (drop i s) in
     if length t = n \<and> list_all is_digit t then Some (int (digits_value t)) else None)"

definition char_at :: "nat \<Rightarrow> char \<Rightarrow> string \<Rightarrow> bool" where
  "char_at i c s \<longleftrightarrow> take 1 (drop i s) = [c]"

definition days_in_month :: "int \<Rightarrow> int \<Rightarrow> int" where
  "days_in_month y m = (if m = 2 then (if y mod 4 = 0 \<and> (y mod 100 \<noteq> 0 \<or> y mod 400 = 0) then 29 else 28)
     else if m \<in> {4, 6, 9, 11} then 30 else 31)"

text \<open>A fraction of three or six digits, in microseconds, and what follows it.\<close>

definition read_fraction :: "string \<Rightarrow> (int \<times> string) option" where
  "read_fraction s = (if \<not> char_at 0 (CHR ''.'') s then Some (0, s)
     else case num_at 1 6 s of Some f \<Rightarrow> Some (f, drop 7 s)
       | None \<Rightarrow> (case num_at 1 3 s of Some f \<Rightarrow> Some (1000 * f, drop 4 s) | None \<Rightarrow> None))"

text \<open>The offset in minutes: none for a naive time.\<close>

definition read_offset :: "string \<Rightarrow> int option option" where
  "read_offset s = (if s = [] then Some None
     else if length s = 6 \<and> (char_at 0 (CHR ''+'') s \<or> char_at 0 (CHR ''-'') s) \<and> char_at 3 (CHR '':'') s
     then (case (num_at 1 2 s, num_at 4 2 s) of
        (Some h, Some m) \<Rightarrow> (if h < 24 \<and> m < 60
           then Some (Some ((if char_at 0 (CHR ''-'') s then -1 else 1) * (60 * h + m))) else None)
      | _ \<Rightarrow> None)
     else None)"

text \<open>
  \<open>datetime.fromisoformat\<close> on the extended format with a date, a time to seconds, an optional
  fraction and an optional offset.
\<close>

definition from_iso :: "string \<Rightarrow> datetime option" where
  "from_iso s = (case (num_at 0 4 s, num_at 5 2 s, num_at 8 2 s, num_at 11 2 s, num_at 14 2 s,
        num_at 17 2 s, read_fraction (drop 19 s)) of
     (Some y, Some mo, Some d, Some h, Some mi, Some sec, Some (frac, rest)) \<Rightarrow>
       (if char_at 4 (CHR ''-'') s \<and> char_at 7 (CHR ''-'') s \<and> char_at 10 (CHR ''T'') s
          \<and> char_at 13 (CHR '':'') s \<and> char_at 16 (CHR '':'') s
          \<and> 1 \<le> y \<and> 1 \<le> mo \<and> mo \<le> 12 \<and> 1 \<le> d \<and> d \<le> days_in_month y mo
          \<and> h < 24 \<and> mi < 60 \<and> sec < 60
        then (let local = ((days_of_civil y mo d * 24 + h) * 60 + mi) * 60000000
                + sec * 1000000 + frac
              in case read_offset rest of
                   None \<Rightarrow> None
                 | Some None \<Rightarrow> Some \<lparr>dt_us = local, dt_aware = False\<rparr>
                 | Some (Some off) \<Rightarrow> Some \<lparr>dt_us = local - off * 60000000, dt_aware = True\<rparr>)
        else None)
   | _ \<Rightarrow> None)"

definition replace_Z :: "string \<Rightarrow> string" where
  "replace_Z s = concat (map (\<lambda>c. if c = CHR ''Z'' then ''+00:00'' else [c]) s)"

definition require_aware :: "datetime \<Rightarrow> exc + int" where
  "require_aware t = (if dt_aware t then Inr (dt_us t)
     else Inl (EventContractError ''timestamps must be timezone-aware''))"

definition parse_timestamp :: "string \<Rightarrow> exc + int" where
  "parse_timestamp s = (case from_iso (replace_Z s) of
     None \<Rightarrow> Inl (EventLedgerError (''invalid event timestamp: '' @ s))
   | Some t \<Rightarrow> require_aware t)"

section \<open>The ledger\<close>

datatype jsonl_line =
    Blank
  | Malformed string
  | NotObject
  | Invalid exc
  | Entry event

record ledger =
  lg_file :: "jsonl_line list"
  lg_ids :: "string list"
  lg_last :: "((string \<times> string) \<times> int) list"
  lg_count :: nat
  lg_skew :: int

definition check_event :: "env \<Rightarrow> datetime option \<Rightarrow> event \<Rightarrow> ledger \<Rightarrow> exc + unit" where
  "check_event env now event lg = (case validate_event env (event_row event) of
     Inl e \<Rightarrow> Inl e
   | Inr _ \<Rightarrow>
     if ev_event_id event \<in> set (lg_ids lg)
     then Inl (EventLedgerError (''duplicate event_id: '' @ ev_event_id event))
     else if (case map_of (lg_last lg) (correlation_key event) of None \<Rightarrow> False
              | Some previous \<Rightarrow> ev_sequence event \<le> previous)
     then Inl (EventLedgerError (''out-of-order sequence for '' @ ev_exercise_id event @ ''/''
                @ ev_run_id event))
     else (case now of None \<Rightarrow> Inr ()
       | Some clock \<Rightarrow> (case parse_timestamp (ev_timestamp event) of Inl e \<Rightarrow> Inl e
         | Inr event_time \<Rightarrow> (case require_aware clock of Inl e \<Rightarrow> Inl e
           | Inr t \<Rightarrow> if lg_skew lg < event_time - t
               then Inl (EventLedgerError ''event timestamp is too far in the future'')
               else Inr ()))))"

definition remember :: "event \<Rightarrow> ledger \<Rightarrow> ledger" where
  "remember event lg = lg\<lparr>lg_ids := List.insert (ev_event_id event) (lg_ids lg),
     lg_last := AList.update (correlation_key event) (ev_sequence event) (lg_last lg),
     lg_count := Suc (lg_count lg)\<rparr>"

text \<open>
  \<open>append\<close>: redact, check, write one line, then index it. \<open>io\<close> is what opening or writing the file
  raises, if it does; then no line is written.
\<close>

definition append_event :: "env \<Rightarrow> datetime \<Rightarrow> exc option \<Rightarrow> event \<Rightarrow> (ledger, event) prog" where
  "append_event env now io event =
     (let sanitized = redact_event event in
      bindE (getE (check_event env (Some now) sanitized)) (\<lambda>checked.
      thenE (liftE checked)
     (thenE (case io of Some e \<Rightarrow> raise e
             | None \<Rightarrow> updE (\<lambda>lg. lg\<lparr>lg_file := lg_file lg @ [Entry sanitized]\<rparr>))
     (thenE (updE (remember sanitized)) (ret sanitized)))))"

text \<open>
  \<open>_load_existing\<close>. \<open>iter_jsonl\<close> numbers the lines of the file for its own errors; the enumeration
  around it numbers the events it yields, so a contract error is reported with the number of the
  event, blank lines not counted.
\<close>

fun load_lines :: "env \<Rightarrow> nat \<Rightarrow> nat \<Rightarrow> jsonl_line list \<Rightarrow> (ledger, unit) prog" where
  "load_lines env line number [] = ret ()"
| "load_lines env line number (Blank # rest) = load_lines env (Suc line) number rest"
| "load_lines env line number (Malformed msg # rest) =
     raise (EventLedgerError (''invalid JSON at '' @ nat_str line @ '': '' @ msg))"
| "load_lines env line number (NotObject # rest) =
     raise (EventLedgerError (''event at '' @ nat_str line @ '' must be a JSON object''))"
| "load_lines env line number (Invalid e # rest) =
     raise (if is_event_contract_error e
       then EventLedgerError (''invalid existing event at '' @ nat_str number @ '': '' @ exc_text e)
       else e)"
| "load_lines env line number (Entry event # rest) =
     bindE (getE (check_event env None event)) (\<lambda>checked.
       case checked of
         Inl e \<Rightarrow> raise (if is_event_contract_error e
           then EventLedgerError (''invalid existing event at '' @ nat_str number @ '': '' @ exc_text e)
           else e)
       | Inr _ \<Rightarrow> thenE (updE (remember event)) (load_lines env (Suc line) (Suc number) rest))"

definition empty_ledger :: "jsonl_line list \<Rightarrow> int \<Rightarrow> ledger" where
  "empty_ledger file skew =
     \<lparr>lg_file = file, lg_ids = [], lg_last = [], lg_count = 0, lg_skew = skew\<rparr>"

definition new_ledger :: "env \<Rightarrow> jsonl_line list \<Rightarrow> int \<Rightarrow> bool \<Rightarrow> exc + ledger" where
  "new_ledger env file skew load_existing =
     (if skew < 0 then Inl (EventLedgerError ''max_future_skew cannot be negative'')
      else if load_existing
      then (case load_lines env 1 1 file (empty_ledger file skew) of
              (Inl e, _) \<Rightarrow> Inl e | (Inr _, lg) \<Rightarrow> Inr lg)
      else Inr (empty_ledger file skew))"

section \<open>The invariant of a ledger\<close>

text \<open>The events of a file, and the index a correct ledger has of them.\<close>

definition entries :: "jsonl_line list \<Rightarrow> event list" where
  "entries file = List.map_filter (\<lambda>l. case l of Entry e \<Rightarrow> Some e | _ \<Rightarrow> None) file"

definition well_ordered :: "event list \<Rightarrow> bool" where
  "well_ordered es \<longleftrightarrow> distinct (map ev_event_id es)
     \<and> (\<forall>key. sorted_wrt (<) (map ev_sequence (filter (\<lambda>e. correlation_key e = key) es)))"

definition last_of :: "event list \<Rightarrow> string \<times> string \<Rightarrow> int option" where
  "last_of es key = (case rev (filter (\<lambda>e. correlation_key e = key) es) of
     [] \<Rightarrow> None | e # _ \<Rightarrow> Some (ev_sequence e))"

definition indexes :: "event list \<Rightarrow> ledger \<Rightarrow> bool" where
  "indexes es lg \<longleftrightarrow> set (lg_ids lg) = ev_event_id ` set es \<and> map_of (lg_last lg) = last_of es
     \<and> lg_count lg = length es"

definition ledger_inv :: "ledger \<Rightarrow> bool" where
  "ledger_inv lg \<longleftrightarrow> well_ordered (entries (lg_file lg)) \<and> indexes (entries (lg_file lg)) lg"

lemma entries_simps [simp]:
  "entries [] = []" "entries (Entry e # ls) = e # entries ls" "entries (Blank # ls) = entries ls"
  "entries (xs @ ys) = entries xs @ entries ys"
  by (simp_all add: entries_def List.map_filter_def)

lemma last_of_snoc: "last_of (es @ [e]) = (last_of es)(correlation_key e \<mapsto> ev_sequence e)"
  by (rule ext) (simp add: last_of_def)

lemma last_of_upper:
  assumes "well_ordered es" and "e \<in> set es"
  shows "\<exists>n. last_of es (correlation_key e) = Some n \<and> ev_sequence e \<le> n"
  using assms
proof (induction es rule: rev_induct)
  case Nil
  then show ?case by simp
next
  case (snoc x es)
  have wo: "well_ordered es"
    using snoc.prems(1) by (auto simp: well_ordered_def sorted_wrt_append)
  show ?case
  proof (cases "correlation_key e = correlation_key x")
    case False
    then have "e \<in> set es" using snoc.prems(2) by auto
    then show ?thesis using snoc.IH [OF wo] False by (simp add: last_of_snoc)
  next
    case True
    have "sorted_wrt (<) (map ev_sequence
        (filter (\<lambda>y. correlation_key y = correlation_key x) (es @ [x])))"
      using snoc.prems(1) unfolding well_ordered_def by blast
    then have "e \<in> set es \<Longrightarrow> ev_sequence e < ev_sequence x"
      using True by (auto simp: sorted_wrt_append)
    then show ?thesis using True snoc.prems(2) by (auto simp: last_of_snoc)
  qed
qed

lemma indexes_empty: "indexes [] (empty_ledger file skew)"
  by (auto simp: indexes_def empty_ledger_def last_of_def)

lemma indexes_remember: "indexes es lg \<Longrightarrow> indexes (es @ [e]) (remember e lg)"
  by (simp add: indexes_def remember_def update_conv' last_of_snoc)

text \<open>A check that passes means the event may be appended to what the index describes.\<close>

lemma check_event_extends:
  assumes "check_event env now e lg = Inr ()" and "indexes es lg" and "well_ordered es"
  shows "well_ordered (es @ [e])"
proof -
  have new: "ev_event_id e \<notin> ev_event_id ` set es"
    using assms(1,2) by (auto simp: check_event_def indexes_def split: sum.splits if_splits)
  have later: "\<And>n. last_of es (correlation_key e) = Some n \<Longrightarrow> n < ev_sequence e"
    using assms(1,2) by (auto simp: check_event_def indexes_def split: sum.splits if_splits)
  have "ev_sequence x < ev_sequence e" if "x \<in> set es" "correlation_key x = correlation_key e" for x
    using last_of_upper [OF assms(3) that(1)] later that(2) by fastforce
  then show ?thesis
    using assms(3) new by (auto simp: well_ordered_def sorted_wrt_append image_iff)
qed

lemma append_event_cases:
  "append_event env now io event lg =
     (case check_event env (Some now) (redact_event event) lg of
        Inl e \<Rightarrow> (Inl e, lg)
      | Inr _ \<Rightarrow> (case io of Some e \<Rightarrow> (Inl e, lg)
          | None \<Rightarrow> (Inr (redact_event event), remember (redact_event event)
              (lg\<lparr>lg_file := lg_file lg @ [Entry (redact_event event)]\<rparr>))))"
  by (simp add: append_event_def Let_def prog_simps split: sum.splits option.splits)

lemma append_event_inv: "ledger_inv lg \<Longrightarrow> ledger_inv (snd (append_event env now io event lg))"
proof -
  assume inv: "ledger_inv lg"
  let ?e = "redact_event event"
  have "ledger_inv (remember ?e (lg\<lparr>lg_file := lg_file lg @ [Entry ?e]\<rparr>))"
    if c: "check_event env (Some now) ?e lg = Inr ()"
  proof -
    have "well_ordered (entries (lg_file lg) @ [?e])"
      using check_event_extends [OF c] inv by (simp add: ledger_inv_def)
    moreover have "indexes (entries (lg_file lg) @ [?e]) (remember ?e (lg\<lparr>lg_file := f\<rparr>))" for f
      using indexes_remember [of "entries (lg_file lg)" "lg\<lparr>lg_file := f\<rparr>" ?e] inv
      by (simp add: ledger_inv_def indexes_def)
    ultimately show ?thesis by (simp add: ledger_inv_def remember_def)
  qed
  then show ?thesis using inv by (simp add: append_event_cases split: sum.splits option.splits)
qed

section \<open>Closing and reopening a ledger\<close>

definition loadable :: "env \<Rightarrow> jsonl_line list \<Rightarrow> bool" where
  "loadable env file \<longleftrightarrow> list_all (\<lambda>l. case l of Blank \<Rightarrow> True
     | Entry e \<Rightarrow> validate_event env (event_row e) = Inr () | _ \<Rightarrow> False) file"

lemma last_of_member:
  "last_of es key = Some n \<Longrightarrow> \<exists>x\<in>set es. correlation_key x = key \<and> ev_sequence x = n"
  by (induction es rule: rev_induct)
    (auto simp: last_of_snoc split: if_splits, simp add: last_of_def)

lemma check_event_accepts:
  assumes "validate_event env (event_row e) = Inr ()" and "indexes es lg"
    and "well_ordered (es @ [e])"
  shows "check_event env None e lg = Inr ()"
proof -
  have new: "ev_event_id e \<notin> set (lg_ids lg)"
    using assms(2,3) by (auto simp: indexes_def well_ordered_def)
  have "\<not> (\<exists>n. last_of es (correlation_key e) = Some n \<and> ev_sequence e \<le> n)"
  proof
    assume "\<exists>n. last_of es (correlation_key e) = Some n \<and> ev_sequence e \<le> n"
    then obtain x where x: "x \<in> set es" "correlation_key x = correlation_key e"
        "ev_sequence e \<le> ev_sequence x"
      by (auto dest: last_of_member)
    have "sorted_wrt (<) (map ev_sequence
        (filter (\<lambda>y. correlation_key y = correlation_key e) (es @ [e])))"
      using assms(3) unfolding well_ordered_def by blast
    then have "ev_sequence x < ev_sequence e"
      using x by (auto simp: sorted_wrt_append)
    then show False using x by simp
  qed
  then show ?thesis
    using assms(1,2) new by (auto simp: check_event_def indexes_def split: option.splits)
qed

lemma well_ordered_prefix: "well_ordered (xs @ ys) \<Longrightarrow> well_ordered xs"
  by (auto simp: well_ordered_def sorted_wrt_append)

lemma load_lines_complete:
  assumes "loadable env ls" and "well_ordered (es @ entries ls)" and "indexes es lg"
  shows "\<exists>lg'. load_lines env i j ls lg = (Inr (), lg') \<and> indexes (es @ entries ls) lg'
    \<and> lg_file lg' = lg_file lg"
  using assms
proof (induction ls arbitrary: es lg i j)
  case Nil
  then show ?case by simp
next
  case (Cons l ls)
  show ?case
  proof (cases l)
    case (Entry e)
    have wo: "well_ordered ((es @ [e]) @ entries ls)"
      using Cons.prems(2) Entry by simp
    have "check_event env None e lg = Inr ()"
      using check_event_accepts [of env e es lg] Cons.prems(1,3) well_ordered_prefix [OF wo] Entry
      by (simp add: loadable_def)
    moreover have "loadable env ls" using Cons.prems(1) by (simp add: loadable_def)
    ultimately show ?thesis
      using Cons.IH [OF _ wo indexes_remember [OF Cons.prems(3)], of "Suc i" "Suc j"] Entry
      by (simp add: prog_simps remember_def)
  qed (use Cons in \<open>auto simp: loadable_def\<close>)
qed

lemma load_lines_sound:
  assumes "load_lines env i j ls lg = (Inr (), lg')" and "indexes es lg" and "well_ordered es"
  shows "loadable env ls \<and> well_ordered (es @ entries ls) \<and> indexes (es @ entries ls) lg'
    \<and> lg_file lg' = lg_file lg"
  using assms
proof (induction ls arbitrary: es lg i j)
  case Nil
  then show ?case by (simp add: loadable_def)
next
  case (Cons l ls)
  show ?case
  proof (cases l)
    case (Entry e)
    then have c: "check_event env None e lg = Inr ()"
      and rest: "load_lines env (Suc i) (Suc j) ls (remember e lg) = (Inr (), lg')"
      using Cons.prems(1) by (auto simp: prog_simps split: sum.splits)
    have "validate_event env (event_row e) = Inr ()"
      using c by (simp add: check_event_def split: sum.splits)
    then show ?thesis
      using Cons.IH [OF rest indexes_remember [OF Cons.prems(2)]
          check_event_extends [OF c Cons.prems(2,3)]] Entry
      by (simp add: loadable_def remember_def)
  qed (use Cons in \<open>auto simp: loadable_def\<close>)
qed

lemma append_event_loadable:
  "loadable env (lg_file lg) \<Longrightarrow> loadable env (lg_file (snd (append_event env now io event lg)))"
  by (auto simp: append_event_cases loadable_def remember_def check_event_def
      split: sum.splits option.splits)

text \<open>A session of appends; one that raises leaves the ledger as it was and the session goes on.\<close>

fun append_all :: "env \<Rightarrow> (datetime \<times> exc option \<times> event) list \<Rightarrow> ledger \<Rightarrow> ledger" where
  "append_all env [] lg = lg"
| "append_all env ((now, io, event) # rest) lg =
     append_all env rest (snd (append_event env now io event lg))"

lemma append_all_inv:
  "ledger_inv lg \<Longrightarrow> loadable env (lg_file lg) \<Longrightarrow>
   ledger_inv (append_all env session lg) \<and> loadable env (lg_file (append_all env session lg))"
proof (induction session arbitrary: lg)
  case Nil
  then show ?case by simp
next
  case (Cons x session)
  then show ?case
    by (cases x) (simp add: append_event_inv append_event_loadable)
qed

lemma new_ledger_empty_inv: "ledger_inv (empty_ledger [] skew)"
  using indexes_empty [of "[]" skew]
  by (simp add: ledger_inv_def empty_ledger_def well_ordered_def)

end
