(* ===== verification/CoreProps.thy ===== *)
theory CoreProps
  imports Samples Ledger
begin

text \<open>
  The properties of the shared contracts: events, the ledger, and the safe-action adapter. Each
  property with hypotheses is followed by an instance at the sample module.
\<close>

section \<open>Events\<close>

text \<open>C6: Redacting a dictionary replaces the value of every field with a sensitive name, at every
  depth and under any spelling of the name, keeps the field names and their order, and redacting
  again changes nothing.\<close>

theorem redaction_complete:
  "clean SENSITIVE_KEYS (VDict (redact_row d)) \<and> map fst (redact_row d) = map fst d
     \<and> redact_row (redact_row d) = redact_row d"
  by (intro conjI redact_row_keys redact_row_twice) (simp only: VDict_redact_row clean_redact)

text \<open>C7: Whatever producers share one \<open>EventSequencer\<close> (adapters, controllers, stages), in whatever
  order they emit and whichever of their emissions fail, the events of a run stand in the log in
  strictly increasing order of their sequence numbers.\<close>

theorem shared_sequencer_orders_run:
  assumes "list_all bl_shared bs" and "w_log w = []"
  shows "sorted_wrt (<) (map ev_sequence (run_log rid (fst (produce_all env jobs (w, bs)))))"
  using produce_all_ordered [OF assms(1), of rid w env jobs] assms(2)
  by (simp add: log_ordered_def run_log_def)

lemma shared_sequencer_orders_run_witness:
  "sorted_wrt (<) (map ev_sequence (run_log ''run'' (fst (produce_all sample_env
     [(0, event_args ''a'' ''impact'' (sample_entity ''user'' ''x'') ''act'' None ''success'' ''m''),
      (1, event_args ''b'' ''impact'' (sample_entity ''user'' ''x'') ''act'' None ''success'' ''m'')]
     (sample_world, [fresh_builder sample_context True, fresh_builder sample_context True])))))"
  by (rule shared_sequencer_orders_run)
    (simp_all add: fresh_builder_def sample_world_def)

text \<open>An event that reaches the sink belongs to the builder's exercise run, is marked as a
  simulation and not destructive, was accepted by the validator under schema major 1, carries no
  unredacted sensitive field, and is one line at the end of the log.\<close>

theorem sunk_event_contract:
  assumes "build_and_sink env a (w, b) = (Inr ev, (w', b'))"
  shows "w_log w' = w_log w @ [ev]
    \<and> correlation_key ev = (cx_exercise_id (bl_context b), cx_run_id (bl_context b))
    \<and> sf_simulation_only (ev_safety ev) \<and> \<not> sf_destructive (ev_safety ev)
    \<and> e_event_errors env (VDict (event_row ev)) = []
    \<and> clean SENSITIVE_KEYS (VDict (ev_data ev)) \<and> redact_row (event_row ev) = event_row ev"
proof -
  from build_and_sink_log [OF assms] obtain nx eid ts
    where log: "w_log w' = w_log w @ [ev]" and ev: "ev = make_event (bl_context b) a nx eid ts"
      and valid: "validate_event env (event_row ev) = Inr ()"
    by auto
  have "redact_event ev = ev" by (simp add: ev make_event_def redact_event_def)
  then have "redact_row (event_row ev) = event_row ev" by (simp add: redact_event_row)
  moreover have "clean SENSITIVE_KEYS (VDict (ev_data ev))"
    by (simp only: ev make_event_def event.simps VDict_redact_row clean_redact)
  ultimately show ?thesis
    using log validate_event_major [OF valid]
    by (auto simp: ev make_event_def correlation_key_def safety_marker_def)
qed

lemma sunk_event_contract_witness:
  "\<exists>ev w' b'. build_and_sink sample_env (event_args ''a'' ''impact'' (sample_entity ''user'' ''x'') ''act''
      None ''success'' ''m'') (sample_world, fresh_builder sample_context True) = (Inr ev, (w', b'))
    \<and> w_log w' = [ev] \<and> sf_simulation_only (ev_safety ev)"
proof -
  let ?a = "event_args ''a'' ''impact'' (sample_entity ''user'' ''x'') ''act'' None ''success'' ''m''"
  let ?b = "fresh_builder sample_context True"
  obtain ev w' b' where b: "build sample_env ?a (sample_world, ?b) = (Inr ev, (w', b'))"
    using build_quiet [OF sample_quiet, of ?b sample_world ?a]
    by (auto simp: fresh_builder_def sample_world_def event_args_def)
  have run: "build_and_sink sample_env ?a (sample_world, ?b)
      = (Inr ev, (w'\<lparr>w_log := w_log w' @ [ev]\<rparr>, b'))"
    by (simp add: build_and_sink_def b prog_simps) (simp add: sample_env_def)
  show ?thesis using run sunk_event_contract [OF run] by (auto simp: sample_world_def)
qed

section \<open>The ledger\<close>



text \<open>An append is accepted exactly when the redacted event is valid, new, later than the last
  event of its run and not too far in the future, and the file can be written; otherwise it raises
  and the ledger is unchanged, file and index.\<close>

theorem append_all_or_nothing:
  "(case append_event env now io event lg of
      (Inl e, lg') \<Rightarrow> lg' = lg \<and> (check_event env (Some now) (redact_event event) lg = Inl e \<or> io = Some e)
    | (Inr ev, lg') \<Rightarrow> ev = redact_event event \<and> io = None
        \<and> ev_event_id ev \<notin> set (lg_ids lg)
        \<and> (case map_of (lg_last lg) (correlation_key ev) of None \<Rightarrow> True | Some n \<Rightarrow> n < ev_sequence ev)
        \<and> lg_file lg' = lg_file lg @ [Entry ev] \<and> lg_count lg' = Suc (lg_count lg)
        \<and> map_of (lg_last lg') = (map_of (lg_last lg))(correlation_key ev \<mapsto> ev_sequence ev))"
  by (auto simp: append_event_cases check_event_def remember_def update_conv' split: sum.splits option.splits if_splits)

section \<open>The safe-action adapter\<close>

text \<open>C1: If a call of \<open>execute\<close> changes the module state in any way, every control was in force and
  satisfied: the request is for the adapter's exercise run, is no dry run, its idempotency key has no
  stored answer, the action is registered, the run is not stopped and in an allowed state, the actor's
  role and the target are on the action's lists, the timeout is within policy and the parameters pass.\<close>

theorem effect_requires_admission:
  assumes "as_mod (snd (execute env raw s)) \<noteq> as_mod s"
  shows "\<exists>d. map_of (ad_registry (as_adapter s)) (rq_action_id raw) = Some d
    \<and> \<not> rq_dry_run raw \<and> stored (request_key raw) s = None
    \<and> rq_exercise_id raw = cx_exercise_id (ad_context (as_adapter s))
    \<and> rq_run_id raw = cx_run_id (ad_context (as_adapter s))
    \<and> rq_run_id raw \<notin> set (ad_stopped_runs (as_adapter s))
    \<and> ad_run_state (as_adapter s) (as_mod s) (rq_exercise_id raw) (rq_run_id raw)
        \<in> set (df_allowed_run_states d)
    \<and> role_in (rq_actor raw) (df_allowed_roles d) \<and> target_key raw \<in> set (df_allowed_targets d)
    \<and> rq_timeout_seconds raw \<le> df_max_timeout_seconds d
    \<and> (\<forall>v. df_parameter_validator d = Some v \<longrightarrow> v (redact_row (rq_parameters raw)) = Inr ())"
  using execute_effect_admitted [OF assms]
  by (auto simp: judge_Allow_iff stored_def) (auto simp: redact_request_def)

lemma effect_requires_admission_witness:
  "stored (''run'', ''k'') sample_state = None \<and> as_mod (snd (execute sample_env
     (sample_request ''k'' False 5) sample_state)) \<noteq> as_mod sample_state"
proof -
  have ne: "as_mod (snd (execute sample_env (sample_request ''k'' False 5) sample_state))
      \<noteq> as_mod sample_state"
    using sample_executes [of "''k''"] by (auto simp: sample_state_def)
  have "stored (request_key (sample_request ''k'' False 5)) sample_state = None"
    using effect_requires_admission [OF ne] by blast
  then show ?thesis using ne by (simp add: request_key_def sample_request_def)
qed

text \<open>C2: Once a call has answered anything but a denial, later calls with the same run and
  idempotency key, after any calls in between, leave the module state alone, and the stored answer
  stays the same.\<close>

theorem one_effect_per_key:
  assumes "execute env raw s = (Inr res, s1)" and "rs_status res \<noteq> ''denied''"
    and "request_key again = request_key raw"
  shows "as_mod (snd (execute env again (execute_all env between s1))) = as_mod (execute_all env between s1)
    \<and> stored (request_key raw) (execute_all env between s1) = stored (request_key raw) s1"
proof -
  obtain x where "stored (request_key raw) s1 = Some x" using execute_stores [OF assms(1,2)] by blast
  then show ?thesis using execute_once [OF assms] execute_all_keeps_stored by metis
qed

lemma one_effect_per_key_witness:
  "\<exists>res s1. execute sample_env (sample_request ''k'' False 5) sample_state = (Inr res, s1)
    \<and> as_mod s1 = Suc 0 \<and> as_mod (snd (execute sample_env (sample_request ''k'' False 7) s1)) = Suc 0"
proof -
  obtain res s1 where e: "execute sample_env (sample_request ''k'' False 5) sample_state = (Inr res, s1)"
    and r: "rs_status res = ''executed''" "as_mod s1 = Suc 0"
    using sample_executes by blast
  have k: "request_key (sample_request ''k'' False 7) = request_key (sample_request ''k'' False 5)"
    by (simp add: request_key_def sample_request_def)
  show ?thesis using one_effect_per_key [OF e _ k, of "[]"] e r by simp
qed



text \<open>A call that is not to run (denied, replayed, or a dry run) leaves the module state alone and
  audits exactly its path. A denial carries the code of the first check that failed; a replay is the
  stored answer marked as cached; a dry run answers with the expected effects and is stored.\<close>

theorem call_without_handler:
  assumes "quiet_env env" and "builder_ready s" and "version_ok raw"
  shows "case judge env (as_adapter s) (as_mod s) (redact_request raw) of
      Fault e \<Rightarrow> fst (execute env raw s) = Inl e
    | Deny code message w \<Rightarrow> (\<exists>res s'. execute env raw s = (Inr res, s') \<and> rs_status res = ''denied''
        \<and> rs_error_code res = Some code \<and> rs_effects res = [] \<and> still s' = still s
        \<and> trail s' = trail s @ [''action.requested'', ''action.authorization.denied''])
    | Replay cached \<Rightarrow> starts_with ''1.'' (rs_schema_version cached) \<longrightarrow>
        rs_cached cached \<and> (\<exists>s'. execute env raw s = (Inr cached, s') \<and> still s' = still s
        \<and> trail s' = trail s @ [''action.requested'', ''action.result.replayed''])
    | Allow d \<Rightarrow> rq_dry_run raw \<longrightarrow> (\<exists>res s'. execute env raw s = (Inr res, s')
        \<and> rs_status res = ''dry_run'' \<and> rs_effects res = df_expected_effects d \<and> as_mod s' = as_mod s
        \<and> stored (request_key raw) s' = Some res
        \<and> trail s' = trail s @ [''action.requested'', ''action.authorization.granted'',
            ''action.execution.completed''])"
proof (cases "judge env (as_adapter s) (as_mod s) (redact_request raw)")
  case (Fault e)
  obtain t s1 where "screen_request env raw s = (Inr (redact_request raw, t, Fault e), s1)"
    using screen_quiet [OF assms] Fault by metis
  then show ?thesis using Fault by (simp add: execute_screened answer_verdict_def)
next
  case (Deny code message w)
  then show ?thesis using execute_denied_quiet [OF assms Deny] by (auto simp: emits_def)
next
  case (Replay cached)
  have "rs_cached cached"
    using Replay by (auto simp: judge_def judge_policy_def split: if_splits option.splits sum.splits)
  then show ?thesis using execute_replay_quiet [OF assms Replay] Replay by (auto simp: emits_def)
next
  case (Allow d)
  then show ?thesis using execute_dry_run_quiet [OF assms _ Allow] by auto
qed

lemma call_without_handler_witness:
  "\<exists>res s'. execute sample_env (sample_request ''k'' True 5) sample_state = (Inr res, s')
    \<and> rs_effects res = [''counted''] \<and> as_mod s' = 0"
  using call_without_handler [OF sample_quiet sample_ready sample_version, of "''k''" True 5]
  unfolding sample_judge [of 5, simplified] by (auto simp: sample_request_def sample_definition_def sample_state_def)





text \<open>A handler runs outside the adapter's lock, and an answer is stored only after it: between
  the start of an execution and its end, a second call with the same request is judged as the first
  one was: it finds no stored answer and is admitted as well.\<close>

theorem concurrent_duplicate_admitted:
  assumes "begin_execution env raw s = (Inr (Inr pd), s')"
  shows "judge env (as_adapter s') (as_mod s') (redact_request raw) = Allow (pd_definition pd)
    \<and> stored (request_key raw) s' = None"
proof -
  have "as_mod s' = as_mod s" by (rule keeps_run [OF keeps_mod_begin assms])
  then show ?thesis
    using begin_execution_pending [OF assms] unfolding judge_Allow_iff stored_def
    by (elim conjE, intro conjI) (simp_all only: redact_request_sel)
qed

lemma concurrent_duplicate_admitted_witness:
  "\<exists>pd s1 pd' s2. begin_execution sample_env (sample_request ''k'' False 5) sample_state = (Inr (Inr pd), s1)
    \<and> begin_execution sample_env (sample_request ''k'' False 5) s1 = (Inr (Inr pd'), s2)"
proof -
  have nd: "\<not> rq_dry_run (sample_request ''k'' False 5)" by (simp add: sample_request_def)
  obtain pd s1 where b: "begin_execution sample_env (sample_request ''k'' False 5) sample_state
      = (Inr (Inr pd), s1)" and r: "builder_ready s1"
    using begin_quiet [OF sample_quiet sample_ready sample_version nd sample_judge] by auto
  show ?thesis
    using begin_quiet [OF sample_quiet r sample_version nd] concurrent_duplicate_admitted [OF b] b
    by blast
qed

end
