(* ===== verification/ModuleStore.thy ===== *)
theory ModuleStore
  imports AdapterTrails
begin

text \<open>
  What the module states of \<^verbatim>\<open>modules/04\<close>, \<^verbatim>\<open>05\<close> and \<^verbatim>\<open>06\<close> have in common: handlers that check their
  control before they touch anything, and a table of one-use rollback tokens. The two locales are the
  contracts the adapter's users rely on; each module theory interprets them on its own operations.
\<close>

section \<open>Values in messages\<close>

text \<open>\<open>repr\<close> and \<open>str\<close> of a value (strings without quotes or escapes in them).\<close>

primrec py_repr :: "val \<Rightarrow> string" where
  "py_repr VNone = ''None''"
| "py_repr (VBool b) = (if b then ''True'' else ''False'')"
| "py_repr (VInt n) = int_str n"
| "py_repr (VStr s) = CHR 0x27 # s @ [CHR 0x27]"
| "py_repr (VList xs) = ''['' @ join '', '' (map py_repr xs) @ '']''"
| "py_repr (VTuple xs) = ''('' @ join '', '' (map py_repr xs) @ (if length xs = 1 then '',)'' else '')'')"
| "py_repr (VDict d) = CHR 0x7B # join '', '' (map (\<lambda>(k, s). CHR 0x27 # k @ [CHR 0x27] @ '': '' @ s)
     (map (map_prod id py_repr) d)) @ [CHR 0x7D]"

definition py_str :: "val \<Rightarrow> string" where
  "py_str v = (case v of VStr s \<Rightarrow> s | _ \<Rightarrow> py_repr v)"

section \<open>Dictionaries of dictionaries\<close>

text \<open>\<open>table[key][field] = value\<close>, and \<open>table[key][field]\<close>.\<close>

definition set_field :: "string \<Rightarrow> string \<Rightarrow> val \<Rightarrow> table \<Rightarrow> exc + table" where
  "set_field key fld v t = (case map_of t key of None \<Rightarrow> Inl (KeyError key)
     | Some r \<Rightarrow> Inr (dset key (dset fld v r) t))"

definition get_field :: "string \<Rightarrow> string \<Rightarrow> table \<Rightarrow> exc + val" where
  "get_field key fld t = (case map_of t key of None \<Rightarrow> Inl (KeyError key) | Some r \<Rightarrow> ditem r fld)"

text \<open>\<open>table[key][field] += 1\<close>.\<close>

definition incr_field :: "string \<Rightarrow> string \<Rightarrow> table \<Rightarrow> exc + table" where
  "incr_field key fld t = (case get_field key fld t of Inl e \<Rightarrow> Inl e
     | Inr v \<Rightarrow> (case vincr v of Inl e \<Rightarrow> Inl e | Inr w \<Rightarrow> set_field key fld w t))"

lemma dset_same: "map_of d k = Some v \<Longrightarrow> dset k v d = d"
  by (induction d) auto

lemma dset_dset [simp]: "dset k v (dset k w d) = dset k v d"
  by (induction d) auto

lemma dpop_fresh: "map_of d k = None \<Longrightarrow> dpop k (dset k v d) = d"
  by (induction d) (auto simp: AList.delete_eq filter_id_conv)

lemma distinct_dset: "distinct (map fst d) \<Longrightarrow> distinct (map fst (dset k v d))"
  by (rule distinct_update)

lemma distinct_dpop: "distinct (map fst d) \<Longrightarrow> distinct (map fst (dpop k d))"
  by (rule distinct_delete)

section \<open>Sections that differ from the baseline\<close>

definition mismatches :: "(string \<times> val) list \<Rightarrow> (string \<times> val) list \<Rightarrow> string list" where
  "mismatches baseline current = map fst (filter (\<lambda>(section, expected).
     case map_of current section of None \<Rightarrow> True | Some v \<Rightarrow> \<not> val_eq v expected) baseline)"

lemma mismatches_same:
  assumes "distinct (map fst b)" and "list_all (\<lambda>(k, v). wf_val v) b"
  shows "mismatches b b = []"
  using assms by (auto simp: mismatches_def filter_empty_conv list_all_iff val_eq_refl)

lemma wf_dset: "wf_val (VDict d) \<Longrightarrow> wf_val v \<Longrightarrow> wf_val (VDict (dset k v d))"
proof -
  assume d: "wf_val (VDict d)" and v: "wf_val v"
  have "set (dset k v d) \<subseteq> insert (k, v) (set d)"
    by (induction d) auto
  then show ?thesis using d v by (auto simp: list_all_iff distinct_dset)
qed

lemma wf_dmerge: "wf_val (VDict d) \<Longrightarrow> wf_val (VDict e) \<Longrightarrow> wf_val (VDict (dmerge d e))"
proof (induction e arbitrary: d)
  case Nil
  then show ?case by (simp add: dmerge_def)
next
  case (Cons x e)
  obtain k v where x: "x = (k, v)" by (cases x)
  have "dmerge d (x # e) = dmerge (dset k v d) e" by (simp add: dmerge_def x)
  then show ?case
    using Cons.IH [of "dset k v d"] Cons.prems wf_dset [of d v k] x by (auto simp: list_all_iff)
qed

lemma table_val_wf:
  assumes "distinct (map fst t)" and "\<forall>r\<in>snd ` set t. wf_val (VDict r)"
  shows "wf_val (table_val t)"
  using assms by (auto simp: table_val_def list_all_iff comp_def case_prod_beta)

section \<open>Definitions of actions\<close>

definition define_action :: "string \<Rightarrow> string \<Rightarrow> string list \<Rightarrow> string list \<Rightarrow> string list \<Rightarrow> int
    \<Rightarrow> string list \<Rightarrow> string \<Rightarrow> 'm handler \<Rightarrow> 'm rollback_handler \<Rightarrow> (row \<Rightarrow> exc + unit)
    \<Rightarrow> 'm action_definition" where
  "define_action action_id phase roles targets run_states max_timeout effects method handler undo validator =
    \<lparr>df_action_id = action_id, df_phase = phase, df_allowed_roles = roles,
     df_allowed_targets = targets, df_allowed_run_states = run_states,
     df_max_timeout_seconds = max_timeout, df_expected_effects = effects,
     df_rollback_method = method, df_handler = handler, df_rollback_handler = undo,
     df_parameter_validator = Some validator\<rparr>"

definition no_parameters :: "row \<Rightarrow> exc + unit" where
  "no_parameters parameters = (if parameters = [] then Inr ()
     else Inl (ValueError ''this action accepts no parameters''))"

text \<open>\<open>control.checkpoint()\<close> in a handler.\<close>

definition checked :: "control \<Rightarrow> int \<Rightarrow> ('m, 'a) prog \<Rightarrow> ('m, 'a) prog" where
  "checked control now m = thenE (liftE (checkpoint control now)) m"

lemma checked_ok: "checkpoint control now = Inr u \<Longrightarrow> checked control now m = m"
  by (rule ext) (simp add: checked_def prog_simps)

lemma checked_stop: "checkpoint control now = Inl e \<Longrightarrow> checked control now m s = (Inl e, s)"
  by (simp add: checked_def prog_simps)

lemma bind_checked: "bindE (checked control now m) f = checked control now (bindE m f)"
  by (simp add: checked_def thenE_def bindE_assoc)

text \<open>\<open>token = ...; return ActionEffect(effects, token)\<close>.\<close>

definition effect_of :: "('m, string) prog \<Rightarrow> string list \<Rightarrow> ('m, action_effect) prog" where
  "effect_of m effects = bindE m (\<lambda>token. ret (action_effect effects (Some token)))"

lemma effect_of_checked:
  "effect_of (checked control now (bindE m rest)) effects
   = checked control now (bindE m (\<lambda>token. effect_of (rest token) effects))"
  by (simp add: effect_of_def checked_def thenE_def bindE_assoc)

definition map_result :: "('a \<Rightarrow> 'b) \<Rightarrow> exc + 'a \<Rightarrow> exc + 'b" where
  "map_result f r = (case r of Inl e \<Rightarrow> Inl e | Inr x \<Rightarrow> Inr (f x))"

text \<open>The event context of a module's adapter.\<close>

definition adapter_context :: "string \<Rightarrow> string \<Rightarrow> string \<Rightarrow> event_context" where
  "adapter_context exercise_id run_id source_component =
    \<lparr>cx_exercise_id = exercise_id, cx_run_id = run_id, cx_source_kind = ''action_adapter'',
     cx_source_component = source_component, cx_producer_version = ''1.0.0'', cx_source_host = None\<rparr>"

section \<open>The contract of a module's handlers\<close>

locale cooperative_module =
  fixes definitions :: "'m action_definition list"
  assumes stops: "d \<in> set definitions \<Longrightarrow> checkpoint control now = Inl e \<Longrightarrow>
    \<exists>e'. df_handler d parameters target control now m = (Inl e', m)"
begin

text \<open>A cancelled control, or one past its deadline, keeps the module as it is.\<close>

lemma stopped_no_effect:
  assumes "d \<in> set definitions" and "ct_cancelled control \<or> ct_deadline control < now"
  shows "\<exists>e. df_handler d parameters target control now m = (Inl e, m)"
proof -
  obtain e where "checkpoint control now = Inl e"
    using assms(2) by (cases "ct_cancelled control") (auto simp: checkpoint_def)
  then show ?thesis using stops [OF assms(1)] by blast
qed

lemma effect_in_time:
  assumes "d \<in> set definitions" and "snd (df_handler d parameters target control now m) \<noteq> m"
  shows "\<not> ct_cancelled control \<and> now \<le> ct_deadline control"
  using assms stopped_no_effect by (metis not_le snd_conv)

text \<open>A pending execution whose control was cancelled before its handler starts.\<close>

lemma cancelled_pending:
  assumes "pd_definition pd \<in> set definitions" and "ct_cancelled (current_control (pd_control pd) s)"
    and "run_pending env pd s = (q, s')"
  shows "as_mod s' = as_mod s \<and> (\<forall>res md. q = Inr (res, md) \<longrightarrow> \<not> rs_successful res)"
proof -
  obtain t w where t: "on_world (read_mono env) s = (Inr t, s\<lparr>as_world := w\<rparr>)"
    by (simp add: on_world_run read_mono_run)
  let ?s = "s\<lparr>as_world := w\<rparr>"
  obtain e where h: "df_handler (pd_definition pd) (rq_parameters (pd_request pd))
      (rq_target (pd_request pd)) (current_control (pd_control pd) s) t (as_mod s) = (Inl e, as_mod s)"
    using stopped_no_effect [OF assms(1)] assms(2) by blast
  have rh: "run_handler env pd s = (Inl e, ?s)"
    using t h by (simp add: run_handler_def call_handler_def bindE_run on_mod_def zoomE_run
        current_control_def)
  obtain p s2 where oc: "outcome_result env pd (Inl e) ?s = (p, s2)" by (metis prod.exhaust)
  have m2: "as_mod s2 = as_mod s" using keeps_run [OF keeps_mod_outcome oc] by simp
  have rp: "run_pending env pd s = (p, drop_running (rq_request_id (pd_request pd)) s2)"
    using rh oc by (simp add: run_pending_def finallyE_run bindE_run attemptE_def)
  obtain st code msg where f: "failure_of e = (st, code, msg)" by (metis prod.exhaust)
  have "\<not> rs_successful res" if "p = Inr (res, md)" for res md
    using oc that f unfolding outcome_result_def
    by (auto simp: bindE_run split: prod.splits sum.splits dest!: make_result_Inr)
  then show ?thesis using assms(3) rp m2 by (auto simp: drop_running_def)
qed

end

text \<open>A stop between the start of an execution and its handler reaches the control of the execution.\<close>

lemma cancelled_control:
  "c \<in> set cs \<Longrightarrow> c < length controls \<Longrightarrow> ct_cancelled (cancel_controls cs controls ! c)"
  by (simp add: cancel_controls_def nth_enumerate_eq)

lemma stop_cancels_pending:
  assumes "begin_execution env raw s = (Inr (Inr pd), s1)"
    and "role_in operator CONTROL_ROLES" and "strip reason \<noteq> []"
    and "activate_fail_safe env (rq_run_id raw) operator reason s1 = (r, s2)"
  shows "ct_cancelled (current_control (pd_control pd) s2) \<and> as_mod s2 = as_mod s"
proof -
  note B = begin_execution_pending [OF assms(1)]
  note S = activate_fail_safe_stops [OF assms(2-4)]
  have "(rq_request_id raw, rq_run_id raw, pd_control pd) \<in> set (ad_running (as_adapter s1))"
    using B map_of_dset [of "rq_request_id raw" "(rq_run_id raw, pd_control pd)"]
    by (metis (no_types, lifting) fun_upd_same map_of_SomeD)
  then have "pd_control pd \<in> set (active_controls (rq_run_id raw) (as_adapter s1))"
    by (force simp: active_controls_def)
  moreover have "pd_control pd < length (ad_controls (as_adapter s1))"
    using B by auto
  ultimately show ?thesis
    using S keeps_run [OF keeps_mod_begin assms(1)] by (simp add: current_control_def cancelled_control)
qed

text \<open>The actions of a module respect a fail-safe stop that comes before their handler starts.\<close>

definition stop_respecting :: "'m action_definition list \<Rightarrow> bool" where
  "stop_respecting defs \<longleftrightarrow> (\<forall>env raw s pd s1 operator reason r s2 q s3.
     begin_execution env raw s = (Inr (Inr pd), s1) \<longrightarrow> pd_definition pd \<in> set defs \<longrightarrow>
     role_in operator CONTROL_ROLES \<longrightarrow> strip reason \<noteq> [] \<longrightarrow>
     activate_fail_safe env (rq_run_id raw) operator reason s1 = (r, s2) \<longrightarrow>
     run_pending env pd s2 = (q, s3) \<longrightarrow>
       as_mod s3 = as_mod s \<and> (\<forall>res md. q = Inr (res, md) \<longrightarrow> \<not> rs_successful res))"

lemma stop_respectingI:
  "cooperative_module defs \<Longrightarrow> stop_respecting defs"
  unfolding stop_respecting_def
  using stop_cancels_pending cooperative_module.cancelled_pending by metis

section \<open>The contract of a rollback table\<close>

text \<open>
  \<open>content\<close> is what the module simulates; \<open>saved\<close> its table of tokens, numbered by \<open>sequence\<close>;
  \<open>restore x\<close> is what using a token with the saved value \<open>x\<close> does to the content.
\<close>

locale rollback_store =
  fixes content :: "'m \<Rightarrow> 'c"
    and saved :: "'m \<Rightarrow> (string \<times> 's) list"
    and sequence :: "'m \<Rightarrow> int"
    and restore :: "'s \<Rightarrow> 'c \<Rightarrow> 'c"
    and prefix :: string
    and undo :: "'m rollback_handler"
  assumes undo_stopped: "checkpoint control now = Inl e \<Longrightarrow> undo tok control now m = (Inl e, m)"
    and undo_unknown: "checkpoint control now = Inr () \<Longrightarrow> map_of (saved m) tok = None \<Longrightarrow>
        \<exists>e. undo tok control now m = (Inl e, m)"
    and undo_known: "checkpoint control now = Inr () \<Longrightarrow> map_of (saved m) tok = Some x \<Longrightarrow>
        \<exists>changes m'. undo tok control now m = (Inr changes, m') \<and> content m' = restore x (content m)
          \<and> saved m' = dpop tok (saved m) \<and> sequence m' = sequence m"
begin

definition token :: "int \<Rightarrow> string" where
  "token n = prefix @ int_str n"

text \<open>Every token in the table was given out, and is in it once.\<close>

definition store_inv :: "'m \<Rightarrow> bool" where
  "store_inv m \<longleftrightarrow> distinct (map fst (saved m)) \<and> 0 \<le> sequence m
     \<and> (\<forall>tok\<in>fst ` set (saved m). \<exists>n. 1 \<le> n \<and> n \<le> sequence m \<and> tok = token n)"

text \<open>
  An operation that captures what it needs to undo itself: it fails and leaves everything, or it takes
  the next token and saves a value that restores the content it found, also when it fails later.
\<close>

definition capturing :: "('m, action_effect) prog \<Rightarrow> bool" where
  "capturing op \<longleftrightarrow> (\<forall>m r m'. op m = (r, m') \<longrightarrow>
     (m' = m \<and> (\<forall>eff. r = Inr eff \<longrightarrow> ef_rollback_token eff = None)) \<or>
     (\<exists>x. saved m' = dset (token (sequence m + 1)) x (saved m) \<and> sequence m' = sequence m + 1
        \<and> restore x (content m') = content m
        \<and> (\<forall>eff. r = Inr eff \<longrightarrow> ef_rollback_token eff = Some (token (sequence m + 1)))))"

lemma capturingI:
  assumes "\<And>m. (snd (op m) = m \<and> (\<forall>eff. fst (op m) = Inr eff \<longrightarrow> ef_rollback_token eff = None)) \<or>
     (\<exists>x. saved (snd (op m)) = dset (token (sequence m + 1)) x (saved m)
        \<and> sequence (snd (op m)) = sequence m + 1
        \<and> restore x (content (snd (op m))) = content m
        \<and> (\<forall>eff. fst (op m) = Inr eff \<longrightarrow> ef_rollback_token eff = Some (token (sequence m + 1))))"
  shows "capturing op"
  unfolding capturing_def using assms by (metis fst_conv snd_conv)

lemma token_inject [simp]: "token m = token n \<longleftrightarrow> m = n"
  by (simp add: token_def)

lemma token_fresh: "store_inv m \<Longrightarrow> map_of (saved m) (token (sequence m + 1)) = None"
  by (force simp: store_inv_def map_of_eq_None_iff)

lemma capturing_inv:
  assumes "capturing op" and "store_inv m" and "op m = (r, m')"
  shows "store_inv m'"
proof -
  consider "m' = m" | x where "saved m' = dset (token (sequence m + 1)) x (saved m)"
      "sequence m' = sequence m + 1"
    using assms(1,3) unfolding capturing_def by blast
  then show ?thesis
  proof cases
    case 1
    then show ?thesis using assms(2) by simp
  next
    case 2
    have keys: "fst ` set (saved m') = insert (token (sequence m + 1)) (fst ` set (saved m))"
      by (simp add: 2 dom_update [unfolded dom_map_of_conv_image_fst])
    have "\<exists>n. 1 \<le> n \<and> n \<le> sequence m' \<and> tok = token n" if "tok \<in> fst ` set (saved m')" for tok
    proof (cases "tok = token (sequence m + 1)")
      case True
      then show ?thesis using assms(2) 2(2) by (auto simp: store_inv_def)
    next
      case False
      then have "tok \<in> fst ` set (saved m)" using that keys by simp
      then obtain n where "1 \<le> n" "n \<le> sequence m" "tok = token n"
        using assms(2) by (auto simp: store_inv_def)
      then show ?thesis using 2(2) by auto
    qed
    moreover have "distinct (map fst (saved m'))" "0 \<le> sequence m'"
      using assms(2) 2 by (simp_all add: store_inv_def distinct_dset)
    ultimately show ?thesis by (simp add: store_inv_def)
  qed
qed

lemma undo_inv:
  assumes "store_inv m" and "undo tok control now m = (r, m')"
  shows "store_inv m'"
proof (cases "checkpoint control now")
  case (Inl e)
  then show ?thesis using undo_stopped assms by (metis prod.inject)
next
  case (Inr u)
  then have ok: "checkpoint control now = Inr ()" by simp
  show ?thesis
  proof (cases "map_of (saved m) tok")
    case None
    then show ?thesis using undo_unknown [OF ok] assms by (metis prod.inject)
  next
    case (Some x)
    have s: "saved m' = dpop tok (saved m)" "sequence m' = sequence m"
      using undo_known [OF ok Some] assms(2) by auto
    have "set (saved m') \<subseteq> set (saved m)" by (auto simp: s(1) AList.delete_eq)
    moreover have "distinct (map fst (saved m'))"
      using assms(1) by (simp only: s(1) store_inv_def distinct_dpop)
    ultimately show ?thesis
      using assms(1) s(2) unfolding store_inv_def by auto
  qed
qed

text \<open>An operation and the rollback with its token: the content is what it was, the token is used up.\<close>

lemma undo_exact:
  assumes "capturing op" and "store_inv m" and "op m = (Inr eff, m1)"
    and "ef_rollback_token eff = Some tok" and "checkpoint control now = Inr ()"
  shows "\<exists>changes m2. undo tok control now m1 = (Inr changes, m2) \<and> content m2 = content m
    \<and> saved m2 = saved m \<and> (\<exists>e. undo tok control now m2 = (Inl e, m2))"
proof -
  obtain x where x: "saved m1 = dset (token (sequence m + 1)) x (saved m)"
      "restore x (content m1) = content m" "tok = token (sequence m + 1)"
    using assms(1,3,4) unfolding capturing_def by (metis option.distinct(1) option.inject)
  have fresh: "map_of (saved m) tok = None" using token_fresh [OF assms(2)] x(3) by simp
  have "map_of (saved m1) tok = Some x" using x by simp
  then obtain changes m2 where u: "undo tok control now m1 = (Inr changes, m2)"
      "content m2 = restore x (content m1)" "saved m2 = dpop tok (saved m1)"
    using undo_known [OF assms(5)] by blast
  have s: "saved m2 = saved m" using u(3) x(1,3) dpop_fresh fresh by simp
  then show ?thesis using u x(2) undo_unknown [OF assms(5), of m2 tok] fresh by auto
qed

text \<open>Operations one after the other, the tokens of those that succeeded newest first.\<close>

fun run_ops :: "('m, action_effect) prog list \<Rightarrow> 'm \<Rightarrow> string list \<Rightarrow> 'm \<times> string list" where
  "run_ops [] m toks = (m, toks)"
| "run_ops (op # ops) m toks = (case op m of
     (Inl e, m') \<Rightarrow> run_ops ops m' toks
   | (Inr eff, m') \<Rightarrow> run_ops ops m' (case ef_rollback_token eff of None \<Rightarrow> toks | Some t \<Rightarrow> t # toks))"

fun undo_all :: "control \<Rightarrow> int \<Rightarrow> string list \<Rightarrow> 'm \<Rightarrow> 'm" where
  "undo_all control now [] m = m"
| "undo_all control now (t # ts) m = undo_all control now ts (snd (undo t control now m))"

text \<open>Operations that, when they fail, fail without a change.\<close>

definition clean_failure :: "('m, action_effect) prog \<Rightarrow> bool" where
  "clean_failure op \<longleftrightarrow> (\<forall>m e m'. op m = (Inl e, m') \<longrightarrow> content m' = content m)"

lemma run_ops_inv: "list_all capturing ops \<Longrightarrow> store_inv m \<Longrightarrow> store_inv (fst (run_ops ops m toks))"
  by (induction ops arbitrary: m toks)
    (auto split: prod.splits sum.splits dest: capturing_inv)

text \<open>What using the tokens \<open>toks\<close> in this order gives, computed on the content alone.\<close>

definition unwound :: "'m \<Rightarrow> string list \<Rightarrow> 'c" where
  "unwound m toks = fold (\<lambda>t. restore (the (map_of (saved m) t))) toks (content m)"

definition usable :: "'m \<Rightarrow> string list \<Rightarrow> bool" where
  "usable m toks \<longleftrightarrow> distinct toks \<and> (\<forall>t\<in>set toks. map_of (saved m) t \<noteq> None)"

lemma undo_all_unwound:
  assumes "checkpoint control now = Inr ()" and "usable m toks"
  shows "content (undo_all control now toks m) = unwound m toks"
  using assms(2)
proof (induction toks arbitrary: m)
  case Nil
  then show ?case by (simp add: unwound_def)
next
  case (Cons t ts)
  obtain x where x: "map_of (saved m) t = Some x" using Cons.prems by (auto simp: usable_def)
  obtain changes m' where u: "undo t control now m = (Inr changes, m')"
      "content m' = restore x (content m)" "saved m' = dpop t (saved m)"
    using undo_known [OF assms(1) x] by blast
  have same: "map_of (saved m') t' = map_of (saved m) t'" if "t' \<in> set ts" for t'
    using that Cons.prems u(3) by (auto simp: usable_def delete_conv')
  then have "usable m' ts" using Cons.prems by (auto simp: usable_def)
  moreover have "unwound m' ts = unwound m (t # ts)"
    unfolding unwound_def by (simp add: x u(2)) (rule fold_cong, simp_all add: same)
  ultimately show ?case using Cons.IH u(1) by simp
qed

lemma run_ops_unwound:
  assumes "list_all (\<lambda>op. capturing op \<and> clean_failure op) ops" and "store_inv m" and "usable m toks"
    and "run_ops ops m toks = (m', toks')"
  shows "usable m' toks' \<and> unwound m' toks' = unwound m toks"
  using assms
proof (induction ops arbitrary: m toks)
  case Nil
  then show ?case by simp
next
  case (Cons op ops)
  obtain r m1 where op: "op m = (r, m1)" by (metis prod.exhaust)
  have cap: "capturing op" and cf: "clean_failure op" using Cons.prems(1) by simp_all
  have inv: "store_inv m1" by (rule capturing_inv [OF cap Cons.prems(2) op])
  let ?new = "token (sequence m + 1)"
  have fresh: "map_of (saved m) ?new = None" by (rule token_fresh [OF Cons.prems(2)])
  then have notin: "?new \<notin> set toks" using Cons.prems(3) by (auto simp: usable_def)
  have pass: "usable m1 toks \<and> unwound m1 toks = unwound m toks"
    if "saved m1 = saved m \<or> (\<exists>x. saved m1 = dset ?new x (saved m))" "content m1 = content m"
  proof -
    have same: "map_of (saved m1) t = map_of (saved m) t" if "t \<in> set toks" for t
      using that notin \<open>saved m1 = saved m \<or> _\<close> by auto
    then show ?thesis
      using Cons.prems(3) that(2) unfolding unwound_def usable_def
      by (auto intro!: fold_cong)
  qed
  show ?case
  proof (cases r)
    case (Inl e)
    have "content m1 = content m" using cf op Inl by (simp add: clean_failure_def)
    moreover have "saved m1 = saved m \<or> (\<exists>x. saved m1 = dset ?new x (saved m))"
      using cap op unfolding capturing_def by metis
    ultimately have p: "usable m1 toks \<and> unwound m1 toks = unwound m toks" using pass by blast
    show ?thesis
      using Cons.IH [OF _ inv, of toks] p Cons.prems(1,4) op Inl by simp
  next
    case (Inr eff)
    show ?thesis
    proof (cases "ef_rollback_token eff")
      case None
      then have "m1 = m" using cap op Inr unfolding capturing_def by (metis option.distinct(1))
      then show ?thesis using Cons.IH [OF _ inv, of toks] Cons.prems op Inr None by simp
    next
      case (Some t)
      obtain x where x: "saved m1 = dset ?new x (saved m)" "restore x (content m1) = content m" "t = ?new"
        using cap op Inr Some unfolding capturing_def by (metis option.distinct(1) option.inject)
      have same: "map_of (saved m1) t' = map_of (saved m) t'" if "t' \<in> set toks" for t'
        using that notin x(1) by auto
      have "usable m1 (t # toks)"
        using Cons.prems(3) notin x same by (auto simp: usable_def)
      moreover have "unwound m1 (t # toks) = unwound m toks"
        unfolding unwound_def by (simp add: x) (rule fold_cong, simp_all add: notin, use notin in auto)
      ultimately show ?thesis
        using Cons.IH [OF _ inv, of "t # toks"] Cons.prems(1,4) op Inr Some by simp
    qed
  qed
qed

text \<open>Any series of operations is undone by using its tokens, newest first.\<close>

lemma undo_series:
  assumes "list_all (\<lambda>op. capturing op \<and> clean_failure op) ops" and "store_inv m"
    and "run_ops ops m [] = (m', toks)" and "checkpoint control now = Inr ()"
  shows "content (undo_all control now toks m') = content m"
proof -
  have "usable m []" by (simp add: usable_def)
  note u = run_ops_unwound [OF assms(1,2) this assms(3)]
  then show ?thesis
    using undo_all_unwound [OF assms(4), of m' toks] by (simp add: unwound_def)
qed

end

section \<open>Stores of snapshots\<close>

text \<open>A rollback table whose tokens remember the whole content; \<open>capture\<close> hands one out.\<close>

locale snapshot_store = rollback_store content saved sequence "\<lambda>x c. x" prefix undo
  for content :: "'m \<Rightarrow> 'c" and saved :: "'m \<Rightarrow> (string \<times> 'c) list" and sequence :: "'m \<Rightarrow> int"
    and prefix :: string and undo :: "'m rollback_handler" +
  fixes capture :: "('m, string) prog"
  assumes capture_run: "\<exists>m'. capture m = (Inr (prefix @ int_str (sequence m + 1)), m')
      \<and> saved m' = dset (prefix @ int_str (sequence m + 1)) (content m) (saved m)
      \<and> sequence m' = sequence m + 1 \<and> content m' = content m"
begin

lemma capturing_snapshot:
  assumes "\<And>tok. keeps saved (rest tok)" and "\<And>tok. keeps sequence (rest tok)"
    and "\<And>tok m eff m'. rest tok m = (Inr eff, m') \<Longrightarrow> ef_rollback_token eff = Some tok"
  shows "capturing (checked control now (bindE capture rest))"
  unfolding capturing_def
proof (intro allI impI)
  fix m r m'
  assume run: "checked control now (bindE capture rest) m = (r, m')"
  show "m' = m \<and> (\<forall>eff. r = Inr eff \<longrightarrow> ef_rollback_token eff = None) \<or>
     (\<exists>x. saved m' = dset (token (sequence m + 1)) x (saved m) \<and> sequence m' = sequence m + 1
        \<and> x = content m
        \<and> (\<forall>eff. r = Inr eff \<longrightarrow> ef_rollback_token eff = Some (token (sequence m + 1))))"
  proof (cases "checkpoint control now")
    case (Inl e)
    then show ?thesis using run by (auto simp: checked_stop)
  next
    case (Inr u)
    obtain m1 where c: "capture m = (Inr (token (sequence m + 1)), m1)"
      "saved m1 = dset (token (sequence m + 1)) (content m) (saved m)" "sequence m1 = sequence m + 1"
      using capture_run [of m] unfolding token_def by blast
    have r: "rest (token (sequence m + 1)) m1 = (r, m')"
      using run Inr c(1) by (simp add: checked_ok bindE_run)
    have "saved m' = saved m1" "sequence m' = sequence m1"
      using keeps_run [OF assms(1) r] keeps_run [OF assms(2) r] by simp_all
    then show ?thesis using c(2,3) assms(3) r by auto
  qed
qed

text \<open>A token that is still in the table goes back to the content it was taken at, whatever came after.\<close>

lemma undo_to_capture:
  assumes "map_of (saved m) tok = Some c" and "checkpoint control now = Inr ()"
  shows "\<exists>changes m'. undo tok control now m = (Inr changes, m') \<and> content m' = c"
  using undo_known [OF assms(2,1)] by blast

end

end
