(* ===== verification/IdentityState.thy ===== *)
theory IdentityState
  imports ModuleStore
begin

text \<open>
  \<^verbatim>\<open>modules/04-mfa-fatigue-sim/identity_actions.py\<close>: \<open>SyntheticIdentityState\<close>, its operations, and the
  actions registered on it. The four collections are tables of rows; a rollback token remembers one
  row of one collection, or the whole state.
\<close>

section \<open>The state\<close>

record identity_content =
  ic_identities :: table
  ic_sessions :: table
  ic_factors :: table
  ic_mfa :: table

text \<open>The first component of a saved tuple: a collection, or \<open>"__state__"\<close>.\<close>

datatype collection = Identities | Sessions | Factors | Mfa

datatype identity_saved = SavedItem collection string row | SavedState identity_content

record identity_state =
  is_content :: identity_content
  is_rollbacks :: "(string \<times> identity_saved) list"
  is_sequence :: int
  is_profile :: row

primrec collection_name :: "collection \<Rightarrow> string" where
  "collection_name Identities = ''identities''"
| "collection_name Sessions = ''sessions''"
| "collection_name Factors = ''factors''"
| "collection_name Mfa = ''mfa''"

text \<open>\<open>getattr(self, collection)\<close>, and the assignment to it.\<close>

primrec get_table :: "collection \<Rightarrow> identity_content \<Rightarrow> table" where
  "get_table Identities c = ic_identities c"
| "get_table Sessions c = ic_sessions c"
| "get_table Factors c = ic_factors c"
| "get_table Mfa c = ic_mfa c"

primrec put_table :: "collection \<Rightarrow> table \<Rightarrow> identity_content \<Rightarrow> identity_content" where
  "put_table Identities t c = c\<lparr>ic_identities := t\<rparr>"
| "put_table Sessions t c = c\<lparr>ic_sessions := t\<rparr>"
| "put_table Factors t c = c\<lparr>ic_factors := t\<rparr>"
| "put_table Mfa t c = c\<lparr>ic_mfa := t\<rparr>"

lemma get_put [simp]: "get_table k (put_table k t c) = t"
  by (cases k) simp_all

lemma put_get [simp]: "put_table k (get_table k c) c = c"
  by (cases k) simp_all

lemma put_put [simp]: "put_table k t (put_table k u c) = put_table k t c"
  by (cases k) simp_all

definition identity_baseline_content :: "row \<Rightarrow> identity_content" where
  "identity_baseline_content profile =
    \<lparr>ic_identities = [(''sarah'', dmerge (dmerge [(''display_name'', VStr ''Sarah Mitchell'')] profile)
        [(''enabled'', VBool True), (''credential_version'', VInt 1), (''synthetic'', VBool True)])],
     ic_sessions =
       [(''sess-red-01'', [(''identity_id'', VStr ''sarah''), (''active'', VBool True)]),
        (''sess-sarah-01'', [(''identity_id'', VStr ''sarah''), (''active'', VBool True)])],
     ic_factors = [(''factor-red-01'', [(''identity_id'', VStr ''sarah''), (''active'', VBool True),
        (''kind'', VStr ''simulated_push'')])],
     ic_mfa = [(''sarah'', [(''push_count'', VInt 0), (''decision'', VStr ''pending'')])]\<rparr>"

definition identity_baseline :: "row \<Rightarrow> identity_state" where
  "identity_baseline profile = \<lparr>is_content = identity_baseline_content profile,
     is_rollbacks = [], is_sequence = 0, is_profile = profile\<rparr>"

definition identity_snapshot :: "identity_content \<Rightarrow> (string \<times> val) list" where
  "identity_snapshot c = [(''identities'', table_val (ic_identities c)),
     (''sessions'', table_val (ic_sessions c)), (''factors'', table_val (ic_factors c)),
     (''mfa'', table_val (ic_mfa c))]"

section \<open>Operations\<close>

definition identity_token :: "int \<Rightarrow> string" where
  "identity_token n = ''identity-rb-'' @ int_str n"

definition identity_save :: "identity_saved \<Rightarrow> (identity_state, string) prog" where
  "identity_save x =
    bindE (getE (\<lambda>s. identity_token (is_sequence s + 1))) (\<lambda>token.
    thenE (updE (\<lambda>s. s\<lparr>is_sequence := is_sequence s + 1,
       is_rollbacks := dset token x (is_rollbacks s)\<rparr>)) (ret token))"

definition save_rollback :: "collection \<Rightarrow> string \<Rightarrow> (identity_state, string) prog" where
  "save_rollback k item_id =
    bindE (getE (\<lambda>s. map_of (get_table k (is_content s)) item_id)) (\<lambda>item. case item of
      None \<Rightarrow> raise (ActionContractError
        (''unknown synthetic target: '' @ collection_name k @ '':'' @ item_id))
    | Some previous \<Rightarrow> identity_save (SavedItem k item_id previous))"

text \<open>\<open>self.<collection> = f(self.<collection>)\<close>, for an \<open>f\<close> that may raise.\<close>

definition change_table :: "collection \<Rightarrow> (table \<Rightarrow> exc + table) \<Rightarrow> (identity_state, unit) prog" where
  "change_table k f = bindE (getE (\<lambda>s. f (get_table k (is_content s)))) (\<lambda>t.
     bindE (liftE t) (\<lambda>t'. updE (\<lambda>s. s\<lparr>is_content := put_table k t' (is_content s)\<rparr>)))"

definition set_value :: "collection \<Rightarrow> string \<Rightarrow> string \<Rightarrow> val \<Rightarrow> control \<Rightarrow> int
    \<Rightarrow> (identity_state, string) prog" where
  "set_value k item_id field_name v control now = checked control now
    (bindE (save_rollback k item_id) (\<lambda>token.
     thenE (change_table k (set_field item_id field_name v)) (ret token)))"

definition identity_reset_credential :: "string \<Rightarrow> control \<Rightarrow> int \<Rightarrow> (identity_state, string) prog" where
  "identity_reset_credential identity_id control now = checked control now
    (bindE (save_rollback Identities identity_id) (\<lambda>token.
     thenE (change_table Identities (incr_field identity_id ''credential_version'')) (ret token)))"

definition identity_record_push :: "string \<Rightarrow> int \<Rightarrow> control \<Rightarrow> int \<Rightarrow> (identity_state, string) prog" where
  "identity_record_push identity_id threshold control now = checked control now
    (bindE (save_rollback Mfa identity_id) (\<lambda>token.
     thenE (change_table Mfa (incr_field identity_id ''push_count''))
    (thenE (change_table Mfa (set_field identity_id ''decision'' (VStr ''pending''))) (ret token))))"

definition identity_record_decision :: "string \<Rightarrow> bool \<Rightarrow> control \<Rightarrow> int
    \<Rightarrow> (identity_state, string) prog" where
  "identity_record_decision identity_id approved control now = checked control now
    (bindE (save_rollback Mfa identity_id) (\<lambda>token.
     thenE (change_table Mfa (set_field identity_id ''decision''
       (VStr (if approved then ''approved'' else ''denied'')))) (ret token)))"

definition identity_reset :: "control \<Rightarrow> int \<Rightarrow> (identity_state, string) prog" where
  "identity_reset control now = checked control now
    (bindE (getE is_content) (\<lambda>c.
     bindE (identity_save (SavedState c)) (\<lambda>token.
     thenE (updE (\<lambda>s. s\<lparr>is_content := identity_baseline_content (is_profile s)\<rparr>)) (ret token))))"

definition identity_mismatches :: "identity_state \<Rightarrow> string list" where
  "identity_mismatches s = mismatches (identity_snapshot (identity_baseline_content (is_profile s)))
     (identity_snapshot (is_content s))"

primrec identity_restore :: "identity_saved \<Rightarrow> identity_content \<Rightarrow> identity_content" where
  "identity_restore (SavedItem k item_id previous) c =
     put_table k (dset item_id previous (get_table k c)) c"
| "identity_restore (SavedState previous) c = previous"

primrec identity_restored :: "identity_saved \<Rightarrow> string" where
  "identity_restored (SavedItem k item_id previous) =
     ''restored '' @ collection_name k @ '':'' @ item_id"
| "identity_restored (SavedState previous) = ''restored pre-reset identity state''"

definition identity_rollback :: "string \<Rightarrow> control \<Rightarrow> int \<Rightarrow> (identity_state, string list) prog" where
  "identity_rollback token control now = checked control now
    (bindE (getE (\<lambda>s. map_of (is_rollbacks s) token)) (\<lambda>saved. case saved of
       None \<Rightarrow> raise (ActionContractError ''unknown or already-used rollback token'')
     | Some x \<Rightarrow> thenE (updE (\<lambda>s. s\<lparr>is_rollbacks := dpop token (is_rollbacks s),
           is_content := identity_restore x (is_content s)\<rparr>)) (ret [identity_restored x])))"

section \<open>The registered actions\<close>

definition IDENTITY_ROLES :: "string list" where
  "IDENTITY_ROLES = [''identity_responder'', ''facilitator'']"

definition decision_parameters :: "row \<Rightarrow> exc + unit" where
  "decision_parameters parameters =
    (if keys_are parameters [''approved''] \<and>
        (case map_of parameters ''approved'' of Some (VBool b) \<Rightarrow> True | _ \<Rightarrow> False)
     then Inr () else Inl (ValueError ''approved must be the only parameter and must be boolean''))"

definition revoke_session :: "identity_state handler" where
  "revoke_session ps target control now = effect_of
     (set_value Sessions (en_id target) ''active'' (VBool False) control now)
     [''revoked session '' @ en_id target]"

definition remove_factor :: "identity_state handler" where
  "remove_factor ps target control now = effect_of
     (set_value Factors (en_id target) ''active'' (VBool False) control now)
     [''removed factor '' @ en_id target]"

definition disable_account :: "identity_state handler" where
  "disable_account ps target control now = effect_of
     (set_value Identities (en_id target) ''enabled'' (VBool False) control now)
     [''disabled identity '' @ en_id target]"

definition reset_credential :: "identity_state handler" where
  "reset_credential ps target control now = effect_of
     (identity_reset_credential (en_id target) control now)
     [''rotated synthetic credential '' @ en_id target]"

text \<open>\<open>state.mfa[target["id"]]["decision"]\<close>, read after the change.\<close>

definition mfa_decision :: "string \<Rightarrow> (identity_state, val) prog" where
  "mfa_decision identity_id = bindE (getE (\<lambda>s. get_field identity_id ''decision'' (ic_mfa (is_content s))))
     liftE"

definition record_push :: "int \<Rightarrow> identity_state handler" where
  "record_push approval_threshold ps target control now =
    bindE (identity_record_push (en_id target) approval_threshold control now) (\<lambda>token.
    bindE (mfa_decision (en_id target)) (\<lambda>decision.
      ret (action_effect [''recorded MFA challenge outcome '' @ py_str decision] (Some token))))"

definition record_decision :: "identity_state handler" where
  "record_decision ps target control now =
    bindE (liftE (ditem ps ''approved'')) (\<lambda>approved.
    bindE (identity_record_decision (en_id target) (truthy approved) control now) (\<lambda>token.
    bindE (mfa_decision (en_id target)) (\<lambda>decision.
      ret (action_effect [''recorded simulated-user decision '' @ py_str decision] (Some token)))))"

definition reset_identity :: "identity_state handler" where
  "reset_identity ps target control now = effect_of (identity_reset control now)
     [''restored deterministic identity baseline'']"

definition validate_readiness :: "identity_state handler" where
  "validate_readiness ps target control now = checked control now
    (bindE (getE identity_mismatches) (\<lambda>ms.
     thenE (requireE (ms = []) (ActionExecutionError ''baseline_mismatch''
         (''Identity baseline differs in: '' @ join '', '' ms)))
       (ret (action_effect [''validated deterministic identity baseline''] None))))"

definition identity_action :: "string \<Rightarrow> string \<Rightarrow> identity_state handler \<Rightarrow> string
    \<Rightarrow> identity_state action_definition" where
  "identity_action action_id target handler method = define_action action_id ''identity''
     IDENTITY_ROLES [target] [''running''] 15 [action_id] method handler identity_rollback no_parameters"

definition identity_definitions :: "int \<Rightarrow> string \<Rightarrow> identity_state action_definition list" where
  "identity_definitions approval_threshold run_id =
    [identity_action ''identity.session.revoke'' ''session:sess-red-01'' revoke_session
       ''mark session active'',
     identity_action ''identity.factor.remove'' ''mfa_factor:factor-red-01'' remove_factor
       ''restore factor state'',
     identity_action ''identity.account.disable'' ''identity:sarah'' disable_account
       ''restore account enabled state'',
     identity_action ''identity.credential.reset'' ''identity:sarah'' reset_credential
       ''restore credential version'',
     define_action ''identity.mfa.challenge.record'' ''identity'' [''scenario_engine'', ''facilitator'']
       [''identity:sarah''] [''running''] 15 [''record synthetic MFA challenge'']
       ''restore prior MFA challenge state'' (record_push approval_threshold) identity_rollback
       no_parameters,
     define_action ''identity.mfa.decision.record'' ''identity'' [''simulated_user'', ''facilitator'']
       [''identity:sarah''] [''running''] 15 [''record simulated-user MFA decision'']
       ''restore prior MFA decision'' record_decision identity_rollback decision_parameters,
     define_action ''exercise.identity.reset'' ''post_exercise'' [''technical_operator'', ''facilitator'']
       [''exercise_run:'' @ run_id] [''stopped'', ''resetting''] 30
       [''restore deterministic identity baseline''] ''restore captured pre-reset identity state''
       reset_identity identity_rollback no_parameters,
     define_action ''exercise.identity.readiness.validate'' ''setup''
       [''technical_operator'', ''facilitator''] [''exercise_run:'' @ run_id]
       [''setup'', ''stopped'', ''resetting'', ''ready''] 15
       [''validate deterministic identity baseline''] ''not required for read-only validation''
       validate_readiness (\<lambda>_ _ _. ret []) no_parameters]"

definition register_identity_actions :: "int \<Rightarrow> string \<Rightarrow> identity_state registry
    \<Rightarrow> exc + identity_state registry" where
  "register_identity_actions approval_threshold run_id reg =
     register_all (identity_definitions approval_threshold run_id) reg"

section \<open>The rollback table\<close>

interpretation identity_store: rollback_store is_content is_rollbacks is_sequence identity_restore
  "''identity-rb-''" identity_rollback
proof
  fix control now e tok and m :: identity_state
  assume "checkpoint control now = Inl e"
  then show "identity_rollback tok control now m = (Inl e, m)"
    by (simp add: identity_rollback_def checked_stop)
next
  fix control now tok and m :: identity_state
  assume "checkpoint control now = Inr ()" "map_of (is_rollbacks m) tok = None"
  then show "\<exists>e. identity_rollback tok control now m = (Inl e, m)"
    by (simp add: identity_rollback_def checked_ok prog_simps)
next
  fix control now tok x and m :: identity_state
  assume "checkpoint control now = Inr ()" "map_of (is_rollbacks m) tok = Some x"
  then show "\<exists>changes m'. identity_rollback tok control now m = (Inr changes, m')
      \<and> is_content m' = identity_restore x (is_content m)
      \<and> is_rollbacks m' = dpop tok (is_rollbacks m) \<and> is_sequence m' = is_sequence m"
    by (simp add: identity_rollback_def checked_ok prog_simps)
qed

lemma identity_token_eq: "identity_token n = identity_store.token n"
  by (simp add: identity_token_def identity_store.token_def)

text \<open>\<open>m\<close> changes nothing but the row \<open>item\<close> of the collection \<open>k\<close>, which is there.\<close>

definition touches :: "collection \<Rightarrow> string \<Rightarrow> (identity_state, 'a) prog \<Rightarrow> bool" where
  "touches k item m \<longleftrightarrow> (\<forall>s. map_of (get_table k (is_content s)) item \<noteq> None \<longrightarrow>
     is_rollbacks (snd (m s)) = is_rollbacks s \<and> is_sequence (snd (m s)) = is_sequence s
     \<and> (\<exists>r. is_content (snd (m s)) = put_table k (dset item r (get_table k (is_content s))) (is_content s)))"

lemma touchesD:
  assumes "touches k item m" and "m s = (q, s')" and "map_of (get_table k (is_content s)) item \<noteq> None"
  shows "is_rollbacks s' = is_rollbacks s \<and> is_sequence s' = is_sequence s
     \<and> (\<exists>r. is_content s' = put_table k (dset item r (get_table k (is_content s))) (is_content s))"
  using assms unfolding touches_def by (metis snd_conv)

lemma touches_nothing: "(\<And>s. snd (m s) = s) \<Longrightarrow> touches k item m"
proof -
  assume n: "\<And>s. snd (m s) = s"
  have "\<exists>r. is_content s = put_table k (dset item r (get_table k (is_content s))) (is_content s)"
    if "map_of (get_table k (is_content s)) item \<noteq> None" for s :: identity_state
    using that dset_same by (metis not_None_eq put_get)
  then show ?thesis by (simp add: touches_def n)
qed

lemma touches_bindE:
  assumes "touches k item m" and "\<And>x. touches k item (f x)"
  shows "touches k item (bindE m f)"
  unfolding touches_def
proof (intro allI impI)
  fix s :: identity_state
  assume there: "map_of (get_table k (is_content s)) item \<noteq> None"
  obtain q s1 where m: "m s = (q, s1)" by (metis prod.exhaust)
  obtain r where t: "is_rollbacks s1 = is_rollbacks s" "is_sequence s1 = is_sequence s"
      "is_content s1 = put_table k (dset item r (get_table k (is_content s))) (is_content s)"
    using touchesD [OF assms(1) m there] by blast
  show "is_rollbacks (snd (bindE m f s)) = is_rollbacks s \<and> is_sequence (snd (bindE m f s)) = is_sequence s
     \<and> (\<exists>r. is_content (snd (bindE m f s))
          = put_table k (dset item r (get_table k (is_content s))) (is_content s))"
  proof (cases q)
    case (Inl e)
    then show ?thesis using m t by (auto simp: bindE_run)
  next
    case (Inr x)
    obtain p s2 where f: "f x s1 = (p, s2)" by (metis prod.exhaust)
    have "map_of (get_table k (is_content s1)) item \<noteq> None" by (simp add: t(3))
    from touchesD [OF assms(2) f this] t show ?thesis
      using m f Inr by (auto simp: bindE_run)
  qed
qed

lemma touches_thenE: "touches k item m \<Longrightarrow> touches k item n \<Longrightarrow> touches k item (thenE m n)"
  unfolding thenE_def by (rule touches_bindE)

lemma touches_ret: "touches k item (ret x)" "touches k item (Pair (Inr x))"
  by (rule touches_nothing, simp)+

lemma touches_set: "touches k item (change_table k (set_field item fld v))"
  by (auto simp: touches_def change_table_def set_field_def prog_simps)

lemma touches_incr: "touches k item (change_table k (incr_field item fld))"
proof -
  have "touches k item (change_table k (set_field item fld v))" for v by (rule touches_set)
  moreover have "\<exists>r. is_content s = put_table k (dset item r (get_table k (is_content s))) (is_content s)"
    if "map_of (get_table k (is_content s)) item \<noteq> None" for s :: identity_state
    using that dset_same by (metis not_None_eq put_get)
  ultimately show ?thesis
    by (fastforce simp: touches_def change_table_def incr_field_def prog_simps split: sum.splits)
qed

lemma touches_decision: "touches k item (mfa_decision x)"
  by (rule touches_nothing) (simp add: mfa_decision_def prog_simps)

text \<open>Saving a row and then changing only that row is capturing.\<close>

lemma capturing_item:
  assumes "\<And>token. touches k item (rest token)"
    and "\<And>token s eff s'. rest token s = (Inr eff, s') \<Longrightarrow> ef_rollback_token eff = Some token"
  shows "identity_store.capturing (checked control now (bindE (save_rollback k item) rest))"
proof (rule identity_store.capturingI)
  fix m :: identity_state
  let ?op = "checked control now (bindE (save_rollback k item) rest)"
  show "(snd (?op m) = m \<and> (\<forall>eff. fst (?op m) = Inr eff \<longrightarrow> ef_rollback_token eff = None)) \<or>
     (\<exists>x. is_rollbacks (snd (?op m)) = dset (identity_store.token (is_sequence m + 1)) x (is_rollbacks m)
        \<and> is_sequence (snd (?op m)) = is_sequence m + 1
        \<and> identity_restore x (is_content (snd (?op m))) = is_content m
        \<and> (\<forall>eff. fst (?op m) = Inr eff \<longrightarrow>
             ef_rollback_token eff = Some (identity_store.token (is_sequence m + 1))))"
  proof (cases "checkpoint control now")
    case (Inl e)
    then show ?thesis by (simp add: checked_stop)
  next
    case (Inr u)
    show ?thesis
    proof (cases "map_of (get_table k (is_content m)) item")
      case None
      then show ?thesis using Inr by (simp add: checked_ok save_rollback_def bindE_run)
    next
      case (Some previous)
      let ?t = "identity_token (is_sequence m + 1)"
      define m1 where "m1 = m\<lparr>is_sequence := is_sequence m + 1,
        is_rollbacks := dset ?t (SavedItem k item previous) (is_rollbacks m)\<rparr>"
      obtain q m2 where r: "rest ?t m1 = (q, m2)" by (metis prod.exhaust)
      have op: "?op m = (q, m2)"
        using Inr Some r by (simp add: checked_ok save_rollback_def identity_save_def bindE_run
            thenE_run m1_def)
      have "map_of (get_table k (is_content m1)) item \<noteq> None" using Some by (simp add: m1_def)
      from touchesD [OF assms(1) r this] show ?thesis
        using assms(2) [of ?t m1 _ m2] r dset_same [OF Some]
        by (auto simp: op m1_def identity_token_eq)
    qed
  qed
qed

lemma capturing_effect_of:
  assumes "\<And>token. touches k item (rest token)"
    and "\<And>token s t s'. rest token s = (Inr t, s') \<Longrightarrow> t = token"
  shows "identity_store.capturing (effect_of (checked control now (bindE (save_rollback k item) rest)) effects)"
  unfolding effect_of_checked
proof (rule capturing_item)
  show "touches k item (effect_of (rest token) effects)" for token
    unfolding effect_of_def by (intro touches_bindE assms touches_ret)
  show "ef_rollback_token eff = Some token" if "effect_of (rest token) effects s = (Inr eff, s')"
    for token s eff s'
    using that assms(2) unfolding effect_of_def
    by (elim bindE_InrE) (auto simp: action_effect_def)
qed

lemma capturing_set_value:
  "identity_store.capturing (effect_of (set_value k item fld v control now) effects)"
  unfolding set_value_def
  by (rule capturing_effect_of) (auto intro!: touches_thenE touches_set touches_ret elim!: thenE_InrE)

lemma capturing_reset_credential: "identity_store.capturing (reset_credential ps target control now)"
  unfolding reset_credential_def identity_reset_credential_def
  by (rule capturing_effect_of) (auto intro!: touches_thenE touches_incr touches_ret elim!: thenE_InrE)

lemma capturing_record_push: "identity_store.capturing (record_push n ps target control now)"
  unfolding record_push_def identity_record_push_def bind_checked bindE_assoc
proof (rule capturing_item)
  fix token s eff s'
  assume "bindE (thenE (change_table Mfa (incr_field (en_id target) ''push_count''))
      (thenE (change_table Mfa (set_field (en_id target) ''decision'' (VStr ''pending''))) (ret token)))
      (\<lambda>token. bindE (mfa_decision (en_id target)) (\<lambda>decision. ret (action_effect
         [''recorded MFA challenge outcome '' @ py_str decision] (Some token)))) s = (Inr eff, s')"
  then show "ef_rollback_token eff = Some token"
    by (elim bindE_InrE thenE_InrE) (auto simp: action_effect_def)
qed (intro touches_bindE touches_thenE touches_incr touches_set touches_ret touches_decision)

lemma capturing_record_decision: "identity_store.capturing (record_decision ps target control now)"
proof (cases "ditem ps ''approved''")
  case (Inl e)
  have "record_decision ps target control now = raise e"
    by (rule ext) (simp add: record_decision_def Inl prog_simps)
  then show ?thesis by (simp add: identity_store.capturing_def)
next
  case (Inr approved)
  have "record_decision ps target control now =
     bindE (identity_record_decision (en_id target) (truthy approved) control now) (\<lambda>token.
     bindE (mfa_decision (en_id target)) (\<lambda>decision.
       ret (action_effect [''recorded simulated-user decision '' @ py_str decision] (Some token))))"
    by (rule ext) (simp add: record_decision_def Inr prog_simps)
  moreover have "identity_store.capturing \<dots>"
    unfolding identity_record_decision_def bind_checked bindE_assoc
  proof (rule capturing_item)
    fix token s eff s'
    assume "bindE (thenE (change_table Mfa (set_field (en_id target) ''decision''
         (VStr (if truthy approved then ''approved'' else ''denied'')))) (ret token))
      (\<lambda>token. bindE (mfa_decision (en_id target)) (\<lambda>decision. ret (action_effect
         [''recorded simulated-user decision '' @ py_str decision] (Some token)))) s = (Inr eff, s')"
    then show "ef_rollback_token eff = Some token"
      by (elim bindE_InrE thenE_InrE) (auto simp: action_effect_def)
  qed (intro touches_bindE touches_thenE touches_set touches_ret touches_decision)
  ultimately show ?thesis by simp
qed

lemma capturing_reset_identity: "identity_store.capturing (reset_identity ps target control now)"
proof (rule identity_store.capturingI)
  show "(snd (reset_identity ps target control now m) = m \<and>
      (\<forall>eff. fst (reset_identity ps target control now m) = Inr eff \<longrightarrow> ef_rollback_token eff = None)) \<or>
     (\<exists>x. is_rollbacks (snd (reset_identity ps target control now m))
          = dset (identity_store.token (is_sequence m + 1)) x (is_rollbacks m)
        \<and> is_sequence (snd (reset_identity ps target control now m)) = is_sequence m + 1
        \<and> identity_restore x (is_content (snd (reset_identity ps target control now m))) = is_content m
        \<and> (\<forall>eff. fst (reset_identity ps target control now m) = Inr eff \<longrightarrow>
             ef_rollback_token eff = Some (identity_store.token (is_sequence m + 1))))" for m
  proof (cases "checkpoint control now")
    case (Inl e)
    then show ?thesis
      by (simp add: reset_identity_def identity_reset_def effect_of_def bind_checked checked_stop)
  next
    case (Inr u)
    show ?thesis
      by (rule disjI2, rule exI [of _ "SavedState (is_content m)"])
        (simp add: reset_identity_def identity_reset_def effect_of_def bind_checked
          checked_ok [OF Inr] identity_save_def action_effect_def identity_token_eq bindE_run thenE_run)
  qed
qed

lemma capturing_readiness: "identity_store.capturing (validate_readiness ps target control now)"
  by (auto simp: identity_store.capturing_def validate_readiness_def checked_def prog_simps
      action_effect_def split: sum.splits if_splits)

lemma identity_handlers_capture:
  "d \<in> set (identity_definitions n run_id) \<Longrightarrow> identity_store.capturing (df_handler d ps target control now)"
  by (auto simp: identity_definitions_def identity_action_def define_action_def capturing_set_value
      revoke_session_def remove_factor_def disable_account_def capturing_reset_credential
      capturing_record_push capturing_record_decision capturing_reset_identity capturing_readiness)

text \<open>Every handler of the module checks its control first.\<close>

lemma identity_handlers_stop:
  assumes "d \<in> set (identity_definitions n run_id)" and "checkpoint control now = Inl e"
  shows "\<exists>e'. df_handler d ps target control now m = (Inl e', m)"
  using assms by (auto simp: identity_definitions_def identity_action_def define_action_def
      revoke_session_def remove_factor_def disable_account_def reset_credential_def record_push_def
      record_decision_def reset_identity_def validate_readiness_def set_value_def
      identity_reset_credential_def identity_record_push_def identity_record_decision_def
      identity_reset_def effect_of_def bind_checked checked_stop liftE_def bindE_run
      split: sum.splits)

lemma identity_initial_inv: "identity_store.store_inv (identity_baseline profile)"
  by (simp add: identity_store.store_inv_def identity_baseline_def)

text \<open>Reset gives the baseline, which passes the readiness check.\<close>

lemma identity_baseline_ready:
  assumes "wf_val (VDict profile)"
  shows "mismatches (identity_snapshot (identity_baseline_content profile))
    (identity_snapshot (identity_baseline_content profile)) = []"
proof (rule mismatches_same)
  let ?sarah = "dmerge (dmerge [(''display_name'', VStr ''Sarah Mitchell'')] profile)
        [(''enabled'', VBool True), (''credential_version'', VInt 1), (''synthetic'', VBool True)]"
  have "wf_val (VDict ?sarah)"
    by (intro wf_dmerge assms) simp_all
  then show "list_all (\<lambda>(k, v). wf_val v) (identity_snapshot (identity_baseline_content profile))"
    by (simp add: identity_snapshot_def identity_baseline_content_def table_val_def)
qed (simp add: identity_snapshot_def)

lemma identity_reset_ready:
  assumes "identity_reset control now m = (Inr tok, m')" and "wf_val (VDict (is_profile m))"
  shows "identity_mismatches m' = [] \<and> is_content m' = identity_baseline_content (is_profile m)"
proof -
  have c: "checkpoint control now = Inr ()"
    using assms(1) by (auto simp: identity_reset_def checked_def prog_simps split: sum.splits)
  have m': "is_content m' = identity_baseline_content (is_profile m)" "is_profile m' = is_profile m"
    using assms(1) by (auto simp: identity_reset_def checked_ok [OF c] identity_save_def prog_simps)
  then show ?thesis using identity_baseline_ready [OF assms(2)] by (simp add: identity_mismatches_def)
qed

interpretation identity_module: cooperative_module "identity_definitions approval_threshold run_id"
  for approval_threshold run_id
  by unfold_locales (rule identity_handlers_stop)

section \<open>Failing operations\<close>

text \<open>An operation of this module that raises leaves the four collections as they were.\<close>

lemma identity_handlers_clean:
  assumes "d \<in> set (identity_definitions n run_id)"
  shows "identity_store.clean_failure (df_handler d ps target control now)"
proof -
  have set: "identity_store.clean_failure (effect_of (set_value k item fld v control now) effects)"
    for k item fld v effects
    by (auto simp: identity_store.clean_failure_def effect_of_def set_value_def checked_def
        save_rollback_def identity_save_def change_table_def set_field_def prog_simps
        split: prod.splits sum.splits option.splits)
  have cred: "identity_store.clean_failure (reset_credential ps target control now)"
    by (auto simp: identity_store.clean_failure_def reset_credential_def effect_of_def
        identity_reset_credential_def checked_def save_rollback_def identity_save_def change_table_def
        incr_field_def get_field_def set_field_def prog_simps
        split: prod.splits sum.splits option.splits)
  have push: "identity_store.clean_failure (record_push n ps target control now)"
    by (auto simp: identity_store.clean_failure_def record_push_def mfa_decision_def
        identity_record_push_def checked_def save_rollback_def identity_save_def change_table_def
        incr_field_def get_field_def set_field_def ditem_def prog_simps
        split: prod.splits sum.splits option.splits)
  have dec: "identity_store.clean_failure (record_decision ps target control now)"
    by (auto simp: identity_store.clean_failure_def record_decision_def mfa_decision_def
        identity_record_decision_def checked_def save_rollback_def identity_save_def change_table_def
        get_field_def set_field_def ditem_def prog_simps
        split: prod.splits sum.splits option.splits)
  have reset: "identity_store.clean_failure (reset_identity ps target control now)"
    by (auto simp: identity_store.clean_failure_def reset_identity_def effect_of_def identity_reset_def
        checked_def identity_save_def prog_simps split: sum.splits)
  have ready: "identity_store.clean_failure (validate_readiness ps target control now)"
    by (auto simp: identity_store.clean_failure_def validate_readiness_def checked_def prog_simps
        split: sum.splits if_splits)
  show ?thesis
    using assms set cred push dec reset ready
    by (auto simp: identity_definitions_def identity_action_def define_action_def revoke_session_def
        remove_factor_def disable_account_def)
qed

end
