(* ===== verification/EndpointState.thy ===== *)
theory EndpointState
  imports ModuleStore
begin

text \<open>
  \<^verbatim>\<open>modules/05-lateral-movement/endpoint_actions.py\<close>: \<open>EndpointAdState\<close>, its operations, and the actions
  registered on it. A rollback token remembers a snapshot of the four collections.
\<close>

section \<open>The state\<close>

record endpoint_content =
  ec_hosts :: table
  ec_accounts :: table
  ec_processes :: table
  ec_artifacts :: table

record endpoint_state =
  es_content :: endpoint_content
  es_rollbacks :: "(string \<times> endpoint_content) list"
  es_sequence :: int

definition absent_account :: row where
  "absent_account = [(''exists'', VBool False), (''enabled'', VBool False), (''groups'', VList [])]"

definition endpoint_baseline_content :: endpoint_content where
  "endpoint_baseline_content =
    \<lparr>ec_hosts = [(''FIN-WS01'', [(''isolated'', VBool False), (''remote_path_enabled'', VBool True),
        (''controller_visible'', VBool True)])],
     ec_accounts = [(''svc-print-sync'', absent_account)],
     ec_processes = [(''impact-task-01'', [(''active'', VBool False), (''host_id'', VStr ''FIN-WS01'')])],
     ec_artifacts = [(''FIN-WS01-discovery-bundle'', [(''preserved'', VBool False),
        (''sha256'', VStr ''2fdb12a705aa08f08c23e57b57c3ba6657ea7825efcbd24066fded92d95f9ea5''),
        (''host_id'', VStr ''FIN-WS01'')])]\<rparr>"

definition endpoint_state_of :: "endpoint_content \<Rightarrow> endpoint_state" where
  "endpoint_state_of c = \<lparr>es_content = c, es_rollbacks = [], es_sequence = 0\<rparr>"

definition endpoint_baseline :: endpoint_state where
  "endpoint_baseline = endpoint_state_of endpoint_baseline_content"

definition endpoint_adverse_content :: endpoint_content where
  "endpoint_adverse_content = endpoint_baseline_content
    \<lparr>ec_accounts := dset ''svc-print-sync'' [(''exists'', VBool True), (''enabled'', VBool True),
        (''groups'', VList [VStr ''SimCorp-Server-Operators''])] (ec_accounts endpoint_baseline_content),
     ec_processes := [(''impact-task-01'', [(''active'', VBool True), (''host_id'', VStr ''FIN-WS01'')])]\<rparr>"

definition endpoint_adverse_fixture :: endpoint_state where
  "endpoint_adverse_fixture = endpoint_state_of endpoint_adverse_content"

definition endpoint_snapshot :: "endpoint_content \<Rightarrow> (string \<times> val) list" where
  "endpoint_snapshot c = [(''hosts'', table_val (ec_hosts c)), (''accounts'', table_val (ec_accounts c)),
     (''processes'', table_val (ec_processes c)), (''artifacts'', table_val (ec_artifacts c))]"

section \<open>Operations\<close>

definition endpoint_token :: "int \<Rightarrow> string" where
  "endpoint_token n = ''endpoint-rb-'' @ int_str n"

definition endpoint_capture :: "(endpoint_state, string) prog" where
  "endpoint_capture =
    bindE (getE (\<lambda>s. endpoint_token (es_sequence s + 1))) (\<lambda>token.
    thenE (updE (\<lambda>s. s\<lparr>es_sequence := es_sequence s + 1,
       es_rollbacks := dset token (es_content s) (es_rollbacks s)\<rparr>)) (ret token))"

text \<open>Change the content by \<open>f\<close>, which may raise and then changes nothing.\<close>

definition endpoint_change :: "(endpoint_content \<Rightarrow> exc + endpoint_content) \<Rightarrow> (endpoint_state, unit) prog" where
  "endpoint_change f = bindE (getE (\<lambda>s. f (es_content s))) (\<lambda>c.
     bindE (liftE c) (\<lambda>c'. updE (\<lambda>s. s\<lparr>es_content := c'\<rparr>)))"

definition isolate_row :: "row \<Rightarrow> row" where
  "isolate_row host = dset ''controller_visible'' (VBool True)
     (dset ''remote_path_enabled'' (VBool False) (dset ''isolated'' (VBool True) host))"

definition isolate_host :: "string \<Rightarrow> control \<Rightarrow> int \<Rightarrow> (endpoint_state, string) prog" where
  "isolate_host host_id control now = checked control now
    (bindE endpoint_capture (\<lambda>token.
     thenE (endpoint_change (\<lambda>c. map_result
         (\<lambda>host. c\<lparr>ec_hosts := dset host_id (isolate_row host) (ec_hosts c)\<rparr>)
         (ditem (ec_hosts c) host_id)))
       (ret token)))"

definition preserve_artifact :: "string \<Rightarrow> control \<Rightarrow> int \<Rightarrow> (endpoint_state, string) prog" where
  "preserve_artifact artifact_id control now = checked control now
    (bindE endpoint_capture (\<lambda>token.
     thenE (endpoint_change (\<lambda>c. map_result (\<lambda>t. c\<lparr>ec_artifacts := t\<rparr>)
         (set_field artifact_id ''preserved'' (VBool True) (ec_artifacts c))))
       (ret token)))"

definition disable_directory_account :: "string \<Rightarrow> control \<Rightarrow> int \<Rightarrow> (endpoint_state, string) prog" where
  "disable_directory_account account_id control now = checked control now
    (bindE (getE (\<lambda>s. get_field account_id ''exists'' (ec_accounts (es_content s)))) (\<lambda>present.
     bindE (liftE present) (\<lambda>exists.
     thenE (requireE (truthy exists)
       (ActionExecutionError ''target_not_present'' ''Persistence account is absent''))
    (bindE endpoint_capture (\<lambda>token.
     thenE (endpoint_change (\<lambda>c. map_result (\<lambda>t. c\<lparr>ec_accounts := t\<rparr>)
         (set_field account_id ''enabled'' (VBool False) (ec_accounts c))))
       (ret token))))))"

definition remove_persistence :: "string \<Rightarrow> control \<Rightarrow> int \<Rightarrow> (endpoint_state, string) prog" where
  "remove_persistence account_id control now = checked control now
    (bindE endpoint_capture (\<lambda>token.
     thenE (endpoint_change (\<lambda>c. Inr (c\<lparr>ec_accounts := dset account_id absent_account (ec_accounts c)\<rparr>)))
       (ret token)))"

definition stop_process :: "string \<Rightarrow> control \<Rightarrow> int \<Rightarrow> (endpoint_state, string) prog" where
  "stop_process process_id control now = checked control now
    (bindE endpoint_capture (\<lambda>token.
     thenE (endpoint_change (\<lambda>c. map_result (\<lambda>t. c\<lparr>ec_processes := t\<rparr>)
         (set_field process_id ''active'' (VBool False) (ec_processes c))))
       (ret token)))"

definition endpoint_reset :: "control \<Rightarrow> int \<Rightarrow> (endpoint_state, string) prog" where
  "endpoint_reset control now = checked control now
    (bindE endpoint_capture (\<lambda>token.
     thenE (endpoint_change (\<lambda>_. Inr endpoint_baseline_content)) (ret token)))"

definition endpoint_mismatches :: "endpoint_state \<Rightarrow> string list" where
  "endpoint_mismatches s = mismatches (endpoint_snapshot endpoint_baseline_content)
     (endpoint_snapshot (es_content s))"

definition endpoint_rollback :: "string \<Rightarrow> control \<Rightarrow> int \<Rightarrow> (endpoint_state, string list) prog" where
  "endpoint_rollback token control now = checked control now
    (bindE (getE (\<lambda>s. map_of (es_rollbacks s) token)) (\<lambda>saved. case saved of
       None \<Rightarrow> raise (ActionExecutionError ''invalid_rollback'' ''Unknown or already-used rollback token'')
     | Some snapshot \<Rightarrow> thenE (updE (\<lambda>s. s\<lparr>es_rollbacks := dpop token (es_rollbacks s),
           es_content := snapshot\<rparr>)) (ret [''restored pre-action endpoint/AD state''])))"

section \<open>The registered actions\<close>

definition ENDPOINT_ROLES :: "string list" where
  "ENDPOINT_ROLES = [''endpoint_responder'', ''facilitator'']"

definition OPERATOR_ROLES :: "string list" where
  "OPERATOR_ROLES = [''technical_operator'', ''facilitator'']"

definition endpoint_isolate :: "endpoint_state handler" where
  "endpoint_isolate ps target control now = effect_of (isolate_host (en_id target) control now)
     [''isolated remote path for '' @ en_id target]"

definition endpoint_preserve :: "endpoint_state handler" where
  "endpoint_preserve ps target control now = effect_of (preserve_artifact (en_id target) control now)
     [''preserved evidence '' @ en_id target]"

definition endpoint_disable :: "endpoint_state handler" where
  "endpoint_disable ps target control now = effect_of (disable_directory_account (en_id target) control now)
     [''disabled directory account '' @ en_id target]"

definition endpoint_remove :: "endpoint_state handler" where
  "endpoint_remove ps target control now = effect_of (remove_persistence (en_id target) control now)
     [''removed persistence '' @ en_id target]"

definition endpoint_stop :: "endpoint_state handler" where
  "endpoint_stop ps target control now = effect_of (stop_process (en_id target) control now)
     [''stopped simulated process '' @ en_id target]"

definition endpoint_reset_action :: "endpoint_state handler" where
  "endpoint_reset_action ps target control now = effect_of (endpoint_reset control now)
     [''restored endpoint/AD baseline'']"

definition endpoint_readiness :: "endpoint_state handler" where
  "endpoint_readiness ps target control now = checked control now
    (bindE (getE endpoint_mismatches) (\<lambda>ms.
     thenE (requireE (ms = []) (ActionExecutionError ''baseline_mismatch''
         (''Endpoint/AD baseline differs in: '' @ join '', '' ms)))
       (ret (action_effect [''validated endpoint/AD baseline''] None))))"

definition endpoint_action :: "string \<Rightarrow> string \<Rightarrow> endpoint_state handler \<Rightarrow> string
    \<Rightarrow> endpoint_state action_definition" where
  "endpoint_action action_id target handler phase = define_action action_id phase ENDPOINT_ROLES [target]
     [''running''] 20 [action_id] ''restore captured pre-action state'' handler endpoint_rollback
     no_parameters"

definition endpoint_control :: "string \<Rightarrow> string \<Rightarrow> string \<Rightarrow> string list \<Rightarrow> endpoint_state handler
    \<Rightarrow> string \<Rightarrow> endpoint_state action_definition" where
  "endpoint_control run_id action_id phase states handler effect = define_action action_id phase
     OPERATOR_ROLES [''exercise_run:'' @ run_id] states 30 [effect] ''restore captured pre-action state''
     handler endpoint_rollback no_parameters"

definition endpoint_definitions :: "string \<Rightarrow> endpoint_state action_definition list" where
  "endpoint_definitions run_id =
    [endpoint_action ''endpoint.host.isolate'' ''host:FIN-WS01'' endpoint_isolate ''endpoint_ad'',
     endpoint_action ''evidence.artifact.preserve'' ''evidence_artifact:FIN-WS01-discovery-bundle''
       endpoint_preserve ''endpoint_ad'',
     endpoint_action ''ad.account.disable'' ''directory_account:svc-print-sync'' endpoint_disable
       ''endpoint_ad'',
     endpoint_action ''ad.persistence.remove'' ''directory_account:svc-print-sync'' endpoint_remove
       ''endpoint_ad'',
     endpoint_action ''endpoint.process.stop'' ''process:impact-task-01'' endpoint_stop ''impact_recovery'',
     endpoint_control run_id ''exercise.endpoint.reset'' ''post_exercise'' [''stopped'', ''resetting'']
       endpoint_reset_action ''restore endpoint/AD baseline'',
     endpoint_control run_id ''exercise.endpoint.readiness.validate'' ''setup''
       [''setup'', ''stopped'', ''resetting'', ''ready''] endpoint_readiness
       ''validate endpoint/AD baseline'']"

definition register_endpoint_actions :: "string \<Rightarrow> endpoint_state registry
    \<Rightarrow> exc + endpoint_state registry" where
  "register_endpoint_actions run_id reg = register_all (endpoint_definitions run_id) reg"

definition build_endpoint_adapter :: "string \<Rightarrow> string
    \<Rightarrow> (endpoint_state \<Rightarrow> string \<Rightarrow> string \<Rightarrow> string) \<Rightarrow> exc + endpoint_state adapter" where
  "build_endpoint_adapter exercise_id run_id run_state =
    (case register_endpoint_actions run_id [] of Inl e \<Rightarrow> Inl e
     | Inr reg \<Rightarrow> Inr (new_adapter (adapter_context exercise_id run_id ''endpoint-ad-action-adapter'')
         reg run_state False))"

section \<open>The rollback table\<close>

interpretation endpoint_store: snapshot_store es_content es_rollbacks es_sequence "''endpoint-rb-''"
  endpoint_rollback endpoint_capture
proof
  fix control now e tok and m :: endpoint_state
  assume "checkpoint control now = Inl e"
  then show "endpoint_rollback tok control now m = (Inl e, m)"
    by (simp add: endpoint_rollback_def checked_stop)
next
  fix control now tok and m :: endpoint_state
  assume "checkpoint control now = Inr ()" "map_of (es_rollbacks m) tok = None"
  then show "\<exists>e. endpoint_rollback tok control now m = (Inl e, m)"
    by (simp add: endpoint_rollback_def checked_ok prog_simps)
next
  fix control now tok x and m :: endpoint_state
  assume "checkpoint control now = Inr ()" "map_of (es_rollbacks m) tok = Some x"
  then show "\<exists>changes m'. endpoint_rollback tok control now m = (Inr changes, m')
      \<and> es_content m' = x \<and> es_rollbacks m' = dpop tok (es_rollbacks m) \<and> es_sequence m' = es_sequence m"
    by (simp add: endpoint_rollback_def checked_ok prog_simps)
next
  fix m :: endpoint_state
  show "\<exists>m'. endpoint_capture m = (Inr (''endpoint-rb-'' @ int_str (es_sequence m + 1)), m')
      \<and> es_rollbacks m' = dset (''endpoint-rb-'' @ int_str (es_sequence m + 1)) (es_content m) (es_rollbacks m)
      \<and> es_sequence m' = es_sequence m + 1 \<and> es_content m' = es_content m"
    by (simp add: endpoint_capture_def endpoint_token_def prog_simps)
qed

lemma keeps_endpoint_change [keeps_intros]:
  "keeps es_rollbacks (endpoint_change f)" "keeps es_sequence (endpoint_change f)"
  by (auto simp: keeps_def endpoint_change_def prog_simps split: sum.splits)

text \<open>The shape of all mutating operations: capture, then one change.\<close>

lemma capturing_endpoint_change:
  "endpoint_store.capturing (effect_of (checked control now
     (bindE endpoint_capture (\<lambda>token. thenE (endpoint_change f) (ret token)))) effects)"
  unfolding effect_of_checked
proof (rule endpoint_store.capturing_snapshot)
  show "keeps es_rollbacks (effect_of (thenE (endpoint_change f) (ret tok)) effects)"
    and "keeps es_sequence (effect_of (thenE (endpoint_change f) (ret tok)) effects)" for tok
    unfolding effect_of_def by (intro keeps_intros)+
  show "ef_rollback_token eff = Some tok"
    if "effect_of (thenE (endpoint_change f) (ret tok)) effects m = (Inr eff, m')" for tok m eff m'
    using that unfolding effect_of_def by (elim bindE_InrE thenE_InrE) (auto simp: action_effect_def)
qed

lemma capturing_endpoint_disable: "endpoint_store.capturing (endpoint_disable ps target control now)"
proof -
  let ?ready = "\<lambda>m. checkpoint control now = Inr () \<and>
    (\<exists>v. get_field (en_id target) ''exists'' (ec_accounts (es_content m)) = Inr v \<and> truthy v)"
  let ?op = "effect_of (checked control now (bindE endpoint_capture (\<lambda>token. thenE
     (endpoint_change (\<lambda>c. map_result (\<lambda>t. c\<lparr>ec_accounts := t\<rparr>)
         (set_field (en_id target) ''enabled'' (VBool False) (ec_accounts c)))) (ret token))))
     [''disabled directory account '' @ en_id target]"
  have yes: "endpoint_disable ps target control now m = ?op m" if "?ready m" for m
    using that by (auto simp: endpoint_disable_def disable_directory_account_def effect_of_def checked_ok
        prog_simps)
  have no: "\<exists>e. endpoint_disable ps target control now m = (Inl e, m)" if "\<not> ?ready m" for m
    using that by (auto simp: endpoint_disable_def disable_directory_account_def effect_of_def
        checked_def prog_simps split: sum.splits)
  have cap: "endpoint_store.capturing ?op" by (rule capturing_endpoint_change)
  show ?thesis
    unfolding endpoint_store.capturing_def
  proof (intro allI impI)
    fix m r m'
    assume run: "endpoint_disable ps target control now m = (r, m')"
    show "m' = m \<and> (\<forall>eff. r = Inr eff \<longrightarrow> ef_rollback_token eff = None) \<or>
      (\<exists>x. es_rollbacks m' = dset (endpoint_store.token (es_sequence m + 1)) x (es_rollbacks m)
        \<and> es_sequence m' = es_sequence m + 1 \<and> x = es_content m
        \<and> (\<forall>eff. r = Inr eff \<longrightarrow> ef_rollback_token eff = Some (endpoint_store.token (es_sequence m + 1))))"
    proof (cases "?ready m")
      case True
      then have "?op m = (r, m')" using yes run by simp
      from cap [unfolded endpoint_store.capturing_def, rule_format, OF this] show ?thesis .
    next
      case False
      then show ?thesis using no [OF False] run by auto
    qed
  qed
qed

lemma capturing_endpoint_readiness: "endpoint_store.capturing (endpoint_readiness ps target control now)"
  by (auto simp: endpoint_store.capturing_def endpoint_readiness_def checked_def prog_simps
      action_effect_def split: sum.splits if_splits)

lemma endpoint_handlers_capture:
  "d \<in> set (endpoint_definitions run_id) \<Longrightarrow> endpoint_store.capturing (df_handler d ps target control now)"
  by (auto simp: endpoint_definitions_def endpoint_action_def endpoint_control_def define_action_def
      capturing_endpoint_disable capturing_endpoint_readiness
      endpoint_isolate_def endpoint_preserve_def endpoint_remove_def endpoint_stop_def
      endpoint_reset_action_def isolate_host_def preserve_artifact_def remove_persistence_def
      stop_process_def endpoint_reset_def intro: capturing_endpoint_change)

lemma endpoint_handlers_stop:
  assumes "d \<in> set (endpoint_definitions run_id)" and "checkpoint control now = Inl e"
  shows "\<exists>e'. df_handler d ps target control now m = (Inl e', m)"
  using assms by (auto simp: endpoint_definitions_def endpoint_action_def endpoint_control_def
      define_action_def endpoint_isolate_def endpoint_preserve_def endpoint_remove_def endpoint_stop_def
      endpoint_reset_action_def isolate_host_def preserve_artifact_def remove_persistence_def
      stop_process_def endpoint_reset_def endpoint_disable_def disable_directory_account_def
      endpoint_readiness_def effect_of_def bind_checked checked_stop)

interpretation endpoint_module: cooperative_module "endpoint_definitions run_id" for run_id
  by unfold_locales (rule endpoint_handlers_stop)

lemma endpoint_initial_inv: "endpoint_store.store_inv endpoint_baseline"
  by (simp add: endpoint_store.store_inv_def endpoint_baseline_def endpoint_state_of_def)

lemma endpoint_baseline_ready:
  "mismatches (endpoint_snapshot endpoint_baseline_content) (endpoint_snapshot endpoint_baseline_content) = []"
  by (rule mismatches_same)
    (simp_all add: endpoint_snapshot_def endpoint_baseline_content_def absent_account_def table_val_def)

text \<open>A failing operation of this module leaves the content as it was.\<close>

lemma endpoint_change_failure: "endpoint_change f m = (Inl e, m') \<Longrightarrow> m' = m"
  by (auto simp: endpoint_change_def prog_simps split: sum.splits)

lemma clean_endpoint_change:
  "endpoint_store.clean_failure (effect_of (checked control now
     (bindE endpoint_capture (\<lambda>token. thenE (endpoint_change f) (ret token)))) effects)"
  by (auto simp: endpoint_store.clean_failure_def effect_of_def checked_def prog_simps
      endpoint_capture_def split: prod.splits sum.splits dest!: endpoint_change_failure)

text \<open>Isolating a host keeps it visible to the controllers.\<close>

lemma isolate_host_effect:
  assumes "isolate_host h control now m = (Inr tok, m')"
  shows "\<exists>host. map_of (ec_hosts (es_content m')) h = Some host
    \<and> map_of host ''isolated'' = Some (VBool True)
    \<and> map_of host ''remote_path_enabled'' = Some (VBool False)
    \<and> map_of host ''controller_visible'' = Some (VBool True)
    \<and> es_content m' = (es_content m)\<lparr>ec_hosts := dset h host (ec_hosts (es_content m))\<rparr>"
  using assms
  by (auto simp: isolate_host_def checked_def endpoint_capture_def endpoint_change_def prog_simps
      map_result_def isolate_row_def split: sum.splits)

lemma endpoint_handlers_clean:
  assumes "d \<in> set (endpoint_definitions run_id)"
  shows "endpoint_store.clean_failure (df_handler d ps target control now)"
proof -
  have dis: "endpoint_store.clean_failure (endpoint_disable ps target control now)"
    by (auto simp: endpoint_store.clean_failure_def endpoint_disable_def disable_directory_account_def
        effect_of_def checked_def endpoint_capture_def prog_simps
        split: prod.splits sum.splits if_splits dest!: endpoint_change_failure)
  have ready: "endpoint_store.clean_failure (endpoint_readiness ps target control now)"
    by (auto simp: endpoint_store.clean_failure_def endpoint_readiness_def checked_def prog_simps
        split: sum.splits if_splits)
  show ?thesis
    using assms dis ready by (auto simp: endpoint_definitions_def endpoint_action_def endpoint_control_def
      define_action_def endpoint_isolate_def endpoint_preserve_def endpoint_remove_def endpoint_stop_def
      endpoint_reset_action_def isolate_host_def preserve_artifact_def remove_persistence_def
      stop_process_def endpoint_reset_def intro: clean_endpoint_change)
qed

end
