(* ===== verification/CloudState.thy ===== *)
theory CloudState
  imports ModuleStore
begin

text \<open>
  \<^verbatim>\<open>modules/06-cloud-exfil/cloud_actions.py\<close>: \<open>MockCloudState\<close>, its operations, and the actions
  registered on it. \<open>hashlib.sha256\<close> is the parameter \<open>sha\<close>; what the \<open>audit_provider\<close> returns when a
  handler asks for it is the parameter \<open>audit\<close> of the handlers (empty when there is no provider).
\<close>

section \<open>The state\<close>

definition PRINCIPAL_ID :: string where "PRINCIPAL_ID = ''svc-cloud-backup''"
definition KEY_ID :: string where "KEY_ID = ''svc-cloud-backup-key-01''"
definition BUCKET_ID :: string where "BUCKET_ID = ''simcorp-customer-exports''"
definition APPROVED_POLICY_ID :: string where "APPROVED_POLICY_ID = ''simcorp-export-read-v1''"
definition ALTERED_POLICY_ID :: string where "ALTERED_POLICY_ID = ''simcorp-export-expanded-v1''"

record cloud_content =
  cc_principals :: table
  cc_keys :: table
  cc_buckets :: table
  cc_exposure :: table
  cc_objects :: table
  cc_preserved :: row

record cloud_state =
  cs_content :: cloud_content
  cs_rollbacks :: "(string \<times> cloud_content) list"
  cs_sequence :: int

definition record_name :: "nat \<Rightarrow> string" where
  "record_name i = ''synthetic-record-'' @ pad0 3 (int i)"

definition object_row :: row where
  "object_row = [(''bucket_id'', VStr BUCKET_ID), (''size_bytes'', VInt 200), (''synthetic'', VBool True)]"

definition bucket_row :: "(string \<Rightarrow> string) \<Rightarrow> row" where
  "bucket_row sha = [(''policy_id'', VStr APPROVED_POLICY_ID),
     (''policy_hash'', VStr (sha APPROVED_POLICY_ID)),
     (''approved_policy_hash'', VStr (sha APPROVED_POLICY_ID)),
     (''bulk_access_allowed'', VBool False), (''record_count'', VInt 25), (''synthetic'', VBool True)]"

definition cloud_baseline_content :: "(string \<Rightarrow> string) \<Rightarrow> cloud_content" where
  "cloud_baseline_content sha =
    \<lparr>cc_principals = [(PRINCIPAL_ID, [(''enabled'', VBool True), (''synthetic'', VBool True),
        (''kind'', VStr ''service''), (''roles'', VList [VStr ''simcorp-export-reader''])])],
     cc_keys = [(KEY_ID, [(''principal_id'', VStr PRINCIPAL_ID), (''active'', VBool True),
        (''synthetic'', VBool True)])],
     cc_buckets = [(BUCKET_ID, bucket_row sha)],
     cc_exposure = [(BUCKET_ID, [(''accessed_record_ids'', VList []), (''confirmed_count'', VInt 0),
        (''last_outcome'', VStr ''none'')])],
     cc_objects = map (\<lambda>i. (record_name i, object_row)) [1..<26],
     cc_preserved = []\<rparr>"

definition cloud_state_of :: "cloud_content \<Rightarrow> cloud_state" where
  "cloud_state_of c = \<lparr>cs_content = c, cs_rollbacks = [], cs_sequence = 0\<rparr>"

definition cloud_baseline :: "(string \<Rightarrow> string) \<Rightarrow> cloud_state" where
  "cloud_baseline sha = cloud_state_of (cloud_baseline_content sha)"

definition altered_bucket :: "(string \<Rightarrow> string) \<Rightarrow> row" where
  "altered_bucket sha = dset ''bulk_access_allowed'' (VBool True)
     (dset ''policy_hash'' (VStr (sha ALTERED_POLICY_ID))
       (dset ''policy_id'' (VStr ALTERED_POLICY_ID) (bucket_row sha)))"

definition cloud_adverse_fixture :: "(string \<Rightarrow> string) \<Rightarrow> cloud_state" where
  "cloud_adverse_fixture sha = cloud_state_of ((cloud_baseline_content sha)
    \<lparr>cc_buckets := [(BUCKET_ID, altered_bucket sha)],
     cc_exposure := [(BUCKET_ID,
       [(''accessed_record_ids'', VList (map (VStr \<circ> record_name) [1..<26])),
        (''confirmed_count'', VInt 25), (''last_outcome'', VStr ''full_exposure'')])]\<rparr>)"

definition cloud_snapshot :: "cloud_content \<Rightarrow> row" where
  "cloud_snapshot c = [(''principals'', table_val (cc_principals c)), (''keys'', table_val (cc_keys c)),
     (''buckets'', table_val (cc_buckets c)), (''exposure'', table_val (cc_exposure c)),
     (''objects'', table_val (cc_objects c)), (''preserved_evidence'', VDict (cc_preserved c))]"

section \<open>Operations\<close>

definition cloud_token :: "int \<Rightarrow> string" where
  "cloud_token n = ''cloud-rb-'' @ int_str n"

definition cloud_capture :: "(cloud_state, string) prog" where
  "cloud_capture =
    bindE (getE (\<lambda>s. cloud_token (cs_sequence s + 1))) (\<lambda>token.
    thenE (updE (\<lambda>s. s\<lparr>cs_sequence := cs_sequence s + 1,
       cs_rollbacks := dset token (cs_content s) (cs_rollbacks s)\<rparr>)) (ret token))"

text \<open>A change of the content, which may raise part of the way.\<close>

definition cloud_change :: "(cloud_content, unit) prog \<Rightarrow> (cloud_state, unit) prog" where
  "cloud_change m = zoomE cs_content (\<lambda>c s. s\<lparr>cs_content := c\<rparr>) m"

definition put_result :: "('a \<Rightarrow> 'b \<Rightarrow> 'b) \<Rightarrow> ('b \<Rightarrow> exc + 'a) \<Rightarrow> ('b, unit) prog" where
  "put_result put f = bindE (getE f) (\<lambda>r. bindE (liftE r) (\<lambda>x. updE (put x)))"

definition revoke_key :: "string \<Rightarrow> control \<Rightarrow> int \<Rightarrow> (cloud_state, string) prog" where
  "revoke_key key_id control now = checked control now
    (bindE cloud_capture (\<lambda>token.
     thenE (cloud_change (put_result (\<lambda>t c. c\<lparr>cc_keys := t\<rparr>)
        (\<lambda>c. set_field key_id ''active'' (VBool False) (cc_keys c)))) (ret token)))"

text \<open>The loop over the keys; a key without an owner raises, after the ones before it were revoked.\<close>

fun revoke_owned :: "string \<Rightarrow> table \<Rightarrow> exc option \<times> table" where
  "revoke_owned principal_id [] = (None, [])"
| "revoke_owned principal_id ((k, key) # keys) =
    (case map_of key ''principal_id'' of
       None \<Rightarrow> (Some (KeyError ''principal_id''), (k, key) # keys)
     | Some owner \<Rightarrow> (case revoke_owned principal_id keys of (e, keys') \<Rightarrow>
         (e, (k, if owner = VStr principal_id then dset ''active'' (VBool False) key else key) # keys')))"

definition disable_principal :: "string \<Rightarrow> control \<Rightarrow> int \<Rightarrow> (cloud_state, string) prog" where
  "disable_principal principal_id control now = checked control now
    (bindE cloud_capture (\<lambda>token.
     thenE (cloud_change (put_result (\<lambda>t c. c\<lparr>cc_principals := t\<rparr>)
        (\<lambda>c. set_field principal_id ''enabled'' (VBool False) (cc_principals c))))
    (thenE (cloud_change (bindE (getE (\<lambda>c. revoke_owned principal_id (cc_keys c))) (\<lambda>(e, keys).
        thenE (updE (\<lambda>c. c\<lparr>cc_keys := keys\<rparr>))
          (case e of None \<Rightarrow> ret () | Some exn \<Rightarrow> raise exn))))
      (ret token))))"

definition approved_bucket :: "row \<Rightarrow> exc + row" where
  "approved_bucket bucket = (let b = dset ''policy_id'' (VStr APPROVED_POLICY_ID) bucket in
     map_result (\<lambda>h. dset ''bulk_access_allowed'' (VBool False) (dset ''policy_hash'' h b))
       (ditem b ''approved_policy_hash''))"

text \<open>The policy identifier is set before the approved hash is looked up.\<close>

definition restore_policy :: "string \<Rightarrow> control \<Rightarrow> int \<Rightarrow> (cloud_state, string) prog" where
  "restore_policy bucket_id control now = checked control now
    (bindE cloud_capture (\<lambda>token.
     thenE (cloud_change (put_result (\<lambda>t c. c\<lparr>cc_buckets := t\<rparr>)
        (\<lambda>c. set_field bucket_id ''policy_id'' (VStr APPROVED_POLICY_ID) (cc_buckets c))))
    (thenE (cloud_change (put_result (\<lambda>b c. c\<lparr>cc_buckets := dset bucket_id b (cc_buckets c)\<rparr>)
        (\<lambda>c. case map_of (cc_buckets c) bucket_id of None \<Rightarrow> Inl (KeyError bucket_id)
           | Some bucket \<Rightarrow> approved_bucket bucket)))
      (ret token))))"

text \<open>\<open>access_decision\<close>.\<close>

definition access_decision :: "string \<Rightarrow> string \<Rightarrow> string \<Rightarrow> bool \<Rightarrow> cloud_content
    \<Rightarrow> exc + (bool \<times> string)" where
  "access_decision principal_id key_id bucket_id bulk c =
    map_result (\<lambda>reason. (reason = ''allowed'', reason))
     (case map_of (cc_principals c) principal_id of None \<Rightarrow> Inr ''principal_unknown''
     | Some owner_row \<Rightarrow> (case map_of (cc_keys c) key_id of None \<Rightarrow> Inr ''key_unknown''
     | Some key \<Rightarrow> (case map_of (cc_buckets c) bucket_id of None \<Rightarrow> Inr ''bucket_unknown''
     | Some bucket \<Rightarrow>
       (case ditem owner_row ''enabled'' of Inl e \<Rightarrow> Inl e | Inr enabled \<Rightarrow>
        if \<not> truthy enabled then Inr ''principal_disabled''
        else (case ditem key ''principal_id'' of Inl e \<Rightarrow> Inl e | Inr owner \<Rightarrow>
        if owner \<noteq> VStr principal_id then Inr ''key_principal_mismatch''
        else (case ditem key ''active'' of Inl e \<Rightarrow> Inl e | Inr active \<Rightarrow>
        if \<not> truthy active then Inr ''key_revoked''
        else if \<not> bulk then Inr ''allowed''
        else (case ditem bucket ''bulk_access_allowed'' of Inl e \<Rightarrow> Inl e | Inr bulk_ok \<Rightarrow>
        if \<not> truthy bulk_ok then Inr ''policy_denied'' else Inr ''allowed'')))))))"

definition cloud_reset :: "(string \<Rightarrow> string) \<Rightarrow> control \<Rightarrow> int \<Rightarrow> (cloud_state, string) prog" where
  "cloud_reset sha control now = checked control now
    (bindE cloud_capture (\<lambda>token.
     thenE (cloud_change (updE (\<lambda>_. cloud_baseline_content sha))) (ret token)))"

definition preserve_view :: "val list \<Rightarrow> cloud_content \<Rightarrow> row" where
  "preserve_view audit c = [(''state'', VDict (dpop ''preserved_evidence'' (cloud_snapshot c))),
     (''audit'', VList audit)]"

definition preserve_evidence :: "val list \<Rightarrow> control \<Rightarrow> int \<Rightarrow> (cloud_state, string) prog" where
  "preserve_evidence audit control now = checked control now
    (bindE cloud_capture (\<lambda>token.
     thenE (cloud_change (updE (\<lambda>c. if cc_preserved c = []
         then c\<lparr>cc_preserved := preserve_view audit c\<rparr> else c))) (ret token)))"

definition cloud_mismatches :: "(string \<Rightarrow> string) \<Rightarrow> cloud_state \<Rightarrow> string list" where
  "cloud_mismatches sha s = mismatches (cloud_snapshot (cloud_baseline_content sha))
     (cloud_snapshot (cs_content s))"

definition cloud_rollback :: "string \<Rightarrow> control \<Rightarrow> int \<Rightarrow> (cloud_state, string list) prog" where
  "cloud_rollback token control now = checked control now
    (bindE (getE (\<lambda>s. map_of (cs_rollbacks s) token)) (\<lambda>saved. case saved of
       None \<Rightarrow> raise (ActionExecutionError ''invalid_rollback'' ''Unknown or already-used rollback token'')
     | Some snapshot \<Rightarrow> thenE (updE (\<lambda>s. s\<lparr>cs_rollbacks := dpop token (cs_rollbacks s),
           cs_content := snapshot\<rparr>)) (ret [''restored pre-action mock-cloud state''])))"

section \<open>The registered actions\<close>

definition CLOUD_ROLES :: "string list" where
  "CLOUD_ROLES = [''cloud_responder'', ''facilitator'']"

definition cloud_revoke_action :: "cloud_state handler" where
  "cloud_revoke_action ps target control now = effect_of (revoke_key (en_id target) control now)
     [''revoked mock-cloud key '' @ en_id target]"

definition cloud_disable_action :: "cloud_state handler" where
  "cloud_disable_action ps target control now = effect_of (disable_principal (en_id target) control now)
     [''disabled mock-cloud principal '' @ en_id target]"

definition cloud_restore_action :: "cloud_state handler" where
  "cloud_restore_action ps target control now = effect_of (restore_policy (en_id target) control now)
     [''restored approved policy for '' @ en_id target]"

definition cloud_preserve_action :: "val list \<Rightarrow> cloud_state handler" where
  "cloud_preserve_action audit ps target control now = effect_of (preserve_evidence audit control now)
     [''preserved immutable mock-cloud evidence snapshot'']"

definition cloud_reset_action :: "(string \<Rightarrow> string) \<Rightarrow> cloud_state handler" where
  "cloud_reset_action sha ps target control now = effect_of (cloud_reset sha control now)
     [''restored approved mock-cloud baseline'']"

definition cloud_readiness_action :: "(string \<Rightarrow> string) \<Rightarrow> cloud_state handler" where
  "cloud_readiness_action sha ps target control now = checked control now
    (bindE (getE (cloud_mismatches sha)) (\<lambda>ms.
     thenE (requireE (ms = []) (ActionExecutionError ''baseline_mismatch''
         (''Mock-cloud baseline differs in: '' @ join '', '' ms)))
       (ret (action_effect [''validated approved mock-cloud baseline''] None))))"

definition cloud_action :: "string \<Rightarrow> string \<Rightarrow> cloud_state handler \<Rightarrow> string
    \<Rightarrow> cloud_state action_definition" where
  "cloud_action action_id target handler method = define_action action_id ''cloud'' CLOUD_ROLES [target]
     [''running''] 20 [action_id] method handler cloud_rollback no_parameters"

definition cloud_control :: "string \<Rightarrow> string \<Rightarrow> string \<Rightarrow> string list \<Rightarrow> cloud_state handler \<Rightarrow> string
    \<Rightarrow> cloud_state action_definition" where
  "cloud_control run_id action_id phase states handler effect = define_action action_id phase
     [''technical_operator'', ''facilitator''] [''exercise_run:'' @ run_id] states 30 [effect]
     ''restore captured pre-action state'' handler cloud_rollback no_parameters"

definition cloud_definitions :: "(string \<Rightarrow> string) \<Rightarrow> val list \<Rightarrow> string
    \<Rightarrow> cloud_state action_definition list" where
  "cloud_definitions sha audit run_id =
    [cloud_action ''cloud.evidence.preserve'' (''cloud_bucket:'' @ BUCKET_ID) (cloud_preserve_action audit)
       ''restore prior evidence preservation state'',
     cloud_action ''cloud.key.revoke'' (''cloud_key:'' @ KEY_ID) cloud_revoke_action
       ''restore prior mock key state'',
     cloud_action ''cloud.principal.disable'' (''cloud_principal:'' @ PRINCIPAL_ID) cloud_disable_action
       ''restore principal and owned key states'',
     cloud_action ''cloud.policy.restore'' (''cloud_bucket:'' @ BUCKET_ID) cloud_restore_action
       ''restore prior mock bucket policy'',
     cloud_control run_id ''exercise.cloud.reset'' ''post_exercise'' [''stopped'', ''resetting'']
       (cloud_reset_action sha) ''restore approved mock-cloud baseline'',
     cloud_control run_id ''exercise.cloud.readiness.validate'' ''setup''
       [''setup'', ''stopped'', ''resetting'', ''ready''] (cloud_readiness_action sha)
       ''validate approved mock-cloud baseline'']"

definition register_cloud_actions :: "(string \<Rightarrow> string) \<Rightarrow> val list \<Rightarrow> string \<Rightarrow> cloud_state registry
    \<Rightarrow> exc + cloud_state registry" where
  "register_cloud_actions sha audit run_id reg = register_all (cloud_definitions sha audit run_id) reg"

definition build_cloud_adapter :: "(string \<Rightarrow> string) \<Rightarrow> string \<Rightarrow> string
    \<Rightarrow> (cloud_state \<Rightarrow> string \<Rightarrow> string \<Rightarrow> string) \<Rightarrow> exc + cloud_state adapter" where
  "build_cloud_adapter sha exercise_id run_id run_state =
    (case register_cloud_actions sha [] run_id [] of Inl e \<Rightarrow> Inl e
     | Inr reg \<Rightarrow> Inr (new_adapter (adapter_context exercise_id run_id ''mock-cloud-action-adapter'')
         reg run_state False))"

section \<open>The rollback table\<close>

interpretation cloud_store: snapshot_store cs_content cs_rollbacks cs_sequence "''cloud-rb-''"
  cloud_rollback cloud_capture
proof
  fix control now e tok and m :: cloud_state
  assume "checkpoint control now = Inl e"
  then show "cloud_rollback tok control now m = (Inl e, m)"
    by (simp add: cloud_rollback_def checked_stop)
next
  fix control now tok and m :: cloud_state
  assume "checkpoint control now = Inr ()" "map_of (cs_rollbacks m) tok = None"
  then show "\<exists>e. cloud_rollback tok control now m = (Inl e, m)"
    by (simp add: cloud_rollback_def checked_ok prog_simps)
next
  fix control now tok x and m :: cloud_state
  assume "checkpoint control now = Inr ()" "map_of (cs_rollbacks m) tok = Some x"
  then show "\<exists>changes m'. cloud_rollback tok control now m = (Inr changes, m')
      \<and> cs_content m' = x \<and> cs_rollbacks m' = dpop tok (cs_rollbacks m) \<and> cs_sequence m' = cs_sequence m"
    by (simp add: cloud_rollback_def checked_ok prog_simps)
next
  fix m :: cloud_state
  show "\<exists>m'. cloud_capture m = (Inr (''cloud-rb-'' @ int_str (cs_sequence m + 1)), m')
      \<and> cs_rollbacks m' = dset (''cloud-rb-'' @ int_str (cs_sequence m + 1)) (cs_content m) (cs_rollbacks m)
      \<and> cs_sequence m' = cs_sequence m + 1 \<and> cs_content m' = cs_content m"
    by (simp add: cloud_capture_def cloud_token_def prog_simps)
qed

lemma keeps_cloud_change [keeps_intros]:
  "keeps cs_rollbacks (cloud_change m)" "keeps cs_sequence (cloud_change m)"
  unfolding cloud_change_def by (rule keeps_zoomE, simp)+

lemma capturing_cloud_change:
  assumes "keeps cs_rollbacks m" and "keeps cs_sequence m"
  shows "cloud_store.capturing (effect_of (checked control now
     (bindE cloud_capture (\<lambda>token. thenE m (ret token)))) effects)"
  unfolding effect_of_checked
proof (rule cloud_store.capturing_snapshot)
  show "keeps cs_rollbacks (effect_of (thenE m (ret tok)) effects)"
    and "keeps cs_sequence (effect_of (thenE m (ret tok)) effects)" for tok
    unfolding effect_of_def by (intro keeps_intros assms)+
  show "ef_rollback_token eff = Some tok"
    if "effect_of (thenE m (ret tok)) effects s = (Inr eff, s')" for tok s eff s'
    using that unfolding effect_of_def by (elim bindE_InrE thenE_InrE) (auto simp: action_effect_def)
qed

lemma thenE_assoc: "thenE m (thenE n p) = thenE (thenE m n) p"
  by (simp add: thenE_def bindE_assoc)

lemma capturing_cloud_readiness: "cloud_store.capturing (cloud_readiness_action sha ps target control now)"
  by (auto simp: cloud_store.capturing_def cloud_readiness_action_def checked_def prog_simps
      action_effect_def split: sum.splits if_splits)

lemma cloud_handlers_capture:
  "d \<in> set (cloud_definitions sha audit run_id) \<Longrightarrow> cloud_store.capturing (df_handler d ps target control now)"
  by (auto simp: cloud_definitions_def cloud_action_def cloud_control_def define_action_def
      capturing_cloud_readiness cloud_preserve_action_def cloud_revoke_action_def
      cloud_disable_action_def cloud_restore_action_def cloud_reset_action_def
      preserve_evidence_def revoke_key_def disable_principal_def restore_policy_def cloud_reset_def
      thenE_assoc intro!: capturing_cloud_change keeps_intros)

lemma cloud_handlers_stop:
  assumes "d \<in> set (cloud_definitions sha audit run_id)" and "checkpoint control now = Inl e"
  shows "\<exists>e'. df_handler d ps target control now m = (Inl e', m)"
  using assms by (auto simp: cloud_definitions_def cloud_action_def cloud_control_def define_action_def
      cloud_preserve_action_def cloud_revoke_action_def cloud_disable_action_def
      cloud_restore_action_def cloud_reset_action_def cloud_readiness_action_def preserve_evidence_def
      revoke_key_def disable_principal_def restore_policy_def cloud_reset_def
      effect_of_def bind_checked checked_stop)

interpretation cloud_module: cooperative_module "cloud_definitions sha audit run_id" for sha audit run_id
  by unfold_locales (rule cloud_handlers_stop)

lemma cloud_initial_inv: "cloud_store.store_inv (cloud_baseline sha)"
  by (simp add: cloud_store.store_inv_def cloud_baseline_def cloud_state_of_def)

section \<open>Containment\<close>

text \<open>Access is granted only with an enabled principal, its own active key, and for bulk the policy.\<close>

lemma access_allowed_iff:
  "access_decision p k b bulk c = Inr (True, reason) \<longleftrightarrow> reason = ''allowed'' \<and>
     (\<exists>pr kr br v w. map_of (cc_principals c) p = Some pr \<and> map_of (cc_keys c) k = Some kr
        \<and> map_of (cc_buckets c) b = Some br \<and> map_of pr ''enabled'' = Some v \<and> truthy v
        \<and> map_of kr ''principal_id'' = Some (VStr p) \<and> map_of kr ''active'' = Some w \<and> truthy w
        \<and> (bulk \<longrightarrow> (\<exists>u. map_of br ''bulk_access_allowed'' = Some u \<and> truthy u)))"
  by (auto simp: access_decision_def map_result_def ditem_def split: option.splits sum.splits if_splits)

lemma cloud_change_Inr:
  "cloud_change m s = (Inr x, s') \<longleftrightarrow> (\<exists>c. m (cs_content s) = (Inr x, c) \<and> s' = s\<lparr>cs_content := c\<rparr>)"
  by (auto simp: cloud_change_def zoomE_run split: prod.splits)

lemma put_result_Inr: "put_result put f c = (Inr u, c') \<longleftrightarrow> (\<exists>x. f c = Inr x \<and> c' = put x c)"
  by (auto simp: put_result_def prog_simps split: sum.splits)

lemma checked_Inr:
  "checked control now m s = (Inr x, s') \<longleftrightarrow> checkpoint control now = Inr () \<and> m s = (Inr x, s')"
  by (auto simp: checked_def prog_simps split: sum.splits)

lemma cloud_capture_run: "cloud_capture s = (Inr (cloud_token (cs_sequence s + 1)),
    s\<lparr>cs_sequence := cs_sequence s + 1,
      cs_rollbacks := dset (cloud_token (cs_sequence s + 1)) (cs_content s) (cs_rollbacks s)\<rparr>)"
  by (simp add: cloud_capture_def prog_simps)

lemma revoke_key_denies:
  assumes "revoke_key k control now m = (Inr tok, m')"
  shows "access_decision p k b bulk (cs_content m') \<noteq> Inr (True, reason)"
  using assms
  by (auto simp: revoke_key_def checked_Inr bindE_run thenE_run cloud_capture_run cloud_change_Inr
      put_result_Inr set_field_def access_allowed_iff split: prod.splits sum.splits option.splits)

lemma revoke_owned_None:
  assumes "revoke_owned p keys = (None, keys')"
  shows "keys' = map (\<lambda>(k, key). (k, if map_of key ''principal_id'' = Some (VStr p)
      then dset ''active'' (VBool False) key else key)) keys"
  using assms
  by (induction keys arbitrary: keys') (auto split: option.splits prod.splits if_splits)

lemma disable_principal_run:
  assumes "disable_principal p control now m = (Inr tok, m')"
  shows "\<exists>pr keys. map_of (cc_principals (cs_content m)) p = Some pr
    \<and> revoke_owned p (cc_keys (cs_content m)) = (None, keys)
    \<and> cs_content m' = (cs_content m)\<lparr>cc_keys := keys,
        cc_principals := dset p (dset ''enabled'' (VBool False) pr) (cc_principals (cs_content m))\<rparr>"
  using assms
  by (auto simp: disable_principal_def checked_Inr bindE_run thenE_run cloud_capture_run
      cloud_change_def zoomE_run put_result_def set_field_def
      split: prod.splits sum.splits option.splits)

lemma disable_principal_denies:
  assumes "disable_principal p control now m = (Inr tok, m')"
  shows "access_decision p k b bulk (cs_content m') \<noteq> Inr (True, reason)"
  using disable_principal_run [OF assms] by (auto simp: access_allowed_iff)

text \<open>Every key of the disabled principal is revoked with it.\<close>

lemma disable_principal_keys:
  assumes "disable_principal p control now m = (Inr tok, m')"
    and "map_of (cc_keys (cs_content m')) k = Some key"
    and "map_of key ''principal_id'' = Some (VStr p)"
  shows "map_of key ''active'' = Some (VBool False)"
proof -
  let ?f = "\<lambda>key. if map_of key ''principal_id'' = Some (VStr p)
      then dset ''active'' (VBool False) key else key"
  obtain keys where "cc_keys (cs_content m') = keys" "revoke_owned p (cc_keys (cs_content m)) = (None, keys)"
    using disable_principal_run [OF assms(1)] by auto
  then have "cc_keys (cs_content m') = map (\<lambda>(k, key). (k, ?f key)) (cc_keys (cs_content m))"
    using revoke_owned_None [of p "cc_keys (cs_content m)" keys] by simp
  then have "map_option ?f (map_of (cc_keys (cs_content m)) k) = Some key"
    using assms(2) by (simp only: map_of_map comp_def)
  then obtain key0 where "key = ?f key0" by (auto simp del: fun_upd_apply)
  then show ?thesis using assms(3) by (auto split: if_splits)
qed

lemma restore_policy_run:
  assumes "restore_policy b control now m = (Inr tok, m')"
  shows "\<exists>br h. map_of (cc_buckets (cs_content m)) b = Some br \<and> map_of br ''approved_policy_hash'' = Some h
    \<and> cs_content m' = (cs_content m)\<lparr>cc_buckets := dset b (dset ''bulk_access_allowed'' (VBool False)
        (dset ''policy_hash'' h (dset ''policy_id'' (VStr APPROVED_POLICY_ID) br)))
        (cc_buckets (cs_content m))\<rparr>"
  using assms
  by (auto simp: restore_policy_def checked_Inr bindE_run thenE_run cloud_capture_run cloud_change_def
      zoomE_run put_result_def set_field_def approved_bucket_def map_result_def Let_def ditem_def
      split: prod.splits sum.splits option.splits)

lemma restore_policy_denies:
  assumes "restore_policy b control now m = (Inr tok, m')"
  shows "access_decision p k b True (cs_content m') \<noteq> Inr (True, reason)"
  using restore_policy_run [OF assms] by (auto simp: access_allowed_iff)

text \<open>Once evidence is preserved, preserving again does not overwrite it.\<close>

lemma preserve_evidence_run:
  assumes "preserve_evidence audit control now m = (Inr tok, m')"
  shows "cs_content m' = (if cc_preserved (cs_content m) = []
      then (cs_content m)\<lparr>cc_preserved := preserve_view audit (cs_content m)\<rparr> else cs_content m)"
  using assms by (auto simp: preserve_evidence_def checked_Inr bindE_run thenE_run cloud_capture_run
      cloud_change_def zoomE_run)

lemma cloud_reset_ready:
  assumes "cloud_reset sha control now m = (Inr tok, m')"
  shows "cs_content m' = cloud_baseline_content sha"
  using assms by (auto simp: cloud_reset_def checked_Inr bindE_run thenE_run cloud_capture_run
      cloud_change_def zoomE_run)

lemma record_names_distinct: "distinct (map record_name [1..<26])"
  by code_simp

lemma cloud_baseline_ready:
  "mismatches (cloud_snapshot (cloud_baseline_content sha)) (cloud_snapshot (cloud_baseline_content sha)) = []"
proof (rule mismatches_same)
  let ?c = "cloud_baseline_content sha"
  have "wf_val (table_val (cc_objects ?c))"
    by (rule table_val_wf)
      (use record_names_distinct in \<open>auto simp: cloud_baseline_content_def comp_def object_row_def\<close>)
  then show "list_all (\<lambda>(k, v). wf_val v) (cloud_snapshot ?c)"
    by (simp add: cloud_snapshot_def)
      (simp add: cloud_baseline_content_def table_val_def bucket_row_def)
qed (simp add: cloud_snapshot_def)

end
