(* ===== verification/ModuleProps.thy ===== *)
theory ModuleProps
  imports IdentityState EndpointState CloudState Samples
begin

text \<open>
  The properties of the module states: exact rollback, respect for a stop, containment, reset and
  readiness.
\<close>

text \<open>The handlers of a series of calls: definition, parameters, target, control and time of each.\<close>

type_synonym 'm call = "'m action_definition \<times> row \<times> entity \<times> control \<times> int"

definition call_ops :: "'m call list \<Rightarrow> ('m, action_effect) prog list" where
  "call_ops calls = map (\<lambda>(d, ps, target, control, now). df_handler d ps target control now) calls"

definition open_control :: control where
  "open_control = \<lparr>ct_deadline = 10, ct_cancelled = False\<rparr>"

lemma open_checkpoint: "checkpoint open_control 0 = Inr ()"
  by (simp add: checkpoint_def open_control_def)

text \<open>C9: Any series of identity actions, with any parameters and targets, some of them failing, is
  undone exactly by using the tokens it returned, newest first: the identities, sessions, factors and
  MFA records are what they were.\<close>

theorem identity_series_undone:
  assumes "identity_store.store_inv m" and "fst ` set calls \<subseteq> set (identity_definitions n run_id)"
    and "identity_store.run_ops (call_ops calls) m [] = (m', toks)"
    and "checkpoint control now = Inr ()"
  shows "is_content (identity_store.undo_all control now toks m') = is_content m"
proof (rule identity_store.undo_series [OF _ assms(1,3,4)])
  show "list_all (\<lambda>op. identity_store.capturing op \<and> identity_store.clean_failure op) (call_ops calls)"
    using assms(2) identity_handlers_capture identity_handlers_clean
    by (auto simp: call_ops_def list_all_iff)
qed

lemma identity_series_undone_witness:
  "\<exists>m toks. identity_store.run_ops (call_ops [(identity_action ''identity.session.revoke''
        ''session:sess-red-01'' revoke_session ''mark session active'', [],
        entity ''session'' ''sess-red-01'' None None, open_control, 0)]) (identity_baseline []) [] = (m, toks)
    \<and> is_content (identity_store.undo_all open_control 0 toks m) = identity_baseline_content []"
proof -
  let ?calls = "[(identity_action ''identity.session.revoke''
        ''session:sess-red-01'' revoke_session ''mark session active'', [],
        entity ''session'' ''sess-red-01'' None None, open_control, 0)]"
  obtain m toks where r: "identity_store.run_ops (call_ops ?calls) (identity_baseline []) [] = (m, toks)"
    by (metis prod.exhaust)
  have "fst ` set ?calls \<subseteq> set (identity_definitions 4 ''r'')" by (simp add: identity_definitions_def)
  from identity_series_undone [OF identity_initial_inv this r open_checkpoint] r show ?thesis
    by (simp add: identity_baseline_def)
qed

text \<open>The same for the endpoint and directory actions.\<close>

theorem endpoint_series_undone:
  assumes "endpoint_store.store_inv m" and "fst ` set calls \<subseteq> set (endpoint_definitions run_id)"
    and "endpoint_store.run_ops (call_ops calls) m [] = (m', toks)"
    and "checkpoint control now = Inr ()"
  shows "es_content (endpoint_store.undo_all control now toks m') = es_content m"
proof (rule endpoint_store.undo_series [OF _ assms(1,3,4)])
  show "list_all (\<lambda>op. endpoint_store.capturing op \<and> endpoint_store.clean_failure op) (call_ops calls)"
    using assms(2) endpoint_handlers_capture endpoint_handlers_clean
    by (auto simp: call_ops_def list_all_iff)
qed

lemma endpoint_series_undone_witness:
  "\<exists>m toks. endpoint_store.run_ops (call_ops [(endpoint_action ''endpoint.host.isolate'' ''host:FIN-WS01''
        endpoint_isolate ''endpoint_ad'', [], entity ''host'' ''FIN-WS01'' None None, open_control, 0)])
      endpoint_baseline [] = (m, toks)
    \<and> es_content (endpoint_store.undo_all open_control 0 toks m) = endpoint_baseline_content"
proof -
  let ?calls = "[(endpoint_action ''endpoint.host.isolate'' ''host:FIN-WS01''
        endpoint_isolate ''endpoint_ad'', [], entity ''host'' ''FIN-WS01'' None None, open_control, 0)]"
  obtain m toks where r: "endpoint_store.run_ops (call_ops ?calls) endpoint_baseline [] = (m, toks)"
    by (metis prod.exhaust)
  have "fst ` set ?calls \<subseteq> set (endpoint_definitions ''r'')" by (simp add: endpoint_definitions_def)
  from endpoint_series_undone [OF endpoint_initial_inv this r open_checkpoint] r show ?thesis
    by (simp add: endpoint_baseline_def endpoint_state_of_def)
qed

text \<open>A cloud action that succeeds and returns a token is undone exactly by that token, and the
  token works once.\<close>

theorem cloud_action_undone:
  assumes "cloud_store.store_inv m" and "d \<in> set (cloud_definitions sha audit run_id)"
    and "df_handler d ps target control now m = (Inr eff, m1)" and "ef_rollback_token eff = Some tok"
    and "checkpoint control' now' = Inr ()"
  shows "\<exists>changes m2 e. cloud_rollback tok control' now' m1 = (Inr changes, m2)
    \<and> cs_content m2 = cs_content m \<and> cloud_rollback tok control' now' m2 = (Inl e, m2)"
  using cloud_store.undo_exact [OF cloud_handlers_capture [OF assms(2)] assms(1,3-5)] by blast

lemma cloud_action_undone_witness:
  "\<exists>m1 tok m2 changes. df_handler (cloud_action ''cloud.key.revoke'' (''cloud_key:'' @ KEY_ID)
       cloud_revoke_action ''restore prior mock key state'') [] (entity ''cloud_key'' KEY_ID None None)
       open_control 0 (cloud_baseline id) = (Inr (action_effect [''revoked mock-cloud key '' @ KEY_ID] (Some tok)), m1)
     \<and> cloud_rollback tok open_control 0 m1 = (Inr changes, m2)
     \<and> cs_content m2 = cloud_baseline_content id"
proof -
  let ?d = "cloud_action ''cloud.key.revoke'' (''cloud_key:'' @ KEY_ID)
       cloud_revoke_action ''restore prior mock key state''"
  obtain m1 where h: "df_handler ?d [] (entity ''cloud_key'' KEY_ID None None) open_control 0
      (cloud_baseline id) = (Inr (action_effect [''revoked mock-cloud key '' @ KEY_ID] (Some (cloud_token 1))), m1)"
    by (simp add: cloud_action_def define_action_def cloud_revoke_action_def effect_of_def revoke_key_def
        checked_ok [OF open_checkpoint] bindE_run thenE_run cloud_capture_run cloud_change_def zoomE_run
        put_result_def set_field_def cloud_baseline_def cloud_state_of_def cloud_baseline_content_def
        entity_def)
  have d: "?d \<in> set (cloud_definitions id [] ''r'')" by (simp add: cloud_definitions_def)
  have "ef_rollback_token (action_effect [''revoked mock-cloud key '' @ KEY_ID] (Some (cloud_token 1)))
      = Some (cloud_token 1)" by (simp add: action_effect_def)
  from cloud_action_undone [OF cloud_initial_inv d h this open_checkpoint] h show ?thesis
    by (auto simp: cloud_baseline_def cloud_state_of_def)
qed

text \<open>A fail-safe stop that comes after a request was admitted and started, but before its handler
  runs, keeps the module as it was and the answer is no success, for every action of the identity,
  endpoint and cloud modules.\<close>

theorem modules_respect_stop:
  "stop_respecting (identity_definitions n run_id) \<and> stop_respecting (endpoint_definitions run_id)
     \<and> stop_respecting (cloud_definitions sha audit run_id)"
  by (intro conjI stop_respectingI identity_module.cooperative_module_axioms
      endpoint_module.cooperative_module_axioms cloud_module.cooperative_module_axioms)

text \<open>Containment holds: once the key is revoked, or the principal disabled, no request with it is
  allowed, bulk or not, on any bucket; disabling a principal also revokes each of its keys; and once
  the policy is restored no bulk request on the bucket is allowed.\<close>

theorem cloud_containment:
  assumes "revoke_key k control now m = (Inr tok1, m1)"
    and "disable_principal p control now m = (Inr tok2, m2)"
    and "restore_policy b control now m = (Inr tok3, m3)"
  shows "access_decision p' k b' bulk (cs_content m1) \<noteq> Inr (True, reason)
    \<and> access_decision p k' b' bulk (cs_content m2) \<noteq> Inr (True, reason)
    \<and> (case map_of (cc_keys (cs_content m2)) k' of None \<Rightarrow> True | Some key \<Rightarrow>
        map_of key ''principal_id'' = Some (VStr p) \<longrightarrow> map_of key ''active'' = Some (VBool False))
    \<and> access_decision p' k' b True (cs_content m3) \<noteq> Inr (True, reason)"
  using revoke_key_denies [OF assms(1)] disable_principal_denies [OF assms(2)]
    disable_principal_keys [OF assms(2)] restore_policy_denies [OF assms(3)]
  by (auto split: option.splits)

lemma cloud_containment_witness:
  "\<exists>tok m. revoke_key KEY_ID open_control 0 (cloud_baseline id) = (Inr tok, m)
    \<and> access_decision PRINCIPAL_ID KEY_ID BUCKET_ID False (cloud_baseline_content id) = Inr (True, ''allowed'')
    \<and> access_decision PRINCIPAL_ID KEY_ID BUCKET_ID False (cs_content m) \<noteq> Inr (True, ''allowed'')"
proof -
  note defs = checked_ok [OF open_checkpoint] bindE_run thenE_run cloud_capture_run cloud_change_def
    zoomE_run put_result_def set_field_def cloud_baseline_def cloud_state_of_def cloud_baseline_content_def
  obtain m1 where 1: "revoke_key KEY_ID open_control 0 (cloud_baseline id) = (Inr (cloud_token 1), m1)"
    by (simp add: revoke_key_def defs)
  obtain m2 where 2: "disable_principal PRINCIPAL_ID open_control 0 (cloud_baseline id) = (Inr (cloud_token 1), m2)"
    by (simp add: disable_principal_def defs)
  obtain m3 where 3: "restore_policy BUCKET_ID open_control 0 (cloud_baseline id) = (Inr (cloud_token 1), m3)"
    by (simp add: restore_policy_def approved_bucket_def bucket_row_def map_result_def ditem_def Let_def defs)
  have "access_decision PRINCIPAL_ID KEY_ID BUCKET_ID False (cloud_baseline_content id) = Inr (True, ''allowed'')"
    by (simp add: access_allowed_iff cloud_baseline_content_def)
  then show ?thesis using cloud_containment [OF 1 2 3] 1 by blast
qed

text \<open>With an open control, the reset of each module succeeds from any state, and the readiness
  action that follows finds no mismatch.\<close>

theorem reset_gives_ready:
  assumes "checkpoint control now = Inr ()" and "wf_val (VDict (is_profile m))"
  shows "\<exists>r1 m1 r2 m2 r3 m3. reset_identity ps t control now m = (Inr r1, m1)
    \<and> validate_readiness ps t control now m1
        = (Inr (action_effect [''validated deterministic identity baseline''] None), m1)
    \<and> endpoint_reset_action ps t control now e = (Inr r2, m2)
    \<and> endpoint_readiness ps t control now m2 = (Inr (action_effect [''validated endpoint/AD baseline''] None), m2)
    \<and> cloud_reset_action sha ps t control now c = (Inr r3, m3)
    \<and> cloud_readiness_action sha ps t control now m3
        = (Inr (action_effect [''validated approved mock-cloud baseline''] None), m3)"
proof -
  note run = effect_of_def checked_ok [OF assms(1)] bindE_run thenE_run
  obtain r1 m1 tok1 where 1: "reset_identity ps t control now m = (Inr r1, m1)"
      "identity_reset control now m = (Inr tok1, m1)"
    by (simp add: reset_identity_def identity_reset_def identity_save_def run)
  have i: "validate_readiness ps t control now m1
      = (Inr (action_effect [''validated deterministic identity baseline''] None), m1)"
    using identity_reset_ready [OF 1(2) assms(2)] by (simp add: validate_readiness_def run)
  obtain r2 m2 where 2: "endpoint_reset_action ps t control now e = (Inr r2, m2)"
      "es_content m2 = endpoint_baseline_content"
    by (simp add: endpoint_reset_action_def endpoint_reset_def endpoint_capture_def endpoint_change_def run)
  have ee: "endpoint_readiness ps t control now m2
      = (Inr (action_effect [''validated endpoint/AD baseline''] None), m2)"
    using endpoint_baseline_ready by (simp add: endpoint_readiness_def endpoint_mismatches_def 2(2) run)
  obtain r3 m3 where 3: "cloud_reset_action sha ps t control now c = (Inr r3, m3)"
      "cs_content m3 = cloud_baseline_content sha"
    by (simp add: cloud_reset_action_def cloud_reset_def cloud_capture_run cloud_change_def zoomE_run run)
  have cc: "cloud_readiness_action sha ps t control now m3
      = (Inr (action_effect [''validated approved mock-cloud baseline''] None), m3)"
    using cloud_baseline_ready by (simp add: cloud_readiness_action_def cloud_mismatches_def 3(2) run)
  show ?thesis using 1(1) i 2(1) ee 3(1) cc by blast
qed

lemma reset_gives_ready_witness:
  "\<exists>r m. cloud_reset_action id [] (entity ''exercise_run'' ''r'' None None) open_control 0
       (cloud_adverse_fixture id) = (Inr r, m)
    \<and> cloud_readiness_action id [] (entity ''exercise_run'' ''r'' None None) open_control 0 m
        = (Inr (action_effect [''validated approved mock-cloud baseline''] None), m)"
  using reset_gives_ready [OF open_checkpoint, of "identity_baseline []"]
  by (fastforce simp: identity_baseline_def)

end
