(* ===== verification/Scenario.thy ===== *)
theory Scenario
  imports Events
begin

text \<open>
  \<^verbatim>\<open>orchestrator/scenario.py\<close>: the validated scenario definition. The regular expressions of the source
  are boolean functions on strings; a boolean counts as an integer, as in Python.
\<close>

section \<open>Patterns\<close>

definition is_identifier :: "string \<Rightarrow> bool" where
  "is_identifier s \<longleftrightarrow> s \<noteq> [] \<and> is_alnum (hd s)
     \<and> list_all (\<lambda>c. is_alnum c \<or> c \<in> set ''._:-'') (tl s)"

definition name_char :: "char \<Rightarrow> bool" where
  "name_char c \<longleftrightarrow> c \<in> set lower_az \<or> is_digit c"

text \<open>After a letter or digit: more of them, or a separator followed by one.\<close>

fun event_name_rest :: "string \<Rightarrow> bool" where
  "event_name_rest [] = True"
| "event_name_rest [c] = name_char c"
| "event_name_rest (c # d # s) = (if name_char c then event_name_rest (d # s)
     else c \<in> set ''._-'' \<and> name_char d \<and> event_name_rest s)"

definition event_name :: "string \<Rightarrow> bool" where
  "event_name s \<longleftrightarrow> s \<noteq> [] \<and> hd s \<in> set lower_az \<and> event_name_rest (tl s)"

text \<open>\<open>p\<close> followed by a positive number without leading zeros: \<open>DP1\<close>, \<open>LO3\<close>.\<close>

definition numbered :: "string \<Rightarrow> string \<Rightarrow> bool" where
  "numbered p s \<longleftrightarrow> starts_with p s \<and> (case drop (length p) s of [] \<Rightarrow> False
     | c # cs \<Rightarrow> is_digit c \<and> c \<noteq> CHR ''0'' \<and> list_all is_digit cs)"

definition scenario_version :: "string \<Rightarrow> bool" where
  "scenario_version s \<longleftrightarrow> (case version_parts s of None \<Rightarrow> False | Some ps \<Rightarrow> hd ps = ''1'')"

definition ITEM_KINDS :: "string list" where
  "ITEM_KINDS = [''setup'', ''inject'', ''action'', ''checkpoint'', ''end'']"
definition DELIVERY_MODES :: "string list" where
  "DELIVERY_MODES = [''automatic'', ''facilitator'']"
definition TRIGGER_TYPES :: "string list" where
  "TRIGGER_TYPES = [''pre_exercise'', ''elapsed'', ''checkpoint'']"
definition PHASES :: "string list" where
  "PHASES = [''setup'', ''reconnaissance'', ''identity'', ''endpoint_ad'', ''cloud'', ''impact_recovery'',
     ''control'', ''post_exercise'']"
definition VISIBILITIES :: "string list" where
  "VISIBILITIES = [''participant'', ''facilitator'', ''evaluator'', ''internal'']"

abbreviation sde :: "string \<Rightarrow> exc" where
  "sde \<equiv> ScenarioDefinitionError"

definition required_string :: "row \<Rightarrow> string \<Rightarrow> exc + string" where
  "required_string data name = (case map_of data name of
     Some (VStr s) \<Rightarrow> if strip s = [] then Inl (sde (name @ '' must be a non-empty string''))
       else Inr (strip s)
   | _ \<Rightarrow> Inl (sde (name @ '' must be a non-empty string'')))"

definition get_or :: "row \<Rightarrow> string \<Rightarrow> val \<Rightarrow> val" where
  "get_or d k dflt = (case map_of d k of None \<Rightarrow> dflt | Some v \<Rightarrow> v)"

section \<open>Triggers\<close>

record trigger =
  tr_type :: string
  tr_seconds :: "int option"
  tr_checkpoint :: "string option"
  tr_outcome :: "string option"
  tr_order :: int

definition natural :: "val \<Rightarrow> int option" where
  "natural v = (case num_of v of Some n \<Rightarrow> if 0 \<le> n then Some n else None | None \<Rightarrow> None)"

text \<open>\<open>from_dict\<close>, once the type and the order are known.\<close>

definition typed_trigger :: "string \<Rightarrow> int \<Rightarrow> row \<Rightarrow> exc + trigger" where
  "typed_trigger ty order v =
    (if ty = ''elapsed'' then
        (case natural (get_or v ''seconds'' VNone) of
           None \<Rightarrow> Inl (sde ''elapsed triggers require non-negative integer seconds'')
         | Some seconds \<Rightarrow> Inr \<lparr>tr_type = ty, tr_seconds = Some seconds, tr_checkpoint = None,
              tr_outcome = None, tr_order = order\<rparr>)
      else if ty = ''checkpoint'' then
        bindR (required_string v ''checkpoint_id'') (\<lambda>cp.
        bindR (required_string v ''outcome'') (\<lambda>outcome.
        bindR (requireR (numbered ''DP'' cp) (sde ''checkpoint_id must look like DP1'')) (\<lambda>_.
        bindR (requireR (outcome \<in> set [''pass'', ''miss''])
            (sde ''checkpoint outcome must be pass or miss'')) (\<lambda>_.
          Inr \<lparr>tr_type = ty, tr_seconds = None, tr_checkpoint = Some cp, tr_outcome = Some outcome,
               tr_order = order\<rparr>))))
      else Inr \<lparr>tr_type = ty, tr_seconds = None, tr_checkpoint = None, tr_outcome = None,
              tr_order = order\<rparr>)"

definition trigger_from_dict :: "row \<Rightarrow> exc + trigger" where
  "trigger_from_dict v =
    bindR (required_string v ''type'') (\<lambda>ty.
    bindR (requireR (ty \<in> set TRIGGER_TYPES) (sde (''unsupported trigger type: '' @ ty))) (\<lambda>_.
    case natural (get_or v ''order'' (VInt 0)) of
      None \<Rightarrow> Inl (sde ''trigger order must be a non-negative integer'')
    | Some order \<Rightarrow> typed_trigger ty order v))"

section \<open>Items\<close>

record scenario_item =
  it_id :: string
  it_kind :: string
  it_title :: string
  it_summary :: string
  it_phase :: string
  it_delivery :: string
  it_visibility :: string
  it_trigger :: trigger
  it_action :: "string option"
  it_objectives :: "string list"
  it_checkpoint :: "string option"
  it_prompt :: "string option"

text \<open>An optional string field: absent or \<open>None\<close>, or a string that passes \<open>ok\<close>.\<close>

definition optional_string :: "row \<Rightarrow> string \<Rightarrow> (string \<Rightarrow> bool) \<Rightarrow> string \<Rightarrow> exc + string option" where
  "optional_string v name ok message = (case get_or v name VNone of
     VNone \<Rightarrow> Inr None
   | VStr s \<Rightarrow> if ok s then Inr (Some s) else Inl (sde message)
   | _ \<Rightarrow> Inl (sde message))"

definition objective_list :: "row \<Rightarrow> string \<Rightarrow> exc + string list" where
  "objective_list v item_id = (case get_or v ''objective_ids'' (VList []) of
     VList xs \<Rightarrow> mapR (\<lambda>x. case x of
         VStr s \<Rightarrow> if numbered ''LO'' s then Inr s else Inl (sde (''invalid objective_ids for '' @ item_id))
       | _ \<Rightarrow> Inl (sde (''invalid objective_ids for '' @ item_id))) xs
   | _ \<Rightarrow> Inl (sde (''invalid objective_ids for '' @ item_id)))"

definition item_from_dict :: "row \<Rightarrow> exc + scenario_item" where
  "item_from_dict v =
    bindR (required_string v ''id'') (\<lambda>item_id.
    bindR (required_string v ''kind'') (\<lambda>kind.
    bindR (required_string v ''title'') (\<lambda>title.
    bindR (required_string v ''summary'') (\<lambda>summary.
    bindR (required_string v ''phase'') (\<lambda>phase.
    bindR (required_string v ''delivery'') (\<lambda>delivery.
    bindR (required_string v ''visibility'') (\<lambda>visibility.
    bindR (requireR (is_identifier item_id) (sde (''invalid item id: '' @ item_id))) (\<lambda>_.
    bindR (requireR (kind \<in> set ITEM_KINDS) (sde (''unsupported item kind: '' @ kind))) (\<lambda>_.
    bindR (requireR (phase \<in> set PHASES) (sde (''unsupported phase: '' @ phase))) (\<lambda>_.
    bindR (requireR (delivery \<in> set DELIVERY_MODES)
        (sde (''unsupported delivery mode: '' @ delivery))) (\<lambda>_.
    bindR (requireR (visibility \<in> set VISIBILITIES)
        (sde (''unsupported visibility: '' @ visibility))) (\<lambda>_.
    bindR (case get_or v ''trigger'' VNone of VDict d \<Rightarrow> Inr d
        | _ \<Rightarrow> Inl (sde (item_id @ '' requires a trigger object''))) (\<lambda>raw_trigger.
    bindR (trigger_from_dict raw_trigger) (\<lambda>tr.
    bindR (optional_string v ''action_id'' event_name (''invalid action_id for '' @ item_id)) (\<lambda>action_id.
    bindR (requireR (\<not> (kind \<in> set [''setup'', ''action''] \<and> delivery = ''automatic'' \<and> action_id = None))
        (sde (''automatic '' @ kind @ '' item '' @ item_id @ '' requires an action_id''))) (\<lambda>_.
    bindR (objective_list v item_id) (\<lambda>objectives.
    bindR (optional_string v ''checkpoint_id'' (numbered ''DP'')
        (''invalid checkpoint_id for '' @ item_id)) (\<lambda>checkpoint_id.
    bindR (requireR (\<not> (kind = ''checkpoint'' \<and> checkpoint_id \<noteq> Some item_id))
        (sde (''checkpoint item '' @ item_id @ '' must use the same checkpoint_id''))) (\<lambda>_.
    bindR (optional_string v ''participant_prompt'' (\<lambda>s. strip s \<noteq> [])
        (''participant_prompt for '' @ item_id @ '' must be a non-empty string'')) (\<lambda>prompt.
      Inr \<lparr>it_id = item_id, it_kind = kind, it_title = title, it_summary = summary, it_phase = phase,
        it_delivery = delivery, it_visibility = visibility, it_trigger = tr, it_action = action_id,
        it_objectives = dedup objectives, it_checkpoint = checkpoint_id, it_prompt = prompt\<rparr>))))))))))))))))))))"

section \<open>Scenarios\<close>

record scenario_definition =
  sd_schema_version :: string
  sd_scenario_id :: string
  sd_exercise_id :: string
  sd_name :: string
  sd_items :: "scenario_item list"
  sd_experience :: row

definition checkpoint_ids :: "scenario_item list \<Rightarrow> string option list" where
  "checkpoint_ids items = map it_checkpoint (filter (\<lambda>i. it_kind i = ''checkpoint'') items)"

definition unknown_reference :: "scenario_item list \<Rightarrow> scenario_item option" where
  "unknown_reference items = List.find (\<lambda>i. tr_type (it_trigger i) = ''checkpoint''
     \<and> tr_checkpoint (it_trigger i) \<notin> set (checkpoint_ids items)) items"

definition as_object :: "val \<Rightarrow> row option" where
  "as_object v = (case v of VDict d \<Rightarrow> Some d | _ \<Rightarrow> None)"

definition raw_item_list :: "row \<Rightarrow> exc + val list" where
  "raw_item_list v = (case get_or v ''items'' VNone of
     VList xs \<Rightarrow> if xs = [] then Inl (sde ''scenario requires at least one item'') else Inr xs
   | _ \<Rightarrow> Inl (sde ''scenario requires at least one item''))"

definition references_known :: "scenario_item list \<Rightarrow> exc + unit" where
  "references_known items = (case unknown_reference items of
     Some i \<Rightarrow> Inl (sde (it_id i @ '' references an unknown checkpoint'')) | None \<Rightarrow> Inr ())"

definition scenario_from_dict :: "row \<Rightarrow> exc + scenario_definition" where
  "scenario_from_dict v =
    bindR (required_string v ''schema_version'') (\<lambda>version.
    bindR (required_string v ''scenario_id'') (\<lambda>scenario_id.
    bindR (required_string v ''exercise_id'') (\<lambda>exercise_id.
    bindR (required_string v ''name'') (\<lambda>name.
    bindR (requireR (scenario_version version)
        (sde ''only scenario schema major version 1 is supported'')) (\<lambda>_.
    bindR (requireR (is_identifier scenario_id \<and> is_identifier exercise_id)
        (sde ''scenario_id and exercise_id are invalid'')) (\<lambda>_.
    bindR (case get_or v ''participant_experience'' (VDict []) of VDict d \<Rightarrow> Inr d
        | _ \<Rightarrow> Inl (sde ''participant_experience must be an object'')) (\<lambda>experience.
    bindR (raw_item_list v) (\<lambda>raw_items.
    bindR (requireR (list_all (\<lambda>x. as_object x \<noteq> None) raw_items)
        (sde ''every scenario item must be an object'')) (\<lambda>_.
    bindR (mapR item_from_dict (List.map_filter as_object raw_items)) (\<lambda>items.
    bindR (requireR (distinct (map it_id items)) (sde ''scenario item ids must be unique'')) (\<lambda>_.
    bindR (references_known items) (\<lambda>_.
      Inr \<lparr>sd_schema_version = version, sd_scenario_id = scenario_id,
         sd_exercise_id = exercise_id, sd_name = name, sd_items = items,
         sd_experience = experience\<rparr>))))))))))))"

text \<open>\<open>load_scenario\<close>: \<open>parsed\<close> is what \<open>json.load\<close> gives, or its error message.\<close>

definition load_scenario :: "string \<Rightarrow> string + val \<Rightarrow> exc + scenario_definition" where
  "load_scenario path parsed = (case parsed of
     Inl msg \<Rightarrow> Inl (sde (''invalid JSON in '' @ path @ '': '' @ msg))
   | Inr (VDict v) \<Rightarrow> scenario_from_dict v
   | Inr _ \<Rightarrow> Inl (sde ''scenario root must be an object''))"

section \<open>What a loaded scenario satisfies\<close>

definition trigger_ok :: "trigger \<Rightarrow> bool" where
  "trigger_ok t \<longleftrightarrow> 0 \<le> tr_order t \<and>
     (tr_type t = ''pre_exercise'' \<and> tr_seconds t = None \<and> tr_checkpoint t = None \<or>
      tr_type t = ''elapsed'' \<and> (\<exists>n\<ge>0. tr_seconds t = Some n) \<and> tr_checkpoint t = None \<or>
      tr_type t = ''checkpoint'' \<and> tr_seconds t = None \<and>
        (\<exists>c. tr_checkpoint t = Some c \<and> numbered ''DP'' c) \<and>
        (tr_outcome t = Some ''pass'' \<or> tr_outcome t = Some ''miss''))"

definition item_ok :: "scenario_item \<Rightarrow> bool" where
  "item_ok i \<longleftrightarrow> is_identifier (it_id i) \<and> it_kind i \<in> set ITEM_KINDS \<and> it_phase i \<in> set PHASES
     \<and> it_delivery i \<in> set DELIVERY_MODES \<and> it_visibility i \<in> set VISIBILITIES
     \<and> trigger_ok (it_trigger i)
     \<and> (it_action i = None \<or> (\<exists>a. it_action i = Some a \<and> event_name a))
     \<and> (it_kind i \<in> {''setup'', ''action''} \<and> it_delivery i = ''automatic'' \<longrightarrow> it_action i \<noteq> None)
     \<and> (it_kind i = ''checkpoint'' \<longrightarrow> it_checkpoint i = Some (it_id i))
     \<and> list_all (numbered ''LO'') (it_objectives i) \<and> distinct (it_objectives i)"

definition scenario_ok :: "scenario_definition \<Rightarrow> bool" where
  "scenario_ok sd \<longleftrightarrow> sd_items sd \<noteq> [] \<and> list_all item_ok (sd_items sd)
     \<and> distinct (map it_id (sd_items sd))
     \<and> (\<forall>i\<in>set (sd_items sd). tr_type (it_trigger i) = ''checkpoint'' \<longrightarrow>
          (\<exists>c\<in>set (sd_items sd). it_kind c = ''checkpoint'' \<and> tr_checkpoint (it_trigger i) = Some (it_id c)))"

lemma natural_Some: "natural v = Some n \<Longrightarrow> 0 \<le> n"
  by (auto simp: natural_def split: option.splits if_splits)

text \<open>The last step of a checked construction.\<close>

lemma bindR_InrE:
  assumes "bindR r f = Inr y"
  obtains x where "r = Inr x" and "f x = Inr y"
  using assms by (cases r) auto

lemma requireR_InrE:
  assumes "bindR (requireR b e) f = Inr y"
  obtains "b" and "f () = Inr y"
  using assms by (cases b) (auto simp: requireR_def)

lemma typed_trigger_ok:
  assumes "typed_trigger ty order v = Inr t" and "ty \<in> set TRIGGER_TYPES" and "0 \<le> order"
  shows "trigger_ok t"
proof -
  consider "ty = ''elapsed''" | "ty = ''checkpoint''" | "ty = ''pre_exercise''"
    using assms(2) by (auto simp: TRIGGER_TYPES_def)
  then show ?thesis
  proof cases
    case 1
    then show ?thesis using assms(1,3)
      by (auto simp: typed_trigger_def trigger_ok_def dest: natural_Some split: option.splits)
  next
    case 2
    have "bindR (required_string v ''checkpoint_id'') (\<lambda>cp.
        bindR (required_string v ''outcome'') (\<lambda>outcome.
        bindR (requireR (numbered ''DP'' cp) (sde ''checkpoint_id must look like DP1'')) (\<lambda>_.
        bindR (requireR (outcome \<in> set [''pass'', ''miss''])
            (sde ''checkpoint outcome must be pass or miss'')) (\<lambda>_.
          Inr \<lparr>tr_type = ty, tr_seconds = None, tr_checkpoint = Some cp, tr_outcome = Some outcome,
               tr_order = order\<rparr>)))) = Inr t"
      using assms(1) 2 by (simp add: typed_trigger_def)
    then show ?thesis
      by (elim requireR_InrE bindR_InrE) (use assms(3) 2 in \<open>auto simp: trigger_ok_def\<close>)
  next
    case 3
    then show ?thesis using assms(1,3) by (auto simp: typed_trigger_def trigger_ok_def)
  qed
qed

lemma trigger_from_dict_ok: "trigger_from_dict v = Inr t \<Longrightarrow> trigger_ok t"
  unfolding trigger_from_dict_def
  by (elim requireR_InrE bindR_InrE) (auto dest: natural_Some typed_trigger_ok split: option.splits)

lemma optional_string_Inr:
  "optional_string v name ok msg = Inr r \<Longrightarrow> r = None \<or> (\<exists>s. r = Some s \<and> ok s)"
  by (auto simp: optional_string_def split: val.splits if_splits)

lemma objective_list_Inr: "objective_list v i = Inr os \<Longrightarrow> list_all (numbered ''LO'') os"
proof -
  assume "objective_list v i = Inr os"
  then obtain xs where "list_all2 (\<lambda>x y. (case x of
         VStr s \<Rightarrow> if numbered ''LO'' s then Inr s else Inl (sde (''invalid objective_ids for '' @ i))
       | _ \<Rightarrow> Inl (sde (''invalid objective_ids for '' @ i))) = Inr y) xs os"
    by (auto simp: objective_list_def mapR_Inr split: val.splits)
  then show ?thesis
    by (induction xs os rule: list_all2_induct) (auto split: val.splits if_splits)
qed

lemma item_from_dict_ok: "item_from_dict v = Inr i \<Longrightarrow> item_ok i"
  unfolding item_from_dict_def
  apply (elim requireR_InrE bindR_InrE)
  apply (drule trigger_from_dict_ok objective_list_Inr optional_string_Inr)+
  apply (drule sum.inject(2) [THEN iffD1])
  apply hypsubst
  apply (unfold item_ok_def scenario_item.simps)
  apply (intro conjI; (assumption | (simp add: list_all_iff; fast) | fast)?)
  done

lemma unknown_reference_None:
  assumes "unknown_reference items = None" and "i \<in> set items" and "tr_type (it_trigger i) = ''checkpoint''"
  shows "\<exists>c\<in>set items. it_kind c = ''checkpoint'' \<and> tr_checkpoint (it_trigger i) = it_checkpoint c"
  using assms by (auto simp: unknown_reference_def find_None_iff checkpoint_ids_def)

lemma scenario_from_dict_ok:
  assumes "scenario_from_dict v = Inr sd"
  shows "scenario_ok sd"
proof -
  obtain raw where items: "mapR item_from_dict (List.map_filter as_object raw) = Inr (sd_items sd)"
    and raw: "raw \<noteq> []" "list_all (\<lambda>x. as_object x \<noteq> None) raw"
    and dist: "distinct (map it_id (sd_items sd))" and unk: "unknown_reference (sd_items sd) = None"
    using assms unfolding scenario_from_dict_def
    by (elim requireR_InrE bindR_InrE)
      (auto simp: references_known_def raw_item_list_def split: option.splits val.splits if_splits)
  have rel: "list_all2 (\<lambda>x y. item_from_dict x = Inr y) (List.map_filter as_object raw) (sd_items sd)"
    using items by (simp add: mapR_Inr)
  have "List.map_filter as_object raw \<noteq> []"
    using raw by (cases raw) (auto simp: List.map_filter_def)
  then have ne: "sd_items sd \<noteq> []" using rel by auto
  have ok: "list_all item_ok (sd_items sd)"
    using rel by (induction rule: list_all2_induct) (simp_all add: item_from_dict_ok)
  have "\<exists>c\<in>set (sd_items sd). it_kind c = ''checkpoint'' \<and> tr_checkpoint (it_trigger i) = Some (it_id c)"
    if "i \<in> set (sd_items sd)" "tr_type (it_trigger i) = ''checkpoint''" for i
    using unknown_reference_None [OF unk that] ok by (auto simp: list_all_iff item_ok_def)
  then show ?thesis using ne ok dist by (simp add: scenario_ok_def)
qed

end
