(* ===== verification/Controller.thy ===== *)
theory Controller
  imports Scenario AdapterTrails
begin

text \<open>
  \<^verbatim>\<open>orchestrator/controller.py\<close>: \<open>ScenarioController\<close>. Handlers and time observers are programs on the
  whole system, of which the controller is one part, since they reach the stages and may call the
  controller back. They are looked up in \<open>deps\<close>, which is fixed for a run. A handler that resets the
  controller (it could only do so in a stopped run) is not modelled: an item's runtime object is found
  under its identifier before and after the call.
\<close>

section \<open>State\<close>

datatype run_state = Ready | Running | Paused | Stopped | Completed

primrec state_value :: "run_state \<Rightarrow> string" where
  "state_value Ready = ''ready''"
| "state_value Running = ''running''"
| "state_value Paused = ''paused''"
| "state_value Stopped = ''stopped''"
| "state_value Completed = ''completed''"

datatype item_status = PendingItem | ReadyItem | Delivered | Skipped | Failed

primrec status_value :: "item_status \<Rightarrow> string" where
  "status_value PendingItem = ''pending''"
| "status_value ReadyItem = ''ready''"
| "status_value Delivered = ''delivered''"
| "status_value Skipped = ''skipped''"
| "status_value Failed = ''failed''"

text \<open>The life of an item: pending, perhaps ready, then one of three ends.\<close>

instantiation item_status :: order
begin

definition less_eq_item_status :: "item_status \<Rightarrow> item_status \<Rightarrow> bool" where
  "less_eq_item_status s t \<longleftrightarrow> s = t \<or> s = PendingItem \<or> (s = ReadyItem \<and> t \<noteq> PendingItem)"

definition less_item_status :: "item_status \<Rightarrow> item_status \<Rightarrow> bool" where
  "less_item_status s t \<longleftrightarrow> s \<le> t \<and> s \<noteq> t"

instance
  by standard (auto simp: less_eq_item_status_def less_item_status_def)

end

definition open_status :: "item_status \<Rightarrow> bool" where
  "open_status s \<longleftrightarrow> s = PendingItem \<or> s = ReadyItem"

record automation_result =
  ar_success :: bool
  ar_message :: string
  ar_data :: row

record item_runtime =
  rt_status :: item_status
  rt_delivered_at :: "int option"
  rt_error :: "string option"

definition new_runtime :: item_runtime where
  "new_runtime = \<lparr>rt_status = PendingItem, rt_delivered_at = None, rt_error = None\<rparr>"

record controller =
  ctl_definition :: scenario_definition
  ctl_run_id :: string
  ctl_producer_version :: string
  ctl_builder :: builder
  ctl_state :: run_state
  ctl_elapsed :: int
  ctl_items :: "item_runtime dict"
  ctl_results :: "string dict"

record 'x csys =
  cy_world :: world
  cy_ctl :: controller
  cy_rest :: 'x

type_synonym 'x automation_handler = "scenario_item \<Rightarrow> string \<Rightarrow> ('x csys, automation_result option) prog"

text \<open>What a controller is built with; a handler that returns no \<open>AutomationResult\<close> gives \<open>None\<close>.\<close>

record 'x deps =
  dp_env :: env
  dp_handlers :: "'x automation_handler dict"
  dp_observers :: "(int \<Rightarrow> ('x csys, unit) prog) list"

definition controller_context :: "string \<Rightarrow> string \<Rightarrow> string \<Rightarrow> event_context" where
  "controller_context exercise_id run_id version =
    \<lparr>cx_exercise_id = exercise_id, cx_run_id = run_id, cx_source_kind = ''controller'',
     cx_source_component = ''scenario-controller'', cx_producer_version = version, cx_source_host = None\<rparr>"

definition fresh_items :: "scenario_definition \<Rightarrow> item_runtime dict" where
  "fresh_items sd = fold (\<lambda>i d. dset (it_id i) new_runtime d) (sd_items sd) []"

text \<open>\<open>__init__\<close>, with the run identifier given or made.\<close>

definition new_controller :: "scenario_definition \<Rightarrow> string \<Rightarrow> string \<Rightarrow> bool \<Rightarrow> controller" where
  "new_controller sd run_id version shared =
    \<lparr>ctl_definition = sd, ctl_run_id = run_id, ctl_producer_version = version,
     ctl_builder = fresh_builder (controller_context (sd_exercise_id sd) run_id version) shared,
     ctl_state = Ready, ctl_elapsed = 0, ctl_items = fresh_items sd, ctl_results = []\<rparr>"

section \<open>Parts of the system\<close>

definition get_ctl :: "(controller \<Rightarrow> 'a) \<Rightarrow> ('x csys, 'a) prog" where
  "get_ctl f = getE (\<lambda>s. f (cy_ctl s))"

definition upd_ctl :: "(controller \<Rightarrow> controller) \<Rightarrow> ('x csys, unit) prog" where
  "upd_ctl f = updE (\<lambda>s. s\<lparr>cy_ctl := f (cy_ctl s)\<rparr>)"

definition set_runtime :: "string \<Rightarrow> (item_runtime \<Rightarrow> item_runtime) \<Rightarrow> controller \<Rightarrow> controller" where
  "set_runtime i f c = (case map_of (ctl_items c) i of None \<Rightarrow> c
     | Some r \<Rightarrow> c\<lparr>ctl_items := dset i (f r) (ctl_items c)\<rparr>)"

text \<open>\<open>self.items[item_id]\<close>.\<close>

definition runtime :: "string \<Rightarrow> ('x csys, item_runtime) prog" where
  "runtime i = bindE (get_ctl (\<lambda>c. ditem (ctl_items c) i)) liftE"

definition find_item :: "string \<Rightarrow> ('x csys, scenario_item) prog" where
  "find_item item_id = bindE (get_ctl (\<lambda>c. List.find (\<lambda>i. it_id i = item_id) (sd_items (ctl_definition c))))
     (\<lambda>found. case found of None \<Rightarrow> raise (ControllerError (''unknown MSEL item: '' @ item_id))
        | Some i \<Rightarrow> ret i)"

text \<open>\<open>_emit\<close>.\<close>

definition control_event :: "controller \<Rightarrow> string \<Rightarrow> string \<Rightarrow> string \<Rightarrow> string \<Rightarrow> scenario_item option
    \<Rightarrow> string \<Rightarrow> row \<Rightarrow> event_args" where
  "control_event c event_type action message status item actor_role data =
    (event_args event_type (case item of None \<Rightarrow> ''control'' | Some i \<Rightarrow> it_phase i)
       (entity ''system'' actor_role None (Some actor_role)) action
       (Some (case item of None \<Rightarrow> entity ''scenario_run'' (ctl_run_id c) None None
          | Some i \<Rightarrow> entity ''msel_item'' (it_id i) (Some (it_title i)) None))
       status message)
    \<lparr>ea_visibility := (case item of None \<Rightarrow> ''facilitator'' | Some i \<Rightarrow> it_visibility i),
     ea_dry_run := False,
     ea_safety_controls := [''reviewed-msel'', ''allowlisted-actions'', ''fail-safe-stop''],
     ea_objective_ids := (case item of None \<Rightarrow> [] | Some i \<Rightarrow> it_objectives i),
     ea_checkpoint_id := (case item of None \<Rightarrow> None | Some i \<Rightarrow> it_checkpoint i),
     ea_data := dmerge [(''scenario_id'', VStr (sd_scenario_id (ctl_definition c))),
        (''elapsed_seconds'', VInt (ctl_elapsed c))] data\<rparr>"

definition ctl_emit :: "'x deps \<Rightarrow> string \<Rightarrow> string \<Rightarrow> string \<Rightarrow> string \<Rightarrow> scenario_item option
    \<Rightarrow> string \<Rightarrow> row \<Rightarrow> ('x csys, unit) prog" where
  "ctl_emit dp event_type action message status item actor_role data =
    bindE (get_ctl (\<lambda>c. control_event c event_type action message status item actor_role data)) (\<lambda>args.
    thenE (zoomE (\<lambda>s. (cy_world s, ctl_builder (cy_ctl s)))
        (\<lambda>(w, b) s. s\<lparr>cy_world := w, cy_ctl := (cy_ctl s)\<lparr>ctl_builder := b\<rparr>\<rparr>)
        (build_and_sink (dp_env dp) args))
      (ret ()))"

definition require_state :: "run_state list \<Rightarrow> ('x csys, unit) prog" where
  "require_state allowed = bindE (get_ctl ctl_state) (\<lambda>s. requireE (s \<in> set allowed)
     (ControllerError (''operation requires state '' @ join '', '' (map state_value allowed)
        @ ''; current state is '' @ state_value s)))"

section \<open>Delivery\<close>

definition fail_item :: "'x deps \<Rightarrow> scenario_item \<Rightarrow> string \<Rightarrow> row \<Rightarrow> ('x csys, unit) prog" where
  "fail_item dp item reason data =
    thenE (upd_ctl (set_runtime (it_id item) (\<lambda>r. r\<lparr>rt_status := Failed, rt_error := Some reason\<rparr>)))
      (ctl_emit dp ''scenario.item.failed''
        (case opt_text (it_action item) of None \<Rightarrow> ''scenario.deliver'' | Some a \<Rightarrow> a)
        (it_id item @ '' failed: '' @ reason) ''error'' (Some item) ''controller''
        (dmerge [(''item_kind'', VStr (it_kind item))] data))"

definition complete_item :: "'x deps \<Rightarrow> scenario_item \<Rightarrow> string \<Rightarrow> string \<Rightarrow> row \<Rightarrow> ('x csys, unit) prog" where
  "complete_item dp item actor_role message data =
    thenE (upd_ctl (\<lambda>c. set_runtime (it_id item)
       (\<lambda>r. r\<lparr>rt_status := Delivered, rt_delivered_at := Some (ctl_elapsed c), rt_error := None\<rparr>) c))
   (thenE (ctl_emit dp ''scenario.item.delivered''
       (case opt_text (it_action item) of None \<Rightarrow> ''scenario.deliver'' | Some a \<Rightarrow> a)
       message ''success'' (Some item) actor_role (dmerge [(''item_kind'', VStr (it_kind item))] data))
     (if it_kind item = ''end'' then upd_ctl (\<lambda>c. c\<lparr>ctl_state := Completed\<rparr>) else ret ()))"

text \<open>\<open>_deliver\<close>: the handler's exceptions, invalid results and failures become a failed item.\<close>

definition deliver_item :: "'x deps \<Rightarrow> scenario_item \<Rightarrow> string \<Rightarrow> ('x csys, unit) prog" where
  "deliver_item dp item actor_role =
    thenE (runtime (it_id item))
    (case opt_text (it_action item) of
       None \<Rightarrow> complete_item dp item actor_role (it_summary item) []
     | Some a \<Rightarrow> (case map_of (dp_handlers dp) a of
         None \<Rightarrow> fail_item dp item (''no allowlisted handler for '' @ a) []
       | Some handler \<Rightarrow>
         bindE (get_ctl ctl_run_id) (\<lambda>run_id.
         bindE (attemptE (handler item run_id)) (\<lambda>answer. case answer of
           Inl e \<Rightarrow> fail_item dp item (''handler raised '' @ exc_name e) []
         | Inr None \<Rightarrow> fail_item dp item ''handler returned an invalid result'' []
         | Inr (Some result) \<Rightarrow>
             if ar_success result then complete_item dp item actor_role (ar_message result) (ar_data result)
             else fail_item dp item (ar_message result) (ar_data result)))))"

definition ready_item :: "'x deps \<Rightarrow> scenario_item \<Rightarrow> ('x csys, unit) prog" where
  "ready_item dp item =
    thenE (upd_ctl (set_runtime (it_id item) (\<lambda>r. r\<lparr>rt_status := ReadyItem\<rparr>)))
      (ctl_emit dp ''scenario.item.ready'' ''scenario.ready''
        (it_id item @ '' is ready for facilitator delivery'') ''pending'' (Some item) ''controller''
        [(''item_kind'', VStr (it_kind item))])"

definition make_due :: "'x deps \<Rightarrow> scenario_item \<Rightarrow> ('x csys, unit) prog" where
  "make_due dp item =
    bindE (runtime (it_id item)) (\<lambda>r.
      if rt_status r \<noteq> PendingItem then ret ()
      else if it_delivery item = ''facilitator'' \<or> it_kind item = ''checkpoint'' then ready_item dp item
      else deliver_item dp item ''controller'')"

section \<open>The clock\<close>

definition advance_clock :: "'x deps \<Rightarrow> int \<Rightarrow> ('x csys, unit) prog" where
  "advance_clock dp t = thenE (upd_ctl (\<lambda>c. c\<lparr>ctl_elapsed := t\<rparr>))
     (forE (\<lambda>observer. observer t) (dp_observers dp))"

definition item_seconds :: "scenario_item \<Rightarrow> int" where
  "item_seconds i = (case tr_seconds (it_trigger i) of None \<Rightarrow> 0 | Some n \<Rightarrow> n)"

text \<open>The items whose elapsed trigger has been reached and that are still pending, in delivery order.\<close>

definition due_by :: "int \<Rightarrow> controller \<Rightarrow> scenario_item list" where
  "due_by t c = sort_key (\<lambda>i. (item_seconds i, tr_order (it_trigger i)))
     (filter (\<lambda>i. tr_type (it_trigger i) = ''elapsed'' \<and> tr_seconds (it_trigger i) \<noteq> None
         \<and> item_seconds i \<le> t
         \<and> map_option rt_status (map_of (ctl_items c) (it_id i)) = Some PendingItem)
       (sd_items (ctl_definition c)))"

definition deliver_at :: "'x deps \<Rightarrow> scenario_item \<Rightarrow> ('x csys, unit) prog" where
  "deliver_at dp item = thenE (advance_clock dp (item_seconds item)) (make_due dp item)"

definition advance_to :: "'x deps \<Rightarrow> int \<Rightarrow> ('x csys, unit) prog" where
  "advance_to dp t =
    thenE (require_state [Running])
   (bindE (get_ctl ctl_elapsed) (\<lambda>now.
    thenE (requireE (now \<le> t) (ControllerError ''elapsed time must be a non-decreasing integer''))
   (bindE (get_ctl (due_by t)) (\<lambda>due.
    thenE (forE (deliver_at dp) due) (advance_clock dp t)))))"

section \<open>Lifecycle\<close>

definition prepare :: "'x deps \<Rightarrow> ('x csys, unit) prog" where
  "prepare dp =
    thenE (require_state [Ready])
   (bindE (get_ctl (\<lambda>c. sort_key (\<lambda>i. tr_order (it_trigger i))
       (filter (\<lambda>i. tr_type (it_trigger i) = ''pre_exercise'') (sd_items (ctl_definition c))))) (\<lambda>items.
    forE (make_due dp) items))"

definition start :: "'x deps \<Rightarrow> ('x csys, unit) prog" where
  "start dp =
    thenE (require_state [Ready])
   (thenE (upd_ctl (\<lambda>c. c\<lparr>ctl_state := Running\<rparr>))
   (bindE (get_ctl (\<lambda>c. sd_name (ctl_definition c))) (\<lambda>name.
    thenE (ctl_emit dp ''scenario.run.started'' ''scenario.start'' (''Started '' @ name) ''success'' None
       ''controller'' [])
      (advance_to dp 0))))"

definition pause :: "'x deps \<Rightarrow> ('x csys, unit) prog" where
  "pause dp =
    thenE (require_state [Running])
   (thenE (upd_ctl (\<lambda>c. c\<lparr>ctl_state := Paused\<rparr>))
      (ctl_emit dp ''scenario.run.paused'' ''scenario.pause'' ''Scenario timing paused by facilitator''
         ''success'' None ''controller'' []))"

definition resume :: "'x deps \<Rightarrow> ('x csys, unit) prog" where
  "resume dp =
    thenE (require_state [Paused])
   (thenE (upd_ctl (\<lambda>c. c\<lparr>ctl_state := Running\<rparr>))
      (ctl_emit dp ''scenario.run.resumed'' ''scenario.resume'' ''Scenario timing resumed by facilitator''
         ''success'' None ''controller'' []))"

definition require_open :: "string \<Rightarrow> string \<Rightarrow> item_runtime \<Rightarrow> ('x csys, unit) prog" where
  "require_open item_id participle r = requireE (open_status (rt_status r))
     (ControllerError (item_id @ '' cannot be '' @ participle @ '' from '' @ status_value (rt_status r)))"

definition deliver :: "'x deps \<Rightarrow> string \<Rightarrow> ('x csys, unit) prog" where
  "deliver dp item_id =
    thenE (require_state [Ready, Running, Paused])
   (bindE (find_item item_id) (\<lambda>item.
    bindE (runtime item_id) (\<lambda>r.
    thenE (require_open item_id ''delivered'' r) (deliver_item dp item ''facilitator''))))"

definition skip :: "'x deps \<Rightarrow> string \<Rightarrow> string \<Rightarrow> ('x csys, unit) prog" where
  "skip dp item_id reason =
    thenE (require_state [Ready, Running, Paused])
   (thenE (requireE (strip reason \<noteq> []) (ControllerError ''skip reason is required''))
   (bindE (find_item item_id) (\<lambda>item.
    bindE (runtime item_id) (\<lambda>r.
    thenE (require_open item_id ''skipped'' r)
   (thenE (upd_ctl (set_runtime item_id
       (\<lambda>r. r\<lparr>rt_status := Skipped, rt_error := Some (strip reason)\<rparr>)))
      (ctl_emit dp ''scenario.item.skipped'' ''scenario.skip'' (item_id @ '' skipped: '' @ strip reason)
        ''skipped'' (Some item) ''facilitator''
        [(''item_kind'', VStr (it_kind item)), (''reason'', VStr (strip reason))]))))))"

text \<open>The branches of a checkpoint: the chosen ones become due, the others are skipped.\<close>

definition branches_of :: "string \<Rightarrow> controller \<Rightarrow> scenario_item list" where
  "branches_of checkpoint_id c = sort_key (\<lambda>i. tr_order (it_trigger i))
     (filter (\<lambda>i. tr_type (it_trigger i) = ''checkpoint'' \<and> tr_checkpoint (it_trigger i) = Some checkpoint_id)
       (sd_items (ctl_definition c)))"

fun run_branches :: "'x deps \<Rightarrow> string \<Rightarrow> string \<Rightarrow> scenario_item list \<Rightarrow> ('x csys, unit) prog" where
  "run_branches dp checkpoint_id result [] = ret ()"
| "run_branches dp checkpoint_id result (b # bs) =
    bindE (get_ctl ctl_state) (\<lambda>st.
      if st = Stopped then ret ()
      else thenE (if tr_outcome (it_trigger b) = Some result then make_due dp b
           else skip dp (it_id b) (''opposite '' @ checkpoint_id @ '' branch selected''))
         (run_branches dp checkpoint_id result bs))"

definition is_bool :: "val \<Rightarrow> bool" where
  "is_bool v = (case v of VBool b \<Rightarrow> True | _ \<Rightarrow> False)"

definition em_dash :: string where
  "em_dash = [CHR 0xE2, CHR 0x80, CHR 0x94]"

definition resolve_checkpoint :: "'x deps \<Rightarrow> string \<Rightarrow> bool \<Rightarrow> string list \<Rightarrow> string \<Rightarrow> row option
    \<Rightarrow> ('x csys, unit) prog" where
  "resolve_checkpoint dp checkpoint_id passed evidence_ids reason checks =
    (let result = (if passed then ''pass'' else ''miss'') in
    thenE (require_state [Running, Paused])
   (bindE (find_item checkpoint_id) (\<lambda>item.
    thenE (requireE (it_kind item = ''checkpoint'')
      (ControllerError (checkpoint_id @ '' is not a checkpoint'')))
   (bindE (runtime checkpoint_id) (\<lambda>r.
    thenE (require_open checkpoint_id ''resolved'' r)
   (thenE (requireE (strip reason \<noteq> []) (ControllerError ''checkpoint reason is required''))
   (thenE (requireE (case checks of None \<Rightarrow> True | Some cs \<Rightarrow> list_all (is_bool \<circ> snd) cs)
      (ControllerError ''checkpoint checks must map names to boolean observations''))
   (thenE (upd_ctl (\<lambda>c. (set_runtime checkpoint_id
        (\<lambda>r. r\<lparr>rt_status := Delivered, rt_delivered_at := Some (ctl_elapsed c)\<rparr>) c)
        \<lparr>ctl_results := dset checkpoint_id result (ctl_results c)\<rparr>))
   (thenE (ctl_emit dp ''scenario.checkpoint.resolved'' ''scenario.checkpoint.evaluate''
        (checkpoint_id @ '' result: '' @ result @ '' '' @ em_dash @ '' '' @ strip reason)
        (if passed then ''success'' else ''failure'') (Some item) ''facilitator''
        ([(''result'', VStr result), (''reason'', VStr (strip reason)),
          (''evidence_ids'', str_list (dedup evidence_ids))]
         @ (case checks of None \<Rightarrow> [] | Some cs \<Rightarrow> [(''verifier_checks'', VDict cs)])))
   (bindE (get_ctl (branches_of checkpoint_id)) (run_branches dp checkpoint_id result)))))))))))"

definition fail_safe_stop :: "'x deps \<Rightarrow> string \<Rightarrow> ('x csys, unit) prog" where
  "fail_safe_stop dp reason =
    thenE (require_state [Ready, Running, Paused])
   (thenE (requireE (strip reason \<noteq> []) (ControllerError ''stop reason is required''))
   (thenE (upd_ctl (\<lambda>c. c\<lparr>ctl_state := Stopped\<rparr>))
      (ctl_emit dp ''scenario.run.stopped'' ''scenario.stop'' (''Fail-safe stop: '' @ strip reason)
        ''cancelled'' None ''controller'' [(''reason'', VStr (strip reason))])))"

definition restarted :: "string \<Rightarrow> controller \<Rightarrow> controller" where
  "restarted run_id c = new_controller (ctl_definition c) run_id (ctl_producer_version c)
     (bl_shared (ctl_builder c))"

definition reset_controller :: "'x deps \<Rightarrow> string option \<Rightarrow> ('x csys, unit) prog" where
  "reset_controller dp new_run_id =
    thenE (require_state [Stopped, Completed])
   (bindE (get_ctl ctl_run_id) (\<lambda>previous.
    bindE (case opt_text new_run_id of Some r \<Rightarrow> ret r
      | None \<Rightarrow> zoomE cy_world (\<lambda>w s. s\<lparr>cy_world := w\<rparr>) (new_uuid (dp_env dp))) (\<lambda>run_id.
    thenE (upd_ctl (restarted run_id))
      (ctl_emit dp ''scenario.run.reset'' ''scenario.reset'' ''Controller state reset for a new run''
        ''success'' None ''controller'' [(''previous_run_id'', VStr previous)]))))"

text \<open>\<open>snapshot\<close>.\<close>

definition runtime_row :: "item_runtime \<Rightarrow> row" where
  "runtime_row r = [(''status'', VStr (status_value (rt_status r))),
     (''delivered_at_seconds'', case rt_delivered_at r of None \<Rightarrow> VNone | Some n \<Rightarrow> VInt n),
     (''error'', opt_val (rt_error r))]"

definition controller_snapshot :: "controller \<Rightarrow> row" where
  "controller_snapshot c =
    [(''scenario_id'', VStr (sd_scenario_id (ctl_definition c))),
     (''exercise_id'', VStr (sd_exercise_id (ctl_definition c))),
     (''run_id'', VStr (ctl_run_id c)), (''state'', VStr (state_value (ctl_state c))),
     (''elapsed_seconds'', VInt (ctl_elapsed c)),
     (''checkpoint_results'', VDict (map (map_prod id VStr) (ctl_results c))),
     (''items'', VDict (map (map_prod id (VDict \<circ> runtime_row)) (ctl_items c)))]"

end
