(* ===== verification/ControllerSafety.thy ===== *)
theory ControllerSafety
  imports Controller
begin

text \<open>
  What the operations of \<open>ScenarioController\<close> do to the items and to the run state when handlers and
  observers leave the controller alone (\<open>handlers_frame\<close>), whatever else they do, and whatever the sink
  and the validator answer.
\<close>

section \<open>Frames\<close>

definition handlers_frame :: "'x deps \<Rightarrow> bool" where
  "handlers_frame dp \<longleftrightarrow> (\<forall>h\<in>snd ` set (dp_handlers dp). \<forall>i r. keeps cy_ctl (h i r))
     \<and> (\<forall>f\<in>set (dp_observers dp). \<forall>t. keeps cy_ctl (f t))"

text \<open>The controller without its event builder.\<close>

definition ctl_view :: "controller \<Rightarrow> controller" where
  "ctl_view c = c\<lparr>ctl_builder := fresh_builder (controller_context [] [] []) False\<rparr>"

lemma ctl_view_eq: "ctl_view c' = ctl_view c \<Longrightarrow> ctl_definition c' = ctl_definition c
    \<and> ctl_run_id c' = ctl_run_id c \<and> ctl_producer_version c' = ctl_producer_version c
    \<and> ctl_state c' = ctl_state c \<and> ctl_elapsed c' = ctl_elapsed c \<and> ctl_items c' = ctl_items c
    \<and> ctl_results c' = ctl_results c"
  by (cases c, cases c') (simp add: ctl_view_def)

lemma keeps_view_emit: "keeps (\<lambda>s. ctl_view (cy_ctl s)) (ctl_emit dp ty a m st item role data)"
  unfolding ctl_emit_def get_ctl_def
  by (intro keeps_intros) (auto simp: ctl_view_def)

lemma keeps_rest_emit: "keeps cy_rest (ctl_emit dp ty a m st item role data)"
  unfolding ctl_emit_def get_ctl_def by (intro keeps_intros) auto

lemma ctl_emit_view:
  "ctl_emit dp ty a m st item role data s = (q, s') \<Longrightarrow> ctl_view (cy_ctl s') = ctl_view (cy_ctl s)"
  by (rule keeps_run [OF keeps_view_emit])

lemma get_ctl_run [prog_simps]: "get_ctl f s = (Inr (f (cy_ctl s)), s)"
  by (simp add: get_ctl_def)

lemma upd_ctl_run [prog_simps]: "upd_ctl f s = (Inr (), s\<lparr>cy_ctl := f (cy_ctl s)\<rparr>)"
  by (simp add: upd_ctl_def)

lemma runtime_run [prog_simps]: "runtime i s = (ditem (ctl_items (cy_ctl s)) i, s)"
  by (simp add: runtime_def prog_simps split: sum.splits)

lemma require_state_run [prog_simps]: "require_state allowed s =
  (if ctl_state (cy_ctl s) \<in> set allowed then (Inr (), s)
   else (Inl (ControllerError (''operation requires state '' @ join '', '' (map state_value allowed)
        @ ''; current state is '' @ state_value (ctl_state (cy_ctl s)))), s))"
  by (simp add: require_state_def prog_simps)

lemma find_item_run: "find_item i s = (case List.find (\<lambda>x. it_id x = i) (sd_items (ctl_definition (cy_ctl s))) of
    None \<Rightarrow> (Inl (ControllerError (''unknown MSEL item: '' @ i)), s) | Some x \<Rightarrow> (Inr x, s))"
  by (simp add: find_item_def prog_simps split: option.splits)

lemma find_item_id: "find_item i s = (Inr x, s') \<Longrightarrow> it_id x = i \<and> s' = s
    \<and> x \<in> set (sd_items (ctl_definition (cy_ctl s)))"
  by (auto simp: find_item_run find_Some_iff split: option.splits)

section \<open>Moving one item\<close>

definition status_of :: "controller \<Rightarrow> string \<Rightarrow> item_status option" where
  "status_of c i = map_option rt_status (map_of (ctl_items c) i)"

text \<open>One item gets a new runtime with a status in \<open>S\<close>; the run may complete.\<close>

definition moved :: "string \<Rightarrow> item_status set \<Rightarrow> controller \<Rightarrow> controller \<Rightarrow> bool" where
  "moved i S c c' \<longleftrightarrow> (\<exists>r. ctl_items c' = dset i r (ctl_items c) \<and> rt_status r \<in> S
       \<and> (rt_status r = Delivered \<longrightarrow> rt_delivered_at r = Some (ctl_elapsed c)))
     \<and> ctl_definition c' = ctl_definition c \<and> ctl_run_id c' = ctl_run_id c
     \<and> ctl_elapsed c' = ctl_elapsed c \<and> ctl_results c' = ctl_results c
     \<and> (ctl_state c' = ctl_state c \<or> ctl_state c' = Completed)"

lemma moved_view: "moved i S c c' \<Longrightarrow> ctl_view c'' = ctl_view c' \<Longrightarrow> moved i S c c''"
  by (drule ctl_view_eq) (simp add: moved_def)

lemma moved_weaken: "moved i S c c' \<Longrightarrow> S \<subseteq> T \<Longrightarrow> moved i T c c'"
  by (auto simp: moved_def)

lemma set_runtime_moved:
  assumes "map_of (ctl_items c) i = Some r" and "rt_status (f r) \<in> S"
    and "rt_status (f r) = Delivered \<Longrightarrow> rt_delivered_at (f r) = Some (ctl_elapsed c)"
  shows "moved i S c (set_runtime i f c)"
  using assms by (auto simp: moved_def set_runtime_def)

lemma fail_item_moved:
  assumes "fail_item dp item reason data s = (q, s')"
    and "map_of (ctl_items (cy_ctl s)) (it_id item) = Some r"
  shows "moved (it_id item) {Failed} (cy_ctl s) (cy_ctl s')"
proof -
  let ?c = "set_runtime (it_id item) (\<lambda>r. r\<lparr>rt_status := Failed, rt_error := Some reason\<rparr>) (cy_ctl s)"
  have "moved (it_id item) {Failed} (cy_ctl s) ?c"
    by (rule set_runtime_moved [OF assms(2)]) simp_all
  moreover have "ctl_view (cy_ctl s') = ctl_view ?c"
    using assms(1) unfolding fail_item_def by (auto simp: prog_simps dest: ctl_emit_view)
  ultimately show ?thesis by (rule moved_view)
qed

lemma complete_item_moved:
  assumes "complete_item dp item role message data s = (q, s')"
    and "map_of (ctl_items (cy_ctl s)) (it_id item) = Some r"
  shows "moved (it_id item) {Delivered} (cy_ctl s) (cy_ctl s')
    \<and> (q = Inr () \<longrightarrow> ctl_state (cy_ctl s') = (if it_kind item = ''end'' then Completed else ctl_state (cy_ctl s)))"
proof -
  let ?f = "\<lambda>r. r\<lparr>rt_status := Delivered, rt_delivered_at := Some (ctl_elapsed (cy_ctl s)), rt_error := None\<rparr>"
  let ?c = "set_runtime (it_id item) ?f (cy_ctl s)"
  have m: "moved (it_id item) {Delivered} (cy_ctl s) ?c"
    by (rule set_runtime_moved [OF assms(2)]) simp_all
  have st: "ctl_state ?c = ctl_state (cy_ctl s)"
    by (simp add: set_runtime_def split: option.splits)
  obtain p s1 where e: "ctl_emit dp ''scenario.item.delivered''
       (case opt_text (it_action item) of None \<Rightarrow> ''scenario.deliver'' | Some a \<Rightarrow> a)
       message ''success'' (Some item) role (dmerge [(''item_kind'', VStr (it_kind item))] data)
       (s\<lparr>cy_ctl := ?c\<rparr>) = (p, s1)"
    by (metis prod.exhaust)
  have v: "ctl_view (cy_ctl s1) = ctl_view ?c" using ctl_emit_view [OF e] by simp
  have m1: "moved (it_id item) {Delivered} (cy_ctl s) (cy_ctl s1)" by (rule moved_view [OF m v])
  have st1: "ctl_state (cy_ctl s1) = ctl_state (cy_ctl s)" using ctl_view_eq [OF v] st by simp
  show ?thesis
    using assms(1) e m1 st1 unfolding complete_item_def
    by (auto simp: prog_simps moved_def split: sum.splits if_splits)
qed

text \<open>\<open>_deliver\<close> ends with a delivered or a failed item.\<close>

lemma deliver_item_moved:
  assumes "handlers_frame dp" and "deliver_item dp item role s = (q, s')"
    and "map_of (ctl_items (cy_ctl s)) (it_id item) = Some r"
  shows "moved (it_id item) {Delivered, Failed} (cy_ctl s) (cy_ctl s')"
proof (cases "opt_text (it_action item)")
  case None
  then have "complete_item dp item role (it_summary item) [] s = (q, s')"
    using assms(2,3) by (simp add: deliver_item_def prog_simps ditem_def)
  from complete_item_moved [OF this assms(3), THEN conjunct1] show ?thesis
    by (rule moved_weaken) simp
next
  case (Some a)
  show ?thesis
  proof (cases "map_of (dp_handlers dp) a")
    case None
    then have "fail_item dp item (''no allowlisted handler for '' @ a) [] s = (q, s')"
      using assms(2,3) Some by (simp add: deliver_item_def prog_simps ditem_def)
    from fail_item_moved [OF this assms(3)] show ?thesis by (rule moved_weaken) simp
  next
    case h: (Some h)
    obtain p s1 where run: "h item (ctl_run_id (cy_ctl s)) s = (p, s1)" by (metis prod.exhaust)
    have "h \<in> snd ` set (dp_handlers dp)" using h map_of_SomeD by force
    then have "keeps cy_ctl (h item (ctl_run_id (cy_ctl s)))"
      using assms(1) by (auto simp: handlers_frame_def)
    then have c: "cy_ctl s1 = cy_ctl s" using run by (rule keeps_run)
    have there: "map_of (ctl_items (cy_ctl s1)) (it_id item) = Some r" by (simp add: c assms(3))
    have "(\<exists>reason data. fail_item dp item reason data s1 = (q, s'))
        \<or> (\<exists>message data. complete_item dp item role message data s1 = (q, s'))"
      using assms(2,3) Some h run
      by (auto simp: deliver_item_def prog_simps ditem_def attemptE_def split: sum.splits option.splits if_splits)
    then have "moved (it_id item) {Failed} (cy_ctl s1) (cy_ctl s')
        \<or> moved (it_id item) {Delivered} (cy_ctl s1) (cy_ctl s')"
      using fail_item_moved [OF _ there] complete_item_moved [OF _ there] by blast
    then show ?thesis unfolding c by (elim disjE) (erule moved_weaken, simp)+
  qed
qed

lemma ready_item_moved:
  assumes "ready_item dp item s = (q, s')"
    and "map_of (ctl_items (cy_ctl s)) (it_id item) = Some r"
  shows "moved (it_id item) {ReadyItem} (cy_ctl s) (cy_ctl s')"
proof -
  let ?c = "set_runtime (it_id item) (\<lambda>r. r\<lparr>rt_status := ReadyItem\<rparr>) (cy_ctl s)"
  have "moved (it_id item) {ReadyItem} (cy_ctl s) ?c"
    by (rule set_runtime_moved [OF assms(2)]) simp_all
  moreover have "ctl_view (cy_ctl s') = ctl_view ?c"
    using assms(1) unfolding ready_item_def by (auto simp: prog_simps dest: ctl_emit_view)
  ultimately show ?thesis by (rule moved_view)
qed

text \<open>\<open>_make_due\<close>: nothing unless the item is pending; then it is pending no more.\<close>

lemma make_due_cases:
  assumes "handlers_frame dp" and "make_due dp item s = (q, s')"
  shows "s' = s \<and> status_of (cy_ctl s) (it_id item) \<noteq> Some PendingItem
    \<or> status_of (cy_ctl s) (it_id item) = Some PendingItem
      \<and> moved (it_id item) {ReadyItem, Delivered, Failed} (cy_ctl s) (cy_ctl s')"
proof (cases "map_of (ctl_items (cy_ctl s)) (it_id item)")
  case None
  then show ?thesis using assms(2) by (auto simp: make_due_def prog_simps ditem_def status_of_def)
next
  case (Some r)
  show ?thesis
  proof (cases "rt_status r = PendingItem")
    case False
    then show ?thesis using assms(2) Some by (auto simp: make_due_def prog_simps ditem_def status_of_def)
  next
    case True
    then have "ready_item dp item s = (q, s') \<or> deliver_item dp item ''controller'' s = (q, s')"
      using assms(2) Some by (auto simp: make_due_def prog_simps ditem_def split: if_splits)
    then have "moved (it_id item) {ReadyItem} (cy_ctl s) (cy_ctl s')
        \<or> moved (it_id item) {Delivered, Failed} (cy_ctl s) (cy_ctl s')"
      using ready_item_moved [OF _ Some] deliver_item_moved [OF assms(1) _ Some] by blast
    then have "moved (it_id item) {ReadyItem, Delivered, Failed} (cy_ctl s) (cy_ctl s')"
      by (elim disjE) (erule moved_weaken, simp)+
    then show ?thesis using True Some by (simp add: status_of_def)
  qed
qed

section \<open>Progress\<close>

text \<open>A run that is stopped or completed stays so until it is reset; a started run is not ready again.\<close>

definition state_le :: "run_state \<Rightarrow> run_state \<Rightarrow> bool" where
  "state_le a b \<longleftrightarrow> a = b \<or> a \<noteq> Stopped \<and> a \<noteq> Completed \<and> b \<noteq> Ready"

definition progress :: "controller \<Rightarrow> controller \<Rightarrow> bool" where
  "progress c c' \<longleftrightarrow> ctl_definition c' = ctl_definition c \<and> ctl_run_id c' = ctl_run_id c
     \<and> state_le (ctl_state c) (ctl_state c')
     \<and> (\<forall>i. rel_option (\<le>) (status_of c i) (status_of c' i))
     \<and> (\<forall>i r. map_of (ctl_items c) i = Some r \<longrightarrow> \<not> open_status (rt_status r) \<longrightarrow>
          map_of (ctl_items c') i = Some r)"

lemma status_le_cases: "(s::item_status) \<le> t \<longleftrightarrow> s = t \<or> s = PendingItem \<or> (s = ReadyItem \<and> t \<noteq> PendingItem)"
  by (rule less_eq_item_status_def)

lemma progress_refl [simp]: "progress c c"
  by (simp add: progress_def state_le_def option.rel_refl)

lemma progress_trans: "progress a b \<Longrightarrow> progress b c \<Longrightarrow> progress a c"
proof -
  assume ab: "progress a b" and bc: "progress b c"
  have "rel_option (\<le>) (status_of a i) (status_of c i)" for i
    using ab bc unfolding progress_def by (metis (mono_tags, lifting) option.rel_sel order_trans)
  then show ?thesis using ab bc unfolding progress_def state_le_def by metis
qed

lemma progress_view: "ctl_view c' = ctl_view c \<Longrightarrow> progress c c'"
  by (drule ctl_view_eq) (simp add: progress_def state_le_def status_of_def option.rel_refl)

lemma moved_progress:
  assumes "moved i S c c'" and "status_of c i = Some a" and "open_status a"
    and "\<And>s. s \<in> S \<Longrightarrow> a \<le> s" and "ctl_state c \<noteq> Stopped"
  shows "progress c c'"
proof -
  obtain r where r: "ctl_items c' = dset i r (ctl_items c)" "rt_status r \<in> S"
    using assms(1) by (auto simp: moved_def)
  obtain r0 where r0: "map_of (ctl_items c) i = Some r0" "rt_status r0 = a"
    using assms(2) by (auto simp: status_of_def)
  have "state_le (ctl_state c) (ctl_state c')"
    using assms(1,5) by (auto simp: moved_def state_le_def)
  then show ?thesis
    using assms(1,3,4) r r0 by (auto simp: progress_def moved_def status_of_def option.rel_refl)
qed

text \<open>In a run that is not stopped, \<open>m\<close> makes progress and does not stop it.\<close>

definition advancing :: "('x csys, 'a) prog \<Rightarrow> bool" where
  "advancing m \<longleftrightarrow> (\<forall>s q s'. m s = (q, s') \<longrightarrow> ctl_state (cy_ctl s) \<noteq> Stopped \<longrightarrow>
     progress (cy_ctl s) (cy_ctl s') \<and> ctl_state (cy_ctl s') \<noteq> Stopped)"

lemma advancingD: "advancing m \<Longrightarrow> m s = (q, s') \<Longrightarrow> ctl_state (cy_ctl s) \<noteq> Stopped \<Longrightarrow>
    progress (cy_ctl s) (cy_ctl s') \<and> ctl_state (cy_ctl s') \<noteq> Stopped"
  unfolding advancing_def by blast

lemma advancing_ret: "advancing (ret x)" "advancing (Pair (Inr x))" "advancing (raise e)"
  by (auto simp: advancing_def)

lemma advancing_bindE:
  assumes "advancing m" and "\<And>x. advancing (f x)"
  shows "advancing (bindE m f)"
  unfolding advancing_def
proof (intro allI impI)
  fix s q s'
  assume run: "bindE m f s = (q, s')" and st: "ctl_state (cy_ctl s) \<noteq> Stopped"
  obtain p s1 where m: "m s = (p, s1)" by (metis prod.exhaust)
  note 1 = advancingD [OF assms(1) m st]
  show "progress (cy_ctl s) (cy_ctl s') \<and> ctl_state (cy_ctl s') \<noteq> Stopped"
  proof (cases p)
    case (Inl e)
    then show ?thesis using run m 1 by (simp add: bindE_run)
  next
    case (Inr x)
    then have "f x s1 = (q, s')" using run m by (simp add: bindE_run)
    from advancingD [OF assms(2) this] 1 show ?thesis using progress_trans by blast
  qed
qed

lemma advancing_thenE: "advancing m \<Longrightarrow> advancing n \<Longrightarrow> advancing (thenE m n)"
  unfolding thenE_def by (rule advancing_bindE)

lemma advancing_forE: "(\<And>x. x \<in> set xs \<Longrightarrow> advancing (f x)) \<Longrightarrow> advancing (forE f xs)"
  by (induction xs) (auto intro: advancing_ret advancing_thenE)

lemma advancing_getE: "advancing (get_ctl f)" "advancing (getE g)"
  by (auto simp: advancing_def prog_simps)

lemma advancing_require: "advancing (requireE b e)" "advancing (require_state sts)"
  by (auto simp: advancing_def prog_simps)

lemma advancing_view:
  assumes "keeps (\<lambda>s. ctl_view (cy_ctl s)) m"
  shows "advancing m"
  unfolding advancing_def
proof (intro allI impI)
  fix s q s'
  assume "m s = (q, s')" and st: "ctl_state (cy_ctl s) \<noteq> Stopped"
  then have v: "ctl_view (cy_ctl s') = ctl_view (cy_ctl s)" using keeps_run [OF assms] by simp
  show "progress (cy_ctl s) (cy_ctl s') \<and> ctl_state (cy_ctl s') \<noteq> Stopped"
    using progress_view [OF v] ctl_view_eq [OF v] st by simp
qed

lemma advancing_elapsed: "advancing (upd_ctl (\<lambda>c. c\<lparr>ctl_elapsed := t\<rparr>))"
  by (auto simp: advancing_def prog_simps progress_def state_le_def status_of_def option.rel_refl)

lemma advancing_clock:
  assumes "handlers_frame dp"
  shows "advancing (advance_clock dp t)"
proof -
  have "advancing (f t)" if "f \<in> set (dp_observers dp)" for f
    by (rule advancing_view) (use assms that in \<open>auto simp: handlers_frame_def keeps_def\<close>)
  then show ?thesis
    unfolding advance_clock_def by (intro advancing_thenE advancing_forE advancing_elapsed)
qed

lemma open_le: "a = PendingItem \<Longrightarrow> (a::item_status) \<le> s" "a = ReadyItem \<Longrightarrow> s \<noteq> PendingItem \<Longrightarrow> a \<le> s"
  by (simp_all add: status_le_cases)

lemma advancing_make_due:
  assumes "handlers_frame dp"
  shows "advancing (make_due dp item)"
  unfolding advancing_def
proof (intro allI impI)
  fix s q s'
  assume run: "make_due dp item s = (q, s')" and st: "ctl_state (cy_ctl s) \<noteq> Stopped"
  from make_due_cases [OF assms run]
  show "progress (cy_ctl s) (cy_ctl s') \<and> ctl_state (cy_ctl s') \<noteq> Stopped"
  proof (elim disjE conjE)
    assume "s' = s"
    then show ?thesis using st by simp
  next
    assume p: "status_of (cy_ctl s) (it_id item) = Some PendingItem"
      and m: "moved (it_id item) {ReadyItem, Delivered, Failed} (cy_ctl s) (cy_ctl s')"
    have "progress (cy_ctl s) (cy_ctl s')"
      by (rule moved_progress [OF m p _ _ st]) (simp_all add: open_status_def open_le)
    then show ?thesis using m st by (auto simp: moved_def)
  qed
qed

lemma advancing_deliver_at: "handlers_frame dp \<Longrightarrow> advancing (deliver_at dp item)"
  unfolding deliver_at_def by (intro advancing_thenE advancing_clock advancing_make_due)

lemma advancing_advance_to: "handlers_frame dp \<Longrightarrow> advancing (advance_to dp t)"
  unfolding advance_to_def
  by (intro advancing_thenE advancing_bindE advancing_require advancing_getE advancing_forE
      advancing_deliver_at advancing_clock)

lemma advancing_prepare: "handlers_frame dp \<Longrightarrow> advancing (prepare dp)"
  unfolding prepare_def
  by (intro advancing_thenE advancing_bindE advancing_require advancing_getE advancing_forE
      advancing_make_due)

lemma advancing_emit: "advancing (ctl_emit dp ty a m st item role data)"
  by (rule advancing_view) (rule keeps_view_emit)

text \<open>An operation whose guard fails, or that touches one open item.\<close>

lemma advancing_skip: "advancing (skip dp item_id reason)"
  unfolding advancing_def
proof (intro allI impI)
  fix s q s'
  assume run: "skip dp item_id reason s = (q, s')" and st: "ctl_state (cy_ctl s) \<noteq> Stopped"
  show "progress (cy_ctl s) (cy_ctl s') \<and> ctl_state (cy_ctl s') \<noteq> Stopped"
  proof (cases "s' = s")
    case True
    then show ?thesis using st by simp
  next
    case False
    let ?f = "\<lambda>r. r\<lparr>rt_status := Skipped, rt_error := Some (strip reason)\<rparr>"
    obtain r where r: "map_of (ctl_items (cy_ctl s)) item_id = Some r" "open_status (rt_status r)"
      and v: "ctl_view (cy_ctl s') = ctl_view (set_runtime item_id ?f (cy_ctl s))"
      using run False unfolding skip_def
      by (auto simp: prog_simps find_item_run ditem_def require_open_def
          split: if_splits option.splits sum.splits dest!: ctl_emit_view)
    have "moved item_id {Skipped} (cy_ctl s) (set_runtime item_id ?f (cy_ctl s))"
      by (rule set_runtime_moved [OF r(1)]) simp_all
    then have m: "moved item_id {Skipped} (cy_ctl s) (cy_ctl s')" using v by (rule moved_view)
    have "progress (cy_ctl s) (cy_ctl s')"
      by (rule moved_progress [OF m _ r(2) _ st])
        (use r in \<open>auto simp: status_of_def open_status_def open_le\<close>)
    then show ?thesis using m st by (auto simp: moved_def)
  qed
qed

lemma advancing_deliver:
  assumes "handlers_frame dp"
  shows "advancing (deliver dp item_id)"
  unfolding advancing_def
proof (intro allI impI)
  fix s q s'
  assume run: "deliver dp item_id s = (q, s')" and st: "ctl_state (cy_ctl s) \<noteq> Stopped"
  show "progress (cy_ctl s) (cy_ctl s') \<and> ctl_state (cy_ctl s') \<noteq> Stopped"
  proof (cases "s' = s")
    case True
    then show ?thesis using st by simp
  next
    case False
    obtain item r where i: "find_item item_id s = (Inr item, s)"
        "map_of (ctl_items (cy_ctl s)) item_id = Some r" "open_status (rt_status r)"
        "deliver_item dp item ''facilitator'' s = (q, s')"
      using run False unfolding deliver_def
      by (auto simp: prog_simps find_item_run ditem_def require_open_def
          split: if_splits option.splits sum.splits)
    have id: "it_id item = item_id" using find_item_id [OF i(1)] by simp
    have m: "moved item_id {Delivered, Failed} (cy_ctl s) (cy_ctl s')"
      using deliver_item_moved [OF assms i(4)] i(2) id by simp
    have "progress (cy_ctl s) (cy_ctl s')"
      by (rule moved_progress [OF m _ i(3) _ st])
        (use i(2,3) in \<open>auto simp: status_of_def open_status_def open_le\<close>)
    then show ?thesis using m st by (auto simp: moved_def)
  qed
qed

lemma advancing_branches: "handlers_frame dp \<Longrightarrow> advancing (run_branches dp cp result bs)"
proof (induction bs)
  case Nil
  then show ?case by (simp add: advancing_ret)
next
  case (Cons b bs)
  then show ?case
    by (auto intro!: advancing_bindE advancing_getE advancing_thenE advancing_make_due advancing_skip
        advancing_ret)
qed

text \<open>What \<open>resolve_checkpoint\<close> does after its guards.\<close>

definition settled :: "string \<Rightarrow> string \<Rightarrow> controller \<Rightarrow> controller" where
  "settled cp result c = (set_runtime cp (\<lambda>r. r\<lparr>rt_status := Delivered,
     rt_delivered_at := Some (ctl_elapsed c)\<rparr>) c)\<lparr>ctl_results := dset cp result (ctl_results c)\<rparr>"

definition after_settled :: "'x deps \<Rightarrow> scenario_item \<Rightarrow> string \<Rightarrow> bool \<Rightarrow> string list \<Rightarrow> string
    \<Rightarrow> row option \<Rightarrow> ('x csys, unit) prog" where
  "after_settled dp item cp passed evidence_ids reason checks =
    (let result = (if passed then ''pass'' else ''miss'') in
     thenE (ctl_emit dp ''scenario.checkpoint.resolved'' ''scenario.checkpoint.evaluate''
        (cp @ '' result: '' @ result @ '' '' @ em_dash @ '' '' @ strip reason)
        (if passed then ''success'' else ''failure'') (Some item) ''facilitator''
        ([(''result'', VStr result), (''reason'', VStr (strip reason)),
          (''evidence_ids'', str_list (dedup evidence_ids))]
         @ (case checks of None \<Rightarrow> [] | Some cs \<Rightarrow> [(''verifier_checks'', VDict cs)])))
       (bindE (get_ctl (branches_of cp)) (run_branches dp cp result)))"

lemma resolve_checkpoint_cases:
  assumes "resolve_checkpoint dp cp passed evidence_ids reason checks s = (q, s')"
  shows "(s' = s \<and> (\<exists>e. q = Inl e)) \<or>
    (\<exists>item r. List.find (\<lambda>x. it_id x = cp) (sd_items (ctl_definition (cy_ctl s))) = Some item
      \<and> it_kind item = ''checkpoint'' \<and> map_of (ctl_items (cy_ctl s)) cp = Some r
      \<and> open_status (rt_status r) \<and> ctl_state (cy_ctl s) \<in> {Running, Paused}
      \<and> after_settled dp item cp passed evidence_ids reason checks
          (s\<lparr>cy_ctl := settled cp (if passed then ''pass'' else ''miss'') (cy_ctl s)\<rparr>) = (q, s'))"
  using assms unfolding resolve_checkpoint_def after_settled_def settled_def Let_def
  by (auto simp: thenE_run bindE_run require_state_run runtime_run get_ctl_run upd_ctl_run
      requireE_run find_item_run ditem_def require_open_def split: if_splits option.splits)

lemma progress_settled:
  assumes "map_of (ctl_items c) cp = Some r" and "open_status (rt_status r)"
  shows "progress c (settled cp result c)"
  using assms
  by (auto simp: progress_def settled_def set_runtime_def state_le_def status_of_def open_status_def
      option.rel_refl status_le_cases)

lemma advancing_after_settled:
  "handlers_frame dp \<Longrightarrow> advancing (after_settled dp item cp passed evidence reason checks)"
  unfolding after_settled_def Let_def
  by (intro advancing_thenE advancing_emit advancing_bindE advancing_getE advancing_branches)

lemma advancing_resolve:
  assumes "handlers_frame dp"
  shows "advancing (resolve_checkpoint dp cp passed evidence reason checks)"
  unfolding advancing_def
proof (intro allI impI)
  fix s q s'
  assume run: "resolve_checkpoint dp cp passed evidence reason checks s = (q, s')"
    and st: "ctl_state (cy_ctl s) \<noteq> Stopped"
  let ?res = "if passed then ''pass'' else ''miss''"
  from resolve_checkpoint_cases [OF run]
  show "progress (cy_ctl s) (cy_ctl s') \<and> ctl_state (cy_ctl s') \<noteq> Stopped"
  proof (elim disjE conjE exE)
    assume "s' = s"
    then show ?thesis using st by simp
  next
    fix item r
    assume r: "map_of (ctl_items (cy_ctl s)) cp = Some r" "open_status (rt_status r)"
      and a: "after_settled dp item cp passed evidence reason checks
        (s\<lparr>cy_ctl := settled cp ?res (cy_ctl s)\<rparr>) = (q, s')"
    have "ctl_state (settled cp ?res (cy_ctl s)) \<noteq> Stopped"
      using st by (simp add: settled_def set_runtime_def split: option.splits)
    then show ?thesis
      using advancingD [OF advancing_after_settled [OF assms] a] progress_settled [OF r, of ?res]
        progress_trans by auto
  qed
qed

section \<open>Commands\<close>

text \<open>The operations of a run in play, and a whole exercise as a list of them; errors are reported and
  the exercise goes on.\<close>

datatype command =
    Prepare | Start | Pause | Resume
  | AdvanceTo int
  | Deliver string
  | Skip string string
  | Resolve string bool "string list" string "row option"
  | StopRun string

primrec perform :: "'x deps \<Rightarrow> command \<Rightarrow> ('x csys, unit) prog" where
  "perform dp Prepare = prepare dp"
| "perform dp Start = start dp"
| "perform dp Pause = pause dp"
| "perform dp Resume = resume dp"
| "perform dp (AdvanceTo t) = advance_to dp t"
| "perform dp (Deliver i) = deliver dp i"
| "perform dp (Skip i reason) = skip dp i reason"
| "perform dp (Resolve i passed evidence reason checks) = resolve_checkpoint dp i passed evidence reason checks"
| "perform dp (StopRun reason) = fail_safe_stop dp reason"

fun perform_all :: "'x deps \<Rightarrow> command list \<Rightarrow> 'x csys \<Rightarrow> 'x csys" where
  "perform_all dp [] s = s"
| "perform_all dp (c # cs) s = perform_all dp cs (snd (perform dp c s))"

text \<open>In a stopped run every command is refused and changes nothing.\<close>

lemma stopped_refuses:
  assumes "ctl_state (cy_ctl s) = Stopped"
  shows "\<exists>e. perform dp c s = (Inl (ControllerError e), s)"
  using assms by (cases c) (auto simp: prepare_def start_def pause_def resume_def advance_to_def deliver_def
      skip_def resolve_checkpoint_def fail_safe_stop_def thenE_run require_state_run Let_def)

lemma completed_refuses:
  assumes "ctl_state (cy_ctl s) = Completed"
  shows "\<exists>e. perform dp c s = (Inl (ControllerError e), s)"
  using assms by (cases c) (auto simp: prepare_def start_def pause_def resume_def advance_to_def deliver_def
      skip_def resolve_checkpoint_def fail_safe_stop_def thenE_run require_state_run Let_def)

lemma progress_state:
  "state_le (ctl_state c) st \<Longrightarrow> progress c (c\<lparr>ctl_state := st\<rparr>)"
  by (simp add: progress_def status_of_def option.rel_refl)

lemma state_then_emit:
  assumes "thenE (upd_ctl (\<lambda>c. c\<lparr>ctl_state := st\<rparr>)) (ctl_emit dp ty a m status item role data) s = (q, s')"
    and "state_le (ctl_state (cy_ctl s)) st"
  shows "progress (cy_ctl s) (cy_ctl s') \<and> ctl_state (cy_ctl s') = st"
proof -
  have v: "ctl_view (cy_ctl s') = ctl_view ((cy_ctl s)\<lparr>ctl_state := st\<rparr>)"
    using assms(1) by (auto simp: thenE_run upd_ctl_run dest: ctl_emit_view)
  show ?thesis
    using progress_trans [OF progress_state [OF assms(2)] progress_view [OF v]] ctl_view_eq [OF v] by simp
qed

lemma perform_progress:
  assumes "handlers_frame dp"
  shows "progress (cy_ctl s) (cy_ctl (snd (perform dp c s)))"
proof (cases "ctl_state (cy_ctl s) = Stopped")
  case True
  then show ?thesis using stopped_refuses by (metis progress_refl snd_conv)
next
  case False
  obtain q s' where run: "perform dp c s = (q, s')" by (metis prod.exhaust)
  have adv: "advancing (perform dp c) \<Longrightarrow> progress (cy_ctl s) (cy_ctl s')"
    using advancingD run False by blast
  have "progress (cy_ctl s) (cy_ctl s')"
  proof (cases c)
    case Start
    show ?thesis
    proof (cases "ctl_state (cy_ctl s) = Ready")
      case no: False
      then show ?thesis using run Start by (simp add: start_def thenE_run require_state_run split: if_splits)
    next
      case True
      let ?s = "s\<lparr>cy_ctl := (cy_ctl s)\<lparr>ctl_state := Running\<rparr>\<rparr>"
      have r: "thenE (ctl_emit dp ''scenario.run.started'' ''scenario.start''
          (''Started '' @ sd_name (ctl_definition (cy_ctl s))) ''success'' None ''controller'' [])
          (advance_to dp 0) ?s = (q, s')"
        using run Start True by (simp add: start_def thenE_run bindE_run require_state_run get_ctl_run upd_ctl_run)
      have "progress (cy_ctl ?s) (cy_ctl s')"
        using advancingD [OF advancing_thenE [OF advancing_emit advancing_advance_to [OF assms]] r] by simp
      moreover have "progress (cy_ctl s) (cy_ctl ?s)"
        using True progress_state [of "cy_ctl s" Running] by (simp add: state_le_def)
      ultimately show ?thesis using progress_trans by blast
    qed
  next
    case Pause
    then show ?thesis
      using run state_then_emit [of Paused dp _ _ _ _ _ _ _ s q s']
      by (auto simp: pause_def thenE_run [of "require_state _"] require_state_run state_le_def split: if_splits)
  next
    case Resume
    then show ?thesis
      using run state_then_emit [of Running dp _ _ _ _ _ _ _ s q s']
      by (auto simp: resume_def thenE_run [of "require_state _"] require_state_run state_le_def split: if_splits)
  next
    case (StopRun reason)
    then show ?thesis
      using run state_then_emit [of Stopped dp _ _ _ _ _ _ _ s q s']
      by (auto simp: fail_safe_stop_def thenE_run [of "require_state _"] thenE_run [of "requireE _ _"]
          requireE_run require_state_run state_le_def split: if_splits)
  qed (use assms in \<open>auto intro!: adv advancing_prepare advancing_advance_to advancing_deliver
      advancing_skip advancing_resolve\<close>)
  then show ?thesis using run by simp
qed

lemma perform_all_progress:
  "handlers_frame dp \<Longrightarrow> progress (cy_ctl s) (cy_ctl (perform_all dp cs s))"
  by (induction cs arbitrary: s) (auto intro: progress_trans perform_progress)

end
