(* ===== verification/ControllerTime.thy ===== *)
theory ControllerTime
  imports ControllerSafety "HOL-Library.Multiset"
begin

text \<open>
  Checkpoints select one branch, and time is deterministic: what \<open>advance_to\<close> delivers, when, and that
  advancing in one step or in many gives the same run.
\<close>

section \<open>Branches\<close>

lemma progress_not_pending:
  "progress c c' \<Longrightarrow> status_of c i = Some a \<Longrightarrow> a \<noteq> PendingItem \<Longrightarrow>
   \<exists>b. status_of c' i = Some b \<and> b \<noteq> PendingItem"
proof -
  assume p: "progress c c'" and s: "status_of c i = Some a" "a \<noteq> PendingItem"
  have "rel_option (\<le>) (status_of c i) (status_of c' i)" using p by (simp add: progress_def)
  then obtain b where "status_of c' i = Some b" "a \<le> b" using s by (auto simp: option_rel_Some1)
  then show ?thesis using s by (auto simp: status_le_cases)
qed

lemma progress_closed:
  assumes "progress c c'" and "status_of c i = Some a" and "\<not> open_status a"
  shows "status_of c' i = Some a"
  using assms unfolding progress_def status_of_def by auto

lemma skip_Inr:
  assumes "skip dp i reason s = (Inr (), s')"
  shows "status_of (cy_ctl s') i = Some Skipped"
proof -
  let ?f = "\<lambda>r. r\<lparr>rt_status := Skipped, rt_error := Some (strip reason)\<rparr>"
  obtain r where r: "map_of (ctl_items (cy_ctl s)) i = Some r"
    and v: "ctl_view (cy_ctl s') = ctl_view (set_runtime i ?f (cy_ctl s))"
    using assms unfolding skip_def
    by (auto simp: prog_simps find_item_run ditem_def require_open_def
        split: if_splits option.splits sum.splits dest!: ctl_emit_view)
  show ?thesis using ctl_view_eq [OF v] r by (simp add: status_of_def set_runtime_def)
qed

lemma make_due_Inr:
  assumes "handlers_frame dp" and "make_due dp item s = (Inr (), s')"
  shows "\<exists>a. status_of (cy_ctl s') (it_id item) = Some a \<and> a \<noteq> PendingItem"
proof -
  have "map_of (ctl_items (cy_ctl s)) (it_id item) \<noteq> None"
    using assms(2) by (auto simp: make_due_def prog_simps ditem_def split: option.splits)
  then show ?thesis
    using make_due_cases [OF assms] by (auto simp: moved_def status_of_def)
qed

lemma run_branches_Inr:
  assumes "handlers_frame dp" and "run_branches dp cp result bs s = (Inr (), s')"
    and "ctl_state (cy_ctl s) \<noteq> Stopped" and "b \<in> set bs"
  shows "(if tr_outcome (it_trigger b) = Some result
      then \<exists>a. status_of (cy_ctl s') (it_id b) = Some a \<and> a \<noteq> PendingItem
      else status_of (cy_ctl s') (it_id b) = Some Skipped)"
  using assms(2-4)
proof (induction bs arbitrary: s)
  case Nil
  then show ?case by simp
next
  case (Cons x bs)
  let ?step = "if tr_outcome (it_trigger x) = Some result then make_due dp x
     else skip dp (it_id x) (''opposite '' @ cp @ '' branch selected'')"
  obtain u s1 where step: "?step s = (Inr u, s1)" and rest: "run_branches dp cp result bs s1 = (Inr (), s')"
    using Cons.prems(1,2) by (auto simp: bindE_run get_ctl_run elim: thenE_InrE)
  have "advancing ?step" using advancing_make_due [OF assms(1)] advancing_skip by auto
  then have st: "ctl_state (cy_ctl s1) \<noteq> Stopped"
    using step Cons.prems(2) unfolding advancing_def by blast
  have p: "progress (cy_ctl s1) (cy_ctl s')"
    using advancingD [OF advancing_branches [OF assms(1)] rest st] by blast
  show ?case
  proof (cases "b = x")
    case False
    then show ?thesis using Cons.IH [OF rest st] Cons.prems(3) by simp
  next
    case True
    show ?thesis
    proof (cases "tr_outcome (it_trigger x) = Some result")
      case True
      then have "make_due dp x s = (Inr (), s1)" using step by simp
      from make_due_Inr [OF assms(1) this] show ?thesis
        using progress_not_pending [OF p] True \<open>b = x\<close> by auto
    next
      case no: False
      then have "skip dp (it_id x) (''opposite '' @ cp @ '' branch selected'') s = (Inr (), s1)"
        using step by simp
      from skip_Inr [OF this] show ?thesis
        using progress_closed [OF p] no \<open>b = x\<close> by (simp add: open_status_def)
    qed
  qed
qed

lemma branches_of_set: "set (branches_of cp c) = {i \<in> set (sd_items (ctl_definition c)).
    tr_type (it_trigger i) = ''checkpoint'' \<and> tr_checkpoint (it_trigger i) = Some cp}"
  by (auto simp: branches_of_def)

lemma keeps_results_branches:
  assumes "handlers_frame dp"
  shows "keeps (\<lambda>s. ctl_results (cy_ctl s)) (run_branches dp cp result bs)"
proof -
  have emit: "keeps (\<lambda>s. ctl_results (cy_ctl s)) (ctl_emit dp ty a m st item role data)"
    for ty a m st item role data
    unfolding keeps_def using keepsD [OF keeps_view_emit] ctl_view_eq by metis
  have due: "keeps (\<lambda>s. ctl_results (cy_ctl s)) (make_due dp b)" for b
    unfolding keeps_def
  proof
    fix s :: "'a csys"
    obtain q s' where "make_due dp b s = (q, s')" by (metis prod.exhaust)
    from make_due_cases [OF assms this] this
    show "ctl_results (cy_ctl (snd (make_due dp b s))) = ctl_results (cy_ctl s)"
      by (auto simp: moved_def)
  qed
  have skip: "keeps (\<lambda>s. ctl_results (cy_ctl s)) (skip dp i reason)" for i reason
    unfolding skip_def get_ctl_def upd_ctl_def find_item_def runtime_def require_state_def require_open_def
    by (intro keeps_intros emit) (auto simp: set_runtime_def split: option.splits)
  show ?thesis
    by (induction bs) (auto intro!: keeps_intros due skip simp: get_ctl_def)
qed

text \<open>A resolved checkpoint: its result is recorded, its matching branch is out of \<open>pending\<close>, and every
  other branch is skipped.\<close>

lemma resolve_checkpoint_Inr:
  assumes "handlers_frame dp"
    and "resolve_checkpoint dp cp passed evidence reason checks s = (Inr (), s')"
  defines "result \<equiv> (if passed then ''pass'' else ''miss'')"
  shows "map_of (ctl_results (cy_ctl s')) cp = Some result
    \<and> status_of (cy_ctl s') cp = Some Delivered
    \<and> (\<forall>b\<in>set (branches_of cp (cy_ctl s)). if tr_outcome (it_trigger b) = Some result
        then \<exists>a. status_of (cy_ctl s') (it_id b) = Some a \<and> a \<noteq> PendingItem
        else status_of (cy_ctl s') (it_id b) = Some Skipped)"
proof -
  obtain item r where r: "map_of (ctl_items (cy_ctl s)) cp = Some r" "ctl_state (cy_ctl s) \<in> {Running, Paused}"
    and a: "after_settled dp item cp passed evidence reason checks
        (s\<lparr>cy_ctl := settled cp result (cy_ctl s)\<rparr>) = (Inr (), s')"
    using resolve_checkpoint_cases [OF assms(2)] unfolding result_def by blast
  let ?s0 = "s\<lparr>cy_ctl := settled cp result (cy_ctl s)\<rparr>"
  obtain s1 where v: "ctl_view (cy_ctl s1) = ctl_view (cy_ctl ?s0)"
    and rb: "run_branches dp cp result (branches_of cp (cy_ctl s1)) s1 = (Inr (), s')"
    using a unfolding after_settled_def Let_def result_def [symmetric]
    by (auto simp: bindE_run get_ctl_run elim!: thenE_InrE dest!: ctl_emit_view)
  have c1: "ctl_definition (cy_ctl s1) = ctl_definition (cy_ctl s)" "ctl_state (cy_ctl s1) = ctl_state (cy_ctl s)"
    "map_of (ctl_results (cy_ctl s1)) cp = Some result" "status_of (cy_ctl s1) cp = Some Delivered"
    using ctl_view_eq [OF v] r(1) by (simp_all add: settled_def set_runtime_def status_of_def)
  have st: "ctl_state (cy_ctl s1) \<noteq> Stopped" using c1(2) r(2) by auto
  have p: "progress (cy_ctl s1) (cy_ctl s')"
    using advancingD [OF advancing_branches [OF assms(1)] rb st] by blast
  have "branches_of cp (cy_ctl s1) = branches_of cp (cy_ctl s)" by (simp add: branches_of_def c1(1))
  then show ?thesis
    using run_branches_Inr [OF assms(1) rb st] progress_closed [OF p c1(4)]
      keeps_run [OF keeps_results_branches [OF assms(1)] rb] c1(3)
    by (simp add: open_status_def)
qed

section \<open>Time\<close>

lemma advance_clock_view:
  assumes "handlers_frame dp" and "advance_clock dp t s = (q, s')"
  shows "cy_ctl s' = (cy_ctl s)\<lparr>ctl_elapsed := t\<rparr>"
proof -
  have "keeps cy_ctl (forE (\<lambda>f. f t) fs)" if "set fs \<subseteq> set (dp_observers dp)" for fs
    using that assms(1) by (induction fs) (auto intro!: keeps_intros simp: handlers_frame_def)
  then have "keeps cy_ctl (forE (\<lambda>f. f t) (dp_observers dp))" by simp
  from keepsD [OF this, of "s\<lparr>cy_ctl := (cy_ctl s)\<lparr>ctl_elapsed := t\<rparr>\<rparr>"] show ?thesis
    using assms(2) by (simp add: advance_clock_def thenE_run upd_ctl_run)
qed

text \<open>One due item: it leaves \<open>pending\<close>; if it is delivered now, at its own time. Others are not touched.\<close>

lemma deliver_at_effect:
  assumes "handlers_frame dp" and "deliver_at dp item s = (q, s')"
  shows "(\<forall>i. i \<noteq> it_id item \<longrightarrow> map_of (ctl_items (cy_ctl s')) i = map_of (ctl_items (cy_ctl s)) i)
    \<and> ctl_definition (cy_ctl s') = ctl_definition (cy_ctl s)
    \<and> ctl_results (cy_ctl s') = ctl_results (cy_ctl s) \<and> ctl_run_id (cy_ctl s') = ctl_run_id (cy_ctl s)
    \<and> (q = Inr () \<longrightarrow> status_of (cy_ctl s) (it_id item) = Some PendingItem \<longrightarrow>
        (\<exists>r. map_of (ctl_items (cy_ctl s')) (it_id item) = Some r \<and> rt_status r \<noteq> PendingItem
          \<and> (rt_status r = Delivered \<longrightarrow> rt_delivered_at r = Some (item_seconds item))))"
proof -
  obtain p s1 where c: "advance_clock dp (item_seconds item) s = (p, s1)" by (metis prod.exhaust)
  have c1: "cy_ctl s1 = (cy_ctl s)\<lparr>ctl_elapsed := item_seconds item\<rparr>"
    by (rule advance_clock_view [OF assms(1) c])
  show ?thesis
  proof (cases p)
    case (Inl e)
    then show ?thesis using assms(2) c c1 by (auto simp: deliver_at_def thenE_run)
  next
    case (Inr u)
    then have d: "make_due dp item s1 = (q, s')" using assms(2) c by (simp add: deliver_at_def thenE_run)
    from make_due_cases [OF assms(1) d] show ?thesis
      using c1 by (auto simp: moved_def status_of_def)
  qed
qed

lemma deliver_all_effect:
  assumes "handlers_frame dp" and "forE (deliver_at dp) due s = (q, s')" and "distinct (map it_id due)"
    and "\<forall>i\<in>set due. status_of (cy_ctl s) (it_id i) = Some PendingItem"
  shows "(\<forall>i. i \<notin> it_id ` set due \<longrightarrow> map_of (ctl_items (cy_ctl s')) i = map_of (ctl_items (cy_ctl s)) i)
    \<and> ctl_definition (cy_ctl s') = ctl_definition (cy_ctl s)
    \<and> (q = Inr () \<longrightarrow> (\<forall>i\<in>set due. \<exists>r. map_of (ctl_items (cy_ctl s')) (it_id i) = Some r
          \<and> rt_status r \<noteq> PendingItem
          \<and> (rt_status r = Delivered \<longrightarrow> rt_delivered_at r = Some (item_seconds i))))"
  using assms(2-4)
proof (induction due arbitrary: s)
  case Nil
  then show ?case by simp
next
  case (Cons x due)
  obtain p s1 where x: "deliver_at dp x s = (p, s1)" by (metis prod.exhaust)
  note X = deliver_at_effect [OF assms(1) x]
  show ?case
  proof (cases p)
    case (Inl e)
    then show ?thesis using Cons.prems(1) x X by (auto simp: thenE_run)
  next
    case (Inr u)
    have rest: "forE (deliver_at dp) due s1 = (q, s')" using Cons.prems(1) x Inr by (simp add: thenE_run)
    have pend: "\<forall>i\<in>set due. status_of (cy_ctl s1) (it_id i) = Some PendingItem"
      using Cons.prems(2,3) X by (auto simp: status_of_def image_iff)
    note I = Cons.IH [OF rest _ pend]
    have xkeep: "map_of (ctl_items (cy_ctl s')) (it_id x) = map_of (ctl_items (cy_ctl s1)) (it_id x)"
      using I Cons.prems(2) by simp
    show ?thesis
      using I X Cons.prems(2,3) xkeep Inr by auto
  qed
qed

lemma due_by_iff: "i \<in> set (due_by t c) \<longleftrightarrow> i \<in> set (sd_items (ctl_definition c))
    \<and> tr_type (it_trigger i) = ''elapsed'' \<and> tr_seconds (it_trigger i) \<noteq> None \<and> item_seconds i \<le> t
    \<and> status_of c (it_id i) = Some PendingItem"
  by (auto simp: due_by_def status_of_def)

lemma distinct_due:
  assumes "distinct (map it_id (sd_items (ctl_definition c)))"
  shows "distinct (map it_id (due_by t c))"
proof -
  have "distinct (map it_id (filter P (sd_items (ctl_definition c))))" for P
    using assms by (rule distinct_map_filter)
  then show ?thesis
    unfolding due_by_def distinct_map by (auto simp: distinct_map)
qed

text \<open>What a successful \<open>advance_to\<close> guarantees.\<close>

lemma advance_to_Inr:
  assumes "handlers_frame dp" and "distinct (map it_id (sd_items (ctl_definition (cy_ctl s))))"
    and "advance_to dp t s = (Inr (), s')"
  shows "ctl_elapsed (cy_ctl s') = t \<and> ctl_elapsed (cy_ctl s) \<le> t
    \<and> (\<forall>i\<in>set (due_by t (cy_ctl s)). \<exists>r. map_of (ctl_items (cy_ctl s')) (it_id i) = Some r
        \<and> rt_status r \<noteq> PendingItem
        \<and> (rt_status r = Delivered \<longrightarrow> rt_delivered_at r = Some (item_seconds i)))
    \<and> (\<forall>i. i \<notin> it_id ` set (due_by t (cy_ctl s)) \<longrightarrow>
        map_of (ctl_items (cy_ctl s')) i = map_of (ctl_items (cy_ctl s)) i)"
proof -
  let ?due = "due_by t (cy_ctl s)"
  obtain s1 u where d: "forE (deliver_at dp) ?due s = (Inr (), s1)"
    and c: "advance_clock dp t s1 = (Inr u, s')" and le: "ctl_elapsed (cy_ctl s) \<le> t"
    using assms(3) unfolding advance_to_def
    by (auto simp: require_state_run bindE_run get_ctl_run requireE_run elim!: thenE_InrE split: if_splits)
  have pend: "\<forall>i\<in>set ?due. status_of (cy_ctl s) (it_id i) = Some PendingItem"
    by (simp add: due_by_iff)
  note D = deliver_all_effect [OF assms(1) d distinct_due [OF assms(2)] pend]
  have "cy_ctl s' = (cy_ctl s1)\<lparr>ctl_elapsed := t\<rparr>" by (rule advance_clock_view [OF assms(1) c])
  then show ?thesis using D le by simp
qed

end
