(* ===== verification/ControllerLive.thy ===== *)
theory ControllerLive
  imports ControllerTime AdapterTrails
begin

text \<open>
  When the sink, the validator and the clock do not object and the observers return (\<open>quiet_deps\<close>), the
  operations of the controller return: no due item can block the clock, whatever the handlers raise.
\<close>

definition ctl_ready :: "'x csys \<Rightarrow> bool" where
  "ctl_ready s \<longleftrightarrow> (bl_shared (ctl_builder (cy_ctl s)) \<longrightarrow>
     bl_sequence (ctl_builder (cy_ctl s)) \<le> w_sequence (cy_world s))"

definition items_known :: "controller \<Rightarrow> bool" where
  "items_known c \<longleftrightarrow> (\<forall>i\<in>set (sd_items (ctl_definition c)). map_of (ctl_items c) (it_id i) \<noteq> None)"

definition healthy :: "scenario_definition \<Rightarrow> 'x csys \<Rightarrow> bool" where
  "healthy sd s \<longleftrightarrow> ctl_ready s \<and> ctl_definition (cy_ctl s) = sd \<and> items_known (cy_ctl s)"

definition quiet_deps :: "'x deps \<Rightarrow> bool" where
  "quiet_deps dp \<longleftrightarrow> quiet_env (dp_env dp) \<and> handlers_frame dp
     \<and> (\<forall>h\<in>snd ` set (dp_handlers dp). \<forall>i r s. ctl_ready s \<longrightarrow> ctl_ready (snd (h i r s)))
     \<and> (\<forall>f\<in>set (dp_observers dp). \<forall>t s. ctl_ready s \<longrightarrow> fst (f t s) = Inr () \<and> ctl_ready (snd (f t s)))"

definition returns :: "scenario_definition \<Rightarrow> ('x csys, 'a) prog \<Rightarrow> bool" where
  "returns sd m \<longleftrightarrow> (\<forall>s. healthy sd s \<longrightarrow> (\<exists>x s'. m s = (Inr x, s') \<and> healthy sd s'))"

lemma returnsD: "returns sd m \<Longrightarrow> healthy sd s \<Longrightarrow> \<exists>x s'. m s = (Inr x, s') \<and> healthy sd s'"
  by (simp add: returns_def)

lemma returns_unit:
  fixes m :: "('x csys, unit) prog"
  shows "returns sd m \<Longrightarrow> healthy sd s \<Longrightarrow> \<exists>s'. m s = (Inr (), s') \<and> healthy sd s'"
  by (simp add: returns_def)

lemma returns_bindE: "returns sd m \<Longrightarrow> (\<And>x. returns sd (f x)) \<Longrightarrow> returns sd (bindE m f)"
  unfolding returns_def bindE_run by fastforce

lemma returns_thenE: "returns sd m \<Longrightarrow> returns sd n \<Longrightarrow> returns sd (thenE m n)"
  unfolding thenE_def by (rule returns_bindE)

lemma returns_ret: "returns sd (ret x)" "returns sd (get_ctl f)" "returns sd (Pair (Inr x))"
  by (simp_all add: returns_def get_ctl_run)

lemma returns_forE: "(\<And>x. x \<in> set xs \<Longrightarrow> returns sd (f x)) \<Longrightarrow> returns sd (forE f xs)"
  by (induction xs) (auto intro!: returns_ret returns_thenE)

lemma returns_upd:
  assumes "\<And>c. ctl_builder (f c) = ctl_builder c" and "\<And>c. ctl_definition (f c) = ctl_definition c"
    and "\<And>c. dom (map_of (ctl_items (f c))) = dom (map_of (ctl_items c))"
  shows "returns sd (upd_ctl f)"
proof -
  have "(\<exists>y. map_of (ctl_items (f c)) i = Some y) \<longleftrightarrow> (\<exists>y. map_of (ctl_items c) i = Some y)" for c i
    using arg_cong [OF assms(3) [of c], of "\<lambda>d. i \<in> d"] by (simp only: domIff not_None_eq)
  then show ?thesis
    by (simp add: returns_def upd_ctl_run healthy_def ctl_ready_def items_known_def assms(1,2))
qed

lemma dom_set_runtime: "dom (map_of (ctl_items (set_runtime i f c))) = dom (map_of (ctl_items c))"
  by (auto simp: set_runtime_def split: option.splits)

lemma builder_set_runtime:
  "ctl_builder (set_runtime i f c) = ctl_builder c" "ctl_definition (set_runtime i f c) = ctl_definition c"
  by (simp_all add: set_runtime_def split: option.splits)

lemma returns_set_runtime:
  "returns sd (upd_ctl (set_runtime i f))" "returns sd (upd_ctl (\<lambda>c. set_runtime i (g c) c))"
  by (rule returns_upd; simp only: builder_set_runtime dom_set_runtime)+

lemma ctl_emit_quiet:
  assumes "quiet_env (dp_env dp)" and "ctl_ready s"
  shows "\<exists>s'. ctl_emit dp ty a m st item role data s = (Inr (), s') \<and> ctl_ready s'"
proof -
  let ?args = "control_event (cy_ctl s) ty a m st item role data"
  let ?w = "cy_world s" and ?b = "ctl_builder (cy_ctl s)"
  have "ea_attack_technique_id ?args = None" "ea_attack_tactic ?args = None" "ea_timestamp ?args = None"
    by (simp_all add: control_event_def event_args_def)
  then obtain ev w' b' where b: "build (dp_env dp) ?args (?w, ?b) = (Inr ev, (w', b'))"
    using build_quiet [OF assms(1), of ?b ?w ?args] assms(2) by (auto simp: ctl_ready_def)
  have none: "e_sink (dp_env dp) (w_log w') ev = None" using assms(1) by (simp add: quiet_env_def)
  show ?thesis
    using b none build_Inr [OF b] assms(2)
    by (simp add: ctl_emit_def build_and_sink_def prog_simps get_ctl_run ctl_ready_def)
qed

lemma returns_emit:
  assumes "quiet_env (dp_env dp)"
  shows "returns sd (ctl_emit dp ty a m st item role data)"
  unfolding returns_def
proof (intro allI impI)
  fix s :: "'a csys"
  assume h: "healthy sd s"
  obtain s' where e: "ctl_emit dp ty a m st item role data s = (Inr (), s')" "ctl_ready s'"
    using ctl_emit_quiet [OF assms] h unfolding healthy_def by blast
  have "healthy sd s'"
    using h e(2) ctl_view_eq [OF ctl_emit_view [OF e(1)]] by (simp add: healthy_def items_known_def)
  then show "\<exists>x s'. ctl_emit dp ty a m st item role data s = (Inr x, s') \<and> healthy sd s'" using e by blast
qed

lemma quiet_depsD: "quiet_deps dp \<Longrightarrow> quiet_env (dp_env dp)" "quiet_deps dp \<Longrightarrow> handlers_frame dp"
  by (simp_all add: quiet_deps_def)

lemma healthy_frame: "healthy sd s \<Longrightarrow> cy_ctl s' = cy_ctl s \<Longrightarrow> ctl_ready s' \<Longrightarrow> healthy sd s'"
  by (simp add: healthy_def)

lemma returns_observers:
  assumes "quiet_deps dp"
  shows "returns sd (forE (\<lambda>f. f t) (dp_observers dp))"
proof (rule returns_forE)
  fix f
  assume f: "f \<in> set (dp_observers dp)"
  show "returns sd (f t)"
    unfolding returns_def
  proof (intro allI impI)
    fix s :: "'a csys"
    assume h: "healthy sd s"
    then have "fst (f t s) = Inr ()" "ctl_ready (snd (f t s))"
      using assms f by (auto simp: quiet_deps_def healthy_def)
    moreover have "cy_ctl (snd (f t s)) = cy_ctl s"
      using assms f by (simp add: quiet_deps_def handlers_frame_def keeps_def)
    ultimately show "\<exists>x s'. f t s = (Inr x, s') \<and> healthy sd s'"
      using healthy_frame [OF h] by (metis prod.collapse)
  qed
qed

lemma returns_clock: "quiet_deps dp \<Longrightarrow> returns sd (advance_clock dp t)"
  unfolding advance_clock_def by (intro returns_thenE returns_upd returns_observers) simp_all

lemma returns_runtime: "i \<in> set (sd_items sd) \<Longrightarrow> returns sd (runtime (it_id i))"
  by (auto simp: returns_def runtime_run ditem_def healthy_def items_known_def)

lemma returns_fail:
  assumes "quiet_deps dp"
  shows "returns sd (fail_item dp item reason data)"
  unfolding fail_item_def
  by (intro returns_thenE returns_emit quiet_depsD [OF assms] returns_set_runtime)

lemma returns_complete:
  assumes "quiet_deps dp"
  shows "returns sd (complete_item dp item role message data)"
  unfolding complete_item_def
  by (auto intro!: returns_thenE returns_emit quiet_depsD [OF assms] returns_set_runtime returns_ret
      intro: returns_upd)

lemma returns_handler:
  assumes "quiet_deps dp" and "map_of (dp_handlers dp) a = Some h"
  shows "returns sd (attemptE (h item r))"
  unfolding returns_def
proof (intro allI impI)
  fix s :: "'a csys"
  assume s: "healthy sd s"
  have h: "h \<in> snd ` set (dp_handlers dp)" using assms(2) map_of_SomeD by force
  have "cy_ctl (snd (h item r s)) = cy_ctl s" "ctl_ready (snd (h item r s))"
    using assms(1) h s by (auto simp: quiet_deps_def handlers_frame_def keeps_def healthy_def)
  then have "healthy sd (snd (h item r s))" using healthy_frame [OF s] by blast
  then show "\<exists>x s'. attemptE (h item r) s = (Inr x, s') \<and> healthy sd s'"
    by (cases "h item r s") (auto simp: attemptE_def)
qed

lemma returns_deliver_item:
  assumes "quiet_deps dp" and "item \<in> set (sd_items sd)"
  shows "returns sd (deliver_item dp item role)"
  unfolding deliver_item_def
  by (auto intro!: returns_thenE returns_runtime assms returns_complete returns_fail returns_bindE
      returns_ret returns_handler split: option.splits sum.splits)

lemma returns_make_due:
  assumes "quiet_deps dp" and "item \<in> set (sd_items sd)"
  shows "returns sd (make_due dp item)"
  unfolding make_due_def ready_item_def
  by (auto intro!: returns_bindE returns_thenE returns_runtime assms returns_ret returns_deliver_item
      returns_emit quiet_depsD [OF assms(1)] returns_set_runtime)

lemma returns_deliver_at:
  "quiet_deps dp \<Longrightarrow> item \<in> set (sd_items sd) \<Longrightarrow> returns sd (deliver_at dp item)"
  unfolding deliver_at_def by (intro returns_thenE returns_clock returns_make_due)

text \<open>\<open>advance_to\<close> returns from every running state, for every time not before now.\<close>

lemma advance_to_returns:
  assumes "quiet_deps dp" and "healthy sd s" and "ctl_state (cy_ctl s) = Running"
    and "ctl_elapsed (cy_ctl s) \<le> t"
  shows "\<exists>s'. advance_to dp t s = (Inr (), s') \<and> healthy sd s'"
proof -
  let ?m = "thenE (forE (deliver_at dp) (due_by t (cy_ctl s))) (advance_clock dp t)"
  have "due \<in> set (due_by t (cy_ctl s)) \<Longrightarrow> due \<in> set (sd_items sd)" for due
    using assms(2) by (simp add: due_by_iff healthy_def)
  then have "returns sd ?m"
    using assms(1) by (intro returns_thenE returns_forE returns_deliver_at returns_clock) auto
  then show ?thesis
    using returnsD [OF _ assms(2)] assms(3,4)
    by (fastforce simp: advance_to_def thenE_run [of "require_state _"] thenE_run [of "requireE _ _"] bindE_run
        require_state_run get_ctl_run requireE_run)
qed

lemma new_controller_known: "items_known (new_controller sd run_id version shared)"
proof -
  have "map_of (fold (\<lambda>i d. dset (it_id i) new_runtime d) xs d) j \<noteq> None"
    if "j \<in> it_id ` set xs \<or> map_of d j \<noteq> None" for xs j and d :: "item_runtime dict"
    using that by (induction xs arbitrary: d) auto
  from this [of _ "sd_items sd" "[]"] show ?thesis
    by (simp add: items_known_def new_controller_def fresh_items_def)
qed

section \<open>Checkpoints\<close>

lemma keeps_state_due:
  assumes "handlers_frame dp" and "it_kind item \<noteq> ''end''"
  shows "keeps (\<lambda>s. ctl_state (cy_ctl s)) (make_due dp item)"
proof -
  have emit: "keeps (\<lambda>s. ctl_state (cy_ctl s)) (ctl_emit dp ty a m st item role data)"
    for ty a m st item role data
    unfolding keeps_def using keepsD [OF keeps_view_emit] ctl_view_eq by metis
  have set: "keeps (\<lambda>s. ctl_state (cy_ctl s)) (upd_ctl (set_runtime i f))"
    "keeps (\<lambda>s. ctl_state (cy_ctl s)) (upd_ctl (\<lambda>c. set_runtime i (g c) c))" for i f g
    by (simp_all add: keeps_def upd_ctl_run set_runtime_def split: option.splits)
  have handler: "keeps (\<lambda>s. ctl_state (cy_ctl s)) (attemptE (h item r))"
    if "map_of (dp_handlers dp) a = Some h" for a h r
  proof -
    have "h \<in> snd ` set (dp_handlers dp)" using that map_of_SomeD by force
    then have "keeps cy_ctl (h item r)" using assms(1) by (auto simp: handlers_frame_def)
    then show ?thesis by (auto simp: keeps_def attemptE_def split: prod.splits) (metis snd_conv)+
  qed
  have run: "keeps (\<lambda>s. ctl_state (cy_ctl s)) (runtime i)" for i
    by (simp add: keeps_def runtime_run)
  have "keeps (\<lambda>s. ctl_state (cy_ctl s)) (deliver_item dp item role)" for role
    unfolding deliver_item_def complete_item_def fail_item_def get_ctl_def
    by (auto intro!: keeps_intros emit set handler run split: option.splits sum.splits simp: assms(2))
  then show ?thesis
    unfolding make_due_def ready_item_def by (auto intro!: keeps_intros emit set run)
qed

lemma keeps_state_all:
  assumes "handlers_frame dp" and "list_all (\<lambda>i. it_kind i \<noteq> ''end'') due"
  shows "keeps (\<lambda>s. ctl_state (cy_ctl s)) (thenE (forE (deliver_at dp) due) (advance_clock dp t))"
proof -
  have clock: "keeps (\<lambda>s. ctl_state (cy_ctl s)) (advance_clock dp u)" for u
    unfolding keeps_def
  proof
    fix s :: "'a csys"
    obtain q s' where run: "advance_clock dp u s = (q, s')" by (metis prod.exhaust)
    then show "ctl_state (cy_ctl (snd (advance_clock dp u s))) = ctl_state (cy_ctl s)"
      using advance_clock_view [OF assms(1) run] by simp
  qed
  have "keeps (\<lambda>s. ctl_state (cy_ctl s)) (forE (deliver_at dp) due)"
    using assms(2)
    by (induction due) (auto intro!: keeps_intros clock keeps_state_due assms(1) simp: deliver_at_def)
  then show ?thesis by (intro keeps_thenE clock)
qed

text \<open>A run goes on as long as no due item ends it.\<close>

lemma advance_keeps_running:
  assumes "handlers_frame dp" and "list_all (\<lambda>i. it_kind i \<noteq> ''end'') (due_by t (cy_ctl s))"
    and "advance_to dp t s = (q, s')"
  shows "ctl_state (cy_ctl s') = ctl_state (cy_ctl s)"
  using assms(3) keeps_run [OF keeps_state_all [OF assms(1,2)], of t s q s']
  by (auto simp: advance_to_def thenE_run [of "require_state _"] thenE_run [of "requireE _ _"] bindE_run
      require_state_run get_ctl_run requireE_run split: if_splits)

lemma skip_returns:
  fixes s :: "'x csys"
  assumes "quiet_env (dp_env dp)" and "healthy sd s" and "ctl_state (cy_ctl s) \<in> {Ready, Running, Paused}"
    and "i \<in> set (sd_items sd)" and "status_of (cy_ctl s) (it_id i) = Some a" and "open_status a"
    and "strip reason \<noteq> []"
  shows "\<exists>s' r. skip dp (it_id i) reason s = (Inr (), s') \<and> healthy sd s'
    \<and> ctl_items (cy_ctl s') = dset (it_id i) r (ctl_items (cy_ctl s))
    \<and> ctl_state (cy_ctl s') = ctl_state (cy_ctl s)"
proof -
  obtain item where item: "List.find (\<lambda>x. it_id x = it_id i) (sd_items (ctl_definition (cy_ctl s))) = Some item"
    using assms(2,4) by (cases "List.find (\<lambda>x. it_id x = it_id i) (sd_items (ctl_definition (cy_ctl s)))")
      (auto simp: find_None_iff healthy_def)
  obtain r where r: "map_of (ctl_items (cy_ctl s)) (it_id i) = Some r" "rt_status r = a"
    using assms(5) by (auto simp: status_of_def)
  let ?f = "\<lambda>r. r\<lparr>rt_status := Skipped, rt_error := Some (strip reason)\<rparr>"
  let ?s = "s\<lparr>cy_ctl := set_runtime (it_id i) ?f (cy_ctl s)\<rparr>"
  let ?emit = "ctl_emit dp ''scenario.item.skipped'' ''scenario.skip''
      (it_id i @ '' skipped: '' @ strip reason) ''skipped'' (Some item) ''facilitator''
      [(''item_kind'', VStr (it_kind item)), (''reason'', VStr (strip reason))]"
  have "healthy sd ?s"
    using returnsD [OF returns_set_runtime(1) assms(2), of "it_id i" ?f] by (simp add: upd_ctl_run)
  from returns_unit [OF returns_emit [OF assms(1)] this]
  obtain s' where e: "?emit ?s = (Inr (), s')" "healthy sd s'" by blast
  have "skip dp (it_id i) reason s = (Inr (), s')"
    using assms(3,6,7) r e(1) item
    by (auto simp: skip_def thenE_run bindE_run require_state_run requireE_run find_item_run runtime_run
        ditem_def require_open_def upd_ctl_run)
  then show ?thesis
    using e(2) ctl_view_eq [OF ctl_emit_view [OF e(1)]] r(1)
    by (auto simp: set_runtime_def)
qed

lemma strip_ne_Nil: "\<not> is_space c \<Longrightarrow> strip (c # s) \<noteq> []"
  by (auto simp: strip_def dropWhile_eq_Nil_conv)

text \<open>The branches all run, when none of them has been settled by hand and none ends the scenario.\<close>

definition branches_open :: "scenario_item list \<Rightarrow> controller \<Rightarrow> bool" where
  "branches_open bs c \<longleftrightarrow> distinct (map it_id bs)
     \<and> (\<forall>b\<in>set bs. it_kind b \<noteq> ''end'' \<and> (\<exists>a. status_of c (it_id b) = Some a \<and> open_status a))"

lemma run_branches_returns:
  fixes s :: "'x csys"
  assumes "quiet_deps dp" and "healthy sd s" and "ctl_state (cy_ctl s) \<in> {Running, Paused}"
    and "set bs \<subseteq> set (sd_items sd)" and "branches_open bs (cy_ctl s)"
  shows "\<exists>s'. run_branches dp cp result bs s = (Inr (), s') \<and> healthy sd s'"
  using assms(2-5)
proof (induction bs arbitrary: s)
  case Nil
  then show ?case by simp
next
  case (Cons b bs)
  let ?step = "if tr_outcome (it_trigger b) = Some result then make_due dp b
     else skip dp (it_id b) (''opposite '' @ cp @ '' branch selected'')"
  note frame = quiet_depsD(2) [OF assms(1)]
  have b: "b \<in> set (sd_items sd)" using Cons.prems(3) by simp
  obtain a where a: "status_of (cy_ctl s) (it_id b) = Some a" "open_status a" and k: "it_kind b \<noteq> ''end''"
    using Cons.prems(4) by (auto simp: branches_open_def)
  obtain s1 where s1: "?step s = (Inr (), s1)" "healthy sd s1"
    "ctl_state (cy_ctl s1) = ctl_state (cy_ctl s)"
    "\<forall>i. i \<noteq> it_id b \<longrightarrow> map_of (ctl_items (cy_ctl s1)) i = map_of (ctl_items (cy_ctl s)) i"
  proof (cases "tr_outcome (it_trigger b) = Some result")
    case True
    obtain s1 where d: "make_due dp b s = (Inr (), s1)" "healthy sd s1"
      using returns_unit [OF returns_make_due [OF assms(1) b] Cons.prems(1)] by blast
    have "\<forall>i. i \<noteq> it_id b \<longrightarrow> map_of (ctl_items (cy_ctl s1)) i = map_of (ctl_items (cy_ctl s)) i"
      using make_due_cases [OF frame d(1)] by (auto simp: moved_def)
    then show ?thesis
      using that [of s1] True d keeps_run [OF keeps_state_due [OF frame k] d(1)] by simp
  next
    case False
    have ne: "strip (''opposite '' @ cp @ '' branch selected'') \<noteq> []"
      by (simp add: strip_ne_Nil is_space_def)
    have st: "ctl_state (cy_ctl s) \<in> {Ready, Running, Paused}" using Cons.prems(2) by auto
    from skip_returns [OF quiet_depsD(1) [OF assms(1)] Cons.prems(1) st b a ne]
    show ?thesis using that False by auto
  qed
  have "branches_open bs (cy_ctl s1)"
    using Cons.prems(4) s1(4) by (auto simp: branches_open_def status_of_def image_iff)
  from Cons.IH [OF s1(2) _ _ this] show ?case
    using s1(1,3) Cons.prems(2,3) by (auto simp: bindE_run get_ctl_run thenE_run)
qed

text \<open>What the checks of \<open>resolve_checkpoint\<close> ask, and that its branches are free to run.\<close>

definition resolvable :: "string \<Rightarrow> string \<Rightarrow> row option \<Rightarrow> controller \<Rightarrow> bool" where
  "resolvable cp reason checks c \<longleftrightarrow> ctl_state c \<in> {Running, Paused}
     \<and> (\<exists>i\<in>set (sd_items (ctl_definition c)). it_id i = cp \<and> it_kind i = ''checkpoint'')
     \<and> (\<exists>a. status_of c cp = Some a \<and> open_status a) \<and> strip reason \<noteq> []
     \<and> (case checks of None \<Rightarrow> True | Some cs \<Rightarrow> list_all (is_bool \<circ> snd) cs)
     \<and> cp \<notin> it_id ` set (branches_of cp c) \<and> branches_open (branches_of cp c) c"

lemma find_distinct:
  "distinct (map f xs) \<Longrightarrow> x \<in> set xs \<Longrightarrow> List.find (\<lambda>y. f y = f x) xs = Some x"
  by (induction xs) auto

lemma resolve_checkpoint_returns:
  fixes s :: "'x csys"
  assumes "quiet_deps dp" and "healthy sd s" and "distinct (map it_id (sd_items sd))"
    and "resolvable cp reason checks (cy_ctl s)"
  shows "\<exists>s'. resolve_checkpoint dp cp passed evidence reason checks s = (Inr (), s') \<and> healthy sd s'"
proof -
  let ?res = "if passed then ''pass'' else ''miss''"
  let ?s0 = "s\<lparr>cy_ctl := settled cp ?res (cy_ctl s)\<rparr>"
  let ?bs = "branches_of cp (cy_ctl s)"
  have sd: "ctl_definition (cy_ctl s) = sd" using assms(2) by (simp add: healthy_def)
  obtain i a where i: "i \<in> set (sd_items sd)" "it_id i = cp" "it_kind i = ''checkpoint''"
    and a: "status_of (cy_ctl s) cp = Some a" "open_status a" and st: "ctl_state (cy_ctl s) \<in> {Running, Paused}"
    and ne: "strip reason \<noteq> []"
    and chk: "case checks of None \<Rightarrow> True | Some cs \<Rightarrow> list_all (is_bool \<circ> snd) cs"
    and bs: "cp \<notin> it_id ` set ?bs" "branches_open ?bs (cy_ctl s)"
    using assms(4) unfolding resolvable_def sd by blast
  obtain r where r: "map_of (ctl_items (cy_ctl s)) cp = Some r" "rt_status r = a"
    using a(1) by (auto simp: status_of_def)
  have find: "List.find (\<lambda>x. it_id x = cp) (sd_items (ctl_definition (cy_ctl s))) = Some i"
    using find_distinct [OF assms(3) i(1)] i(2) sd by simp
  have run: "resolve_checkpoint dp cp passed evidence reason checks s
      = after_settled dp i cp passed evidence reason checks ?s0"
    using st ne chk r a(2) find i(3)
    unfolding resolve_checkpoint_def after_settled_def settled_def Let_def
    by (auto simp: thenE_run bindE_run require_state_run runtime_run get_ctl_run upd_ctl_run
        requireE_run find_item_run ditem_def require_open_def)
  have h0: "healthy sd ?s0"
    using assms(2) by (auto simp: healthy_def ctl_ready_def items_known_def settled_def set_runtime_def
        split: option.splits)
  let ?emit = "ctl_emit dp ''scenario.checkpoint.resolved'' ''scenario.checkpoint.evaluate''
        (cp @ '' result: '' @ ?res @ '' '' @ em_dash @ '' '' @ strip reason)
        (if passed then ''success'' else ''failure'') (Some i) ''facilitator''
        ([(''result'', VStr ?res), (''reason'', VStr (strip reason)),
          (''evidence_ids'', str_list (dedup evidence))]
         @ (case checks of None \<Rightarrow> [] | Some cs \<Rightarrow> [(''verifier_checks'', VDict cs)]))"
  obtain s1 where e: "?emit ?s0 = (Inr (), s1)" "healthy sd s1"
    using returns_unit [OF returns_emit [OF quiet_depsD(1) [OF assms(1)]] h0] by blast
  note v = ctl_view_eq [OF ctl_emit_view [OF e(1)]]
  have same: "branches_of cp (cy_ctl s1) = ?bs"
    using v by (simp add: branches_of_def settled_def set_runtime_def split: option.splits)
  have b1: "branches_open ?bs (cy_ctl s1)"
    using bs v r(1) by (auto simp: branches_open_def status_of_def settled_def set_runtime_def image_iff)
  have st1: "ctl_state (cy_ctl s1) \<in> {Running, Paused}"
    using v st r(1) by (simp add: settled_def set_runtime_def)
  have sub: "set ?bs \<subseteq> set (sd_items sd)" using sd by (auto simp: branches_of_set)
  obtain s' where "run_branches dp cp ?res ?bs s1 = (Inr (), s')" "healthy sd s'"
    using run_branches_returns [OF assms(1) e(2) st1 sub b1] by blast
  then show ?thesis
    using e(1) same unfolding run by (simp add: after_settled_def Let_def thenE_run bindE_run get_ctl_run)
qed

end
