(* ===== verification/ControllerProps.thy ===== *)
theory ControllerProps
  imports ControllerLive Samples
begin

text \<open>
  The properties of the scenario controller, with a small scenario (one inject, one checkpoint with its two
  branches) at which they are instantiated.
\<close>

section \<open>One jump or many\<close>

text \<open>A stable sort splits at a threshold of the leading part of the key.\<close>

lemma sort_key_split:
  fixes f :: "'a \<Rightarrow> int \<times> int"
  shows "sort_key f xs = sort_key f (filter (\<lambda>x. fst (f x) \<le> t) xs)
    @ sort_key f (filter (\<lambda>x. \<not> fst (f x) \<le> t) xs)" (is "_ = sort_key f ?a @ sort_key f ?b")
proof (rule properties_for_sort_key)
  show "mset (sort_key f ?a @ sort_key f ?b) = mset xs"
    by (simp add: multiset_partition [symmetric] mset_filter [symmetric] del: mset_filter)
      (simp add: mset_filter multiset_partition [symmetric])
next
  fix k
  have stable: "filter (\<lambda>x. f k = f x) (sort_key f ys) = filter (\<lambda>x. f k = f x) ys" for ys
    using sort_key_stable [of f "f k" ys] by (simp add: eq_commute)
  assume "k \<in> set (sort_key f ?a @ sort_key f ?b)"
  show "filter (\<lambda>x. f k = f x) (sort_key f ?a @ sort_key f ?b) = filter (\<lambda>x. f k = f x) xs"
  proof (cases "fst (f k) \<le> t")
    case True
    then have "filter (\<lambda>x. f k = f x) ?a = filter (\<lambda>x. f k = f x) xs"
      and "filter (\<lambda>x. f k = f x) ?b = []"
      by (auto simp: filter_empty_conv intro!: filter_cong)
    then show ?thesis by (simp only: filter_append stable) simp
  next
    case False
    then have "filter (\<lambda>x. f k = f x) ?b = filter (\<lambda>x. f k = f x) xs"
      and "filter (\<lambda>x. f k = f x) ?a = []"
      by (auto simp: filter_empty_conv intro!: filter_cong)
    then show ?thesis by (simp only: filter_append stable) simp
  qed
next
  show "sorted (map f (sort_key f ?a @ sort_key f ?b))"
    by (auto simp: sorted_append less_eq_prod_def)
qed

text \<open>Setting the clock is undone by setting it again.\<close>

lemma clock_absorbed:
  assumes "dp_observers dp = []"
  shows "forE (deliver_at dp) due (s\<lparr>cy_ctl := (cy_ctl s)\<lparr>ctl_elapsed := u\<rparr>\<rparr>) = forE (deliver_at dp) due s
      \<or> due = []"
  by (cases due) (simp_all add: thenE_run deliver_at_def advance_clock_def assms upd_ctl_run)

lemma due_by_split:
  assumes "distinct (map it_id (sd_items (ctl_definition c)))" and "t1 \<le> t2"
    and "ctl_definition c' = ctl_definition c"
    and "\<forall>i\<in>set (due_by t1 c). status_of c' (it_id i) \<noteq> Some PendingItem"
    and "\<forall>i. i \<notin> it_id ` set (due_by t1 c) \<longrightarrow> map_of (ctl_items c') i = map_of (ctl_items c) i"
  shows "due_by t2 c = due_by t1 c @ due_by t2 c'"
proof -
  let ?k = "\<lambda>i. (item_seconds i, tr_order (it_trigger i))"
  let ?P = "\<lambda>t c i. tr_type (it_trigger i) = ''elapsed'' \<and> tr_seconds (it_trigger i) \<noteq> None
         \<and> item_seconds i \<le> t \<and> map_option rt_status (map_of (ctl_items c) (it_id i)) = Some PendingItem"
  let ?items = "sd_items (ctl_definition c)"
  have early: "filter (\<lambda>i. fst (?k i) \<le> t1) (filter (?P t2 c) ?items) = filter (?P t1 c) ?items"
    using assms(2) by (auto intro!: filter_cong)
  have "(?P t2 c i \<and> \<not> item_seconds i \<le> t1) = ?P t2 c' i" if i: "i \<in> set ?items" for i
  proof (cases "i \<in> set (due_by t1 c)")
    case True
    then show ?thesis using assms(4) by (auto simp: due_by_iff status_of_def)
  next
    case False
    have "it_id i \<notin> it_id ` set (due_by t1 c)"
      using False i assms(1) by (auto simp: due_by_iff distinct_map dest: inj_onD)
    then have "map_of (ctl_items c') (it_id i) = map_of (ctl_items c) (it_id i)" using assms(5) by blast
    then show ?thesis using False i assms(2) by (auto simp: due_by_iff status_of_def)
  qed
  then have late: "filter (\<lambda>i. \<not> fst (?k i) \<le> t1) (filter (?P t2 c) ?items) = filter (?P t2 c') ?items"
    by (auto intro!: filter_cong)
  show ?thesis
    unfolding due_by_def assms(3)
    by (subst sort_key_split [where t = t1]) (simp only: early late)
qed

section \<open>A small scenario\<close>

definition sample_item :: "string \<Rightarrow> string \<Rightarrow> string \<Rightarrow> row \<Rightarrow> row \<Rightarrow> val" where
  "sample_item i kind delivery tr extra = VDict ([(''id'', VStr i), (''kind'', VStr kind), (''title'', VStr ''t''),
     (''summary'', VStr ''s''), (''phase'', VStr ''identity''), (''delivery'', VStr delivery),
     (''visibility'', VStr ''participant''), (''trigger'', VDict tr)] @ extra)"

definition sample_scenario :: row where
  "sample_scenario = [(''schema_version'', VStr ''1.0.0''), (''scenario_id'', VStr ''sc''),
     (''exercise_id'', VStr ''ex''), (''name'', VStr ''n''), (''items'', VList
       [sample_item ''I1'' ''inject'' ''automatic'' [(''type'', VStr ''elapsed''), (''seconds'', VInt 5)] [],
        sample_item ''DP1'' ''checkpoint'' ''facilitator'' [(''type'', VStr ''elapsed''), (''seconds'', VInt 8)]
          [(''checkpoint_id'', VStr ''DP1'')],
        sample_item ''B1'' ''inject'' ''automatic'' [(''type'', VStr ''checkpoint''),
          (''checkpoint_id'', VStr ''DP1''), (''outcome'', VStr ''pass'')] [],
        sample_item ''B2'' ''inject'' ''automatic'' [(''type'', VStr ''checkpoint''),
          (''checkpoint_id'', VStr ''DP1''), (''outcome'', VStr ''miss'')] []])]"

definition sample_trigger :: "string \<Rightarrow> int option \<Rightarrow> string option \<Rightarrow> string option \<Rightarrow> trigger" where
  "sample_trigger ty seconds cp outcome = \<lparr>tr_type = ty, tr_seconds = seconds, tr_checkpoint = cp,
     tr_outcome = outcome, tr_order = 0\<rparr>"

definition sample_parsed :: "string \<Rightarrow> string \<Rightarrow> string \<Rightarrow> trigger \<Rightarrow> string option \<Rightarrow> scenario_item" where
  "sample_parsed i kind delivery tr cp = \<lparr>it_id = i, it_kind = kind, it_title = ''t'', it_summary = ''s'',
     it_phase = ''identity'', it_delivery = delivery, it_visibility = ''participant'', it_trigger = tr,
     it_action = None, it_objectives = [], it_checkpoint = cp, it_prompt = None\<rparr>"

definition sample_loaded :: scenario_definition where
  "sample_loaded = \<lparr>sd_schema_version = ''1.0.0'', sd_scenario_id = ''sc'', sd_exercise_id = ''ex'',
     sd_name = ''n'', sd_items =
       [sample_parsed ''I1'' ''inject'' ''automatic'' (sample_trigger ''elapsed'' (Some 5) None None) None,
        sample_parsed ''DP1'' ''checkpoint'' ''facilitator'' (sample_trigger ''elapsed'' (Some 8) None None)
          (Some ''DP1''),
        sample_parsed ''B1'' ''inject'' ''automatic''
          (sample_trigger ''checkpoint'' None (Some ''DP1'') (Some ''pass'')) None,
        sample_parsed ''B2'' ''inject'' ''automatic''
          (sample_trigger ''checkpoint'' None (Some ''DP1'') (Some ''miss'')) None],
     sd_experience = []\<rparr>"

definition sample_deps :: "unit deps" where
  "sample_deps = \<lparr>dp_env = sample_env, dp_handlers = [], dp_observers = []\<rparr>"

definition sample_system :: "unit csys" where
  "sample_system = \<lparr>cy_world = sample_world, cy_ctl = new_controller sample_loaded ''run'' ''1.0.0'' True,
     cy_rest = ()\<rparr>"

definition sample_running :: "unit csys" where
  "sample_running = sample_system\<lparr>cy_ctl := (cy_ctl sample_system)\<lparr>ctl_state := Running\<rparr>\<rparr>"

lemma sample_load: "load_scenario ''p'' (Inr (VDict sample_scenario)) = Inr sample_loaded"
  by code_simp

lemma sample_items: "map it_id (sd_items sample_loaded) = [''I1'', ''DP1'', ''B1'', ''B2'']"
  by code_simp

lemma sample_distinct: "distinct (map it_id (sd_items (ctl_definition (cy_ctl sample_running))))"
  by (simp add: sample_running_def sample_system_def new_controller_def sample_items)

lemma sample_deps_quiet: "quiet_deps sample_deps"
  using sample_quiet by (simp add: quiet_deps_def handlers_frame_def sample_deps_def)

lemma sample_healthy: "healthy sample_loaded sample_running"
  using new_controller_known [of sample_loaded "''run''" "''1.0.0''" True]
  by (simp add: healthy_def ctl_ready_def sample_running_def sample_system_def sample_world_def
      items_known_def new_controller_def fresh_builder_def)

lemma sample_now: "ctl_state (cy_ctl sample_running) = Running" "ctl_elapsed (cy_ctl sample_running) = 0"
  by (simp_all add: sample_running_def sample_system_def new_controller_def)

section \<open>Properties\<close>




lemma sample_due: "map it_id (due_by 6 (cy_ctl sample_running)) = [''I1'']"
  by code_simp



lemma sample_due_kinds: "list_all (\<lambda>i. it_kind i \<noteq> ''end'') (due_by 6 (cy_ctl sample_running))"
  by code_simp



lemma sample_resolvable: "resolvable ''DP1'' ''seen'' None (cy_ctl sample_running)"
proof -
  have "list_ex (\<lambda>i. it_id i = ''DP1'' \<and> it_kind i = ''checkpoint'')
      (sd_items (ctl_definition (cy_ctl sample_running)))" by code_simp
  moreover have "status_of (cy_ctl sample_running) ''DP1'' = Some PendingItem" by code_simp
  moreover have "strip ''seen'' \<noteq> []" by code_simp
  moreover have ids: "map it_id (branches_of ''DP1'' (cy_ctl sample_running)) = [''B1'', ''B2'']" by code_simp
  moreover have "list_all (\<lambda>b. it_kind b \<noteq> ''end'' \<and> status_of (cy_ctl sample_running) (it_id b) = Some PendingItem)
      (branches_of ''DP1'' (cy_ctl sample_running))" by code_simp
  moreover have "it_id ` set (branches_of ''DP1'' (cy_ctl sample_running)) = {''B1'', ''B2''}"
    using arg_cong [OF ids, of set] by simp
  ultimately show ?thesis
    using sample_now(1)
    by (auto simp: resolvable_def branches_open_def open_status_def list_all_iff list_ex_iff)
qed




end
