(* ===== verification/Scheduler.thy ===== *)
theory Scheduler
  imports ControllerProps Complex_Main
begin

text \<open>
  \<^verbatim>\<open>orchestrator/scheduler.py\<close>: \<open>ScenarioScheduler\<close>, which turns readings of a monotonic clock into whole
  seconds of exercise time. The clock \<open>clk\<close> gives a rational number for each reading in turn; the
  source's floats are modelled without their rounding.
\<close>

record sched =
  sc_last :: "rat option"
  sc_fraction :: rat
  sc_reads :: nat

record 'x ssys =
  sy_sched :: sched
  sy_sys :: "'x csys"

definition new_sched :: sched where
  "new_sched = \<lparr>sc_last = None, sc_fraction = 0, sc_reads = 0\<rparr>"

definition on_sys :: "('x csys, 'a) prog \<Rightarrow> ('x ssys, 'a) prog" where
  "on_sys = zoomE sy_sys (\<lambda>t y. y\<lparr>sy_sys := t\<rparr>)"

definition get_sched :: "(sched \<Rightarrow> 'a) \<Rightarrow> ('x ssys, 'a) prog" where
  "get_sched f = getE (\<lambda>y. f (sy_sched y))"

definition upd_sched :: "(sched \<Rightarrow> sched) \<Rightarrow> ('x ssys, unit) prog" where
  "upd_sched f = updE (\<lambda>y. y\<lparr>sy_sched := f (sy_sched y)\<rparr>)"

definition monotonic :: "(nat \<Rightarrow> rat) \<Rightarrow> ('x ssys, rat) prog" where
  "monotonic clk = bindE (get_sched sc_reads) (\<lambda>n.
     thenE (upd_sched (\<lambda>c. c\<lparr>sc_reads := Suc n\<rparr>)) (ret (clk n)))"

definition sys_elapsed :: "('x ssys, int) prog" where
  "sys_elapsed = on_sys (get_ctl ctl_elapsed)"

definition anchor :: "(nat \<Rightarrow> rat) \<Rightarrow> ('x ssys, unit) prog" where
  "anchor clk = bindE (monotonic clk) (\<lambda>now. upd_sched (\<lambda>c. c\<lparr>sc_last := Some now\<rparr>))"

text \<open>\<open>int(x)\<close>.\<close>

definition truncated :: "rat \<Rightarrow> int" where
  "truncated x = (if 0 \<le> x then \<lfloor>x\<rfloor> else \<lceil>x\<rceil>)"

definition sched_start :: "'x deps \<Rightarrow> (nat \<Rightarrow> rat) \<Rightarrow> ('x ssys, unit) prog" where
  "sched_start dp clk = thenE (on_sys (start dp)) (thenE (anchor clk)
     (upd_sched (\<lambda>c. c\<lparr>sc_fraction := 0\<rparr>)))"

definition tick_from :: "'x deps \<Rightarrow> rat \<Rightarrow> rat \<Rightarrow> ('x ssys, int) prog" where
  "tick_from dp last_observed now =
    thenE (requireE (0 \<le> now - last_observed) (RuntimeError ''monotonic clock moved backwards''))
   (thenE (upd_sched (\<lambda>c. c\<lparr>sc_last := Some now\<rparr>))
   (bindE (get_sched sc_fraction) (\<lambda>fraction.
    let elapsed = fraction + (now - last_observed); complete = truncated elapsed in
    thenE (upd_sched (\<lambda>c. c\<lparr>sc_fraction := elapsed - of_int complete\<rparr>))
   (thenE (if complete \<noteq> 0 then bindE sys_elapsed (\<lambda>t. on_sys (advance_to dp (t + complete))) else ret ())
      sys_elapsed))))"

definition tick :: "'x deps \<Rightarrow> (nat \<Rightarrow> rat) \<Rightarrow> ('x ssys, int) prog" where
  "tick dp clk = bindE (on_sys (get_ctl ctl_state)) (\<lambda>st.
     if st \<noteq> Running then sys_elapsed
     else bindE (monotonic clk) (\<lambda>now. bindE (get_sched sc_last) (\<lambda>previous. case previous of
         None \<Rightarrow> thenE (upd_sched (\<lambda>c. c\<lparr>sc_last := Some now\<rparr>)) sys_elapsed
       | Some last_observed \<Rightarrow> tick_from dp last_observed now)))"

definition sched_pause :: "'x deps \<Rightarrow> (nat \<Rightarrow> rat) \<Rightarrow> ('x ssys, unit) prog" where
  "sched_pause dp clk = thenE (tick dp clk) (thenE (on_sys (pause dp))
     (upd_sched (\<lambda>c. c\<lparr>sc_last := None\<rparr>)))"

definition sched_resume :: "'x deps \<Rightarrow> (nat \<Rightarrow> rat) \<Rightarrow> ('x ssys, unit) prog" where
  "sched_resume dp clk = thenE (on_sys (resume dp)) (anchor clk)"

definition sched_advance_to :: "'x deps \<Rightarrow> (nat \<Rightarrow> rat) \<Rightarrow> int \<Rightarrow> ('x ssys, unit) prog" where
  "sched_advance_to dp clk t = thenE (on_sys (advance_to dp t)) (thenE (anchor clk)
     (upd_sched (\<lambda>c. c\<lparr>sc_fraction := 0\<rparr>)))"

definition sched_reset :: "('x ssys, unit) prog" where
  "sched_reset = upd_sched (\<lambda>c. c\<lparr>sc_last := None, sc_fraction := 0\<rparr>)"

section \<open>Exact time\<close>

text \<open>Exercise time to the fraction, and the state in which ticks count.\<close>

definition exact_time :: "'x ssys \<Rightarrow> rat" where
  "exact_time y = of_int (ctl_elapsed (cy_ctl (sy_sys y))) + sc_fraction (sy_sched y)"

definition anchored :: "rat \<Rightarrow> 'x ssys \<Rightarrow> bool" where
  "anchored l y \<longleftrightarrow> sc_last (sy_sched y) = Some l \<and> 0 \<le> sc_fraction (sy_sched y) \<and> sc_fraction (sy_sched y) < 1"

lemma sched_runs [prog_simps]:
  "on_sys m y = (case m (sy_sys y) of (r, t) \<Rightarrow> (r, y\<lparr>sy_sys := t\<rparr>))"
  "get_sched f y = (Inr (f (sy_sched y)), y)"
  "upd_sched g y = (Inr (), y\<lparr>sy_sched := g (sy_sched y)\<rparr>)"
  "sys_elapsed y = (Inr (ctl_elapsed (cy_ctl (sy_sys y))), y)"
  "monotonic clk y = (Inr (clk (sc_reads (sy_sched y))),
     y\<lparr>sy_sched := (sy_sched y)\<lparr>sc_reads := Suc (sc_reads (sy_sched y))\<rparr>\<rparr>)"
  by (simp_all add: on_sys_def get_sched_def upd_sched_def sys_elapsed_def monotonic_def zoomE_run
      get_ctl_run bindE_run thenE_run)

lemma truncated_split:
  assumes "0 \<le> x"
  shows "0 \<le> truncated x" "0 \<le> x - of_int (truncated x)" "x - of_int (truncated x) < 1"
proof -
  have "of_int \<lfloor>x\<rfloor> \<le> x" "x < of_int \<lfloor>x\<rfloor> + 1" by linarith+
  then show "0 \<le> truncated x" "0 \<le> x - of_int (truncated x)" "x - of_int (truncated x) < 1"
    using assms by (auto simp: truncated_def algebra_simps)
qed

definition endless :: "scenario_definition \<Rightarrow> bool" where
  "endless sd \<longleftrightarrow> list_all (\<lambda>i. it_kind i \<noteq> ''end'') (sd_items sd)"

text \<open>One tick: time grows by what the clock shows.\<close>

lemma tick_exact:
  assumes "quiet_deps dp" and "healthy sd (sy_sys y)" and "ctl_state (cy_ctl (sy_sys y)) = Running"
    and "anchored l y" and "l \<le> clk (sc_reads (sy_sched y))"
  shows "\<exists>y'. tick dp clk y = (Inr (ctl_elapsed (cy_ctl (sy_sys y'))), y') \<and> healthy sd (sy_sys y')
    \<and> anchored (clk (sc_reads (sy_sched y))) y' \<and> sc_reads (sy_sched y') = Suc (sc_reads (sy_sched y))
    \<and> exact_time y' = exact_time y + (clk (sc_reads (sy_sched y)) - l)
    \<and> (endless sd \<longrightarrow> ctl_state (cy_ctl (sy_sys y')) = Running)"
proof -
  let ?now = "clk (sc_reads (sy_sched y))" and ?t = "ctl_elapsed (cy_ctl (sy_sys y))"
  let ?e = "sc_fraction (sy_sched y) + (?now - l)"
  let ?n = "truncated ?e"
  have "0 \<le> ?e" using assms(4,5) by (simp add: anchored_def)
  note tr = truncated_split [OF this]
  define y1 where "y1 = y\<lparr>sy_sched := (sy_sched y)\<lparr>sc_reads := Suc (sc_reads (sy_sched y)),
    sc_last := Some ?now, sc_fraction := ?e - of_int ?n\<rparr>\<rparr>"
  have y1: "sy_sys y1 = sy_sys y" by (simp add: y1_def)
  let ?adv = "if ?n \<noteq> 0 then bindE sys_elapsed (\<lambda>t. on_sys (advance_to dp (t + ?n))) else ret ()"
  have run: "tick dp clk y = thenE ?adv sys_elapsed y1"
    using assms(3,4,5)
    by (simp add: tick_def tick_from_def Let_def prog_simps anchored_def y1_def cong: if_cong)
  obtain s' where s': "?adv y1 = (Inr (), y1\<lparr>sy_sys := s'\<rparr>)" "healthy sd s'"
    "ctl_elapsed (cy_ctl s') = ?t + ?n" "endless sd \<longrightarrow> ctl_state (cy_ctl s') = Running"
  proof (cases "?n = 0")
    case True
    then show ?thesis using that [of "sy_sys y"] assms(2,3) y1 by simp
  next
    case False
    obtain s' where a: "advance_to dp (?t + ?n) (sy_sys y) = (Inr (), s')" "healthy sd s'"
      using advance_to_returns [OF assms(1,2,3), of "?t + ?n"] tr(1) by auto
    obtain s0 u where "advance_clock dp (?t + ?n) s0 = (Inr u, s')"
      using a(1) unfolding advance_to_def by (auto elim!: thenE_InrE bindE_InrE)
    then have "ctl_elapsed (cy_ctl s') = ?t + ?n"
      using advance_clock_view [OF quiet_depsD(2) [OF assms(1)]] by fastforce
    moreover have "endless sd \<longrightarrow> ctl_state (cy_ctl s') = Running"
      using advance_keeps_running [OF quiet_depsD(2) [OF assms(1)] _ a(1)] assms(2,3)
      by (auto simp: endless_def healthy_def list_all_iff due_by_iff)
    ultimately show ?thesis using that [of s'] a False by (simp add: bindE_run sched_runs y1)
  qed
  then show ?thesis
    using tr unfolding run
    by (auto simp: thenE_run sched_runs y1_def anchored_def exact_time_def)
qed

lemma elapsed_floor: "anchored l y \<Longrightarrow> ctl_elapsed (cy_ctl (sy_sys y)) = \<lfloor>exact_time y\<rfloor>"
  by (simp add: anchored_def exact_time_def floor_unique)

definition ticks :: "'x deps \<Rightarrow> (nat \<Rightarrow> rat) \<Rightarrow> nat \<Rightarrow> ('x ssys, unit) prog" where
  "ticks dp clk n = forE (\<lambda>_. thenE (tick dp clk) (ret ())) [0..<n]"

lemma ticks_Suc: "ticks dp clk (Suc n) = thenE (ticks dp clk n) (thenE (tick dp clk) (ret ()))"
  by (simp add: ticks_def forE_append thenE_def bindE_assoc)
    (simp add: bindE_def ret_def split_beta)

lemma ticks_exact:
  assumes "quiet_deps dp" and "endless sd" and "\<And>a b. a \<le> b \<Longrightarrow> clk a \<le> clk b"
    and "healthy sd (sy_sys y)" and "ctl_state (cy_ctl (sy_sys y)) = Running" and "anchored l y"
    and "l \<le> clk (sc_reads (sy_sched y))"
  shows "\<exists>y'. ticks dp clk (Suc n) y = (Inr (), y') \<and> healthy sd (sy_sys y')
    \<and> ctl_state (cy_ctl (sy_sys y')) = Running \<and> sc_reads (sy_sched y') = sc_reads (sy_sched y) + Suc n
    \<and> anchored (clk (sc_reads (sy_sched y) + n)) y'
    \<and> exact_time y' = exact_time y + (clk (sc_reads (sy_sched y) + n) - l)"
proof (induction n)
  case 0
  have "ticks dp clk 1 = thenE (tick dp clk) (ret ())"
    by (simp add: ticks_def thenE_def bindE_def ret_def split_beta)
      (simp add: fun_eq_iff split: prod.splits sum.splits)
  with tick_exact [where clk = clk, OF assms(1,4,5,6,7)] assms(2) show ?case by (auto simp: thenE_run)
next
  case (Suc n)
  let ?k = "sc_reads (sy_sched y)"
  obtain y1 where y1: "ticks dp clk (Suc n) y = (Inr (), y1)" "healthy sd (sy_sys y1)"
    "ctl_state (cy_ctl (sy_sys y1)) = Running" "sc_reads (sy_sched y1) = ?k + Suc n"
    "anchored (clk (?k + n)) y1" "exact_time y1 = exact_time y + (clk (?k + n) - l)"
    using Suc.IH by blast
  have "clk (?k + n) \<le> clk (sc_reads (sy_sched y1))" unfolding y1(4) by (rule assms(3)) simp
  from tick_exact [where clk = clk, OF assms(1) y1(2,3,5) this] y1 assms(2) show ?case
    by (auto simp: ticks_Suc [of _ _ "Suc n"] thenE_run)
qed

section \<open>Pauses\<close>

lemma set_state_emit:
  fixes s :: "'x csys"
  assumes "quiet_deps dp" and "healthy sd s"
  shows "\<exists>s'. thenE (upd_ctl (\<lambda>c. c\<lparr>ctl_state := st\<rparr>)) (ctl_emit dp ty a m status item role data) s = (Inr (), s')
    \<and> healthy sd s' \<and> ctl_state (cy_ctl s') = st \<and> ctl_elapsed (cy_ctl s') = ctl_elapsed (cy_ctl s)"
proof -
  let ?s = "s\<lparr>cy_ctl := (cy_ctl s)\<lparr>ctl_state := st\<rparr>\<rparr>"
  have "healthy sd ?s" using assms(2) by (simp add: healthy_def ctl_ready_def items_known_def)
  from returns_unit [OF returns_emit [OF quiet_depsD(1) [OF assms(1)]] this]
  obtain s' where e: "ctl_emit dp ty a m status item role data ?s = (Inr (), s')" "healthy sd s'" by blast
  then show ?thesis using ctl_view_eq [OF ctl_emit_view [OF e(1)]] by (simp add: thenE_run upd_ctl_run)
qed

lemma pause_returns:
  "quiet_deps dp \<Longrightarrow> healthy sd s \<Longrightarrow> ctl_state (cy_ctl s) = Running \<Longrightarrow>
   \<exists>s'. pause dp s = (Inr (), s') \<and> healthy sd s' \<and> ctl_state (cy_ctl s') = Paused
     \<and> ctl_elapsed (cy_ctl s') = ctl_elapsed (cy_ctl s)"
  using set_state_emit [of dp sd s Paused] by (simp add: pause_def thenE_run [of "require_state _"] require_state_run)

lemma resume_returns:
  "quiet_deps dp \<Longrightarrow> healthy sd s \<Longrightarrow> ctl_state (cy_ctl s) = Paused \<Longrightarrow>
   \<exists>s'. resume dp s = (Inr (), s') \<and> healthy sd s' \<and> ctl_state (cy_ctl s') = Running
     \<and> ctl_elapsed (cy_ctl s') = ctl_elapsed (cy_ctl s)"
  using set_state_emit [of dp sd s Running] by (simp add: resume_def thenE_run [of "require_state _"] require_state_run)

section \<open>Properties\<close>

definition sample_play :: "unit ssys" where
  "sample_play = \<lparr>sy_sched = \<lparr>sc_last = Some 0, sc_fraction = 1/2, sc_reads = 0\<rparr>, sy_sys = sample_running\<rparr>"

lemma sample_play_facts: "endless sample_loaded" "healthy sample_loaded (sy_sys sample_play)"
    "ctl_state (cy_ctl (sy_sys sample_play)) = Running" "anchored 0 sample_play"
    "sc_reads (sy_sched sample_play) = 0" "exact_time sample_play = 1/2"
  using sample_healthy sample_now
  by (simp_all add: sample_play_def endless_def sample_loaded_def sample_parsed_def anchored_def exact_time_def)



text \<open>A pause is not counted: pausing takes in the time up to the pause, resuming adds none however
  much later it comes, and play goes on from the moment of the resume.\<close>

theorem pause_is_not_counted:
  assumes "quiet_deps dp" and "endless sd" and "healthy sd (sy_sys y)"
    and "ctl_state (cy_ctl (sy_sys y)) = Running" and "anchored l y"
    and "l \<le> clk (sc_reads (sy_sched y))"
  shows "\<exists>y1 y2. sched_pause dp clk y = (Inr (), y1) \<and> ctl_state (cy_ctl (sy_sys y1)) = Paused
    \<and> tick dp clk y1 = (Inr (ctl_elapsed (cy_ctl (sy_sys y1))), y1)
    \<and> sched_resume dp clk y1 = (Inr (), y2) \<and> ctl_state (cy_ctl (sy_sys y2)) = Running
    \<and> anchored (clk (Suc (sc_reads (sy_sched y)))) y2
    \<and> exact_time y2 = exact_time y + (clk (sc_reads (sy_sched y)) - l)"
proof -
  obtain y0 where y0: "tick dp clk y = (Inr (ctl_elapsed (cy_ctl (sy_sys y0))), y0)" "healthy sd (sy_sys y0)"
    "anchored (clk (sc_reads (sy_sched y))) y0" "sc_reads (sy_sched y0) = Suc (sc_reads (sy_sched y))"
    "exact_time y0 = exact_time y + (clk (sc_reads (sy_sched y)) - l)"
    "ctl_state (cy_ctl (sy_sys y0)) = Running"
    using tick_exact [where clk = clk, OF assms(1,3-6)] assms(2) by blast
  obtain s1 where s1: "pause dp (sy_sys y0) = (Inr (), s1)" "healthy sd s1" "ctl_state (cy_ctl s1) = Paused"
    "ctl_elapsed (cy_ctl s1) = ctl_elapsed (cy_ctl (sy_sys y0))"
    using pause_returns [OF assms(1) y0(2,6)] by blast
  obtain s2 where s2: "resume dp s1 = (Inr (), s2)" "ctl_state (cy_ctl s2) = Running"
    "ctl_elapsed (cy_ctl s2) = ctl_elapsed (cy_ctl s1)"
    using resume_returns [OF assms(1) s1(2,3)] by blast
  define y1 where "y1 = y0\<lparr>sy_sys := s1, sy_sched := (sy_sched y0)\<lparr>sc_last := None\<rparr>\<rparr>"
  define y2 where "y2 = y1\<lparr>sy_sys := s2, sy_sched := (sy_sched y1)\<lparr>sc_reads := Suc (sc_reads (sy_sched y1)),
    sc_last := Some (clk (sc_reads (sy_sched y1)))\<rparr>\<rparr>"
  have "sched_pause dp clk y = (Inr (), y1)"
    using y0(1) s1(1) by (simp add: sched_pause_def thenE_run sched_runs y1_def)
  moreover have "tick dp clk y1 = (Inr (ctl_elapsed (cy_ctl (sy_sys y1))), y1)"
    using s1(3) by (simp add: tick_def bindE_run sched_runs get_ctl_run y1_def)
  moreover have "sched_resume dp clk y1 = (Inr (), y2)"
    using s2(1) by (simp add: sched_resume_def anchor_def thenE_run bindE_run sched_runs y1_def y2_def)
  moreover have "anchored (clk (Suc (sc_reads (sy_sched y)))) y2" "exact_time y2 = exact_time y0"
    using y0(3,4) s2(3) s1(4) by (simp_all add: anchored_def exact_time_def y1_def y2_def)
  ultimately show ?thesis using y0(5) s1(3) s2(2) by (intro exI [of _ y1] exI [of _ y2]) (simp add: y1_def y2_def)
qed

lemma pause_is_not_counted_witness:
  "\<exists>y1 y2. sched_pause sample_deps (\<lambda>n. of_nat n * 60) sample_play = (Inr (), y1)
    \<and> sched_resume sample_deps (\<lambda>n. of_nat n * 60) y1 = (Inr (), y2) \<and> exact_time y2 = 1/2"
  using pause_is_not_counted [OF sample_deps_quiet sample_play_facts(1-4), where clk = "\<lambda>n. of_nat n * 60"]
  by (simp add: sample_play_facts) blast

end
