(* ===== verification/Checkpoints.thy ===== *)
theory Checkpoints
  imports ModuleProps "HOL-Library.Sublist"
begin

text \<open>
  \<^verbatim>\<open>orchestrator/checkpoints.py\<close>: the evaluators of the identity triage (DP1) and of the containment (DP2).
\<close>

section \<open>Evidence\<close>

record evidence_reference =
  er_reference_id :: string
  er_source :: string

text \<open>The constructor with \<open>__post_init__\<close>.\<close>

definition evidence_reference :: "string \<Rightarrow> string \<Rightarrow> exc + evidence_reference" where
  "evidence_reference reference_id source =
    (if strip reference_id = [] \<or> strip source = []
     then Inl (ValueError ''evidence references require an id and source'')
     else Inr \<lparr>er_reference_id = reference_id, er_source = source\<rparr>)"

record triage_submission =
  ts_affected_identity :: string
  ts_classification :: string
  ts_evidence :: "evidence_reference list"

record checkpoint_evaluation =
  ce_passed :: bool
  ce_reason :: string
  ce_evidence_ids :: "string list"
  ce_checks :: "bool dict"

definition normalized :: "string \<Rightarrow> string" where
  "normalized s = filter is_alnum (lower s)"

definition evidence_key :: "evidence_reference \<Rightarrow> string \<times> string" where
  "evidence_key r = (strip (er_reference_id r), lower (strip (er_source r)))"

text \<open>Both evaluators end the same way: all checks hold, or the reason names those that do not.\<close>

definition failed_checks :: "bool dict \<Rightarrow> string list" where
  "failed_checks checks = map fst (filter (\<lambda>(name, succeeded). \<not> succeeded) checks)"

definition evaluation :: "string \<Rightarrow> string \<Rightarrow> string list \<Rightarrow> bool dict \<Rightarrow> checkpoint_evaluation" where
  "evaluation success failure evidence_ids checks =
    (let passed = list_all snd checks in
     \<lparr>ce_passed = passed,
      ce_reason = (if passed then success else failure @ join '', '' (failed_checks checks)),
      ce_evidence_ids = evidence_ids, ce_checks = checks\<rparr>)"

definition ACCEPTED_CLASSIFICATIONS :: "string list" where
  "ACCEPTED_CLASSIFICATIONS = [''account compromise'', ''likely account compromise'',
     ''identity compromise'', ''likely identity compromise'']"

definition evaluate_identity_triage :: "triage_submission \<Rightarrow> string \<Rightarrow> string list \<Rightarrow> int \<Rightarrow> int
    \<Rightarrow> exc + checkpoint_evaluation" where
  "evaluate_identity_triage submission expected_identity accepted_classifications required_artifacts
      required_sources =
    (if required_artifacts < 1 \<or> required_sources < 1
     then Inl (ValueError ''checkpoint thresholds must be positive'')
     else let unique_evidence = sorted_set (map evidence_key (ts_evidence submission));
       sources = remdups (map snd unique_evidence);
       accepted = map normalized accepted_classifications;
       checks =
        [(''identity_correct'',
            sublist (normalized expected_identity) (normalized (ts_affected_identity submission))),
         (''classification_supported'', normalized (ts_classification submission) \<in> set accepted),
         (''artifact_count_met'', required_artifacts \<le> int (length unique_evidence)),
         (''source_diversity_met'', required_sources \<le> int (length sources))]
     in Inr (evaluation ''Correct identity, classification, artifact count, and source diversity''
         ''Missing checkpoint requirements: '' (map fst unique_evidence) checks))"

section \<open>Containment\<close>

definition type_name :: "val \<Rightarrow> string" where
  "type_name v = (case v of VNone \<Rightarrow> ''NoneType'' | VBool b \<Rightarrow> ''bool'' | VInt n \<Rightarrow> ''int'' | VStr s \<Rightarrow> ''str''
     | VList xs \<Rightarrow> ''list'' | VTuple xs \<Rightarrow> ''tuple'' | VDict d \<Rightarrow> ''dict'')"

definition quoted :: "string \<Rightarrow> string" where
  "quoted s = CHR 0x27 # s @ [CHR 0x27]"

text \<open>\<open>v[k]\<close> and \<open>v.get(k)\<close> for a value that may not be a dictionary, and \<open>v > 1\<close>.\<close>

definition item_of :: "val \<Rightarrow> string \<Rightarrow> exc + val" where
  "item_of v k = (case v of
     VDict d \<Rightarrow> ditem d k
   | VStr s \<Rightarrow> Inl (TypeError (''string indices must be integers, not '' @ quoted ''str''))
   | VList xs \<Rightarrow> Inl (TypeError ''list indices must be integers or slices, not str'')
   | VTuple xs \<Rightarrow> Inl (TypeError ''tuple indices must be integers or slices, not str'')
   | _ \<Rightarrow> Inl (TypeError (quoted (type_name v) @ '' object is not subscriptable'')))"

definition get_of :: "val \<Rightarrow> string \<Rightarrow> val \<Rightarrow> exc + val" where
  "get_of v k dflt = (case v of
     VDict d \<Rightarrow> Inr (case map_of d k of None \<Rightarrow> dflt | Some x \<Rightarrow> x)
   | _ \<Rightarrow> Inl (OtherError ''AttributeError''
       (quoted (type_name v) @ '' object has no attribute '' @ quoted ''get'')))"

definition above_one :: "val \<Rightarrow> exc + bool" where
  "above_one v = (case num_of v of Some n \<Rightarrow> Inr (1 < n)
   | None \<Rightarrow> Inl (TypeError (quoted ''>'' @ '' not supported between instances of '' @ quoted (type_name v)
       @ '' and '' @ quoted ''int'')))"

definition strip_quotes :: "string \<Rightarrow> string" where
  "strip_quotes s = rev (dropWhile (\<lambda>c. c = CHR 0x27) (rev (dropWhile (\<lambda>c. c = CHR 0x27) s)))"

record containment_view =
  cv_session :: val
  cv_factor :: val
  cv_identity :: val
  cv_host :: val
  cv_artifact :: val

definition row_of :: "row \<Rightarrow> string \<Rightarrow> string \<Rightarrow> exc + val" where
  "row_of st collection item = bindR (ditem st collection) (\<lambda>v. item_of v item)"

definition containment_view :: "row \<Rightarrow> row \<Rightarrow> exc + containment_view" where
  "containment_view identity_state endpoint_state =
    bindR (row_of identity_state ''sessions'' ''sess-red-01'') (\<lambda>session.
    bindR (row_of identity_state ''factors'' ''factor-red-01'') (\<lambda>factor.
    bindR (row_of identity_state ''identities'' ''sarah'') (\<lambda>identity.
    bindR (row_of endpoint_state ''hosts'' ''FIN-WS01'') (\<lambda>host.
    bindR (row_of endpoint_state ''artifacts'' ''FIN-WS01-discovery-bundle'') (\<lambda>artifact.
      Inr \<lparr>cv_session = session, cv_factor = factor, cv_identity = identity, cv_host = host,
           cv_artifact = artifact\<rparr>)))))"

text \<open>\<open>v.get(k) is b\<close>.\<close>

definition field_is :: "val \<Rightarrow> string \<Rightarrow> bool \<Rightarrow> exc + bool" where
  "field_is v k b = bindR (get_of v k VNone) (\<lambda>x. Inr (x = VBool b))"

definition both :: "exc + bool \<Rightarrow> exc + bool \<Rightarrow> exc + bool" where
  "both p q = bindR p (\<lambda>x. if x then q else Inr False)"

definition containment_checks :: "containment_view \<Rightarrow> exc + bool dict" where
  "containment_checks w =
    bindR (field_is (cv_session w) ''active'' False) (\<lambda>revoked.
    bindR (field_is (cv_factor w) ''active'' False) (\<lambda>removed.
    bindR (bindR (get_of (cv_identity w) ''credential_version'' (VInt 0)) above_one) (\<lambda>rotated.
    bindR (both (field_is (cv_host w) ''isolated'' True)
        (both (field_is (cv_host w) ''remote_path_enabled'' False)
          (field_is (cv_host w) ''controller_visible'' True))) (\<lambda>isolated.
    bindR (field_is (cv_artifact w) ''preserved'' True) (\<lambda>preserved.
      Inr [(''malicious_session_revoked'', revoked), (''unauthorized_factor_removed'', removed),
           (''credential_rotated'', rotated), (''endpoint_remote_path_isolated'', isolated),
           (''endpoint_evidence_preserved'', preserved)])))))"

definition CONTAINMENT_EVIDENCE :: "string list" where
  "CONTAINMENT_EVIDENCE = [''state:session:sess-red-01'', ''state:mfa_factor:factor-red-01'',
     ''state:identity:sarah'', ''state:host:FIN-WS01'', ''state:evidence:FIN-WS01-discovery-bundle'']"

definition missing_state :: "exc \<Rightarrow> exc + checkpoint_evaluation" where
  "missing_state e = (case e of
     KeyError k \<Rightarrow> Inr \<lparr>ce_passed = False,
        ce_reason = ''Verifier state is missing required field: '' @ strip_quotes (exc_text e),
        ce_evidence_ids = [], ce_checks = [(''verifier_state_complete'', False)]\<rparr>
   | TypeError m \<Rightarrow> Inr \<lparr>ce_passed = False,
        ce_reason = ''Verifier state is missing required field: '' @ strip_quotes (exc_text e),
        ce_evidence_ids = [], ce_checks = [(''verifier_state_complete'', False)]\<rparr>
   | _ \<Rightarrow> Inl e)"

definition evaluate_containment :: "row \<Rightarrow> row \<Rightarrow> exc + checkpoint_evaluation" where
  "evaluate_containment identity_state endpoint_state =
    (case containment_view identity_state endpoint_state of
       Inl e \<Rightarrow> missing_state e
     | Inr w \<Rightarrow> bindR (containment_checks w) (\<lambda>checks.
         Inr (evaluation ''Session, factor, credential, endpoint isolation, and evidence checks passed''
           ''Missing containment requirements: '' CONTAINMENT_EVIDENCE checks)))"

section \<open>Lemmas\<close>

lemma failed_checks_Nil: "failed_checks checks = [] \<longleftrightarrow> list_all snd checks"
  by (auto simp: failed_checks_def filter_empty_conv list_all_iff)

lemma sorted_set_cong: "set xs = set ys \<Longrightarrow> sorted_set xs = sorted_set ys"
  by (rule sorted_distinct_set_unique) simp_all

lemma length_sorted_set: "length (sorted_set xs) = card (set xs)"
  by (simp add: sorted_set_def length_remdups_card_conv)

lemma table_lookup: "item_of (table_val t) k = (case map_of t k of None \<Rightarrow> Inl (KeyError k) | Some r \<Rightarrow> Inr (VDict r))"
proof -
  have "map_of (map (\<lambda>(k, r). (k, VDict r)) t) k = map_option VDict (map_of t k)" by (induction t) auto
  then show ?thesis by (simp add: item_of_def table_val_def ditem_def split: option.splits)
qed

lemma row_of_identity:
  "row_of (identity_snapshot c) (collection_name k) i = item_of (table_val (get_table k c)) i"
  by (cases k) (simp_all add: row_of_def identity_snapshot_def ditem_def)

lemma row_of_endpoint:
  "row_of (endpoint_snapshot c) ''hosts'' i = item_of (table_val (ec_hosts c)) i"
  "row_of (endpoint_snapshot c) ''artifacts'' i = item_of (table_val (ec_artifacts c)) i"
  by (simp_all add: row_of_def endpoint_snapshot_def ditem_def)

section \<open>Properties\<close>

definition evidence_set :: "triage_submission \<Rightarrow> (string \<times> string) set" where
  "evidence_set sub = evidence_key ` set (ts_evidence sub)"

lemma evaluation_passed: "ce_passed (evaluation a b ids checks) \<longleftrightarrow> list_all snd checks"
  "ce_checks (evaluation a b ids checks) = checks"
  by (simp_all add: evaluation_def Let_def)

definition triage_evaluation :: "triage_submission \<Rightarrow> string \<Rightarrow> string list \<Rightarrow> int \<Rightarrow> int \<Rightarrow> checkpoint_evaluation" where
  "triage_evaluation sub expected accepted artifacts sources =
    evaluation ''Correct identity, classification, artifact count, and source diversity''
         ''Missing checkpoint requirements: '' (map fst (sorted_set (map evidence_key (ts_evidence sub))))
      [(''identity_correct'', sublist (normalized expected) (normalized (ts_affected_identity sub))),
       (''classification_supported'', normalized (ts_classification sub) \<in> normalized ` set accepted),
       (''artifact_count_met'', artifacts \<le> int (card (evidence_set sub))),
       (''source_diversity_met'', sources \<le> int (card (snd ` evidence_set sub)))]"

lemma triage_passed: "ce_passed (triage_evaluation sub expected accepted artifacts sources) \<longleftrightarrow>
    sublist (normalized expected) (normalized (ts_affected_identity sub))
    \<and> normalized (ts_classification sub) \<in> normalized ` set accepted
    \<and> artifacts \<le> int (card (evidence_set sub)) \<and> sources \<le> int (card (snd ` evidence_set sub))"
  by (simp only: triage_evaluation_def evaluation_passed list.pred_inject snd_conv simp_thms)

lemma triage_monotone:
  assumes "evidence_set sub \<subseteq> evidence_set (sub\<lparr>ts_evidence := cited\<rparr>)"
    and "ce_passed (triage_evaluation sub expected accepted artifacts sources)"
  shows "ce_passed (triage_evaluation (sub\<lparr>ts_evidence := cited\<rparr>) expected accepted artifacts sources)"
proof -
  have "card (evidence_set sub) \<le> card (evidence_set (sub\<lparr>ts_evidence := cited\<rparr>))"
    "card (snd ` evidence_set sub) \<le> card (snd ` evidence_set (sub\<lparr>ts_evidence := cited\<rparr>))"
    using assms(1) by (intro card_mono image_mono; simp add: evidence_set_def)+
  then show ?thesis using assms(2) unfolding triage_passed by simp
qed

lemma triage_same:
  assumes "evidence_set (sub\<lparr>ts_evidence := cited\<rparr>) = evidence_set sub"
  shows "triage_evaluation (sub\<lparr>ts_evidence := cited\<rparr>) expected accepted artifacts sources
    = triage_evaluation sub expected accepted artifacts sources"
proof -
  have "sorted_set (map evidence_key cited) = sorted_set (map evidence_key (ts_evidence sub))"
    using assms by (intro sorted_set_cong) (simp add: evidence_set_def)
  then show ?thesis by (simp add: triage_evaluation_def assms)
qed

lemma triage_run:
  assumes "1 \<le> artifacts" and "1 \<le> sources"
  shows "evaluate_identity_triage sub expected accepted artifacts sources =
    Inr (triage_evaluation sub expected accepted artifacts sources)"
  using assms
  by (simp add: evaluate_identity_triage_def Let_def length_sorted_set length_remdups_card_conv evidence_set_def
      triage_evaluation_def)

text \<open>C16: The identity triage counts evidence as a set: order, repetition, surrounding blanks and the case
  of a source do not matter; a submission passes exactly when it names the identity, classifies it as
  accepted and cites enough distinct artifacts from enough distinct sources; so further evidence never
  turns a pass into a miss, and a miss names at least one requirement.\<close>

theorem triage_counts_distinct_evidence:
  assumes "1 \<le> artifacts" and "1 \<le> sources"
  shows "\<exists>ev. evaluate_identity_triage sub expected accepted artifacts sources = Inr ev
    \<and> (ce_passed ev \<longleftrightarrow> sublist (normalized expected) (normalized (ts_affected_identity sub))
        \<and> normalized (ts_classification sub) \<in> normalized ` set accepted
        \<and> artifacts \<le> int (card (evidence_set sub)) \<and> sources \<le> int (card (snd ` evidence_set sub)))
    \<and> (\<not> ce_passed ev \<longrightarrow> failed_checks (ce_checks ev) \<noteq> [])
    \<and> (\<forall>cited. evidence_set sub \<subseteq> evidence_set (sub\<lparr>ts_evidence := cited\<rparr>) \<longrightarrow>
        (\<exists>ev'. evaluate_identity_triage (sub\<lparr>ts_evidence := cited\<rparr>) expected accepted artifacts sources = Inr ev'
          \<and> (ce_passed ev \<longrightarrow> ce_passed ev')
          \<and> (evidence_set (sub\<lparr>ts_evidence := cited\<rparr>) = evidence_set sub \<longrightarrow> ev' = ev)))"
proof -
  let ?ev = "\<lambda>sub. triage_evaluation sub expected accepted artifacts sources"
  have 1: "\<not> ce_passed (?ev sub) \<longrightarrow> failed_checks (ce_checks (?ev sub)) \<noteq> []"
    unfolding triage_evaluation_def evaluation_passed failed_checks_Nil by (rule impI)
  have 2: "\<exists>ev'. (Inr (?ev (sub\<lparr>ts_evidence := cited\<rparr>)) :: exc + checkpoint_evaluation) = Inr ev'
      \<and> (ce_passed (?ev sub) \<longrightarrow> ce_passed ev')
      \<and> (evidence_set (sub\<lparr>ts_evidence := cited\<rparr>) = evidence_set sub \<longrightarrow> ev' = ?ev sub)"
    if "evidence_set sub \<subseteq> evidence_set (sub\<lparr>ts_evidence := cited\<rparr>)" for cited
    using triage_monotone [OF that] triage_same
    by (intro exI [of _ "?ev (sub\<lparr>ts_evidence := cited\<rparr>)"] conjI impI refl) (assumption | rule triage_same)+
  show ?thesis
    unfolding triage_run [OF assms] triage_passed [symmetric]
    by (rule exI [of _ "?ev sub"], intro conjI allI refl 1 impI 2)
qed

lemma triage_counts_distinct_evidence_witness:
  "\<exists>ev. evaluate_identity_triage \<lparr>ts_affected_identity = ''SARAH'', ts_classification = ''Account-Compromise'',
      ts_evidence = [\<lparr>er_reference_id = ''e1'', er_source = ''a''\<rparr>, \<lparr>er_reference_id = ''e2'', er_source = ''b''\<rparr>,
        \<lparr>er_reference_id = ''e2 '', er_source = ''B''\<rparr>]\<rparr> ''sarah'' ACCEPTED_CLASSIFICATIONS 2 2 = Inr ev
    \<and> ce_passed ev"
proof -
  let ?sub = "\<lparr>ts_affected_identity = ''SARAH'', ts_classification = ''Account-Compromise'',
      ts_evidence = [\<lparr>er_reference_id = ''e1'', er_source = ''a''\<rparr>, \<lparr>er_reference_id = ''e2'', er_source = ''b''\<rparr>,
        \<lparr>er_reference_id = ''e2 '', er_source = ''B''\<rparr>]\<rparr>"
  have "evidence_set ?sub = {(''e1'', ''a''), (''e2'', ''b'')}" by code_simp
  moreover have "sublist (normalized ''sarah'') (normalized (ts_affected_identity ?sub))" by code_simp
  moreover have "normalized (ts_classification ?sub) \<in> normalized ` set ACCEPTED_CLASSIFICATIONS" by code_simp
  ultimately show ?thesis
    using triage_counts_distinct_evidence [of 2 2 ?sub "''sarah''" ACCEPTED_CLASSIFICATIONS] by auto
qed

text \<open>The five facts the containment verifier looks for, on the module states themselves.\<close>

definition field_of :: "table \<Rightarrow> string \<Rightarrow> string \<Rightarrow> val option" where
  "field_of t i f = (case map_of t i of None \<Rightarrow> None | Some r \<Rightarrow> map_of r f)"

definition contained :: "identity_content \<Rightarrow> endpoint_content \<Rightarrow> bool" where
  "contained c e \<longleftrightarrow> field_of (ic_sessions c) ''sess-red-01'' ''active'' = Some (VBool False)
     \<and> field_of (ic_factors c) ''factor-red-01'' ''active'' = Some (VBool False)
     \<and> (\<exists>n>1. field_of (ic_identities c) ''sarah'' ''credential_version'' = Some (VInt n))
     \<and> field_of (ec_hosts e) ''FIN-WS01'' ''isolated'' = Some (VBool True)
     \<and> field_of (ec_hosts e) ''FIN-WS01'' ''remote_path_enabled'' = Some (VBool False)
     \<and> field_of (ec_hosts e) ''FIN-WS01'' ''controller_visible'' = Some (VBool True)
     \<and> field_of (ec_artifacts e) ''FIN-WS01-discovery-bundle'' ''preserved'' = Some (VBool True)"

text \<open>Every state has the rows the verifier reads, and a credential version that is a number.\<close>

definition verifiable :: "identity_content \<Rightarrow> endpoint_content \<Rightarrow> bool" where
  "verifiable c e \<longleftrightarrow> map_of (ic_sessions c) ''sess-red-01'' \<noteq> None
     \<and> map_of (ic_factors c) ''factor-red-01'' \<noteq> None
     \<and> (\<exists>n. field_of (ic_identities c) ''sarah'' ''credential_version'' = Some (VInt n))
     \<and> map_of (ec_hosts e) ''FIN-WS01'' \<noteq> None
     \<and> map_of (ec_artifacts e) ''FIN-WS01-discovery-bundle'' \<noteq> None"

lemma field_is_row: "field_is (VDict r) k b = Inr (map_of r k = Some (VBool b))"
  by (auto simp: field_is_def get_of_def split: option.splits)

lemma both_Inr: "both (Inr p) (Inr q) = Inr (p \<and> q)"
  by (simp add: both_def)

lemma row_of_identities:
  "row_of (identity_snapshot c) ''sessions'' i = item_of (table_val (ic_sessions c)) i"
  "row_of (identity_snapshot c) ''factors'' i = item_of (table_val (ic_factors c)) i"
  "row_of (identity_snapshot c) ''identities'' i = item_of (table_val (ic_identities c)) i"
  using row_of_identity [of c Sessions] row_of_identity [of c Factors] row_of_identity [of c Identities]
  by simp_all

lemma verifier_answers:
  assumes "verifiable c e"
  shows "\<exists>ev. evaluate_containment (identity_snapshot c) (endpoint_snapshot e) = Inr ev
    \<and> (ce_passed ev \<longleftrightarrow> contained c e)"
proof -
  obtain rs rf ri rh ra n where r: "map_of (ic_sessions c) ''sess-red-01'' = Some rs"
    "map_of (ic_factors c) ''factor-red-01'' = Some rf" "map_of (ic_identities c) ''sarah'' = Some ri"
    "map_of ri ''credential_version'' = Some (VInt n)" "map_of (ec_hosts e) ''FIN-WS01'' = Some rh"
    "map_of (ec_artifacts e) ''FIN-WS01-discovery-bundle'' = Some ra"
    using assms unfolding verifiable_def field_of_def by (auto split: option.splits)
  have above: "bindR (get_of (VDict ri) ''credential_version'' (VInt 0)) above_one = Inr (1 < n)"
    by (simp add: get_of_def above_one_def num_of_def r(4))
  have view: "containment_view (identity_snapshot c) (endpoint_snapshot e) = Inr \<lparr>cv_session = VDict rs,
      cv_factor = VDict rf, cv_identity = VDict ri, cv_host = VDict rh, cv_artifact = VDict ra\<rparr>"
    by (simp add: containment_view_def row_of_identities row_of_endpoint table_lookup r)
  show ?thesis
    unfolding evaluate_containment_def view containment_checks_def
    by (simp add: field_is_row both_Inr above evaluation_passed contained_def field_of_def r)
qed

text \<open>On the snapshots of the identity and endpoint modules the containment verifier answers, and
  passes exactly when the state is contained: session revoked, factor removed, credential rotated, host
  isolated but still visible to the controller, evidence preserved.\<close>

theorem containment_reads_state:
  assumes "verifiable c e"
  shows "\<exists>ev. evaluate_containment (identity_snapshot c) (endpoint_snapshot e) = Inr ev
    \<and> (ce_passed ev \<longleftrightarrow> contained c e)"
  using assms by (rule verifier_answers)

lemma baseline_verifiable:
  "verifiable (identity_baseline_content profile) endpoint_baseline_content"
  by (simp add: verifiable_def identity_baseline_content_def endpoint_baseline_content_def field_of_def map_of_dmerge)

lemma containment_reads_state_witness:
  "\<exists>ev. evaluate_containment (identity_snapshot (identity_baseline_content []))
      (endpoint_snapshot endpoint_baseline_content) = Inr ev \<and> \<not> ce_passed ev"
proof -
  have "\<not> contained (identity_baseline_content []) endpoint_baseline_content"
    by (simp add: contained_def identity_baseline_content_def field_of_def)
  then show ?thesis using containment_reads_state [OF baseline_verifiable] by blast
qed

lemma set_value_run:
  assumes "checkpoint control now = Inr ()" and "map_of (get_table k (is_content m)) i = Some r"
  shows "\<exists>tok m'. set_value k i f v control now m = (Inr tok, m')
    \<and> is_content m' = put_table k (dset i (dset f v r) (get_table k (is_content m))) (is_content m)"
  using assms
  by (simp add: set_value_def checked_ok bindE_run thenE_run save_rollback_def identity_save_def
      change_table_def set_field_def)

lemma reset_credential_run:
  assumes "checkpoint control now = Inr ()" and "map_of (ic_identities (is_content m)) i = Some r"
    and "map_of r ''credential_version'' = Some (VInt n)"
  shows "\<exists>tok m'. identity_reset_credential i control now m = (Inr tok, m')
    \<and> is_content m' = (is_content m)\<lparr>ic_identities :=
        dset i (dset ''credential_version'' (VInt (n + 1)) r) (ic_identities (is_content m))\<rparr>"
  using assms
  by (simp add: identity_reset_credential_def checked_ok bindE_run thenE_run save_rollback_def identity_save_def
      change_table_def set_field_def incr_field_def get_field_def ditem_def vincr_def num_of_def)

lemma isolate_host_run:
  assumes "checkpoint control now = Inr ()" and "map_of (ec_hosts (es_content m)) i = Some r"
  shows "\<exists>tok m'. isolate_host i control now m = (Inr tok, m')
    \<and> es_content m' = (es_content m)\<lparr>ec_hosts := dset i (isolate_row r) (ec_hosts (es_content m))\<rparr>"
  using assms
  by (simp add: isolate_host_def checked_ok bindE_run thenE_run endpoint_capture_def endpoint_change_def
      map_result_def ditem_def)

lemma preserve_artifact_run:
  assumes "checkpoint control now = Inr ()" and "map_of (ec_artifacts (es_content m)) i = Some r"
  shows "\<exists>tok m'. preserve_artifact i control now m = (Inr tok, m')
    \<and> es_content m' = (es_content m)\<lparr>ec_artifacts :=
        dset i (dset ''preserved'' (VBool True) r) (ec_artifacts (es_content m))\<rparr>"
  using assms
  by (simp add: preserve_artifact_def checked_ok bindE_run thenE_run endpoint_capture_def endpoint_change_def
      map_result_def set_field_def)

lemma en_id_entity [simp]: "en_id (entity kind i name role) = i"
  by (simp add: entity_def)

lemma effect_of_run: "m s = (Inr tok, s') \<Longrightarrow> \<exists>r. effect_of m effects s = (Inr r, s')"
  by (simp add: effect_of_def bindE_run)

text \<open>The responder's actions on the identities and on the endpoints, one after the other.\<close>

lemma identity_response:
  assumes "checkpoint control now = Inr ()"
  obtains m1 m2 m3 r1 r2 r3 ri where "revoke_session ps (entity ''session'' ''sess-red-01'' None None) control now (identity_baseline profile)
      = (Inr r1, m1)"
    and "remove_factor ps (entity ''mfa_factor'' ''factor-red-01'' None None) control now m1 = (Inr r2, m2)"
    and "reset_credential ps (entity ''identity'' ''sarah'' None None) control now m2 = (Inr r3, m3)"
    and "is_content m3 = (identity_baseline_content profile)
      \<lparr>ic_sessions := dset ''sess-red-01'' [(''identity_id'', VStr ''sarah''), (''active'', VBool False)]
          (ic_sessions (identity_baseline_content profile)),
       ic_factors := dset ''factor-red-01'' [(''identity_id'', VStr ''sarah''), (''active'', VBool False), (''kind'', VStr ''simulated_push'')]
          (ic_factors (identity_baseline_content profile)),
       ic_identities := dset ''sarah'' (dset ''credential_version'' (VInt 2) ri) (ic_identities (identity_baseline_content profile))\<rparr>"
proof -
  let ?c = "identity_baseline_content profile"
  obtain ri where ri: "map_of (ic_identities ?c) ''sarah'' = Some ri"
    "map_of ri ''credential_version'' = Some (VInt 1)"
    by (simp add: identity_baseline_content_def map_of_dmerge)
  let ?rs = "[(''identity_id'', VStr ''sarah''), (''active'', VBool True)]"
  let ?rf = "[(''identity_id'', VStr ''sarah''), (''active'', VBool True), (''kind'', VStr ''simulated_push'')]"
  have rows: "map_of (ic_sessions ?c) ''sess-red-01'' = Some ?rs" "map_of (ic_factors ?c) ''factor-red-01'' = Some ?rf"
    by (simp_all add: identity_baseline_content_def)
  have base: "is_content (identity_baseline profile) = ?c" by (simp add: identity_baseline_def)
  obtain t1 m1 where 1: "set_value Sessions ''sess-red-01'' ''active'' (VBool False) control now
      (identity_baseline profile) = (Inr t1, m1)" "is_content m1 = ?c\<lparr>ic_sessions := dset ''sess-red-01''
        (dset ''active'' (VBool False) ?rs) (ic_sessions ?c)\<rparr>"
    using set_value_run [OF assms, of Sessions "identity_baseline profile" "''sess-red-01''" ?rs
      "''active''" "VBool False"] rows by (auto simp: base)
  obtain t2 m2 where 2: "set_value Factors ''factor-red-01'' ''active'' (VBool False) control now m1 = (Inr t2, m2)"
      "is_content m2 = (is_content m1)\<lparr>ic_factors := dset ''factor-red-01''
        (dset ''active'' (VBool False) ?rf) (ic_factors ?c)\<rparr>"
    using set_value_run [OF assms, of Factors m1 "''factor-red-01''" ?rf "''active''" "VBool False"] 1(2) rows
    by auto
  obtain t3 m3 where 3: "identity_reset_credential ''sarah'' control now m2 = (Inr t3, m3)"
      "is_content m3 = (is_content m2)\<lparr>ic_identities :=
        dset ''sarah'' (dset ''credential_version'' (VInt 2) ri) (ic_identities ?c)\<rparr>"
    using reset_credential_run [OF assms, of m2 "''sarah''" ri 1] ri 1(2) 2(2) by auto
  have "\<exists>r. revoke_session ps (entity ''session'' ''sess-red-01'' None None) control now (identity_baseline profile) = (Inr r, m1)"
    and "\<exists>r. remove_factor ps (entity ''mfa_factor'' ''factor-red-01'' None None) control now m1 = (Inr r, m2)"
    and "\<exists>r. reset_credential ps (entity ''identity'' ''sarah'' None None) control now m2 = (Inr r, m3)"
    unfolding revoke_session_def remove_factor_def reset_credential_def en_id_entity
    by (rule effect_of_run, rule 1(1) 2(1) 3(1))+
  then show ?thesis using that [of _ m1 _ m2 _ m3 ri] 1(2) 2(2) 3(2) by auto
qed

lemma endpoint_response:
  assumes "checkpoint control now = Inr ()"
  obtains e1 e2 r4 r5 rh ra where "endpoint_isolate ps (entity ''host'' ''FIN-WS01'' None None) control now endpoint_baseline = (Inr r4, e1)"
    and "endpoint_preserve ps (entity ''evidence_artifact'' ''FIN-WS01-discovery-bundle'' None None) control now e1 = (Inr r5, e2)"
    and "es_content e2 = endpoint_baseline_content\<lparr>ec_hosts := dset ''FIN-WS01'' (isolate_row rh) (ec_hosts endpoint_baseline_content),
       ec_artifacts := dset ''FIN-WS01-discovery-bundle'' (dset ''preserved'' (VBool True) ra) (ec_artifacts endpoint_baseline_content)\<rparr>"
proof -
  have base: "es_content endpoint_baseline = endpoint_baseline_content"
    by (simp add: endpoint_baseline_def endpoint_state_of_def)
  obtain rh where rh: "map_of (ec_hosts endpoint_baseline_content) ''FIN-WS01'' = Some rh"
    by (simp add: endpoint_baseline_content_def)
  obtain t4 e1 where 4: "isolate_host ''FIN-WS01'' control now endpoint_baseline = (Inr t4, e1)"
      "es_content e1 = endpoint_baseline_content\<lparr>ec_hosts := dset ''FIN-WS01'' (isolate_row rh)
        (ec_hosts endpoint_baseline_content)\<rparr>"
    using isolate_host_run [OF assms, of endpoint_baseline "''FIN-WS01''" rh] rh by (auto simp: base)
  obtain ra where ra: "map_of (ec_artifacts (es_content e1)) ''FIN-WS01-discovery-bundle'' = Some ra"
    by (simp add: 4(2) endpoint_baseline_content_def)
  obtain t5 e2 where 5: "preserve_artifact ''FIN-WS01-discovery-bundle'' control now e1 = (Inr t5, e2)"
      "es_content e2 = (es_content e1)\<lparr>ec_artifacts := dset ''FIN-WS01-discovery-bundle''
        (dset ''preserved'' (VBool True) ra) (ec_artifacts (es_content e1))\<rparr>"
    using preserve_artifact_run [OF assms ra] by blast
  have "\<exists>r. endpoint_isolate ps (entity ''host'' ''FIN-WS01'' None None) control now endpoint_baseline = (Inr r, e1)"
    and "\<exists>r. endpoint_preserve ps (entity ''evidence_artifact'' ''FIN-WS01-discovery-bundle'' None None) control now e1 = (Inr r, e2)"
    unfolding endpoint_isolate_def endpoint_preserve_def en_id_entity
    by (rule effect_of_run, rule 4(1) 5(1))+
  then show ?thesis using that [of _ e1 _ e2 ra rh] 4(2) 5(2) by auto
qed

text \<open>The responder actions achieve what the verifier asks: from the baseline, with any reviewed
  profile, revoking the session, removing the factor and rotating the credential, isolating the host and
  preserving the bundle all succeed, and the second checkpoint then passes; before them it does not.\<close>

theorem containment_actions_pass_dp2:
  assumes "checkpoint control now = Inr ()"
  shows "\<exists>m1 m2 m3 e1 e2 r1 r2 r3 r4 r5 ev0 ev.
    revoke_session ps (entity ''session'' ''sess-red-01'' None None) control now (identity_baseline profile)
      = (Inr r1, m1)
    \<and> remove_factor ps (entity ''mfa_factor'' ''factor-red-01'' None None) control now m1 = (Inr r2, m2)
    \<and> reset_credential ps (entity ''identity'' ''sarah'' None None) control now m2 = (Inr r3, m3)
    \<and> endpoint_isolate ps (entity ''host'' ''FIN-WS01'' None None) control now endpoint_baseline = (Inr r4, e1)
    \<and> endpoint_preserve ps (entity ''evidence_artifact'' ''FIN-WS01-discovery-bundle'' None None) control now e1
        = (Inr r5, e2)
    \<and> evaluate_containment (identity_snapshot (identity_baseline_content profile))
        (endpoint_snapshot endpoint_baseline_content) = Inr ev0 \<and> \<not> ce_passed ev0
    \<and> evaluate_containment (identity_snapshot (is_content m3)) (endpoint_snapshot (es_content e2)) = Inr ev
    \<and> ce_passed ev"
proof -
  let ?c = "identity_baseline_content profile"
  obtain m1 m2 m3 r1 r2 r3 ri where i:
      "revoke_session ps (entity ''session'' ''sess-red-01'' None None) control now (identity_baseline profile) = (Inr r1, m1)"
      "remove_factor ps (entity ''mfa_factor'' ''factor-red-01'' None None) control now m1 = (Inr r2, m2)"
      "reset_credential ps (entity ''identity'' ''sarah'' None None) control now m2 = (Inr r3, m3)"
    and m3: "is_content m3 = ?c
      \<lparr>ic_sessions := dset ''sess-red-01'' [(''identity_id'', VStr ''sarah''), (''active'', VBool False)] (ic_sessions ?c),
       ic_factors := dset ''factor-red-01'' [(''identity_id'', VStr ''sarah''), (''active'', VBool False), (''kind'', VStr ''simulated_push'')]
          (ic_factors ?c),
       ic_identities := dset ''sarah'' (dset ''credential_version'' (VInt 2) ri) (ic_identities ?c)\<rparr>"
    by (rule identity_response [OF assms])
  obtain e1 e2 r4 r5 rh ra where e:
      "endpoint_isolate ps (entity ''host'' ''FIN-WS01'' None None) control now endpoint_baseline = (Inr r4, e1)"
      "endpoint_preserve ps (entity ''evidence_artifact'' ''FIN-WS01-discovery-bundle'' None None) control now e1 = (Inr r5, e2)"
    and e2: "es_content e2 = endpoint_baseline_content\<lparr>ec_hosts := dset ''FIN-WS01'' (isolate_row rh) (ec_hosts endpoint_baseline_content),
       ec_artifacts := dset ''FIN-WS01-discovery-bundle'' (dset ''preserved'' (VBool True) ra) (ec_artifacts endpoint_baseline_content)\<rparr>"
    by (rule endpoint_response [OF assms])
  have c: "contained (is_content m3) (es_content e2)"
    by (simp add: contained_def field_of_def m3 e2 isolate_row_def identity_baseline_content_def)
  then have v: "verifiable (is_content m3) (es_content e2)"
    by (auto simp: contained_def verifiable_def field_of_def split: option.splits)
  obtain ev where ev: "evaluate_containment (identity_snapshot (is_content m3)) (endpoint_snapshot (es_content e2)) = Inr ev"
      "ce_passed ev" using verifier_answers [OF v] c by blast
  have n: "\<not> contained ?c endpoint_baseline_content"
    by (simp add: contained_def identity_baseline_content_def field_of_def)
  obtain ev0 where ev0: "evaluate_containment (identity_snapshot ?c) (endpoint_snapshot endpoint_baseline_content) = Inr ev0"
      "\<not> ce_passed ev0" using verifier_answers [OF baseline_verifiable] n by blast
  show ?thesis using i e ev ev0 by blast
qed

lemma containment_actions_pass_dp2_witness:
  "\<exists>m1 r1. revoke_session [] (entity ''session'' ''sess-red-01'' None None) open_control 0 (identity_baseline [])
      = (Inr r1, m1)"
  using containment_actions_pass_dp2 [OF open_checkpoint] by blast

end
