(* ===== verification/Support.thy ===== *)
theory Support
  imports Checkpoints Scenario
begin

text \<open>
  \<^verbatim>\<open>orchestrator/support.py\<close>: the index of support requests and responses. Events are parsed JSON and may
  have any shape; identifiers are values, compared as Python compares dictionary keys.
\<close>

section \<open>Constants\<close>

definition LEARNER_ROLES :: "string list" where
  "LEARNER_ROLES = [''incident_lead'', ''soc_analyst'', ''identity_responder'', ''endpoint_responder'',
     ''cloud_responder'']"
definition OBJECTIVE_IDS :: "string list" where
  "OBJECTIVE_IDS = map (\<lambda>n. ''LO'' @ nat_str n) [1..<6]"
definition KINDS :: "string list" where
  "KINDS = [''hint'', ''clarification'', ''platform_issue'']"
definition COMPONENT :: string where "COMPONENT = ''exercise-support''"
definition REQUEST :: string where "REQUEST = ''exercise.support.requested''"
definition RESPONSE :: string where "RESPONSE = ''exercise.support.responded''"
definition MAX_REQUESTS :: nat where "MAX_REQUESTS = 50"
definition MAX_ACTOR_REQUESTS :: int where "MAX_ACTOR_REQUESTS = 10"

section \<open>Python on parsed JSON\<close>

text \<open>\<open>v[k1][k2]...\<close>; \<open>v in {strings}\<close>, which hashes \<open>v\<close>; \<open>a or b or ...\<close>, stopping at the first that holds.\<close>

fun path :: "val \<Rightarrow> string list \<Rightarrow> exc + val" where
  "path v [] = Inr v"
| "path v (k # ks) = bindR (item_of v k) (\<lambda>w. path w ks)"

fun unhashable :: "val \<Rightarrow> bool" where
  "unhashable (VList xs) = True"
| "unhashable (VDict d) = True"
| "unhashable (VTuple xs) = list_ex unhashable xs"
| "unhashable v = False"

definition hashed :: "val \<Rightarrow> 'a \<Rightarrow> exc + 'a" where
  "hashed v x = (if unhashable v then Inl (TypeError (''unhashable type: '' @ quoted (type_name v))) else Inr x)"

definition in_strings :: "val \<Rightarrow> string list \<Rightarrow> exc + bool" where
  "in_strings v ss = hashed v (case v of VStr s \<Rightarrow> s \<in> set ss | _ \<Rightarrow> False)"

fun any_of :: "(exc + bool) list \<Rightarrow> exc + bool" where
  "any_of [] = Inr False"
| "any_of (c # cs) = bindR c (\<lambda>b. if b then Inr True else any_of cs)"

definition notR :: "exc + bool \<Rightarrow> exc + bool" where
  "notR r = bindR r (\<lambda>b. Inr (\<not> b))"

definition isR :: "exc + val \<Rightarrow> val \<Rightarrow> exc + bool" where
  "isR r w = bindR r (\<lambda>v. Inr (val_eq v w))"

definition notinR :: "exc + val \<Rightarrow> string list \<Rightarrow> exc + bool" where
  "notinR r ss = bindR r (\<lambda>v. notR (in_strings v ss))"

text \<open>\<open>v <= n\<close>.\<close>

definition at_most :: "val \<Rightarrow> int \<Rightarrow> exc + bool" where
  "at_most v n = (case num_of v of Some k \<Rightarrow> Inr (k \<le> n)
   | None \<Rightarrow> Inl (TypeError (quoted ''<='' @ '' not supported between instances of '' @ quoted (type_name v)
       @ '' and '' @ quoted ''int'')))"

text \<open>A dictionary keyed by values.\<close>

definition vfind :: "val \<Rightarrow> (val \<times> 'a) list \<Rightarrow> 'a option" where
  "vfind k d = map_option snd (List.find (\<lambda>kv. val_eq (fst kv) k) d)"

definition vmem :: "val \<Rightarrow> val list \<Rightarrow> bool" where
  "vmem v vs \<longleftrightarrow> list_ex (\<lambda>w. val_eq w v) vs"

text \<open>The number of characters of UTF-8 text, and the check for control characters.\<close>

definition char_count :: "string \<Rightarrow> nat" where
  "char_count s = length (filter (\<lambda>c. of_char c < (128::nat) \<or> 192 \<le> (of_char c :: nat)) s)"

definition bad_control :: "char \<Rightarrow> bool" where
  "bad_control c \<longleftrightarrow> (of_char c :: nat) < 32 \<and> c \<notin> set [CHR 0x0A, CHR 0x0D, CHR 0x09]"

section \<open>Fields\<close>

definition support_text :: "val \<Rightarrow> string \<Rightarrow> nat \<Rightarrow> exc + string" where
  "support_text v field maximum = (case v of
     VStr s \<Rightarrow> if strip s = [] \<or> maximum < char_count s \<or> list_ex bad_control s
       then Inl (ValueError (''invalid support '' @ field)) else Inr (strip s)
   | _ \<Rightarrow> Inl (ValueError (''invalid support '' @ field)))"

definition as_string :: "val \<Rightarrow> string option" where
  "as_string v = (case v of VStr s \<Rightarrow> Some s | _ \<Rightarrow> None)"

definition is_objective :: "val \<Rightarrow> bool" where
  "is_objective v \<longleftrightarrow> (case v of VStr s \<Rightarrow> s \<in> set OBJECTIVE_IDS | _ \<Rightarrow> False)"

definition support_objectives :: "val \<Rightarrow> exc + string list" where
  "support_objectives v = (case v of
     VList xs \<Rightarrow> if 1 \<le> length xs \<and> length xs \<le> 5 \<and> list_all is_objective xs
         \<and> distinct (List.map_filter as_string xs)
       then Inr (sort (List.map_filter as_string xs)) else Inl (ValueError ''invalid support objective scope'')
   | _ \<Rightarrow> Inl (ValueError ''invalid support objective scope''))"

section \<open>The index\<close>

record support_response =
  sr_event_id :: val
  sr_kind :: val
  sr_text :: string
  sr_objective_ids :: "string list"
  sr_responder_id :: val
  sr_responder_role :: val
  sr_responded_at :: val
  sr_elapsed :: int
  sr_run_state :: val

record support_record =
  su_request_id :: val
  su_requester_id :: val
  su_requester_role :: val
  su_objective_id :: string
  su_question :: string
  su_requested_at :: val
  su_elapsed :: int
  su_run_state :: val
  su_response :: "support_response option"

text \<open>The local variables of \<open>support_index\<close>.\<close>

record support_state =
  st_records :: "(val \<times> support_record) list"
  st_keys :: "(string \<times> val \<times> string) list"
  st_counts :: "(val \<times> int) list"
  st_pending :: "val list"
  st_scope :: "(val \<times> val) option"
  st_last :: int

definition start_index :: support_state where
  "start_index = \<lparr>st_records = [], st_keys = [], st_counts = [], st_pending = [], st_scope = None, st_last = 0\<rparr>"

definition fail_if :: "exc + bool \<Rightarrow> string \<Rightarrow> exc + unit" where
  "fail_if r message = bindR r (\<lambda>b. if b then Inl (ValueError message) else Inr ())"

definition scope_differs :: "(val \<times> val) option \<Rightarrow> val \<times> val \<Rightarrow> bool" where
  "scope_differs scope es = (case scope of None \<Rightarrow> False
     | Some (e, r) \<Rightarrow> \<not> (val_eq e (fst es) \<and> val_eq r (snd es)))"

text \<open>The checks common to requests and responses; they give the data, its second and the text.\<close>

definition provenance :: "support_state \<Rightarrow> val \<Rightarrow> exc + (row \<times> int \<times> string)" where
  "provenance st ev =
    bindR (path ev [''data'']) (\<lambda>data.
    bindR (path ev [''actor'']) (\<lambda>_.
    bindR (path ev [''exercise_id'']) (\<lambda>exercise.
    bindR (path ev [''run_id'']) (\<lambda>run.
    bindR (fail_if (any_of
       [Inr (scope_differs (st_scope st) (exercise, run)),
        bindR (path ev [''sequence'']) (\<lambda>n. at_most n (st_last st)),
        notR (isR (path ev [''source'', ''component'']) (VStr COMPONENT)),
        notR (isR (path ev [''visibility'']) (VStr ''facilitator'')),
        notR (isR (path ev [''phase'']) (VStr ''control'')),
        notR (isR (path ev [''outcome'', ''status'']) (VStr ''success'')),
        bindR (path ev [''safety'', ''dry_run'']) (\<lambda>v. Inr (v \<noteq> VBool False)),
        Inr (case data of VDict d \<Rightarrow> False | _ \<Rightarrow> True)]) ''invalid support provenance'') (\<lambda>_.
    case data of
      VDict d \<Rightarrow> (case get_or d ''elapsed_seconds'' VNone of
          VInt n \<Rightarrow> if n < 0 then Inl (ValueError ''invalid support exercise time'')
            else bindR (support_text (get_or d ''text'' VNone) ''text'' 1024) (\<lambda>content. Inr (d, n, content))
        | _ \<Rightarrow> Inl (ValueError ''invalid support exercise time''))
    | _ \<Rightarrow> Inl (ValueError ''invalid support provenance''))))))"

definition ev_get :: "val \<Rightarrow> string \<Rightarrow> string \<Rightarrow> exc + val" where
  "ev_get ev part k = bindR (path ev [part]) (\<lambda>v. get_of v k VNone)"

definition bump :: "val \<Rightarrow> (val \<times> int) list \<Rightarrow> (val \<times> int) list" where
  "bump k d = (case vfind k d of None \<Rightarrow> d @ [(k, 1)]
     | Some n \<Rightarrow> map (\<lambda>(j, m). if val_eq j k then (j, n + 1) else (j, m)) d)"

definition count_of :: "val \<Rightarrow> (val \<times> int) list \<Rightarrow> int" where
  "count_of k d = (case vfind k d of None \<Rightarrow> 0 | Some n \<Rightarrow> n)"

definition index_request :: "support_state \<Rightarrow> val \<Rightarrow> row \<Rightarrow> int \<Rightarrow> string
    \<Rightarrow> exc + (support_state \<times> (string \<times> val \<times> string))" where
  "index_request st ev data elapsed content =
    (let objective = get_or data ''objective_id'' VNone in
    bindR (fail_if (any_of
       [Inr (\<not> keys_are data [''request_key'', ''objective_id'', ''text'', ''elapsed_seconds'', ''run_state'']),
        notR (isR (path ev [''actor'', ''type'']) (VStr ''participant'')),
        notinR (ev_get ev ''actor'' ''role'') LEARNER_ROLES,
        notR (isR (path ev [''source'', ''kind'']) (VStr ''participant'')),
        Inr (\<not> is_objective objective),
        notR (isR (get_of ev ''objective_ids'' VNone) (VList [objective])),
        notinR (ditem data ''run_state'') [''running'', ''paused''],
        notR (isR (path ev [''action'']) (VStr ''exercise.support.request'')),
        bindR (path ev [''target'']) (\<lambda>t. bindR (path ev [''run_id'']) (\<lambda>r.
          Inr (\<not> val_eq t (VDict [(''type'', VStr ''support_queue''), (''id'', r)])))),
        bindR (path ev [''actor'', ''id'']) (\<lambda>a. hashed a (vmem a (st_pending st))),
        bindR (path ev [''event_id'']) (\<lambda>e. hashed e (vfind e (st_records st) \<noteq> None))])
      ''invalid support request'') (\<lambda>_.
    bindR (path ev [''actor'', ''id'']) (\<lambda>actor.
    bindR (bindR (ditem data ''request_key'') (\<lambda>k. support_text k ''retry key'' 128)) (\<lambda>retry.
    bindR (hashed actor ()) (\<lambda>_.
    let counts = bump actor (st_counts st) in
    bindR (fail_if (Inr (MAX_ACTOR_REQUESTS < count_of actor counts
        \<or> MAX_REQUESTS \<le> length (st_records st))) ''support request limit exceeded'') (\<lambda>_.
    bindR (path ev [''event_id'']) (\<lambda>event_id.
    bindR (path ev [''actor'', ''role'']) (\<lambda>role.
    bindR (path ev [''timestamp'']) (\<lambda>timestamp.
    bindR (ditem data ''run_state'') (\<lambda>run_state.
      Inr (st\<lparr>st_counts := counts, st_pending := actor # st_pending st,
          st_records := st_records st @ [(event_id, \<lparr>su_request_id = event_id, su_requester_id = actor,
            su_requester_role = role, su_objective_id = (case objective of VStr s \<Rightarrow> s | _ \<Rightarrow> []),
            su_question = content, su_requested_at = timestamp, su_elapsed = elapsed,
            su_run_state = run_state, su_response = None\<rparr>)]\<rparr>,
        (REQUEST, actor, retry))))))))))))"

definition index_response :: "support_state \<Rightarrow> val \<Rightarrow> row \<Rightarrow> int \<Rightarrow> string
    \<Rightarrow> exc + (support_state \<times> (string \<times> val \<times> string))" where
  "index_response st ev data elapsed content =
    (let request_id = get_or data ''request_id'' VNone; kind = get_or data ''kind'' VNone in
    bindR (hashed request_id (vfind request_id (st_records st))) (\<lambda>found.
    bindR (fail_if (any_of
       [Inr (\<not> keys_are data [''request_id'', ''response_key'', ''kind'', ''text'', ''elapsed_seconds'', ''run_state'']),
        Inr (case found of None \<Rightarrow> True | Some r \<Rightarrow> su_response r \<noteq> None),
        notR (isR (path ev [''actor'', ''type'']) (VStr ''facilitator'')),
        notinR (ev_get ev ''actor'' ''role'') [''facilitator'', ''technical_operator''],
        bindR (isR (path ev [''actor'', ''role'']) (VStr ''technical_operator''))
          (\<lambda>b. Inr (b \<and> \<not> val_eq kind (VStr ''platform_issue''))),
        notR (isR (path ev [''source'', ''kind'']) (VStr ''facilitator'')),
        notR (in_strings kind KINDS),
        notinR (ditem data ''run_state'') [''running'', ''paused'', ''stopped''],
        bindR (isR (ditem data ''run_state'') (VStr ''stopped''))
          (\<lambda>b. Inr (b \<and> \<not> val_eq kind (VStr ''platform_issue''))),
        Inr (case found of None \<Rightarrow> True | Some r \<Rightarrow> elapsed < su_elapsed r),
        notR (isR (path ev [''action'']) (VStr ''exercise.support.respond'')),
        notR (isR (path ev [''target'']) (VDict [(''type'', VStr ''support_request''), (''id'', request_id)])),
        notR (isR (path ev [''correlation_ids'']) (VList [request_id]))])
      ''invalid support response'') (\<lambda>_.
    bindR (bindR (get_of ev ''objective_ids'' VNone) support_objectives) (\<lambda>scope_ids.
    bindR (path ev [''actor'', ''id'']) (\<lambda>actor.
    bindR (bindR (ditem data ''response_key'') (\<lambda>k. support_text k ''retry key'' 128)) (\<lambda>retry.
    bindR (case found of None \<Rightarrow> Inl (TypeError []) | Some r \<Rightarrow>
        if vmem (su_requester_id r) (st_pending st) then Inr r else Inl (KeyError [])) (\<lambda>r.
    bindR (path ev [''event_id'']) (\<lambda>event_id.
    bindR (path ev [''actor'', ''role'']) (\<lambda>role.
    bindR (path ev [''timestamp'']) (\<lambda>timestamp.
    bindR (ditem data ''run_state'') (\<lambda>run_state.
    let response = \<lparr>sr_event_id = event_id, sr_kind = kind, sr_text = content, sr_objective_ids = scope_ids,
      sr_responder_id = actor, sr_responder_role = role, sr_responded_at = timestamp,
      sr_elapsed = elapsed, sr_run_state = run_state\<rparr> in
      Inr (st\<lparr>st_pending := filter (\<lambda>p. \<not> val_eq p (su_requester_id r)) (st_pending st),
          st_records := map (\<lambda>(k, x). if val_eq k request_id then (k, x\<lparr>su_response := Some response\<rparr>) else (k, x))
            (st_records st)\<rparr>,
        (RESPONSE, actor, retry)))))))))))))"

definition key_seen :: "string \<times> val \<times> string \<Rightarrow> (string \<times> val \<times> string) list \<Rightarrow> bool" where
  "key_seen key keys \<longleftrightarrow> list_ex (\<lambda>(t, a, k). t = fst key \<and> val_eq a (fst (snd key)) \<and> k = snd (snd key)) keys"

text \<open>One round of the loop.\<close>

definition index_support :: "support_state \<Rightarrow> val \<Rightarrow> val \<Rightarrow> exc + support_state" where
  "index_support st ev ty =
    bindR (provenance st ev) (\<lambda>(data, elapsed, content).
    bindR (path ev [''exercise_id'']) (\<lambda>exercise.
    bindR (path ev [''run_id'']) (\<lambda>run.
    bindR (bindR (path ev [''sequence'']) (\<lambda>v. case num_of v of Some n \<Rightarrow> Inr n | None \<Rightarrow> Inl (TypeError []))) (\<lambda>n.
    let st1 = st\<lparr>st_last := n,
      st_scope := (case st_scope st of None \<Rightarrow> Some (exercise, run) | Some s \<Rightarrow> Some s)\<rparr> in
    bindR (if val_eq ty (VStr REQUEST) then index_request st1 ev data elapsed content
           else index_response st1 ev data elapsed content) (\<lambda>(st2, key).
    bindR (hashed (fst (snd key)) ()) (\<lambda>_.
    if key_seen key (st_keys st2) then Inl (ValueError ''duplicate support retry key'')
    else Inr (st2\<lparr>st_keys := key # st_keys st2\<rparr>)))))))"

definition index_event :: "support_state \<Rightarrow> val \<Rightarrow> exc + support_state" where
  "index_event st ev =
    bindR (path ev [''event_type'']) (\<lambda>ty. bindR (in_strings ty [REQUEST, RESPONSE]) (\<lambda>support.
    if support then index_support st ev ty
    else bindR (isR (path ev [''source'', ''component'']) (VStr COMPONENT)) (\<lambda>ours.
        if ours then Inl (ValueError ''unknown support event type'') else Inr st)))"

fun index_events :: "support_state \<Rightarrow> val list \<Rightarrow> exc + support_state" where
  "index_events st [] = Inr st"
| "index_events st (ev # evs) = bindR (index_event st ev) (\<lambda>st'. index_events st' evs)"

definition support_index :: "val list \<Rightarrow> exc + support_record list" where
  "support_index events = bindR (index_events start_index events) (\<lambda>st. Inr (map snd (st_records st)))"

section \<open>What a participant sees\<close>

definition response_row :: "support_response \<Rightarrow> row" where
  "response_row r = [(''event_id'', sr_event_id r), (''kind'', sr_kind r), (''text'', VStr (sr_text r)),
     (''objective_ids'', VList (map VStr (sr_objective_ids r))), (''responded_at'', sr_responded_at r),
     (''elapsed_seconds'', VInt (sr_elapsed r)), (''run_state'', sr_run_state r)]"

definition participant_row :: "support_record \<Rightarrow> row" where
  "participant_row r = [(''request_id'', su_request_id r), (''objective_id'', VStr (su_objective_id r)),
     (''question'', VStr (su_question r)), (''requested_at'', su_requested_at r),
     (''elapsed_seconds'', VInt (su_elapsed r)), (''run_state'', su_run_state r),
     (''response'', case su_response r of None \<Rightarrow> VNone | Some x \<Rightarrow> VDict (response_row x))]"

definition participant_records :: "support_record list \<Rightarrow> val \<Rightarrow> row list" where
  "participant_records records actor_id =
    map participant_row (filter (\<lambda>r. val_eq (su_requester_id r) actor_id) records)"

section \<open>When a check succeeds\<close>

lemma val_eq_VStr [simp]: "val_eq v (VStr s) \<longleftrightarrow> v = VStr s"
  by (cases v) (auto simp: num_of_def)

lemma hashed_Inr [simp]: "hashed v x = Inr y \<longleftrightarrow> \<not> unhashable v \<and> y = x"
  by (auto simp: hashed_def)

lemma fail_if_Inr [simp]: "fail_if r m = Inr u \<longleftrightarrow> r = Inr False"
  by (cases r) (auto simp: fail_if_def)

lemma any_of_False: "any_of cs = Inr False \<longleftrightarrow> list_all (\<lambda>c. c = Inr False) cs"
  by (induction cs) auto

lemma notR_False [simp]: "notR r = Inr False \<longleftrightarrow> r = Inr True"
  by (cases r) (auto simp: notR_def)

end
