(* ===== verification/SupportProps.thy ===== *)
theory SupportProps
  imports Support
begin

text \<open>
  What an accepted support history satisfies: limits, one open request per person, answers in order, and
  what is released to a participant.
\<close>

section \<open>Equality of hashable values\<close>

text \<open>Two hashable values are equal in Python exactly when they agree once booleans are read as integers.\<close>

fun plain :: "val \<Rightarrow> val" where
  "plain (VBool b) = VInt (if b then 1 else 0)"
| "plain (VTuple xs) = VTuple (map plain xs)"
| "plain v = v"

lemma val_eq_plain: "\<not> unhashable v \<Longrightarrow> val_eq v w \<longleftrightarrow> \<not> unhashable w \<and> plain v = plain w"
proof (induction v arbitrary: w rule: plain.induct)
  case (2 xs)
  show ?case
  proof (cases w)
    case (VTuple ys)
    have xs: "\<And>x. x \<in> set xs \<Longrightarrow> \<not> unhashable x" using 2(2) by (auto simp: list_ex_iff)
    have "list_all2 val_eq xs ys \<longleftrightarrow> list_all2 (\<lambda>x y. \<not> unhashable y \<and> plain x = plain y) xs ys"
      by (intro list.rel_cong refl) (use 2(1) xs in blast)
    also have "\<dots> \<longleftrightarrow> \<not> list_ex unhashable ys \<and> map plain xs = map plain ys"
      by (induction xs ys rule: list_induct2') auto
    finally show ?thesis by (simp add: VTuple)
  qed auto
qed (case_tac w; auto simp: num_of_def split: if_splits)+

section \<open>The invariant of the index\<close>

definition is_open :: "support_record \<Rightarrow> bool" where
  "is_open r \<longleftrightarrow> su_response r = None"

definition answer_ok :: "support_record \<Rightarrow> bool" where
  "answer_ok r \<longleftrightarrow> (case su_response r of None \<Rightarrow> True | Some x \<Rightarrow>
     su_elapsed r \<le> sr_elapsed x \<and> sr_objective_ids x \<noteq> [] \<and> set (sr_objective_ids x) \<subseteq> set OBJECTIVE_IDS
     \<and> distinct (sr_objective_ids x) \<and> in_strings (sr_kind x) KINDS = Inr True)"

definition record_ok :: "support_record \<Rightarrow> bool" where
  "record_ok r \<longleftrightarrow> \<not> unhashable (su_requester_id r) \<and> su_objective_id r \<in> set OBJECTIVE_IDS \<and> 0 \<le> su_elapsed r
     \<and> answer_ok r"

definition by_requester :: "val \<Rightarrow> (val \<times> support_record) list \<Rightarrow> support_record list" where
  "by_requester a d = filter (\<lambda>r. plain (su_requester_id r) = plain a) (map snd d)"

definition counts_ok :: "(val \<times> int) list \<Rightarrow> bool" where
  "counts_ok d \<longleftrightarrow> (\<forall>k\<in>fst ` set d. \<not> unhashable k) \<and> distinct (map (plain \<circ> fst) d)"

definition index_inv :: "support_state \<Rightarrow> bool" where
  "index_inv st \<longleftrightarrow> length (st_records st) \<le> MAX_REQUESTS
     \<and> (\<forall>(k, r)\<in>set (st_records st). \<not> unhashable k \<and> record_ok r)
     \<and> distinct (map (plain \<circ> fst) (st_records st))
     \<and> (\<forall>p\<in>set (st_pending st). \<not> unhashable p)
     \<and> (\<forall>r\<in>snd ` set (st_records st). is_open r \<longrightarrow> plain (su_requester_id r) \<in> plain ` set (st_pending st))
     \<and> distinct (map (plain \<circ> su_requester_id \<circ> snd) (filter (is_open \<circ> snd) (st_records st)))
     \<and> counts_ok (st_counts st)
     \<and> (\<forall>a. \<not> unhashable a \<longrightarrow> int (length (by_requester a (st_records st))) = count_of a (st_counts st)
          \<and> count_of a (st_counts st) \<le> MAX_ACTOR_REQUESTS)"

lemma vfind_plain:
  assumes "\<forall>k\<in>fst ` set d. \<not> unhashable k" and "\<not> unhashable a"
  shows "vfind a d = map_of (map (\<lambda>(k, x). (plain k, x)) d) (plain a)"
  using assms by (induction d) (auto simp: vfind_def val_eq_plain)

lemma count_bump:
  assumes "counts_ok d" and "\<not> unhashable k"
  shows "counts_ok (bump k d)
    \<and> (\<forall>a. \<not> unhashable a \<longrightarrow> count_of a (bump k d) = count_of a d + (if plain a = plain k then 1 else 0))"
proof (cases "vfind k d")
  case None
  let ?m = "map (\<lambda>(k, x). (plain k, x :: int))"
  have keys: "\<forall>k\<in>fst ` set d. \<not> unhashable k" using assms(1) by (simp add: counts_ok_def)
  have none: "map_of (?m d) (plain k) = None" using None vfind_plain [OF keys assms(2)] by simp
  then have fresh: "plain k \<notin> (plain \<circ> fst) ` set d" by (force simp: map_of_eq_None_iff)
  have b: "bump k d = d @ [(k, 1)]" using None by (simp add: bump_def)
  have keys': "\<forall>k\<in>fst ` set (bump k d). \<not> unhashable k" using keys assms(2) by (auto simp: b)
  have "counts_ok (bump k d)" using assms(1) keys' fresh by (auto simp: counts_ok_def b image_comp)
  moreover have "count_of a (bump k d) = count_of a d + (if plain a = plain k then 1 else 0)"
    if "\<not> unhashable a" for a
    using vfind_plain [OF keys that] vfind_plain [OF keys' that] none
    by (auto simp: count_of_def b map_add_def split: option.splits)
  ultimately show ?thesis by blast
next
  case (Some n)
  let ?m = "map (\<lambda>(k, x). (plain k, x :: int))"
  have keys: "\<forall>k\<in>fst ` set d. \<not> unhashable k" using assms(1) by (simp add: counts_ok_def)
  have b: "bump k d = map (\<lambda>(j, m). if val_eq j k then (j, n + 1) else (j, m)) d"
    using Some by (simp add: bump_def)
  have fsts: "map fst (bump k d) = map fst d" by (auto simp: b)
  then have keys': "\<forall>k\<in>fst ` set (bump k d). \<not> unhashable k" using keys by (metis list.set_map)
  have "map (plain \<circ> fst) (bump k d) = map (plain \<circ> fst) d" using fsts by (metis map_map)
  then have ok: "counts_ok (bump k d)" using assms(1) keys' by (simp add: counts_ok_def)
  have n: "map_of (?m d) (plain k) = Some n" using Some vfind_plain [OF keys assms(2)] by simp
  have upd: "map_of (?m (map (\<lambda>(j, m). if val_eq j k then (j, n + 1) else (j, m)) e)) x
      = (if x = plain k \<and> map_of (?m e) x \<noteq> None then Some (n + 1) else map_of (?m e) x)"
    if "\<forall>k\<in>fst ` set e. \<not> unhashable k" for e x
    using that assms(2) by (induction e) (auto simp: val_eq_plain split: if_splits)
  have "count_of a (bump k d) = count_of a d + (if plain a = plain k then 1 else 0)"
    if "\<not> unhashable a" for a
    using vfind_plain [OF keys that] vfind_plain [OF keys' that] n upd [OF keys, of "plain a"]
    by (simp add: count_of_def b)
  then show ?thesis using ok by blast
qed

section \<open>What an accepted event does\<close>

text \<open>The new record of a request, and the answer written by a response.\<close>

definition asked :: "support_state \<Rightarrow> val \<Rightarrow> val \<Rightarrow> support_record \<Rightarrow> support_state" where
  "asked st request_id actor r = st\<lparr>st_counts := bump actor (st_counts st),
     st_pending := actor # st_pending st, st_records := st_records st @ [(request_id, r)]\<rparr>"

definition answered :: "support_state \<Rightarrow> val \<Rightarrow> support_record \<Rightarrow> support_response \<Rightarrow> support_state" where
  "answered st request_id r response = st\<lparr>st_pending := filter (\<lambda>p. \<not> val_eq p (su_requester_id r)) (st_pending st),
     st_records := map (\<lambda>(k, x). if val_eq k request_id then (k, x\<lparr>su_response := Some response\<rparr>) else (k, x))
       (st_records st)\<rparr>"

lemma index_request_Inr:
  assumes "index_request st ev data elapsed content = Inr (st', key)"
  obtains request_id actor r where "st' = asked st request_id actor r"
    and "su_request_id r = request_id" and "su_requester_id r = actor"
    and "su_response r = None" and "su_elapsed r = elapsed"
    and "\<not> unhashable actor" and "\<not> unhashable request_id"
    and "\<not> vmem actor (st_pending st)" and "vfind request_id (st_records st) = None"
    and "su_objective_id r \<in> set OBJECTIVE_IDS"
    and "count_of actor (bump actor (st_counts st)) \<le> MAX_ACTOR_REQUESTS"
    and "length (st_records st) < MAX_REQUESTS"
  using assms unfolding index_request_def Let_def
  apply (elim bindR_InrE)
  apply (simp only: fail_if_Inr any_of_False list.pred_inject notR_False)
  apply (elim conjE)
  apply (rule that [unfolded asked_def])
             apply (drule sum.inject(2) [THEN iffD1], drule prod.inject [THEN iffD1], elim conjE, erule sym)
            apply (auto simp: is_objective_def not_less not_le split: val.splits)
  done

lemma pick_Inr: "(case found of None \<Rightarrow> Inl e | Some r \<Rightarrow> if P r then Inr r else Inl e') = Inr x
    \<longleftrightarrow> found = Some x \<and> P x"
  by (auto split: option.splits)

lemma index_response_Inr:
  assumes "index_response st ev data elapsed content = Inr (st', key)"
  obtains request_id r response where "st' = answered st request_id r response"
    and "vfind request_id (st_records st) = Some r" and "\<not> unhashable request_id"
    and "su_response r = None" and "su_elapsed r \<le> elapsed" and "sr_elapsed response = elapsed"
    and "\<exists>v. support_objectives v = Inr (sr_objective_ids response)"
    and "in_strings (sr_kind response) KINDS = Inr True"
    and "vmem (su_requester_id r) (st_pending st)"
  using assms unfolding index_response_def Let_def
  apply (elim bindR_InrE)
  apply (simp only: fail_if_Inr any_of_False list.pred_inject notR_False hashed_Inr)
  apply (elim conjE)
  apply (simp only: pick_Inr)
  apply (elim conjE)
  apply (rule that [unfolded answered_def])
  apply (drule sum.inject(2) [THEN iffD1], drule prod.inject [THEN iffD1], elim conjE, erule sym)
  apply (auto simp: not_less)
  done

section \<open>Preservation\<close>

lemma invD:
  assumes "index_inv st"
  shows "\<forall>k\<in>fst ` set (st_records st). \<not> unhashable k"
    and "(k, r) \<in> set (st_records st) \<Longrightarrow> record_ok r"
    and "distinct (map (plain \<circ> fst) (st_records st))"
    and "p \<in> set (st_pending st) \<Longrightarrow> \<not> unhashable p"
    and "(k, r) \<in> set (st_records st) \<Longrightarrow> is_open r \<Longrightarrow> plain (su_requester_id r) \<in> plain ` set (st_pending st)"
    and "distinct (map (plain \<circ> su_requester_id \<circ> snd) (filter (is_open \<circ> snd) (st_records st)))"
    and "counts_ok (st_counts st)"
    and "\<not> unhashable a \<Longrightarrow> int (length (by_requester a (st_records st))) = count_of a (st_counts st)"
    and "\<not> unhashable a \<Longrightarrow> count_of a (st_counts st) \<le> MAX_ACTOR_REQUESTS"
  using assms unfolding index_inv_def by (auto 0 3)

lemma asked_inv:
  assumes "index_inv st" and "su_requester_id r = actor" and "su_response r = None" and "0 \<le> su_elapsed r"
    and "\<not> unhashable actor" and "\<not> unhashable i" and "\<not> vmem actor (st_pending st)"
    and "vfind i (st_records st) = None" and "su_objective_id r \<in> set OBJECTIVE_IDS"
    and "count_of actor (bump actor (st_counts st)) \<le> MAX_ACTOR_REQUESTS"
    and "length (st_records st) < MAX_REQUESTS"
  shows "index_inv (asked st i actor r)"
proof -
  note inv = invD [OF assms(1)]
  have "map_of (map (\<lambda>(k, x). (plain k, x)) (st_records st)) (plain i) = None"
    using vfind_plain [OF inv(1) assms(6)] assms(8) by simp
  then have newkey: "plain i \<notin> (plain \<circ> fst) ` set (st_records st)" by (force simp: map_of_eq_None_iff)
  have fresh: "plain actor \<notin> plain ` set (st_pending st)"
    using assms(5,7) inv(4) by (auto simp: vmem_def list_ex_iff val_eq_plain)
  then have newopen: "plain actor \<notin> (plain \<circ> su_requester_id \<circ> snd) ` set (filter (is_open \<circ> snd) (st_records st))"
    using inv(5) by auto
  note bump = count_bump [OF inv(7) assms(5)]
  have counts: "int (length (by_requester a (st_records st @ [(i, r)]))) = count_of a (bump actor (st_counts st))
      \<and> count_of a (bump actor (st_counts st)) \<le> MAX_ACTOR_REQUESTS" if "\<not> unhashable a" for a
  proof (cases "plain a = plain actor")
    case True
    then have "count_of a (bump actor (st_counts st)) = count_of actor (bump actor (st_counts st))"
      using bump that assms(5) inv(8) [OF that] inv(8) [OF assms(5)] by (simp add: by_requester_def)
    then show ?thesis using True bump that inv(8) [OF that] assms(2,10) by (simp add: by_requester_def)
  next
    case False
    then show ?thesis using bump that inv(8,9) [OF that] assms(2) by (simp add: by_requester_def)
  qed
  have ok: "record_ok r" using assms by (simp add: record_ok_def answer_ok_def)
  have opened: "is_open r" by (simp add: is_open_def assms(3))
  show ?thesis
    unfolding index_inv_def
  proof (intro conjI)
    show "length (st_records (asked st i actor r)) \<le> MAX_REQUESTS" using assms(11) by (simp add: asked_def)
    show "\<forall>(k, x)\<in>set (st_records (asked st i actor r)). \<not> unhashable k \<and> record_ok x"
      using inv(1,2) ok assms(6) by (auto simp: asked_def)
    show "distinct (map (plain \<circ> fst) (st_records (asked st i actor r)))"
      using inv(3) newkey by (simp add: asked_def image_comp)
    show "\<forall>p\<in>set (st_pending (asked st i actor r)). \<not> unhashable p"
      using inv(4) assms(5) by (auto simp: asked_def)
    show "\<forall>x\<in>snd ` set (st_records (asked st i actor r)). is_open x \<longrightarrow>
        plain (su_requester_id x) \<in> plain ` set (st_pending (asked st i actor r))"
      using inv(5) assms(2) by (auto simp: asked_def)
    show "distinct (map (plain \<circ> su_requester_id \<circ> snd)
        (filter (is_open \<circ> snd) (st_records (asked st i actor r))))"
      using inv(6) newopen assms(2) opened by (simp add: asked_def)
    show "counts_ok (st_counts (asked st i actor r))" using bump by (simp add: asked_def)
    show "\<forall>a. \<not> unhashable a \<longrightarrow>
        int (length (by_requester a (st_records (asked st i actor r)))) = count_of a (st_counts (asked st i actor r))
        \<and> count_of a (st_counts (asked st i actor r)) \<le> MAX_ACTOR_REQUESTS"
      using counts by (simp add: asked_def)
  qed
qed

text \<open>Answering one record.\<close>

definition answer_at :: "val \<Rightarrow> support_response \<Rightarrow> (val \<times> support_record) \<Rightarrow> val \<times> support_record" where
  "answer_at i response kr = (if val_eq (fst kr) i then (fst kr, (snd kr)\<lparr>su_response := Some response\<rparr>) else kr)"

lemma answered_records: "st_records (answered st i r response) = map (answer_at i response) (st_records st)"
  by (auto simp: answered_def answer_at_def)

lemma answer_at_simps [simp]: "fst (answer_at i response kr) = fst kr"
  "su_requester_id (snd (answer_at i response kr)) = su_requester_id (snd kr)"
  by (simp_all add: answer_at_def)

lemma vfind_Some_unique:
  assumes "\<forall>k\<in>fst ` set d. \<not> unhashable k" and "\<not> unhashable i" and "distinct (map (plain \<circ> fst) d)"
    and "vfind i d = Some r"
  shows "\<exists>k. (k, r) \<in> set d \<and> plain k = plain i" and "(j, x) \<in> set d \<Longrightarrow> val_eq j i \<Longrightarrow> x = r"
proof -
  have m: "map_of (map (\<lambda>(k, x). (plain k, x)) d) (plain i) = Some r"
    using vfind_plain [OF assms(1,2)] assms(4) by simp
  from map_of_SomeD [OF this] show "\<exists>k. (k, r) \<in> set d \<and> plain k = plain i" by auto
  assume "(j, x) \<in> set d" "val_eq j i"
  moreover from this have "plain j = plain i" using assms(1) by (force simp: val_eq_plain)
  ultimately have "(plain i, x) \<in> set (map (\<lambda>(k, x). (plain k, x)) d)" by force
  moreover have "distinct (map fst (map (\<lambda>(k, x). (plain k, x)) d))"
    using assms(3) by (simp add: comp_def split_beta)
  ultimately show "x = r" using m map_of_is_SomeI by fastforce
qed

lemma support_objectives_ok:
  assumes "support_objectives v = Inr os"
  shows "os \<noteq> []" and "set os \<subseteq> set OBJECTIVE_IDS" and "distinct os"
proof -
  obtain xs where xs: "v = VList xs" "1 \<le> length xs" "list_all is_objective xs"
      "distinct (List.map_filter as_string xs)" "os = sort (List.map_filter as_string xs)"
    using assms by (auto simp: support_objectives_def split: val.splits if_splits)
  have "List.map_filter as_string xs \<noteq> [] \<and> set (List.map_filter as_string xs) \<subseteq> set OBJECTIVE_IDS"
    using xs(2,3) by (cases xs)
      (auto simp: List.map_filter_def as_string_def is_objective_def list_all_iff split: val.splits)
  then show "os \<noteq> []" "set os \<subseteq> set OBJECTIVE_IDS" "distinct os"
    by (simp_all add: xs(4,5)) (metis set_sort xs(5) sort_key_Nil_iff)?
qed

lemma answered_inv:
  assumes "index_inv st" and "vfind i (st_records st) = Some r" and "\<not> unhashable i"
    and "su_response r = None" and "su_elapsed r \<le> sr_elapsed response"
    and "support_objectives v = Inr (sr_objective_ids response)"
    and "in_strings (sr_kind response) KINDS = Inr True"
  shows "index_inv (answered st i r response)"
proof -
  note inv = invD [OF assms(1)]
  note found = vfind_Some_unique [OF inv(1) assms(3) inv(3) assms(2)]
  obtain k0 where k0: "(k0, r) \<in> set (st_records st)" "plain k0 = plain i" using found(1) by blast
  have eq_i: "val_eq k i \<longleftrightarrow> plain k = plain i" if "(k, x) \<in> set (st_records st)" for k x
    using inv(1) that assms(3) by (force simp: val_eq_plain)
  have scope: "sr_objective_ids response \<noteq> []" "set (sr_objective_ids response) \<subseteq> set OBJECTIVE_IDS"
    "distinct (sr_objective_ids response)"
    using support_objectives_ok [OF assms(6)] by simp_all
  have ok: "record_ok (r\<lparr>su_response := Some response\<rparr>)"
    using inv(2) [OF k0(1)] assms(5,7) scope by (simp add: record_ok_def answer_ok_def)
  have closes: "is_open (snd (answer_at i response kr)) \<longleftrightarrow> is_open (snd kr) \<and> \<not> val_eq (fst kr) i" for kr
    by (simp add: answer_at_def is_open_def)
  have others: "plain (su_requester_id x) \<noteq> plain (su_requester_id r)"
    if "(k, x) \<in> set (st_records st)" "is_open x" "\<not> val_eq k i" for k x
  proof
    let ?l = "filter (is_open \<circ> snd) (st_records st)"
    assume "plain (su_requester_id x) = plain (su_requester_id r)"
    moreover have "(k, x) \<in> set ?l" "(k0, r) \<in> set ?l" using that(1,2) k0 assms(4) by (auto simp: is_open_def)
    moreover have "inj_on (plain \<circ> su_requester_id \<circ> snd) (set ?l)" using inv(6) by (simp add: distinct_map)
    ultimately have "(k, x) = (k0, r)" unfolding inj_on_def by (metis comp_apply snd_conv)
    then show False using that eq_i k0 by auto
  qed
  let ?st = "answered st i r response"
  have counts: "st_counts ?st = st_counts st" by (simp add: answered_def)
  show ?thesis
    unfolding index_inv_def
  proof (intro conjI)
    show "length (st_records ?st) \<le> MAX_REQUESTS" using assms(1) by (simp add: answered_records index_inv_def)
    show "\<forall>(k, x)\<in>set (st_records ?st). \<not> unhashable k \<and> record_ok x"
    proof
      fix kr
      assume "kr \<in> set (st_records ?st)"
      then obtain j y where a: "kr = answer_at i response (j, y)" "(j, y) \<in> set (st_records st)"
        by (auto simp: answered_records)
      have "\<not> unhashable j" using a(2) inv(1) by force
      then show "case kr of (k, x) \<Rightarrow> \<not> unhashable k \<and> record_ok x"
        using a(1) inv(2) [OF a(2)] found(2) [OF a(2)] ok by (auto simp: answer_at_def)
    qed
    show "distinct (map (plain \<circ> fst) (st_records ?st))" using inv(3) by (simp add: answered_records comp_def)
    show "\<forall>p\<in>set (st_pending ?st). \<not> unhashable p" using inv(4) by (auto simp: answered_def)
    show "\<forall>x\<in>snd ` set (st_records ?st). is_open x \<longrightarrow> plain (su_requester_id x) \<in> plain ` set (st_pending ?st)"
    proof (intro ballI impI)
      fix x
      assume "x \<in> snd ` set (st_records ?st)" and open_x: "is_open x"
      then obtain j y where a: "x = snd (answer_at i response (j, y))" "(j, y) \<in> set (st_records st)"
        by (auto simp: answered_records)
      have y: "is_open y" "\<not> val_eq j i" "x = y"
        using open_x a(1) by (auto simp: answer_at_def is_open_def split: if_splits)
      obtain p where p: "p \<in> set (st_pending st)" "plain p = plain (su_requester_id y)"
        using inv(5) [OF a(2) y(1)] by auto
      have "\<not> val_eq p (su_requester_id r)"
        using others [OF a(2) y(1,2)] p inv(4) by (auto simp: val_eq_plain)
      then have "p \<in> set (st_pending ?st)" using p(1) by (simp add: answered_def)
      then show "plain (su_requester_id x) \<in> plain ` set (st_pending ?st)"
        unfolding y(3) p(2) [symmetric] by (rule imageI)
    qed
    show "distinct (map (plain \<circ> su_requester_id \<circ> snd) (filter (is_open \<circ> snd) (st_records ?st)))"
    proof -
      have "filter (is_open \<circ> snd) (st_records ?st)
          = map (answer_at i response) (filter (\<lambda>kr. \<not> val_eq (fst kr) i) (filter (is_open \<circ> snd) (st_records st)))"
        by (simp add: answered_records filter_map closes comp_def conj_commute)
      then have "map (plain \<circ> su_requester_id \<circ> snd) (filter (is_open \<circ> snd) (st_records ?st))
          = map (plain \<circ> su_requester_id \<circ> snd) (filter (\<lambda>kr. \<not> val_eq (fst kr) i)
              (filter (is_open \<circ> snd) (st_records st)))"
        by simp
      then show ?thesis using distinct_map_filter [OF inv(6)] by metis
    qed
    show "counts_ok (st_counts ?st)" using inv(7) by (simp add: answered_def)
    have "length (by_requester a (map (answer_at i response) d)) = length (by_requester a d)" for a d
      by (induction d) (simp_all add: by_requester_def)
    then show "\<forall>a. \<not> unhashable a \<longrightarrow> int (length (by_requester a (st_records ?st))) = count_of a (st_counts ?st)
        \<and> count_of a (st_counts ?st) \<le> MAX_ACTOR_REQUESTS"
      using inv(8,9) by (simp add: answered_records counts)
  qed
qed

lemma provenance_Inr: "provenance st ev = Inr (data, elapsed, content) \<Longrightarrow> 0 \<le> elapsed"
  unfolding provenance_def by (elim bindR_InrE) (auto split: val.splits if_splits)

text \<open>The fields that the invariant does not read.\<close>

lemma index_inv_frame:
  "index_inv (st\<lparr>st_last := n, st_scope := sc\<rparr>) = index_inv st" "index_inv (st\<lparr>st_keys := ks\<rparr>) = index_inv st"
  by (simp_all add: index_inv_def)

lemma index_support_Inr:
  assumes "index_support st ev ty = Inr st'"
  obtains data elapsed content sc n st2 key where "provenance st ev = Inr (data, elapsed, content)"
    and "index_request (st\<lparr>st_last := n, st_scope := sc\<rparr>) ev data elapsed content = Inr (st2, key)
        \<or> index_response (st\<lparr>st_last := n, st_scope := sc\<rparr>) ev data elapsed content = Inr (st2, key)"
    and "st' = st2\<lparr>st_keys := key # st_keys st2\<rparr>"
proof -
  obtain data elapsed content where e: "provenance st ev = Inr (data, elapsed, content)"
    using assms by (cases "provenance st ev") (auto simp: index_support_def)
  from assms show ?thesis
    unfolding index_support_def e bindR_simps prod.case Let_def
    apply (elim bindR_InrE)
    apply (simp only: split_paired_all prod.case)
    apply (elim bindR_InrE)
    apply (simp only: split: if_splits)
       apply (erule sum.distinct(1) [THEN notE])
      apply (rule that [OF e], erule disjI1, erule sum.inject(2) [THEN iffD1, symmetric])
     apply (erule sum.distinct(1) [THEN notE])
    apply (rule that [OF e], erule disjI2, erule sum.inject(2) [THEN iffD1, symmetric])
    done
qed

lemma index_event_inv:
  assumes "index_inv st" and "index_event st ev = Inr st'"
  shows "index_inv st'"
proof -
  obtain ty where "st' = st \<or> index_support st ev ty = Inr st'"
    using assms(2) unfolding index_event_def by (elim bindR_InrE) (auto split: if_splits)
  then show ?thesis
  proof
    assume "index_support st ev ty = Inr st'"
    then obtain data elapsed content sc n st2 key where e: "provenance st ev = Inr (data, elapsed, content)"
      and step: "index_request (st\<lparr>st_last := n, st_scope := sc\<rparr>) ev data elapsed content = Inr (st2, key)
        \<or> index_response (st\<lparr>st_last := n, st_scope := sc\<rparr>) ev data elapsed content = Inr (st2, key)"
      and st': "st' = st2\<lparr>st_keys := key # st_keys st2\<rparr>" by (rule index_support_Inr)
    have inv1: "index_inv (st\<lparr>st_last := n, st_scope := sc\<rparr>)" using assms(1) by (simp only: index_inv_frame)
    have "index_inv st2"
      using step
    proof
      assume "index_request (st\<lparr>st_last := n, st_scope := sc\<rparr>) ev data elapsed content = Inr (st2, key)"
      then show ?thesis
        by (rule index_request_Inr) (use asked_inv [OF inv1] provenance_Inr [OF e] in blast)
    next
      assume "index_response (st\<lparr>st_last := n, st_scope := sc\<rparr>) ev data elapsed content = Inr (st2, key)"
      then show ?thesis
        by (rule index_response_Inr) (use answered_inv [OF inv1] in metis)
    qed
    then show ?thesis by (simp only: st' index_inv_frame)
  qed (use assms in simp)
qed

lemma index_events_inv: "index_events st evs = Inr st' \<Longrightarrow> index_inv st \<Longrightarrow> index_inv st'"
  by (induction evs arbitrary: st) (auto intro: index_event_inv)

lemma start_inv: "index_inv start_index"
  by (simp add: index_inv_def start_index_def counts_ok_def by_requester_def count_of_def vfind_def
      MAX_ACTOR_REQUESTS_def)

section \<open>Properties\<close>

definition requested_by :: "val \<Rightarrow> support_record list \<Rightarrow> support_record list" where
  "requested_by a rs = filter (\<lambda>r. val_eq (su_requester_id r) a) rs"

lemma requested_by_plain:
  assumes "\<And>r. r \<in> snd ` set d \<Longrightarrow> \<not> unhashable (su_requester_id r)"
  shows "requested_by a (map snd d) = (if unhashable a then [] else by_requester a d)"
  using assms unfolding requested_by_def by_requester_def
  by (auto simp: val_eq_plain filter_empty_conv intro!: filter_cong)

text \<open>Every support history that is accepted obeys the limits: at most fifty requests, at most ten by
  one person and at most one of them open; every request is about one of the five objectives at a
  non-negative second, and every answer is of a known kind, about one or more distinct objectives, and not
  earlier than its request.\<close>

theorem accepted_support_history:
  assumes "support_index events = Inr rs"
  shows "length rs \<le> 50 \<and> length (requested_by a rs) \<le> 10
    \<and> length (filter is_open (requested_by a rs)) \<le> 1 \<and> list_all record_ok rs"
proof -
  obtain st where st: "index_events start_index events = Inr st" and rs: "rs = map snd (st_records st)"
    using assms by (auto simp: support_index_def)
  have i: "index_inv st" by (rule index_events_inv [OF st start_inv])
  note inv = invD [OF i]
  have ok: "list_all record_ok rs" using inv(2) by (auto simp: rs list_all_iff)
  then have hash: "\<And>r. r \<in> snd ` set (st_records st) \<Longrightarrow> \<not> unhashable (su_requester_id r)"
    by (auto simp: rs list_all_iff record_ok_def)
  have req: "requested_by a rs = (if unhashable a then [] else by_requester a (st_records st))"
    unfolding rs by (rule requested_by_plain) (rule hash)
  have len: "length rs \<le> 50" using i by (simp add: rs index_inv_def MAX_REQUESTS_def)
  show ?thesis
  proof (cases "unhashable a")
    case True
    then show ?thesis using len ok req by simp
  next
    case False
    then have ten: "length (requested_by a rs) \<le> 10"
      using req inv(8,9) [OF False] by (simp add: MAX_ACTOR_REQUESTS_def)
    let ?l = "filter (\<lambda>r. plain (su_requester_id r) = plain a) (filter is_open rs)"
    have "distinct (map (plain \<circ> su_requester_id) (filter is_open rs))"
      using inv(6) by (simp add: rs filter_map comp_def)
    then have "distinct (map (plain \<circ> su_requester_id) ?l)" by (rule distinct_map_filter)
    then have "length ?l = card (set (map (plain \<circ> su_requester_id) ?l))" using distinct_card by fastforce
    also have "\<dots> \<le> card {plain a}" by (intro card_mono) auto
    finally have "length ?l \<le> 1" by simp
    moreover have "filter is_open (requested_by a rs) = ?l"
      using req False by (simp add: by_requester_def rs conj_commute)
    ultimately show ?thesis using len ten ok by simp
  qed
qed

definition sample_support_event :: "int \<Rightarrow> string \<Rightarrow> (string \<times> val) list \<Rightarrow> val" where
  "sample_support_event n role content = VDict ([(''event_type'', VStr REQUEST),
     (''event_id'', VStr (''e'' @ int_str n)), (''exercise_id'', VStr ''ex''), (''run_id'', VStr ''run''),
     (''sequence'', VInt n), (''timestamp'', VStr ''t''), (''phase'', VStr ''control''),
     (''visibility'', VStr ''facilitator''), (''outcome'', VDict [(''status'', VStr ''success'')]),
     (''safety'', VDict [(''dry_run'', VBool False)]), (''objective_ids'', VList [VStr ''LO1'']),
     (''source'', VDict [(''component'', VStr COMPONENT), (''kind'', VStr ''participant'')]),
     (''actor'', VDict [(''type'', VStr ''participant''), (''id'', VStr ''p1''), (''role'', VStr role)]),
     (''action'', VStr ''exercise.support.request''),
     (''target'', VDict [(''type'', VStr ''support_queue''), (''id'', VStr ''run'')]),
     (''data'', VDict content)])"

definition sample_question :: "(string \<times> val) list" where
  "sample_question = [(''request_key'', VStr ''k''), (''objective_id'', VStr ''LO1''), (''text'', VStr ''where''),
     (''elapsed_seconds'', VInt 5), (''run_state'', VStr ''running'')]"

lemma sample_support:
  "\<exists>r. support_index [sample_support_event 1 ''soc_analyst'' sample_question] = Inr [r]
    \<and> su_requester_id r = VStr ''p1''"
proof -
  have "case support_index [sample_support_event 1 ''soc_analyst'' sample_question] of
      Inr [r] \<Rightarrow> su_requester_id r = VStr ''p1'' | _ \<Rightarrow> False" by code_simp
  then show ?thesis by (auto split: sum.splits list.splits)
qed

lemma accepted_support_history_witness:
  "\<exists>r. support_index [sample_support_event 1 ''soc_analyst'' sample_question] = Inr [r] \<and> record_ok r"
  using sample_support accepted_support_history by fastforce


end
