(* ===== verification/Mfa.thy ===== *)
theory Mfa
  imports IdentityState Controller Support
begin

text \<open>
  \<^verbatim>\<open>orchestrator/mfa.py\<close>: the scheduled MFA challenges. The challenge that is pending is an entry of the
  history and is updated in place, so \<open>pending\<close> is its position. The run state and the exercise clock are
  read from the controller and do not change here.
\<close>

section \<open>Configuration\<close>

record mfa_config =
  mc_seed :: string
  mc_identity :: string
  mc_session :: string
  mc_factor :: string
  mc_timeout :: int

definition blank :: "val option \<Rightarrow> bool" where
  "blank v = (case v of Some (VStr s) \<Rightarrow> strip s = [] | _ \<Rightarrow> True)"

definition text_of :: "row \<Rightarrow> string \<Rightarrow> string" where
  "text_of d k = (case map_of d k of Some (VStr s) \<Rightarrow> s | _ \<Rightarrow> [])"

definition table_row :: "table \<Rightarrow> string \<Rightarrow> row" where
  "table_row t k = (case map_of t k of None \<Rightarrow> [] | Some r \<Rightarrow> r)"

definition validate_mfa :: "val \<Rightarrow> identity_content \<Rightarrow> exc + mfa_config" where
  "validate_mfa configuration st = (case configuration of
     VDict d \<Rightarrow>
       bindR (requireR (keys_are d [''seed'', ''identity_id'', ''session_id'', ''factor_id'', ''timeout_seconds''])
         (ValueError ''scheduled MFA configuration fields are invalid'')) (\<lambda>_.
       bindR (requireR (list_all (\<lambda>k. \<not> blank (map_of d k)) [''seed'', ''identity_id'', ''session_id'', ''factor_id''])
         (ValueError ''scheduled MFA identifiers must be non-empty strings'')) (\<lambda>_.
       bindR (case map_of d ''timeout_seconds'' of
           Some (VInt n) \<Rightarrow> if 1 \<le> n \<and> n \<le> 300 then Inr n
             else Inl (ValueError ''scheduled MFA timeout must be between 1 and 300 seconds'')
         | _ \<Rightarrow> Inl (ValueError ''scheduled MFA timeout must be between 1 and 300 seconds'')) (\<lambda>timeout.
       let identity = text_of d ''identity_id''; session = text_of d ''session_id''; factor = text_of d ''factor_id'' in
       bindR (requireR (case map_of (table_row (ic_identities st) identity) ''synthetic'' of
            None \<Rightarrow> False | Some v \<Rightarrow> truthy v)
         (ValueError ''scheduled MFA requires a baseline synthetic identity'')) (\<lambda>_.
       bindR (requireR (map_of (table_row (ic_sessions st) session) ''identity_id'' = Some (VStr identity)
           \<and> map_of (table_row (ic_factors st) factor) ''identity_id'' = Some (VStr identity))
         (ValueError ''scheduled MFA references must belong to its identity'')) (\<lambda>_.
         Inr \<lparr>mc_seed = text_of d ''seed'', mc_identity = identity, mc_session = session, mc_factor = factor,
              mc_timeout = timeout\<rparr>)))))
   | _ \<Rightarrow> Inl (ValueError ''scheduled MFA configuration fields are invalid''))"

section \<open>State\<close>

record challenge =
  ch_id :: string
  ch_msel :: string
  ch_delivered_at :: int
  ch_expires_at :: int
  ch_outcome :: "string option"
  ch_reason :: "string option"
  ch_evidence :: "string option"

record mfa =
  mf_config :: mfa_config
  mf_run_id :: string
  mf_history :: "challenge list"
  mf_pending :: "nat option"
  mf_credential_version :: val
  mf_events :: builder

record msys =
  my_world :: world
  my_identity :: identity_state
  my_run_state :: string
  my_elapsed :: int
  my_mfa :: mfa

definition mfa_context :: "string \<Rightarrow> string \<Rightarrow> event_context" where
  "mfa_context exercise_id run_id = \<lparr>cx_exercise_id = exercise_id, cx_run_id = run_id,
     cx_source_kind = ''module'', cx_source_component = ''scheduled-mfa'',
     cx_producer_version = ''1.0.0'', cx_source_host = None\<rparr>"

text \<open>\<open>__init__\<close>.\<close>

definition new_mfa :: "string \<Rightarrow> string \<Rightarrow> val \<Rightarrow> identity_content \<Rightarrow> exc + mfa" where
  "new_mfa exercise_id run_id configuration st =
    bindR (validate_mfa configuration st) (\<lambda>config.
    bindR (ditem (table_row (ic_identities st) (mc_identity config)) ''credential_version'') (\<lambda>version.
      Inr \<lparr>mf_config = config, mf_run_id = run_id, mf_history = [], mf_pending = None,
           mf_credential_version = version, mf_events = fresh_builder (mfa_context exercise_id run_id) True\<rparr>))"

definition get_mfa :: "(mfa \<Rightarrow> 'a) \<Rightarrow> (msys, 'a) prog" where
  "get_mfa f = getE (\<lambda>s. f (my_mfa s))"

definition upd_mfa :: "(mfa \<Rightarrow> mfa) \<Rightarrow> (msys, unit) prog" where
  "upd_mfa f = updE (\<lambda>s. s\<lparr>my_mfa := f (my_mfa s)\<rparr>)"

definition upd_challenge :: "nat \<Rightarrow> (challenge \<Rightarrow> challenge) \<Rightarrow> mfa \<Rightarrow> mfa" where
  "upd_challenge i f m = m\<lparr>mf_history := (mf_history m)[i := f (mf_history m ! i)]\<rparr>"

section \<open>Operations\<close>

text \<open>\<open>_blocked_reason\<close>; \<open>t[k][f]\<close> raises \<open>KeyError\<close>.\<close>

definition blocked_reason :: "mfa \<Rightarrow> identity_content \<Rightarrow> exc + string option" where
  "blocked_reason m c =
    (let cfg = mf_config m in
    bindR (ditem (ic_identities c) (mc_identity cfg)) (\<lambda>identity.
    bindR (ditem identity ''enabled'') (\<lambda>enabled.
    if \<not> truthy enabled then Inr (Some ''account_disabled'') else
    bindR (get_field (mc_session cfg) ''active'' (ic_sessions c)) (\<lambda>session.
    if \<not> truthy session then Inr (Some ''session_revoked'') else
    bindR (get_field (mc_factor cfg) ''active'' (ic_factors c)) (\<lambda>factor.
    if \<not> truthy factor then Inr (Some ''factor_removed'') else
    bindR (ditem identity ''credential_version'') (\<lambda>version.
    if \<not> val_eq version (mf_credential_version m) then Inr (Some ''credential_rotated'') else Inr None))))))"

definition outcome_status :: "string \<Rightarrow> exc + string" where
  "outcome_status outcome = ditem [(''delivered'', ''pending''), (''approved'', ''success''), (''denied'', ''denied''),
     (''expired'', ''denied''), (''blocked'', ''blocked''), (''cancelled'', ''cancelled'')] outcome"

definition challenge_event :: "mfa_config \<Rightarrow> challenge \<Rightarrow> string \<Rightarrow> string \<Rightarrow> string \<Rightarrow> entity \<Rightarrow> int \<Rightarrow> event_args" where
  "challenge_event cfg ch outcome status reason actor at =
    (event_args (''identity.mfa.challenge.'' @ outcome) ''identity'' actor (''identity.mfa.challenge.'' @ outcome)
       (Some (entity ''identity'' (mc_identity cfg) None None)) status (''Synthetic MFA challenge '' @ outcome))
    \<lparr>ea_outcome_reason := Some reason, ea_objective_ids := [''LO1'', ''LO2''],
     ea_correlation_ids := [ch_id ch, mc_session cfg],
     ea_safety_controls := [''synthetic-only'', ''no-network'', ''explicit-human-decision'', ''exercise-clock'',
       ''containment-gated''],
     ea_data := [(''challenge_id'', VStr (ch_id ch)), (''msel_id'', VStr (ch_msel ch)),
       (''identity_id'', VStr (mc_identity cfg)), (''session_id'', VStr (mc_session cfg)),
       (''factor_id'', VStr (mc_factor cfg)), (''elapsed_seconds'', VInt at), (''reason'', VStr reason),
       (''delivered_at_seconds'', VInt (ch_delivered_at ch)), (''expires_at_seconds'', VInt (ch_expires_at ch))]\<rparr>"

text \<open>\<open>_record\<close>, for the challenge at position \<open>i\<close> of the history.\<close>

definition mfa_build :: "env \<Rightarrow> event_args \<Rightarrow> (msys, event) prog" where
  "mfa_build env args = zoomE (\<lambda>s. (my_world s, mf_events (my_mfa s)))
     (\<lambda>(w, b) s. s\<lparr>my_world := w, my_mfa := (my_mfa s)\<lparr>mf_events := b\<rparr>\<rparr>) (build_and_sink env args)"

definition set_decision :: "string \<Rightarrow> (msys, unit) prog" where
  "set_decision outcome = bindE (get_mfa (\<lambda>m. mc_identity (mf_config m))) (\<lambda>identity.
     zoomE my_identity (\<lambda>i s. s\<lparr>my_identity := i\<rparr>)
       (change_table Mfa (set_field identity ''decision''
         (VStr (if outcome = ''delivered'' then ''pending'' else outcome)))))"

definition record_outcome :: "env \<Rightarrow> nat \<Rightarrow> string \<Rightarrow> string \<Rightarrow> entity option \<Rightarrow> int option \<Rightarrow> (msys, unit) prog" where
  "record_outcome env i outcome reason actor occurred_at =
    bindE (liftE (outcome_status outcome)) (\<lambda>status.
    bindE (getE my_elapsed) (\<lambda>elapsed.
    bindE (get_mfa (\<lambda>m. challenge_event (mf_config m) (mf_history m ! i) outcome status reason
        (case actor of None \<Rightarrow> entity ''system'' ''scenario-engine'' None (Some ''scenario_engine'') | Some a \<Rightarrow> a)
        (case occurred_at of None \<Rightarrow> elapsed | Some t \<Rightarrow> t))) (\<lambda>args.
    bindE (mfa_build env args) (\<lambda>evidence.
    thenE (upd_mfa (upd_challenge i (\<lambda>ch. ch\<lparr>ch_outcome := Some outcome, ch_reason := Some reason,
        ch_evidence := Some (ev_event_id evidence)\<rparr>)))
      (set_decision outcome)))))"

definition clear_pending :: "(msys, unit) prog" where
  "clear_pending = upd_mfa (\<lambda>m. m\<lparr>mf_pending := None\<rparr>)"

definition mfa_blocked :: "(msys, string option) prog" where
  "mfa_blocked = bindE (getE (\<lambda>s. blocked_reason (my_mfa s) (is_content (my_identity s)))) liftE"

definition mfa_advance :: "env \<Rightarrow> (msys, unit) prog" where
  "mfa_advance env = bindE (get_mfa mf_pending) (\<lambda>pending. case pending of
     None \<Rightarrow> ret ()
   | Some i \<Rightarrow>
     bindE mfa_blocked (\<lambda>reason.
     bindE (getE my_elapsed) (\<lambda>now.
     bindE (get_mfa (\<lambda>m. ch_expires_at (mf_history m ! i))) (\<lambda>expires.
       if reason \<noteq> None \<or> expires \<le> now then
         thenE (record_outcome env i (if reason \<noteq> None then ''cancelled'' else ''expired'')
             (case reason of Some r \<Rightarrow> r | None \<Rightarrow> ''exercise_timeout'') None
             (Some (if reason \<noteq> None then now else expires)))
           clear_pending
       else ret ()))))"

definition new_challenge :: "(string \<Rightarrow> string) \<Rightarrow> mfa \<Rightarrow> string \<Rightarrow> int \<Rightarrow> challenge" where
  "new_challenge uuid5 m item_id now =
    \<lparr>ch_id = ''mfa-'' @ uuid5 (mf_run_id m @ '':'' @ mc_seed (mf_config m) @ '':'' @ item_id),
     ch_msel = item_id, ch_delivered_at = now, ch_expires_at = now + mc_timeout (mf_config m),
     ch_outcome = None, ch_reason = None, ch_evidence = None\<rparr>"

definition refused :: "string \<Rightarrow> automation_result" where
  "refused message = \<lparr>ar_success = False, ar_message = message, ar_data = []\<rparr>"

definition count_push :: "(msys, unit) prog" where
  "count_push = bindE (get_mfa (\<lambda>m. mc_identity (mf_config m))) (\<lambda>identity.
     zoomE my_identity (\<lambda>i s. s\<lparr>my_identity := i\<rparr>) (change_table Mfa (incr_field identity ''push_count'')))"

definition issue_challenge :: "env \<Rightarrow> (string \<Rightarrow> string) \<Rightarrow> string \<Rightarrow> (msys, automation_result) prog" where
  "issue_challenge env uuid5 item_id =
    bindE (getE my_elapsed) (\<lambda>now.
    bindE (get_mfa (\<lambda>m. length (mf_history m))) (\<lambda>i.
    thenE (upd_mfa (\<lambda>m. m\<lparr>mf_history := mf_history m @ [new_challenge uuid5 m item_id now]\<rparr>))
   (bindE mfa_blocked (\<lambda>reason.
    thenE (record_outcome env i (if reason \<noteq> None then ''blocked'' else ''delivered'')
      (case reason of Some r \<Rightarrow> r | None \<Rightarrow> ''awaiting_human_decision'') None None)
   (thenE (if reason = None then thenE count_push (upd_mfa (\<lambda>m. m\<lparr>mf_pending := Some i\<rparr>)) else ret ())
   (bindE (get_mfa (\<lambda>m. mf_history m ! i)) (\<lambda>ch.
      ret \<lparr>ar_success = True, ar_message = ''Synthetic MFA attempt processed'',
           ar_data = [(''challenge_id'', VStr (ch_id ch)), (''outcome'', opt_val (ch_outcome ch))]\<rparr>)))))))"

definition mfa_deliver :: "env \<Rightarrow> (string \<Rightarrow> string) \<Rightarrow> scenario_item \<Rightarrow> string \<Rightarrow> (msys, automation_result) prog" where
  "mfa_deliver env uuid5 item run_id =
    bindE (get_mfa mf_run_id) (\<lambda>mine.
    bindE (getE my_run_state) (\<lambda>st.
      if run_id \<noteq> mine \<or> st \<noteq> ''running''
      then ret (refused ''MFA delivery requires the current running exercise'')
      else thenE (mfa_advance env) (bindE (get_mfa mf_pending) (\<lambda>pending.
        if pending \<noteq> None then ret (refused ''A synthetic challenge is already pending'')
        else issue_challenge env uuid5 (it_id item)))))"

definition mfa_decide :: "env \<Rightarrow> val \<Rightarrow> val \<Rightarrow> entity \<Rightarrow> (msys, unit) prog" where
  "mfa_decide env challenge_id decision actor =
    thenE (requireE (\<exists>r\<in>set [''facilitator'', ''simulated_user'']. en_role actor = Some r)
      (ControllerError ''MFA decisions require facilitator or simulated_user role''))
   (bindE (getE my_run_state) (\<lambda>st.
    thenE (requireE (st = ''running'') (ControllerError ''MFA decisions require a running exercise''))
   (thenE (requireE (as_string challenge_id \<noteq> None \<and> decision \<in> set [VStr ''approve'', VStr ''deny''])
      (ControllerError ''MFA decision fields are invalid''))
   (thenE (mfa_advance env)
   (bindE (get_mfa (\<lambda>m. (mf_pending m, mf_history m))) (\<lambda>(pending, history). case pending of
       None \<Rightarrow> raise (ControllerError ''No matching pending challenge in this run'')
     | Some i \<Rightarrow>
       thenE (requireE (as_string challenge_id = Some (ch_id (history ! i)))
         (ControllerError ''No matching pending challenge in this run''))
      (thenE (record_outcome env i (if decision = VStr ''approve'' then ''approved'' else ''denied'')
         ''human_decision'' (Some actor) None)
        clear_pending)))))))"

definition mfa_stop :: "env \<Rightarrow> (msys, unit) prog" where
  "mfa_stop env = bindE (get_mfa mf_pending) (\<lambda>pending. case pending of
     None \<Rightarrow> ret ()
   | Some i \<Rightarrow> finallyE (record_outcome env i ''cancelled'' ''fail_safe_stop'' None None)
       (\<lambda>s. s\<lparr>my_mfa := (my_mfa s)\<lparr>mf_pending := None\<rparr>\<rparr>))"

definition challenge_row :: "challenge \<Rightarrow> row" where
  "challenge_row ch = [(''id'', VStr (ch_id ch)), (''msel_id'', VStr (ch_msel ch)),
     (''delivered_at_seconds'', VInt (ch_delivered_at ch)), (''expires_at_seconds'', VInt (ch_expires_at ch))]
     @ opt_field ''outcome'' (ch_outcome ch) @ opt_field ''reason'' (ch_reason ch)
     @ opt_field ''evidence_id'' (ch_evidence ch)"

definition mfa_snapshot :: "msys \<Rightarrow> row" where
  "mfa_snapshot s = (let m = my_mfa s in
    [(''pending'', case mf_pending m of None \<Rightarrow> VNone
        | Some i \<Rightarrow> VDict (challenge_row (mf_history m ! i)
            @ [(''expires_in_seconds'', VInt (max 0 (ch_expires_at (mf_history m ! i) - my_elapsed s))),
               (''kind'', VStr ''scheduled'')])),
     (''history'', VList (map (VDict \<circ> challenge_row) (mf_history m))),
     (''state'', VStr (my_run_state s)), (''identity_id'', VStr (mc_identity (mf_config m)))])"

end
