(* ===== verification/MfaProps.thy ===== *)
theory MfaProps
  imports Mfa Samples
begin

text \<open>
  What the scheduled challenges guarantee: an approval needs a person with the role, in time and before
  containment; a challenge that is overtaken by time or containment is settled as such.
\<close>

section \<open>Frames\<close>

text \<open>What the event builder does not touch, and what the identity state is not.\<close>

definition mfa_view :: "mfa \<Rightarrow> mfa_config \<times> string \<times> challenge list \<times> nat option \<times> val" where
  "mfa_view m = (mf_config m, mf_run_id m, mf_history m, mf_pending m, mf_credential_version m)"

definition outer :: "msys \<Rightarrow> string \<times> int" where
  "outer s = (my_run_state s, my_elapsed s)"

lemma keeps_build: "keeps (\<lambda>s. (mfa_view (my_mfa s), outer s, my_identity s)) (mfa_build env args)"
  unfolding mfa_build_def by (intro keeps_intros) (auto simp: mfa_view_def outer_def)

lemma keeps_decision: "keeps (\<lambda>s. (my_mfa s, outer s, my_world s)) (set_decision o')"
  "keeps (\<lambda>s. (my_mfa s, outer s, my_world s)) count_push"
  unfolding set_decision_def count_push_def get_mfa_def by (intro keeps_intros; simp add: outer_def)+

lemma get_mfa_run [prog_simps]: "get_mfa f s = (Inr (f (my_mfa s)), s)"
  by (simp add: get_mfa_def)

lemma upd_mfa_run [prog_simps]: "upd_mfa f s = (Inr (), s\<lparr>my_mfa := f (my_mfa s)\<rparr>)"
  by (simp add: upd_mfa_def)

lemma mfa_blocked_run [prog_simps]: "mfa_blocked s = (blocked_reason (my_mfa s) (is_content (my_identity s)), s)"
  by (simp add: mfa_blocked_def prog_simps split: sum.splits)

text \<open>Recording an outcome either fails before the challenge is touched, or writes it.\<close>

definition settled_as :: "string \<Rightarrow> string \<Rightarrow> challenge \<Rightarrow> challenge \<Rightarrow> bool" where
  "settled_as outcome reason ch ch' \<longleftrightarrow> ch_outcome ch' = Some outcome \<and> ch_reason ch' = Some reason
     \<and> ch_id ch' = ch_id ch \<and> ch_expires_at ch' = ch_expires_at ch \<and> ch_msel ch' = ch_msel ch"

lemma record_effect:
  assumes "record_outcome env i outcome reason actor at s = (q, s')"
  shows "outer s' = outer s \<and> mf_config (my_mfa s') = mf_config (my_mfa s)
    \<and> mf_run_id (my_mfa s') = mf_run_id (my_mfa s)
    \<and> mf_pending (my_mfa s') = mf_pending (my_mfa s)
    \<and> mf_credential_version (my_mfa s') = mf_credential_version (my_mfa s)
    \<and> (q \<noteq> Inr () \<and> mf_history (my_mfa s') = mf_history (my_mfa s)
       \<or> (\<exists>ch. settled_as outcome reason (mf_history (my_mfa s) ! i) ch
            \<and> mf_history (my_mfa s') = (mf_history (my_mfa s))[i := ch]))"
proof (cases "outcome_status outcome")
  case (Inl e)
  then show ?thesis using assms by (auto simp: record_outcome_def prog_simps)
next
  case (Inr status)
  let ?args = "challenge_event (mf_config (my_mfa s)) (mf_history (my_mfa s) ! i) outcome status reason
        (case actor of None \<Rightarrow> entity ''system'' ''scenario-engine'' None (Some ''scenario_engine'') | Some a \<Rightarrow> a)
        (case at of None \<Rightarrow> my_elapsed s | Some t \<Rightarrow> t)"
  obtain p s1 where b: "mfa_build env ?args s = (p, s1)" by (metis prod.exhaust)
  have v: "mfa_view (my_mfa s1) = mfa_view (my_mfa s)" "outer s1 = outer s"
    using keeps_run [OF keeps_build b] by simp_all
  show ?thesis
  proof (cases p)
    case Inl
    then show ?thesis using assms Inr b v by (auto simp: record_outcome_def prog_simps mfa_view_def)
  next
    case ok: (Inr evidence)
    let ?s2 = "s1\<lparr>my_mfa := upd_challenge i (\<lambda>ch. ch\<lparr>ch_outcome := Some outcome, ch_reason := Some reason,
        ch_evidence := Some (ev_event_id evidence)\<rparr>) (my_mfa s1)\<rparr>"
    have d: "set_decision outcome ?s2 = (q, s')"
      using assms Inr b ok by (simp add: record_outcome_def prog_simps)
    have "my_mfa s' = my_mfa ?s2" "outer s' = outer ?s2"
      using keeps_run [OF keeps_decision(1) d] by simp_all
    moreover define ch where "ch = (mf_history (my_mfa s) ! i)\<lparr>ch_outcome := Some outcome,
      ch_reason := Some reason, ch_evidence := Some (ev_event_id evidence)\<rparr>"
    moreover have "settled_as outcome reason (mf_history (my_mfa s) ! i) ch"
      by (simp add: settled_as_def ch_def)
    ultimately show ?thesis
      using v by (auto simp: mfa_view_def upd_challenge_def outer_def)
  qed
qed

section \<open>Approvals\<close>

definition approved_at :: "msys \<Rightarrow> nat \<Rightarrow> bool" where
  "approved_at s i \<longleftrightarrow> i < length (mf_history (my_mfa s)) \<and> ch_outcome (mf_history (my_mfa s) ! i) = Some ''approved''"

text \<open>Programs that approve nothing.\<close>

definition no_approval :: "(msys, 'a) prog \<Rightarrow> bool" where
  "no_approval m \<longleftrightarrow> (\<forall>s q s' i. m s = (q, s') \<longrightarrow> approved_at s' i \<longrightarrow> approved_at s i)"

lemma no_approvalD: "no_approval m \<Longrightarrow> m s = (q, s') \<Longrightarrow> approved_at s' i \<Longrightarrow> approved_at s i"
  unfolding no_approval_def by blast

lemma no_approval_bindE: "no_approval m \<Longrightarrow> (\<And>x. no_approval (f x)) \<Longrightarrow> no_approval (bindE m f)"
  unfolding no_approval_def bindE_run by (fastforce split: prod.splits sum.splits)

lemma no_approval_thenE: "no_approval m \<Longrightarrow> no_approval n \<Longrightarrow> no_approval (thenE m n)"
  unfolding thenE_def by (rule no_approval_bindE)

lemma no_approval_keeps: "keeps (\<lambda>s. mf_history (my_mfa s)) m \<Longrightarrow> no_approval m"
  unfolding no_approval_def keeps_def approved_at_def by (metis snd_conv)

lemma keeps_history:
  "keeps (\<lambda>s. mf_history (my_mfa s)) (get_mfa f)" "keeps (\<lambda>s. mf_history (my_mfa s)) mfa_blocked"
  "keeps (\<lambda>s. mf_history (my_mfa s)) clear_pending" "keeps (\<lambda>s. mf_history (my_mfa s)) count_push"
  "keeps (\<lambda>s. mf_history (my_mfa s)) (upd_mfa (\<lambda>m. m\<lparr>mf_pending := p\<rparr>))"
  using keeps_decision(2) by (auto simp: keeps_def get_mfa_run mfa_blocked_run clear_pending_def upd_mfa_run)

lemma no_approval_record:
  assumes "outcome \<noteq> ''approved''"
  shows "no_approval (record_outcome env i outcome reason actor at)"
  unfolding no_approval_def
proof (intro allI impI)
  fix s q s' j
  assume run: "record_outcome env i outcome reason actor at s = (q, s')" and a: "approved_at s' j"
  from record_effect [OF run] a assms show "approved_at s j"
    by (cases "i = j") (auto simp: approved_at_def settled_as_def)
qed

lemmas no_approval_intros = no_approval_bindE no_approval_thenE no_approval_record
  no_approval_keeps [OF keeps_history(1)] no_approval_keeps [OF keeps_history(2)]
  no_approval_keeps [OF keeps_history(3)] no_approval_keeps [OF keeps_history(4)]
  no_approval_keeps [OF keeps_history(5)]
  no_approval_keeps [OF keeps_getE] no_approval_keeps [OF keeps_ret]

lemma no_approval_advance: "no_approval (mfa_advance env)"
  unfolding mfa_advance_def
  by (intro no_approval_intros) (auto intro!: no_approval_intros split: option.splits)

lemma no_approval_issue: "no_approval (issue_challenge env uuid5 item)"
proof -
  have "no_approval (upd_mfa (\<lambda>m. m\<lparr>mf_history := mf_history m @ [new_challenge uuid5 m item now]\<rparr>))" for now
    by (auto simp: no_approval_def upd_mfa_run approved_at_def nth_append new_challenge_def split: if_splits)
  then show ?thesis
    unfolding issue_challenge_def by (auto intro!: no_approval_intros split: option.splits if_splits)
qed

lemma no_approval_deliver: "no_approval (mfa_deliver env uuid5 item run_id)"
  unfolding mfa_deliver_def
  by (auto intro!: no_approval_intros no_approval_advance no_approval_issue)

lemma no_approval_stop: "no_approval (mfa_stop env)"
proof -
  have "no_approval (finallyE m (\<lambda>s. s\<lparr>my_mfa := (my_mfa s)\<lparr>mf_pending := None\<rparr>\<rparr>))"
    if m: "no_approval m" for m :: "(msys, unit) prog"
    unfolding no_approval_def
  proof (intro allI impI)
    fix s q s' i
    assume run: "finallyE m (\<lambda>s. s\<lparr>my_mfa := (my_mfa s)\<lparr>mf_pending := None\<rparr>\<rparr>) s = (q, s')" and a: "approved_at s' i"
    obtain p s1 where 1: "m s = (p, s1)" by (metis prod.exhaust)
    have "approved_at s1 i" using run 1 a by (auto simp: finallyE_run approved_at_def)
    then show "approved_at s i" by (rule no_approvalD [OF m 1])
  qed
  then have stop: "no_approval (finallyE (record_outcome env i ''cancelled'' ''fail_safe_stop'' None None)
      (\<lambda>s. s\<lparr>my_mfa := (my_mfa s)\<lparr>mf_pending := None\<rparr>\<rparr>))" for i
    using no_approval_record [of "''cancelled''"] by simp
  show ?thesis
    unfolding mfa_stop_def
    by (rule no_approval_bindE [OF no_approval_keeps [OF keeps_history(1)]])
      (simp add: stop no_approval_keeps [OF keeps_ret] split: option.split)
qed

section \<open>Decisions\<close>

definition live :: "msys \<Rightarrow> nat \<Rightarrow> bool" where
  "live s i \<longleftrightarrow> mf_pending (my_mfa s) = Some i \<and> blocked_reason (my_mfa s) (is_content (my_identity s)) = Inr None
     \<and> my_elapsed s < ch_expires_at (mf_history (my_mfa s) ! i)"

lemma advance_cases:
  assumes "mfa_advance env s = (Inr (), s1)"
  shows "mf_pending (my_mfa s1) = None \<or> s1 = s \<and> (\<exists>i. live s i)"
proof (cases "mf_pending (my_mfa s)")
  case None
  then show ?thesis using assms by (simp add: mfa_advance_def prog_simps)
next
  case (Some i)
  show ?thesis
  proof (cases "blocked_reason (my_mfa s) (is_content (my_identity s))")
    case (Inl e)
    then show ?thesis using assms Some by (simp add: mfa_advance_def prog_simps)
  next
    case (Inr reason)
    show ?thesis
    proof (cases "reason \<noteq> None \<or> ch_expires_at (mf_history (my_mfa s) ! i) \<le> my_elapsed s")
      case False
      then show ?thesis using assms Some Inr by (simp add: mfa_advance_def prog_simps live_def)
    next
      case True
      have "thenE m clear_pending s = (Inr (), s1) \<Longrightarrow> mf_pending (my_mfa s1) = None" for m :: "(msys, unit) prog"
        by (auto simp: clear_pending_def upd_mfa_run elim!: thenE_InrE)
      then show ?thesis
        using assms Some Inr True by (simp add: mfa_advance_def bindE_run get_mfa_run mfa_blocked_run)
    qed
  qed
qed

lemma decide_approval:
  assumes "mfa_decide env challenge_id decision actor s = (q, s')" and "approved_at s' j" and "\<not> approved_at s j"
  shows "decision = VStr ''approve'' \<and> (en_role actor = Some ''facilitator'' \<or> en_role actor = Some ''simulated_user'')
    \<and> my_run_state s = ''running'' \<and> live s j \<and> as_string challenge_id = Some (ch_id (mf_history (my_mfa s) ! j))"
proof -
  have moved: "s' \<noteq> s" using assms(2,3) by auto
  have guards: "en_role actor = Some ''facilitator'' \<or> en_role actor = Some ''simulated_user''"
    "my_run_state s = ''running''"
    using assms(1) moved by (auto simp: mfa_decide_def prog_simps split: if_splits)
  obtain p s1 where adv: "mfa_advance env s = (p, s1)" by (metis prod.exhaust)
  have n1: "\<not> approved_at s1 j" using no_approvalD [OF no_approval_advance adv] assms(3) by blast
  have moved1: "s' \<noteq> s1" using assms(2) n1 by auto
  have dec: "decision = VStr ''approve'' \<or> decision = VStr ''deny''" and p: "p = Inr ()"
    using assms(1) guards moved moved1 adv
    by (auto simp: mfa_decide_def prog_simps split: if_splits sum.splits)
  from advance_cases [OF adv [unfolded p]] show ?thesis
  proof
    assume "mf_pending (my_mfa s1) = None"
    then show ?thesis
      using assms(1) guards moved moved1 adv p
      by (auto simp: mfa_decide_def prog_simps split: if_splits)
  next
    assume "s1 = s \<and> (\<exists>i. live s i)"
    then obtain i where s1: "s1 = s" and i: "live s i" by blast
    let ?o = "if decision = VStr ''approve'' then ''approved'' else ''denied''"
    obtain r s2 where rec: "record_outcome env i ?o ''human_decision'' (Some actor) None s = (r, s2)"
      by (metis prod.exhaust)
    have id: "as_string challenge_id = Some (ch_id (mf_history (my_mfa s) ! i))"
      and hist: "mf_history (my_mfa s') = mf_history (my_mfa s2)"
      using assms(1) guards moved adv p s1 i rec
      by (auto simp: mfa_decide_def prog_simps live_def clear_pending_def split: if_splits sum.splits)
    have a2: "approved_at s2 j" using assms(2) hist by (simp add: approved_at_def)
    have yes: "decision = VStr ''approve''"
    proof (rule ccontr)
      assume "decision \<noteq> VStr ''approve''"
      then have "no_approval (record_outcome env i ?o ''human_decision'' (Some actor) None)"
        by (intro no_approval_record) simp
      from no_approvalD [OF this rec a2] show False using assms(3) by blast
    qed
    have "i = j"
      using record_effect [OF rec] a2 assms(3) by (cases "i = j") (auto simp: approved_at_def settled_as_def)
    then show ?thesis using yes guards i id by simp
  qed
qed

text \<open>A run: operations of the component, and steps of the outside world (time, run state, actions on the
  identities).\<close>

datatype mfa_command =
    MfaAdvance
  | MfaDeliver scenario_item string
  | MfaDecide val val entity
  | MfaStop
  | Outside identity_state string int

primrec mfa_perform :: "env \<Rightarrow> (string \<Rightarrow> string) \<Rightarrow> mfa_command \<Rightarrow> msys \<Rightarrow> msys" where
  "mfa_perform env uuid5 MfaAdvance s = snd (mfa_advance env s)"
| "mfa_perform env uuid5 (MfaDeliver item run_id) s = snd (mfa_deliver env uuid5 item run_id s)"
| "mfa_perform env uuid5 (MfaDecide challenge_id decision actor) s = snd (mfa_decide env challenge_id decision actor s)"
| "mfa_perform env uuid5 MfaStop s = snd (mfa_stop env s)"
| "mfa_perform env uuid5 (Outside identity st now) s =
     s\<lparr>my_identity := identity, my_run_state := st, my_elapsed := now\<rparr>"

fun mfa_run :: "env \<Rightarrow> (string \<Rightarrow> string) \<Rightarrow> mfa_command list \<Rightarrow> msys \<Rightarrow> msys" where
  "mfa_run env uuid5 [] s = s"
| "mfa_run env uuid5 (c # cs) s = mfa_run env uuid5 cs (mfa_perform env uuid5 c s)"

lemma mfa_run_snoc: "mfa_run env uuid5 (cs @ [c]) s = mfa_perform env uuid5 c (mfa_run env uuid5 cs s)"
  by (induction cs arbitrary: s) simp_all

lemma step_approval:
  assumes "approved_at (mfa_perform env uuid5 c s) i" and "\<not> approved_at s i"
  obtains challenge_id decision actor where "c = MfaDecide challenge_id decision actor"
    and "approved_at (snd (mfa_decide env challenge_id decision actor s)) i"
proof (cases c)
  case MfaAdvance
  then show ?thesis using assms no_approvalD [OF no_approval_advance, of env s] by (metis mfa_perform.simps(1) surjective_pairing)
next
  case (MfaDeliver item run_id)
  then show ?thesis
    using assms no_approvalD [OF no_approval_deliver, of env uuid5 item run_id s]
    by (metis mfa_perform.simps(2) surjective_pairing)
next
  case (MfaDecide challenge_id decision actor)
  then show ?thesis using assms(1) that by simp
next
  case MfaStop
  then show ?thesis using assms no_approvalD [OF no_approval_stop, of env s] by (metis mfa_perform.simps(4) surjective_pairing)
next
  case (Outside identity st now)
  then show ?thesis using assms by (simp add: approved_at_def)
qed

text \<open>C18: No challenge is ever approved by time, delivery, stop or anything outside: whatever the order of
  commands and of outside events, an approved challenge was approved by an explicit decision naming it, by
  a facilitator or the simulated user, while the exercise was running, the challenge was pending and not
  expired, and no containment was in force.\<close>

theorem approvals_are_human:
  assumes "\<not> approved_at s i" and "approved_at (mfa_run env uuid5 cs s) i"
  shows "\<exists>before challenge_id actor after. cs = before @ MfaDecide challenge_id (VStr ''approve'') actor # after
    \<and> (en_role actor = Some ''facilitator'' \<or> en_role actor = Some ''simulated_user'')
    \<and> my_run_state (mfa_run env uuid5 before s) = ''running''
    \<and> live (mfa_run env uuid5 before s) i
    \<and> as_string challenge_id = Some (ch_id (mf_history (my_mfa (mfa_run env uuid5 before s)) ! i))"
  using assms(2)
proof (induction cs rule: rev_induct)
  case Nil
  then show ?case using assms(1) by simp
next
  case (snoc c cs)
  show ?case
  proof (cases "approved_at (mfa_run env uuid5 cs s) i")
    case True
    from snoc.IH [OF this] show ?thesis by (metis append.assoc append_Cons)
  next
    case False
    let ?t = "mfa_run env uuid5 cs s"
    from snoc.prems have "approved_at (mfa_perform env uuid5 c ?t) i" by (simp only: mfa_run_snoc)
    then obtain challenge_id decision actor where c: "c = MfaDecide challenge_id decision actor"
      and a: "approved_at (snd (mfa_decide env challenge_id decision actor ?t)) i"
      using False by (rule step_approval)
    obtain q t' where "mfa_decide env challenge_id decision actor ?t = (q, t')" by (metis prod.exhaust)
    with decide_approval [OF this _ False] a c show ?thesis by (metis append_Nil2 snd_conv)
  qed
qed

section \<open>Time and containment settle a challenge\<close>

definition mfa_ready :: "msys \<Rightarrow> bool" where
  "mfa_ready s \<longleftrightarrow> (bl_shared (mf_events (my_mfa s)) \<longrightarrow>
     bl_sequence (mf_events (my_mfa s)) \<le> w_sequence (my_world s))"

lemma record_quiet:
  assumes "quiet_env env" and "mfa_ready s" and "outcome_status outcome = Inr status"
    and "map_of (ic_mfa (is_content (my_identity s))) (mc_identity (mf_config (my_mfa s))) \<noteq> None"
  shows "\<exists>s'. record_outcome env i outcome reason actor at s = (Inr (), s')"
proof -
  let ?args = "challenge_event (mf_config (my_mfa s)) (mf_history (my_mfa s) ! i) outcome status reason
        (case actor of None \<Rightarrow> entity ''system'' ''scenario-engine'' None (Some ''scenario_engine'') | Some a \<Rightarrow> a)
        (case at of None \<Rightarrow> my_elapsed s | Some t \<Rightarrow> t)"
  let ?w = "my_world s" and ?b = "mf_events (my_mfa s)"
  have "ea_attack_technique_id ?args = None" "ea_attack_tactic ?args = None" "ea_timestamp ?args = None"
    by (simp_all add: challenge_event_def event_args_def)
  then obtain ev w' b' where b: "build env ?args (?w, ?b) = (Inr ev, (w', b'))"
    using build_quiet [OF assms(1), of ?b ?w ?args] assms(2) by (auto simp: mfa_ready_def)
  have none: "e_sink env (w_log w') ev = None" using assms(1) by (simp add: quiet_env_def)
  have run: "mfa_build env ?args s = (Inr ev, s\<lparr>my_world := w'\<lparr>w_log := w_log w' @ [ev]\<rparr>,
      my_mfa := (my_mfa s)\<lparr>mf_events := b'\<rparr>\<rparr>)"
    using b none by (simp add: mfa_build_def build_and_sink_def prog_simps)
  show ?thesis
    using assms(3,4) run
    by (auto simp: record_outcome_def prog_simps set_decision_def change_table_def set_field_def upd_challenge_def)
qed

text \<open>What overtakes a pending challenge, and how it is recorded.\<close>

definition overtaken :: "msys \<Rightarrow> nat \<Rightarrow> string \<Rightarrow> string \<Rightarrow> bool" where
  "overtaken s i outcome reason \<longleftrightarrow>
     blocked_reason (my_mfa s) (is_content (my_identity s)) = Inr (Some reason) \<and> outcome = ''cancelled''
   \<or> blocked_reason (my_mfa s) (is_content (my_identity s)) = Inr None \<and> reason = ''exercise_timeout''
     \<and> outcome = ''expired'' \<and> ch_expires_at (mf_history (my_mfa s) ! i) \<le> my_elapsed s"

lemma advance_settles:
  assumes "quiet_env env" and "mfa_ready s" and "mf_pending (my_mfa s) = Some i"
    and "i < length (mf_history (my_mfa s))" and "overtaken s i outcome reason"
    and "map_of (ic_mfa (is_content (my_identity s))) (mc_identity (mf_config (my_mfa s))) \<noteq> None"
  shows "\<exists>s'. mfa_advance env s = (Inr (), s') \<and> mf_pending (my_mfa s') = None
    \<and> settled_as outcome reason (mf_history (my_mfa s) ! i) (mf_history (my_mfa s') ! i)"
proof -
  let ?at = "Some (if outcome = ''cancelled'' then my_elapsed s else ch_expires_at (mf_history (my_mfa s) ! i))"
  have "\<exists>status. outcome_status outcome = Inr status"
    using assms(5) by (auto simp: overtaken_def outcome_status_def)
  then obtain s1 where r: "record_outcome env i outcome reason None ?at s = (Inr (), s1)"
    using record_quiet [OF assms(1,2) _ assms(6)] by blast
  have "settled_as outcome reason (mf_history (my_mfa s) ! i) (mf_history (my_mfa s1) ! i)"
    using record_effect [OF r] assms(4) by auto
  then show ?thesis
    using assms(3,5) r
    by (auto simp: mfa_advance_def prog_simps overtaken_def clear_pending_def)
qed


section \<open>A concrete challenge\<close>

definition sample_mfa_config :: mfa_config where
  "sample_mfa_config = \<lparr>mc_seed = ''seed'', mc_identity = ''sarah'', mc_session = ''sess-red-01'',
     mc_factor = ''factor-red-01'', mc_timeout = 60\<rparr>"

definition sample_mfa :: mfa where
  "sample_mfa = \<lparr>mf_config = sample_mfa_config, mf_run_id = ''run'', mf_history = [], mf_pending = None,
     mf_credential_version = VInt 1, mf_events = fresh_builder (mfa_context ''ex'' ''run'') True\<rparr>"

lemma sample_mfa_new: "new_mfa ''ex'' ''run'' (VDict [(''seed'', VStr ''seed''), (''identity_id'', VStr ''sarah''),
    (''session_id'', VStr ''sess-red-01''), (''factor_id'', VStr ''factor-red-01''),
    (''timeout_seconds'', VInt 60)]) (identity_baseline_content []) = Inr sample_mfa"
  by code_simp

text \<open>A pending challenge, delivered at second 0, at second \<open>now\<close>.\<close>

definition sample_msys :: "int \<Rightarrow> msys" where
  "sample_msys now = \<lparr>my_world = sample_world, my_identity = identity_baseline [],
     my_run_state = ''running'', my_elapsed = now,
     my_mfa = sample_mfa\<lparr>mf_history := [(new_challenge id sample_mfa ''M1'' 0)\<lparr>ch_outcome := Some ''delivered''\<rparr>],
       mf_pending := Some 0\<rparr>\<rparr>"


definition sample_decision :: mfa_command where
  "sample_decision = MfaDecide (VStr ''mfa-run:seed:M1'') (VStr ''approve'')
     (entity ''user'' ''u'' None (Some ''simulated_user''))"

lemmas sample_msys_defs = sample_msys_def sample_mfa_def sample_mfa_config_def new_challenge_def
  identity_baseline_def identity_baseline_content_def

lemma sample_live: "live (sample_msys 0) 0"
  by (simp add: live_def sample_msys_defs blocked_reason_def Let_def ditem_def get_field_def dmerge_def num_of_def)

lemma sample_approved: "approved_at (mfa_run sample_env id [sample_decision] (sample_msys 0)) 0"
proof -
  let ?s = "sample_msys 0" and ?actor = "entity ''user'' ''u'' None (Some ''simulated_user'')"
  have r: "mfa_ready ?s" by (simp add: mfa_ready_def sample_msys_defs fresh_builder_def sample_world_def)
  have row: "map_of (ic_mfa (is_content (my_identity ?s))) (mc_identity (mf_config (my_mfa ?s))) \<noteq> None"
    by (simp add: sample_msys_defs)
  have "outcome_status ''approved'' = Inr ''success''" by (simp add: outcome_status_def)
  from record_quiet [OF sample_quiet r this row] obtain s1
    where rec: "record_outcome sample_env 0 ''approved'' ''human_decision'' (Some ?actor) None ?s = (Inr (), s1)"
    by blast
  have adv: "mfa_advance sample_env ?s = (Inr (), ?s)"
    using sample_live by (simp add: mfa_advance_def prog_simps live_def)
  obtain c where c: "mf_history (my_mfa ?s) = [c]" by (simp add: sample_msys_defs)
  have a: "approved_at s1 0"
    using record_effect [OF rec] by (auto simp: approved_at_def settled_as_def c)
  have id: "ch_id (mf_history (my_mfa ?s) ! 0) = ''mfa-run:seed:M1''" "my_run_state ?s = ''running''"
    "mf_pending (my_mfa ?s) = Some 0"
    by (simp_all add: sample_msys_defs)
  have "mfa_decide sample_env (VStr ''mfa-run:seed:M1'') (VStr ''approve'') ?actor ?s
      = clear_pending s1"
    using adv rec id
    by (simp add: mfa_decide_def prog_simps as_string_def entity_def opt_text_def)
  then show ?thesis using a by (simp add: sample_decision_def clear_pending_def upd_mfa_run approved_at_def)
qed

lemma approvals_are_human_witness:
  "\<exists>before challenge_id actor after.
    [sample_decision] = before @ MfaDecide challenge_id (VStr ''approve'') actor # after
    \<and> live (mfa_run sample_env id before (sample_msys 0)) 0"
proof -
  have "\<not> approved_at (sample_msys 0) 0" by (simp add: approved_at_def sample_msys_defs)
  from approvals_are_human [OF this sample_approved] show ?thesis by blast
qed

end
