(* ===== verification/IdentityController.thy ===== *)
theory IdentityController
  imports ModuleProps Support
begin

text \<open>
  \<^verbatim>\<open>modules/04-mfa-fatigue-sim/identity_controller.py\<close>: bearer tokens, and the submission of actions to the
  identity adapter. \<open>parsed\<close> is what \<open>json.loads\<close> gives, or its error. A payload is given with the types of
  the action contract (others fail the contract's schema) together with the names of all its fields.
\<close>

definition auth_error :: "string \<Rightarrow> exc" where
  "auth_error message = OtherError ''AuthenticationError'' message"

record principal =
  pr_actor_id :: string
  pr_role :: string

definition principal_of :: "val \<Rightarrow> exc + principal" where
  "principal_of v = (case v of
     VDict d \<Rightarrow> if keys_are d [''actor_id'', ''role'']
       then bindR (ditem d ''actor_id'') (\<lambda>a. bindR (ditem d ''role'') (\<lambda>r.
          Inr \<lparr>pr_actor_id = py_str a, pr_role = py_str r\<rparr>))
       else Inl (ValueError ''each action token must map to actor_id and role'')
   | _ \<Rightarrow> Inl (ValueError ''each action token must map to actor_id and role''))"

fun token_principals :: "row \<Rightarrow> principal dict \<Rightarrow> exc + principal dict" where
  "token_principals [] acc = Inr acc"
| "token_principals ((token, v) # rest) acc =
    bindR (requireR (16 \<le> char_count token)
      (ValueError ''each action token must contain at least 16 characters'')) (\<lambda>_.
    bindR (principal_of v) (\<lambda>p. token_principals rest (dset token p acc)))"

definition load_token_principals :: "exc + val \<Rightarrow> exc + principal dict" where
  "load_token_principals parsed = bindR parsed (\<lambda>v. case v of
     VDict d \<Rightarrow> token_principals d []
   | _ \<Rightarrow> Inl (ValueError ''NETSTRIKE_ACTION_TOKENS must be a JSON object''))"

record identity_controller =
  ic_exercise_id :: string
  ic_run_id :: string
  ic_tokens :: "principal dict"

text \<open>\<open>__init__\<close>: the controller's own fields, and the adapter on a fresh identity state.\<close>

definition identity_controller_adapter :: "string \<Rightarrow> string \<Rightarrow> int
    \<Rightarrow> (identity_state \<Rightarrow> string \<Rightarrow> string \<Rightarrow> string) \<Rightarrow> exc + identity_state adapter" where
  "identity_controller_adapter exercise_id run_id approval_threshold run_state =
    (case register_identity_actions approval_threshold run_id [] of Inl e \<Rightarrow> Inl e
     | Inr reg \<Rightarrow> Inr (new_adapter (adapter_context exercise_id run_id ''identity-action-controller'')
         reg run_state False))"

definition is_ascii :: "string \<Rightarrow> bool" where
  "is_ascii s \<longleftrightarrow> list_all (\<lambda>c. (of_char c :: nat) < 128) s"

text \<open>\<open>hmac.compare_digest\<close> refuses text that is not ASCII.\<close>

definition compare_digest :: "string \<Rightarrow> string \<Rightarrow> exc + bool" where
  "compare_digest a b = (if is_ascii a \<and> is_ascii b then Inr (a = b)
     else Inl (TypeError ''comparing strings with non-ASCII characters is not supported''))"

fun find_token :: "string \<Rightarrow> principal dict \<Rightarrow> exc + principal" where
  "find_token supplied [] = Inl (auth_error ''invalid Bearer credential'')"
| "find_token supplied ((token, p) # rest) =
    bindR (compare_digest supplied token) (\<lambda>equal. if equal then Inr p else find_token supplied rest)"

definition authenticate :: "identity_controller \<Rightarrow> string option \<Rightarrow> exc + principal" where
  "authenticate ic authorization = (case opt_text authorization of
     None \<Rightarrow> Inl (auth_error ''Bearer authentication is required'')
   | Some a \<Rightarrow> if starts_with ''Bearer '' a then find_token (drop (length ''Bearer '') a) (ic_tokens ic)
       else Inl (auth_error ''Bearer authentication is required''))"

record payload =
  pl_fields :: "string list"
  pl_action_id :: "string option"
  pl_target :: entity
  pl_idempotency_key :: "string option"
  pl_parameters :: "row option"
  pl_dry_run :: "bool option"
  pl_timeout :: "int option"

definition ALLOWED_FIELDS :: "string list" where
  "ALLOWED_FIELDS = [''action_id'', ''target'', ''idempotency_key'', ''parameters'', ''dry_run'', ''timeout_seconds'']"

definition or_else :: "'a \<Rightarrow> 'a option \<Rightarrow> 'a" where
  "or_else d x = (case x of None \<Rightarrow> d | Some v \<Rightarrow> v)"

definition submit :: "env \<Rightarrow> identity_controller \<Rightarrow> principal \<Rightarrow> payload
    \<Rightarrow> (identity_state astate, action_result) prog" where
  "submit env ic p payload =
    thenE (requireE (set (pl_fields payload) \<subseteq> set ALLOWED_FIELDS)
      (ValueError ''request contains unsupported fields''))
   (bindE (on_world (make_action_request env (ic_exercise_id ic) (ic_run_id ic)
        (entity ''service_account'' (pr_actor_id p) None (Some (pr_role p)))
        (or_else [] (pl_action_id payload)) (pl_target payload) (or_else [] (pl_idempotency_key payload))
        (or_else [] (pl_parameters payload)) (or_else True (pl_dry_run payload))
        (or_else 15 (pl_timeout payload)) None)) (execute env))"

section \<open>Lemmas\<close>

lemma find_token_Inr: "find_token supplied tokens = Inr p \<Longrightarrow> (supplied, p) \<in> set tokens"
  by (induction tokens) (auto simp: compare_digest_def split: if_splits)

lemma find_token_known:
  assumes "list_all (\<lambda>(t, p). is_ascii t) tokens" and "distinct (map fst tokens)" and "(t, p) \<in> set tokens"
  shows "find_token t tokens = Inr p"
  using assms
proof (induction tokens)
  case (Cons kv tokens)
  obtain u q where kv: "kv = (u, q)" by (cases kv)
  have ascii: "is_ascii t" using Cons.prems(1,3) by (auto simp: list_all_iff)
  show ?case
  proof (cases "u = t")
    case True
    then have "q = p" using Cons.prems(2,3) by (auto simp: kv image_iff)
    then show ?thesis using True ascii by (simp add: kv compare_digest_def)
  next
    case False
    then show ?thesis using Cons ascii by (simp add: kv compare_digest_def)
  qed
qed simp

lemma token_principals_long:
  "token_principals d acc = Inr tokens \<Longrightarrow> \<forall>(t, p)\<in>set acc. 16 \<le> char_count t \<Longrightarrow>
   distinct (map fst acc) \<Longrightarrow> (\<forall>(t, p)\<in>set tokens. 16 \<le> char_count t) \<and> distinct (map fst tokens)"
proof (induction d arbitrary: acc)
  case Nil
  then show ?case by simp
next
  case (Cons kv d)
  obtain t v where kv: "kv = (t, v)" by (cases kv)
  obtain p where p: "16 \<le> char_count t" "token_principals d (dset t p acc) = Inr tokens"
    using Cons.prems(1) by (auto simp: kv)
  have "\<forall>(u, q)\<in>set (dset t p acc). 16 \<le> char_count u"
    using Cons.prems(2) p(1) by (induction acc) (auto split: if_splits)
  from Cons.IH [OF p(2) this] show ?case using Cons.prems(3) by (simp add: distinct_update)
qed

lemma make_request_fields:
  assumes "make_action_request env ex run actor action target key ps dry timeout None w = (Inr r, w')"
  shows "rq_actor r = actor \<and> rq_action_id r = action \<and> rq_target r = target \<and> rq_dry_run r = dry
    \<and> rq_idempotency_key r = key \<and> rq_timeout_seconds r = timeout \<and> rq_run_id r = run \<and> rq_exercise_id r = ex"
  using assms unfolding make_action_request_def Let_def opt_text_def
  by (auto elim!: bindE_InrE thenE_InrE)

section \<open>Properties\<close>

text \<open>Whoever is authenticated presented a token of the table and is the principal of that token, and
  tokens that load from the configuration are at least sixteen characters long.\<close>

theorem authenticated_by_token:
  assumes "load_token_principals parsed = Inr (ic_tokens ic)" and "authenticate ic authorization = Inr p"
  shows "\<exists>token. authorization = Some (''Bearer '' @ token) \<and> map_of (ic_tokens ic) token = Some p
    \<and> 16 \<le> char_count token"
proof -
  obtain a where a: "authorization = Some a" "starts_with ''Bearer '' a"
      "find_token (drop (length ''Bearer '') a) (ic_tokens ic) = Inr p"
    using assms(2) by (auto simp: authenticate_def opt_text_def split: option.splits if_splits)
  let ?t = "drop (length ''Bearer '') a"
  have t: "(?t, p) \<in> set (ic_tokens ic)" by (rule find_token_Inr [OF a(3)])
  have "a = ''Bearer '' @ ?t" using a(2) unfolding starts_with_def by (metis append_take_drop_id)
  moreover obtain d where "token_principals d [] = Inr (ic_tokens ic)"
    using assms(1) unfolding load_token_principals_def by (elim bindR_InrE) (auto split: val.splits)
  from token_principals_long [OF this] have "16 \<le> char_count ?t" "distinct (map fst (ic_tokens ic))"
    using t by auto
  ultimately show ?thesis using a(1) t by (metis map_of_is_SomeI)
qed

text \<open>A submission changes the identity state only when it says \<open>dry_run: false\<close> itself, has no field
  outside the allowed ones, and the authenticated principal's own role, whatever the payload says, is one
  the registered action allows, on a target it allows.\<close>

theorem submission_effect_needs_role:
  "as_mod (snd (submit env ic p payload s)) = as_mod s
    \<or> pl_dry_run payload = Some False \<and> set (pl_fields payload) \<subseteq> set ALLOWED_FIELDS
      \<and> (\<exists>d. map_of (ad_registry (as_adapter s)) (or_else [] (pl_action_id payload)) = Some d
        \<and> pr_role p \<in> set (df_allowed_roles d)
        \<and> en_type (pl_target payload) @ '':'' @ en_id (pl_target payload) \<in> set (df_allowed_targets d))"
proof (cases "as_mod (snd (submit env ic p payload s)) = as_mod s")
  case False
  let ?req = "make_action_request env (ic_exercise_id ic) (ic_run_id ic)
        (entity ''service_account'' (pr_actor_id p) None (Some (pr_role p)))
        (or_else [] (pl_action_id payload)) (pl_target payload) (or_else [] (pl_idempotency_key payload))
        (or_else [] (pl_parameters payload)) (or_else True (pl_dry_run payload))
        (or_else 15 (pl_timeout payload)) None"
  have fields: "set (pl_fields payload) \<subseteq> set ALLOWED_FIELDS"
    using False by (auto simp: submit_def thenE_run requireE_run split: if_splits)
  obtain q w where r: "?req (as_world s) = (q, w)" by (metis prod.exhaust)
  let ?s = "s\<lparr>as_world := w\<rparr>"
  obtain r where q: "q = Inr r" and eff: "as_mod (snd (execute env r ?s)) \<noteq> as_mod ?s"
    using False fields r by (cases q) (auto simp: submit_def thenE_run requireE_run bindE_run on_world_run)
  note f = make_request_fields [OF r [unfolded q]]
  obtain d where d: "judge env (as_adapter ?s) (as_mod ?s) (redact_request r) = Allow d" "\<not> rq_dry_run r"
    using execute_effect_admitted [OF eff] by blast
  have "pl_dry_run payload = Some False" using d(2) f by (auto simp: or_else_def split: option.splits)
  moreover have "map_of (ad_registry (as_adapter s)) (or_else [] (pl_action_id payload)) = Some d"
    and "role_in (rq_actor r) (df_allowed_roles d)" and "target_key r \<in> set (df_allowed_targets d)"
    using d(1) f by (auto simp: judge_Allow_iff)
  ultimately show ?thesis
    using fields f by (auto simp: role_in_def entity_def target_key_def opt_text_def split: if_splits)
qed simp

lemma authenticated_by_token_witness:
  "\<exists>ic. load_token_principals (Inr (VDict [(''0123456789abcdef'', VDict [(''actor_id'', VStr ''a''),
      (''role'', VStr ''facilitator'')])])) = Inr (ic_tokens ic)
    \<and> authenticate ic (Some ''Bearer 0123456789abcdef'') = Inr \<lparr>pr_actor_id = ''a'', pr_role = ''facilitator''\<rparr>
    \<and> map_of (ic_tokens ic) ''0123456789abcdef'' = Some \<lparr>pr_actor_id = ''a'', pr_role = ''facilitator''\<rparr>"
proof -
  let ?p = "\<lparr>pr_actor_id = ''a'', pr_role = ''facilitator''\<rparr>"
  let ?raw = "Inr (VDict [(''0123456789abcdef'', VDict [(''actor_id'', VStr ''a''), (''role'', VStr ''facilitator'')])])"
  let ?ic = "\<lparr>ic_exercise_id = ''ex'', ic_run_id = ''run'', ic_tokens = [(''0123456789abcdef'', ?p)]\<rparr>"
  have l: "load_token_principals ?raw = Inr (ic_tokens ?ic)" by code_simp
  have a: "authenticate ?ic (Some ''Bearer 0123456789abcdef'') = Inr ?p" by code_simp
  from authenticated_by_token [OF l a] l a show ?thesis by (intro exI [of _ ?ic]) simp
qed

end
