(* ===== verification/ImpactFixture.thy ===== *)
theory ImpactFixture
  imports ModuleProps Support
begin

text \<open>
  \<^verbatim>\<open>modules/07-ransomware-sim/impact_actions.py\<close>: the disposable fixture of the marker impact and its
  recovery. A directory lists its entries in the order of \<open>iterdir\<close>; an entry and a directory carry what the
  source asks of the file system. The fault injector, and what a checkpoint inside a loop raises, are the
  parameter \<open>fault\<close> on the label of the step; writing and removing regular files succeeds.
\<close>

section \<open>Constants\<close>

definition nl :: string where "nl = [CHR 0x0A]"
definition dq :: string where "dq = [CHR 0x22]"

definition FIXTURE_ID :: string where "FIXTURE_ID = ''FILE01-disposable-fixture''"
definition MARKER_SUFFIX :: string where "MARKER_SUFFIX = ''.NETSTRIKE-MARKER''"
definition NOTE_NAME :: string where "NOTE_NAME = ''NETSTRIKE_EXERCISE_NOTE.txt''"
definition IMPACT_ROLES :: "string list" where "IMPACT_ROLES = [''scenario_engine'', ''facilitator'']"
definition RECOVERY_ROLES :: "string list" where "RECOVERY_ROLES = [''cloud_responder'', ''facilitator'']"
definition IMPACT_CONTROL_ROLES :: "string list" where
  "IMPACT_CONTROL_ROLES = [''technical_operator'', ''facilitator'']"

definition run_id_ok :: "string \<Rightarrow> bool" where
  "run_id_ok s \<longleftrightarrow> s \<noteq> [] \<and> length s \<le> 128 \<and> is_alnum (hd s)
     \<and> list_all (\<lambda>c. is_alnum c \<or> c \<in> set ''._-'') (tl s)"

type_synonym files = "string dict"

definition FIXTURE_CONTENTS :: files where
  "FIXTURE_CONTENTS =
    [(''approval-queue.txt'', ''SYNTHETIC EXERCISE DATA'' @ nl @ ''Approvals pending: 3'' @ nl),
     (''billing-export.csv'', ''record_id,amount,status'' @ nl @ ''SIM-001,125.00,approved'' @ nl),
     (''customer-ledger.json'', ''{'' @ dq @ ''synthetic'' @ dq @ '':true,'' @ dq @ ''records'' @ dq @ '':25}'' @ nl),
     (''payroll-summary.csv'', ''department,total'' @ nl @ ''Finance,12500.00'' @ nl),
     (''quarter-close-notes.md'', ''# Synthetic quarter close'' @ nl @ ''Exercise fixture only.'' @ nl)]"

definition ORIGINALS :: "string list" where
  "ORIGINALS = map fst FIXTURE_CONTENTS"

definition marker_name :: "string \<Rightarrow> string" where
  "marker_name n = n @ MARKER_SUFFIX"

definition LIVE_NAMES :: "string list" where
  "LIVE_NAMES = ORIGINALS @ map marker_name ORIGINALS @ [NOTE_NAME]"

definition manifest :: "(string \<Rightarrow> string) \<Rightarrow> files \<Rightarrow> string dict" where
  "manifest sha fs = map (map_prod id sha) (sort_key fst fs)"

section \<open>The fixture\<close>

record fs_entry =
  fe_symlink :: bool
  fe_file :: bool
  fe_links :: int
  fe_content :: string
  fe_inside :: bool

record directory =
  di_symlink :: bool
  di_dir :: bool
  di_inside :: bool
  di_entries :: "fs_entry dict"

record fixture_content =
  fc_live :: directory
  fc_staging :: directory
  fc_report :: row

record fixture_saved =
  sv_live :: files
  sv_staging :: files
  sv_report :: row

record fixture =
  fx_content :: fixture_content
  fx_root :: directory
  fx_backup :: directory
  fx_rollbacks :: "(string \<times> fixture_saved) list"
  fx_sequence :: int

definition regular :: "string \<Rightarrow> fs_entry" where
  "regular c = \<lparr>fe_symlink = False, fe_file = True, fe_links = 1, fe_content = c, fe_inside = True\<rparr>"

definition plain_dir :: "files \<Rightarrow> directory" where
  "plain_dir fs = \<lparr>di_symlink = False, di_dir = True, di_inside = True,
     di_entries = map (map_prod id regular) fs\<rparr>"

text \<open>\<open>_validate_directories\<close>.\<close>

definition validate_directories :: "fixture \<Rightarrow> exc + unit" where
  "validate_directories fx =
    bindR (requireR (\<not> di_symlink (fx_root fx) \<and> di_dir (fx_root fx))
      (ValueError ''run-specific impact directory is missing or unsafe'')) (\<lambda>_.
    bindR (requireR (di_inside (fx_root fx))
      (ValueError ''run-specific impact directory escaped approved root'')) (\<lambda>_.
    bindR (mapR (\<lambda>d. bindR (requireR (\<not> di_symlink d \<and> di_dir d)
        (ValueError ''impact fixture directory is missing or unsafe'')) (\<lambda>_.
      requireR (di_inside d) (ValueError ''impact fixture directory escaped run root'')))
      [fc_live (fx_content fx), fx_backup fx, fc_staging (fx_content fx)]) (\<lambda>_. Inr ())))"

definition unsafe :: "string \<Rightarrow> exc" where
  "unsafe message = ActionExecutionError ''unsafe_fixture'' message"

text \<open>\<open>_inventory\<close>: the files of a directory, if each is an allowed, regular, small file inside it.\<close>

definition inventory_entry :: "string list \<Rightarrow> string \<times> fs_entry \<Rightarrow> exc + (string \<times> string)" where
  "inventory_entry allowed ne = (case ne of (name, e) \<Rightarrow>
    if name \<notin> set allowed \<or> fe_symlink e \<or> \<not> fe_file e \<or> fe_links e \<noteq> 1 \<or> 64 * 1024 < length (fe_content e)
    then Inl (unsafe ''Fixture contains an unexpected or unsafe entry'')
    else if \<not> fe_inside e then Inl (unsafe ''Fixture entry escaped its approved directory'')
    else Inr (name, fe_content e))"

definition inventory :: "fixture \<Rightarrow> directory \<Rightarrow> string list \<Rightarrow> exc + files" where
  "inventory fx d allowed = (case validate_directories fx of
     Inl e \<Rightarrow> if is_value_error e then Inl (unsafe (exc_text e)) else Inl e
   | Inr _ \<Rightarrow> mapR (inventory_entry allowed) (di_entries d))"

record inventories =
  in_live :: files
  in_backup :: files
  in_staging :: files

definition inventories :: "fixture \<Rightarrow> exc + inventories" where
  "inventories fx =
    bindR (inventory fx (fc_live (fx_content fx)) LIVE_NAMES) (\<lambda>live.
    bindR (inventory fx (fx_backup fx) ORIGINALS) (\<lambda>backup.
    bindR (inventory fx (fc_staging (fx_content fx)) ORIGINALS) (\<lambda>staging.
      Inr \<lparr>in_live = live, in_backup = backup, in_staging = staging\<rparr>)))"

definition expected_manifest :: "(string \<Rightarrow> string) \<Rightarrow> string dict" where
  "expected_manifest sha = manifest sha FIXTURE_CONTENTS"

definition manifest_mismatches :: "(string \<Rightarrow> string) \<Rightarrow> inventories \<Rightarrow> string list" where
  "manifest_mismatches sha inven =
    (if manifest sha (in_live inven) \<noteq> expected_manifest sha then [''live_manifest''] else [])
    @ (if manifest sha (in_backup inven) \<noteq> expected_manifest sha then [''backup_manifest''] else [])
    @ (if in_staging inven \<noteq> [] then [''staging_not_empty''] else [])"

definition health_mismatches :: "(string \<Rightarrow> string) \<Rightarrow> fixture \<Rightarrow> exc + string list" where
  "health_mismatches sha fx = bindR (inventories fx) (\<lambda>inven. Inr (manifest_mismatches sha inven))"

section \<open>Changing files\<close>

definition get_inventories :: "(fixture, inventories) prog" where
  "get_inventories = bindE (getE inventories) liftE"

definition upd_content :: "(fixture_content \<Rightarrow> fixture_content) \<Rightarrow> (fixture, unit) prog" where
  "upd_content f = updE (\<lambda>fx. fx\<lparr>fx_content := f (fx_content fx)\<rparr>)"

definition write_live :: "string \<Rightarrow> string \<Rightarrow> (fixture, unit) prog" where
  "write_live name content = upd_content (\<lambda>c. c\<lparr>fc_live := (fc_live c)
     \<lparr>di_entries := dset name (regular content) (di_entries (fc_live c))\<rparr>\<rparr>)"

text \<open>\<open>(live_dir / name).replace(staging_dir / name)\<close>.\<close>

definition stage_file :: "string \<Rightarrow> (fixture, unit) prog" where
  "stage_file name = bindE (getE (\<lambda>fx. map_of (di_entries (fc_live (fx_content fx))) name)) (\<lambda>found. case found of
     None \<Rightarrow> raise (OtherError ''FileNotFoundError'' name)
   | Some e \<Rightarrow> upd_content (\<lambda>c. c
       \<lparr>fc_live := (fc_live c)\<lparr>di_entries := dpop name (di_entries (fc_live c))\<rparr>,
        fc_staging := (fc_staging c)\<lparr>di_entries := dset name e (di_entries (fc_staging c))\<rparr>\<rparr>))"

definition impact_token :: "int \<Rightarrow> string" where
  "impact_token n = ''impact-rb-'' @ int_str n"

definition impact_capture :: "(fixture, string) prog" where
  "impact_capture = bindE get_inventories (\<lambda>inven.
     bindE (getE (\<lambda>fx. impact_token (fx_sequence fx + 1))) (\<lambda>token.
     thenE (updE (\<lambda>fx. fx\<lparr>fx_sequence := fx_sequence fx + 1,
        fx_rollbacks := dset token \<lparr>sv_live = in_live inven, sv_staging = in_staging inven,
          sv_report = fc_report (fx_content fx)\<rparr> (fx_rollbacks fx)\<rparr>))
       (ret token)))"

text \<open>\<open>_replace_inventory\<close> on the live or on the staging directory: unlink what is there, write the files.\<close>

definition replace_live :: "files \<Rightarrow> (fixture, unit) prog" where
  "replace_live fs = bindE (getE (\<lambda>fx. inventory fx (fc_live (fx_content fx)) LIVE_NAMES)) (\<lambda>current.
     thenE (liftE current) (upd_content (\<lambda>c. c\<lparr>fc_live := (fc_live c)
       \<lparr>di_entries := fold (\<lambda>(n, x). dset n (regular x)) fs []\<rparr>\<rparr>)))"

definition replace_staging :: "files \<Rightarrow> (fixture, unit) prog" where
  "replace_staging fs = bindE (getE (\<lambda>fx. inventory fx (fc_staging (fx_content fx)) ORIGINALS)) (\<lambda>current.
     thenE (liftE current) (upd_content (\<lambda>c. c\<lparr>fc_staging := (fc_staging c)
       \<lparr>di_entries := fold (\<lambda>(n, x). dset n (regular x)) fs []\<rparr>\<rparr>)))"

definition restore_snapshot :: "fixture_saved \<Rightarrow> (fixture, unit) prog" where
  "restore_snapshot sv = thenE (replace_live (sv_live sv))
    (thenE (replace_staging (sv_staging sv)) (upd_content (\<lambda>c. c\<lparr>fc_report := sv_report sv\<rparr>)))"

definition pop_rollback :: "string \<Rightarrow> (fixture, fixture_saved) prog" where
  "pop_rollback token = bindE (getE (\<lambda>fx. ditem (fx_rollbacks fx) token)) (\<lambda>saved.
     bindE (liftE saved) (\<lambda>sv. thenE (updE (\<lambda>fx. fx\<lparr>fx_rollbacks := dpop token (fx_rollbacks fx)\<rparr>)) (ret sv)))"

definition step :: "(string \<Rightarrow> exc option) \<Rightarrow> string \<Rightarrow> (fixture, unit) prog" where
  "step fault label = (case fault label of None \<Rightarrow> ret () | Some e \<Rightarrow> raise e)"

definition marker_content :: "(string \<Rightarrow> string) \<Rightarrow> string \<Rightarrow> string" where
  "marker_content sha name = ''NETSTRIKE EXERCISE MARKER - NO ENCRYPTION PERFORMED'' @ nl
     @ ''Original: '' @ name @ nl
     @ ''Original-SHA256: '' @ (case map_of (expected_manifest sha) name of None \<Rightarrow> [] | Some h \<Rightarrow> h) @ nl"

definition note_text :: string where
  "note_text = ''NETSTRIKE EXERCISE ONLY'' @ nl
     @ ''Disposable synthetic files were staged by the controller.'' @ nl
     @ ''No encryption occurred and no payment or contact is required.'' @ nl"

definition mark_file :: "(string \<Rightarrow> exc option) \<Rightarrow> (string \<Rightarrow> string) \<Rightarrow> bool \<Rightarrow> string \<Rightarrow> (fixture, unit) prog" where
  "mark_file fault sha realized name =
    thenE (step fault (''checkpoint:'' @ name))
   (thenE (if realized then thenE (stage_file name) (step fault (''moved:'' @ name)) else ret ())
   (thenE (write_live (marker_name name) (marker_content sha name))
      (step fault (''marked:'' @ name))))"

definition manifests_of :: "(string \<Rightarrow> string) \<Rightarrow> inventories \<Rightarrow> val" where
  "manifests_of sha inven = VDict (map (\<lambda>(k, fs). (k, VDict (map (map_prod id VStr) (manifest sha fs))))
     [(''live'', in_live inven), (''backup'', in_backup inven), (''staging'', in_staging inven)])"

definition set_report :: "row \<Rightarrow> (fixture, unit) prog" where
  "set_report report = upd_content (\<lambda>c. c\<lparr>fc_report := report\<rparr>)"

text \<open>The body of the \<open>try\<close>, and what both operations do when it raises.\<close>

definition apply_body :: "(string \<Rightarrow> exc option) \<Rightarrow> (string \<Rightarrow> string) \<Rightarrow> bool \<Rightarrow> (fixture, inventories) prog" where
  "apply_body fault sha realized =
    thenE (forE (mark_file fault sha realized) (sorted_set ORIGINALS))
   (thenE (if realized then thenE (write_live NOTE_NAME note_text) (step fault ''note-created'') else ret ())
      get_inventories)"

definition undo_and_raise :: "string \<Rightarrow> exc \<Rightarrow> (fixture, 'a) prog" where
  "undo_and_raise token e = bindE (pop_rollback token) (\<lambda>sv. thenE (restore_snapshot sv) (raise e))"

definition apply_markers :: "(string \<Rightarrow> exc option) \<Rightarrow> (string \<Rightarrow> string) \<Rightarrow> string \<Rightarrow> control \<Rightarrow> int
    \<Rightarrow> (fixture, string) prog" where
  "apply_markers fault sha variant control now = checked control now
    (thenE (requireE (variant \<in> set [''blocked'', ''realized''])
      (ActionExecutionError ''invalid_variant'' ''Unknown marker variant''))
   (bindE (getE (health_mismatches sha)) (\<lambda>health.
    bindE (liftE health) (\<lambda>ms.
    thenE (requireE (ms = []) (ActionExecutionError ''fixture_not_ready'' ''Impact fixture is not at baseline''))
   (bindE impact_capture (\<lambda>token.
    bindE get_inventories (\<lambda>before.
    bindE (tryE (apply_body fault sha (variant = ''realized'')) (\<lambda>e. undo_and_raise token
      (ActionExecutionError ''impact_apply_failed'' ''Marker impact failed and was rolled back''))) (\<lambda>after.
    thenE (set_report [(''operation'', VStr ''impact.marker.apply''), (''variant'', VStr variant),
        (''before'', manifests_of sha before), (''after'', manifests_of sha after)])
      (ret token)))))))))"

definition restore_file :: "(string \<Rightarrow> exc option) \<Rightarrow> string \<times> string \<Rightarrow> (fixture, unit) prog" where
  "restore_file fault nc = (case nc of (name, content) \<Rightarrow>
    thenE (step fault (''checkpoint:'' @ name)) (thenE (write_live name content) (step fault (''restored:'' @ name))))"

definition restore_body :: "(string \<Rightarrow> exc option) \<Rightarrow> (string \<Rightarrow> string) \<Rightarrow> files \<Rightarrow> (fixture, inventories) prog" where
  "restore_body fault sha backup =
    thenE (replace_live []) (thenE (replace_staging []) (thenE (forE (restore_file fault) backup)
     (bindE get_inventories (\<lambda>after.
      thenE (requireE (manifest sha (in_live after) = expected_manifest sha)
        (RuntimeError ''restored fixture hash mismatch'')) (ret after)))))"

definition restore_fixture :: "(string \<Rightarrow> exc option) \<Rightarrow> (string \<Rightarrow> string) \<Rightarrow> control \<Rightarrow> int
    \<Rightarrow> (fixture, string) prog" where
  "restore_fixture fault sha control now = checked control now
    (bindE get_inventories (\<lambda>before.
    thenE (requireE (manifest sha (in_backup before) = expected_manifest sha)
      (ActionExecutionError ''backup_mismatch'' ''Known-good fixture does not match its manifest''))
   (bindE impact_capture (\<lambda>token.
    bindE (tryE (restore_body fault sha (in_backup before)) (\<lambda>e. undo_and_raise token
      (ActionExecutionError ''recovery_failed'' ''Fixture recovery failed and was rolled back''))) (\<lambda>after.
    thenE (set_report [(''operation'', VStr ''recovery.fixture.restore''),
        (''before'', manifests_of sha before), (''after'', manifests_of sha after)])
      (ret token))))))"

definition impact_rollback :: "string \<Rightarrow> control \<Rightarrow> int \<Rightarrow> (fixture, string list) prog" where
  "impact_rollback token control now = checked control now
    (bindE (tryE (pop_rollback token) (\<lambda>e. raise (ActionExecutionError ''invalid_rollback''
        ''Unknown or already-used rollback token''))) (\<lambda>sv.
     thenE (restore_snapshot sv) (ret [''restored pre-action disposable fixture''])))"

section \<open>Creation, inspection, actions\<close>

text \<open>\<open>_approved_root\<close> and \<open>_validated_run_id\<close>, for what the path of the root is.\<close>

record root_path =
  rp_absolute :: bool
  rp_symlink :: bool
  rp_dir :: bool

definition approved_root :: "root_path \<Rightarrow> exc + unit" where
  "approved_root r = bindR (requireR (rp_absolute r) (ValueError ''approved impact root must be absolute'')) (\<lambda>_.
     requireR (\<not> rp_symlink r \<and> rp_dir r) (ValueError ''approved impact root must be an existing real directory''))"

definition validated_run_id :: "string \<Rightarrow> exc + unit" where
  "validated_run_id run_id = requireR (run_id_ok run_id)
     (ValueError ''run_id is not safe for a run-specific directory'')"

definition new_fixture :: "root_path \<Rightarrow> string \<Rightarrow> directory \<Rightarrow> directory \<Rightarrow> directory \<Rightarrow> directory \<Rightarrow> exc + fixture" where
  "new_fixture r run_id root live backup staging =
    (let fx = \<lparr>fx_content = \<lparr>fc_live = live, fc_staging = staging, fc_report = []\<rparr>, fx_root = root,
       fx_backup = backup, fx_rollbacks = [], fx_sequence = 0\<rparr> in
    bindR (approved_root r) (\<lambda>_. bindR (validated_run_id run_id) (\<lambda>_.
    bindR (validate_directories fx) (\<lambda>_. Inr fx))))"

text \<open>\<open>provision\<close>: \<open>taken\<close> is whether something is at the run's path already; nothing is then written.\<close>

definition provision :: "root_path \<Rightarrow> string \<Rightarrow> bool \<Rightarrow> exc + fixture" where
  "provision r run_id taken =
    bindR (approved_root r) (\<lambda>_. bindR (validated_run_id run_id) (\<lambda>_.
    bindR (requireR (\<not> taken) (ValueError ''run-specific impact directory already exists'')) (\<lambda>_.
      new_fixture r run_id (plain_dir []) (plain_dir FIXTURE_CONTENTS) (plain_dir FIXTURE_CONTENTS) (plain_dir []))))"

definition str_manifest :: "string dict \<Rightarrow> val" where
  "str_manifest m = VDict (map (map_prod id VStr) m)"

definition impact_inspect :: "(string \<Rightarrow> string) \<Rightarrow> fixture \<Rightarrow> exc + row" where
  "impact_inspect sha fx = bindR (inventories fx) (\<lambda>inven.
    let live = manifest sha (in_live inven); backup = manifest sha (in_backup inven);
        staging = manifest sha (in_staging inven); expected = expected_manifest sha;
        originals = map (\<lambda>(n, h). (n, case map_of live n of Some x \<Rightarrow> Some x | None \<Rightarrow> map_of staging n)) expected in
    Inr [(''fixture_id'', VStr FIXTURE_ID), (''synthetic'', VBool True),
      (''expected_manifest'', str_manifest expected), (''manifests'', manifests_of sha inven),
      (''originals_unchanged'', VBool (originals = map (map_prod id Some) expected)),
      (''backup_intact'', VBool (backup = expected)),
      (''available_originals'', VInt (int (length (filter (\<lambda>(n, h). map_of live n = Some h) expected)))),
      (''marker_count'', VInt (int (length (filter (\<lambda>(n, h). ends_with MARKER_SUFFIX n) live)))),
      (''note_present'', VBool (has_key live NOTE_NAME)),
      (''baseline_verified'', VBool (live = expected \<and> backup = expected \<and> staging = [])),
      (''encryption_performed'', VBool False)])"

definition impact_parameters :: "row \<Rightarrow> exc + unit" where
  "impact_parameters parameters =
    (let invalid = Inl (ValueError ''variant must be either blocked or realized'') in
     if \<not> keys_are parameters [''variant''] then invalid
     else bindR (ditem parameters ''variant'') (\<lambda>v. bindR (hashed v v) (\<lambda>w.
       if w \<in> set [VStr ''blocked'', VStr ''realized''] then Inr () else invalid)))"

definition reported :: "string list \<Rightarrow> (fixture, string) prog \<Rightarrow> (fixture, action_effect) prog" where
  "reported effects m = bindE m (\<lambda>token. bindE (getE (\<lambda>fx. fc_report (fx_content fx))) (\<lambda>report.
     ret \<lparr>ef_effects = effects, ef_rollback_token = Some token,
          ef_metadata = [(''manifest_report'', VDict report)]\<rparr>))"

definition impact_apply :: "(string \<Rightarrow> exc option) \<Rightarrow> (string \<Rightarrow> string) \<Rightarrow> fixture handler" where
  "impact_apply fault sha ps target control now = bindE (liftE (ditem ps ''variant'')) (\<lambda>v.
     reported [''applied '' @ py_str v @ '' marker-only impact''] (apply_markers fault sha (py_str v) control now))"

definition impact_restore :: "(string \<Rightarrow> exc option) \<Rightarrow> (string \<Rightarrow> string) \<Rightarrow> fixture handler" where
  "impact_restore fault sha ps target control now =
     reported [''restored disposable fixture from known-good copy''] (restore_fixture fault sha control now)"

definition impact_validate :: "(string \<Rightarrow> string) \<Rightarrow> fixture handler" where
  "impact_validate sha ps target control now = checked control now
    (bindE (getE (health_mismatches sha)) (\<lambda>health. bindE (liftE health) (\<lambda>ms.
     thenE (requireE (ms = []) (ActionExecutionError ''fixture_unhealthy''
        (''Disposable fixture differs in: '' @ join '', '' ms)))
      (ret \<lparr>ef_effects = [''validated disposable fixture hashes''], ef_rollback_token = None,
         ef_metadata = [(''expected_manifest'', str_manifest (expected_manifest sha))]\<rparr>))))"

definition impact_definitions :: "(string \<Rightarrow> exc option) \<Rightarrow> (string \<Rightarrow> string) \<Rightarrow> string
    \<Rightarrow> fixture action_definition list" where
  "impact_definitions fault sha run_id =
    [define_action ''impact.marker.apply'' ''impact_recovery'' IMPACT_ROLES [''fixture_set:'' @ FIXTURE_ID]
       [''running''] 30 [''create harmless marker impact''] ''restore pre-impact filesystem snapshot''
       (impact_apply fault sha) impact_rollback impact_parameters,
     define_action ''recovery.fixture.restore'' ''impact_recovery'' RECOVERY_ROLES
       [''fixture_set:'' @ FIXTURE_ID] [''running''] 30 [''restore disposable fixture'']
       ''restore pre-recovery filesystem snapshot'' (impact_restore fault sha) impact_rollback no_parameters,
     define_action ''recovery.health.validate'' ''impact_recovery'' (RECOVERY_ROLES @ IMPACT_CONTROL_ROLES)
       [''fixture_set:'' @ FIXTURE_ID] [''running'', ''stopped'', ''resetting'', ''ready''] 15
       [''validate disposable fixture hashes''] ''not required for read-only validation''
       (impact_validate sha) (\<lambda>_ _ _. ret []) no_parameters,
     define_action ''exercise.impact.reset'' ''post_exercise'' IMPACT_CONTROL_ROLES [''exercise_run:'' @ run_id]
       [''stopped'', ''resetting''] 30 [''restore disposable fixture baseline'']
       ''restore pre-reset filesystem snapshot'' (impact_restore fault sha) impact_rollback no_parameters,
     define_action ''exercise.impact.readiness.validate'' ''setup'' IMPACT_CONTROL_ROLES
       [''exercise_run:'' @ run_id] [''setup'', ''stopped'', ''resetting'', ''ready''] 15
       [''validate disposable fixture baseline''] ''not required for read-only validation''
       (impact_validate sha) (\<lambda>_ _ _. ret []) no_parameters]"

definition register_impact_actions :: "(string \<Rightarrow> exc option) \<Rightarrow> (string \<Rightarrow> string) \<Rightarrow> string
    \<Rightarrow> fixture registry \<Rightarrow> exc + fixture registry" where
  "register_impact_actions fault sha run_id reg = register_all (impact_definitions fault sha run_id) reg"

definition build_impact_adapter :: "(string \<Rightarrow> exc option) \<Rightarrow> (string \<Rightarrow> string) \<Rightarrow> string \<Rightarrow> string
    \<Rightarrow> (fixture \<Rightarrow> string \<Rightarrow> string \<Rightarrow> string) \<Rightarrow> exc + fixture adapter" where
  "build_impact_adapter fault sha exercise_id run_id run_state =
    (case register_impact_actions fault sha run_id [] of Inl e \<Rightarrow> Inl e
     | Inr reg \<Rightarrow> Inr (new_adapter (adapter_context exercise_id run_id ''marker-impact-action-adapter'')
         reg run_state False))"

end
