(* ===== verification/ImpactProps.thy ===== *)
theory ImpactProps
  imports ImpactFixture
begin

text \<open>
  The marker impact and the recovery: all or nothing under any fault, no original lost, recovery and
  rollback exact.
\<close>

section \<open>Orderly fixtures\<close>

definition holds :: "string list \<Rightarrow> files \<Rightarrow> bool" where
  "holds allowed fs \<longleftrightarrow> list_all (\<lambda>(n, c). n \<in> set allowed \<and> length c \<le> 64 * 1024) fs"

definition entries :: "files \<Rightarrow> fs_entry dict" where
  "entries fs = map (map_prod id regular) fs"

lemma inventory_entry_Inr: "inventory_entry allowed (n, e) = Inr (m, c) \<longleftrightarrow>
    m = n \<and> e = regular c \<and> n \<in> set allowed \<and> length c \<le> 64 * 1024"
  by (cases e) (auto simp: inventory_entry_def regular_def not_less split: if_splits)

lemma inventory_iff: "inventory fx d allowed = Inr fs \<longleftrightarrow>
    validate_directories fx = Inr () \<and> di_entries d = entries fs \<and> holds allowed fs"
proof -
  have "mapR (inventory_entry allowed) es = Inr fs \<longleftrightarrow> es = entries fs \<and> holds allowed fs" for es
  proof (induction es arbitrary: fs)
    case Nil
    then show ?case by (auto simp: entries_def holds_def)
  next
    case (Cons ne es)
    obtain n e where ne: "ne = (n, e)" by (cases ne)
    show ?case
    proof (cases fs)
      case Nil
      then show ?thesis by (simp add: entries_def)
    next
      case (Cons mc fs')
      obtain m c where mc: "mc = (m, c)" by (cases mc)
      show ?thesis
        using Cons.IH [of fs'] unfolding ne Cons mc
        by (auto simp: inventory_entry_Inr entries_def holds_def)
    qed
  qed
  then show ?thesis unfolding inventory_def by (cases "validate_directories fx") auto
qed

text \<open>Every directory is safe and holds regular files with allowed names, one entry for each name.\<close>

definition orderly :: "fixture \<Rightarrow> files \<Rightarrow> files \<Rightarrow> files \<Rightarrow> bool" where
  "orderly fx live backup staging \<longleftrightarrow> validate_directories fx = Inr ()
     \<and> di_entries (fc_live (fx_content fx)) = entries live \<and> holds LIVE_NAMES live \<and> distinct (map fst live)
     \<and> di_entries (fx_backup fx) = entries backup \<and> holds ORIGINALS backup \<and> distinct (map fst backup)
     \<and> di_entries (fc_staging (fx_content fx)) = entries staging \<and> holds ORIGINALS staging \<and> distinct (map fst staging)"

definition one_entry_per_name :: "fixture \<Rightarrow> bool" where
  "one_entry_per_name fx \<longleftrightarrow> (\<forall>d\<in>{fc_live (fx_content fx), fx_backup fx, fc_staging (fx_content fx)}.
     distinct (map fst (di_entries d)))"

lemma map_fst_entries [simp]: "map fst (entries fs) = map fst fs"
  by (simp add: entries_def)

lemma inventories_orderly:
  assumes "one_entry_per_name fx"
  shows "inventories fx = Inr i \<longleftrightarrow> orderly fx (in_live i) (in_backup i) (in_staging i)"
  using assms unfolding inventories_def orderly_def
  by (cases i) (auto simp: inventory_iff one_entry_per_name_def)

lemma orderly_inventories: "orderly fx l b s \<Longrightarrow> inventories fx = Inr \<lparr>in_live = l, in_backup = b, in_staging = s\<rparr>"
  by (simp add: inventories_def inventory_iff orderly_def)

lemma get_inventories_run: "get_inventories fx = (inventories fx, fx)"
  by (simp add: get_inventories_def prog_simps split: sum.splits)

section \<open>Steps inside a fixture\<close>

text \<open>\<open>fx\<close> differs from \<open>fx0\<close> in the files of the live and the staging directory and the report only, and is orderly.\<close>

definition flags :: "directory \<Rightarrow> directory" where
  "flags d = d\<lparr>di_entries := []\<rparr>"

definition inside :: "fixture \<Rightarrow> fixture \<Rightarrow> bool" where
  "inside fx0 fx \<longleftrightarrow> fx_root fx = fx_root fx0 \<and> fx_backup fx = fx_backup fx0
     \<and> fx_rollbacks fx = fx_rollbacks fx0 \<and> fx_sequence fx = fx_sequence fx0
     \<and> flags (fc_live (fx_content fx)) = flags (fc_live (fx_content fx0))
     \<and> flags (fc_staging (fx_content fx)) = flags (fc_staging (fx_content fx0))
     \<and> (\<exists>l b s. orderly fx l b s)"

lemma flags_eq: "flags d' = flags d \<longleftrightarrow> di_symlink d' = di_symlink d \<and> di_dir d' = di_dir d \<and> di_inside d' = di_inside d"
  by (cases d; cases d') (simp add: flags_def)

lemma validate_flags:
  assumes "fx_root fx' = fx_root fx" and "flags (fx_backup fx') = flags (fx_backup fx)"
    and "flags (fc_live (fx_content fx')) = flags (fc_live (fx_content fx))"
    and "flags (fc_staging (fx_content fx')) = flags (fc_staging (fx_content fx))"
  shows "validate_directories fx' = validate_directories fx"
  using assms by (simp add: validate_directories_def flags_eq)

text \<open>The originals: in the live directory, or else in staging.\<close>

definition original :: "fixture \<Rightarrow> string \<Rightarrow> fs_entry option" where
  "original fx n = (case map_of (di_entries (fc_live (fx_content fx))) n of Some e \<Rightarrow> Some e
     | None \<Rightarrow> map_of (di_entries (fc_staging (fx_content fx))) n)"

definition careful :: "string list \<Rightarrow> (fixture, 'a) prog \<Rightarrow> bool" where
  "careful ns m \<longleftrightarrow> (\<forall>fx0 fx. inside fx0 fx \<longrightarrow> inside fx0 (snd (m fx)) \<and>
     (\<forall>n\<in>set ns. original (snd (m fx)) n = original fx n))"

lemma carefulD:
  assumes "careful ns m" and "m fx = (q, fx')" and "inside fx0 fx"
  shows "inside fx0 fx'" and "n \<in> set ns \<Longrightarrow> original fx' n = original fx n"
  using assms unfolding careful_def by (metis snd_conv)+

lemma careful_still: "(\<And>fx. snd (m fx) = fx) \<Longrightarrow> careful ns m"
  by (simp add: careful_def)

lemma careful_bindE:
  assumes "careful ns m" and "\<And>x. careful ns (f x)"
  shows "careful ns (bindE m f)"
  unfolding careful_def
proof (intro allI impI)
  fix fx0 fx
  assume i: "inside fx0 fx"
  obtain p fx1 where m: "m fx = (p, fx1)" by (metis prod.exhaust)
  note 1 = carefulD [OF assms(1) m i]
  show "inside fx0 (snd (bindE m f fx)) \<and> (\<forall>n\<in>set ns. original (snd (bindE m f fx)) n = original fx n)"
  proof (cases p)
    case (Inl e)
    then show ?thesis using 1 m by (simp add: bindE_run)
  next
    case (Inr x)
    obtain q fx2 where f: "f x fx1 = (q, fx2)" by (metis prod.exhaust)
    show ?thesis using carefulD [OF assms(2) f 1(1)] 1(2) m f Inr by (simp add: bindE_run)
  qed
qed

lemma careful_thenE: "careful ns m \<Longrightarrow> careful ns n \<Longrightarrow> careful ns (thenE m n)"
  unfolding thenE_def by (rule careful_bindE)

lemma careful_forE: "(\<And>x. x \<in> set xs \<Longrightarrow> careful ns (f x)) \<Longrightarrow> careful ns (forE f xs)"
  by (induction xs) (auto intro: careful_thenE careful_still)

lemma careful_step: "careful ns (step fault label)"
  by (rule careful_still) (simp add: step_def split: option.splits)

lemma careful_inventories: "careful ns get_inventories"
  by (rule careful_still) (simp add: get_inventories_run)

lemma entries_dset: "dset n (regular c) (entries fs) = entries (dset n c fs)"
  by (induction fs) (auto simp: entries_def)

lemma entries_dpop: "dpop n (entries fs) = entries (dpop n fs)"
  by (induction fs) (auto simp: entries_def)

lemma holds_dset: "holds allowed fs \<Longrightarrow> n \<in> set allowed \<Longrightarrow> length c \<le> 64 * 1024 \<Longrightarrow> holds allowed (dset n c fs)"
  by (induction fs) (auto simp: holds_def)

lemma holds_dpop: "holds allowed fs \<Longrightarrow> holds allowed (dpop n fs)"
  by (induction fs) (auto simp: holds_def)

lemma map_of_entries: "map_of (entries fs) n = map_option regular (map_of fs n)"
  by (induction fs) (auto simp: entries_def)

lemma map_of_dpop: "map_of (dpop n d) m = (if m = n then None else map_of d m)"
  by (induction d) auto

text \<open>\<open>original\<close>, over the files of an orderly fixture.\<close>

lemma original_orderly: "orderly fx l b s \<Longrightarrow> original fx n = map_option regular
    (case map_of l n of Some c \<Rightarrow> Some c | None \<Rightarrow> map_of s n)"
  by (simp add: original_def orderly_def map_of_entries split: option.splits)

lemma careful_write:
  assumes "name \<in> set LIVE_NAMES" and "name \<notin> set ns" and "length content \<le> 64 * 1024"
  shows "careful ns (write_live name content)"
  unfolding careful_def
proof (intro allI impI)
  fix fx0 fx
  assume i: "inside fx0 fx"
  let ?fx = "snd (write_live name content fx)"
  obtain l b s where o: "orderly fx l b s" using i by (auto simp: inside_def)
  have c: "fx_content ?fx = (fx_content fx)\<lparr>fc_live := (fc_live (fx_content fx))\<lparr>di_entries := entries (dset name content l)\<rparr>\<rparr>"
    using o by (simp add: write_live_def upd_content_def orderly_def entries_dset)
  have rest: "fx_root ?fx = fx_root fx" "fx_backup ?fx = fx_backup fx" "fx_rollbacks ?fx = fx_rollbacks fx"
    "fx_sequence ?fx = fx_sequence fx"
    by (simp_all add: write_live_def upd_content_def)
  have "validate_directories ?fx = validate_directories fx"
    by (rule validate_flags) (simp_all add: rest c flags_def)
  then have o': "orderly ?fx (dset name content l) b s"
    using o assms by (simp add: orderly_def c rest holds_dset distinct_update)
  then have "inside fx0 ?fx" using i by (auto simp: inside_def rest c flags_def)
  moreover have "original ?fx n = original fx n" if "n \<in> set ns" for n
    using that assms(2) by (auto simp: original_orderly [OF o] original_orderly [OF o'])
  ultimately show "inside fx0 ?fx \<and> (\<forall>n\<in>set ns. original ?fx n = original fx n)" by blast
qed

lemma careful_stage:
  assumes "name \<in> set ORIGINALS"
  shows "careful ns (stage_file name)"
  unfolding careful_def
proof (intro allI impI)
  fix fx0 fx
  assume i: "inside fx0 fx"
  let ?fx = "snd (stage_file name fx)"
  obtain l b s where o: "orderly fx l b s" using i by (auto simp: inside_def)
  show "inside fx0 ?fx \<and> (\<forall>n\<in>set ns. original ?fx n = original fx n)"
  proof (cases "map_of l name")
    case None
    then have "map_of (di_entries (fc_live (fx_content fx))) name = None"
      using o by (simp add: orderly_def map_of_entries)
    then show ?thesis using i by (simp add: stage_file_def prog_simps)
  next
    case (Some c)
    then have found: "map_of (di_entries (fc_live (fx_content fx))) name = Some (regular c)"
      using o by (simp add: orderly_def map_of_entries)
    have cc: "fx_content ?fx = (fx_content fx)
        \<lparr>fc_live := (fc_live (fx_content fx))\<lparr>di_entries := entries (dpop name l)\<rparr>,
         fc_staging := (fc_staging (fx_content fx))\<lparr>di_entries := entries (dset name c s)\<rparr>\<rparr>"
      using o found by (simp add: stage_file_def upd_content_def prog_simps orderly_def entries_dset entries_dpop)
    have rest: "fx_root ?fx = fx_root fx" "fx_backup ?fx = fx_backup fx" "fx_rollbacks ?fx = fx_rollbacks fx"
      "fx_sequence ?fx = fx_sequence fx"
      using found by (simp_all add: stage_file_def upd_content_def prog_simps)
    have v: "validate_directories ?fx = validate_directories fx"
      by (rule validate_flags) (simp_all add: rest cc flags_def)
    have "(name, c) \<in> set l" using Some map_of_SomeD by fast
    then have "length c \<le> 64 * 1024" using o by (auto simp: orderly_def holds_def list_all_iff)
    then have o': "orderly ?fx (dpop name l) b (dset name c s)"
      using o v assms by (simp add: orderly_def cc rest holds_dset holds_dpop distinct_update distinct_delete)
    then have "inside fx0 ?fx" using i by (auto simp: inside_def rest cc flags_def)
    moreover have "original ?fx n = original fx n" if "n \<in> set ns" for n
      using Some by (cases "n = name") (simp_all add: original_orderly [OF o] original_orderly [OF o'] map_of_dpop
          split: option.splits)
    ultimately show ?thesis by blast
  qed
qed


lemma careful_upd_report_free: "careful ns (ret x)" "careful ns (raise e)" "careful ns (requireE b e)"
  by (auto intro: careful_still simp: prog_simps)

lemma marker_names: "n \<in> set ORIGINALS \<Longrightarrow> marker_name n \<in> set LIVE_NAMES \<and> marker_name n \<notin> set ORIGINALS"
  "NOTE_NAME \<in> set LIVE_NAMES" "NOTE_NAME \<notin> set ORIGINALS" "n \<in> set ORIGINALS \<Longrightarrow> n \<in> set LIVE_NAMES"
  by (auto simp: LIVE_NAMES_def ORIGINALS_def FIXTURE_CONTENTS_def marker_name_def MARKER_SUFFIX_def NOTE_NAME_def)


section \<open>Replacing, capturing, undoing\<close>

lemma dset_absent: "n \<notin> fst ` set d \<Longrightarrow> dset n x d = d @ [(n, x)]"
  by (induction d) auto

lemma fold_dset_entries: "distinct (map fst d @ map fst fs) \<Longrightarrow>
    fold (\<lambda>(n, x). dset n (regular x)) fs d = d @ entries fs"
proof (induction fs arbitrary: d)
  case Nil
  then show ?case by (simp add: entries_def)
next
  case (Cons nx fs)
  obtain n x where nx: "nx = (n, x)" by (cases nx)
  have "fold (\<lambda>(n, x). dset n (regular x)) fs (d @ [(n, regular x)]) = (d @ [(n, regular x)]) @ entries fs"
    using Cons.prems nx by (intro Cons.IH) auto
  then show ?case using Cons.prems nx by (auto simp: dset_absent entries_def)
qed

lemma replace_live_run:
  assumes "orderly fx l b s" and "distinct (map fst fs)"
  shows "replace_live fs fx = (Inr (), fx\<lparr>fx_content := (fx_content fx)
    \<lparr>fc_live := (fc_live (fx_content fx))\<lparr>di_entries := entries fs\<rparr>\<rparr>\<rparr>)"
proof -
  have "inventory fx (fc_live (fx_content fx)) LIVE_NAMES = Inr l"
    using assms(1) by (simp add: inventory_iff orderly_def)
  then show ?thesis
    using fold_dset_entries [of "[]" fs] assms(2)
    by (simp add: replace_live_def upd_content_def prog_simps)
qed

lemma replace_staging_run:
  assumes "orderly fx l b s" and "distinct (map fst fs)"
  shows "replace_staging fs fx = (Inr (), fx\<lparr>fx_content := (fx_content fx)
    \<lparr>fc_staging := (fc_staging (fx_content fx))\<lparr>di_entries := entries fs\<rparr>\<rparr>\<rparr>)"
proof -
  have "inventory fx (fc_staging (fx_content fx)) ORIGINALS = Inr s"
    using assms(1) by (simp add: inventory_iff orderly_def)
  then show ?thesis
    using fold_dset_entries [of "[]" fs] assms(2)
    by (simp add: replace_staging_def upd_content_def prog_simps)
qed

lemma orderly_live:
  assumes "orderly fx l b s" and "holds LIVE_NAMES l'" and "distinct (map fst l')"
  shows "orderly (fx\<lparr>fx_content := (fx_content fx)
    \<lparr>fc_live := (fc_live (fx_content fx))\<lparr>di_entries := entries l'\<rparr>\<rparr>\<rparr>) l' b s"
  using assms unfolding orderly_def by (simp add: validate_directories_def)

lemma orderly_staging:
  assumes "orderly fx l b s" and "holds ORIGINALS s'" and "distinct (map fst s')"
  shows "orderly (fx\<lparr>fx_content := (fx_content fx)
    \<lparr>fc_staging := (fc_staging (fx_content fx))\<lparr>di_entries := entries s'\<rparr>\<rparr>\<rparr>) l b s'"
  using assms unfolding orderly_def by (simp add: validate_directories_def)

lemma restore_snapshot_run:
  assumes "orderly fx l b s" and "holds LIVE_NAMES (sv_live sv)" and "distinct (map fst (sv_live sv))"
    and "distinct (map fst (sv_staging sv))"
  shows "restore_snapshot sv fx = (Inr (), fx\<lparr>fx_content := (fx_content fx)
    \<lparr>fc_live := (fc_live (fx_content fx))\<lparr>di_entries := entries (sv_live sv)\<rparr>,
     fc_staging := (fc_staging (fx_content fx))\<lparr>di_entries := entries (sv_staging sv)\<rparr>,
     fc_report := sv_report sv\<rparr>\<rparr>)"
  using replace_live_run [OF assms(1,3)] replace_staging_run [OF orderly_live [OF assms(1,2,3)] assms(4)]
  by (simp add: restore_snapshot_def upd_content_def prog_simps)

definition captured :: "fixture \<Rightarrow> files \<Rightarrow> files \<Rightarrow> fixture" where
  "captured fx l s = fx\<lparr>fx_sequence := fx_sequence fx + 1,
     fx_rollbacks := dset (impact_token (fx_sequence fx + 1))
       \<lparr>sv_live = l, sv_staging = s, sv_report = fc_report (fx_content fx)\<rparr> (fx_rollbacks fx)\<rparr>"

lemma impact_capture_run:
  "orderly fx l b s \<Longrightarrow> impact_capture fx = (Inr (impact_token (fx_sequence fx + 1)), captured fx l s)"
  by (simp add: impact_capture_def captured_def get_inventories_run orderly_inventories prog_simps)

lemma orderly_captured: "orderly fx l b s \<Longrightarrow> orderly (captured fx l s) l b s"
  by (simp add: orderly_def captured_def validate_directories_def)

text \<open>A token is fresh when no earlier snapshot has it.\<close>

definition fresh_token :: "fixture \<Rightarrow> bool" where
  "fresh_token fx \<longleftrightarrow> \<not> has_key (fx_rollbacks fx) (impact_token (fx_sequence fx + 1))"

lemma dpop_absent: "\<not> has_key d k \<Longrightarrow> dpop k d = d"
  by (induction d) (auto simp: has_key_def)

lemma dpop_dset_absent: "\<not> has_key d k \<Longrightarrow> dpop k (dset k x d) = d"
  by (induction d) (auto simp: has_key_def dpop_absent)

lemma same_flags: "flags d' = flags d \<Longrightarrow> d'\<lparr>di_entries := di_entries d\<rparr> = d"
  by (cases d; cases d') (simp add: flags_def)

text \<open>Popping the token of the capture and restoring what it saved gives the fixture before the capture.\<close>

lemma restore_captured:
  assumes "orderly fx l b s" and "fresh_token fx" and "inside (captured fx l s) fx2"
  shows "pop_rollback (impact_token (fx_sequence fx + 1)) fx2
      = (Inr \<lparr>sv_live = l, sv_staging = s, sv_report = fc_report (fx_content fx)\<rparr>,
         fx2\<lparr>fx_rollbacks := fx_rollbacks fx\<rparr>)"
    and "restore_snapshot \<lparr>sv_live = l, sv_staging = s, sv_report = r\<rparr> (fx2\<lparr>fx_rollbacks := fx_rollbacks fx\<rparr>)
      = (Inr (), fx\<lparr>fx_content := (fx_content fx)\<lparr>fc_report := r\<rparr>, fx_sequence := fx_sequence fx + 1\<rparr>)"
proof -
  let ?tok = "impact_token (fx_sequence fx + 1)"
  let ?sv = "\<lparr>sv_live = l, sv_staging = s, sv_report = r\<rparr>"
  have r: "fx_rollbacks fx2 = dset ?tok \<lparr>sv_live = l, sv_staging = s, sv_report = fc_report (fx_content fx)\<rparr> (fx_rollbacks fx)"
    using assms(3) by (simp add: inside_def captured_def)
  then show "pop_rollback ?tok fx2
      = (Inr \<lparr>sv_live = l, sv_staging = s, sv_report = fc_report (fx_content fx)\<rparr>,
         fx2\<lparr>fx_rollbacks := fx_rollbacks fx\<rparr>)"
    using assms(2) by (simp add: pop_rollback_def prog_simps ditem_def fresh_token_def dpop_dset_absent)
  obtain l2 b2 s2 where o2: "orderly fx2 l2 b2 s2" using assms(3) by (auto simp: inside_def)
  let ?fx3 = "fx2\<lparr>fx_rollbacks := fx_rollbacks fx\<rparr>"
  have o3: "orderly ?fx3 l2 b2 s2"
    using o2 by (simp add: orderly_def validate_directories_def)
  have sv: "holds LIVE_NAMES (sv_live ?sv)" "distinct (map fst (sv_live ?sv))" "distinct (map fst (sv_staging ?sv))"
    using assms(1) by (simp_all add: orderly_def)
  have f: "flags (fc_live (fx_content fx2)) = flags (fc_live (fx_content fx))"
      "flags (fc_staging (fx_content fx2)) = flags (fc_staging (fx_content fx))"
      "fx_root fx2 = fx_root fx" "fx_backup fx2 = fx_backup fx" "fx_sequence fx2 = fx_sequence fx + 1"
    using assms(3) by (simp_all add: inside_def captured_def)
  have e: "entries l = di_entries (fc_live (fx_content fx))" "entries s = di_entries (fc_staging (fx_content fx))"
    using assms(1) by (simp_all add: orderly_def)
  show "restore_snapshot ?sv ?fx3 = (Inr (), fx\<lparr>fx_content := (fx_content fx)\<lparr>fc_report := r\<rparr>,
      fx_sequence := fx_sequence fx + 1\<rparr>)"
    unfolding restore_snapshot_run [OF o3 sv] using f same_flags [OF f(1)] same_flags [OF f(2)]
    by (cases fx; cases fx2; cases "fx_content fx"; cases "fx_content fx2") (simp add: e)
qed

lemma undo_captured:
  assumes "orderly fx l b s" and "fresh_token fx" and "inside (captured fx l s) fx2"
  shows "undo_and_raise (impact_token (fx_sequence fx + 1)) e fx2
    = (Inl e, fx\<lparr>fx_sequence := fx_sequence fx + 1\<rparr>)"
  unfolding undo_and_raise_def
  by (simp add: prog_simps restore_captured(1) [OF assms] restore_captured(2) [OF assms])


section \<open>The bodies of the two operations\<close>

lemma inside_captured: "orderly fx l b s \<Longrightarrow> inside (captured fx l s) (captured fx l s)"
  using orderly_captured unfolding inside_def by blast

lemma guarded_captured:
  assumes "orderly fx l b s" and "fresh_token fx" and "careful ns body"
    and "tryE body (\<lambda>e. undo_and_raise (impact_token (fx_sequence fx + 1)) (err e)) (captured fx l s) = (q, fx')"
  shows "(case q of Inl _ \<Rightarrow> fx' = fx\<lparr>fx_sequence := fx_sequence fx + 1\<rparr>
    | Inr _ \<Rightarrow> inside (captured fx l s) fx' \<and> (\<forall>n\<in>set ns. original fx' n = original fx n))"
proof -
  obtain p fx2 where m: "body (captured fx l s) = (p, fx2)" by (metis prod.exhaust)
  note c = carefulD [OF assms(3) m inside_captured [OF assms(1)]]
  have o: "original (captured fx l s) n = original fx n" for n
    by (simp add: original_def captured_def split: option.split)
  show ?thesis
  proof (cases p)
    case (Inl e)
    then show ?thesis using assms(4) m by (auto simp: tryE_run undo_captured [OF assms(1,2) c(1)])
  next
    case (Inr x)
    then show ?thesis using assms(4) m c o by (auto simp: tryE_run)
  qed
qed

text \<open>A digest is a hexadecimal SHA-256.\<close>

definition digests :: "(string \<Rightarrow> string) \<Rightarrow> bool" where
  "digests sha \<longleftrightarrow> (\<forall>c. length (sha c) = 64)"

lemma expected_manifest_map: "map_of (expected_manifest sha) n = map_option sha (map_of FIXTURE_CONTENTS n)"
proof -
  have "map_of (map (map_prod id sha) d) n = map_option sha (map_of d n)" for d :: files
    by (induction d) auto
  moreover have "map_of (sort_key fst FIXTURE_CONTENTS) n = map_of FIXTURE_CONTENTS n"
    by (simp add: FIXTURE_CONTENTS_def)
  ultimately show ?thesis by (simp add: expected_manifest_def manifest_def)
qed

lemma short_marker:
  assumes "digests sha" and "name \<in> set ORIGINALS"
  shows "length (marker_content sha name) \<le> 64 * 1024"
proof -
  have "length name \<le> 100"
    using assms(2) by (auto simp: ORIGINALS_def FIXTURE_CONTENTS_def)
  moreover have "length (case map_of (expected_manifest sha) name of None \<Rightarrow> [] | Some h \<Rightarrow> h) \<le> 64"
    using assms(1) by (auto simp: digests_def expected_manifest_map split: option.splits)
  ultimately show ?thesis by (simp add: marker_content_def nl_def)
qed

lemma careful_mark:
  assumes "digests sha" and "name \<in> set ORIGINALS"
  shows "careful ORIGINALS (mark_file fault sha realized name)"
  unfolding mark_file_def using assms
  by (auto intro!: careful_thenE careful_step careful_stage careful_write careful_upd_report_free
      simp: marker_names short_marker [simplified])

lemma careful_apply_body:
  assumes "digests sha"
  shows "careful ORIGINALS (apply_body fault sha realized)"
  unfolding apply_body_def
  by (auto intro!: careful_thenE careful_forE careful_mark careful_step careful_write careful_inventories
      careful_upd_report_free simp: marker_names assms) (simp add: note_text_def nl_def)

lemma careful_empty:
  "careful [] (replace_live [])" "careful [] (replace_staging [])"
proof -
  have "inside fx0 (snd (replace_live [] fx)) \<and> inside fx0 (snd (replace_staging [] fx))" if i: "inside fx0 fx" for fx0 fx
  proof -
    obtain l b s where o: "orderly fx l b s" using i by (auto simp: inside_def)
    have "holds LIVE_NAMES []" "holds ORIGINALS []" by (simp_all add: holds_def)
    with o i replace_live_run [OF o, of "[]"] replace_staging_run [OF o, of "[]"]
      orderly_live [OF o, of "[]"] orderly_staging [OF o, of "[]"]
    show ?thesis by (fastforce simp: inside_def flags_def)
  qed
  then show "careful [] (replace_live [])" "careful [] (replace_staging [])"
    by (simp_all add: careful_def)
qed

lemma careful_restore_body:
  assumes "holds ORIGINALS backup"
  shows "careful [] (restore_body fault sha backup)"
proof -
  have "careful [] (restore_file fault x)" if "x \<in> set backup" for x
    using that assms unfolding restore_file_def
    by (cases x) (auto intro!: careful_thenE careful_step careful_write simp: holds_def list_all_iff marker_names)
  then show ?thesis unfolding restore_body_def
    by (intro careful_thenE careful_bindE careful_forE careful_empty careful_inventories careful_upd_report_free)
qed


section \<open>Running the operations\<close>

lemma checked_run: "checked control now m s = (case checkpoint control now of Inl e \<Rightarrow> (Inl e, s) | Inr _ \<Rightarrow> m s)"
  by (simp add: checked_def prog_simps split: sum.splits)

lemma original_report: "original (fx\<lparr>fx_content := (fx_content fx)\<lparr>fc_report := r\<rparr>\<rparr>) n = original fx n"
  by (simp add: original_def split: option.split)

text \<open>What a guarded operation leaves: the fixture before it, or a fixture of the same shape with one snapshot more.\<close>

lemma apply_markers_cases:
  assumes "apply_markers fault sha variant control now fx = (q, fx')"
    and "one_entry_per_name fx" and "fresh_token fx" and "digests sha"
  shows "case q of Inl _ \<Rightarrow> fx' = fx \<or> fx' = fx\<lparr>fx_sequence := fx_sequence fx + 1\<rparr>
    | Inr token \<Rightarrow> \<exists>l b s r fx2. orderly fx l b s \<and> inside (captured fx l s) fx2
        \<and> token = impact_token (fx_sequence fx + 1) \<and> (\<forall>n\<in>set ORIGINALS. original fx2 n = original fx n)
        \<and> fx' = fx2\<lparr>fx_content := (fx_content fx2)\<lparr>fc_report := r\<rparr>\<rparr>"
proof (cases "inventories fx")
  case (Inl e)
  then show ?thesis using assms(1)
    by (auto simp: apply_markers_def checked_run prog_simps health_mismatches_def split: sum.splits if_splits)
next
  case (Inr i)
  then have o: "orderly fx (in_live i) (in_backup i) (in_staging i)" using inventories_orderly assms(2) by blast
  note o' = orderly_captured [OF o]
  obtain p fx2 where run: "tryE (apply_body fault sha (variant = ''realized'')) (\<lambda>e. undo_and_raise (impact_token (fx_sequence fx + 1))
      (ActionExecutionError ''impact_apply_failed'' ''Marker impact failed and was rolled back''))
      (captured fx (in_live i) (in_staging i)) = (p, fx2)" by (metis prod.exhaust)
  note g = guarded_captured [OF o assms(3) careful_apply_body [OF assms(4)] run]
  have "q = Inl e \<and> fx' = fx2 \<or> fx' = fx \<and> (\<exists>e. q = Inl e)" if "p = Inl e" for e
    using assms(1) run that Inr
    by (auto simp: apply_markers_def checked_run prog_simps health_mismatches_def impact_capture_run [OF o]
        get_inventories_run orderly_inventories [OF o'] split: sum.splits if_splits)
  moreover have "(\<exists>r. q = Inr (impact_token (fx_sequence fx + 1)) \<and> fx' = fx2\<lparr>fx_content := (fx_content fx2)\<lparr>fc_report := r\<rparr>\<rparr>)
      \<or> fx' = fx \<and> (\<exists>e. q = Inl e)" if "p = Inr x" for x
    using assms(1) run that Inr
    by (auto simp: apply_markers_def checked_run prog_simps health_mismatches_def impact_capture_run [OF o]
        get_inventories_run orderly_inventories [OF o'] set_report_def upd_content_def split: sum.splits if_splits)
  ultimately show ?thesis using g o by (cases p) (fastforce split: sum.splits)+
qed


lemma restore_fixture_cases:
  assumes "restore_fixture fault sha control now fx = (q, fx')"
    and "one_entry_per_name fx" and "fresh_token fx"
  shows "case q of Inl _ \<Rightarrow> fx' = fx \<or> fx' = fx\<lparr>fx_sequence := fx_sequence fx + 1\<rparr>
    | Inr token \<Rightarrow> \<exists>l b s r fx2. orderly fx l b s \<and> inside (captured fx l s) fx2
        \<and> token = impact_token (fx_sequence fx + 1)
        \<and> fx' = fx2\<lparr>fx_content := (fx_content fx2)\<lparr>fc_report := r\<rparr>\<rparr>"
proof (cases "inventories fx")
  case (Inl e)
  then show ?thesis using assms(1)
    by (auto simp: restore_fixture_def checked_run prog_simps get_inventories_run split: sum.splits if_splits)
next
  case (Inr i)
  then have o: "orderly fx (in_live i) (in_backup i) (in_staging i)" using inventories_orderly assms(2) by blast
  then have b: "holds ORIGINALS (in_backup i)" by (simp add: orderly_def)
  obtain p fx2 where run: "tryE (restore_body fault sha (in_backup i)) (\<lambda>e. undo_and_raise (impact_token (fx_sequence fx + 1))
      (ActionExecutionError ''recovery_failed'' ''Fixture recovery failed and was rolled back''))
      (captured fx (in_live i) (in_staging i)) = (p, fx2)" by (metis prod.exhaust)
  note g = guarded_captured [OF o assms(3) careful_restore_body [OF b] run]
  have "q = Inl e \<and> fx' = fx2 \<or> fx' = fx \<and> (\<exists>e. q = Inl e)" if "p = Inl e" for e
    using assms(1) run that Inr
    by (auto simp: restore_fixture_def checked_run prog_simps impact_capture_run [OF o] get_inventories_run
        split: sum.splits if_splits)
  moreover have "(\<exists>r. q = Inr (impact_token (fx_sequence fx + 1)) \<and> fx' = fx2\<lparr>fx_content := (fx_content fx2)\<lparr>fc_report := r\<rparr>\<rparr>)
      \<or> fx' = fx \<and> (\<exists>e. q = Inl e)" if "p = Inr x" for x
    using assms(1) run that Inr
    by (auto simp: restore_fixture_def checked_run prog_simps impact_capture_run [OF o] get_inventories_run
        set_report_def upd_content_def split: sum.splits if_splits)
  ultimately show ?thesis using g o by (cases p) (fastforce split: sum.splits)+
qed

lemma orderly_report: "orderly fx l b s \<Longrightarrow> orderly (fx\<lparr>fx_content := (fx_content fx)\<lparr>fc_report := r\<rparr>\<rparr>) l b s"
  by (simp add: orderly_def validate_directories_def)

lemma rollback_captured:
  assumes "orderly fx l b s" and "fresh_token fx" and "inside (captured fx l s) fx2"
    and "checkpoint control now = Inr ()"
  shows "impact_rollback (impact_token (fx_sequence fx + 1)) control now
      (fx2\<lparr>fx_content := (fx_content fx2)\<lparr>fc_report := r\<rparr>\<rparr>)
    = (Inr [''restored pre-action disposable fixture''], fx\<lparr>fx_sequence := fx_sequence fx + 1\<rparr>)"
proof -
  let ?fx3 = "fx2\<lparr>fx_content := (fx_content fx2)\<lparr>fc_report := r\<rparr>\<rparr>"
  have "inside (captured fx l s) ?fx3"
    using assms(3) unfolding inside_def by (auto intro: orderly_report)
  note t = restore_captured [OF assms(1,2) this]
  show ?thesis unfolding impact_rollback_def checked_ok [OF assms(4)]
    using t(2) [of "fc_report (fx_content fx)"] by (simp add: prog_simps t(1))
qed

lemma restore_file_run: "forE (restore_file (\<lambda>_. None)) fs fx = (Inr (), fx\<lparr>fx_content := (fx_content fx)
    \<lparr>fc_live := (fc_live (fx_content fx))
      \<lparr>di_entries := fold (\<lambda>(n, x). dset n (regular x)) fs (di_entries (fc_live (fx_content fx)))\<rparr>\<rparr>\<rparr>)"
  by (induction fs arbitrary: fx)
    (auto simp: restore_file_def step_def write_live_def upd_content_def prog_simps)

lemma holds_originals: "holds ORIGINALS fs \<Longrightarrow> holds LIVE_NAMES fs"
  by (auto simp: holds_def list_all_iff marker_names)

definition restored :: "fixture \<Rightarrow> files \<Rightarrow> fixture" where
  "restored fx b = fx\<lparr>fx_content := (fx_content fx)
     \<lparr>fc_live := (fc_live (fx_content fx))\<lparr>di_entries := entries b\<rparr>,
      fc_staging := (fc_staging (fx_content fx))\<lparr>di_entries := []\<rparr>\<rparr>\<rparr>"

lemma empty_files: "holds allowed []" "distinct (map fst ([] :: files))" "entries [] = []"
  by (simp_all add: holds_def entries_def)

lemma orderly_restored: "orderly fx l b s \<Longrightarrow> orderly (restored fx b) b b []"
  using orderly_staging [OF orderly_live [of fx l b s b] empty_files(1,2)]
  by (auto simp: restored_def empty_files(3) orderly_def holds_originals)

lemma restored_swap: "restored fx b = fx\<lparr>fx_content := (fx_content fx)
    \<lparr>fc_staging := (fc_staging (fx_content fx))\<lparr>di_entries := []\<rparr>,
     fc_live := (fc_live (fx_content fx))\<lparr>di_entries := entries b\<rparr>\<rparr>\<rparr>"
  by (cases fx; cases "fx_content fx") (simp add: restored_def)

lemma restore_body_run:
  assumes "orderly fx l b s" and "manifest sha b = expected_manifest sha"
  shows "restore_body (\<lambda>_. None) sha b fx = (Inr \<lparr>in_live = b, in_backup = b, in_staging = []\<rparr>, restored fx b)"
proof -
  have "distinct (map fst b)" using assms(1) by (simp add: orderly_def)
  then show ?thesis
    using replace_live_run [OF assms(1) empty_files(2)]
      replace_staging_run [OF orderly_live [OF assms(1) empty_files(1,2)] empty_files(2)]
      fold_dset_entries [of "[]" b] assms(2) orderly_inventories [OF orderly_restored [OF assms(1)]]
    by (simp add: restore_body_def prog_simps empty_files restore_file_run get_inventories_run restored_swap)
qed

lemma restore_fixture_run:
  assumes "orderly fx l b s" and "manifest sha b = expected_manifest sha" and "checkpoint control now = Inr ()"
  shows "\<exists>token fx'. restore_fixture (\<lambda>_. None) sha control now fx = (Inr token, fx')
    \<and> orderly fx' b b [] \<and> fx_backup fx' = fx_backup fx"
proof -
  note run = restore_body_run [OF orderly_captured [OF assms(1)] assms(2)]
  show ?thesis
    unfolding restore_fixture_def checked_ok [OF assms(3)]
    using orderly_report [OF orderly_restored [OF orderly_captured [OF assms(1)]]] assms(2)
    by (simp add: prog_simps get_inventories_run orderly_inventories [OF assms(1)] impact_capture_run [OF assms(1)] run
        set_report_def upd_content_def) (simp add: restored_def captured_def)
qed

section \<open>A sample\<close>

definition sample_fixture :: fixture where
  "sample_fixture = \<lparr>fx_content = \<lparr>fc_live = plain_dir FIXTURE_CONTENTS, fc_staging = plain_dir [], fc_report = []\<rparr>,
     fx_root = plain_dir [], fx_backup = plain_dir FIXTURE_CONTENTS, fx_rollbacks = [], fx_sequence = 0\<rparr>"

definition sample_sha :: "string \<Rightarrow> string" where
  "sample_sha c = replicate 64 CHR ''0''"

definition sample_control :: control where
  "sample_control = \<lparr>ct_deadline = 30, ct_cancelled = False\<rparr>"

text \<open>The fourth file is moved and its marker fails.\<close>

definition sample_fault :: "string \<Rightarrow> exc option" where
  "sample_fault label = (if label = ''moved:payroll-summary.csv'' then Some (RuntimeError ''injected'') else None)"

lemma inventory_entry_code [code]: "inventory_entry allowed (name, e) =
   (if name \<notin> set allowed \<or> fe_symlink e \<or> \<not> fe_file e \<or> fe_links e \<noteq> 1 \<or> 65536 < int (length (fe_content e))
    then Inl (unsafe ''Fixture contains an unexpected or unsafe entry'')
    else if \<not> fe_inside e then Inl (unsafe ''Fixture entry escaped its approved directory'')
    else Inr (name, fe_content e))"
  by (simp add: inventory_entry_def)

lemma sample_provisioned: "provision \<lparr>rp_absolute = True, rp_symlink = False, rp_dir = True\<rparr> ''run-1'' False
    = Inr sample_fixture"
  by (simp add: provision_def new_fixture_def approved_root_def validated_run_id_def run_id_ok_def is_alnum_def
      is_digit_def digits09_def lower_az_def upper_az_def validate_directories_def plain_dir_def sample_fixture_def
      FIXTURE_CONTENTS_def)

lemma sample_ok: "one_entry_per_name sample_fixture" "fresh_token sample_fixture" "digests sample_sha"
    "checkpoint sample_control 0 = Inr ()"
  by (auto simp: one_entry_per_name_def fresh_token_def digests_def sample_fixture_def sample_sha_def
      sample_control_def checkpoint_def plain_dir_def FIXTURE_CONTENTS_def has_key_def)

lemma sample_fails: "\<not> isl (fst (apply_markers (\<lambda>_. None) sample_sha ''realized'' sample_control 0 sample_fixture))"
  "isl (fst (apply_markers sample_fault sample_sha ''realized'' sample_control 0 sample_fixture))"
  by code_simp+

lemma sample_inventories: "inventories sample_fixture = Inr \<lparr>in_live = FIXTURE_CONTENTS,
    in_backup = FIXTURE_CONTENTS, in_staging = []\<rparr>"
  by code_simp

section \<open>Properties\<close>

text \<open>C20: \<^verbatim>\<open>apply_markers\<close> and \<^verbatim>\<open>restore_fixture\<close> are all or nothing: if one raises, at any
  fault injected or control lost on the way, the live and staging files, the backup, the report and the
  rollback snapshots are those before the call (a token number may be used up).\<close>

theorem impact_all_or_nothing:
  assumes "one_entry_per_name fx" and "fresh_token fx" and "digests sha"
    and "apply_markers fault sha variant control now fx = (Inl e, fx')
      \<or> restore_fixture fault sha control now fx = (Inl e, fx')"
  shows "fx' = fx \<or> fx' = fx\<lparr>fx_sequence := fx_sequence fx + 1\<rparr>"
  using assms(4) apply_markers_cases [OF _ assms(1,2,3), of fault variant control now "Inl e" fx']
    restore_fixture_cases [OF _ assms(1,2), of fault sha control now "Inl e" fx'] by auto

theorem impact_all_or_nothing_witness:
  "snd (apply_markers sample_fault sample_sha ''realized'' sample_control 0 sample_fixture) = sample_fixture
    \<or> snd (apply_markers sample_fault sample_sha ''realized'' sample_control 0 sample_fixture)
      = sample_fixture\<lparr>fx_sequence := 1\<rparr>"
proof -
  obtain e fx' where run: "apply_markers sample_fault sample_sha ''realized'' sample_control 0 sample_fixture = (Inl e, fx')"
    using sample_fails(2) by (metis isl_def prod.collapse)
  show ?thesis
    using impact_all_or_nothing [OF sample_ok(1,2,3) disjI1 [OF run]] run by (simp add: sample_fixture_def)
qed

text \<open>C21: The markers lose no original: whatever \<^verbatim>\<open>apply_markers\<close> does, return or raise at any
  point, each original file is in the live directory or in staging with the content it had.\<close>

theorem markers_keep_originals:
  assumes "one_entry_per_name fx" and "fresh_token fx" and "digests sha"
    and "apply_markers fault sha variant control now fx = (q, fx')" and "n \<in> set ORIGINALS"
  shows "original fx' n = original fx n"
  using apply_markers_cases [OF assms(4,1,2,3)] assms(5)
  by (auto simp: original_report original_def split: sum.splits option.split)

theorem markers_keep_originals_witness:
  "original (snd (apply_markers sample_fault sample_sha ''realized'' sample_control 0 sample_fixture)) ''billing-export.csv''
    = original sample_fixture ''billing-export.csv''"
  by (rule markers_keep_originals [OF sample_ok(1,2,3) prod.collapse [symmetric]])
    (simp add: ORIGINALS_def FIXTURE_CONTENTS_def)

text \<open>Recovery returns and is complete: while the control allows it and no fault is injected, on any
  fixture with an intact backup, whatever the markers did to it, \<^verbatim>\<open>restore_fixture\<close> succeeds, keeps the
  backup, and the fixture is healthy after it.\<close>

theorem recovery_restores_baseline:
  assumes "one_entry_per_name fx" and "inventories fx = Inr i"
    and "manifest sha (in_backup i) = expected_manifest sha" and "checkpoint control now = Inr ()"
  shows "\<exists>token fx'. restore_fixture (\<lambda>_. None) sha control now fx = (Inr token, fx')
    \<and> health_mismatches sha fx' = Inr [] \<and> fx_backup fx' = fx_backup fx
    \<and> di_entries (fc_live (fx_content fx')) = di_entries (fx_backup fx)
    \<and> di_entries (fc_staging (fx_content fx')) = []"
proof -
  have o: "orderly fx (in_live i) (in_backup i) (in_staging i)" using inventories_orderly assms(1,2) by blast
  obtain token fx' where run: "restore_fixture (\<lambda>_. None) sha control now fx = (Inr token, fx')"
    and o': "orderly fx' (in_backup i) (in_backup i) []" and b: "fx_backup fx' = fx_backup fx"
    using restore_fixture_run [OF o assms(3,4)] by blast
  have "health_mismatches sha fx' = Inr []"
    using assms(3) by (simp add: health_mismatches_def orderly_inventories [OF o'] manifest_mismatches_def)
  moreover have "di_entries (fc_live (fx_content fx')) = di_entries (fx_backup fx)"
      "di_entries (fc_staging (fx_content fx')) = []"
    using o o' by (simp_all add: orderly_def entries_def)
  ultimately show ?thesis using run b by blast
qed

theorem recovery_restores_baseline_witness:
  "\<exists>token fx'. restore_fixture (\<lambda>_. None) sample_sha sample_control 0 sample_fixture = (Inr token, fx')
    \<and> health_mismatches sample_sha fx' = Inr []"
  using recovery_restores_baseline [OF sample_ok(1) sample_inventories _ sample_ok(4), of sample_sha]
  by (auto simp: expected_manifest_def)

text \<open>C22: The rollback of the marker impact and of the recovery is exact: with the token the operation
  returned, and the control allowing it, the fixture is the one before the operation, its report and its
  earlier snapshots included, and the token is used up.\<close>

theorem impact_rollback_exact:
  assumes "one_entry_per_name fx" and "fresh_token fx" and "digests sha"
    and "apply_markers fault sha variant control now fx = (Inr token, fx')
      \<or> restore_fixture fault sha control now fx = (Inr token, fx')"
    and "checkpoint control' now' = Inr ()"
  shows "impact_rollback token control' now' fx'
    = (Inr [''restored pre-action disposable fixture''], fx\<lparr>fx_sequence := fx_sequence fx + 1\<rparr>)"
  using assms(4) apply_markers_cases [OF _ assms(1,2,3), of fault variant control now "Inr token" fx']
    restore_fixture_cases [OF _ assms(1,2), of fault sha control now "Inr token" fx']
    rollback_captured [OF _ assms(2) _ assms(5)] by auto


theorem impact_rollback_exact_witness:
  "\<exists>token fx'. apply_markers (\<lambda>_. None) sample_sha ''realized'' sample_control 0 sample_fixture = (Inr token, fx')
    \<and> impact_rollback token sample_control 0 fx'
      = (Inr [''restored pre-action disposable fixture''], sample_fixture\<lparr>fx_sequence := 1\<rparr>)"
proof -
  obtain token fx' where run: "apply_markers (\<lambda>_. None) sample_sha ''realized'' sample_control 0 sample_fixture = (Inr token, fx')"
    using sample_fails(1) by (metis sum.collapse(2) prod.collapse)
  show ?thesis
    using impact_rollback_exact [OF sample_ok(1,2,3) disjI1 [OF run] sample_ok(4)] run
    by (simp add: sample_fixture_def)
qed

end
