(* ===== verification/Play.thy ===== *)
theory Play
  imports ImpactFixture Mfa Checkpoints
begin

text \<open>
  The state one exercise run shares (\<^verbatim>\<open>orchestrator/identity_slice.py\<close>, \<^verbatim>\<open>cloud.py\<close>, \<^verbatim>\<open>impact.py\<close>): the
  module states, the simulation and the two stages, next to the controller. Every adapter of the run works
  on this state, a \<open>scene\<close>, since its \<open>run_state\<close> reads the controller and the stages read each other; an
  action of a module is lifted to it.
\<close>

section \<open>The parts\<close>

record assessment =
  as_principal :: val
  as_count :: int
  as_conclusion :: string
  as_evidence :: "string list"

text \<open>\<open>CloudStage\<close>; a snapshot saves the mock cloud and the two flags.\<close>

record cloud_saved =
  cd_content :: cloud_content
  cd_access_staged :: bool
  cd_policy_attempted :: bool

record cloud_stage =
  cg_run_id :: string
  cg_state :: cloud_state
  cg_audit :: "event list"
  cg_assessment :: "assessment option"
  cg_access_staged :: bool
  cg_policy_attempted :: bool
  cg_emitted :: "string list"
  cg_rollbacks :: "(string \<times> cloud_saved) list"
  cg_sequence :: int
  cg_events :: builder

text \<open>\<open>IdentitySliceSimulationState\<close>; the endpoint state it holds is the run's.\<close>

record sim_progress =
  pg_baseline_loaded :: bool
  pg_history_staged :: bool
  pg_session_replays :: int
  pg_discovery_runs :: int
  pg_persistence_attempted :: bool
  pg_blocked_auth :: bool
  pg_adverse_persistence :: bool

record simulation =
  si_progress :: sim_progress
  si_rollbacks :: "(string \<times> sim_progress \<times> table) list"
  si_sequence :: int

text \<open>
  \<open>ImpactStage\<close>. The approved root: what \<open>inspect_root\<close> asks of the path, and its entries; of a run's directory
  the names in it. A brief is the submitted payload with its references, which are strings.
\<close>

record root_entry =
  re_symlink :: bool
  re_file :: bool
  re_dir :: bool
  re_links :: int
  re_content :: string
  re_names :: "string list"

record impact_root =
  ir_path :: root_path
  ir_protected :: bool
  ir_entries :: "root_entry dict"

record brief =
  bf_evidence :: "string list"
  bf_payload :: row

record impact_stage =
  ig_run_id :: string
  ig_root :: impact_root
  ig_fixture :: fixture
  ig_prepared :: bool
  ig_applied :: bool
  ig_audit :: "event list"
  ig_brief :: "brief option"
  ig_validation :: "string option"
  ig_last_request :: "string option"
  ig_review :: "checkpoint_evaluation option"
  ig_emitted :: "string list"
  ig_events :: builder

record play =
  pl_identity :: identity_state
  pl_endpoint :: endpoint_state
  pl_simulation :: simulation
  pl_mfa :: mfa
  pl_cloud :: cloud_stage
  pl_impact :: "impact_stage option"

type_synonym scene = "play \<times> controller"

text \<open>\<open>_run_state\<close>.\<close>

definition scene_run_state :: "scene \<Rightarrow> string \<Rightarrow> string \<Rightarrow> string" where
  "scene_run_state sn exercise_id run_id = state_value (ctl_state (snd sn))"

section \<open>Working on one part\<close>

definition on_identity :: "(identity_state, 'a) prog \<Rightarrow> (scene, 'a) prog" where
  "on_identity m = zoomE (\<lambda>(p, c). pl_identity p) (\<lambda>x (p, c). (p\<lparr>pl_identity := x\<rparr>, c)) m"

definition on_endpoint :: "(endpoint_state, 'a) prog \<Rightarrow> (scene, 'a) prog" where
  "on_endpoint m = zoomE (\<lambda>(p, c). pl_endpoint p) (\<lambda>x (p, c). (p\<lparr>pl_endpoint := x\<rparr>, c)) m"

definition on_cloud :: "(cloud_stage, 'a) prog \<Rightarrow> (scene, 'a) prog" where
  "on_cloud m = zoomE (\<lambda>(p, c). pl_cloud p) (\<lambda>x (p, c). (p\<lparr>pl_cloud := x\<rparr>, c)) m"

definition on_mock_cloud :: "(cloud_state, 'a) prog \<Rightarrow> (scene, 'a) prog" where
  "on_mock_cloud m = on_cloud (zoomE cg_state (\<lambda>x g. g\<lparr>cg_state := x\<rparr>) m)"

text \<open>The impact stage is there when the scenario has its checkpoint.\<close>

definition no_stage :: exc where
  "no_stage = OtherError ''AttributeError'' ''impact''"

definition on_impact :: "(impact_stage, 'a) prog \<Rightarrow> (scene, 'a) prog" where
  "on_impact m = bindE (getE (\<lambda>(p, c). pl_impact p)) (\<lambda>stage. case stage of
     None \<Rightarrow> raise no_stage
   | Some g \<Rightarrow> zoomE (\<lambda>_. g) (\<lambda>x (p, c). (p\<lparr>pl_impact := Some x\<rparr>, c)) m)"

definition on_fixture :: "(fixture, 'a) prog \<Rightarrow> (scene, 'a) prog" where
  "on_fixture m = on_impact (zoomE ig_fixture (\<lambda>x g. g\<lparr>ig_fixture := x\<rparr>) m)"

text \<open>A registered action of a module, on the scene.\<close>

definition lift_action :: "((('m, action_effect) prog \<Rightarrow> (scene, action_effect) prog))
    \<Rightarrow> (('m, string list) prog \<Rightarrow> (scene, string list) prog) \<Rightarrow> 'm action_definition \<Rightarrow> scene action_definition" where
  "lift_action up up' d =
    \<lparr>df_action_id = df_action_id d, df_phase = df_phase d, df_allowed_roles = df_allowed_roles d,
     df_allowed_targets = df_allowed_targets d, df_allowed_run_states = df_allowed_run_states d,
     df_max_timeout_seconds = df_max_timeout_seconds d, df_expected_effects = df_expected_effects d,
     df_rollback_method = df_rollback_method d,
     df_handler = (\<lambda>ps target control now. up (df_handler d ps target control now)),
     df_rollback_handler = (\<lambda>token control now. up' (df_rollback_handler d token control now)),
     df_parameter_validator = df_parameter_validator d\<rparr>"

text \<open>An adapter of the run: \<open>SafeActionAdapter\<close> on the scene, with the run's sequencer.\<close>

definition scene_adapter :: "string \<Rightarrow> string \<Rightarrow> string \<Rightarrow> (scene \<Rightarrow> string \<Rightarrow> string \<Rightarrow> string)
    \<Rightarrow> scene action_definition list \<Rightarrow> exc + scene adapter" where
  "scene_adapter exercise_id run_id component run_state definitions =
    bindR (register_all definitions []) (\<lambda>reg.
      Inr (new_adapter (adapter_context exercise_id run_id component) reg run_state True))"

definition module_context :: "string \<Rightarrow> string \<Rightarrow> string \<Rightarrow> event_context" where
  "module_context exercise_id run_id component =
    \<lparr>cx_exercise_id = exercise_id, cx_run_id = run_id, cx_source_kind = ''module'',
     cx_source_component = component, cx_producer_version = ''1.0.0'', cx_source_host = None\<rparr>"

section \<open>The run\<close>

record adapters =
  ra_identity :: "scene adapter"
  ra_endpoint :: "scene adapter"
  ra_automation :: "scene adapter"
  ra_cloud :: "scene adapter"
  ra_cloud_automation :: "scene adapter"
  ra_impact :: "scene adapter option"
  ra_impact_automation :: "scene adapter option"

text \<open>The event builders of \<open>IdentitySliceAutomation\<close> and the evidence it has emitted.\<close>

record bridge =
  br_exercise_id :: string
  br_run_id :: string
  br_profile_summary :: row
  br_builders :: "builder dict"
  br_emitted :: "string list"

record run_rest =
  rr_play :: play
  rr_adapters :: adapters
  rr_bridge :: bridge
  rr_cloud_enabled :: bool

type_synonym play_run = "run_rest csys"

definition scene_of :: "play_run \<Rightarrow> scene" where
  "scene_of s = (rr_play (cy_rest s), cy_ctl s)"

definition put_scene :: "scene \<Rightarrow> play_run \<Rightarrow> play_run" where
  "put_scene sn s = s\<lparr>cy_ctl := snd sn, cy_rest := (cy_rest s)\<lparr>rr_play := fst sn\<rparr>\<rparr>"

definition on_scene :: "(scene, 'a) prog \<Rightarrow> (play_run, 'a) prog" where
  "on_scene m = zoomE scene_of put_scene m"

text \<open>A call of one of the adapters.\<close>

definition astate_of :: "scene adapter \<Rightarrow> play_run \<Rightarrow> scene astate" where
  "astate_of ad s = \<lparr>as_world = cy_world s, as_adapter = ad, as_mod = scene_of s\<rparr>"

definition put_astate :: "(scene adapter \<Rightarrow> adapters \<Rightarrow> adapters) \<Rightarrow> scene astate \<Rightarrow> play_run \<Rightarrow> play_run" where
  "put_astate put a s = (let s' = put_scene (as_mod a) s in
     s'\<lparr>cy_world := as_world a, cy_rest := (cy_rest s')\<lparr>rr_adapters := put (as_adapter a) (rr_adapters (cy_rest s'))\<rparr>\<rparr>)"

definition with_adapter :: "(adapters \<Rightarrow> scene adapter) \<Rightarrow> (scene adapter \<Rightarrow> adapters \<Rightarrow> adapters)
    \<Rightarrow> (scene astate, 'a) prog \<Rightarrow> (play_run, 'a) prog" where
  "with_adapter get put m = zoomE (\<lambda>s. astate_of (get (rr_adapters (cy_rest s))) s) (put_astate put) m"

definition with_optional :: "(adapters \<Rightarrow> scene adapter option) \<Rightarrow> (scene adapter option \<Rightarrow> adapters \<Rightarrow> adapters)
    \<Rightarrow> (scene astate, 'a) prog \<Rightarrow> (play_run, 'a) prog" where
  "with_optional get put m = bindE (getE (\<lambda>s. get (rr_adapters (cy_rest s)))) (\<lambda>found. case found of
     None \<Rightarrow> raise no_stage
   | Some ad \<Rightarrow> with_adapter (\<lambda>_. ad) (\<lambda>x. put (Some x)) m)"

definition run_world :: "(world, 'a) prog \<Rightarrow> (play_run, 'a) prog" where
  "run_world m = zoomE cy_world (\<lambda>w s. s\<lparr>cy_world := w\<rparr>) m"

text \<open>The scenario engine's actor, and the request it makes for an item.\<close>

definition engine :: entity where
  "engine = entity ''service_account'' ''scenario-engine'' None (Some ''scenario_engine'')"

definition item_key :: "string \<Rightarrow> string \<Rightarrow> string" where
  "item_key run_id item_id = run_id @ '':'' @ item_id"

definition exercise_of :: "play_run \<Rightarrow> string" where
  "exercise_of s = sd_exercise_id (ctl_definition (cy_ctl s))"

end
