(* ===== verification/CloudStage.thy ===== *)
theory CloudStage
  imports Play
begin

text \<open>
  \<^verbatim>\<open>orchestrator/cloud.py\<close>: the reviewed mock-cloud steps of a run, their evidence, the assessment and the
  cloud checkpoint (DP3).
\<close>

section \<open>Constants\<close>

definition CLOUD_ACTIONS :: "string list" where
  "CLOUD_ACTIONS = [''cloud.key.revoke'', ''cloud.principal.disable'', ''cloud.policy.restore'',
     ''cloud.evidence.preserve'']"

definition CLOUD_STEPS :: "string dict" where
  "CLOUD_STEPS = [(''cloud.access.stage'', ''ACT-05''), (''cloud.policy.expand'', ''ACT-06''),
     (''cloud.bulk.verify'', ''ACT-07A''), (''cloud.bulk.attempt'', ''ACT-07B'')]"

section \<open>Transitions\<close>

definition cloud_stage_token :: "int \<Rightarrow> string" where
  "cloud_stage_token n = ''cloud-stage-rb-'' @ int_str n"

definition cloud_stage_saved :: "cloud_stage \<Rightarrow> cloud_saved" where
  "cloud_stage_saved g = \<lparr>cd_content = cs_content (cg_state g), cd_access_staged = cg_access_staged g,
     cd_policy_attempted = cg_policy_attempted g\<rparr>"

definition cloud_stage_capture :: "(cloud_stage, string) prog" where
  "cloud_stage_capture = bindE (getE (\<lambda>g. cloud_stage_token (cg_sequence g + 1))) (\<lambda>token.
     thenE (updE (\<lambda>g. g\<lparr>cg_sequence := cg_sequence g + 1,
        cg_rollbacks := dset token (cloud_stage_saved g) (cg_rollbacks g)\<rparr>)) (ret token))"

definition cloud_stage_rollback :: "string \<Rightarrow> control \<Rightarrow> int \<Rightarrow> (cloud_stage, string list) prog" where
  "cloud_stage_rollback token control now = checked control now
    (bindE (getE (\<lambda>g. map_of (cg_rollbacks g) token)) (\<lambda>saved. case saved of
       None \<Rightarrow> raise (ActionExecutionError ''invalid_rollback'' ''Unknown transition snapshot'')
     | Some sv \<Rightarrow> thenE (updE (\<lambda>g. g\<lparr>cg_rollbacks := dpop token (cg_rollbacks g),
           cg_state := (cg_state g)\<lparr>cs_content := cd_content sv\<rparr>,
           cg_access_staged := cd_access_staged sv, cg_policy_attempted := cd_policy_attempted sv\<rparr>))
         (ret [''restored exact mock-cloud transition state''])))"

definition cloud_decision :: "bool \<Rightarrow> cloud_stage \<Rightarrow> exc + (bool \<times> string)" where
  "cloud_decision bulk g = access_decision PRINCIPAL_ID KEY_ID BUCKET_ID bulk (cs_content (cg_state g))"

definition get_decision :: "bool \<Rightarrow> (cloud_stage, bool \<times> string) prog" where
  "get_decision bulk = bindE (getE (cloud_decision bulk)) liftE"

definition upd_cloud :: "(cloud_content \<Rightarrow> cloud_content) \<Rightarrow> cloud_stage \<Rightarrow> cloud_stage" where
  "upd_cloud f g = g\<lparr>cg_state := (cg_state g)\<lparr>cs_content := f (cs_content (cg_state g))\<rparr>\<rparr>"

definition change_content :: "(cloud_content \<Rightarrow> exc + cloud_content) \<Rightarrow> (cloud_stage, unit) prog" where
  "change_content f = bindE (getE (\<lambda>g. f (cs_content (cg_state g)))) (\<lambda>r. bindE (liftE r) (\<lambda>c.
     updE (upd_cloud (\<lambda>_. c))))"

definition row_update :: "string \<Rightarrow> row \<Rightarrow> table \<Rightarrow> exc + table" where
  "row_update k changes t = bindR (ditem t k) (\<lambda>r. Inr (dset k (dmerge r changes) t))"

text \<open>\<open>_read_records\<close>: the first records of the sorted object names are accessed.\<close>

definition read_records :: "nat \<Rightarrow> cloud_content \<Rightarrow> exc + cloud_content" where
  "read_records n c =
    (let records = take n (sort (map fst (cc_objects c))) in
     bindR (row_update BUCKET_ID
       [(''accessed_record_ids'', VList (map VStr records)), (''confirmed_count'', VInt (int (length records))),
        (''last_outcome'', VStr (if n = 25 then ''full_exposure'' else ''sample_access''))] (cc_exposure c))
       (\<lambda>t. Inr (c\<lparr>cc_exposure := t\<rparr>)))"

text \<open>The adverse policy, put on the bucket, before its records are read.\<close>

definition expand_policy :: "(string \<Rightarrow> string) \<Rightarrow> cloud_content \<Rightarrow> exc + cloud_content" where
  "expand_policy sha c =
    (let altered = altered_bucket sha in
     bindR (ditem altered ''policy_id'') (\<lambda>policy_id.
     bindR (ditem altered ''policy_hash'') (\<lambda>policy_hash.
     bindR (row_update BUCKET_ID [(''policy_id'', policy_id), (''policy_hash'', policy_hash),
         (''bulk_access_allowed'', VBool True)] (cc_buckets c)) (\<lambda>t. Inr (c\<lparr>cc_buckets := t\<rparr>)))))"

definition bulk_step :: "string \<Rightarrow> bool" where
  "bulk_step action_id = starts_with ''cloud.bulk.'' action_id"

definition step_effect :: "(string \<Rightarrow> string) \<Rightarrow> string \<Rightarrow> bool \<Rightarrow> (cloud_stage, unit) prog" where
  "step_effect sha action_id allowed =
    (if action_id = ''cloud.access.stage'' then
       thenE (updE (\<lambda>g. g\<lparr>cg_access_staged := True\<rparr>))
         (if allowed then change_content (read_records 1) else ret ())
     else if action_id = ''cloud.policy.expand'' then
       thenE (updE (\<lambda>g. g\<lparr>cg_policy_attempted := True\<rparr>))
         (if allowed then thenE (change_content (expand_policy sha)) (change_content (read_records 5)) else ret ())
     else if action_id \<in> set [''cloud.bulk.verify'', ''cloud.bulk.attempt''] then
       bindE (get_decision True) (\<lambda>(bulk_allowed, reason).
       thenE (requireE (\<not> (action_id = ''cloud.bulk.verify'' \<and> bulk_allowed))
         (ActionExecutionError ''containment_mismatch'' ''Bulk request is unexpectedly allowed''))
         (if bulk_allowed then change_content (read_records 25)
          else change_content (\<lambda>c. bindR (set_field BUCKET_ID ''last_outcome'' (VStr ''bulk_blocked'') (cc_exposure c))
            (\<lambda>t. Inr (c\<lparr>cc_exposure := t\<rparr>)))))
     else ret ())"

text \<open>\<open>_transition\<close>; \<open>results\<close> is what the controller has recorded for its checkpoints.\<close>

definition cloud_transition :: "(string \<Rightarrow> string) \<Rightarrow> string \<Rightarrow> string dict \<Rightarrow> control \<Rightarrow> int
    \<Rightarrow> (cloud_stage, action_effect) prog" where
  "cloud_transition sha action_id results control now = checked control now
    (bindE (getE cg_access_staged) (\<lambda>staged.
    thenE (requireE (action_id = ''cloud.access.stage'' \<or> staged)
      (ActionExecutionError ''cloud_not_staged'' ''Cloud access must be staged first''))
   (bindE (getE cg_policy_attempted) (\<lambda>attempted.
    thenE (requireE (\<not> bulk_step action_id \<or> attempted)
      (ActionExecutionError ''policy_not_attempted'' ''Policy step must precede bulk attempt''))
   (thenE (requireE (\<not> bulk_step action_id
        \<or> map_of results ''DP3'' = Some (if action_id = ''cloud.bulk.verify'' then ''pass'' else ''miss''))
      (ActionExecutionError ''branch_not_verified'' ''Resolve DP3 before its branch''))
   (bindE cloud_stage_capture (\<lambda>token.
    bindE (get_decision False) (\<lambda>(allowed, reason).
    thenE (step_effect sha action_id allowed)
      (ret (action_effect [''completed reviewed mock step '' @ action_id] (Some token)))))))))))"

definition cloud_step_parameters :: "row \<Rightarrow> exc + unit" where
  "cloud_step_parameters parameters = (if parameters = [] then Inr ()
     else Inl (ValueError ''mock-cloud transitions accept no parameters''))"

definition cloud_step_action :: "(string \<Rightarrow> string) \<Rightarrow> string \<times> string \<Rightarrow> scene action_definition" where
  "cloud_step_action sha ai = (case ai of (action_id, item_id) \<Rightarrow>
     define_action action_id ''cloud'' [''scenario_engine''] [''msel_item:'' @ item_id]
       (if starts_with ''ACT-07'' item_id then [''running'', ''paused''] else [''running'']) 20 [action_id]
       ''restore exact mock-cloud transition state''
       (\<lambda>ps target control now. bindE (getE (\<lambda>sn. ctl_results (snd sn))) (\<lambda>results.
          on_cloud (cloud_transition sha action_id results control now)))
       (\<lambda>token control now. on_cloud (cloud_stage_rollback token control now)) cloud_step_parameters)"

text \<open>The responder's actions, on the stage: the evidence action sees the audit of the stage.\<close>

definition stage_cloud_actions :: "(string \<Rightarrow> string) \<Rightarrow> string \<Rightarrow> scene action_definition list" where
  "stage_cloud_actions sha run_id = map (\<lambda>i.
     let d = cloud_definitions sha [] run_id ! i in
     (lift_action on_mock_cloud on_mock_cloud d)\<lparr>df_handler := (\<lambda>ps target control now.
        bindE (getE (\<lambda>(p, c). map (VDict \<circ> event_row) (cg_audit (pl_cloud p)))) (\<lambda>audit.
          on_mock_cloud (df_handler (cloud_definitions sha audit run_id ! i) ps target control now)))\<rparr>)
     [0..<length (cloud_definitions sha [] run_id)]"

text \<open>\<open>__init__\<close>: the stage and its two adapters.\<close>

definition new_cloud_stage :: "(string \<Rightarrow> string) \<Rightarrow> string \<Rightarrow> string \<Rightarrow> cloud_stage" where
  "new_cloud_stage sha exercise_id run_id =
    \<lparr>cg_run_id = run_id, cg_state = cloud_baseline sha, cg_audit = [], cg_assessment = None,
     cg_access_staged = False, cg_policy_attempted = False, cg_emitted = [], cg_rollbacks = [],
     cg_sequence = 0,
     cg_events = fresh_builder (module_context exercise_id run_id ''mock-cloud-simulator'') True\<rparr>"

definition new_cloud_adapter :: "(string \<Rightarrow> string) \<Rightarrow> string \<Rightarrow> string \<Rightarrow> exc + scene adapter" where
  "new_cloud_adapter sha exercise_id run_id = scene_adapter exercise_id run_id ''mock-cloud-action-adapter''
     scene_run_state (stage_cloud_actions sha run_id)"

definition new_cloud_automation :: "(string \<Rightarrow> string) \<Rightarrow> string \<Rightarrow> string \<Rightarrow> exc + scene adapter" where
  "new_cloud_automation sha exercise_id run_id = scene_adapter exercise_id run_id ''mock-cloud-automation''
     scene_run_state (map (cloud_step_action sha) CLOUD_STEPS)"

section \<open>Evidence\<close>

definition get_cloud :: "(cloud_stage \<Rightarrow> 'a) \<Rightarrow> (play_run, 'a) prog" where
  "get_cloud f = getE (\<lambda>s. f (pl_cloud (rr_play (cy_rest s))))"

definition run_cloud :: "(cloud_stage, 'a) prog \<Rightarrow> (play_run, 'a) prog" where
  "run_cloud m = on_scene (on_cloud m)"

definition cloud_event :: "string \<Rightarrow> string \<Rightarrow> string \<Rightarrow> bool \<Rightarrow> row \<Rightarrow> event_args" where
  "cloud_event event_type operation message allowed data =
    (event_args event_type ''cloud'' (entity ''cloud_principal'' PRINCIPAL_ID None None) operation
       (Some (entity ''cloud_bucket'' BUCKET_ID None None)) (if allowed then ''success'' else ''blocked'') message)
    \<lparr>ea_safety_controls := [''synthetic-data'', ''local-mock'', ''allowlisted-target''],
     ea_objective_ids := [''LO3''], ea_correlation_ids := [PRINCIPAL_ID, KEY_ID, BUCKET_ID],
     ea_data := dmerge [(''host'', VStr ''CLOUD01''), (''principal_id'', VStr PRINCIPAL_ID),
        (''key_id'', VStr KEY_ID), (''bucket_id'', VStr BUCKET_ID), (''source_ip'', VStr ''203.0.113.77''),
        (''synthetic'', VBool True), (''external_transfer_observed'', VBool False)] data\<rparr>"

text \<open>\<open>_emit\<close>: build, sink, then keep the event in the audit.\<close>

definition cloud_build :: "env \<Rightarrow> event_args \<Rightarrow> (play_run, event) prog" where
  "cloud_build env args = zoomE (\<lambda>s. (cy_world s, cg_events (pl_cloud (rr_play (cy_rest s)))))
     (\<lambda>(w, b) s. (snd (run_cloud (updE (\<lambda>g. g\<lparr>cg_events := b\<rparr>)) s))\<lparr>cy_world := w\<rparr>) (build_and_sink env args)"

definition cloud_emit :: "env \<Rightarrow> string \<Rightarrow> string \<Rightarrow> string \<Rightarrow> bool \<Rightarrow> row \<Rightarrow> (play_run, unit) prog" where
  "cloud_emit env event_type operation message allowed data =
    bindE (cloud_build env (cloud_event event_type operation message allowed data)) (\<lambda>event.
      run_cloud (updE (\<lambda>g. g\<lparr>cg_audit := cg_audit g @ [event]\<rparr>)))"

definition bucket_field :: "(cloud_content \<Rightarrow> table) \<Rightarrow> string \<Rightarrow> (play_run, val) prog" where
  "bucket_field f k = bindE (get_cloud (\<lambda>g. get_field BUCKET_ID k (f (cs_content (cg_state g))))) liftE"

definition run_decision :: "bool \<Rightarrow> (play_run, bool \<times> string) prog" where
  "run_decision bulk = run_cloud (get_decision bulk)"

definition vmul :: "val \<Rightarrow> int \<Rightarrow> exc + val" where
  "vmul v n = (case num_of v of Some m \<Rightarrow> Inr (VInt (m * n))
     | None \<Rightarrow> Inl (TypeError (''unsupported operand type(s) for *'')))"

definition step_evidence :: "env \<Rightarrow> string \<Rightarrow> (play_run, unit) prog" where
  "step_evidence env action_id =
    (if action_id = ''cloud.access.stage'' then
       bindE (run_decision False) (\<lambda>(allowed, reason).
       thenE (cloud_emit env
           (if allowed then ''cloud.authentication.succeeded'' else ''cloud.authentication.blocked'')
           ''cloud.authenticate'' ''Mock service-key authentication evaluated'' allowed [(''reason'', VStr reason)])
         (if allowed then cloud_emit env ''cloud.bucket.enumerated'' ''cloud.bucket.list''
             ''Mock storage enumeration completed'' True [(''buckets'', VList [VStr BUCKET_ID])]
          else ret ()))
     else if action_id = ''cloud.policy.expand'' then
       bindE (run_decision False) (\<lambda>(allowed, reason).
       bindE (bucket_field cc_buckets ''policy_id'') (\<lambda>policy_id.
       bindE (bucket_field cc_buckets ''policy_hash'') (\<lambda>policy_hash.
       bindE (bucket_field cc_buckets ''approved_policy_hash'') (\<lambda>approved.
         cloud_emit env (if allowed then ''cloud.policy.changed'' else ''cloud.policy.change_blocked'')
           ''cloud.policy.change'' ''Mock bucket policy change evaluated'' allowed
           [(''reason'', VStr reason), (''old_policy_id'', VStr APPROVED_POLICY_ID),
            (''new_policy_id'', policy_id), (''policy_hash'', policy_hash),
            (''approved_policy_hash'', approved)]))))
     else
       bindE (run_decision True) (\<lambda>(allowed, reason).
       bindE (bucket_field cc_exposure ''confirmed_count'') (\<lambda>confirmed.
       thenE (cloud_emit env
           (if allowed then ''cloud.bulk_access.completed'' else ''cloud.bulk_access.blocked'')
           ''cloud.object.bulk_read'' ''Mock bulk retrieval evaluated against current controls'' allowed
           [(''reason'', VStr reason), (''confirmed_count'', confirmed)])
         (if allowed then cloud_emit env ''cloud.extortion.claimed'' ''cloud.extortion.claim''
             ''Synthetic threat message claims theft of the customer export'' True
             [(''claim_only'', VBool True), (''claimed_records'', VInt 25)]
          else ret ()))))"

text \<open>\<open>_evidence\<close>.\<close>

definition cloud_evidence :: "env \<Rightarrow> string \<Rightarrow> (play_run, unit) prog" where
  "cloud_evidence env action_id =
    bindE (get_cloud (\<lambda>g. ditem (cc_exposure (cs_content (cg_state g))) BUCKET_ID)) (\<lambda>exposure.
    thenE (liftE exposure)
   (thenE (step_evidence env action_id)
   (bindE (bucket_field cc_exposure ''accessed_record_ids'') (\<lambda>records.
    bindE (bucket_field cc_exposure ''confirmed_count'') (\<lambda>confirmed.
    bindE (liftE (vmul confirmed 200)) (\<lambda>bytes.
      cloud_emit env ''cloud.object.accessed'' ''cloud.object.review''
        ''Cumulative confirmed synthetic object access'' True
        [(''record_ids'', records), (''confirmed_count'', confirmed), (''bytes'', bytes)]))))))"

section \<open>Delivery\<close>

definition rejected :: "string \<Rightarrow> row \<Rightarrow> automation_result" where
  "rejected message data = \<lparr>ar_success = False, ar_message = message, ar_data = data\<rparr>"

definition completed :: "string \<Rightarrow> row \<Rightarrow> automation_result" where
  "completed message data = \<lparr>ar_success = True, ar_message = message, ar_data = data\<rparr>"

text \<open>The request of the scenario engine for an item.\<close>

definition engine_request :: "env \<Rightarrow> string \<Rightarrow> string \<Rightarrow> string \<Rightarrow> string \<Rightarrow> entity \<Rightarrow> row \<Rightarrow> int
    \<Rightarrow> (play_run, action_request) prog" where
  "engine_request env exercise_id run_id item_id action_id target parameters timeout_seconds =
    run_world (make_action_request env exercise_id run_id engine action_id target
      (item_key run_id item_id) parameters False timeout_seconds None)"

definition msel_target :: "string \<Rightarrow> entity" where
  "msel_target item_id = entity ''msel_item'' item_id None None"

definition on_cloud_automation :: "(scene astate, 'a) prog \<Rightarrow> (play_run, 'a) prog" where
  "on_cloud_automation m = with_adapter ra_cloud_automation (\<lambda>ad r. r\<lparr>ra_cloud_automation := ad\<rparr>) m"

definition cloud_handle :: "env \<Rightarrow> scenario_item \<Rightarrow> string \<Rightarrow> (play_run, automation_result) prog" where
  "cloud_handle env item run_id =
    bindE (get_cloud cg_run_id) (\<lambda>mine.
      if run_id \<noteq> mine \<or> Option.bind (it_action item) (map_of CLOUD_STEPS) \<noteq> Some (it_id item)
      then ret (rejected ''cloud MSEL/run correlation mismatch'' [])
      else let action_id = the (it_action item) in
        bindE (getE exercise_of) (\<lambda>exercise_id.
        bindE (engine_request env exercise_id run_id (it_id item) action_id (msel_target (it_id item)) [] 20)
          (\<lambda>request.
        bindE (on_cloud_automation (execute env request)) (\<lambda>result.
          if \<not> rs_successful result
          then ret (rejected (rs_message result) [(''error_code'', opt_val (rs_error_code result))])
          else bindE (get_cloud cg_emitted) (\<lambda>emitted.
            thenE (if it_id item \<notin> set emitted
              then thenE (cloud_evidence env action_id)
                (run_cloud (updE (\<lambda>g. g\<lparr>cg_emitted := List.insert (it_id item) (cg_emitted g)\<rparr>)))
              else ret ())
             (ret (completed ''Reviewed mock-cloud operation completed''
               [(''action_request_id'', VStr (rs_request_id result))])))))))"

definition cloud_handlers :: "env \<Rightarrow> run_rest automation_handler dict" where
  "cloud_handlers env = map (\<lambda>(action_id, item_id).
     (action_id, \<lambda>item run_id. bindE (cloud_handle env item run_id) (\<lambda>r. ret (Some r)))) CLOUD_STEPS"

definition cloud_view :: "play_run \<Rightarrow> row" where
  "cloud_view s = (let g = pl_cloud (rr_play (cy_rest s)) in
    [(''exercise_id'', VStr (exercise_of s)), (''run_id'', VStr (cg_run_id g)), (''mock'', VBool True),
     (''state'', VDict (cloud_snapshot (cs_content (cg_state g)))),
     (''audit'', VList (map (VDict \<circ> event_row) (cg_audit g)))])"

section \<open>Assessment and checkpoint\<close>

text \<open>\<open>submit_assessment\<close>; the identifiers are strings.\<close>

definition submit_assessment :: "val \<Rightarrow> val \<Rightarrow> val \<Rightarrow> string list \<Rightarrow> (play_run, unit) prog" where
  "submit_assessment principal_id confirmed_count conclusion evidence_ids =
    bindE (get_ctl ctl_state) (\<lambda>st. bindE (get_cloud id) (\<lambda>g.
    thenE (requireE (st = Running \<and> cg_access_staged g)
      (ActionContractError ''cloud assessment requires an active staged cloud run''))
   (thenE (requireE (evidence_ids \<noteq> [] \<and> distinct evidence_ids)
      (ActionContractError ''provide unique cloud audit event references''))
   (thenE (requireE (length evidence_ids \<le> 20 \<and> set evidence_ids \<subseteq> ev_event_id ` set (cg_audit g))
      (ActionContractError ''evidence references must belong to this run's cloud audit''))
   (bindE (liftE (case confirmed_count of VInt n \<Rightarrow> if 0 \<le> n \<and> n \<le> 25 then Inr n
          else Inl (ActionContractError ''confirmed_count must be an integer from 0 to 25'')
        | _ \<Rightarrow> Inl (ActionContractError ''confirmed_count must be an integer from 0 to 25''))) (\<lambda>n.
    bindE (liftE (hashed conclusion conclusion)) (\<lambda>claim.
    bindE (liftE (case claim of VStr c \<Rightarrow>
          if c \<in> set [''mock_access_only'', ''external_transfer_proven'', ''unknown''] then Inr c
          else Inl (ActionContractError ''unsupported exposure conclusion'')
        | _ \<Rightarrow> Inl (ActionContractError ''unsupported exposure conclusion''))) (\<lambda>c.
      run_cloud (updE (\<lambda>g. g\<lparr>cg_assessment := Some
        \<lparr>as_principal = principal_id, as_count = n, as_conclusion = c, as_evidence = evidence_ids\<rparr>\<rparr>))))))))))"

definition cites_exposure :: "assessment option \<Rightarrow> event \<Rightarrow> exc + bool" where
  "cites_exposure claim e =
    both (Inr (ev_event_type e = ''cloud.object.accessed''))
     (both (Inr (case claim of None \<Rightarrow> False | Some a \<Rightarrow> ev_event_id e \<in> set (as_evidence a)))
       (bindR (ditem (ev_data e) ''confirmed_count'') (\<lambda>v.
         Inr (val_eq v (case claim of None \<Rightarrow> VNone | Some a \<Rightarrow> VInt (as_count a))))))"

fun anyR :: "('a \<Rightarrow> exc + bool) \<Rightarrow> 'a list \<Rightarrow> exc + bool" where
  "anyR f [] = Inr False"
| "anyR f (x # xs) = bindR (f x) (\<lambda>b. if b then Inr True else anyR f xs)"

text \<open>\<open>_evaluate_locked\<close>.\<close>

definition cloud_checks :: "cloud_stage \<Rightarrow> exc + bool dict" where
  "cloud_checks g =
    (let c = cs_content (cg_state g); claim = cg_assessment g in
    bindR (ditem (cc_buckets c) BUCKET_ID) (\<lambda>bucket.
    bindR (get_field KEY_ID ''active'' (cc_keys c)) (\<lambda>active.
    bindR (both (bindR (ditem bucket ''policy_hash'') (\<lambda>h. bindR (ditem bucket ''approved_policy_hash'') (\<lambda>a.
          Inr (val_eq h a))))
        (both (bindR (ditem bucket ''policy_id'') (\<lambda>i. Inr (val_eq i (VStr APPROVED_POLICY_ID))))
          (bindR (ditem bucket ''bulk_access_allowed'') (\<lambda>b. Inr (b = VBool False))))) (\<lambda>restored.
    bindR (get_field BUCKET_ID ''confirmed_count'' (cc_exposure c)) (\<lambda>confirmed.
    bindR (anyR (cites_exposure claim) (cg_audit g)) (\<lambda>cited.
      Inr [(''cloud_steps_observed'', cg_access_staged g \<and> cg_policy_attempted g),
        (''principal_identified'', case claim of None \<Rightarrow> False
           | Some a \<Rightarrow> val_eq (as_principal a) (VStr PRINCIPAL_ID)),
        (''key_revoked'', active = VBool False),
        (''approved_policy_restored'', restored),
        (''exposure_count_supported'', val_eq (case claim of None \<Rightarrow> VNone | Some a \<Rightarrow> VInt (as_count a)) confirmed),
        (''transfer_not_overclaimed'', case claim of None \<Rightarrow> False | Some a \<Rightarrow> as_conclusion a = ''mock_access_only''),
        (''exposure_evidence_cited'', cited)]))))))"

definition evaluate_cloud :: "cloud_stage \<Rightarrow> exc + checkpoint_evaluation" where
  "evaluate_cloud g = bindR (cloud_checks g) (\<lambda>checks.
     Inr (evaluation ''Cloud containment and evidenced assessment verified''
       ''Missing cloud checkpoint requirements: ''
       (case cg_assessment g of None \<Rightarrow> [] | Some a \<Rightarrow> as_evidence a) checks))"

definition checks_val :: "bool dict \<Rightarrow> row" where
  "checks_val checks = map (map_prod id VBool) checks"

text \<open>\<open>self.items[i].status\<close>, and \<open>any(...)\<close> over items, which stops at the first.\<close>

definition item_state :: "string \<Rightarrow> controller \<Rightarrow> exc + item_status" where
  "item_state i c = bindR (ditem (ctl_items c) i) (\<lambda>r. Inr (rt_status r))"

definition any_not :: "item_status \<Rightarrow> string list \<Rightarrow> controller \<Rightarrow> exc + bool" where
  "any_not st is c = anyR (\<lambda>i. bindR (item_state i c) (\<lambda>s. Inr (s \<noteq> st))) is"

definition resolve_cloud :: "run_rest deps \<Rightarrow> (play_run, checkpoint_evaluation) prog" where
  "resolve_cloud dp =
    bindE (get_ctl (\<lambda>c. map_of (ctl_items c) ''DP3'')) (\<lambda>dp3.
    thenE (requireE (dp3 \<noteq> None) (ControllerError ''selected scenario has no cloud checkpoint''))
   (thenE (requireE (map_option rt_status dp3 = Some ReadyItem) (ControllerError ''DP3 must be due before evaluation''))
   (bindE (get_cloud id) (\<lambda>g.
    bindE (get_ctl (\<lambda>c. both (Inr (cg_access_staged g \<and> cg_policy_attempted g))
        (bindR (any_not Delivered [''ACT-05'', ''ACT-06''] c) (\<lambda>b. Inr (\<not> b))))) (\<lambda>sources.
    bindE (liftE sources) (\<lambda>complete.
    thenE (requireE complete (ControllerError ''cloud source steps incomplete; pause and investigate''))
   (bindE (get_ctl (any_not PendingItem [''ACT-07A'', ''ACT-07B''])) (\<lambda>branches.
    bindE (liftE branches) (\<lambda>taken.
    thenE (requireE (\<not> taken) (ControllerError ''cloud branch unavailable; pause and record the deviation''))
   (bindE (liftE (evaluate_cloud g)) (\<lambda>result.
    thenE (resolve_checkpoint dp ''DP3'' (ce_passed result) (ce_evidence_ids result) (ce_reason result)
        (Some (checks_val (ce_checks result))))
      (ret result))))))))))))"

end
