(* ===== verification/SliceAutomation.thy ===== *)
theory SliceAutomation
  imports CloudStage
begin

text \<open>
  \<^verbatim>\<open>orchestrator/identity_slice.py\<close>: \<open>IdentitySliceSimulationState\<close>, the reviewed attacker-side transitions,
  and \<open>IdentitySliceAutomation\<close>, which executes them for the controller and emits their evidence. What the
  profile catalogue gives is the parameter \<open>br_profile_summary\<close>.
\<close>

section \<open>Simulation state\<close>

definition fresh_progress :: sim_progress where
  "fresh_progress = \<lparr>pg_baseline_loaded = False, pg_history_staged = False, pg_session_replays = 0,
     pg_discovery_runs = 0, pg_persistence_attempted = False, pg_blocked_auth = False,
     pg_adverse_persistence = False\<rparr>"

definition new_simulation :: simulation where
  "new_simulation = \<lparr>si_progress = fresh_progress, si_rollbacks = [], si_sequence = 0\<rparr>"

definition slice_token :: "int \<Rightarrow> string" where
  "slice_token n = ''identity-slice-rb-'' @ int_str n"

definition get_play :: "(play \<Rightarrow> 'a) \<Rightarrow> (scene, 'a) prog" where
  "get_play f = getE (\<lambda>(p, c). f p)"

definition upd_play :: "(play \<Rightarrow> play) \<Rightarrow> (scene, unit) prog" where
  "upd_play f = updE (\<lambda>(p, c). (f p, c))"

definition get_progress :: "(sim_progress \<Rightarrow> 'a) \<Rightarrow> (scene, 'a) prog" where
  "get_progress f = get_play (\<lambda>p. f (si_progress (pl_simulation p)))"

definition upd_progress :: "(sim_progress \<Rightarrow> sim_progress) \<Rightarrow> (scene, unit) prog" where
  "upd_progress f = upd_play (\<lambda>p. p\<lparr>pl_simulation := (pl_simulation p)
     \<lparr>si_progress := f (si_progress (pl_simulation p))\<rparr>\<rparr>)"

definition directory_accounts :: "play \<Rightarrow> table" where
  "directory_accounts p = ec_accounts (es_content (pl_endpoint p))"

text \<open>\<open>_snapshot\<close> and \<open>_capture\<close>.\<close>

definition progress_row :: "play \<Rightarrow> row" where
  "progress_row p = (let g = si_progress (pl_simulation p) in
    [(''baseline_loaded'', VBool (pg_baseline_loaded g)), (''history_staged'', VBool (pg_history_staged g)),
     (''session_replays'', VInt (pg_session_replays g)), (''discovery_runs'', VInt (pg_discovery_runs g)),
     (''persistence_attempted'', VBool (pg_persistence_attempted g)),
     (''blocked_post_containment_auth'', VBool (pg_blocked_auth g)),
     (''adverse_persistence_created'', VBool (pg_adverse_persistence g)),
     (''endpoint_accounts'', table_val (directory_accounts p))])"

definition slice_capture :: "(scene, string) prog" where
  "slice_capture = bindE (get_play (\<lambda>p. slice_token (si_sequence (pl_simulation p) + 1))) (\<lambda>token.
     thenE (upd_play (\<lambda>p. p\<lparr>pl_simulation := (pl_simulation p)
        \<lparr>si_sequence := si_sequence (pl_simulation p) + 1,
         si_rollbacks := dset token (si_progress (pl_simulation p), directory_accounts p)
           (si_rollbacks (pl_simulation p))\<rparr>\<rparr>))
      (ret token))"

text \<open>\<open>evaluate_dp2\<close>, the containment check of the automation.\<close>

definition scene_containment :: "play \<Rightarrow> exc + checkpoint_evaluation" where
  "scene_containment p = evaluate_containment (identity_snapshot (is_content (pl_identity p)))
     (endpoint_snapshot (es_content (pl_endpoint p)))"

definition adverse_account :: row where
  "adverse_account = [(''exists'', VBool True), (''enabled'', VBool True),
     (''groups'', VList [VStr ''SimCorp-Server-Operators''])]"

definition put_accounts :: "table \<Rightarrow> play \<Rightarrow> play" where
  "put_accounts t p = p\<lparr>pl_endpoint := (pl_endpoint p)
     \<lparr>es_content := (es_content (pl_endpoint p))\<lparr>ec_accounts := t\<rparr>\<rparr>\<rparr>"

text \<open>The transition of an action and its effect text.\<close>

definition slice_transition :: "string \<Rightarrow> (scene, string) prog" where
  "slice_transition action_id =
    (if action_id = ''scenario.baseline.load'' then
       thenE (upd_progress (\<lambda>g. g\<lparr>pg_baseline_loaded := True\<rparr>))
         (ret ''validated and loaded identity-slice baseline'')
     else if action_id = ''identity.history.stage'' then
       bindE (get_progress pg_baseline_loaded) (\<lambda>loaded.
       thenE (requireE loaded (ActionExecutionError ''baseline_not_loaded'' ''Baseline must be loaded before history''))
      (thenE (upd_progress (\<lambda>g. g\<lparr>pg_history_staged := True\<rparr>))
         (ret ''staged six correlated pre-exercise evidence events'')))
     else if action_id = ''identity.session.replay'' then
       bindE (get_progress pg_history_staged) (\<lambda>staged.
       thenE (requireE staged (ActionExecutionError ''history_not_staged'' ''Identity history must be staged first''))
      (thenE (upd_progress (\<lambda>g. g\<lparr>pg_session_replays := pg_session_replays g + 1\<rparr>))
         (ret ''replayed synthetic compromised-session access'')))
     else if action_id = ''endpoint.discovery.run'' then
       bindE (get_progress pg_session_replays) (\<lambda>replays.
       thenE (requireE (1 \<le> replays)
         (ActionExecutionError ''session_not_replayed'' ''Compromised access evidence is missing''))
      (thenE (upd_progress (\<lambda>g. g\<lparr>pg_discovery_runs := pg_discovery_runs g + 1\<rparr>))
         (ret ''recorded allowlisted endpoint and directory discovery'')))
     else if action_id = ''identity.persistence.attempt'' then
       bindE (get_progress pg_discovery_runs) (\<lambda>runs.
       thenE (requireE (1 \<le> runs)
         (ActionExecutionError ''discovery_not_run'' ''Discovery must precede persistence attempt''))
      (thenE (upd_progress (\<lambda>g. g\<lparr>pg_persistence_attempted := True\<rparr>))
         (ret ''recorded designated persistence attempt'')))
     else if action_id = ''identity.containment.verify'' then
       bindE (get_play scene_containment) (\<lambda>answer. bindE (liftE answer) (\<lambda>result.
       thenE (requireE (ce_passed result) (ActionExecutionError ''containment_mismatch'' (ce_reason result)))
      (thenE (upd_progress (\<lambda>g. g\<lparr>pg_blocked_auth := True\<rparr>))
         (ret ''recorded blocked post-containment authentication''))))
     else if action_id = ''identity.persistence.escalate'' then
       bindE (get_play (\<lambda>p. row_update ''svc-print-sync'' adverse_account (directory_accounts p))) (\<lambda>r.
       bindE (liftE r) (\<lambda>accounts.
       thenE (upd_play (put_accounts accounts))
      (thenE (upd_progress (\<lambda>g. g\<lparr>pg_adverse_persistence := True\<rparr>))
         (ret ''created designated adverse-branch persistence state''))))
     else raise (ActionExecutionError ''unregistered_transition'' ''Unknown transition''))"

text \<open>\<open>apply\<close>.\<close>

definition slice_apply :: "string \<Rightarrow> control \<Rightarrow> int \<Rightarrow> (scene, action_effect) prog" where
  "slice_apply action_id control now = checked control now
    (bindE slice_capture (\<lambda>token.
     bindE (slice_transition action_id) (\<lambda>effect.
     bindE (get_play progress_row) (\<lambda>metadata.
       ret \<lparr>ef_effects = [effect], ef_rollback_token = Some token, ef_metadata = metadata\<rparr>))))"

definition slice_rollback :: "string \<Rightarrow> control \<Rightarrow> int \<Rightarrow> (scene, string list) prog" where
  "slice_rollback token control now = checked control now
    (bindE (get_play (\<lambda>p. map_of (si_rollbacks (pl_simulation p)) token)) (\<lambda>saved. case saved of
       None \<Rightarrow> raise (ActionExecutionError ''invalid_rollback'' ''Unknown or already-used rollback token'')
     | Some (g, accounts) \<Rightarrow>
         thenE (upd_play (\<lambda>p. put_accounts accounts (p\<lparr>pl_simulation := (pl_simulation p)
           \<lparr>si_progress := g, si_rollbacks := dpop token (si_rollbacks (pl_simulation p))\<rparr>\<rparr>)))
           (ret [''restored pre-transition identity-slice state''])))"

section \<open>The bridge to the controller\<close>

definition ACTION_ITEMS :: "string dict" where
  "ACTION_ITEMS = [(''scenario.baseline.load'', ''PRE-01''), (''identity.history.stage'', ''PRE-02''),
     (''identity.session.replay'', ''ACT-01''), (''endpoint.discovery.run'', ''ACT-02''),
     (''identity.persistence.attempt'', ''ACT-03''), (''identity.containment.verify'', ''ACT-04A''),
     (''identity.persistence.escalate'', ''ACT-04B'')]"

definition automation_parameters :: "row \<Rightarrow> exc + unit" where
  "automation_parameters parameters = (if parameters = [] then Inr ()
     else Inl (ValueError ''scenario automation actions accept no parameters''))"

definition slice_action :: "string \<times> string \<Rightarrow> scene action_definition" where
  "slice_action ai = (case ai of (action_id, item_id) \<Rightarrow>
     define_action action_id (if starts_with ''PRE-'' item_id then ''setup'' else ''identity'')
       [''scenario_engine'', ''facilitator''] [''msel_item:'' @ item_id]
       (if starts_with ''PRE-'' item_id then [''ready'']
        else if starts_with ''ACT-04'' item_id then [''running'', ''paused''] else [''running''])
       20 [action_id] ''restore captured simulation state''
       (\<lambda>ps target control now. slice_apply action_id control now) slice_rollback automation_parameters)"

definition new_automation :: "string \<Rightarrow> string \<Rightarrow> exc + scene adapter" where
  "new_automation exercise_id run_id = scene_adapter exercise_id run_id ''identity-slice-automation''
     scene_run_state (map slice_action ACTION_ITEMS)"

definition new_bridge :: "string \<Rightarrow> string \<Rightarrow> row \<Rightarrow> bridge" where
  "new_bridge exercise_id run_id summary =
    \<lparr>br_exercise_id = exercise_id, br_run_id = run_id, br_profile_summary = summary,
     br_builders = map (\<lambda>(n, component). (n, fresh_builder (module_context exercise_id run_id component) True))
       [(''identity'', ''identity-simulator''), (''helpdesk'', ''helpdesk-simulator''),
        (''endpoint'', ''endpoint-ad-simulator''), (''profiles'', ''osint-profile-initializer'')],
     br_emitted = []\<rparr>"

definition get_bridge :: "(bridge \<Rightarrow> 'a) \<Rightarrow> (play_run, 'a) prog" where
  "get_bridge f = getE (\<lambda>s. f (rr_bridge (cy_rest s)))"

definition upd_bridge :: "(bridge \<Rightarrow> bridge) \<Rightarrow> play_run \<Rightarrow> play_run" where
  "upd_bridge f s = s\<lparr>cy_rest := (cy_rest s)\<lparr>rr_bridge := f (rr_bridge (cy_rest s))\<rparr>\<rparr>"

section \<open>Evidence\<close>

text \<open>\<open>_event\<close>: one of the builders builds the event, the sink gets it.\<close>

definition slice_build :: "env \<Rightarrow> string \<Rightarrow> event_args \<Rightarrow> (play_run, event) prog" where
  "slice_build env source args = bindE (get_bridge (\<lambda>b. ditem (br_builders b) source)) (\<lambda>found.
     bindE (liftE found) (\<lambda>builder.
       zoomE (\<lambda>s. (cy_world s, builder))
         (\<lambda>(w, b) s. (upd_bridge (\<lambda>br. br\<lparr>br_builders := dset source b (br_builders br)\<rparr>) s)\<lparr>cy_world := w\<rparr>)
         (build_and_sink env args)))"

definition slice_args :: "string \<Rightarrow> string \<Rightarrow> entity \<Rightarrow> string \<Rightarrow> entity \<Rightarrow> string \<Rightarrow> row \<Rightarrow> string list \<Rightarrow> event_args" where
  "slice_args event_type phase actor action target message data objectives =
    (event_args event_type phase actor action (Some target) ''success'' message)
    \<lparr>ea_safety_controls := [''synthetic-data'', ''reviewed-msel'', ''allowlisted-target''],
     ea_objective_ids := objectives, ea_data := data\<rparr>"

definition sarah :: entity where
  "sarah = entity ''identity'' ''sarah'' None None"

definition sarah_named :: entity where
  "sarah_named = entity ''identity'' ''sarah'' (Some ''Sarah Mitchell'') None"

definition red_session :: entity where
  "red_session = entity ''session'' ''sess-red-01'' None None"

definition finance_host :: entity where
  "finance_host = entity ''host'' ''FIN-WS01'' None None"

definition print_account :: entity where
  "print_account = entity ''directory_account'' ''svc-print-sync'' None None"

text \<open>What the history reads from the bound profiles: \<open>self.profile_context[who][k]\<close>.\<close>

definition profile_field :: "row \<Rightarrow> string \<Rightarrow> string \<Rightarrow> exc + val" where
  "profile_field summary who k = bindR (ditem summary ''bindings'') (\<lambda>b. bindR (item_of b who) (\<lambda>p. item_of p k))"

definition profile_text :: "row \<Rightarrow> string \<Rightarrow> string \<Rightarrow> exc + string" where
  "profile_text summary who k = bindR (profile_field summary who k) (\<lambda>v. Inr (py_str v))"

definition minutes_before :: "datetime \<Rightarrow> int \<Rightarrow> datetime" where
  "minutes_before t n = t\<lparr>dt_us := dt_us t - n * 60000000\<rparr>"

definition at_time :: "datetime \<Rightarrow> int \<Rightarrow> event_args \<Rightarrow> event_args" where
  "at_time now n args = args\<lparr>ea_timestamp := Some (minutes_before now n)\<rparr>"

definition source_ip :: "string \<times> val" where
  "source_ip = (''source_ip'', VStr ''203.0.113.77'')"

definition submitted_args :: "row \<Rightarrow> exc + event_args" where
  "submitted_args summary =
    bindR (profile_text summary ''identity'' ''identity_id'') (\<lambda>identity_id.
    bindR (profile_text summary ''identity'' ''display_name'') (\<lambda>display_name.
    bindR (profile_field summary ''identity'' ''profile_id'') (\<lambda>profile_id.
    bindR (profile_field summary ''identity'' ''email_candidates'') (\<lambda>emails.
    bindR (profile_field summary ''identity'' ''field_confidence'') (\<lambda>confidence.
      Inr ((slice_args ''identity.fake_sso.submitted'' ''identity''
          (entity ''identity'' identity_id (Some display_name) None) ''identity.synthetic_secret.submit''
          (entity ''service'' ''simcorp-sso-copy'' None None)
          ''Synthetic identity submitted a test-only SSO form''
          [(''landing_id'', VStr ''landing-001''), source_ip, (''profile_id'', profile_id),
           (''contact_candidates'', emails), (''field_confidence'', confidence)] [''LO1''])
        \<lparr>ea_correlation_ids := [py_str profile_id]\<rparr>))))))"

definition reset_args :: "row \<Rightarrow> exc + event_args" where
  "reset_args summary =
    bindR (profile_text summary ''helpdesk'' ''identity_id'') (\<lambda>agent_id.
    bindR (profile_text summary ''helpdesk'' ''display_name'') (\<lambda>agent_name.
    bindR (profile_text summary ''identity'' ''identity_id'') (\<lambda>identity_id.
    bindR (profile_field summary ''identity'' ''display_name'') (\<lambda>display_name.
    bindR (profile_field summary ''identity'' ''employee_id'') (\<lambda>employee_id.
    bindR (profile_field summary ''manager'' ''display_name'') (\<lambda>manager.
    bindR (profile_field summary ''identity'' ''email_candidates'') (\<lambda>emails.
    bindR (profile_field summary ''identity'' ''field_confidence'') (\<lambda>confidence.
    bindR (profile_field summary ''identity'' ''profile_id'') (\<lambda>profile_id.
    bindR (profile_field summary ''helpdesk'' ''profile_id'') (\<lambda>agent_profile.
      Inr ((slice_args ''helpdesk.identity_reset.completed'' ''identity''
          (entity ''helpdesk_agent'' agent_id (Some agent_name) None) ''helpdesk.identity_reset''
          (entity ''identity'' identity_id (Some (py_str display_name)) None)
          ''Helpdesk completed the synthetic password and MFA reset''
          [(''ticket_id'', VStr ''HD-1042''), (''caller_claim'', display_name),
           (''callback_verified'', VBool False), (''caller_employee_id'', employee_id),
           (''manager'', manager), (''contact_candidates'', emails), (''field_confidence'', confidence),
           (''identity_profile_id'', profile_id), (''helpdesk_profile_id'', agent_profile)] [''LO1''])
        \<lparr>ea_correlation_ids := [py_str profile_id, py_str agent_profile]\<rparr>)))))))))))"

definition factor_args :: event_args where
  "factor_args = slice_args ''identity.factor.registered'' ''identity'' red_session ''identity.factor.register''
     (entity ''mfa_factor'' ''factor-red-01'' None None) ''Unauthorized synthetic MFA factor was registered''
     [(''identity_id'', VStr ''sarah''), source_ip] [''LO1'']"

definition first_auth_args :: event_args where
  "first_auth_args = slice_args ''identity.authentication.succeeded'' ''identity'' sarah_named ''identity.authenticate''
     (entity ''service'' ''IDP01'' None None)
     ''Authentication succeeded from the reserved exercise threat source''
     [source_ip, (''factor_id'', VStr ''factor-red-01'')] [''LO1'']"

definition session_args :: event_args where
  "session_args = slice_args ''identity.session.created'' ''identity'' sarah ''identity.session.create'' red_session
     ''Synthetic compromised session was created'' [source_ip] [''LO1'']"

definition initial_access_args :: event_args where
  "initial_access_args = slice_args ''endpoint.remote_access.succeeded'' ''endpoint_ad'' red_session
     ''endpoint.remote_access'' finance_host ''Initial synthetic remote access reached the Finance workstation''
     [source_ip, (''identity_id'', VStr ''sarah'')] [''LO1'', ''LO2'']"

definition slice_event :: "env \<Rightarrow> string \<Rightarrow> event_args \<Rightarrow> (play_run, unit) prog" where
  "slice_event env source args = thenE (slice_build env source args) (ret ())"

text \<open>\<open>_emit_history\<close>.\<close>

definition emit_history :: "env \<Rightarrow> (play_run, unit) prog" where
  "emit_history env =
    bindE (run_world (read_clock env)) (\<lambda>now.
    bindE (get_bridge (\<lambda>b. submitted_args (br_profile_summary b))) (\<lambda>first.
    bindE (liftE first) (\<lambda>submitted.
    thenE (slice_event env ''identity'' (at_time now 35 submitted))
   (bindE (get_bridge (\<lambda>b. reset_args (br_profile_summary b))) (\<lambda>second.
    bindE (liftE second) (\<lambda>resets.
    thenE (slice_event env ''helpdesk'' (at_time now 30 resets))
   (thenE (slice_event env ''identity'' (at_time now 24 factor_args))
   (thenE (slice_event env ''identity'' (at_time now 20 first_auth_args))
   (thenE (slice_event env ''identity'' (at_time now 19 session_args))
      (slice_event env ''endpoint'' (at_time now 15 initial_access_args)))))))))))"

definition profiles_args :: "row \<Rightarrow> event_args" where
  "profiles_args summary = (slice_args ''scenario.profiles.initialized'' ''setup''
       (entity ''system'' ''scenario-engine'' None (Some ''scenario_engine'')) ''scenario.profiles.initialize''
       (entity ''service'' ''IDP01'' None None) ''Validated synthetic OSINT context loaded into the exercise''
       summary []) \<lparr>ea_visibility := ''facilitator''\<rparr>"

definition replay_auth_args :: event_args where
  "replay_auth_args = slice_args ''identity.authentication.succeeded'' ''identity'' sarah_named
     ''identity.authenticate'' red_session ''Synthetic authentication reused the compromised session''
     [source_ip, (''host'', VStr ''FIN-WS01'')] [''LO1'', ''LO2'']"

definition replay_access_args :: "string \<Rightarrow> event_args" where
  "replay_access_args event_id = slice_args ''endpoint.remote_access.succeeded'' ''endpoint_ad'' red_session
     ''endpoint.remote_access'' finance_host ''Compromised session accessed the Finance workstation''
     [source_ip, (''identity_event_id'', VStr event_id)] [''LO1'', ''LO2'']"

definition discovery_args :: event_args where
  "discovery_args = slice_args ''endpoint.process.discovery'' ''endpoint_ad'' sarah ''endpoint.discovery.run''
     finance_host ''Allowlisted process and system discovery completed''
     [(''category'', VStr ''process-and-system''), (''command_id'', VStr ''disc-01'')] [''LO2'']"

definition enumeration_args :: event_args where
  "enumeration_args = slice_args ''directory.enumeration.completed'' ''endpoint_ad'' sarah ''directory.enumerate''
     (entity ''directory'' ''DC01'' None None) ''Synthetic directory enumeration returned baseline objects''
     [(''query_category'', VStr ''accounts-and-groups''), (''object_count'', VInt 12)] [''LO2'']"

definition attempt_args :: event_args where
  "attempt_args = slice_args ''directory.persistence.attempted'' ''endpoint_ad'' sarah
     ''directory.persistence.attempt'' print_account ''Designated persistence change was attempted''
     [(''group'', VStr ''SimCorp-Server-Operators''), (''state_changed'', VBool False)] [''LO2'']"

definition blocked_args :: event_args where
  "blocked_args = (slice_args ''identity.authentication.blocked'' ''endpoint_ad'' sarah ''identity.authenticate''
     red_session ''Post-containment authentication was blocked''
     [(''reason'', VStr ''session_revoked''), source_ip] [''LO2'']) \<lparr>ea_outcome_status := ''blocked''\<rparr>"

definition created_args :: event_args where
  "created_args = slice_args ''directory.account.created'' ''endpoint_ad'' sarah ''directory.account.create''
     print_account ''Adverse branch created the designated synthetic account'' [(''enabled'', VBool True)] [''LO2'']"

definition member_args :: event_args where
  "member_args = slice_args ''directory.group.membership.changed'' ''endpoint_ad'' print_account
     ''directory.group.add_member'' (entity ''directory_group'' ''SimCorp-Server-Operators'' None None)
     ''Synthetic account received the designated exercise privilege''
     [(''member'', VStr ''svc-print-sync'')] [''LO2'']"

text \<open>\<open>_emit_evidence\<close>.\<close>

definition emit_evidence :: "env \<Rightarrow> string \<Rightarrow> (play_run, unit) prog" where
  "emit_evidence env action_id =
    (if action_id = ''scenario.baseline.load'' then
       bindE (get_bridge br_profile_summary) (\<lambda>summary. slice_event env ''profiles'' (profiles_args summary))
     else if action_id = ''identity.history.stage'' then emit_history env
     else if action_id = ''identity.session.replay'' then
       bindE (slice_build env ''identity'' replay_auth_args) (\<lambda>auth.
         slice_event env ''endpoint'' (replay_access_args (ev_event_id auth)))
     else if action_id = ''endpoint.discovery.run'' then
       thenE (slice_event env ''endpoint'' discovery_args) (slice_event env ''endpoint'' enumeration_args)
     else if action_id = ''identity.persistence.attempt'' then slice_event env ''endpoint'' attempt_args
     else if action_id = ''identity.containment.verify'' then slice_event env ''identity'' blocked_args
     else if action_id = ''identity.persistence.escalate'' then
       thenE (slice_event env ''endpoint'' created_args) (slice_event env ''endpoint'' member_args)
     else ret ())"

section \<open>Delivery\<close>

definition on_automation :: "(scene astate, 'a) prog \<Rightarrow> (play_run, 'a) prog" where
  "on_automation m = with_adapter ra_automation (\<lambda>ad r. r\<lparr>ra_automation := ad\<rparr>) m"

text \<open>\<open>handle\<close>.\<close>

definition slice_handle :: "env \<Rightarrow> scenario_item \<Rightarrow> string \<Rightarrow> (play_run, automation_result) prog" where
  "slice_handle env item run_id =
    bindE (get_bridge id) (\<lambda>b.
      if run_id \<noteq> br_run_id b \<or> (case it_action item of None \<Rightarrow> True | Some a \<Rightarrow> \<not> has_key ACTION_ITEMS a)
      then ret (rejected ''controller/runtime correlation mismatch'' [])
      else let action_id = the (it_action item) in
        bindE (engine_request env (br_exercise_id b) run_id (it_id item) action_id (msel_target (it_id item)) [] 20)
          (\<lambda>request.
        bindE (on_automation (execute env request)) (\<lambda>result.
          if \<not> rs_successful result
          then ret (rejected (rs_message result)
            [(''error_code'', opt_val (rs_error_code result)), (''status'', VStr (rs_status result))])
          else bindE (get_bridge br_emitted) (\<lambda>emitted.
            let key = item_key run_id (it_id item) in
            thenE (if key \<notin> set emitted
              then thenE (emit_evidence env action_id)
                (updE (upd_bridge (\<lambda>br. br\<lparr>br_emitted := List.insert key (br_emitted br)\<rparr>)))
              else ret ())
             (ret (completed (rs_message result)
               [(''effects'', str_list (rs_effects result)),
                (''action_request_id'', VStr (rs_request_id result))]))))))"

definition slice_handlers :: "env \<Rightarrow> run_rest automation_handler dict" where
  "slice_handlers env = map (\<lambda>(action_id, item_id).
     (action_id, \<lambda>item run_id. bindE (slice_handle env item run_id) (\<lambda>r. ret (Some r)))) ACTION_ITEMS"

end
