(* ===== verification/ImpactStage.thy ===== *)
theory ImpactStage
  imports SliceAutomation
begin

text \<open>
  \<^verbatim>\<open>orchestrator/impact.py\<close>: the reviewed impact and recovery play over a run's disposable fixture: the
  approved root, the steps, the impact checkpoint (DP4), recovery, rollback, the brief and the final review.
\<close>

section \<open>The approved root\<close>

definition RECOVERY_ACTIONS :: "string list" where
  "RECOVERY_ACTIONS = [''recovery.fixture.restore'', ''recovery.health.validate'']"

definition ROOT_MARKER :: string where "ROOT_MARKER = ''.netstrike-disposable-root''"
definition ROOT_CONTENT :: string where "ROOT_CONTENT = ''NETSTRIKE DISPOSABLE IMPACT ROOT v1'' @ nl"

definition IMPACT_STEPS :: "string dict" where
  "IMPACT_STEPS = [(''impact.fixture.prepare'', ''PRE-03''), (''impact.business.notice'', ''MSEL-08''),
     (''impact.branch.blocked'', ''ACT-08A''), (''impact.branch.realized'', ''ACT-08B''),
     (''exercise.play.finish'', ''END-01'')]"

definition marker_valid :: "root_entry \<Rightarrow> bool" where
  "marker_valid m \<longleftrightarrow> \<not> (re_symlink m \<or> \<not> re_file m \<or> re_links m \<noteq> 1
     \<or> length (re_content m) \<noteq> length ROOT_CONTENT \<or> re_content m \<noteq> ROOT_CONTENT)"

definition child_approved :: "string \<times> root_entry \<Rightarrow> bool" where
  "child_approved ne = (case ne of (name, e) \<Rightarrow> name = ROOT_MARKER
     \<or> \<not> (\<not> run_id_ok name \<or> re_symlink e \<or> \<not> re_dir e \<or> set (re_names e) \<noteq> {''live'', ''known-good'', ''staging''}))"

text \<open>\<open>inspect_root\<close>, which returns the resolved root.\<close>

definition inspect_root :: "impact_root \<Rightarrow> exc + impact_root" where
  "inspect_root r =
    bindR (requireR (rp_absolute (ir_path r) \<and> \<not> rp_symlink (ir_path r) \<and> rp_dir (ir_path r))
      (ValueError ''impact root must be an existing absolute real directory'')) (\<lambda>_.
    bindR (requireR (\<not> ir_protected r)
      (ValueError ''impact root must be a dedicated disposable directory'')) (\<lambda>_.
    bindR (case map_of (ir_entries r) ROOT_MARKER of
        Some m \<Rightarrow> requireR (marker_valid m) (ValueError ''impact root ownership marker is invalid'')
      | None \<Rightarrow> requireR (ir_entries r = [])
          (ValueError ''new impact root must be empty; unrelated files are not permitted'')) (\<lambda>_.
    bindR (requireR (list_all child_approved (ir_entries r))
      (ValueError ''impact root contains an unapproved entry'')) (\<lambda>_. Inr r))))"

definition root_marker :: root_entry where
  "root_marker = \<lparr>re_symlink = False, re_file = True, re_dir = False, re_links = 1,
     re_content = ROOT_CONTENT, re_names = []\<rparr>"

definition approve_root :: "impact_root \<Rightarrow> exc + impact_root" where
  "approve_root r = bindR (inspect_root r) (\<lambda>r. Inr (if has_key (ir_entries r) ROOT_MARKER then r
     else r\<lparr>ir_entries := ir_entries r @ [(ROOT_MARKER, root_marker)]\<rparr>))"

definition run_directory :: root_entry where
  "run_directory = \<lparr>re_symlink = False, re_file = False, re_dir = True, re_links = 1, re_content = [],
     re_names = [''live'', ''known-good'', ''staging'']\<rparr>"

text \<open>\<open>provision\<close> in the root; the run's directory is then an entry of it.\<close>

definition provision_in :: "impact_root \<Rightarrow> string \<Rightarrow> exc + (impact_root \<times> fixture)" where
  "provision_in r run_id = bindR (provision (ir_path r) run_id (has_key (ir_entries r) run_id)) (\<lambda>fx.
     Inr (r\<lparr>ir_entries := ir_entries r @ [(run_id, run_directory)]\<rparr>, fx))"

text \<open>\<open>__init__\<close>.\<close>

definition new_impact_stage :: "string \<Rightarrow> string \<Rightarrow> impact_root option \<Rightarrow> fixture option \<Rightarrow> exc + impact_stage" where
  "new_impact_stage exercise_id run_id root given =
    bindR (case root of None \<Rightarrow> Inl (ValueError ''full-play scenario requires NETSTRIKE_IMPACT_ROOT'')
      | Some r \<Rightarrow> Inr r) (\<lambda>r.
    bindR (requireR (run_id_ok run_id) (ValueError ''impact run id must be a safe directory identifier'')) (\<lambda>_.
    bindR (approve_root r) (\<lambda>r'.
    bindR (case given of Some fx \<Rightarrow> Inr (r', fx) | None \<Rightarrow> provision_in r' run_id) (\<lambda>(r2, fx).
      Inr \<lparr>ig_run_id = run_id, ig_root = r2, ig_fixture = fx, ig_prepared = False, ig_applied = False,
           ig_audit = [], ig_brief = None, ig_validation = None, ig_last_request = None, ig_review = None,
           ig_emitted = [],
           ig_events = fresh_builder (module_context exercise_id run_id ''marker-impact-simulator'') True\<rparr>))))"

section \<open>Evaluations\<close>

definition impact_evaluation :: "bool dict \<Rightarrow> string list \<Rightarrow> checkpoint_evaluation" where
  "impact_evaluation checks evidence = evaluation ''Required impact/recovery observations verified''
     ''Missing observations: '' evidence checks"

text \<open>\<open>prevention\<close>.\<close>

definition prevention :: "bool \<Rightarrow> endpoint_content \<Rightarrow> exc + checkpoint_evaluation" where
  "prevention prepared c =
    bindR (ditem (ec_accounts c) ''svc-print-sync'') (\<lambda>account.
    bindR (ditem (ec_hosts c) ''FIN-WS01'') (\<lambda>host.
    bindR (both (bindR (ditem host ''isolated'') (\<lambda>v. Inr (truthy v)))
       (bindR (ditem host ''remote_path_enabled'') (\<lambda>v. Inr (\<not> truthy v)))) (\<lambda>isolated.
    bindR (both (bindR (ditem account ''exists'') (\<lambda>v. Inr (\<not> truthy v)))
       (bindR (ditem account ''groups'') (\<lambda>v. Inr (\<not> truthy v)))) (\<lambda>removed.
    bindR (get_field ''impact-task-01'' ''active'' (ec_processes c)) (\<lambda>active.
      Inr (impact_evaluation [(''source_prepared'', prepared), (''host_isolated'', isolated),
        (''persistence_removed'', removed), (''impact_task_disabled'', active = VBool False)] []))))))"

definition cloud_count :: "cloud_stage \<Rightarrow> exc + val" where
  "cloud_count g = get_field BUCKET_ID ''confirmed_count'' (cc_exposure (cs_content (cg_state g)))"

definition vlen :: "val \<Rightarrow> exc + int" where
  "vlen v = (case v of VStr s \<Rightarrow> Inr (int (length s)) | VList xs \<Rightarrow> Inr (int (length xs))
     | VTuple xs \<Rightarrow> Inr (int (length xs)) | VDict d \<Rightarrow> Inr (int (length d))
     | _ \<Rightarrow> Inl (TypeError (''object of type '' @ quoted (type_name v) @ '' has no len()'')))"

definition brief_field :: "brief option \<Rightarrow> string \<Rightarrow> val option" where
  "brief_field b k = (case b of None \<Rightarrow> None | Some bf \<Rightarrow> map_of (bf_payload bf) k)"

definition brief_evidence :: "brief option \<Rightarrow> string list" where
  "brief_evidence b = (case b of None \<Rightarrow> [] | Some bf \<Rightarrow> bf_evidence bf)"

definition BRIEF_SECTIONS :: "string list" where
  "BRIEF_SECTIONS = [''confirmed_scope'', ''business_impact'', ''actions_taken'', ''remaining_risk'']"

definition true_field :: "row \<Rightarrow> string \<Rightarrow> bool" where
  "true_field r k \<longleftrightarrow> map_of r k = Some (VBool True)"

text \<open>\<open>evaluate_recovery\<close>.\<close>

definition recovery_checks :: "(string \<Rightarrow> string) \<Rightarrow> impact_stage \<Rightarrow> cloud_stage \<Rightarrow> exc + bool dict" where
  "recovery_checks sha g cloud =
    bindR (impact_inspect sha (ig_fixture g)) (\<lambda>status.
    bindR (cloud_count cloud) (\<lambda>confirmed.
    bindR (both (Inr (list_all (\<lambda>k. \<not> blank (brief_field (ig_brief g) k)) BRIEF_SECTIONS))
        (bindR (vlen (case brief_field (ig_brief g) ''recommendations'' of None \<Rightarrow> VList [] | Some v \<Rightarrow> v))
          (\<lambda>n. Inr (2 \<le> n)))) (\<lambda>sections.
      Inr [(''originals_unchanged'', true_field status ''originals_unchanged'' \<and> true_field status ''backup_intact''),
        (''baseline_restored'', true_field status ''baseline_verified''),
        (''health_validation_recorded'', opt_text (ig_validation g) \<noteq> None),
        (''health_evidence_cited'', case opt_text (ig_validation g) of None \<Rightarrow> False
           | Some i \<Rightarrow> i \<in> set (brief_evidence (ig_brief g))),
        (''scope_count_supported'', val_eq (case brief_field (ig_brief g) ''confirmed_cloud_records'' of
             None \<Rightarrow> VNone | Some v \<Rightarrow> v) confirmed),
        (''communication_sections_present'', sections)])))"

definition evaluate_recovery :: "(string \<Rightarrow> string) \<Rightarrow> impact_stage \<Rightarrow> cloud_stage \<Rightarrow> exc + checkpoint_evaluation" where
  "evaluate_recovery sha g cloud = bindR (recovery_checks sha g cloud) (\<lambda>checks.
     Inr (impact_evaluation checks (brief_evidence (ig_brief g))))"

section \<open>Transitions\<close>

definition get_stage :: "(impact_stage \<Rightarrow> 'a) \<Rightarrow> (scene, 'a) prog" where
  "get_stage f = on_impact (getE f)"

definition scene_ctl :: "(controller \<Rightarrow> 'a) \<Rightarrow> (scene, 'a) prog" where
  "scene_ctl f = getE (\<lambda>sn. f (snd sn))"

definition outcome_branch :: "string dict \<Rightarrow> string \<Rightarrow> string \<Rightarrow> string \<Rightarrow> string" where
  "outcome_branch results dp on_pass on_miss =
     (if map_of results dp = Some ''pass'' then on_pass else on_miss)"

definition arm_task :: "(scene, unit) prog" where
  "arm_task = bindE (get_play (\<lambda>p. set_field ''impact-task-01'' ''active'' (VBool True)
       (ec_processes (es_content (pl_endpoint p))))) (\<lambda>r. bindE (liftE r) (\<lambda>t.
     upd_play (\<lambda>p. p\<lparr>pl_endpoint := (pl_endpoint p)
       \<lparr>es_content := (es_content (pl_endpoint p))\<lparr>ec_processes := t\<rparr>\<rparr>\<rparr>)))"

definition impact_prepare :: "(string \<Rightarrow> string) \<Rightarrow> (scene, action_effect) prog" where
  "impact_prepare sha =
    bindE (get_stage (\<lambda>g. health_mismatches sha (ig_fixture g))) (\<lambda>health.
    bindE (liftE health) (\<lambda>ms.
    thenE (requireE (ms = []) (ActionExecutionError ''fixture_unhealthy'' ''Disposable baseline is not ready''))
   (thenE arm_task
   (thenE (on_impact (updE (\<lambda>g. g\<lparr>ig_prepared := True\<rparr>)))
     (ret (action_effect [''validated decoys and armed the synthetic pre-staged task''] None))))))"

definition require_delivered :: "string list \<Rightarrow> exc \<Rightarrow> (scene, unit) prog" where
  "require_delivered is e = bindE (scene_ctl (any_not Delivered is)) (\<lambda>r. bindE (liftE r) (\<lambda>open.
     requireE (\<not> open) e))"

definition impact_notice :: "(scene, action_effect) prog" where
  "impact_notice =
    bindE (scene_ctl ctl_results) (\<lambda>results.
    thenE (requireE (has_key results ''DP3'')
      (ActionExecutionError ''cloud_not_resolved'' ''Resolve cloud checkpoint first''))
   (thenE (require_delivered [outcome_branch results ''DP3'' ''ACT-07A'' ''ACT-07B'']
      (ActionExecutionError ''cloud_outcome_missing'' ''Cloud outcome unobserved; notification blocked''))
   (bindE (get_play (\<lambda>p. cloud_count (pl_cloud p))) (\<lambda>r. bindE (liftE r) (\<lambda>confirmed.
    bindE (get_play (\<lambda>p. list_ex (\<lambda>e. ev_event_type e = ''cloud.extortion.claimed'') (cg_audit (pl_cloud p)))) (\<lambda>claim.
      ret \<lparr>ef_effects = [if claim
             then ''A synthetic threat message claims theft; verify against the mock audit.''
             else ''The later mock bulk request was blocked; verify residual scope.''],
           ef_rollback_token = None, ef_metadata = [(''confirmed_records'', confirmed)]\<rparr>))))))"

definition required_sources :: "string dict \<Rightarrow> string list" where
  "required_sources results = [''PRE-01'', ''PRE-02'', ''PRE-03'', ''ACT-01'', ''ACT-02'', ''ACT-03'', ''ACT-05'',
     ''ACT-06'', ''MSEL-08'', outcome_branch results ''DP2'' ''ACT-04A'' ''ACT-04B'',
     outcome_branch results ''DP3'' ''ACT-07A'' ''ACT-07B'']"

definition impact_finish :: "(string \<Rightarrow> string) \<Rightarrow> (scene, action_effect) prog" where
  "impact_finish sha =
    bindE (scene_ctl ctl_elapsed) (\<lambda>elapsed.
    thenE (requireE (7800 \<le> elapsed) (ActionExecutionError ''end_not_due'' ''Play ends at 130 minutes''))
   (bindE (get_stage ig_applied) (\<lambda>applied. bindE (scene_ctl ctl_results) (\<lambda>results.
    thenE (requireE (applied \<and> list_all (has_key results) [''DP1'', ''DP2'', ''DP3'', ''DP4''])
      (ActionExecutionError ''observation_incomplete'' ''Required source/checkpoint missing''))
   (thenE (require_delivered (required_sources results)
      (ActionExecutionError ''source_evidence_missing'' ''Source failed or skipped; pause and investigate''))
   (thenE (require_delivered [outcome_branch results ''DP4'' ''ACT-08A'' ''ACT-08B'']
      (ActionExecutionError ''impact_evidence_missing'' ''Impact source failed; pause and investigate''))
   (bindE (get_play pl_cloud) (\<lambda>cloud.
    bindE (get_stage (\<lambda>g. evaluate_recovery sha g cloud)) (\<lambda>r. bindE (liftE r) (\<lambda>review.
    thenE (on_impact (updE (\<lambda>g. g\<lparr>ig_review := Some review\<rparr>)))
      (ret (action_effect [''Play ended; recovery/brief observations frozen for evaluation''] None))))))))))))"

definition impact_transition :: "(string \<Rightarrow> string) \<Rightarrow> string \<Rightarrow> control \<Rightarrow> int \<Rightarrow> (scene, action_effect) prog" where
  "impact_transition sha action_id control now = checked control now
    (if action_id = ''impact.fixture.prepare'' then impact_prepare sha
     else if action_id = ''impact.business.notice'' then impact_notice
     else if action_id = ''exercise.play.finish'' then impact_finish sha
     else raise (ActionExecutionError ''unregistered_step'' ''Unknown impact step''))"

definition impact_step_parameters :: "row \<Rightarrow> exc + unit" where
  "impact_step_parameters parameters = (if parameters = [] then Inr ()
     else Inl (ValueError ''reviewed impact steps accept no parameters''))"

definition impact_step_action :: "(string \<Rightarrow> string) \<Rightarrow> string \<times> string \<Rightarrow> scene action_definition" where
  "impact_step_action sha ai = (case ai of (action_id, item_id) \<Rightarrow>
     define_action action_id ''impact_recovery'' [''scenario_engine''] [''msel_item:'' @ item_id]
       (if item_id = ''PRE-03'' then [''ready''] else [''running'']) 20 [action_id]
       ''full run reset restores preparation state''
       (\<lambda>ps target control now. impact_transition sha action_id control now) (\<lambda>_ _ _. ret [])
       impact_step_parameters)"

definition new_impact_automation :: "(string \<Rightarrow> string) \<Rightarrow> string \<Rightarrow> string \<Rightarrow> exc + scene adapter" where
  "new_impact_automation sha exercise_id run_id = scene_adapter exercise_id run_id ''marker-impact-automation''
     scene_run_state (map (impact_step_action sha) (filter (\<lambda>(a, i). \<not> starts_with ''ACT-08'' i) IMPACT_STEPS))"

text \<open>The fixture's actions; \<open>reset_control\<close> lets a completed run count as stopped.\<close>

definition stage_impact_actions :: "(string \<Rightarrow> exc option) \<Rightarrow> (string \<Rightarrow> string) \<Rightarrow> string
    \<Rightarrow> scene action_definition list" where
  "stage_impact_actions fault sha run_id =
     map (lift_action on_fixture on_fixture) (impact_definitions fault sha run_id)"

definition impact_run_state :: "bool \<Rightarrow> scene \<Rightarrow> string \<Rightarrow> string \<Rightarrow> string" where
  "impact_run_state reset_control sn exercise_id run_id =
    (let st = scene_run_state sn exercise_id run_id in if reset_control \<and> st = ''completed'' then ''stopped'' else st)"

definition new_impact_adapter :: "(string \<Rightarrow> exc option) \<Rightarrow> (string \<Rightarrow> string) \<Rightarrow> string \<Rightarrow> string \<Rightarrow> string
    \<Rightarrow> bool \<Rightarrow> exc + scene adapter" where
  "new_impact_adapter fault sha exercise_id run_id component reset_control =
     scene_adapter exercise_id run_id component (impact_run_state reset_control)
       (stage_impact_actions fault sha run_id)"

section \<open>Evidence and delivery\<close>

definition run_impact :: "(impact_stage, 'a) prog \<Rightarrow> (play_run, 'a) prog" where
  "run_impact m = on_scene (on_impact m)"

definition get_impact :: "(impact_stage \<Rightarrow> 'a) \<Rightarrow> (play_run, 'a) prog" where
  "get_impact f = run_impact (getE f)"

definition impact_event :: "string \<Rightarrow> string \<Rightarrow> row \<Rightarrow> string \<Rightarrow> event_args" where
  "impact_event event_type message data visibility =
    (event_args event_type ''impact_recovery'' engine event_type
       (Some (entity ''fixture_set'' FIXTURE_ID None None)) ''success'' message)
    \<lparr>ea_visibility := visibility, ea_objective_ids := [''LO4'', ''LO5''],
     ea_safety_controls := [''synthetic-data'', ''allowlisted-fixture'', ''no-encryption''],
     ea_data := dmerge [(''host'', VStr ''FILE01''), (''encryption_performed'', VBool False)] data\<rparr>"

definition impact_build :: "env \<Rightarrow> event_args \<Rightarrow> (play_run, event) prog" where
  "impact_build env args = bindE (get_impact ig_events) (\<lambda>builder.
     zoomE (\<lambda>s. (cy_world s, builder))
       (\<lambda>(w, b) s. (snd (run_impact (updE (\<lambda>g. g\<lparr>ig_events := b\<rparr>)) s))\<lparr>cy_world := w\<rparr>) (build_and_sink env args))"

text \<open>\<open>_emit\<close>.\<close>

definition impact_emit :: "env \<Rightarrow> string \<Rightarrow> string \<Rightarrow> row \<Rightarrow> string \<Rightarrow> (play_run, event) prog" where
  "impact_emit env event_type message data visibility =
    bindE (impact_build env (impact_event event_type message data visibility)) (\<lambda>event.
    thenE (if visibility = ''participant'' then run_impact (updE (\<lambda>g. g\<lparr>ig_audit := ig_audit g @ [event]\<rparr>)) else ret ())
      (ret event))"

definition inspected :: "(string \<Rightarrow> string) \<Rightarrow> (play_run, row) prog" where
  "inspected sha = bindE (get_impact (\<lambda>g. impact_inspect sha (ig_fixture g))) liftE"

definition emit_inspection :: "env \<Rightarrow> (string \<Rightarrow> string) \<Rightarrow> string \<Rightarrow> string \<Rightarrow> string \<Rightarrow> (play_run, event) prog" where
  "emit_inspection env sha event_type message visibility =
     bindE (inspected sha) (\<lambda>data. impact_emit env event_type message data visibility)"

definition on_impact_adapter :: "(scene astate, 'a) prog \<Rightarrow> (play_run, 'a) prog" where
  "on_impact_adapter m = with_optional ra_impact (\<lambda>ad r. r\<lparr>ra_impact := ad\<rparr>) m"

definition on_impact_automation :: "(scene astate, 'a) prog \<Rightarrow> (play_run, 'a) prog" where
  "on_impact_automation m = with_optional ra_impact_automation (\<lambda>ad r. r\<lparr>ra_impact_automation := ad\<rparr>) m"

definition fixture_target :: "string \<Rightarrow> entity" where
  "fixture_target i = entity ''fixture_set'' i None None"

text \<open>\<open>_request\<close>.\<close>

definition impact_request :: "env \<Rightarrow> string \<Rightarrow> entity \<Rightarrow> entity \<Rightarrow> string \<Rightarrow> row \<Rightarrow> bool
    \<Rightarrow> (play_run, action_request) prog" where
  "impact_request env action_id target actor key parameters dry_run =
    bindE (getE exercise_of) (\<lambda>exercise_id. bindE (get_impact ig_run_id) (\<lambda>run_id.
      run_world (make_action_request env exercise_id run_id actor action_id target key parameters dry_run 15 None)))"

text \<open>The branch marks the decoys as far as the local task is still active.\<close>

definition impact_variant :: "(play_run, string) prog" where
  "impact_variant = bindE (getE (\<lambda>s. get_field ''impact-task-01'' ''active''
      (ec_processes (es_content (pl_endpoint (rr_play (cy_rest s))))))) (\<lambda>r. bindE (liftE r) (\<lambda>active.
     ret (if truthy active then ''realized'' else ''blocked'')))"

definition impact_step_evidence :: "env \<Rightarrow> (string \<Rightarrow> string) \<Rightarrow> string \<Rightarrow> action_result \<Rightarrow> (play_run, unit) prog" where
  "impact_step_evidence env sha item_id result =
    (if starts_with ''ACT-08'' item_id then
       thenE (run_impact (updE (\<lambda>g. g\<lparr>ig_applied := True, ig_last_request := Some (rs_request_id result),
          ig_validation := None\<rparr>)))
      (thenE (emit_inspection env sha ''impact.markers.applied'' ''Marker-only exercise impact evaluated'' ''participant'')
         (ret ()))
     else if item_id = ''PRE-03'' then
       thenE (emit_inspection env sha ''impact.fixture.prepared'' ''Disposable recovery baseline prepared'' ''participant'')
      (thenE (impact_emit env ''impact.task.armed'' ''Pre-staged synthetic task available for containment''
          [(''task_id'', VStr ''impact-task-01''), (''active'', VBool True)] ''participant'')
         (ret ()))
     else if item_id = ''END-01'' then
       bindE (get_impact ig_review) (\<lambda>review. case review of
         None \<Rightarrow> raise (OtherError ''AttributeError'' ''passed'')
       | Some ev \<Rightarrow> thenE (impact_emit env ''recovery.review.completed'' ''Recovery and brief review frozen''
           [(''passed'', VBool (ce_passed ev)), (''checks'', VDict (checks_val (ce_checks ev))),
            (''evidence_ids'', str_list (ce_evidence_ids ev)),
            (''report_quality_requires_evaluator'', VBool True)] ''evaluator'') (ret ()))
     else ret ())"

definition impact_finish_item :: "env \<Rightarrow> (string \<Rightarrow> string) \<Rightarrow> string \<Rightarrow> action_result
    \<Rightarrow> (play_run, automation_result) prog" where
  "impact_finish_item env sha item_id result =
    (if \<not> rs_successful result
     then ret (rejected (rs_message result) [(''error_code'', opt_val (rs_error_code result))])
     else bindE (get_impact ig_emitted) (\<lambda>emitted.
       thenE (if item_id \<notin> set emitted
         then thenE (impact_step_evidence env sha item_id result)
           (run_impact (updE (\<lambda>g. g\<lparr>ig_emitted := List.insert item_id (ig_emitted g)\<rparr>)))
         else ret ())
      (bindE (if item_id = ''MSEL-08'' then (case rs_effects result of [] \<Rightarrow> raise (OtherError ''IndexError'' [])
            | e # _ \<Rightarrow> ret e) else ret ''Reviewed impact/recovery step completed'') (\<lambda>message.
         ret (completed message [(''action_request_id'', VStr (rs_request_id result))])))))"

text \<open>\<open>handle\<close>.\<close>

definition impact_handle :: "env \<Rightarrow> (string \<Rightarrow> string) \<Rightarrow> scenario_item \<Rightarrow> string
    \<Rightarrow> (play_run, automation_result) prog" where
  "impact_handle env sha item run_id =
    bindE (get_impact id) (\<lambda>g.
      if run_id \<noteq> ig_run_id g \<or> Option.bind (it_action item) (map_of IMPACT_STEPS) \<noteq> Some (it_id item)
      then ret (rejected ''impact MSEL/run correlation mismatch'' [])
      else if starts_with ''ACT-08'' (it_id item) then
        bindE (get_ctl ctl_results) (\<lambda>results.
          if map_of results ''DP4'' \<noteq> Some (if it_id item = ''ACT-08A'' then ''pass'' else ''miss'')
          then ret (rejected ''Resolve DP4 before its branch'' [])
          else if \<not> ig_prepared g then ret (rejected ''Impact source is not prepared'' [])
          else bindE impact_variant (\<lambda>variant.
            bindE (impact_request env ''impact.marker.apply'' (fixture_target FIXTURE_ID) engine
              (item_key run_id (it_id item)) [(''variant'', VStr variant)] False) (\<lambda>request.
            bindE (on_impact_adapter (execute env request)) (impact_finish_item env sha (it_id item)))))
      else bindE (impact_request env (the (it_action item)) (msel_target (it_id item)) engine
          (item_key run_id (it_id item)) [] False) (\<lambda>request.
        bindE (on_impact_automation (execute env request)) (impact_finish_item env sha (it_id item))))"

definition impact_handlers :: "env \<Rightarrow> (string \<Rightarrow> string) \<Rightarrow> run_rest automation_handler dict" where
  "impact_handlers env sha = map (\<lambda>(action_id, item_id).
     (action_id, \<lambda>item run_id. bindE (impact_handle env sha item run_id) (\<lambda>r. ret (Some r)))) IMPACT_STEPS"

section \<open>The checkpoint\<close>

definition run_prevention :: "(play_run, checkpoint_evaluation) prog" where
  "run_prevention = bindE (get_impact ig_prepared) (\<lambda>prepared.
     bindE (getE (\<lambda>s. prevention prepared (es_content (pl_endpoint (rr_play (cy_rest s)))))) liftE)"

definition source_ready :: "(string \<Rightarrow> string) \<Rightarrow> impact_stage \<Rightarrow> controller \<Rightarrow> exc + bool" where
  "source_ready sha g c = both (Inr (ig_prepared g))
     (both (bindR (item_state ''PRE-03'' c) (\<lambda>s. Inr (s = Delivered)))
       (bindR (health_mismatches sha (ig_fixture g)) (\<lambda>ms. Inr (ms = []))))"

definition resolve_impact :: "run_rest deps \<Rightarrow> (string \<Rightarrow> string) \<Rightarrow> (play_run, checkpoint_evaluation) prog" where
  "resolve_impact dp sha =
    bindE (get_ctl ctl_state) (\<lambda>st.
    thenE (requireE (st = Running) (ControllerError ''resume play before resolving the impact branch''))
   (bindE (get_ctl (item_state ''DP4'')) (\<lambda>r. bindE (liftE r) (\<lambda>dp4.
    thenE (requireE (dp4 = ReadyItem) (ControllerError ''DP4 must be due before evaluation''))
   (bindE (get_impact id) (\<lambda>g. bindE (get_ctl (source_ready sha g)) (\<lambda>r. bindE (liftE r) (\<lambda>good.
    thenE (requireE good (ControllerError ''Impact source not ready; pause and investigate''))
   (bindE (get_ctl (any_not PendingItem [''ACT-08A'', ''ACT-08B''])) (\<lambda>r. bindE (liftE r) (\<lambda>taken.
    thenE (requireE (\<not> taken) (ControllerError ''Impact branch unavailable; record the deviation''))
   (bindE (get_ctl ctl_results) (\<lambda>results.
    thenE (requireE (list_all (has_key results) [''DP2'', ''DP3''])
      (ControllerError ''Resolve earlier containment checkpoints first''))
   (bindE run_prevention (\<lambda>result.
    thenE (resolve_checkpoint dp ''DP4'' (ce_passed result)
        [''state:host:FIN-WS01'', ''state:process:impact-task-01''] (ce_reason result)
        (Some (checks_val (ce_checks result))))
      (ret result))))))))))))))))"

section \<open>Recovery\<close>

definition impact_view :: "(string \<Rightarrow> string) \<Rightarrow> (play_run, row) prog" where
  "impact_view sha = bindE (inspected sha) (\<lambda>fixture. bindE (get_impact id) (\<lambda>g.
     getE (\<lambda>s. [(''exercise_id'', VStr (exercise_of s)), (''run_id'', VStr (ig_run_id g)),
       (''fixture'', VDict fixture), (''audit'', VList (map (VDict \<circ> event_row) (ig_audit g))),
       (''endpoint'', VDict (endpoint_snapshot (es_content (pl_endpoint (rr_play (cy_rest s))))))])))"

definition evaluation_row :: "checkpoint_evaluation \<Rightarrow> val" where
  "evaluation_row ev = VDict [(''passed'', VBool (ce_passed ev)), (''reason'', VStr (ce_reason ev)),
     (''checks'', VDict (checks_val (ce_checks ev))), (''evidence_ids'', str_list (ce_evidence_ids ev))]"

definition run_review :: "(string \<Rightarrow> string) \<Rightarrow> (play_run, checkpoint_evaluation) prog" where
  "run_review sha = bindE (get_impact id) (\<lambda>g. bindE (get_cloud id) (\<lambda>cloud. liftE (evaluate_recovery sha g cloud)))"

text \<open>What the \<open>except\<close> of \<open>staff_state\<close> catches; the model of the fixture raises no \<open>OSError\<close>.\<close>

definition staff_error :: "exc \<Rightarrow> bool" where
  "staff_error e \<longleftrightarrow> is_value_error e \<or> (\<exists>code message. e = ActionExecutionError code message)"

definition staff_state :: "(string \<Rightarrow> string) \<Rightarrow> (play_run, row) prog" where
  "staff_state sha = tryE
    (bindE (impact_view sha) (\<lambda>view. bindE run_prevention (\<lambda>dp4. bindE (run_review sha) (\<lambda>recovery.
     bindE (get_impact id) (\<lambda>g.
       ret [(''enabled'', VBool True), (''view'', VDict view), (''dp4_preview'', evaluation_row dp4),
         (''recovery_preview'', evaluation_row recovery),
         (''final_review'', case ig_review g of None \<Rightarrow> VNone | Some ev \<Rightarrow> evaluation_row ev),
         (''rollback_available'', VBool (opt_text (ig_last_request g) \<noteq> None))])))))
    (\<lambda>e. if staff_error e then bindE run_prevention (\<lambda>dp4.
       ret [(''enabled'', VBool True), (''health_error'', VStr ''unsafe_or_unreadable_fixture''),
         (''dp4_preview'', evaluation_row dp4),
         (''recovery_preview'', evaluation_row (impact_evaluation [(''fixture_safe'', False)] [])),
         (''final_review'', VNone), (''rollback_available'', VBool False)])
      else raise e)"

text \<open>\<open>recover\<close>, \<open>rollback\<close>, \<open>submit_brief\<close>.\<close>

definition recover :: "env \<Rightarrow> (string \<Rightarrow> string) \<Rightarrow> entity \<Rightarrow> string \<Rightarrow> string \<Rightarrow> string \<Rightarrow> bool
    \<Rightarrow> (play_run, action_result) prog" where
  "recover env sha actor action_id fixture_id key dry_run =
    bindE (get_impact ig_applied) (\<lambda>applied.
    thenE (requireE (action_id \<in> set RECOVERY_ACTIONS \<and> applied)
      (ActionContractError ''recovery requires an observed impact branch''))
   (bindE (impact_request env action_id (fixture_target fixture_id) actor key [] dry_run) (\<lambda>request.
    bindE (on_impact_adapter (execute env request)) (\<lambda>result.
    thenE (if rs_successful result \<and> \<not> dry_run \<and> \<not> rs_cached result
      then bindE (emit_inspection env sha
          (if action_id = ''recovery.fixture.restore'' then ''recovery.fixture.restored'' else ''recovery.health.verified'')
          ''Disposable fixture recovery observation'' ''participant'') (\<lambda>event.
        run_impact (updE (\<lambda>g. g\<lparr>ig_validation :=
          (if action_id = ''recovery.health.validate'' then Some (ev_event_id event) else None)\<rparr>)))
      else ret ())
     (ret result)))))"

definition rollback_impact :: "env \<Rightarrow> (string \<Rightarrow> string) \<Rightarrow> entity \<Rightarrow> (play_run, row) prog" where
  "rollback_impact env sha actor =
    bindE (get_impact id) (\<lambda>g. case opt_text (ig_last_request g) of
      None \<Rightarrow> raise (ActionContractError ''no successful impact is available for rollback'')
    | Some request_id \<Rightarrow>
      bindE (on_impact_adapter (rollback_execution env request_id actor)) (\<lambda>effects.
      thenE (run_impact (updE (\<lambda>g. g\<lparr>ig_last_request := None, ig_validation := None\<rparr>)))
     (thenE (emit_inspection env sha ''impact.rollback.completed'' ''Staff restored the pre-impact decoys'' ''participant'')
       (ret [(''effects'', str_list effects), (''run_id'', VStr (ig_run_id g))]))))"

definition submit_brief :: "brief \<Rightarrow> (play_run, unit) prog" where
  "submit_brief payload =
    bindE (get_ctl ctl_state) (\<lambda>st. bindE (get_impact id) (\<lambda>g.
    thenE (requireE (st = Running \<and> ig_applied g) (ActionContractError ''brief requires active recovery play''))
   (thenE (requireE (bf_evidence payload \<noteq> [] \<and> distinct (bf_evidence payload)
        \<and> set (bf_evidence payload) \<subseteq> ev_event_id ` set (ig_audit g))
      (ActionContractError ''brief references must be unique current-run impact evidence''))
     (run_impact (updE (\<lambda>g. g\<lparr>ig_brief := Some payload\<rparr>))))))"

section \<open>Reset\<close>

definition validate_next_run :: "string \<Rightarrow> (play_run, unit) prog" where
  "validate_next_run run_id =
    bindE (get_impact (\<lambda>g. approve_root (ig_root g))) (\<lambda>r. bindE (liftE r) (\<lambda>root.
    thenE (run_impact (updE (\<lambda>g. g\<lparr>ig_root := root\<rparr>)))
   (thenE (requireE (run_id_ok run_id) (ActionContractError ''new impact run id is unsafe''))
     (requireE (\<not> has_key (ir_entries root) run_id)
       (ActionContractError ''new impact run directory already exists'')))))"

text \<open>The adapter of the reset is made for this call; \<open>ns\<close> is \<open>time.monotonic_ns()\<close>.\<close>

definition restore_for_reset :: "env \<Rightarrow> (string \<Rightarrow> exc option) \<Rightarrow> (string \<Rightarrow> string) \<Rightarrow> int \<Rightarrow> (play_run, unit) prog" where
  "restore_for_reset env fault sha ns =
    bindE (get_ctl ctl_state) (\<lambda>st.
    thenE (requireE (st \<in> set [Stopped, Completed])
      (ActionContractError ''stop or finish the run before fixture reset''))
   (bindE (getE exercise_of) (\<lambda>exercise_id. bindE (get_impact ig_run_id) (\<lambda>run_id.
    bindE (liftE (new_impact_adapter fault sha exercise_id run_id ''impact-reset-controller'' True)) (\<lambda>adapter.
    bindE (impact_request env ''exercise.impact.reset'' (entity ''exercise_run'' run_id None None)
        (entity ''service_account'' ''reset-operator'' None (Some ''technical_operator''))
        (''restore-before-reset:'' @ int_str ns) [] False) (\<lambda>request.
    bindE (with_adapter (\<lambda>_. adapter) (\<lambda>_ r. r) (execute env request)) (\<lambda>result.
    bindE (if rs_successful result then bindE (get_impact (\<lambda>g. health_mismatches sha (ig_fixture g))) liftE
       else ret [''unsuccessful'']) (\<lambda>ms.
    thenE (requireE (ms = []) (ActionContractError ''fixture reset failed; preserve run and investigate''))
   (thenE (emit_inspection env sha ''impact.baseline.restored''
        ''Old disposable fixture restored before new run'' ''facilitator'')
      (ret ()))))))))))"

definition provision_next_run :: "string \<Rightarrow> (play_run, fixture) prog" where
  "provision_next_run run_id = bindE (get_impact (\<lambda>g. provision_in (ig_root g) run_id)) (\<lambda>r.
     bindE (liftE r) (\<lambda>(root, fx). thenE (run_impact (updE (\<lambda>g. g\<lparr>ig_root := root\<rparr>))) (ret fx)))"

end
