(* ===== verification/Profiles.thy ===== *)
theory Profiles
  imports Checkpoints Support
begin

text \<open>
  \<^verbatim>\<open>shared/profiles.py\<close> with the role extractor of \<^verbatim>\<open>modules/01-osint-profiler/extractors\<close>: reviewed
  synthetic profiles. The JSON schema's first error, \<open>uuid5\<close>, \<open>sha256\<close> and \<open>json.loads\<close> are parameters; the
  reviewed roster is \<open>employees.json\<close>, whose entries all have the fields of \<open>employee\<close>.
\<close>

section \<open>Roles and seeds\<close>

definition ROLE_MAP :: "(string list \<times> string) list" where
  "ROLE_MAP =
    [([''helpdesk'', ''it support'', ''support specialist'', ''helpdesk agent'', ''helpdesk technician''], ''Helpdesk''),
     ([''it administrator'', ''systems administrator'', ''sysadmin'', ''okta administrator'', ''network engineer'',
       ''devops'', ''it director'', ''director of it'', ''security analyst'', ''identity engineer''], ''IT_Admin''),
     ([''chief executive'', ''chief financial'', ''chief technology'', ''ceo'', ''cfo'', ''cto'', ''vp of'',
       ''vice president'', ''director''], ''Executive''),
     ([''finance analyst'', ''finance manager'', ''legal'', ''hr'', ''sales''], ''Staff'')]"

definition normalise_role_group :: "string \<Rightarrow> string" where
  "normalise_role_group title = (let t = lower title in
     case List.find (\<lambda>(keywords, role). list_ex (\<lambda>kw. sublist kw t) keywords) ROLE_MAP of
       None \<Rightarrow> ''Staff'' | Some (keywords, role) \<Rightarrow> role)"

definition MAX_PROFILE_BYTES :: int where "MAX_PROFILE_BYTES = 1024 * 1024"

definition profile_error :: "string \<Rightarrow> exc" where
  "profile_error message = ProfileInitializationError message"

definition profile_id :: "(string \<Rightarrow> string) \<Rightarrow> string \<Rightarrow> string \<Rightarrow> string" where
  "profile_id uuid5 seed employee_id = uuid5 (''netstrike:profile:v1:'' @ seed @ '':'' @ employee_id)"

definition seed_ok :: "string \<Rightarrow> bool" where
  "seed_ok s \<longleftrightarrow> s \<noteq> [] \<and> length s \<le> 128 \<and> is_alnum (hd s)
     \<and> list_all (\<lambda>c. is_alnum c \<or> c \<in> set ''._:-'') (tl s)"

definition validate_seed :: "val \<Rightarrow> exc + string" where
  "validate_seed seed = (let invalid = Inl (profile_error ''profile seed must be a bounded exercise identifier'') in
     case seed of VStr s \<Rightarrow> if seed_ok s then Inr s else invalid | _ \<Rightarrow> invalid)"

section \<open>Reading JSON\<close>

text \<open>\<open>_unique_fields\<close>, the hook \<open>json.loads\<close> calls for each object.\<close>

fun unique_fields :: "(string \<times> 'v) list \<Rightarrow> 'v dict \<Rightarrow> exc + 'v dict" where
  "unique_fields [] result = Inr result"
| "unique_fields ((k, v) # pairs) result =
    (if has_key result k then Inl (profile_error ''profile JSON contains duplicate fields'')
     else unique_fields pairs (dset k v result))"

text \<open>
  \<open>_read_json\<close>: \<open>file\<close> is what reading the file gives, \<open>loads\<close> is \<open>json.loads\<close> with the hook, where
  \<open>None\<close> stands for an exception that \<open>_read_json\<close> catches.
\<close>

definition read_json :: "(string \<Rightarrow> (exc + 'v) option) \<Rightarrow> string option \<Rightarrow> exc + 'v" where
  "read_json loads file = (let unreadable = Inl (profile_error ''profile fixture must be readable, bounded JSON'') in
     case file of None \<Rightarrow> unreadable
     | Some raw \<Rightarrow> if MAX_PROFILE_BYTES < int (length raw)
         then Inl (profile_error ''profile fixture exceeds the size limit'')
         else (case loads raw of None \<Rightarrow> unreadable | Some r \<Rightarrow> r))"

section \<open>The catalogue\<close>

record employee =
  em_id :: string
  em_name :: string
  em_title :: string
  em_department :: string
  em_manager :: "string option"
  em_first :: string
  em_last :: string

text \<open>An error of the schema: the path to it, and for the validator \<open>required\<close> the names it requires.\<close>

record schema_failure =
  sf_required :: "string list option"
  sf_path :: "string list"

record profile_env =
  pe_error :: "val \<Rightarrow> schema_failure option"
  pe_uuid5 :: "string \<Rightarrow> string"
  pe_sha256 :: "string \<Rightarrow> string"
  pe_roster :: "employee list"

definition approved_roster :: "employee list \<Rightarrow> employee dict" where
  "approved_roster roster = fold (\<lambda>e. dset (em_id e) e) roster []"

definition at_profile :: "nat \<Rightarrow> string \<Rightarrow> exc" where
  "at_profile index message = profile_error (''profiles['' @ nat_str index @ '']'' @ message)"

definition schema_message :: "nat \<Rightarrow> val \<Rightarrow> schema_failure \<Rightarrow> exc" where
  "schema_message index profile f = (case (sf_required f, profile) of
     (Some names, VDict d) \<Rightarrow>
       at_profile index ('': missing required fields: '' @ join '', '' (filter (\<lambda>n. \<not> has_key d n) names))
   | _ \<Rightarrow> at_profile index (''.'' @ (let location = join ''.'' (sf_path f) in
       if location = [] then ''required fields'' else location) @ '': invalid v1 profile''))"

definition em_manager_val :: "employee \<Rightarrow> val" where
  "em_manager_val e = opt_val (em_manager e)"

definition expect_fields :: "row \<Rightarrow> nat \<Rightarrow> string \<Rightarrow> (string \<times> val) list \<Rightarrow> exc + unit" where
  "expect_fields profile index message expected = bindR (mapR (\<lambda>(k, v).
     bindR (ditem profile k) (\<lambda>x. requireR (val_eq x v) (at_profile index (''.'' @ k @ message)))) expected)
     (\<lambda>_. Inr ())"

definition address_patterns :: "string \<Rightarrow> string \<Rightarrow> exc + string dict" where
  "address_patterns first surname = (case first of [] \<Rightarrow> Inl (OtherError ''IndexError'' ''string index out of range'')
   | f # _ \<Rightarrow> Inr [(''first.last'', first @ ''.'' @ surname), (''f.last'', f # ''.'' @ surname),
       (''firstlast'', first @ surname), (''first'', first)])"

definition as_key :: "val \<Rightarrow> exc + string" where
  "as_key v = (case v of VStr s \<Rightarrow> Inr s | _ \<Rightarrow> bindR (hashed v v) (\<lambda>_. Inl (KeyError (py_str v))))"

definition check_candidate :: "string dict \<Rightarrow> nat \<Rightarrow> int \<times> val \<Rightarrow> exc + unit" where
  "check_candidate patterns index rc = (case rc of (rank, candidate) \<Rightarrow>
     bindR (item_of candidate ''rank'') (\<lambda>r.
     bindR (if \<not> val_eq r (VInt rank) then Inr False
        else bindR (item_of candidate ''address'') (\<lambda>address. bindR (item_of candidate ''pattern'') (\<lambda>p.
          bindR (as_key p) (\<lambda>k. bindR (ditem patterns k) (\<lambda>local.
            Inr (val_eq address (VStr (local @ ''@simcorp.test''))))))))
       (\<lambda>good. requireR good (at_profile index ''.email_candidates: invalid mapping or rank''))))"

definition list_of :: "val \<Rightarrow> exc + val list" where
  "list_of v = (case v of VList xs \<Rightarrow> Inr xs | VTuple xs \<Rightarrow> Inr xs | VDict d \<Rightarrow> Inr (map (VStr \<circ> fst) d)
     | VStr s \<Rightarrow> Inr (map (\<lambda>c. VStr [c]) s)
     | _ \<Rightarrow> Inl (TypeError (quoted (type_name v) @ '' object is not iterable'')))"

fun equal_pair :: "val list \<Rightarrow> bool" where
  "equal_pair [] = False"
| "equal_pair (x # xs) = (list_ex (val_eq x) xs \<or> equal_pair xs)"

definition check_emails :: "string dict \<Rightarrow> row \<Rightarrow> nat \<Rightarrow> exc + unit" where
  "check_emails patterns profile index =
    bindR (list_of (case map_of profile ''email_candidates'' of None \<Rightarrow> VList [] | Some v \<Rightarrow> v)) (\<lambda>emails.
    bindR (mapR (\<lambda>c. item_of c ''address'') emails) (\<lambda>addresses.
    bindR (mapR (\<lambda>a. hashed a a) addresses) (\<lambda>_.
    bindR (requireR (\<not> equal_pair addresses) (at_profile index ''.email_candidates: duplicate contacts'')) (\<lambda>_.
    bindR (mapR (check_candidate patterns index) (zip (map int [1..<Suc (length emails)]) emails)) (\<lambda>_. Inr ())))))"

text \<open>\<open>_validate_reviewed\<close>.\<close>

definition validate_reviewed :: "profile_env \<Rightarrow> string \<Rightarrow> row \<Rightarrow> employee \<Rightarrow> nat \<Rightarrow> exc + unit" where
  "validate_reviewed pe seed profile e index =
    bindR (expect_fields profile index '': differs from reviewed roster''
      [(''name'', VStr (em_name e)), (''title'', VStr (em_title e)), (''department'', VStr (em_department e)),
       (''manager'', em_manager_val e)]) (\<lambda>_.
    (let first = lower (em_first e); surname = lower (em_last e) in
    bindR (expect_fields profile index '': differs from reviewed mapping''
      [(''id'', VStr (profile_id (pe_uuid5 pe) seed (em_id e))), (''username'', VStr (first @ ''@simcorp.test'')),
       (''role_group'', VStr (normalise_role_group (em_title e)))]) (\<lambda>_.
    bindR (bindR (ditem profile ''confidence'') (\<lambda>v. item_of v ''manager'')) (\<lambda>confidence.
    bindR (requireR (val_eq confidence (VStr (if opt_text (em_manager e) = None then ''unknown'' else ''explicit'')))
      (at_profile index ''.confidence.manager: inaccurate confidence'')) (\<lambda>_.
    bindR (address_patterns first surname) (\<lambda>patterns. check_emails patterns profile index))))))"

definition set_default :: "string \<Rightarrow> val \<Rightarrow> row \<Rightarrow> row" where
  "set_default k v d = (if has_key d k then d else d @ [(k, v)])"

definition add_profile :: "profile_env \<Rightarrow> string \<Rightarrow> nat \<times> val \<Rightarrow> table \<Rightarrow> exc + table" where
  "add_profile pe seed ip profiles = (case ip of (index, profile) \<Rightarrow>
     case pe_error pe profile of
       Some f \<Rightarrow> Inl (schema_message index profile f)
     | None \<Rightarrow>
       bindR (item_of profile ''employee_id'') (\<lambda>i. bindR (hashed i i) (\<lambda>_.
       case i of VStr employee_id \<Rightarrow>
         bindR (requireR (\<not> has_key profiles employee_id)
           (at_profile index ''.employee_id: duplicate identity'')) (\<lambda>_.
         bindR (case map_of (approved_roster (pe_roster pe)) employee_id of
             None \<Rightarrow> Inl (at_profile index ''.employee_id: not in reviewed roster'') | Some e \<Rightarrow> Inr e) (\<lambda>e.
         case profile of VDict record \<Rightarrow>
           bindR (validate_reviewed pe seed record e index) (\<lambda>_.
             Inr (dset employee_id (set_default ''phone_numbers'' (VList [])
               (set_default ''email_candidates'' (VList []) record)) profiles))
         | _ \<Rightarrow> Inl (TypeError [])))
       | _ \<Rightarrow> Inl (at_profile index ''.employee_id: not in reviewed roster''))))"

fun add_profiles :: "profile_env \<Rightarrow> string \<Rightarrow> (nat \<times> val) list \<Rightarrow> table \<Rightarrow> exc + table" where
  "add_profiles pe seed [] profiles = Inr profiles"
| "add_profiles pe seed (p # ps) profiles = bindR (add_profile pe seed p profiles) (add_profiles pe seed ps)"

record catalog =
  ca_seed :: string
  ca_profiles :: table
  ca_identity :: row
  ca_helpdesk :: row
  ca_manager :: row
  ca_fingerprint :: string

definition binding :: "table \<Rightarrow> val \<Rightarrow> string \<Rightarrow> exc + row" where
  "binding profiles employee_id label = (let missing = Inl (profile_error (label @ '' profile binding is missing'')) in
     case employee_id of VStr i \<Rightarrow> (case map_of profiles i of Some p \<Rightarrow> Inr p | None \<Rightarrow> missing) | _ \<Rightarrow> missing)"

text \<open>\<open>_context\<close>; a list counts as present when it is not empty.\<close>

definition confidence_of :: "val \<Rightarrow> string \<Rightarrow> val" where
  "confidence_of v present = VStr (if truthy v then present else ''unknown'')"

definition before_at :: "val \<Rightarrow> exc + string" where
  "before_at v = (case v of VStr s \<Rightarrow> Inr (takeWhile (\<lambda>c. c \<noteq> CHR 0x40) s)
     | _ \<Rightarrow> Inl (OtherError ''AttributeError'' ''split''))"

definition as_row :: "val \<Rightarrow> exc + row" where
  "as_row v = (case v of VDict d \<Rightarrow> Inr d | _ \<Rightarrow> Inl (TypeError (quoted (type_name v) @ '' object is not a mapping'')))"

definition profile_context :: "row \<Rightarrow> exc + row" where
  "profile_context p =
    bindR (ditem p ''username'') (\<lambda>username. bindR (before_at username) (\<lambda>identity_id.
    bindR (mapR (\<lambda>(k, f). map_result (Pair k) (ditem p f))
      [(''employee_id'', ''employee_id''), (''profile_id'', ''id''), (''display_name'', ''name''),
       (''username'', ''username''), (''title'', ''title''), (''role_group'', ''role_group''),
       (''department'', ''department''), (''manager'', ''manager''),
       (''email_candidates'', ''email_candidates''), (''phone_numbers'', ''phone_numbers'')]) (\<lambda>fs.
    bindR (bindR (ditem p ''confidence'') as_row) (\<lambda>confidence.
    bindR (ditem p ''email_candidates'') (\<lambda>emails. bindR (ditem p ''phone_numbers'') (\<lambda>phones.
      Inr ((''identity_id'', VStr identity_id) # fs
        @ [(''field_confidence'', VDict (dset ''phone_numbers'' (confidence_of phones ''configured'')
             (dset ''email_candidates'' (confidence_of emails ''inferred'') confidence)))])))))))"

definition directory_of :: "table \<Rightarrow> exc + row list" where
  "directory_of profiles = mapR (profile_context \<circ> snd) (sort_key fst profiles)"

text \<open>\<open>__init__\<close>.\<close>

definition bundle_size_error :: exc where
  "bundle_size_error = profile_error (''profile bundle requires 1'' @ [CHR 0xE2, CHR 0x80, CHR 0x93] @ ''100 profiles'')"

definition bundle_profiles :: "string \<Rightarrow> val \<Rightarrow> exc + val list" where
  "bundle_profiles seed payload =
    bindR (case payload of
        VDict d \<Rightarrow> if keys_are d [''schema_version'', ''seed'', ''profiles'']
            \<and> (case map_of d ''schema_version'' of None \<Rightarrow> False | Some v \<Rightarrow> val_eq v (VStr ''1.0.0''))
            \<and> (case map_of d ''seed'' of None \<Rightarrow> False | Some v \<Rightarrow> val_eq v (VStr seed))
          then Inr d else Inl (profile_error ''profile bundle version, seed, or fields are invalid'')
      | _ \<Rightarrow> Inl (profile_error ''profile bundle version, seed, or fields are invalid'')) (\<lambda>d.
    bindR (ditem d ''profiles'') (\<lambda>v. case v of
       VList profiles \<Rightarrow> if 1 \<le> length profiles \<and> length profiles \<le> 100 then Inr profiles
         else Inl bundle_size_error
     | _ \<Rightarrow> Inl bundle_size_error))"

definition profile_catalog :: "profile_env \<Rightarrow> val \<Rightarrow> val \<Rightarrow> val \<Rightarrow> val \<Rightarrow> exc + catalog" where
  "profile_catalog pe payload expected_seed identity_id helpdesk_id =
    bindR (validate_seed expected_seed) (\<lambda>seed.
    bindR (bundle_profiles seed payload) (\<lambda>given.
    bindR (add_profiles pe seed (enumerate 0 given) []) (\<lambda>profiles.
    bindR (binding profiles identity_id ''identity'') (\<lambda>identity.
    bindR (binding profiles helpdesk_id ''helpdesk'') (\<lambda>helpdesk.
    bindR (ditem helpdesk ''role_group'') (\<lambda>role.
    bindR (requireR (val_eq role (VStr ''Helpdesk''))
      (profile_error ''helpdesk profile binding must have a reviewed Helpdesk role'')) (\<lambda>_.
    bindR (ditem identity ''employee_id'') (\<lambda>i. bindR (ditem helpdesk ''employee_id'') (\<lambda>h.
    bindR (requireR (\<not> val_eq i h)
      (profile_error ''identity and helpdesk bindings must be different'')) (\<lambda>_.
    bindR (ditem identity ''manager'') (\<lambda>manager.
    bindR (mapR (\<lambda>p. map_result (Pair p) (ditem p ''name'')) (map snd profiles)) (\<lambda>names.
    bindR (case filter (\<lambda>(p, n). val_eq n manager) names of [(p, n)] \<Rightarrow> Inr p
      | _ \<Rightarrow> Inl (profile_error ''identity manager must resolve to one reviewed profile'')) (\<lambda>boss.
    bindR (directory_of profiles) (\<lambda>directory.
      Inr \<lparr>ca_seed = seed, ca_profiles = profiles, ca_identity = identity, ca_helpdesk = helpdesk,
           ca_manager = boss,
           ca_fingerprint = pe_sha256 pe (json_dumps (VDict
             [(''seed'', VStr seed), (''profiles'', VList (map VDict directory))]))\<rparr>))))))))))))))"

definition load_catalog :: "profile_env \<Rightarrow> (string \<Rightarrow> (exc + val) option) \<Rightarrow> string option \<Rightarrow> val \<Rightarrow> val \<Rightarrow> val
    \<Rightarrow> exc + catalog" where
  "load_catalog pe loads file expected_seed identity_id helpdesk_id =
     bindR (read_json loads file) (\<lambda>payload. profile_catalog pe payload expected_seed identity_id helpdesk_id)"

text \<open>\<open>directory\<close>, \<open>context\<close>, \<open>summary\<close>.\<close>

definition catalog_directory :: "catalog \<Rightarrow> exc + row list" where
  "catalog_directory c = directory_of (ca_profiles c)"

definition catalog_context :: "catalog \<Rightarrow> exc + row" where
  "catalog_context c =
    bindR (profile_context (ca_identity c)) (\<lambda>identity. bindR (profile_context (ca_helpdesk c)) (\<lambda>helpdesk.
    bindR (profile_context (ca_manager c)) (\<lambda>manager.
      Inr [(''identity'', VDict identity), (''helpdesk'', VDict helpdesk), (''manager'', VDict manager)])))"

definition catalog_summary :: "catalog \<Rightarrow> exc + row" where
  "catalog_summary c = bindR (catalog_context c) (\<lambda>bindings.
     Inr [(''schema_version'', VStr ''1.0.0''), (''profile_count'', VInt (int (length (ca_profiles c)))),
       (''catalog_sha256'', VStr (ca_fingerprint c)), (''bindings'', VDict bindings)])"

end
