(* ===== verification/SliceRun.thy ===== *)
theory SliceRun
  imports ImpactStage Profiles
begin

text \<open>
  \<^verbatim>\<open>orchestrator/identity_slice.py\<close>: \<open>IdentitySliceRun\<close>, one correlated graph of controller, module states,
  adapters, challenges and stages, and the operations a server calls on it.
\<close>

section \<open>Construction\<close>

definition IDENTITY_ACTIONS :: "string list" where
  "IDENTITY_ACTIONS = [''identity.session.revoke'', ''identity.factor.remove'', ''identity.account.disable'',
     ''identity.credential.reset'']"

definition ENDPOINT_ACTIONS :: "string list" where
  "ENDPOINT_ACTIONS = [''endpoint.host.isolate'', ''evidence.artifact.preserve'', ''ad.account.disable'',
     ''ad.persistence.remove'', ''endpoint.process.stop'']"

text \<open>\<open>load_reviewed_profiles\<close>; \<open>catalog\<close> is \<open>ProfileCatalog.load\<close> with the configured options.\<close>

definition mapping_get :: "val option \<Rightarrow> string \<Rightarrow> val" where
  "mapping_get v k = (case v of Some (VDict d) \<Rightarrow> (case map_of d k of None \<Rightarrow> VNone | Some x \<Rightarrow> x) | _ \<Rightarrow> VNone)"

definition is_mapping :: "val option \<Rightarrow> bool" where
  "is_mapping v = (case v of Some (VDict d) \<Rightarrow> True | _ \<Rightarrow> False)"

definition load_reviewed_profiles :: "profile_env \<Rightarrow> (string \<Rightarrow> (exc + val) option) \<Rightarrow> string option
    \<Rightarrow> scenario_definition \<Rightarrow> exc + catalog" where
  "load_reviewed_profiles pe loads file sd =
    (let experience = sd_experience sd; configuration = map_of experience ''profiles'' in
    bindR (requireR (case configuration of
          Some (VDict d) \<Rightarrow> keys_are d [''seed'', ''identity_employee_id'', ''helpdesk_employee_id''] | _ \<Rightarrow> False)
      (profile_error ''scenario requires reviewed profile initialization fields'')) (\<lambda>_.
    bindR (load_catalog pe loads file (mapping_get configuration ''seed'')
      (mapping_get configuration ''identity_employee_id'') (mapping_get configuration ''helpdesk_employee_id'')) (\<lambda>profiles.
    bindR (catalog_context profiles) (\<lambda>context.
    bindR (bindR (ditem context ''identity'') as_row) (\<lambda>identity.
    bindR (bindR (ditem context ''helpdesk'') (\<lambda>h. item_of h ''identity_id'')) (\<lambda>witness.
    bindR (requireR (val_eq witness (VStr ''tyler''))
      (profile_error ''helpdesk profile binding must match the reviewed scenario witness'')) (\<lambda>_.
    (let sso = map_of experience ''sso''; mfa = map_of experience ''mfa'' in
    bindR (requireR (is_mapping sso \<and> is_mapping mfa)
      (profile_error ''profile initialization requires SSO/MFA configuration'')) (\<lambda>_.
    (let sso_identity = Some (mapping_get sso ''identity'') in
    bindR (requireR (is_mapping sso_identity)
      (profile_error ''profile initialization requires an SSO identity mapping'')) (\<lambda>_.
    bindR (mapR (ditem identity) [''identity_id'', ''username'', ''display_name'']) (\<lambda>fs.
    bindR (requireR (val_eq (hd fs) (VStr ''sarah'') \<and> val_eq (mapping_get mfa ''identity_id'') (hd fs)
        \<and> list_all2 (\<lambda>k v. val_eq (mapping_get sso_identity k) v) [''id'', ''username'', ''display_name''] fs)
      (profile_error ''profile binding must match the reviewed SSO/MFA identity'')) (\<lambda>_. Inr profiles)))))))))))))"

text \<open>What a run is built with, beside the scenario.\<close>

record run_env =
  rn_env :: env
  rn_uuid5 :: "string \<Rightarrow> string"
  rn_fault :: "string \<Rightarrow> exc option"

definition rn_sha :: "run_env \<Rightarrow> string \<Rightarrow> string" where
  "rn_sha rn = e_sha256 (rn_env rn)"

definition has_item :: "string \<Rightarrow> scenario_definition \<Rightarrow> bool" where
  "has_item i sd \<longleftrightarrow> list_ex (\<lambda>item. it_id item = i) (sd_items sd)"

definition approval_threshold :: int where "approval_threshold = 4"

definition new_identity_adapter :: "string \<Rightarrow> string \<Rightarrow> exc + scene adapter" where
  "new_identity_adapter exercise_id run_id = scene_adapter exercise_id run_id ''identity-action-adapter''
     scene_run_state (map (lift_action on_identity on_identity) (identity_definitions approval_threshold run_id))"

definition new_endpoint_adapter :: "string \<Rightarrow> string \<Rightarrow> exc + scene adapter" where
  "new_endpoint_adapter exercise_id run_id = scene_adapter exercise_id run_id ''endpoint-ad-action-adapter''
     scene_run_state (map (lift_action on_endpoint on_endpoint) (endpoint_definitions run_id))"

text \<open>\<open>_initialize\<close> without the controller: the parts of the run under a new identifier.\<close>

definition new_parts :: "run_env \<Rightarrow> scenario_definition \<Rightarrow> catalog \<Rightarrow> string \<Rightarrow> impact_root option \<Rightarrow> fixture option
    \<Rightarrow> exc + run_rest" where
  "new_parts rn sd profiles run_id root given =
    (let exercise_id = sd_exercise_id sd in
    bindR (catalog_context profiles) (\<lambda>context.
    bindR (bindR (ditem context ''identity'') as_row) (\<lambda>identity.
    bindR (new_identity_adapter exercise_id run_id) (\<lambda>identity_adapter.
    bindR (new_endpoint_adapter exercise_id run_id) (\<lambda>endpoint_adapter.
    bindR (catalog_summary profiles) (\<lambda>summary.
    bindR (new_automation exercise_id run_id) (\<lambda>automation.
    bindR (ditem (sd_experience sd) ''mfa'') (\<lambda>configuration.
    bindR (new_mfa exercise_id run_id configuration (is_content (identity_baseline identity))) (\<lambda>mfa.
    bindR (new_cloud_adapter (rn_sha rn) exercise_id run_id) (\<lambda>cloud_adapter.
    bindR (new_cloud_automation (rn_sha rn) exercise_id run_id) (\<lambda>cloud_automation.
    bindR (if has_item ''DP4'' sd
      then bindR (new_impact_stage exercise_id run_id root given) (\<lambda>stage.
        bindR (new_impact_adapter (rn_fault rn) (rn_sha rn) exercise_id run_id ''marker-impact-action-adapter'' False) (\<lambda>a.
        bindR (new_impact_automation (rn_sha rn) exercise_id run_id) (\<lambda>b. Inr (Some stage, Some a, Some b))))
      else Inr (None, None, None)) (\<lambda>(impact, impact_adapter, impact_automation).
      Inr \<lparr>rr_play = \<lparr>pl_identity = identity_baseline identity, pl_endpoint = endpoint_baseline,
             pl_simulation = new_simulation, pl_mfa = mfa,
             pl_cloud = new_cloud_stage (rn_sha rn) exercise_id run_id, pl_impact = impact\<rparr>,
           rr_adapters = \<lparr>ra_identity = identity_adapter, ra_endpoint = endpoint_adapter,
             ra_automation = automation, ra_cloud = cloud_adapter, ra_cloud_automation = cloud_automation,
             ra_impact = impact_adapter, ra_impact_automation = impact_automation\<rparr>,
           rr_bridge = new_bridge exercise_id run_id summary,
           rr_cloud_enabled = has_item ''ACT-05'' sd\<rparr>))))))))))))"

text \<open>\<open>__init__\<close>, for the loaded scenario and profiles.\<close>

definition new_run :: "run_env \<Rightarrow> scenario_definition \<Rightarrow> catalog \<Rightarrow> string \<Rightarrow> impact_root option \<Rightarrow> world
    \<Rightarrow> exc + play_run" where
  "new_run rn sd profiles run_id root w = bindR (new_parts rn sd profiles run_id root None) (\<lambda>parts.
     Inr \<lparr>cy_world = w, cy_ctl = new_controller sd run_id ''1.0.0'' True, cy_rest = parts\<rparr>)"

section \<open>What the controller calls\<close>

definition on_mfa :: "(msys, 'a) prog \<Rightarrow> (play_run, 'a) prog" where
  "on_mfa m = zoomE (\<lambda>s. let p = rr_play (cy_rest s) in
      \<lparr>my_world = cy_world s, my_identity = pl_identity p, my_run_state = state_value (ctl_state (cy_ctl s)),
       my_elapsed = ctl_elapsed (cy_ctl s), my_mfa = pl_mfa p\<rparr>)
    (\<lambda>y s. s\<lparr>cy_world := my_world y, cy_rest := (cy_rest s)
       \<lparr>rr_play := (rr_play (cy_rest s))\<lparr>pl_identity := my_identity y, pl_mfa := my_mfa y\<rparr>\<rparr>\<rparr>) m"

definition mfa_handlers :: "run_env \<Rightarrow> run_rest automation_handler dict" where
  "mfa_handlers rn = [(''identity.mfa.challenge.deliver'', \<lambda>item run_id.
     bindE (on_mfa (mfa_deliver (rn_env rn) (rn_uuid5 rn) item run_id)) (\<lambda>r. ret (Some r)))]"

definition run_handlers :: "run_env \<Rightarrow> scenario_definition \<Rightarrow> run_rest automation_handler dict" where
  "run_handlers rn sd = dmerge (dmerge (dmerge (slice_handlers (rn_env rn)) (mfa_handlers rn))
     (if has_item ''ACT-05'' sd then cloud_handlers (rn_env rn) else []))
     (if has_item ''DP4'' sd then impact_handlers (rn_env rn) (rn_sha rn) else [])"

definition run_deps :: "run_env \<Rightarrow> scenario_definition \<Rightarrow> run_rest deps" where
  "run_deps rn sd = \<lparr>dp_env = rn_env rn, dp_handlers = run_handlers rn sd,
     dp_observers = [\<lambda>_. on_mfa (mfa_advance (rn_env rn))]\<rparr>"

definition with_deps :: "run_env \<Rightarrow> (run_rest deps \<Rightarrow> (play_run, 'a) prog) \<Rightarrow> (play_run, 'a) prog" where
  "with_deps rn f = bindE (get_ctl ctl_definition) (\<lambda>sd. f (run_deps rn sd))"

section \<open>Participants' actions\<close>

definition on_identity_adapter :: "(scene astate, 'a) prog \<Rightarrow> (play_run, 'a) prog" where
  "on_identity_adapter m = with_adapter ra_identity (\<lambda>ad r. r\<lparr>ra_identity := ad\<rparr>) m"

definition on_endpoint_adapter :: "(scene astate, 'a) prog \<Rightarrow> (play_run, 'a) prog" where
  "on_endpoint_adapter m = with_adapter ra_endpoint (\<lambda>ad r. r\<lparr>ra_endpoint := ad\<rparr>) m"

definition on_cloud_adapter :: "(scene astate, 'a) prog \<Rightarrow> (play_run, 'a) prog" where
  "on_cloud_adapter m = with_adapter ra_cloud (\<lambda>ad r. r\<lparr>ra_cloud := ad\<rparr>) m"

definition route :: "string \<Rightarrow> bool \<Rightarrow> exc + ((scene astate, action_result) prog \<Rightarrow> (play_run, action_result) prog)" where
  "route action_id cloud_enabled =
    (if action_id \<in> set IDENTITY_ACTIONS then Inr on_identity_adapter
     else if action_id \<in> set ENDPOINT_ACTIONS then Inr on_endpoint_adapter
     else if action_id \<in> set CLOUD_ACTIONS \<and> cloud_enabled then Inr on_cloud_adapter
     else Inl (ActionContractError ''action is not available in the identity slice''))"

text \<open>\<open>submit_action\<close>.\<close>

definition submit_action :: "run_env \<Rightarrow> entity \<Rightarrow> string \<Rightarrow> entity \<Rightarrow> string \<Rightarrow> row \<Rightarrow> bool
    \<Rightarrow> (play_run, action_result) prog" where
  "submit_action rn actor action_id target key parameters dry_run =
    bindE (getE (\<lambda>s. route action_id (rr_cloud_enabled (cy_rest s)))) (\<lambda>r. bindE (liftE r) (\<lambda>on_adapter.
    bindE (getE exercise_of) (\<lambda>exercise_id. bindE (get_ctl ctl_run_id) (\<lambda>run_id.
    bindE (run_world (make_action_request (rn_env rn) exercise_id run_id actor action_id target key parameters
        dry_run (if action_id \<in> set IDENTITY_ACTIONS then 15 else 20) None)) (\<lambda>request.
    bindE (on_adapter (execute (rn_env rn) request)) (\<lambda>result.
    thenE (on_mfa (mfa_advance (rn_env rn))) (ret result)))))))"

section \<open>Checkpoints\<close>

definition resolve_with :: "run_env \<Rightarrow> string \<Rightarrow> checkpoint_evaluation \<Rightarrow> (play_run, checkpoint_evaluation) prog" where
  "resolve_with rn checkpoint_id result =
    thenE (with_deps rn (\<lambda>dp. resolve_checkpoint dp checkpoint_id (ce_passed result) (ce_evidence_ids result)
        (ce_reason result) (Some (checks_val (ce_checks result)))))
      (ret result)"

definition submit_dp1 :: "run_env \<Rightarrow> triage_submission \<Rightarrow> (play_run, checkpoint_evaluation) prog" where
  "submit_dp1 rn submission = bindE (liftE (evaluate_identity_triage submission ''sarah''
     ACCEPTED_CLASSIFICATIONS 3 2)) (resolve_with rn ''DP1'')"

definition evaluate_dp2 :: "(play_run, checkpoint_evaluation) prog" where
  "evaluate_dp2 = bindE (getE (\<lambda>s. scene_containment (rr_play (cy_rest s)))) liftE"

definition resolve_dp2 :: "run_env \<Rightarrow> (play_run, checkpoint_evaluation) prog" where
  "resolve_dp2 rn = bindE evaluate_dp2 (resolve_with rn ''DP2'')"

section \<open>Stop and reset\<close>

text \<open>\<open>try: m except Exception as exc: errors.append(exc)\<close>.\<close>

definition collect :: "(play_run, 'a) prog \<Rightarrow> exc list \<Rightarrow> (play_run, exc list) prog" where
  "collect m errors = bindE (attemptE m) (\<lambda>r. ret (case r of Inl e \<Rightarrow> errors @ [e] | Inr _ \<Rightarrow> errors))"

text \<open>One attempt after the other; each adds its error.\<close>

fun collect_all :: "(play_run, unit) prog list \<Rightarrow> exc list \<Rightarrow> (play_run, exc list) prog" where
  "collect_all [] errors = ret errors"
| "collect_all (m # ms) errors = bindE (collect m errors) (collect_all ms)"

definition latches :: "run_env \<Rightarrow> string \<Rightarrow> entity \<Rightarrow> string \<Rightarrow> bool \<Rightarrow> (play_run, unit) prog list" where
  "latches rn run_id operator reason has_impact =
    (let stop = activate_fail_safe (rn_env rn) run_id operator reason in
     [thenE (on_automation stop) (ret ()), thenE (on_identity_adapter stop) (ret ()),
      thenE (on_endpoint_adapter stop) (ret ()), thenE (on_cloud_adapter stop) (ret ()),
      thenE (on_cloud_automation stop) (ret ())]
     @ (if has_impact then [thenE (on_impact_adapter stop) (ret ()), thenE (on_impact_automation stop) (ret ())] else []))"

definition stop_operator :: entity where
  "stop_operator = entity ''facilitator'' ''facilitator'' None (Some ''facilitator'')"

text \<open>\<open>fail_safe_stop\<close>.\<close>

definition stop_play :: "run_env \<Rightarrow> string \<Rightarrow> entity option \<Rightarrow> (play_run, unit) prog" where
  "stop_play rn reason operator =
    thenE (requireE (strip reason \<noteq> []) (ControllerError ''stop reason cannot be empty''))
   (thenE (requireE (case operator of None \<Rightarrow> True | Some e \<Rightarrow> role_in e CONTROL_ROLES)
      (ControllerError ''stop requires an exercise-control role''))
   (bindE (get_ctl ctl_state) (\<lambda>st.
    thenE (requireE (st \<noteq> Completed) (ControllerError ''completed run cannot be stopped''))
   (bindE (collect_all ((if st \<noteq> Stopped then [with_deps rn (\<lambda>dp. fail_safe_stop dp reason)] else [])
        @ [on_mfa (mfa_stop (rn_env rn))]) []) (\<lambda>early.
    bindE (get_ctl ctl_run_id) (\<lambda>run_id. bindE (getE (\<lambda>s. pl_impact (rr_play (cy_rest s)) \<noteq> None)) (\<lambda>has_impact.
    bindE (collect_all (latches rn run_id (case operator of None \<Rightarrow> stop_operator | Some e \<Rightarrow> e) reason has_impact) early)
      (\<lambda>errors.
      requireE (errors = []) (ControllerError ''run stopped; safety cleanup or audit incomplete'')))))))))"

text \<open>
  \<open>reset\<close>. The impact stage is made again in the root the old one had, with the new fixture; \<open>ns\<close> is the
  monotonic time of its restore request.
\<close>

definition impact_for_reset :: "run_env \<Rightarrow> int \<Rightarrow> string option
    \<Rightarrow> (play_run, string option \<times> impact_root option \<times> fixture option) prog" where
  "impact_for_reset rn ns new_run_id =
    bindE (getE (\<lambda>s. pl_impact (rr_play (cy_rest s)))) (\<lambda>impact.
      if impact = None then ret (new_run_id, None, None)
      else bindE (case opt_text new_run_id of Some r \<Rightarrow> ret r | None \<Rightarrow> run_world (new_uuid (rn_env rn))) (\<lambda>run_id.
        thenE (validate_next_run run_id)
       (thenE (restore_for_reset (rn_env rn) (rn_fault rn) (rn_sha rn) ns)
       (bindE (provision_next_run run_id) (\<lambda>fx.
        bindE (get_impact ig_root) (\<lambda>root. ret (Some run_id, Some root, Some fx)))))))"

definition reset_play :: "run_env \<Rightarrow> catalog \<Rightarrow> int \<Rightarrow> string option \<Rightarrow> (play_run, unit) prog" where
  "reset_play rn profiles ns new_run_id =
    bindE (get_ctl ctl_state) (\<lambda>st.
    thenE (requireE (st \<in> set [Stopped, Completed])
      (ActionContractError ''run must be stopped or completed before reset''))
   (bindE (get_ctl ctl_run_id) (\<lambda>old.
    thenE (requireE (new_run_id \<noteq> Some old) (ActionContractError ''reset requires a new run id''))
   (bindE (impact_for_reset rn ns new_run_id) (\<lambda>(next_id, root, given).
    thenE (run_world (sequencer_reset 0))
   (thenE (with_deps rn (\<lambda>dp. reset_controller dp next_id))
   (bindE (get_ctl id) (\<lambda>c.
    bindE (liftE (new_parts rn (ctl_definition c) profiles (ctl_run_id c) root given)) (\<lambda>parts.
      updE (\<lambda>s. s\<lparr>cy_rest := parts\<rparr>))))))))))"

end
