(* ===== verification/SliceSafety.thy ===== *)
theory SliceSafety
  imports SliceRun ControllerSafety IdentityController
begin

text \<open>
  The fail-safe stop of a run: it latches the controller, the challenges and every adapter, whatever the
  sink does, and nothing a participant or the controller does afterwards changes the state of the play.
\<close>

section \<open>Attempts one after the other\<close>

lemma collect_run: "collect m errors s = (Inr (case fst (m s) of Inl e \<Rightarrow> errors @ [e] | Inr _ \<Rightarrow> errors), snd (m s))"
  by (cases "m s") (simp add: collect_def attemptE_def prog_simps)

lemma collect_all_run: "collect_all (m # ms) errors s =
    collect_all ms (case fst (m s) of Inl e \<Rightarrow> errors @ [e] | Inr _ \<Rightarrow> errors) (snd (m s))"
  by (simp add: bindE_run collect_run)

lemma collect_all_returns: "\<exists>errors'. fst (collect_all ms errors s) = Inr errors'"
  by (induction ms arbitrary: errors s) (simp_all add: collect_all_run del: collect_all.simps(2))

lemma collect_all_keeps:
  assumes "\<And>m s. m \<in> set ms \<Longrightarrow> P s \<Longrightarrow> P (snd (m s))" and "P s"
  shows "P (snd (collect_all ms errors s))"
  using assms
proof (induction ms arbitrary: errors s)
  case (Cons m ms)
  then show ?case by (simp add: collect_all_run del: collect_all.simps(2))
qed simp

text \<open>What one attempt establishes and the others keep holds at the end.\<close>

lemma collect_all_establishes:
  assumes "\<And>m s. m \<in> set ms \<Longrightarrow> P s \<Longrightarrow> P (snd (m s))"
    and "\<And>m s. m \<in> set ms \<Longrightarrow> P s \<Longrightarrow> Q s \<Longrightarrow> Q (snd (m s))"
    and "m \<in> set ms" and "\<And>s. P s \<Longrightarrow> Q (snd (m s))" and "P s"
  shows "Q (snd (collect_all ms errors s))"
  using assms
proof (induction ms arbitrary: errors s)
  case (Cons n ms)
  have p: "P (snd (n s))" using Cons.prems(1,5) by simp
  show ?case
  proof (cases "n = m")
    case True
    have "Q (snd (n s))" using Cons.prems(4,5) True by simp
    then have "P (snd (collect_all ms e (snd (n s)))) \<and> Q (snd (collect_all ms e (snd (n s))))" for e
      using p Cons.prems(1,2) by (intro collect_all_keeps [where P = "\<lambda>s. P s \<and> Q s"]) auto
    then show ?thesis by (simp add: collect_all_run del: collect_all.simps(2))
  next
    case False
    then have "Q (snd (collect_all ms e (snd (n s))))" for e
      using Cons.prems p by (intro Cons.IH) auto
    then show ?thesis by (simp add: collect_all_run del: collect_all.simps(2))
  qed
qed simp

section \<open>The latches\<close>

definition adapters_of :: "adapters \<Rightarrow> scene adapter list" where
  "adapters_of r = [ra_identity r, ra_endpoint r, ra_automation r, ra_cloud r, ra_cloud_automation r]
     @ (case ra_impact r of None \<Rightarrow> [] | Some a \<Rightarrow> [a]) @ (case ra_impact_automation r of None \<Rightarrow> [] | Some a \<Rightarrow> [a])"

definition run_adapters :: "play_run \<Rightarrow> adapters" where
  "run_adapters s = rr_adapters (cy_rest s)"

definition run_play :: "play_run \<Rightarrow> play" where
  "run_play s = rr_play (cy_rest s)"

text \<open>A run has the adapters of the impact stage when it has the stage, and the stage is of the run.\<close>

definition coherent :: "play_run \<Rightarrow> bool" where
  "coherent s \<longleftrightarrow> (ra_impact (run_adapters s) = None) = (pl_impact (run_play s) = None)
     \<and> (ra_impact_automation (run_adapters s) = None) = (pl_impact (run_play s) = None)
     \<and> (\<forall>g. pl_impact (run_play s) = Some g \<longrightarrow> ig_run_id g = ctl_run_id (cy_ctl s))"

definition latched :: "string \<Rightarrow> play_run \<Rightarrow> bool" where
  "latched run_id s \<longleftrightarrow> ctl_state (cy_ctl s) = Stopped \<and> mf_pending (pl_mfa (run_play s)) = None
     \<and> (\<forall>ad\<in>set (adapters_of (run_adapters s)). run_id \<in> set (ad_stopped_runs ad))"

lemma with_adapter_run: "with_adapter get put m s = (case m (astate_of (get (run_adapters s)) s) of
    (r, a) \<Rightarrow> (r, put_astate put a s))"
  by (simp add: with_adapter_def zoomE_run run_adapters_def)

lemma put_astate_sel [simp]:
  "cy_world (put_astate put a s) = as_world a" "cy_ctl (put_astate put a s) = snd (as_mod a)"
  "run_play (put_astate put a s) = fst (as_mod a)"
  "run_adapters (put_astate put a s) = put (as_adapter a) (run_adapters s)"
  "rr_bridge (cy_rest (put_astate put a s)) = rr_bridge (cy_rest s)"
  "rr_cloud_enabled (cy_rest (put_astate put a s)) = rr_cloud_enabled (cy_rest s)"
  by (simp_all add: put_astate_def put_scene_def run_play_def run_adapters_def Let_def)

lemma astate_of_sel [simp]:
  "as_world (astate_of ad s) = cy_world s" "as_adapter (astate_of ad s) = ad"
  "as_mod (astate_of ad s) = (run_play s, cy_ctl s)"
  by (simp_all add: astate_of_def scene_of_def run_play_def)

text \<open>A stop through one adapter: that adapter is latched, the play and the controller are left alone.\<close>

lemma stop_adapter:
  assumes "role_in operator CONTROL_ROLES" and "strip reason \<noteq> []"
  shows "\<exists>ad. run_adapters (snd (with_adapter get put (activate_fail_safe env run_id operator reason) s))
        = put ad (run_adapters s)
      \<and> run_id \<in> set (ad_stopped_runs ad)
      \<and> set (ad_stopped_runs (get (run_adapters s))) \<subseteq> set (ad_stopped_runs ad)
      \<and> run_play (snd (with_adapter get put (activate_fail_safe env run_id operator reason) s)) = run_play s
      \<and> cy_ctl (snd (with_adapter get put (activate_fail_safe env run_id operator reason) s)) = cy_ctl s"
proof -
  obtain r a where run: "activate_fail_safe env run_id operator reason (astate_of (get (run_adapters s)) s) = (r, a)"
    by (metis prod.exhaust)
  show ?thesis using activate_fail_safe_stops [OF assms run] by (auto simp: with_adapter_run run)
qed

text \<open>The stopped runs of each adapter a run may have; an adapter that is absent counts as stopped.\<close>

definition stopped_by :: "scene adapter option \<Rightarrow> string set" where
  "stopped_by found = (case found of None \<Rightarrow> UNIV | Some ad \<Rightarrow> set (ad_stopped_runs ad))"

definition stop_sets :: "(adapters \<Rightarrow> string set) list" where
  "stop_sets = [\<lambda>r. stopped_by (Some (ra_automation r)), \<lambda>r. stopped_by (Some (ra_identity r)),
     \<lambda>r. stopped_by (Some (ra_endpoint r)), \<lambda>r. stopped_by (Some (ra_cloud r)),
     \<lambda>r. stopped_by (Some (ra_cloud_automation r)), \<lambda>r. stopped_by (ra_impact r),
     \<lambda>r. stopped_by (ra_impact_automation r)]"

lemma latched_iff: "latched run_id s \<longleftrightarrow> ctl_state (cy_ctl s) = Stopped \<and> mf_pending (pl_mfa (run_play s)) = None
    \<and> (\<forall>f\<in>set stop_sets. run_id \<in> f (run_adapters s))"
  by (auto simp: latched_def adapters_of_def stop_sets_def stopped_by_def split: option.splits)

text \<open>A latch leaves the play and the controller alone, only adds stopped runs, and latches its own adapter.\<close>

definition latch :: "string \<Rightarrow> (adapters \<Rightarrow> string set) \<Rightarrow> (play_run, unit) prog \<Rightarrow> bool" where
  "latch run_id f m \<longleftrightarrow> (\<forall>s. coherent s \<longrightarrow> run_play (snd (m s)) = run_play s \<and> cy_ctl (snd (m s)) = cy_ctl s
     \<and> coherent (snd (m s)) \<and> (\<forall>g\<in>set stop_sets. g (run_adapters s) \<subseteq> g (run_adapters (snd (m s))))
     \<and> run_id \<in> f (run_adapters (snd (m s))))"

lemma snd_then_ret: "snd (thenE m (ret ()) s) = snd (m s)"
  by (simp add: thenE_run split: prod.split sum.split)

lemma latch_adapter:
  assumes "role_in operator CONTROL_ROLES" and "strip reason \<noteq> []"
    and "\<And>ad r. set (ad_stopped_runs (get r)) \<subseteq> set (ad_stopped_runs ad) \<Longrightarrow>
      (\<forall>g\<in>set stop_sets. g r \<subseteq> g (put ad r)) \<and> ra_impact (put ad r) = ra_impact r
      \<and> ra_impact_automation (put ad r) = ra_impact_automation r"
    and "\<And>ad r. f (put ad r) = set (ad_stopped_runs ad)"
  shows "latch run_id f (thenE (with_adapter get put (activate_fail_safe env run_id operator reason)) (ret ()))"
  unfolding latch_def snd_then_ret
proof (intro allI impI)
  fix s
  assume c: "coherent s"
  let ?s = "snd (with_adapter get put (activate_fail_safe env run_id operator reason) s)"
  obtain ad where ad: "run_adapters ?s = put ad (run_adapters s)" "run_id \<in> set (ad_stopped_runs ad)"
      "set (ad_stopped_runs (get (run_adapters s))) \<subseteq> set (ad_stopped_runs ad)"
      "run_play ?s = run_play s" "cy_ctl ?s = cy_ctl s"
    using stop_adapter [OF assms(1,2)] by blast
  show "run_play ?s = run_play s \<and> cy_ctl ?s = cy_ctl s \<and> coherent ?s
      \<and> (\<forall>g\<in>set stop_sets. g (run_adapters s) \<subseteq> g (run_adapters ?s)) \<and> run_id \<in> f (run_adapters ?s)"
    using assms(3) [OF ad(3)] assms(4) ad c by (simp add: coherent_def)
qed

lemma latch_optional:
  assumes "role_in operator CONTROL_ROLES" and "strip reason \<noteq> []"
    and "get = ra_impact \<and> put = (\<lambda>ad r. r\<lparr>ra_impact := ad\<rparr>)
      \<or> get = ra_impact_automation \<and> put = (\<lambda>ad r. r\<lparr>ra_impact_automation := ad\<rparr>)"
  shows "latch run_id (\<lambda>r. stopped_by (get r)) (thenE (with_optional get put (activate_fail_safe env run_id operator reason)) (ret ()))"
  unfolding latch_def snd_then_ret
proof (intro allI impI)
  fix s
  assume c: "coherent s"
  let ?s = "snd (with_optional get put (activate_fail_safe env run_id operator reason) s)"
  show "run_play ?s = run_play s \<and> cy_ctl ?s = cy_ctl s \<and> coherent ?s
      \<and> (\<forall>g\<in>set stop_sets. g (run_adapters s) \<subseteq> g (run_adapters ?s)) \<and> run_id \<in> stopped_by (get (run_adapters ?s))"
  proof (cases "get (run_adapters s)")
    case None
    then have "?s = s" by (simp add: with_optional_def bindE_run run_adapters_def)
    then show ?thesis using c None by (simp add: stopped_by_def)
  next
    case (Some a)
    let ?t = "snd (with_adapter (\<lambda>_. a) (\<lambda>x. put (Some x)) (activate_fail_safe env run_id operator reason) s)"
    have eq: "?s = ?t" using Some by (simp add: with_optional_def bindE_run run_adapters_def)
    obtain ad where ad: "run_adapters ?t = put (Some ad) (run_adapters s)" "run_id \<in> set (ad_stopped_runs ad)"
        "set (ad_stopped_runs a) \<subseteq> set (ad_stopped_runs ad)" "run_play ?t = run_play s" "cy_ctl ?t = cy_ctl s"
      using stop_adapter [OF assms(1,2), where get = "\<lambda>_. a" and put = "\<lambda>x. put (Some x)" and env = env and run_id = run_id and s = s] by blast
    show ?thesis unfolding eq using ad c Some assms(3)
      by (auto simp: coherent_def stop_sets_def stopped_by_def)
  qed
qed

lemma latches_latch:
  assumes "role_in operator CONTROL_ROLES" and "strip reason \<noteq> []"
  shows "list_all2 (latch run_id) (if has_impact then stop_sets else take 5 stop_sets)
    (latches rn run_id operator reason has_impact)"
proof -
  let ?stop = "activate_fail_safe (rn_env rn) run_id operator reason"
  have one: "latch run_id (\<lambda>r. stopped_by (Some (ra_automation r))) (thenE (on_automation ?stop) (ret ()))"
    "latch run_id (\<lambda>r. stopped_by (Some (ra_identity r))) (thenE (on_identity_adapter ?stop) (ret ()))"
    "latch run_id (\<lambda>r. stopped_by (Some (ra_endpoint r))) (thenE (on_endpoint_adapter ?stop) (ret ()))"
    "latch run_id (\<lambda>r. stopped_by (Some (ra_cloud r))) (thenE (on_cloud_adapter ?stop) (ret ()))"
    "latch run_id (\<lambda>r. stopped_by (Some (ra_cloud_automation r))) (thenE (on_cloud_automation ?stop) (ret ()))"
    unfolding on_automation_def on_identity_adapter_def on_endpoint_adapter_def on_cloud_adapter_def
      on_cloud_automation_def
    by (rule latch_adapter [OF assms], simp_all add: stop_sets_def stopped_by_def)+
  have two: "latch run_id (\<lambda>r. stopped_by (ra_impact r)) (thenE (on_impact_adapter ?stop) (ret ()))"
    "latch run_id (\<lambda>r. stopped_by (ra_impact_automation r)) (thenE (on_impact_automation ?stop) (ret ()))"
    unfolding on_impact_adapter_def on_impact_automation_def by (rule latch_optional [OF assms], simp)+
  show ?thesis using one two by (simp add: latches_def stop_sets_def Let_def)
qed

text \<open>All of them, one after the other.\<close>

lemma collect_latches:
  assumes "list_all2 (latch run_id) fs ms" and "set fs \<subseteq> set stop_sets" and "coherent s"
  shows "run_play (snd (collect_all ms errors s)) = run_play s \<and> cy_ctl (snd (collect_all ms errors s)) = cy_ctl s
    \<and> coherent (snd (collect_all ms errors s))
    \<and> (\<forall>f\<in>set fs. run_id \<in> f (run_adapters (snd (collect_all ms errors s))))
    \<and> (\<forall>g\<in>set stop_sets. g (run_adapters s) \<subseteq> g (run_adapters (snd (collect_all ms errors s))))"
  using assms
proof (induction ms arbitrary: fs errors s rule: list.induct)
  case (Cons m ms)
  obtain f fs' where fs: "fs = f # fs'" "latch run_id f m" "list_all2 (latch run_id) fs' ms"
    using Cons.prems(1) by (auto simp: list_all2_Cons2)
  let ?s = "snd (m s)"
  have m: "run_play ?s = run_play s" "cy_ctl ?s = cy_ctl s" "coherent ?s" "run_id \<in> f (run_adapters ?s)"
      "\<forall>g\<in>set stop_sets. g (run_adapters s) \<subseteq> g (run_adapters ?s)"
    using fs(2) Cons.prems(3) unfolding latch_def by blast+
  have "f \<in> set stop_sets" "set fs' \<subseteq> set stop_sets" using Cons.prems(2) fs(1) by auto
  then show ?case
    using Cons.IH [OF fs(3) _ m(3), of "case fst (m s) of Inl e \<Rightarrow> errors @ [e] | Inr _ \<Rightarrow> errors"] m fs(1)
    by (simp add: collect_all_run del: collect_all.simps(2)) blast
qed simp

section \<open>The stop\<close>

lemma with_deps_run: "with_deps rn f s = f (run_deps rn (ctl_definition (cy_ctl s))) s"
  by (simp add: with_deps_def bindE_run get_ctl_run)

lemma on_mfa_run: "on_mfa m s = (let (r, y) = m \<lparr>my_world = cy_world s, my_identity = pl_identity (run_play s),
      my_run_state = state_value (ctl_state (cy_ctl s)), my_elapsed = ctl_elapsed (cy_ctl s),
      my_mfa = pl_mfa (run_play s)\<rparr> in
    (r, s\<lparr>cy_world := my_world y, cy_rest := (cy_rest s)
       \<lparr>rr_play := (run_play s)\<lparr>pl_identity := my_identity y, pl_mfa := my_mfa y\<rparr>\<rparr>\<rparr>))"
  by (simp add: on_mfa_def zoomE_run run_play_def Let_def)

lemma mfa_stop_clears: "mf_pending (my_mfa (snd (mfa_stop env y))) = None"
  by (auto simp: mfa_stop_def bindE_run get_mfa_def getE_run finallyE_run split: option.split prod.split sum.split)

lemma on_mfa_keeps [simp]:
  "cy_ctl (snd (on_mfa m s)) = cy_ctl s" "run_adapters (snd (on_mfa m s)) = run_adapters s"
  "rr_bridge (cy_rest (snd (on_mfa m s))) = rr_bridge (cy_rest s)"
  "pl_endpoint (run_play (snd (on_mfa m s))) = pl_endpoint (run_play s)"
  "pl_simulation (run_play (snd (on_mfa m s))) = pl_simulation (run_play s)"
  "pl_cloud (run_play (snd (on_mfa m s))) = pl_cloud (run_play s)"
  "pl_impact (run_play (snd (on_mfa m s))) = pl_impact (run_play s)"
  by (simp_all add: on_mfa_run run_adapters_def run_play_def Let_def split: prod.split)

lemma fail_safe_stop_latches:
  assumes "ctl_state (cy_ctl s) \<in> {Ready, Running, Paused}" and "strip reason \<noteq> []"
  shows "ctl_state (cy_ctl (snd (fail_safe_stop dp reason s))) = Stopped
    \<and> ctl_run_id (cy_ctl (snd (fail_safe_stop dp reason s))) = ctl_run_id (cy_ctl s)
    \<and> cy_rest (snd (fail_safe_stop dp reason s)) = cy_rest s"
proof -
  let ?s = "s\<lparr>cy_ctl := (cy_ctl s)\<lparr>ctl_state := Stopped\<rparr>\<rparr>"
  let ?m = "ctl_emit dp ''scenario.run.stopped'' ''scenario.stop'' (''Fail-safe stop: '' @ strip reason)
        ''cancelled'' None ''controller'' [(''reason'', VStr (strip reason))]"
  have run: "fail_safe_stop dp reason s = ?m ?s"
    using assms by (auto simp: fail_safe_stop_def thenE_run require_state_run requireE_run upd_ctl_run)
  obtain r s' where m: "?m ?s = (r, s')" by (metis prod.exhaust)
  have "cy_rest s' = cy_rest ?s" using keeps_run [OF keeps_rest_emit m] .
  then show ?thesis unfolding run m using ctl_view_eq [OF ctl_emit_view [OF m]] by simp
qed

text \<open>The state after the first two attempts.\<close>

definition halted :: "play_run \<Rightarrow> play_run \<Rightarrow> bool" where
  "halted s s' \<longleftrightarrow> ctl_state (cy_ctl s') = Stopped \<and> ctl_run_id (cy_ctl s') = ctl_run_id (cy_ctl s)
     \<and> mf_pending (pl_mfa (run_play s')) = None \<and> run_adapters s' = run_adapters s
     \<and> pl_impact (run_play s') = pl_impact (run_play s)"

lemma early_halts:
  assumes "ctl_state (cy_ctl s) \<noteq> Completed" and "strip reason \<noteq> []"
  shows "halted s (snd (collect_all ((if ctl_state (cy_ctl s) \<noteq> Stopped
      then [with_deps rn (\<lambda>dp. fail_safe_stop dp reason)] else []) @ [on_mfa (mfa_stop env)]) [] s))"
proof -
  define s1 where "s1 = (if ctl_state (cy_ctl s) \<noteq> Stopped then snd (with_deps rn (\<lambda>dp. fail_safe_stop dp reason) s) else s)"
  have s1: "ctl_state (cy_ctl s1) = Stopped" "ctl_run_id (cy_ctl s1) = ctl_run_id (cy_ctl s)" "cy_rest s1 = cy_rest s"
    using fail_safe_stop_latches [of s reason] assms by (cases "ctl_state (cy_ctl s)"; simp add: s1_def with_deps_run)+
  have "mf_pending (pl_mfa (run_play (snd (on_mfa (mfa_stop env) s1)))) = None"
    using mfa_stop_clears by (auto simp: on_mfa_run run_play_def Let_def split: prod.split) (metis snd_conv)
  moreover have "snd (collect_all ((if ctl_state (cy_ctl s) \<noteq> Stopped
      then [with_deps rn (\<lambda>dp. fail_safe_stop dp reason)] else []) @ [on_mfa (mfa_stop env)]) [] s)
      = snd (on_mfa (mfa_stop env) s1)"
    by (simp add: s1_def collect_all_run del: collect_all.simps(2))
  moreover have "run_adapters s1 = run_adapters s" "run_play s1 = run_play s"
    by (simp_all add: s1(3) run_adapters_def run_play_def)
  ultimately show ?thesis using s1 by (simp add: halted_def)
qed

definition stop_incomplete :: exc where
  "stop_incomplete = ControllerError ''run stopped; safety cleanup or audit incomplete''"

lemma stop_play_latches:
  assumes "stop_play rn reason operator s = (r, s')" and "r = Inr () \<or> r = Inl stop_incomplete" and "coherent s"
  shows "latched (ctl_run_id (cy_ctl s)) s' \<and> coherent s' \<and> ctl_run_id (cy_ctl s') = ctl_run_id (cy_ctl s)"
proof -
  let ?op = "case operator of None \<Rightarrow> stop_operator | Some e \<Rightarrow> e"
  have guards: "strip reason \<noteq> []" "role_in ?op CONTROL_ROLES" "ctl_state (cy_ctl s) \<noteq> Completed"
    using assms(1,2) by (auto simp: stop_play_def thenE_run requireE_run bindE_run get_ctl_run stop_incomplete_def
        stop_operator_def role_in_def CONTROL_ROLES_def entity_def opt_text_def split: if_splits option.splits)
  have op: "(case operator of None \<Rightarrow> True | Some e \<Rightarrow> role_in e CONTROL_ROLES)"
    using guards(2) by (simp split: option.splits)
  obtain early s1 where e: "collect_all ((if ctl_state (cy_ctl s) \<noteq> Stopped
      then [with_deps rn (\<lambda>dp. fail_safe_stop dp reason)] else []) @ [on_mfa (mfa_stop (rn_env rn))]) [] s = (Inr early, s1)"
    using collect_all_returns by (metis prod.collapse)
  have h: "halted s s1" using early_halts [OF guards(3,1), where rn = rn and env = "rn_env rn"] e by simp
  let ?imp = "pl_impact (run_play s1) \<noteq> None"
  let ?ms = "latches rn (ctl_run_id (cy_ctl s)) ?op reason ?imp"
  obtain errors s2 where l: "collect_all ?ms early s1 = (Inr errors, s2)"
    using collect_all_returns by (metis prod.collapse)
  have s': "s' = s2"
    using assms(1) guards op e l h by (simp add: stop_play_def thenE_run requireE_run bindE_run get_ctl_run halted_def
        run_play_def split: if_splits)
  have c: "coherent s1" using assms(3) h by (simp add: coherent_def halted_def)
  note L = collect_latches [OF latches_latch [OF guards(2,1), where rn = rn and has_impact = ?imp and run_id = "ctl_run_id (cy_ctl s)"] _ c,
      where errors = early, unfolded l]
  have sub: "set (if ?imp then stop_sets else take 5 stop_sets) \<subseteq> set stop_sets" by (auto dest: in_set_takeD)
  have all: "\<forall>f\<in>set stop_sets. ctl_run_id (cy_ctl s) \<in> f (run_adapters s2)"
  proof (cases ?imp)
    case True
    then show ?thesis using L [OF sub] by simp
  next
    case False
    have "ra_impact (run_adapters s2) = None" "ra_impact_automation (run_adapters s2) = None"
      using L [OF sub] False by (simp_all add: coherent_def)
    then show ?thesis using L [OF sub] False by (simp add: stop_sets_def stopped_by_def)
  qed
  then show ?thesis unfolding s' latched_iff using L [OF sub] h by (simp add: halted_def)
qed

section \<open>A stopped run is inert\<close>

definition halted_run :: "string \<Rightarrow> play_run \<Rightarrow> bool" where
  "halted_run run_id s \<longleftrightarrow> latched run_id s \<and> coherent s \<and> ctl_run_id (cy_ctl s) = run_id"

definition inert :: "(play_run, 'a) prog \<Rightarrow> bool" where
  "inert m \<longleftrightarrow> (\<forall>run_id s. halted_run run_id s \<longrightarrow> run_play (snd (m s)) = run_play s \<and> halted_run run_id (snd (m s)))"

lemma inertI: "(\<And>run_id s. halted_run run_id s \<Longrightarrow> run_play (snd (m s)) = run_play s \<and> halted_run run_id (snd (m s))) \<Longrightarrow> inert m"
  by (simp add: inert_def)

lemma inertD:
  assumes "inert m" and "halted_run run_id s"
  shows "run_play (snd (m s)) = run_play s" and "halted_run run_id (snd (m s))"
  using assms by (simp_all add: inert_def)

lemma inert_still: "(\<And>s. run_play (snd (m s)) = run_play s \<and> run_adapters (snd (m s)) = run_adapters s
    \<and> cy_ctl (snd (m s)) = cy_ctl s) \<Longrightarrow> inert m"
  by (simp add: inert_def halted_run_def latched_def coherent_def)

lemma inert_bindE:
  assumes "inert m" and "\<And>x. inert (f x)"
  shows "inert (bindE m f)"
  using assms unfolding inert_def by (simp add: bindE_run split: prod.split sum.split) (metis snd_conv)

lemma inert_thenE: "inert m \<Longrightarrow> inert n \<Longrightarrow> inert (thenE m n)"
  unfolding thenE_def by (rule inert_bindE)

lemma inert_basic: "inert (ret x)" "inert (raise e)" "inert (getE f)" "inert (liftE r)" "inert (requireE b e)"
    "inert (get_ctl g)" "inert (run_world w)"
  by (auto intro!: inert_still simp: requireE_run get_ctl_run run_world_def zoomE_run run_play_def run_adapters_def
      split: prod.split)

lemma mfa_idle: "mf_pending (pl_mfa (run_play s)) = None \<Longrightarrow> run_play (snd (on_mfa (mfa_advance env) s)) = run_play s"
  by (simp add: on_mfa_run mfa_advance_def bindE_run get_mfa_def getE_run run_play_def)

lemma inert_mfa_advance: "inert (on_mfa (mfa_advance env))"
  by (rule inertI) (simp add: halted_run_def latched_def coherent_def mfa_idle)

lemma inert_mfa_decide: "inert (on_mfa (mfa_decide env challenge decision actor))"
proof (rule inertI)
  fix run_id s
  assume h: "halted_run run_id s"
  have "run_play (snd (on_mfa (mfa_decide env challenge decision actor) s)) = run_play s"
    using h by (simp add: halted_run_def latched_def on_mfa_run mfa_decide_def thenE_run requireE_run bindE_run
        getE_run run_play_def)
  then show "run_play (snd (on_mfa (mfa_decide env challenge decision actor) s)) = run_play s
      \<and> halted_run run_id (snd (on_mfa (mfa_decide env challenge decision actor) s))"
    using h by (simp add: halted_run_def latched_def coherent_def)
qed

lemma stopped_sets_eq: "stopped_set a = stopped_set b \<Longrightarrow>
    set (ad_stopped_runs (as_adapter a)) = set (ad_stopped_runs (as_adapter b))"
  by (simp add: stopped_set_def)

text \<open>A request of the stopped run through any of its adapters has no effect.\<close>

lemma with_adapter_halted:
  assumes "halted_run run_id s" and "rq_run_id r = run_id"
    and "\<And>ad. set (ad_stopped_runs (get (run_adapters s))) = set (ad_stopped_runs ad) \<Longrightarrow>
      (\<forall>f\<in>set stop_sets. f (put ad (run_adapters s)) = f (run_adapters s))
      \<and> (ra_impact (put ad (run_adapters s)) = None) = (ra_impact (run_adapters s) = None)
      \<and> (ra_impact_automation (put ad (run_adapters s)) = None) = (ra_impact_automation (run_adapters s) = None)"
    and "run_id \<in> set (ad_stopped_runs (get (run_adapters s)))"
  shows "run_play (snd (with_adapter get put (execute env r) s)) = run_play s
    \<and> halted_run run_id (snd (with_adapter get put (execute env r) s))"
proof -
  let ?a = "astate_of (get (run_adapters s)) s"
  obtain q a where run: "execute env r ?a = (q, a)" by (metis prod.exhaust)
  have m: "as_mod a = (run_play s, cy_ctl s)"
    using execute_stopped_no_effect [of r ?a env] assms(2,4) run by simp
  have st: "set (ad_stopped_runs (get (run_adapters s))) = set (ad_stopped_runs (as_adapter a))"
    using keeps_run [OF keeps_stopped_execute run] by (simp add: stopped_set_def)
  have "\<forall>f\<in>set stop_sets. run_id \<in> f (put (as_adapter a) (run_adapters s))"
    using assms(1) assms(3) [OF st] by (auto simp: halted_run_def latched_iff)
  then show ?thesis using assms(1) assms(3) [OF st] m
    by (simp add: with_adapter_run run halted_run_def latched_iff coherent_def)
qed

lemma submit_halted:
  assumes "halted_run run_id s" and "rq_run_id r = run_id" and "route action_id b = Inr on_adapter"
  shows "run_play (snd (on_adapter (execute env r) s)) = run_play s \<and> halted_run run_id (snd (on_adapter (execute env r) s))"
proof -
  have st: "run_id \<in> set (ad_stopped_runs (ra_identity (run_adapters s)))"
      "run_id \<in> set (ad_stopped_runs (ra_endpoint (run_adapters s)))"
      "run_id \<in> set (ad_stopped_runs (ra_cloud (run_adapters s)))"
    using assms(1) by (simp_all add: halted_run_def latched_iff stop_sets_def stopped_by_def)
  have "on_adapter = on_identity_adapter \<or> on_adapter = on_endpoint_adapter \<or> on_adapter = on_cloud_adapter"
    using assms(3) by (auto simp: route_def split: if_splits)
  then show ?thesis
    unfolding on_identity_adapter_def on_endpoint_adapter_def on_cloud_adapter_def
    using with_adapter_halted [OF assms(1,2)] st by (auto simp: stop_sets_def stopped_by_def)
qed


lemma inert_submit: "inert (submit_action rn actor action_id target key parameters dry_run)"
proof (rule inertI)
  fix run_id s
  assume h: "halted_run run_id s"
  let ?req = "make_action_request (rn_env rn) (exercise_of s) (ctl_run_id (cy_ctl s)) actor action_id target key parameters
        dry_run (if action_id \<in> set IDENTITY_ACTIONS then 15 else 20) None"
  show "run_play (snd (submit_action rn actor action_id target key parameters dry_run s)) = run_play s
      \<and> halted_run run_id (snd (submit_action rn actor action_id target key parameters dry_run s))"
  proof (cases "route action_id (rr_cloud_enabled (cy_rest s))")
    case (Inl e)
    then show ?thesis using h by (simp add: submit_action_def bindE_run)
  next
    case (Inr on_adapter)
    obtain q w where r: "?req (cy_world s) = (q, w)" by (metis prod.exhaust)
    let ?s = "s\<lparr>cy_world := w\<rparr>"
    have h': "halted_run run_id ?s" "run_play ?s = run_play s"
      using h by (simp_all add: halted_run_def latched_def coherent_def run_play_def run_adapters_def)
    have req: "run_world ?req s = (q, ?s)" by (simp add: run_world_def zoomE_run r)
    show ?thesis
    proof (cases q)
      case (Inl e)
      then show ?thesis using h' Inr req by (simp add: submit_action_def bindE_run get_ctl_run)
    next
      case q: (Inr request)
      have "rq_run_id request = run_id"
        using make_request_fields [OF r [unfolded q]] h by (simp add: halted_run_def)
      note sub = submit_halted [OF h'(1) this Inr, of "rn_env rn"]
      obtain p t where ex: "on_adapter (execute (rn_env rn) request) ?s = (p, t)" by (metis prod.exhaust)
      have "submit_action rn actor action_id target key parameters dry_run s
          = (case p of Inl e \<Rightarrow> (Inl e, t) | Inr x \<Rightarrow> thenE (on_mfa (mfa_advance (rn_env rn))) (ret x) t)"
        using Inr req q ex by (simp add: submit_action_def bindE_run get_ctl_run)
      moreover have t: "halted_run run_id t" "run_play t = run_play s" using sub ex h'(2) by simp_all
      moreover note inertD [OF inert_thenE [OF inert_mfa_advance [of "rn_env rn"] inert_basic(1) [of "projr p"]] t(1)]
      ultimately show ?thesis by (cases p) simp_all
    qed
  qed
qed

lemma inert_control: "inert (with_deps rn (\<lambda>dp. perform dp c))"
proof (rule inertI)
  fix run_id s
  assume h: "halted_run run_id s"
  then have "ctl_state (cy_ctl s) = Stopped" by (simp add: halted_run_def latched_def)
  from stopped_refuses [OF this] obtain e where "with_deps rn (\<lambda>dp. perform dp c) s = (Inl (ControllerError e), s)"
    unfolding with_deps_run by blast
  then show "run_play (snd (with_deps rn (\<lambda>dp. perform dp c) s)) = run_play s
      \<and> halted_run run_id (snd (with_deps rn (\<lambda>dp. perform dp c) s))" using h by simp
qed

lemma inert_with_deps: "(\<And>dp. inert (f dp)) \<Longrightarrow> inert (with_deps rn f)"
  unfolding inert_def by (simp add: with_deps_run)

lemma inert_resolve: "inert (resolve_checkpoint dp i passed evidence reason checks)"
proof (rule inertI)
  fix run_id s
  assume h: "halted_run run_id s"
  then have "ctl_state (cy_ctl s) = Stopped" by (simp add: halted_run_def latched_def)
  from stopped_refuses [OF this, of dp "Resolve i passed evidence reason checks"]
  show "run_play (snd (resolve_checkpoint dp i passed evidence reason checks s)) = run_play s
      \<and> halted_run run_id (snd (resolve_checkpoint dp i passed evidence reason checks s))" using h by auto
qed

lemma inert_get_cloud: "inert (get_cloud f)"
  unfolding get_cloud_def by (rule inert_basic)

lemma get_impact_run: "get_impact f s = (case pl_impact (run_play s) of None \<Rightarrow> (Inl no_stage, s) | Some g \<Rightarrow> (Inr (f g), s))"
  by (simp add: get_impact_def run_impact_def on_scene_def on_impact_def zoomE_run bindE_run scene_of_def put_scene_def
      run_play_def split: option.split)

lemma inert_get_impact: "inert (get_impact f)"
  by (rule inert_still) (simp add: get_impact_run split: option.split)

lemmas inert_intros = inert_basic inert_bindE inert_thenE inert_resolve inert_with_deps inert_get_cloud
  inert_get_impact inert_control inert_mfa_advance inert_mfa_decide inert_submit

lemma inert_resolve_with: "inert (resolve_with rn i ev)"
  unfolding resolve_with_def by (intro inert_intros)

lemma inert_dp1: "inert (submit_dp1 rn submission)" and inert_dp2: "inert (resolve_dp2 rn)"
  unfolding submit_dp1_def resolve_dp2_def evaluate_dp2_def by (intro inert_intros inert_resolve_with)+

lemma inert_dp3: "inert (resolve_cloud dp)" and inert_dp4: "inert (resolve_impact dp sha)"
  unfolding resolve_cloud_def resolve_impact_def run_prevention_def by (intro inert_intros)+

lemma inert_refused:
  assumes "\<And>s. ctl_state (cy_ctl s) = Stopped \<Longrightarrow> \<exists>e. m s = (Inl e, s)"
  shows "inert m"
proof (rule inertI)
  fix run_id s
  assume h: "halted_run run_id s"
  then obtain e where "m s = (Inl e, s)" using assms by (auto simp: halted_run_def latched_def)
  then show "run_play (snd (m s)) = run_play s \<and> halted_run run_id (snd (m s))" using h by simp
qed

lemma inert_assessment: "inert (submit_assessment who confirmed claim evidence)"
  by (rule inert_refused) (simp add: submit_assessment_def bindE_run thenE_run requireE_run get_ctl_run get_cloud_def)

lemma inert_brief: "inert (submit_brief payload)"
  by (rule inert_refused) (auto simp: submit_brief_def bindE_run thenE_run requireE_run get_ctl_run get_impact_run
      split: option.split)

text \<open>An answer under a stop that says success is a replay.\<close>

lemma answer_not_allowed:
  assumes "answer_verdict env (r, t, judge env ad m raw) s = (Inr (Inl res), s')" and "rq_run_id raw \<in> set (ad_stopped_runs ad)"
    and "rs_successful res"
  shows "rs_cached res"
proof (cases "judge env ad m raw")
  case (Deny code message w)
  have "\<not> rs_successful res"
    using assms(1) unfolding Deny answer_verdict_def deny_def
    by (auto elim!: bindE_InrE thenE_InrE dest: make_result_Inr)
  then show ?thesis using assms(3) by simp
next
  case (Replay cached)
  then have "rs_cached cached"
    by (auto simp: judge_def judge_policy_def split: if_splits option.splits sum.splits)
  moreover have "res = cached" using assms(1) unfolding Replay answer_verdict_def by (auto elim!: thenE_InrE)
  ultimately show ?thesis by simp
next
  case (Fault e)
  then show ?thesis using assms(1) by (simp add: answer_verdict_def)
next
  case (Allow d)
  then show ?thesis using assms(2) by (simp add: judge_Allow_iff)
qed

lemma execute_stopped_answer:
  assumes "rq_run_id raw \<in> set (ad_stopped_runs (as_adapter s))" and "execute env raw s = (Inr res, s')"
    and "rs_successful res"
  shows "rs_cached res"
proof -
  obtain b s1 where b0: "begin_execution env raw s = (Inr b, s1)"
    and fin: "finish_execution env b s1 = (Inr res, s')"
    using assms(2) unfolding execute_def by (elim bindE_InrE)
  have b: "b = Inl res"
  proof (cases b)
    case (Inl x)
    then show ?thesis using fin by (simp add: finish_execution_def)
  next
    case (Inr pd)
    then show ?thesis using begin_execution_pending [OF b0 [unfolded Inr]] assms(1) by (simp add: judge_Allow_iff)
  qed
  obtain r t v s0 where sc: "screen_request env raw s = (Inr (r, t, v), s0)"
    and ans: "answer_verdict env (r, t, v) s0 = (Inr (Inl res), s1)"
    using b0 unfolding begin_execution_def b by (elim bindE_InrE) (metis prod_cases3)
  have "v = judge env (as_adapter s) (as_mod s) (redact_request raw)"
    using screen_request_Inr [OF sc] by simp
  then show ?thesis using answer_not_allowed [OF ans [unfolded \<open>v = _\<close>]] assms(1,3) by simp
qed

text \<open>Recovery through the fixture's adapter: refused or replayed, and no observation is recorded.\<close>

lemma impact_adapter_halted:
  assumes "halted_run run_id s" and "rq_run_id r = run_id"
    and "on_impact_adapter (execute env r) s = (q, s')"
  shows "run_play s' = run_play s \<and> halted_run run_id s' \<and> (\<forall>res. q = Inr res \<longrightarrow> rs_successful res \<longrightarrow> rs_cached res)"
proof (cases "ra_impact (run_adapters s)")
  case None
  then show ?thesis using assms by (auto simp: on_impact_adapter_def with_optional_def bindE_run run_adapters_def)
next
  case (Some ad)
  let ?put = "\<lambda>x r. r\<lparr>ra_impact := Some x\<rparr>"
  have eq: "on_impact_adapter (execute env r) s = with_adapter (\<lambda>_. ad) ?put (execute env r) s"
    using Some by (simp add: on_impact_adapter_def with_optional_def bindE_run run_adapters_def)
  have st: "run_id \<in> set (ad_stopped_runs ad)"
    using assms(1) Some by (simp add: halted_run_def latched_iff stop_sets_def stopped_by_def)
  have "run_play (snd (with_adapter (\<lambda>_. ad) ?put (execute env r) s)) = run_play s
      \<and> halted_run run_id (snd (with_adapter (\<lambda>_. ad) ?put (execute env r) s))"
    by (rule with_adapter_halted [OF assms(1,2)]) (use Some st in \<open>simp_all add: stop_sets_def stopped_by_def\<close>)
  moreover have "rs_successful res \<longrightarrow> rs_cached res" if "q = Inr res" for res
    using execute_stopped_answer [of r "astate_of ad s" env res] assms(2,3) st that
    by (auto simp: eq with_adapter_run split: prod.splits)
  ultimately show ?thesis using assms(3) eq by simp
qed

lemma inert_recover: "inert (recover env sha actor action_id fixture_id key dry_run)"
proof (rule inertI)
  fix run_id s
  assume h: "halted_run run_id s"
  let ?m = "recover env sha actor action_id fixture_id key dry_run"
  show "run_play (snd (?m s)) = run_play s \<and> halted_run run_id (snd (?m s))"
  proof (cases "pl_impact (run_play s)")
    case None
    then show ?thesis using h by (simp add: recover_def bindE_run get_impact_run)
  next
    case (Some g)
    let ?req = "make_action_request env (exercise_of s) (ig_run_id g) actor action_id (fixture_target fixture_id) key []
        dry_run 15 None"
    obtain q w where r: "?req (cy_world s) = (q, w)" by (metis prod.exhaust)
    let ?s = "s\<lparr>cy_world := w\<rparr>"
    have h': "halted_run run_id ?s" "run_play ?s = run_play s"
      using h by (simp_all add: halted_run_def latched_def coherent_def run_play_def run_adapters_def)
    have req: "impact_request env action_id (fixture_target fixture_id) actor key [] dry_run s = (q, ?s)"
      using Some by (simp add: impact_request_def bindE_run get_impact_run run_world_def zoomE_run r)
    obtain p t where ex: "on_impact_adapter (execute env (projr q)) ?s = (p, t)" by (metis prod.exhaust)
    show ?thesis
    proof (cases "action_id \<in> set RECOVERY_ACTIONS \<and> ig_applied g \<and> (\<exists>request. q = Inr request)")
      case False
      then show ?thesis using h h' Some req
        by (cases q) (auto simp: recover_def bindE_run thenE_run requireE_run get_impact_run)
    next
      case True
      then obtain request where q: "q = Inr request" by auto
      have "ig_run_id g = run_id" using h Some by (simp add: halted_run_def coherent_def)
      then have "rq_run_id (projr q) = run_id" using make_request_fields [OF r [unfolded q]] by (simp add: q)
      note a = impact_adapter_halted [OF h'(1) this ex]
      have "?m s = (case p of Inl e \<Rightarrow> (Inl e, t) | Inr res \<Rightarrow> (Inr res, t))"
        using True Some req ex a by (auto simp: recover_def bindE_run thenE_run requireE_run get_impact_run split: sum.split)
      then show ?thesis using a h'(2) by (cases p) simp_all
    qed
  qed
qed

section \<open>Commands on a stopped run\<close>

text \<open>What a server calls on a run, apart from the reset and the rollback of the impact by the staff.\<close>

datatype play_command =
    SubmitAction entity string entity string row bool
  | Control command
  | MfaDecision val val entity
  | MfaTick
  | SubmitTriage triage_submission
  | ResolveContainment
  | Assess val val val "string list"
  | ResolveCloud
  | Recover entity string string string bool
  | Brief brief
  | ResolveImpact

primrec perform_play :: "run_env \<Rightarrow> play_command \<Rightarrow> (play_run, unit) prog" where
  "perform_play rn (SubmitAction actor action_id target key parameters dry_run) =
     thenE (submit_action rn actor action_id target key parameters dry_run) (ret ())"
| "perform_play rn (Control c) = with_deps rn (\<lambda>dp. perform dp c)"
| "perform_play rn (MfaDecision challenge decision actor) = on_mfa (mfa_decide (rn_env rn) challenge decision actor)"
| "perform_play rn MfaTick = on_mfa (mfa_advance (rn_env rn))"
| "perform_play rn (SubmitTriage submission) = thenE (submit_dp1 rn submission) (ret ())"
| "perform_play rn ResolveContainment = thenE (resolve_dp2 rn) (ret ())"
| "perform_play rn (Assess who confirmed claim evidence) = thenE (submit_assessment who confirmed claim evidence) (ret ())"
| "perform_play rn ResolveCloud = thenE (with_deps rn resolve_cloud) (ret ())"
| "perform_play rn (Recover actor action_id fixture_id key dry_run) =
     thenE (recover (rn_env rn) (rn_sha rn) actor action_id fixture_id key dry_run) (ret ())"
| "perform_play rn (Brief payload) = submit_brief payload"
| "perform_play rn ResolveImpact = thenE (with_deps rn (\<lambda>dp. resolve_impact dp (rn_sha rn))) (ret ())"

text \<open>A command that raises ends there; the next one is taken from the state it left.\<close>

fun perform_plays :: "run_env \<Rightarrow> play_command list \<Rightarrow> play_run \<Rightarrow> play_run" where
  "perform_plays rn [] s = s"
| "perform_plays rn (c # cs) s = perform_plays rn cs (snd (perform_play rn c s))"

lemma inert_perform: "inert (perform_play rn c)"
  by (cases c) (simp_all add: inert_thenE inert_submit inert_basic(1) inert_control inert_mfa_decide inert_mfa_advance
    inert_dp1 inert_dp2 inert_dp3 inert_dp4 inert_with_deps inert_assessment inert_recover inert_brief)

lemma halted_plays: "halted_run run_id s \<Longrightarrow> run_play (perform_plays rn cs s) = run_play s
    \<and> halted_run run_id (perform_plays rn cs s)"
proof (induction cs arbitrary: s)
  case (Cons c cs)
  then have "run_play (snd (perform_play rn c s)) = run_play s \<and> halted_run run_id (snd (perform_play rn c s))"
    using inert_perform unfolding inert_def by blast
  then show ?case using Cons.IH by simp
qed simp

end
