(* ===== verification/CloudProps.thy ===== *)
theory CloudProps
  imports CloudStage Samples
begin

text \<open>
  What the third checkpoint's verdict rests on: once it passed, no reviewed cloud step reads a record,
  changes a policy or a key, or makes the verdict false again.
\<close>

section \<open>Denied access\<close>

definition stage_content :: "cloud_stage \<Rightarrow> cloud_content" where
  "stage_content g = cs_content (cg_state g)"

definition denied :: "cloud_stage \<Rightarrow> bool" where
  "denied g \<longleftrightarrow> get_field KEY_ID ''active'' (cc_keys (stage_content g)) = Inr (VBool False)
     \<and> get_field BUCKET_ID ''bulk_access_allowed'' (cc_buckets (stage_content g)) = Inr (VBool False)"

text \<open>What the steps of the automation may not touch after the checkpoint.\<close>

definition exposure :: "cloud_stage \<Rightarrow> (exc + val) \<times> (exc + val)" where
  "exposure g = (get_field BUCKET_ID ''accessed_record_ids'' (cc_exposure (stage_content g)),
     get_field BUCKET_ID ''confirmed_count'' (cc_exposure (stage_content g)))"

definition settled_view :: "cloud_stage \<Rightarrow> table \<times> table \<times> table \<times> ((exc + val) \<times> (exc + val)) \<times> assessment option \<times> event list" where
  "settled_view g = (cc_principals (stage_content g), cc_keys (stage_content g), cc_buckets (stage_content g),
     exposure g, cg_assessment g, cg_audit g)"

lemma denied_decision:
  assumes "denied g" and "cloud_decision bulk g = Inr (allowed, reason)"
  shows "\<not> allowed"
  using assms by (auto simp: denied_def cloud_decision_def access_decision_def stage_content_def get_field_def
      ditem_def map_result_def split: if_splits option.splits)

lemma decision_error: "cloud_decision bulk g = Inl e \<Longrightarrow> \<exists>k. e = KeyError k"
  by (auto simp: cloud_decision_def access_decision_def ditem_def map_result_def split: if_splits option.splits sum.splits)

lemma denied_view: "settled_view g' = settled_view g \<Longrightarrow> denied g' = denied g"
  by (simp add: settled_view_def denied_def)

section \<open>A passed checkpoint\<close>

text \<open>The verdict reads only what is settled and the two flags.\<close>

lemma evaluation_view:
  assumes "settled_view g' = settled_view g" and "cg_access_staged g' = cg_access_staged g"
    and "cg_policy_attempted g' = cg_policy_attempted g"
  shows "evaluate_cloud g' = evaluate_cloud g"
  using assms by (simp add: evaluate_cloud_def cloud_checks_def settled_view_def exposure_def stage_content_def Let_def)

lemma both_True: "both p q = Inr True \<longleftrightarrow> p = Inr True \<and> q = Inr True"
  by (cases p) (auto simp: both_def)

lemma passed_denies:
  assumes "evaluate_cloud g = Inr ev" and "ce_passed ev"
  shows "denied g" and "cg_access_staged g" and "cg_policy_attempted g"
proof -
  obtain checks where c: "cloud_checks g = Inr checks" "list_all snd checks"
    using assms by (auto simp: evaluate_cloud_def evaluation_def Let_def)
  let ?c = "stage_content g"
  obtain bucket active restored where
    b: "ditem (cc_buckets ?c) BUCKET_ID = Inr bucket" and a: "get_field KEY_ID ''active'' (cc_keys ?c) = Inr active"
    and r: "both (bindR (ditem bucket ''policy_hash'') (\<lambda>h. bindR (ditem bucket ''approved_policy_hash'') (\<lambda>a.
          Inr (val_eq h a))))
        (both (bindR (ditem bucket ''policy_id'') (\<lambda>i. Inr (val_eq i (VStr APPROVED_POLICY_ID))))
          (bindR (ditem bucket ''bulk_access_allowed'') (\<lambda>b. Inr (b = VBool False)))) = Inr restored"
    and k: "active = VBool False" "restored" "cg_access_staged g" "cg_policy_attempted g"
    using c unfolding cloud_checks_def Let_def stage_content_def
    by (elim bindR_InrE) (auto simp del: bindR_Inr)
  have "ditem bucket ''bulk_access_allowed'' = Inr (VBool False)" using r k(2) by (auto simp: both_True)
  then have "get_field BUCKET_ID ''bulk_access_allowed'' (cc_buckets ?c) = Inr (VBool False)"
    using b by (auto simp: get_field_def ditem_def split: option.splits)
  then show "denied g" and "cg_access_staged g" and "cg_policy_attempted g" using a k by (simp_all add: denied_def)
qed

section \<open>Steps\<close>

lemma set_outcome_exposure:
  assumes "set_field BUCKET_ID ''last_outcome'' v t = Inr t'"
    and "k \<noteq> ''last_outcome''"
  shows "get_field BUCKET_ID k t' = get_field BUCKET_ID k t"
  using assms by (auto simp: set_field_def get_field_def ditem_def split: option.splits)

lemma get_decision_run: "get_decision bulk g = (cloud_decision bulk g, g)"
  by (simp add: get_decision_def bindE_run getE_def liftE_def prog_simps split: sum.split)

lemma step_effect_settled:
  assumes "denied g" and "step_effect sha action_id False g = (r, g')"
  shows "settled_view g' = settled_view g \<and> (cg_access_staged g \<longrightarrow> cg_access_staged g')
    \<and> (cg_policy_attempted g \<longrightarrow> cg_policy_attempted g')
    \<and> (\<forall>m. r \<noteq> Inl (ActionExecutionError ''containment_mismatch'' m))"
proof (cases "action_id \<in> set [''cloud.bulk.verify'', ''cloud.bulk.attempt'']")
  case False
  then show ?thesis using assms(2)
    by (auto simp: step_effect_def settled_view_def exposure_def stage_content_def prog_simps split: if_splits)
next
  case True
  then have eff: "step_effect sha action_id False g = (case cloud_decision True g of
      Inl e \<Rightarrow> (Inl e, g)
    | Inr (bulk_allowed, reason) \<Rightarrow>
        (thenE (requireE (\<not> (action_id = ''cloud.bulk.verify'' \<and> bulk_allowed))
            (ActionExecutionError ''containment_mismatch'' ''Bulk request is unexpectedly allowed''))
          (if bulk_allowed then change_content (read_records 25)
           else change_content (\<lambda>c. bindR (set_field BUCKET_ID ''last_outcome'' (VStr ''bulk_blocked'') (cc_exposure c))
             (\<lambda>t. Inr (c\<lparr>cc_exposure := t\<rparr>))))) g)"
    by (auto simp: step_effect_def bindE_run get_decision_run split: sum.split)
  show ?thesis
  proof (cases "cloud_decision True g")
    case (Inl e)
    then show ?thesis using assms(2) decision_error [OF Inl] unfolding eff by auto
  next
    case (Inr d)
    then have "fst d = False" using denied_decision [OF assms(1), of True "fst d" "snd d"] by simp
    then show ?thesis using assms(2) Inr set_outcome_exposure unfolding eff
      by (cases "set_field BUCKET_ID ''last_outcome'' (VStr ''bulk_blocked'') (cc_exposure (stage_content g))")
        (auto simp: thenE_run requireE_run change_content_def bindE_run upd_cloud_def settled_view_def exposure_def
          stage_content_def getE_def liftE_def updE_def set_field_def split: prod.splits option.splits)
  qed
qed

text \<open>The transition around the effect keeps a snapshot, and refuses steps out of order.\<close>

lemma capture_settled:
  assumes "cloud_stage_capture g = (r, g')"
  shows "r = Inr (cloud_stage_token (cg_sequence g + 1)) \<and> settled_view g' = settled_view g
    \<and> cg_access_staged g' = cg_access_staged g \<and> cg_policy_attempted g' = cg_policy_attempted g"
  using assms by (auto simp: cloud_stage_capture_def prog_simps settled_view_def exposure_def stage_content_def)

definition unchanged_by :: "cloud_stage \<Rightarrow> cloud_stage \<Rightarrow> bool" where
  "unchanged_by g g' \<longleftrightarrow> settled_view g' = settled_view g \<and> (cg_access_staged g \<longrightarrow> cg_access_staged g')
     \<and> (cg_policy_attempted g \<longrightarrow> cg_policy_attempted g')"

lemma decided_step_settled:
  assumes "denied g" and "bindE (get_decision False) (\<lambda>(allowed, reason). thenE (step_effect sha action_id allowed) (ret x)) g = (r, g')"
  shows "unchanged_by g g' \<and> (\<forall>m. r \<noteq> Inl (ActionExecutionError ''containment_mismatch'' m))"
proof (cases "cloud_decision False g")
  case (Inl e)
  then show ?thesis using assms(2) decision_error [OF Inl] by (auto simp: bindE_run get_decision_run unchanged_by_def)
next
  case (Inr d)
  obtain why where d: "cloud_decision False g = Inr (False, why)"
    using Inr denied_decision [OF assms(1), of False "fst d" "snd d"] by (cases d) simp
  obtain q h where e: "step_effect sha action_id False g = (q, h)" by (metis prod.exhaust)
  show ?thesis using assms(2) step_effect_settled [OF assms(1) e]
    by (auto simp: bindE_run get_decision_run d thenE_run e unchanged_by_def split: sum.splits)
qed

lemma cloud_transition_settled:
  assumes "denied g" and "cloud_transition sha action_id results control now g = (r, g')"
  shows "unchanged_by g g' \<and> (\<forall>m. r \<noteq> Inl (ActionExecutionError ''containment_mismatch'' m))"
proof -
  obtain t h where c: "cloud_stage_capture g = (Inr t, h)"
    using capture_settled [of g] by (metis prod.collapse)
  have v: "settled_view h = settled_view g" "cg_access_staged h = cg_access_staged g"
      "cg_policy_attempted h = cg_policy_attempted g" using capture_settled [OF c] by simp_all
  note d = decided_step_settled [OF denied_view [OF v(1), THEN iffD2, OF assms(1)]]
  have "unchanged_by g = unchanged_by h" using v by (simp add: unchanged_by_def fun_eq_iff)
  then show ?thesis
    using assms(2) d [of sha action_id "action_effect [''completed reviewed mock step '' @ action_id] (Some t)"] c v
    by (auto simp: cloud_transition_def checked_def thenE_run bindE_run requireE_run getE_def liftE_def checkpoint_def
        unchanged_by_def split: if_splits sum.splits)
qed

text \<open>The steps of the automation, each with the results the controller has at that time.\<close>

type_synonym cloud_call = "string \<times> string dict \<times> control \<times> int"

fun cloud_steps :: "(string \<Rightarrow> string) \<Rightarrow> cloud_call list \<Rightarrow> cloud_stage \<Rightarrow> cloud_stage" where
  "cloud_steps sha [] g = g"
| "cloud_steps sha ((action_id, results, control, now) # cs) g =
     cloud_steps sha cs (snd (cloud_transition sha action_id results control now g))"

lemma cloud_steps_settled: "denied g \<Longrightarrow> unchanged_by g (cloud_steps sha cs g)"
proof (induction sha cs g rule: cloud_steps.induct)
  case (2 sha action_id results control now cs g)
  let ?h = "snd (cloud_transition sha action_id results control now g)"
  have h: "unchanged_by g ?h" using cloud_transition_settled [OF 2(2) prod.collapse [symmetric]] by simp
  then have "denied ?h" using 2(2) denied_view [of ?h g] by (simp add: unchanged_by_def)
  then show ?case using 2(1) h by (simp add: unchanged_by_def)
qed (simp add: unchanged_by_def)

text \<open>C39: Once the third checkpoint is passed, no series of the reviewed cloud steps, whatever their order and
  times, reads another record: the records accessed, the confirmed count, keys, principals and policies stay,
  no decision of the mock cloud allows access, the verification of the denied bulk request never reports a
  mismatch, and evaluating the checkpoint again gives the same verdict.
\<close>

theorem passed_cloud_denies_bulk:
  assumes "evaluate_cloud g = Inr ev" and "ce_passed ev"
  shows "exposure (cloud_steps sha cs g) = exposure g \<and> evaluate_cloud (cloud_steps sha cs g) = Inr ev
    \<and> (\<forall>bulk reason. cloud_decision bulk (cloud_steps sha cs g) \<noteq> Inr (True, reason))
    \<and> (\<forall>action_id results control now m. fst (cloud_transition sha action_id results control now (cloud_steps sha cs g))
          \<noteq> Inl (ActionExecutionError ''containment_mismatch'' m))"
proof -
  let ?g = "cloud_steps sha cs g"
  note p = passed_denies [OF assms]
  have u: "unchanged_by g ?g" using cloud_steps_settled [OF p(1)] .
  then have d: "denied ?g" using p(1) denied_view [of ?g g] by (simp add: unchanged_by_def)
  have "evaluate_cloud ?g = evaluate_cloud g"
    using u p(2,3) by (intro evaluation_view) (auto simp: unchanged_by_def)
  moreover have "fst (cloud_transition sha action_id results control now ?g) \<noteq> Inl (ActionExecutionError ''containment_mismatch'' m)"
    for action_id results control now m
    using cloud_transition_settled [OF d prod.collapse [symmetric]] by simp
  moreover have "cloud_decision bulk ?g \<noteq> Inr (True, reason)" for bulk reason
    using denied_decision [OF d, of bulk True reason] by blast
  ultimately show ?thesis using u assms(1) by (simp add: unchanged_by_def settled_view_def)
qed

section \<open>A contained stage\<close>

definition sample_access_event :: event where
  "sample_access_event = make_event sample_context
     (cloud_event ''cloud.object.accessed'' ''read'' ''one record'' True [(''confirmed_count'', VInt 1)]) 1 ''ev-1'' ''t''"

definition sample_cloud_stage :: cloud_stage where
  "sample_cloud_stage = (new_cloud_stage id ''ex'' ''run'')
     \<lparr>cg_state := cloud_state_of ((cloud_baseline_content id)
        \<lparr>cc_keys := [(KEY_ID, [(''principal_id'', VStr PRINCIPAL_ID), (''active'', VBool False)])],
         cc_exposure := [(BUCKET_ID, [(''accessed_record_ids'', VList [VStr (record_name 1)]),
           (''confirmed_count'', VInt 1), (''last_outcome'', VStr ''sample_access'')])]\<rparr>),
      cg_audit := [sample_access_event], cg_access_staged := True, cg_policy_attempted := True,
      cg_assessment := Some \<lparr>as_principal = VStr PRINCIPAL_ID, as_count = 1,
        as_conclusion = ''mock_access_only'', as_evidence = [''ev-1'']\<rparr>\<rparr>"

lemma sample_cited: "cites_exposure (cg_assessment sample_cloud_stage) sample_access_event = Inr True"
  by code_simp

lemma sample_cloud_passes: "\<exists>ev. evaluate_cloud sample_cloud_stage = Inr ev \<and> ce_passed ev"
  by (simp add: evaluate_cloud_def cloud_checks_def sample_cited [unfolded sample_cloud_stage_def, simplified]
      sample_cloud_stage_def new_cloud_stage_def cloud_state_of_def cloud_baseline_content_def bucket_row_def
      both_def get_field_def ditem_def evaluation_def num_of_def Let_def)

lemma passed_cloud_denies_bulk_witness:
  "exposure (cloud_steps id [(''cloud.bulk.verify'', [(''DP3'', ''pass'')], \<lparr>ct_deadline = 20, ct_cancelled = False\<rparr>, 3)]
      sample_cloud_stage) = exposure sample_cloud_stage"
proof -
  obtain ev where "evaluate_cloud sample_cloud_stage = Inr ev" "ce_passed ev" using sample_cloud_passes by blast
  from passed_cloud_denies_bulk [OF this] show ?thesis by blast
qed

end
