(* ===== verification/ProfileProps.thy ===== *)
theory ProfileProps
  imports Profiles "HOL-Library.Multiset"
begin

text \<open>
  The catalogue of reviewed profiles: what an accepted bundle contains, and that the order of the profiles
  in the file does not matter.
\<close>

section \<open>Acceptance does not depend on the position\<close>

lemma expect_fields_ok: "expect_fields p i m fs = Inr u \<longleftrightarrow>
    list_all (\<lambda>(k, v). \<exists>x. ditem p k = Inr x \<and> val_eq x v) fs"
proof -
  let ?f = "\<lambda>(k, v). bindR (ditem p k) (\<lambda>x. requireR (val_eq x v) (at_profile i (''.'' @ k @ m)))"
  have "(\<exists>ys. mapR ?f fs = Inr ys) \<longleftrightarrow> list_all (\<lambda>(k, v). \<exists>x. ditem p k = Inr x \<and> val_eq x v) fs"
    by (induction fs) auto
  then show ?thesis by (simp add: expect_fields_def)
qed

lemma check_candidate_ok: "check_candidate ps i rc = Inr u \<longleftrightarrow> check_candidate ps 0 rc = Inr u"
  by (auto simp: check_candidate_def split: prod.splits)

lemma mapR_ok_cong:
  assumes "\<And>x y. f x = Inr y \<longleftrightarrow> g x = Inr y"
  shows "mapR f xs = Inr ys \<longleftrightarrow> mapR g xs = Inr ys"
  using assms by (simp add: mapR_Inr)

lemma check_emails_ok: "check_emails ps p i = Inr u \<longleftrightarrow> check_emails ps p 0 = Inr u"
  by (simp add: check_emails_def mapR_ok_cong [of "check_candidate ps i" "check_candidate ps 0", OF check_candidate_ok])

lemma validate_reviewed_ok: "validate_reviewed pe seed p e i = Inr u \<longleftrightarrow> validate_reviewed pe seed p e 0 = Inr u"
  by (simp add: validate_reviewed_def expect_fields_ok check_emails_ok [of _ _ i] Let_def)

section \<open>The entry of a profile\<close>

text \<open>The identifier and record an accepted profile adds.\<close>

definition accepted :: "profile_env \<Rightarrow> string \<Rightarrow> val \<Rightarrow> string \<Rightarrow> row \<Rightarrow> bool" where
  "accepted pe seed profile k r \<longleftrightarrow> pe_error pe profile = None \<and>
     (\<exists>d e. profile = VDict d \<and> map_of d ''employee_id'' = Some (VStr k)
       \<and> map_of (approved_roster (pe_roster pe)) k = Some e \<and> validate_reviewed pe seed d e 0 = Inr ()
       \<and> r = set_default ''phone_numbers'' (VList []) (set_default ''email_candidates'' (VList []) d))"

lemma accepted_unique: "accepted pe seed p k r \<Longrightarrow> accepted pe seed p k' r' \<Longrightarrow> k' = k \<and> r' = r"
  by (auto simp: accepted_def)

lemma add_profile_dict:
  assumes "pe_error pe (VDict d) = None"
  shows "add_profile pe seed (i, VDict d) t = Inr t' \<longleftrightarrow>
    (\<exists>k e. map_of d ''employee_id'' = Some (VStr k) \<and> \<not> has_key t k \<and> map_of (approved_roster (pe_roster pe)) k = Some e
      \<and> validate_reviewed pe seed d e 0 = Inr ()
      \<and> t' = dset k (set_default ''phone_numbers'' (VList []) (set_default ''email_candidates'' (VList []) d)) t)"
proof (cases "\<exists>k. map_of d ''employee_id'' = Some (VStr k)")
  case True
  then obtain k where k: "map_of d ''employee_id'' = Some (VStr k)" by blast
  show ?thesis
    by (cases "map_of (approved_roster (pe_roster pe)) k")
      (auto simp: add_profile_def assms item_of_def ditem_def hashed_def k validate_reviewed_ok [of _ _ _ _ i])
next
  case False
  then have "add_profile pe seed (i, VDict d) t \<noteq> Inr t'"
    by (auto simp: add_profile_def assms item_of_def ditem_def hashed_def split: option.split val.split)
  then show ?thesis using False by auto
qed

lemma add_profile_ok: "add_profile pe seed (i, p) t = Inr t' \<longleftrightarrow>
    (\<exists>k r. accepted pe seed p k r \<and> \<not> has_key t k \<and> t' = dset k r t)"
proof (cases "pe_error pe p = None \<and> (\<exists>d. p = VDict d)")
  case True
  then obtain d where p: "pe_error pe (VDict d) = None" "p = VDict d" by blast
  show ?thesis unfolding p(2) add_profile_dict [OF p(1)] accepted_def using p(1) by auto
next
  case False
  then have "add_profile pe seed (i, p) t \<noteq> Inr t'"
    by (auto simp: add_profile_def item_of_def split: option.splits val.splits)
  then show ?thesis using False by (auto simp: accepted_def)
qed

lemma dset_fresh: "\<not> has_key t k \<Longrightarrow> dset k r t = t @ [(k, r)]"
  by (induction t) (auto simp: has_key_def split: if_splits)

lemma has_key_set: "has_key t k \<longleftrightarrow> k \<in> fst ` set t"
  by (simp add: has_key_def dom_map_of_conv_image_fst [symmetric] domIff)

lemma dset_fresh': "k \<notin> fst ` set t \<Longrightarrow> dset k r t = t @ [(k, r)]"
  using dset_fresh by (simp add: has_key_set)

lemma add_profiles_ok: "add_profiles pe seed ips t = Inr t' \<longleftrightarrow>
    (\<exists>es. t' = t @ es \<and> list_all2 (\<lambda>ip e. accepted pe seed (snd ip) (fst e) (snd e)) ips es
      \<and> distinct (map fst es) \<and> fst ` set es \<inter> fst ` set t = {})"
proof (induction ips arbitrary: t)
  case (Cons ip ips)
  obtain i p where ip: "ip = (i, p)" by (cases ip)
  have step: "add_profile pe seed ip t = Inr u \<longleftrightarrow> (\<exists>k r. accepted pe seed p k r \<and> k \<notin> fst ` set t \<and> u = t @ [(k, r)])" for u
    unfolding ip add_profile_ok has_key_set using dset_fresh' by metis
  have "add_profiles pe seed (ip # ips) t = Inr t' \<longleftrightarrow> (\<exists>k r. accepted pe seed p k r \<and> k \<notin> fst ` set t
      \<and> add_profiles pe seed ips (t @ [(k, r)]) = Inr t')"
    by (simp only: add_profiles.simps bindR_Inr step) blast
  also have "\<dots> \<longleftrightarrow> (\<exists>es. t' = t @ es \<and> list_all2 (\<lambda>ip e. accepted pe seed (snd ip) (fst e) (snd e)) (ip # ips) es
      \<and> distinct (map fst es) \<and> fst ` set es \<inter> fst ` set t = {})"
    unfolding Cons.IH by (auto simp: ip list_all2_Cons1; force)
  finally show ?case .
qed auto

text \<open>A bundle is accepted when every profile is and their identifiers differ.\<close>

lemma bundle_ok: "add_profiles pe seed (enumerate n ps) [] = Inr t \<longleftrightarrow>
    list_all2 (\<lambda>p e. accepted pe seed p (fst e) (snd e)) ps t \<and> distinct (map fst t)"
proof -
  have "list_all2 (\<lambda>ip e. accepted pe seed (snd ip) (fst e) (snd e)) (enumerate n ps) t
      = list_all2 (\<lambda>p e. accepted pe seed p (fst e) (snd e)) ps t"
    by (simp add: list_all2_conv_all_nth nth_enumerate_eq cong: conj_cong)
  then show ?thesis by (simp add: add_profiles_ok)
qed

section \<open>Reordering a bundle\<close>

lemma list_all2_perm:
  assumes "list_all2 P xs ys" and "mset xs' = mset xs"
  shows "\<exists>ys'. list_all2 P xs' ys' \<and> mset ys' = mset ys"
  using assms by (metis list_all2_reorder_left_invariance)

lemma mapR_names:
  assumes "mapR f xs = Inr ys" and "mset xs' = mset xs"
  shows "\<exists>ys'. mapR f xs' = Inr ys' \<and> mset ys' = mset ys"
  using list_all2_perm [of "\<lambda>x y. f x = Inr y" xs ys xs'] assms by (simp add: mapR_Inr)

lemma mset_single: "mset xs = mset [x] \<Longrightarrow> xs = [x]"
  by simp

lemma filter_one:
  assumes "mset ys' = mset ys" and "filter P ys = [y]"
  shows "filter P ys' = [y]"
  by (rule mset_single) (use assms in \<open>metis mset_filter\<close>)

lemma directory_perm:
  assumes "mset t' = mset t" and "distinct (map fst t)"
  shows "directory_of t' = directory_of t"
proof -
  have "sort_key fst t' = sort_key fst t"
  proof (rule sort_key_inj_key_eq)
    show "mset t' = mset (sort_key fst t)" using assms(1) by simp
    show "inj_on fst (set t')" using assms by (metis distinct_map set_mset_mset)
    show "sorted (map fst (sort_key fst t))" by simp
  qed
  then show ?thesis by (simp add: directory_of_def)
qed

lemma lookup_perm:
  assumes "mset t' = mset t" and "distinct (map fst t)"
  shows "map_of t' = map_of t"
proof -
  have "distinct (map fst t')" using assms by (metis distinct_map mset_eq_imp_distinct_iff set_mset_mset)
  then show ?thesis using assms by (metis map_of_inject_set set_mset_mset)
qed

lemma binding_perm: "map_of t' = map_of t \<Longrightarrow> binding t' v label = binding t v label"
  unfolding binding_def by (erule ssubst) (rule refl)

definition profile_bundle :: "string \<Rightarrow> val list \<Rightarrow> val" where
  "profile_bundle seed ps = VDict [(''schema_version'', VStr ''1.0.0''), (''seed'', VStr seed), (''profiles'', VList ps)]"

lemma bundle_profiles_ok: "bundle_profiles seed (profile_bundle s ps) = Inr given \<longleftrightarrow>
    s = seed \<and> given = ps \<and> 1 \<le> length ps \<and> length ps \<le> 100"
  by (auto simp: bundle_profiles_def profile_bundle_def keys_are_def ditem_def bundle_size_error_def insert_commute)

text \<open>The manager binding: the one profile of the name.\<close>

definition boss_of :: "table \<Rightarrow> val \<Rightarrow> exc + row" where
  "boss_of profiles manager = bindR (mapR (\<lambda>p. map_result (Pair p) (ditem p ''name'')) (map snd profiles)) (\<lambda>names.
     case filter (\<lambda>(p, n). val_eq n manager) names of [(p, n)] \<Rightarrow> Inr p
     | _ \<Rightarrow> Inl (profile_error ''identity manager must resolve to one reviewed profile''))"

lemma boss_perm:
  assumes "mset t' = mset t" and "boss_of t manager = Inr p"
  shows "boss_of t' manager = Inr p"
proof -
  obtain names where n: "mapR (\<lambda>p. map_result (Pair p) (ditem p ''name'')) (map snd t) = Inr names"
    and c: "(case filter (\<lambda>(p, n). val_eq n manager) names of [(p, n)] \<Rightarrow> Inr p
     | _ \<Rightarrow> Inl (profile_error ''identity manager must resolve to one reviewed profile'')) = Inr p"
    using assms(2) unfolding boss_of_def by (elim bindR_InrE)
  obtain n0 where f: "filter (\<lambda>(p, n). val_eq n manager) names = [(p, n0)]"
    using c by (auto split: list.splits prod.splits)
  have "mset (map snd t') = mset (map snd t)" using assms(1) by simp
  from mapR_names [OF n this] obtain names'
    where n': "mapR (\<lambda>p. map_result (Pair p) (ditem p ''name'')) (map snd t') = Inr names'" "mset names' = mset names"
    by blast
  show ?thesis by (simp add: boss_of_def n'(1) filter_one [OF n'(2) f] del: bindR_Inr)
qed

text \<open>The catalogue of the accepted profiles.\<close>

definition catalog_of :: "profile_env \<Rightarrow> string \<Rightarrow> table \<Rightarrow> val \<Rightarrow> val \<Rightarrow> exc + catalog" where
  "catalog_of pe seed profiles identity_id helpdesk_id =
    bindR (binding profiles identity_id ''identity'') (\<lambda>identity.
    bindR (binding profiles helpdesk_id ''helpdesk'') (\<lambda>helpdesk.
    bindR (ditem helpdesk ''role_group'') (\<lambda>role.
    bindR (requireR (val_eq role (VStr ''Helpdesk''))
      (profile_error ''helpdesk profile binding must have a reviewed Helpdesk role'')) (\<lambda>_.
    bindR (ditem identity ''employee_id'') (\<lambda>i. bindR (ditem helpdesk ''employee_id'') (\<lambda>h.
    bindR (requireR (\<not> val_eq i h)
      (profile_error ''identity and helpdesk bindings must be different'')) (\<lambda>_.
    bindR (ditem identity ''manager'') (\<lambda>manager.
    bindR (boss_of profiles manager) (\<lambda>boss.
    bindR (directory_of profiles) (\<lambda>directory.
      Inr \<lparr>ca_seed = seed, ca_profiles = profiles, ca_identity = identity, ca_helpdesk = helpdesk,
           ca_manager = boss,
           ca_fingerprint = pe_sha256 pe (json_dumps (VDict
             [(''seed'', VStr seed), (''profiles'', VList (map VDict directory))]))\<rparr>))))))))))"

lemma bindR_assoc: "bindR (bindR r f) g = bindR r (\<lambda>x. bindR (f x) g)"
  by (cases r) auto

lemma profile_catalog_eq: "profile_catalog pe payload expected_seed identity_id helpdesk_id =
    bindR (validate_seed expected_seed) (\<lambda>seed. bindR (bundle_profiles seed payload) (\<lambda>given.
    bindR (add_profiles pe seed (enumerate 0 given) []) (\<lambda>profiles. catalog_of pe seed profiles identity_id helpdesk_id)))"
  unfolding profile_catalog_def catalog_of_def boss_of_def bindR_assoc ..

lemma catalog_perm:
  assumes "catalog_of pe seed t i h = Inr c" and "mset t' = mset t" and "distinct (map fst t)"
  shows "catalog_of pe seed t' i h = Inr (c\<lparr>ca_profiles := t'\<rparr>)"
proof -
  note same = directory_perm [OF assms(2,3)] binding_perm [OF lookup_perm [OF assms(2,3)]]
  show ?thesis
    using assms(1) unfolding catalog_of_def same by (elim bindR_InrE) (auto simp: boss_perm [OF assms(2)])
qed

text \<open>The order of the profiles in the file does not matter: when a bundle is accepted, the bundle with its
  profiles in any other order is accepted too, with the same bindings, the same directory and the same
  fingerprint.
\<close>

theorem catalog_order_independent:
  assumes "profile_catalog pe (profile_bundle s ps) (VStr seed) i h = Inr c" and "mset ps' = mset ps"
  shows "\<exists>profiles. profile_catalog pe (profile_bundle s ps') (VStr seed) i h = Inr (c\<lparr>ca_profiles := profiles\<rparr>)
    \<and> mset profiles = mset (ca_profiles c) \<and> directory_of profiles = catalog_directory c"
proof -
  obtain t where v: "validate_seed (VStr seed) = Inr seed" "s = seed" "1 \<le> length ps" "length ps \<le> 100"
    and t: "add_profiles pe seed (enumerate 0 ps) [] = Inr t" and c: "catalog_of pe seed t i h = Inr c"
    using assms(1) unfolding profile_catalog_eq
    by (auto simp: bundle_profiles_ok validate_seed_def Let_def split: if_splits)
  have a: "list_all2 (\<lambda>p e. accepted pe seed p (fst e) (snd e)) ps t" and d: "distinct (map fst t)"
    using t by (simp_all add: bundle_ok)
  from list_all2_perm [OF a assms(2)] obtain t'
    where a': "list_all2 (\<lambda>p e. accepted pe seed p (fst e) (snd e)) ps' t'" and m: "mset t' = mset t" by blast
  have "distinct (map fst t')" using d m by (metis mset_map mset_eq_imp_distinct_iff)
  then have t': "add_profiles pe seed (enumerate 0 ps') [] = Inr t'" using a' by (simp add: bundle_ok)
  have "length ps' = length ps" using assms(2) by (metis size_mset)
  then have "profile_catalog pe (profile_bundle s ps') (VStr seed) i h = Inr (c\<lparr>ca_profiles := t'\<rparr>)"
    using v t' catalog_perm [OF c m d] by (simp add: profile_catalog_eq bundle_profiles_ok)
  moreover have "ca_profiles c = t" using c by (auto simp: catalog_of_def)
  ultimately show ?thesis using m directory_perm [OF m d] by (auto simp: catalog_directory_def)
qed

section \<open>What is in a catalogue\<close>

text \<open>A profile of the roster under the exercise's seed; every address is in the reserved domain.\<close>

definition reserved_addresses :: "row \<Rightarrow> bool" where
  "reserved_addresses r \<longleftrightarrow> (\<forall>cs candidate. map_of r ''email_candidates'' = Some (VList cs) \<longrightarrow> candidate \<in> set cs \<longrightarrow>
     (\<exists>local. item_of candidate ''address'' = Inr (VStr (local @ ''@simcorp.test''))))"

definition reviewed :: "profile_env \<Rightarrow> string \<Rightarrow> string \<Rightarrow> row \<Rightarrow> bool" where
  "reviewed pe seed k r \<longleftrightarrow> reserved_addresses r \<and> (\<exists>e. map_of (approved_roster (pe_roster pe)) k = Some e
     \<and> map_of r ''employee_id'' = Some (VStr k) \<and> map_of r ''name'' = Some (VStr (em_name e))
     \<and> map_of r ''title'' = Some (VStr (em_title e)) \<and> map_of r ''department'' = Some (VStr (em_department e))
     \<and> map_of r ''id'' = Some (VStr (profile_id (pe_uuid5 pe) seed (em_id e)))
     \<and> map_of r ''username'' = Some (VStr (lower (em_first e) @ ''@simcorp.test''))
     \<and> map_of r ''role_group'' = Some (VStr (normalise_role_group (em_title e))))"

lemma set_default_keeps: "map_of d k = Some v \<Longrightarrow> map_of (set_default j w d) k = Some v"
  by (simp add: set_default_def)

lemma set_default_other: "k \<noteq> j \<Longrightarrow> map_of (set_default j w d) k = map_of d k"
  by (auto simp: set_default_def map_add_def split: option.split)

lemma candidate_reserved: "check_candidate ps i rc = Inr u \<Longrightarrow>
    \<exists>local. item_of (snd rc) ''address'' = Inr (VStr (local @ ''@simcorp.test''))"
  by (cases rc) (auto simp: check_candidate_def split: if_splits)

lemma emails_reserved:
  assumes "check_emails ps d i = Inr u"
  shows "reserved_addresses d"
  unfolding reserved_addresses_def
proof (intro allI impI)
  fix cs candidate
  assume cs: "map_of d ''email_candidates'' = Some (VList cs)" "candidate \<in> set cs"
  have "\<exists>us. mapR (check_candidate ps i) (zip (map int [1..<Suc (length cs)]) cs) = Inr us"
    using assms by (simp add: check_emails_def cs(1) list_of_def del: upt_Suc) blast
  then obtain us where "mapR (check_candidate ps i) (zip (map int [1..<Suc (length cs)]) cs) = Inr us" by blast
  moreover obtain n where "(n, candidate) \<in> set (zip (map int [1..<Suc (length cs)]) cs)"
    using cs(2) in_set_impl_in_set_zip2 [of "map int [1..<Suc (length cs)]" cs candidate] by (auto simp del: upt_Suc)
  ultimately obtain u where "check_candidate ps i (n, candidate) = Inr u"
    by (auto simp: mapR_Inr list_all2_conv_all_nth in_set_conv_nth simp del: upt_Suc)
  then show "\<exists>local. item_of candidate ''address'' = Inr (VStr (local @ ''@simcorp.test''))"
    using candidate_reserved by fastforce
qed

lemma reserved_default: "reserved_addresses d \<Longrightarrow> reserved_addresses
    (set_default ''phone_numbers'' v (set_default ''email_candidates'' (VList []) d))"
  by (auto simp: reserved_addresses_def set_default_other) (auto simp: set_default_def has_key_def split: if_splits)

lemma accepted_reviewed:
  assumes "accepted pe seed p k r"
  shows "reviewed pe seed k r"
proof -
  obtain d e where d: "map_of d ''employee_id'' = Some (VStr k)" "map_of (approved_roster (pe_roster pe)) k = Some e"
      "validate_reviewed pe seed d e 0 = Inr ()"
      "r = set_default ''phone_numbers'' (VList []) (set_default ''email_candidates'' (VList []) d)"
    using assms by (auto simp: accepted_def)
  obtain ps where "check_emails ps d 0 = Inr ()"
    using d(3) unfolding validate_reviewed_def Let_def by (elim bindR_InrE) blast
  from emails_reserved [OF this] have "reserved_addresses r" using d(4) reserved_default by simp
  then show ?thesis using d
    by (auto simp: reviewed_def validate_reviewed_def expect_fields_ok Let_def set_default_keeps)
qed

lemma names_named: "mapR (\<lambda>p. map_result (Pair p) (ditem p ''name'')) ps = Inr names \<Longrightarrow>
    (p, n) \<in> set names \<longleftrightarrow> p \<in> set ps \<and> map_of p ''name'' = Some n"
  by (induction ps arbitrary: names) (auto simp: map_result_def ditem_def split: sum.splits option.splits)

lemma boss_unique:
  assumes "boss_of t manager = Inr boss"
  shows "(\<exists>k. (k, boss) \<in> set t) \<and> (\<exists>n. map_of boss ''name'' = Some n \<and> val_eq n manager)
    \<and> (\<forall>k r n. (k, r) \<in> set t \<longrightarrow> map_of r ''name'' = Some n \<longrightarrow> val_eq n manager \<longrightarrow> r = boss)"
proof -
  let ?f = "\<lambda>p. map_result (Pair p) (ditem p ''name'')"
  obtain names where n: "mapR ?f (map snd t) = Inr names"
    and c: "(case filter (\<lambda>(p, n). val_eq n manager) names of [(p, n)] \<Rightarrow> Inr p
     | _ \<Rightarrow> Inl (profile_error ''identity manager must resolve to one reviewed profile'')) = Inr boss"
    using assms unfolding boss_of_def by (elim bindR_InrE)
  obtain n0 where "filter (\<lambda>(p, n). val_eq n manager) names = [(boss, n0)]"
    using c by (auto split: list.splits prod.splits)
  then have "set (filter (\<lambda>(p, n). val_eq n manager) names) = {(boss, n0)}" by simp
  then have f: "(p, n) \<in> set names \<and> val_eq n manager \<longleftrightarrow> p = boss \<and> n = n0" for p n by (auto simp: set_eq_iff)
  have mem: "(p, n) \<in> set names \<longleftrightarrow> (\<exists>k. (k, p) \<in> set t) \<and> map_of p ''name'' = Some n" for p n
    unfolding names_named [OF n] by force
  show ?thesis using f [unfolded mem] by blast
qed

lemma bundle_profiles_size: "bundle_profiles seed payload = Inr given \<Longrightarrow> 1 \<le> length given \<and> length given \<le> 100"
  unfolding bundle_profiles_def
  by (elim bindR_InrE) (auto split: val.split_asm if_splits simp del: bindR_Inr simp: bundle_size_error_def)

lemma catalog_of_seed: "catalog_of pe seed t i h = Inr c \<Longrightarrow> ca_seed c = seed"
  by (auto simp: catalog_of_def)

lemma catalog_of_bindings:
  assumes "catalog_of pe seed t i h = Inr c"
  shows "binding t i ''identity'' = Inr (ca_identity c) \<and> binding t h ''helpdesk'' = Inr (ca_helpdesk c)
    \<and> map_of (ca_helpdesk c) ''role_group'' = Some (VStr ''Helpdesk'')
    \<and> (\<exists>x y. map_of (ca_identity c) ''employee_id'' = Some x \<and> map_of (ca_helpdesk c) ''employee_id'' = Some y \<and> \<not> val_eq x y)
    \<and> (\<exists>m. map_of (ca_identity c) ''manager'' = Some m \<and> boss_of t m = Inr (ca_manager c))"
  using assms by (auto simp: catalog_of_def)


section \<open>A bundle of two\<close>

definition sample_employee :: "string \<Rightarrow> string \<Rightarrow> string \<Rightarrow> string \<Rightarrow> string option \<Rightarrow> employee" where
  "sample_employee i first surname title manager = \<lparr>em_id = i, em_name = first @ '' '' @ surname, em_title = title,
     em_department = ''IT'', em_manager = manager, em_first = first, em_last = surname\<rparr>"

definition sample_profile_env :: profile_env where
  "sample_profile_env = \<lparr>pe_error = (\<lambda>_. None), pe_uuid5 = id, pe_sha256 = (\<lambda>s. nat_str (length s)),
     pe_roster = [sample_employee ''e1'' ''Ann'' ''Lee'' ''Legal Counsel'' (Some ''Bob Ray''),
       sample_employee ''e2'' ''Bob'' ''Ray'' ''Helpdesk Technician'' None]\<rparr>"

definition sample_profile :: "string \<Rightarrow> string \<Rightarrow> string \<Rightarrow> string \<Rightarrow> string \<Rightarrow> val \<Rightarrow> string \<Rightarrow> val" where
  "sample_profile i name user title role manager confidence = VDict
     [(''employee_id'', VStr i), (''id'', VStr (''netstrike:profile:v1:s:'' @ i)), (''name'', VStr name),
      (''title'', VStr title), (''department'', VStr ''IT''), (''manager'', manager), (''username'', VStr (user @ ''@simcorp.test'')),
      (''role_group'', VStr role), (''confidence'', VDict [(''manager'', VStr confidence)]),
      (''email_candidates'', VList [VDict [(''rank'', VInt 1), (''address'', VStr (user @ ''@simcorp.test'')), (''pattern'', VStr ''first'')]])]"

definition sample_profiles :: "val list" where
  "sample_profiles = [sample_profile ''e1'' ''Ann Lee'' ''ann'' ''Legal Counsel'' ''Staff'' (VStr ''Bob Ray'') ''explicit'',
     sample_profile ''e2'' ''Bob Ray'' ''bob'' ''Helpdesk Technician'' ''Helpdesk'' VNone ''unknown'']"

lemma sample_catalog_loads: "case profile_catalog sample_profile_env (profile_bundle ''s'' sample_profiles) (VStr ''s'')
    (VStr ''e1'') (VStr ''e2'') of Inl e \<Rightarrow> False | Inr c \<Rightarrow> True"
  by code_simp

lemma sample_catalog: "\<exists>c. profile_catalog sample_profile_env (profile_bundle ''s'' sample_profiles) (VStr ''s'')
    (VStr ''e1'') (VStr ''e2'') = Inr c"
  using sample_catalog_loads by (simp split: sum.splits)

lemma catalog_order_independent_witness:
  "\<exists>c. profile_catalog sample_profile_env (profile_bundle ''s'' (rev sample_profiles)) (VStr ''s'') (VStr ''e1'') (VStr ''e2'') = Inr c"
proof -
  obtain c where c: "profile_catalog sample_profile_env (profile_bundle ''s'' sample_profiles) (VStr ''s'')
      (VStr ''e1'') (VStr ''e2'') = Inr c" using sample_catalog by blast
  show ?thesis using catalog_order_independent [OF c, of "rev sample_profiles"] by auto
qed


end
