(* ===== verification/Sso.thy ===== *)
theory Sso
  imports Mfa
begin

text \<open>
  \<^verbatim>\<open>dashboard/sso.py\<close>: the contained sign-in experience of the participants. A sign-in fails a configured
  number of times, then a challenge is pending until it is decided or expires. Text is ASCII, so that
  \<open>casefold\<close> is \<open>lower\<close>; the clock gives UTC instants, \<open>compare_digest\<close> is equality. What the audit sink
  does with a payload is a function of the payloads it has taken before.
\<close>

section \<open>Configuration\<close>

definition sso_error :: "string \<Rightarrow> exc" where
  "sso_error message = OtherError ''SsoExperienceError'' message"

definition sso_boundary :: "string \<Rightarrow> exc" where
  "sso_boundary message = OtherError ''SsoBoundaryError'' message"

definition CONFIG_FIELDS :: "string list" where
  "CONFIG_FIELDS = [''service_name'', ''heading'', ''introduction'', ''identity'', ''initial_failures_before_mfa'',
     ''lockout_threshold'', ''mfa_timeout_seconds'', ''messages'', ''suspicious_sessions'']"

definition MESSAGE_FIELDS :: "string list" where
  "MESSAGE_FIELDS = [''failure'', ''locked'', ''mfa'', ''success'', ''suspicious'', ''rejected'']"

definition GENERATED_SESSION_ID :: string where
  "GENERATED_SESSION_ID = ''sess-sso-current''"

definition username_char :: "char \<Rightarrow> bool" where
  "username_char c \<longleftrightarrow> is_alnum c \<or> c \<in> set ''._+-''"

definition domain_char :: "char \<Rightarrow> bool" where
  "domain_char c \<longleftrightarrow> is_alnum c \<or> c \<in> set ''.-''"

text \<open>\<open>_USERNAME\<close>; neither part contains the separator.\<close>

definition username_ok :: "string \<Rightarrow> bool" where
  "username_ok s \<longleftrightarrow> (let name = takeWhile (\<lambda>c. c \<noteq> CHR 0x40) s; rest = drop (length name + 1) s in
     name \<noteq> [] \<and> list_all username_char name \<and> length name < length s \<and> ends_with ''.test'' rest
       \<and> 5 < length rest \<and> list_all domain_char rest)"

definition sso_text :: "row \<Rightarrow> string \<Rightarrow> nat \<Rightarrow> exc + string" where
  "sso_text value fld maximum = (case map_of value fld of
     Some (VStr s) \<Rightarrow> if strip s = [] \<or> maximum < length s
       then Inl (sso_error (fld @ '' must be a non-empty string'')) else Inr (strip s)
   | _ \<Rightarrow> Inl (sso_error (fld @ '' must be a non-empty string'')))"

record suspicious_session =
  sp_session_id :: string
  sp_label :: string
  sp_location :: string
  sp_last_seen :: string

definition session_from_mapping :: "row \<Rightarrow> exc + suspicious_session" where
  "session_from_mapping value =
    bindR (requireR (keys_are value [''id'', ''label'', ''location'', ''last_seen''])
      (sso_error ''suspicious session fields are invalid'')) (\<lambda>_.
    bindR (sso_text value ''id'' 256) (\<lambda>session_id.
    bindR (requireR (is_identifier session_id) (sso_error ''suspicious session id is invalid'')) (\<lambda>_.
    bindR (sso_text value ''label'' 256) (\<lambda>label. bindR (sso_text value ''location'' 256) (\<lambda>location.
    bindR (sso_text value ''last_seen'' 256) (\<lambda>last_seen.
      Inr \<lparr>sp_session_id = session_id, sp_label = label, sp_location = location, sp_last_seen = last_seen\<rparr>))))))"

record sso_config =
  sc_service_name :: string
  sc_heading :: string
  sc_introduction :: string
  sc_identity_id :: string
  sc_username :: string
  sc_display_name :: string
  sc_initial_failures :: int
  sc_lockout_threshold :: int
  sc_mfa_timeout :: int
  sc_messages :: "string dict"
  sc_sessions :: "suspicious_session list"

definition sso_sessions :: "row \<Rightarrow> exc + suspicious_session list" where
  "sso_sessions value =
    bindR (case map_of value ''suspicious_sessions'' of Some (VList (x # xs)) \<Rightarrow> Inr (x # xs)
      | _ \<Rightarrow> Inl (sso_error ''scenario SSO requires at least one suspicious session'')) (\<lambda>raw.
    bindR (mapR (\<lambda>v. case v of VDict d \<Rightarrow> Inr d
      | _ \<Rightarrow> Inl (sso_error ''every suspicious session must be an object'')) raw) (\<lambda>rows.
    bindR (mapR session_from_mapping rows) (\<lambda>sessions.
    bindR (requireR (distinct (map sp_session_id sessions))
      (sso_error ''suspicious session ids must be unique'')) (\<lambda>_. Inr sessions))))"

text \<open>An integer of Python; truth values are integers too.\<close>

definition sso_int :: "row \<Rightarrow> string \<Rightarrow> (int \<Rightarrow> bool) \<Rightarrow> string \<Rightarrow> exc + int" where
  "sso_int value fld good message = (case Option.bind (map_of value fld) num_of of
     Some n \<Rightarrow> if good n then Inr n else Inl (sso_error message)
   | None \<Rightarrow> Inl (sso_error message))"

text \<open>\<open>SsoExperienceConfig.from_mapping\<close>.\<close>

definition sso_from_mapping :: "val \<Rightarrow> exc + sso_config" where
  "sso_from_mapping v =
    bindR (case v of VDict d \<Rightarrow> requireR (keys_are d CONFIG_FIELDS) (sso_error ''scenario SSO configuration fields are invalid'')
      | _ \<Rightarrow> Inl (sso_error ''scenario SSO configuration fields are invalid'')) (\<lambda>_.
    (let value = (case v of VDict d \<Rightarrow> d | _ \<Rightarrow> []) in
    bindR (case map_of value ''identity'' of
        Some (VDict d) \<Rightarrow> if keys_are d [''id'', ''username'', ''display_name''] then Inr d
          else Inl (sso_error ''scenario SSO identity fields are invalid'')
      | _ \<Rightarrow> Inl (sso_error ''scenario SSO identity fields are invalid'')) (\<lambda>raw_identity.
    bindR (sso_text raw_identity ''id'' 256) (\<lambda>identity_id.
    bindR (sso_text raw_identity ''username'' 256) (\<lambda>given.
    (let username = lower given in
    bindR (requireR (is_identifier identity_id) (sso_error ''scenario SSO identity id is invalid'')) (\<lambda>_.
    bindR (requireR (username_ok username)
      (sso_error ''scenario SSO username must use the reserved .test domain'')) (\<lambda>_.
    bindR (case map_of value ''messages'' of
        Some (VDict d) \<Rightarrow> if keys_are d MESSAGE_FIELDS then Inr d
          else Inl (sso_error ''scenario SSO messages are incomplete'')
      | _ \<Rightarrow> Inl (sso_error ''scenario SSO messages are incomplete'')) (\<lambda>raw_messages.
    bindR (mapR (\<lambda>k. map_result (Pair k) (sso_text raw_messages k 512)) (sorted_set MESSAGE_FIELDS)) (\<lambda>messages.
    bindR (sso_sessions value) (\<lambda>sessions.
    bindR (sso_int value ''initial_failures_before_mfa'' (\<lambda>n. 0 \<le> n)
      ''initial_failures_before_mfa must be a non-negative integer'') (\<lambda>initial_failures.
    bindR (sso_int value ''lockout_threshold'' (\<lambda>n. 1 \<le> n) ''lockout_threshold must be a positive integer'') (\<lambda>threshold.
    bindR (sso_int value ''mfa_timeout_seconds'' (\<lambda>n. 10 \<le> n \<and> n \<le> 300)
      ''mfa_timeout_seconds must be between 10 and 300'') (\<lambda>timeout.
    bindR (sso_text value ''service_name'' 128) (\<lambda>service_name. bindR (sso_text value ''heading'' 256) (\<lambda>heading.
    bindR (sso_text value ''introduction'' 512) (\<lambda>introduction.
    bindR (sso_text raw_identity ''display_name'' 256) (\<lambda>display_name.
      Inr \<lparr>sc_service_name = service_name, sc_heading = heading, sc_introduction = introduction,
           sc_identity_id = identity_id, sc_username = username, sc_display_name = display_name,
           sc_initial_failures = initial_failures, sc_lockout_threshold = threshold, sc_mfa_timeout = timeout,
           sc_messages = messages, sc_sessions = sessions\<rparr>))))))))))))))))))"

section \<open>State\<close>

record sso_state =
  ss_view :: string
  ss_failed_attempts :: int
  ss_locked :: bool
  ss_challenge_id :: "string option"
  ss_expires_at :: "int option"
  ss_signed_in :: bool
  ss_reviewed :: bool
  ss_message :: string
  ss_username :: "string option"
  ss_history :: "string list"

definition fresh_sso :: sso_state where
  "fresh_sso = \<lparr>ss_view = ''sign_in'', ss_failed_attempts = 0, ss_locked = False, ss_challenge_id = None,
     ss_expires_at = None, ss_signed_in = False, ss_reviewed = False, ss_message = [], ss_username = None,
     ss_history = []\<rparr>"

record sso_sys =
  sy_world :: world
  sy_identity :: identity_state
  sy_config :: sso_config
  sy_sso :: sso_state
  sy_sent :: "row list"

record sso_env =
  so_env :: env
  so_sink :: "row list \<Rightarrow> row \<Rightarrow> exc option"

definition sso_world :: "(world, 'a) prog \<Rightarrow> (sso_sys, 'a) prog" where
  "sso_world m = zoomE sy_world (\<lambda>w s. s\<lparr>sy_world := w\<rparr>) m"

definition get_sso :: "(sso_state \<Rightarrow> 'a) \<Rightarrow> (sso_sys, 'a) prog" where
  "get_sso f = getE (\<lambda>s. f (sy_sso s))"

definition upd_sso :: "(sso_state \<Rightarrow> sso_state) \<Rightarrow> (sso_sys, unit) prog" where
  "upd_sso f = updE (\<lambda>s. s\<lparr>sy_sso := f (sy_sso s)\<rparr>)"

definition get_config :: "(sso_config \<Rightarrow> 'a) \<Rightarrow> (sso_sys, 'a) prog" where
  "get_config f = getE (\<lambda>s. f (sy_config s))"

definition get_content :: "(identity_content \<Rightarrow> 'a) \<Rightarrow> (sso_sys, 'a) prog" where
  "get_content f = getE (\<lambda>s. f (is_content (sy_identity s)))"

definition change_identity :: "(identity_content \<Rightarrow> exc + identity_content) \<Rightarrow> (sso_sys, unit) prog" where
  "change_identity f = bindE (get_content f) (\<lambda>r. bindE (liftE r) (\<lambda>c.
     updE (\<lambda>s. s\<lparr>sy_identity := (sy_identity s)\<lparr>is_content := c\<rparr>\<rparr>)))"

definition message_of :: "string \<Rightarrow> (sso_sys, string) prog" where
  "message_of k = bindE (get_config (\<lambda>c. ditem (sc_messages c) k)) liftE"

text \<open>\<open>_audit\<close>.\<close>

definition sso_audit :: "sso_env \<Rightarrow> string \<Rightarrow> string \<Rightarrow> string option \<Rightarrow> string option \<Rightarrow> (sso_sys, unit) prog" where
  "sso_audit so action result credential identity_id =
    bindE (sso_world (read_clock (so_env so))) (\<lambda>now.
    bindE (get_config sc_identity_id) (\<lambda>own.
    bindE (sso_world (new_uuid (so_env so))) (\<lambda>i.
    (let payload = [(''phase'', VStr ''identity''),
        (''synthetic_identity'', VStr (case Option.bind identity_id (\<lambda>x. opt_text (Some x)) of Some x \<Rightarrow> x | None \<Rightarrow> own)),
        (''occurred_at'', VStr (iso_millis (dt_us now))), (''action'', VStr action), (''result'', VStr result),
        (''source_event_id'', VStr (''sso-'' @ i))]
        @ (case credential of None \<Rightarrow> [] | Some c \<Rightarrow>
            [(''credential_kind'', VStr ''password''), (''synthetic_credential'', VStr c)]) in
     bindE (getE (\<lambda>s. so_sink so (sy_sent s) payload)) (\<lambda>objection. case objection of
        Some e \<Rightarrow> raise e
      | None \<Rightarrow> updE (\<lambda>s. s\<lparr>sy_sent := sy_sent s @ [payload]\<rparr>))))))"

section \<open>The participant's view\<close>

definition session_row :: "suspicious_session \<Rightarrow> val" where
  "session_row s = VDict [(''id'', VStr (sp_session_id s)), (''label'', VStr (sp_label s)),
     (''location'', VStr (sp_location s)), (''last_seen'', VStr (sp_last_seen s))]"

definition active_sessions :: "sso_config \<Rightarrow> identity_content \<Rightarrow> suspicious_session list" where
  "active_sessions c st = filter (\<lambda>s. case map_of (ic_sessions st) (sp_session_id s) of None \<Rightarrow> False
     | Some r \<Rightarrow> map_of r ''active'' = Some (VBool True)) (sc_sessions c)"

text \<open>\<open>state\<close>; the clock is read when a challenge is pending.\<close>

definition challenge_view :: "sso_env \<Rightarrow> (sso_sys, val) prog" where
  "challenge_view so =
    bindE (get_sso (\<lambda>g. Option.bind (opt_text (ss_challenge_id g)) (\<lambda>i. map_option (Pair i) (ss_expires_at g)))) (\<lambda>p. case p of
      None \<Rightarrow> ret VNone
    | Some (i, expires) \<Rightarrow> bindE (sso_world (read_clock (so_env so))) (\<lambda>now.
        ret (VDict [(''id'', VStr i), (''expires_in_seconds'', VInt (max 0 ((expires - dt_us now) div 1000000)))])))"

definition sso_view :: "sso_env \<Rightarrow> (sso_sys, row) prog" where
  "sso_view so =
    bindE (challenge_view so) (\<lambda>challenge. bindE (get_sso id) (\<lambda>g. bindE (get_config id) (\<lambda>c.
    bindE (get_content (active_sessions c)) (\<lambda>sessions.
      ret ([(''service_name'', VStr (sc_service_name c)), (''heading'', VStr (sc_heading c)),
        (''introduction'', VStr (sc_introduction c)), (''view'', VStr (ss_view g)), (''message'', VStr (ss_message g)),
        (''failed_attempts'', VInt (ss_failed_attempts g)), (''challenge'', challenge),
        (''display_name'', if ss_username g = None then VNone else VStr (sc_display_name c)),
        (''sessions_reviewed'', VBool (ss_reviewed g)),
        (''has_suspicious_sessions'', VBool (ss_signed_in g \<and> sessions \<noteq> []))]
        @ (if ss_reviewed g then [(''sessions'', VList (map session_row sessions))] else []))))))"

section \<open>Operations\<close>

definition show_view :: "string \<Rightarrow> string \<Rightarrow> (sso_sys, unit) prog" where
  "show_view view message_key = thenE (upd_sso (\<lambda>g. g\<lparr>ss_view := view\<rparr>))
     (bindE (message_of message_key) (\<lambda>m. upd_sso (\<lambda>g. g\<lparr>ss_message := m\<rparr>)))"

definition note_history :: "string \<Rightarrow> (sso_sys, unit) prog" where
  "note_history h = upd_sso (\<lambda>g. g\<lparr>ss_history := ss_history g @ [h]\<rparr>)"

definition rejected_sign_in :: "(sso_sys, 'a) prog" where
  "rejected_sign_in = bindE (message_of ''rejected'') (\<lambda>m. raise (sso_boundary m))"

definition sign_in_blocked :: "sso_env \<Rightarrow> (sso_sys, row) prog" where
  "sign_in_blocked so =
    thenE (upd_sso (\<lambda>g. g\<lparr>ss_view := ''locked'', ss_locked := True\<rparr>))
   (bindE (message_of ''locked'') (\<lambda>m.
    thenE (upd_sso (\<lambda>g. g\<lparr>ss_message := m, ss_history := ss_history g @ [''locked'']\<rparr>))
   (thenE (sso_audit so ''identity.sign_in.attempt'' ''blocked'' None None) (sso_view so))))"

text \<open>A failed attempt, which locks the account at the threshold.\<close>

definition sign_in_failure :: "sso_env \<Rightarrow> string \<Rightarrow> (sso_sys, row) prog" where
  "sign_in_failure so credential =
    bindE (get_config sc_lockout_threshold) (\<lambda>threshold. bindE (get_config sc_identity_id) (\<lambda>own.
    thenE (upd_sso (\<lambda>g. g\<lparr>ss_failed_attempts := ss_failed_attempts g + 1,
        ss_locked := threshold \<le> ss_failed_attempts g + 1\<rparr>))
   (bindE (get_sso ss_locked) (\<lambda>locked. let view = (if locked then ''locked'' else ''failure'') in
    thenE (show_view view view)
   (thenE (if locked then change_identity (\<lambda>c. map_result (\<lambda>t. c\<lparr>ic_identities := t\<rparr>)
        (set_field own ''enabled'' (VBool False) (ic_identities c))) else ret ())
   (thenE (note_history view)
   (thenE (sso_audit so ''identity.sign_in.attempt'' (if locked then ''blocked'' else ''failure'') (Some credential) None)
      (sso_view so))))))))"

definition sign_in_challenge :: "sso_env \<Rightarrow> string \<Rightarrow> (sso_sys, row) prog" where
  "sign_in_challenge so credential =
    bindE (sso_world (new_uuid (so_env so))) (\<lambda>i.
    thenE (upd_sso (\<lambda>g. g\<lparr>ss_challenge_id := Some i\<rparr>))
   (bindE (sso_world (read_clock (so_env so))) (\<lambda>now. bindE (get_config sc_mfa_timeout) (\<lambda>timeout.
    thenE (upd_sso (\<lambda>g. g\<lparr>ss_expires_at := Some (dt_us now + timeout * 1000000)\<rparr>))
   (thenE (show_view ''mfa'' ''mfa'')
   (thenE (note_history ''mfa'')
   (thenE (sso_audit so ''identity.sign_in.attempt'' ''success'' (Some credential) None)
   (thenE (sso_audit so ''identity.mfa.challenge.delivered'' ''pending'' None None) (sso_view so)))))))))"

definition sign_in_known :: "sso_env \<Rightarrow> string \<Rightarrow> (sso_sys, row) prog" where
  "sign_in_known so credential =
    bindE (get_sso ss_signed_in) (\<lambda>signed_in. bindE (get_sso ss_challenge_id) (\<lambda>challenge.
    bindE (get_sso ss_failed_attempts) (\<lambda>failed. bindE (get_config sc_initial_failures) (\<lambda>initial.
      if signed_in then thenE (show_view ''success'' ''success'') (sso_view so)
      else if opt_text challenge \<noteq> None then thenE (show_view ''mfa'' ''mfa'') (sso_view so)
      else if failed < initial then sign_in_failure so credential
      else sign_in_challenge so credential))))"

text \<open>\<open>sign_in\<close>.\<close>

definition sso_sign_in :: "sso_env \<Rightarrow> val \<Rightarrow> val \<Rightarrow> (sso_sys, row) prog" where
  "sso_sign_in so username credential = (case username of
     VStr u \<Rightarrow> if strip u = [] \<or> 256 < length u then rejected_sign_in else (case credential of
       VStr phrase \<Rightarrow> if phrase = [] \<or> 1024 < length phrase
         then raise (sso_error ''an exercise access phrase is required'')
         else bindE (get_config id) (\<lambda>c.
           if lower (strip u) \<noteq> sc_username c
           then thenE (sso_audit so ''identity.sign_in.rejected'' ''denied'' None (Some ''external-account''))
             rejected_sign_in
           else bindE (get_content (\<lambda>st. map_of (ic_identities st) (sc_identity_id c))) (\<lambda>found.
             case found of None \<Rightarrow> rejected_sign_in
             | Some identity \<Rightarrow>
               if map_of identity ''synthetic'' \<noteq> Some (VBool True) then rejected_sign_in
               else thenE (upd_sso (\<lambda>g. g\<lparr>ss_username := Some (sc_username c)\<rparr>))
                 (bindE (get_sso ss_locked) (\<lambda>locked.
                   if map_of identity ''enabled'' \<noteq> Some (VBool True) \<or> locked then sign_in_blocked so
                   else sign_in_known so phrase))))
     | _ \<Rightarrow> raise (sso_error ''an exercise access phrase is required''))
   | _ \<Rightarrow> rejected_sign_in)"

definition clear_challenge :: "(sso_sys, unit) prog" where
  "clear_challenge = upd_sso (\<lambda>g. g\<lparr>ss_challenge_id := None, ss_expires_at := None\<rparr>)"

definition mfa_field :: "string \<Rightarrow> val \<Rightarrow> (sso_sys, unit) prog" where
  "mfa_field fld v = bindE (get_config sc_identity_id) (\<lambda>own.
     change_identity (\<lambda>c. map_result (\<lambda>t. c\<lparr>ic_mfa := t\<rparr>) (set_field own fld v (ic_mfa c))))"

definition count_push :: "(sso_sys, unit) prog" where
  "count_push = bindE (get_config sc_identity_id) (\<lambda>own.
     change_identity (\<lambda>c. map_result (\<lambda>t. c\<lparr>ic_mfa := t\<rparr>) (incr_field own ''push_count'' (ic_mfa c))))"

definition decide_disabled :: "sso_env \<Rightarrow> (sso_sys, 'a) prog" where
  "decide_disabled so =
    thenE clear_challenge
   (thenE (show_view ''locked'' ''locked'')
   (thenE (sso_audit so ''identity.mfa.challenge.cancelled'' ''blocked'' None None)
      (raise (sso_error ''account disabled; challenge cancelled''))))"

definition decide_expired :: "sso_env \<Rightarrow> (sso_sys, row) prog" where
  "decide_expired so =
    thenE (mfa_field ''decision'' (VStr ''denied''))
   (thenE (show_view ''failure'' ''failure'')
   (thenE (note_history ''mfa_expired'')
   (thenE (sso_audit so ''identity.mfa.challenge.expired'' ''denied'' None None) (sso_view so))))"

definition generated_session :: "string \<Rightarrow> row" where
  "generated_session own = [(''identity_id'', VStr own), (''active'', VBool True), (''kind'', VStr ''participant_sso'')]"

definition decide_valid :: "sso_env \<Rightarrow> string \<Rightarrow> (sso_sys, row) prog" where
  "decide_valid so decision = (let approved = (decision = ''approve''); view = (if approved then ''success'' else ''failure'') in
    thenE (mfa_field ''decision'' (VStr (if approved then ''approved'' else ''denied'')))
   (thenE (upd_sso (\<lambda>g. g\<lparr>ss_signed_in := approved\<rparr>))
   (thenE (show_view view view)
   (thenE (note_history (''mfa_'' @ decision))
   (thenE (sso_audit so (''identity.mfa.challenge.'' @ decision) (if approved then ''success'' else ''denied'') None None)
   (thenE (if approved then
        bindE (get_config sc_identity_id) (\<lambda>own.
        thenE (change_identity (\<lambda>c. Inr (c\<lparr>ic_sessions := dset GENERATED_SESSION_ID (generated_session own) (ic_sessions c)\<rparr>)))
          (sso_audit so ''identity.session.created'' ''success'' None None))
      else ret ()) (sso_view so)))))))"

text \<open>\<open>decide_mfa\<close>; without an expiry the clock is not read.\<close>

definition challenge_expired :: "sso_env \<Rightarrow> (sso_sys, bool) prog" where
  "challenge_expired so = bindE (get_sso ss_expires_at) (\<lambda>expires. case expires of
     None \<Rightarrow> ret True
   | Some t \<Rightarrow> bindE (sso_world (read_clock (so_env so))) (\<lambda>now. ret (t \<le> dt_us now)))"

definition sso_decide :: "sso_env \<Rightarrow> val \<Rightarrow> val \<Rightarrow> (sso_sys, row) prog" where
  "sso_decide so challenge_id decision =
    bindE (case challenge_id of VStr i \<Rightarrow> if i = [] then raise (sso_error ''challenge id is required'') else ret i
      | _ \<Rightarrow> raise (sso_error ''challenge id is required'')) (\<lambda>i.
    bindE (case decision of VStr d \<Rightarrow> if d \<in> set [''approve'', ''deny''] then ret d
          else raise (sso_error ''decision must be approve or deny'')
      | _ \<Rightarrow> raise (sso_error ''decision must be approve or deny'')) (\<lambda>d.
    bindE (get_sso ss_challenge_id) (\<lambda>pending.
    thenE (requireE (pending = Some i) (sso_error ''challenge is unknown or no longer active''))
   (bindE (challenge_expired so) (\<lambda>expired.
    bindE (get_config sc_identity_id) (\<lambda>own.
    bindE (get_content (\<lambda>c. get_field own ''enabled'' (ic_identities c))) (\<lambda>r. bindE (liftE r) (\<lambda>enabled.
      if \<not> truthy enabled then decide_disabled so
      else thenE count_push
        (thenE clear_challenge (if expired then decide_expired so else decide_valid so d))))))))))"

text \<open>\<open>review_sessions\<close>.\<close>

definition sso_review :: "sso_env \<Rightarrow> (sso_sys, row) prog" where
  "sso_review so =
    bindE (get_sso ss_signed_in) (\<lambda>signed_in.
    thenE (requireE signed_in (sso_error ''session review requires an approved synthetic sign-in''))
   (thenE (upd_sso (\<lambda>g. g\<lparr>ss_reviewed := True\<rparr>))
   (thenE (show_view ''suspicious_session'' ''suspicious'')
   (thenE (note_history ''sessions_reviewed'')
   (thenE (sso_audit so ''identity.session.reviewed'' ''success'' None None) (sso_view so))))))"

text \<open>\<open>reset\<close> and \<open>baseline_mismatches\<close>.\<close>

definition sso_reset :: "(sso_sys, unit) prog" where
  "sso_reset =
    bindE (get_config sc_identity_id) (\<lambda>own.
    thenE (change_identity (\<lambda>c. Inr (c\<lparr>ic_sessions := dpop GENERATED_SESSION_ID (ic_sessions c)\<rparr>)))
   (thenE (change_identity (\<lambda>c. map_result (\<lambda>t. c\<lparr>ic_identities := t\<rparr>)
        (set_field own ''enabled'' (VBool True) (ic_identities c))))
   (thenE (change_identity (\<lambda>c. case map_of (ic_mfa c) own of
        None \<Rightarrow> Inr c
      | Some r \<Rightarrow> Inr (c\<lparr>ic_mfa := dset own (dmerge r [(''push_count'', VInt 0), (''decision'', VStr ''pending'')]) (ic_mfa c)\<rparr>)))
      (upd_sso (\<lambda>_. fresh_sso)))))"

definition sso_mismatches :: "sso_sys \<Rightarrow> string list" where
  "sso_mismatches s = (if sy_sso s \<noteq> fresh_sso then [''workflow''] else [])
     @ (if has_key (ic_sessions (is_content (sy_identity s))) GENERATED_SESSION_ID then [''generated_session''] else [])"

end
