(* ===== verification/SsoProps.thy ===== *)
theory SsoProps
  imports Sso Samples
begin

text \<open>
  The contained sign-in: who is signed in approved a pending challenge in time, and the workflow keeps its
  invariant under every operation.
\<close>

section \<open>Commands\<close>

datatype sso_command = SsoSignIn val val | SsoDecide val val | SsoReview

primrec sso_step :: "sso_env \<Rightarrow> sso_command \<Rightarrow> (sso_sys, row) prog" where
  "sso_step so (SsoSignIn username credential) = sso_sign_in so username credential"
| "sso_step so (SsoDecide challenge_id decision) = sso_decide so challenge_id decision"
| "sso_step so SsoReview = sso_review so"

text \<open>A command that raises keeps what it wrote; the next one is taken from there.\<close>

definition sso_run :: "sso_env \<Rightarrow> sso_command list \<Rightarrow> sso_sys \<Rightarrow> sso_sys" where
  "sso_run so cs s = fold (\<lambda>c s. snd (sso_step so c s)) cs s"

lemma sso_run_snoc: "sso_run so (cs @ [c]) s = snd (sso_step so c (sso_run so cs s))"
  by (simp add: sso_run_def)

section \<open>What the parts leave alone\<close>

lemma keeps_prod [keeps_intros]: "(\<And>a b. keeps f (n a b)) \<Longrightarrow> keeps f (case p of (a, b) \<Rightarrow> n a b)"
  by (cases p) simp

definition workflow :: "(sso_state \<Rightarrow> 'a) \<Rightarrow> sso_sys \<Rightarrow> 'a" where
  "workflow f s = f (sy_sso s)"

lemma keeps_sso_world [keeps_intros]: "keeps (workflow f) (sso_world m)"
  unfolding sso_world_def by (rule keeps_zoomE) (simp add: workflow_def)

lemma keeps_get_sso [keeps_intros]: "keeps g (get_sso f)" "keeps g (get_config f')" "keeps g (get_content f'')"
  unfolding get_sso_def get_config_def get_content_def by (rule keeps_getE)+

lemma keeps_upd_sso [keeps_intros]: "(\<And>g. f (h g) = f g) \<Longrightarrow> keeps (workflow f) (upd_sso h)"
  unfolding upd_sso_def by (rule keeps_updE) (simp add: workflow_def)

lemma keeps_message_of [keeps_intros]: "keeps g (message_of k)"
  unfolding message_of_def by (intro keeps_intros)

lemma keeps_change_identity [keeps_intros]: "keeps (workflow f) (change_identity h)"
  unfolding change_identity_def by (intro keeps_intros) (simp add: workflow_def)

lemma keeps_sso_audit [keeps_intros]: "keeps (workflow f) (sso_audit so action result credential identity_id)"
  unfolding sso_audit_def Let_def by (intro keeps_intros) (simp_all add: workflow_def)

lemma keeps_sso_view [keeps_intros]: "keeps (workflow f) (sso_view so)"
  unfolding sso_view_def challenge_view_def by (intro keeps_intros)

lemma keeps_show_view [keeps_intros]: "(\<And>g v. f (g\<lparr>ss_view := v\<rparr>) = f g) \<Longrightarrow> (\<And>g m. f (g\<lparr>ss_message := m\<rparr>) = f g)
    \<Longrightarrow> keeps (workflow f) (show_view view k)"
  unfolding show_view_def by (intro keeps_intros)

lemma keeps_note_history [keeps_intros]: "(\<And>g h. f (g\<lparr>ss_history := h\<rparr>) = f g) \<Longrightarrow> keeps (workflow f) (note_history x)"
  unfolding note_history_def by (intro keeps_intros)

lemma keeps_rejected [keeps_intros]: "keeps g rejected_sign_in"
  unfolding rejected_sign_in_def by (intro keeps_intros)

lemma keeps_mfa_parts [keeps_intros]: "keeps (workflow f) (mfa_field fld v)" "keeps (workflow f) count_push"
  unfolding mfa_field_def count_push_def by (intro keeps_intros)+

section \<open>Signing in\<close>

lemma keeps_sign_in_parts:
  assumes "\<And>g v. f (g\<lparr>ss_view := v\<rparr>) = f g" and "\<And>g m. f (g\<lparr>ss_message := m\<rparr>) = f g"
    and "\<And>g h. f (g\<lparr>ss_history := h\<rparr>) = f g" and "\<And>g l. f (g\<lparr>ss_locked := l\<rparr>) = f g"
    and "\<And>g n. f (g\<lparr>ss_failed_attempts := n\<rparr>) = f g" and "\<And>g n. f (g\<lparr>ss_challenge_id := n\<rparr>) = f g"
    and "\<And>g n. f (g\<lparr>ss_expires_at := n\<rparr>) = f g" and "\<And>g n. f (g\<lparr>ss_username := n\<rparr>) = f g"
  shows "keeps (workflow f) (sso_sign_in so username credential)"
proof -
  have two: "f (g\<lparr>ss_view := v, ss_locked := l\<rparr>) = f g" "f (g\<lparr>ss_message := m, ss_history := h\<rparr>) = f g"
      "f (g\<lparr>ss_failed_attempts := n, ss_locked := l\<rparr>) = f g" for g v l m h n
    by (simp_all add: assms)
  have "keeps (workflow f) (sign_in_blocked so)" "keeps (workflow f) (sign_in_failure so c)"
      "keeps (workflow f) (sign_in_challenge so c)" for c
    unfolding sign_in_blocked_def sign_in_failure_def sign_in_challenge_def Let_def
    by (intro keeps_intros two assms)+
  note parts = this
  have "keeps (workflow f) (sign_in_known so c)" for c
    unfolding sign_in_known_def Let_def by (intro keeps_intros parts assms)
  then show ?thesis
    unfolding sso_sign_in_def by (cases username; cases credential) (auto intro!: keeps_intros parts assms)
qed

lemma sign_in_keeps_signed: "keeps (workflow ss_signed_in) (sso_sign_in so username credential)"
  by (rule keeps_sign_in_parts) simp_all

lemma review_keeps_signed: "keeps (workflow ss_signed_in) (sso_review so)"
  unfolding sso_review_def by (intro keeps_intros) simp_all

text \<open>A challenge that may be approved: it is pending, its time has not passed and the account is enabled.\<close>

definition approvable :: "sso_env \<Rightarrow> string \<Rightarrow> sso_sys \<Rightarrow> bool" where
  "approvable so i s \<longleftrightarrow> ss_challenge_id (sy_sso s) = Some i
     \<and> (\<exists>t. ss_expires_at (sy_sso s) = Some t \<and> dt_us (e_clock (so_env so) (w_clocks (sy_world s))) < t)
     \<and> (\<exists>v. get_field (sc_identity_id (sy_config s)) ''enabled'' (ic_identities (is_content (sy_identity s))) = Inr v \<and> truthy v)"

lemma keeps_decide_refused [keeps_intros]: "keeps (workflow ss_signed_in) (decide_disabled so)"
    "keeps (workflow ss_signed_in) (decide_expired so)" "keeps (workflow ss_signed_in) clear_challenge"
  unfolding decide_disabled_def decide_expired_def clear_challenge_def by (intro keeps_intros; simp)+

lemma keeps_decide_tail: "keeps (workflow ss_signed_in) (thenE (show_view view view)
   (thenE (note_history h) (thenE (sso_audit so a r None None)
   (thenE (if approved then
        bindE (get_config sc_identity_id) (\<lambda>own.
        thenE (change_identity (\<lambda>c. Inr (c\<lparr>ic_sessions := dset GENERATED_SESSION_ID (generated_session own) (ic_sessions c)\<rparr>)))
          (sso_audit so ''identity.session.created'' ''success'' None None))
      else ret ()) (sso_view so)))))"
  by (intro keeps_intros) simp_all

lemma decide_valid_result:
  assumes m: "mfa_field ''decision'' (VStr (if d = ''approve'' then ''approved'' else ''denied'')) s = (q, t)"
  shows "ss_signed_in (sy_sso (snd (decide_valid so d s))) = (case q of Inl e \<Rightarrow> ss_signed_in (sy_sso s) | Inr _ \<Rightarrow> d = ''approve'')"
proof -
  let ?tail = "\<lambda>approved. thenE (show_view (if approved then ''success'' else ''failure'') (if approved then ''success'' else ''failure''))
   (thenE (note_history (''mfa_'' @ d)) (thenE (sso_audit so (''identity.mfa.challenge.'' @ d) (if approved then ''success'' else ''denied'') None None)
   (thenE (if approved then
        bindE (get_config sc_identity_id) (\<lambda>own.
        thenE (change_identity (\<lambda>c. Inr (c\<lparr>ic_sessions := dset GENERATED_SESSION_ID (generated_session own) (ic_sessions c)\<rparr>)))
          (sso_audit so ''identity.session.created'' ''success'' None None))
      else ret ()) (sso_view so))))"
  have t: "ss_signed_in (sy_sso t) = ss_signed_in (sy_sso s)"
    using keeps_run [OF keeps_mfa_parts(1) [of ss_signed_in] m] by (simp add: workflow_def)
  let ?u = "t\<lparr>sy_sso := (sy_sso t)\<lparr>ss_signed_in := (d = ''approve'')\<rparr>\<rparr>"
  have "decide_valid so d s = (case q of Inl e \<Rightarrow> (Inl e, t) | Inr _ \<Rightarrow> ?tail (d = ''approve'') ?u)"
    by (simp add: decide_valid_def Let_def thenE_run m upd_sso_def split: sum.split)
  moreover have "ss_signed_in (sy_sso (snd (?tail (d = ''approve'') ?u))) = (d = ''approve'')"
    using keepsD [OF keeps_decide_tail, of _ _ _ _ _ _ ?u] by (simp add: workflow_def)
  ultimately show ?thesis using t by (cases q) auto
qed

lemma decide_valid_signed:
  assumes "ss_signed_in (sy_sso (snd (decide_valid so d s)))" and "\<not> ss_signed_in (sy_sso s)"
  shows "d = ''approve''"
proof -
  obtain q t where m: "mfa_field ''decision'' (VStr (if d = ''approve'' then ''approved'' else ''denied'')) s = (q, t)"
    by (rule prod.exhaust)
  show ?thesis using decide_valid_result [OF m, of so] assms by (cases q) simp_all
qed

lemma sso_world_run: "sso_world m s = (let (r, w) = m (sy_world s) in (r, s\<lparr>sy_world := w\<rparr>))"
  by (simp add: sso_world_def zoomE_run)

lemma challenge_expired_run:
  "\<exists>w. challenge_expired so s = (Inr (case ss_expires_at (sy_sso s) of None \<Rightarrow> True
      | Some t \<Rightarrow> t \<le> dt_us (e_clock (so_env so) (w_clocks (sy_world s)))), s\<lparr>sy_world := w\<rparr>)"
  by (auto simp: challenge_expired_def bindE_run get_sso_def sso_world_run read_clock_run Let_def split: option.split)
    (rule exI [of _ "sy_world s"], simp)

lemma decide_rest_signed:
  assumes "ss_signed_in (sy_sso (snd (thenE count_push (thenE clear_challenge
      (if expired then decide_expired so else decide_valid so d)) t)))" and "\<not> ss_signed_in (sy_sso t)"
  shows "\<not> expired \<and> d = ''approve''"
proof -
  obtain q u where u: "count_push t = (q, u)" by (metis prod.exhaust)
  have su: "\<not> ss_signed_in (sy_sso u)"
    using keeps_run [OF keeps_mfa_parts(2) [of ss_signed_in] u] assms(2) by (simp add: workflow_def)
  obtain v where v: "clear_challenge u = (Inr (), v)" by (simp add: clear_challenge_def upd_sso_def)
  have sv: "\<not> ss_signed_in (sy_sso v)"
    using keeps_run [OF keeps_decide_refused(3) v] su by (simp add: workflow_def)
  show ?thesis
    using assms(1) su sv keepsD [OF keeps_decide_refused(2), of so v] decide_valid_signed [of so d v]
    by (cases q; cases expired) (simp_all add: thenE_run u v workflow_def)
qed

lemma decide_signs:
  assumes "\<not> ss_signed_in (sy_sso s)" and "ss_signed_in (sy_sso (snd (sso_decide so ch d s)))"
  shows "\<exists>i. ch = VStr i \<and> d = VStr ''approve'' \<and> approvable so i s"
proof -
  let ?late = "case ss_expires_at (sy_sso s) of None \<Rightarrow> True
      | Some t \<Rightarrow> t \<le> dt_us (e_clock (so_env so) (w_clocks (sy_world s)))"
  obtain w where e: "challenge_expired so s = (Inr ?late, s\<lparr>sy_world := w\<rparr>)"
    using challenge_expired_run by blast
  let ?t = "s\<lparr>sy_world := w\<rparr>"
  let ?enabled = "get_field (sc_identity_id (sy_config s)) ''enabled'' (ic_identities (is_content (sy_identity s)))"
  obtain i dd where i: "ch = VStr i" "i \<noteq> []" "d = VStr dd" "dd \<in> set [''approve'', ''deny'']"
      "ss_challenge_id (sy_sso s) = Some i"
    using assms by (auto simp: sso_decide_def bindE_run thenE_run requireE_run get_sso_def split: val.splits if_splits)
  have run: "sso_decide so ch d s = (case ?enabled of Inl x \<Rightarrow> (Inl x, ?t)
      | Inr v \<Rightarrow> if \<not> truthy v then decide_disabled so ?t
          else thenE count_push (thenE clear_challenge (if ?late then decide_expired so else decide_valid so dd)) ?t)"
    using i by (simp add: sso_decide_def bindE_run thenE_run requireE_run get_sso_def get_config_def get_content_def e
        split: sum.split)
  show ?thesis
  proof (cases ?enabled)
    case (Inl x)
    then show ?thesis using run assms by simp
  next
    case (Inr v)
    show ?thesis
    proof (cases "truthy v")
      case False
      have "\<not> ss_signed_in (sy_sso (snd ((decide_disabled so :: (sso_sys, row) prog) ?t)))"
        using keepsD [OF keeps_decide_refused(1), of so ?t] assms(1) by (simp add: workflow_def)
      then show ?thesis using run Inr False assms(2) by simp
    next
      case True
      have r: "\<not> ?late \<and> dd = ''approve''"
        by (rule decide_rest_signed [of ?late so dd ?t]) (use run Inr True assms in simp_all)
      then show ?thesis using i Inr True by (auto simp: approvable_def split: option.splits)
    qed
  qed
qed

text \<open>C23: Nobody is signed in without an approval: when a series of sign-ins, decisions and reviews ends signed in,
  one of them was the decision to approve the pending challenge, before it expired and with the account
  enabled.\<close>

theorem signed_in_was_approved:
  assumes "\<not> ss_signed_in (sy_sso s)" and "ss_signed_in (sy_sso (sso_run so cs s))"
  shows "\<exists>before i after. cs = before @ SsoDecide (VStr i) (VStr ''approve'') # after
    \<and> approvable so i (sso_run so before s)"
  using assms(2)
proof (induction cs rule: rev_induct)
  case Nil
  then show ?case using assms(1) by (simp add: sso_run_def)
next
  case (snoc c cs)
  show ?case
  proof (cases "ss_signed_in (sy_sso (sso_run so cs s))")
    case True
    from snoc.IH [OF this] show ?thesis by (metis append.assoc append_Cons)
  next
    case False
    have "\<exists>i. c = SsoDecide (VStr i) (VStr ''approve'') \<and> approvable so i (sso_run so cs s)"
    proof (cases c)
      case (SsoSignIn username credential)
      then show ?thesis using snoc.prems False keepsD [OF sign_in_keeps_signed, of so username credential "sso_run so cs s"]
        by (simp add: sso_run_snoc workflow_def)
    next
      case (SsoDecide ch d)
      then show ?thesis using snoc.prems decide_signs [OF False, of so ch d] by (simp add: sso_run_snoc)
    next
      case SsoReview
      then show ?thesis using snoc.prems False keepsD [OF review_keeps_signed, of so "sso_run so cs s"]
        by (simp add: sso_run_snoc workflow_def)
    qed
    then show ?thesis by blast
  qed
qed

section \<open>A sign-in that is approved\<close>

definition sample_sso_env :: sso_env where
  "sample_sso_env = \<lparr>so_env = sample_env, so_sink = (\<lambda>_ _. None)\<rparr>"

definition sample_sso_config :: sso_config where
  "sample_sso_config = \<lparr>sc_service_name = ''s'', sc_heading = ''h'', sc_introduction = ''i'', sc_identity_id = ''sarah'',
     sc_username = ''sarah@simcorp.test'', sc_display_name = ''Sarah'', sc_initial_failures = 1,
     sc_lockout_threshold = 3, sc_mfa_timeout = 60, sc_messages = map (\<lambda>k. (k, k)) MESSAGE_FIELDS, sc_sessions = []\<rparr>"

definition sample_sso :: sso_sys where
  "sample_sso = \<lparr>sy_world = sample_world, sy_identity = identity_baseline [], sy_config = sample_sso_config,
     sy_sso = fresh_sso\<lparr>ss_view := ''mfa'', ss_challenge_id := Some ''c1'', ss_expires_at := Some 60000000\<rparr>, sy_sent = []\<rparr>"

lemma sample_signs_in: "ss_signed_in (sy_sso (sso_run sample_sso_env [SsoDecide (VStr ''c1'') (VStr ''approve'')] sample_sso))"
proof -
  let ?t = "sample_sso\<lparr>sy_world := sample_world\<lparr>w_clocks := Suc 0\<rparr>\<rparr>"
  have run: "sso_decide sample_sso_env (VStr ''c1'') (VStr ''approve'') sample_sso
      = thenE count_push (thenE clear_challenge (decide_valid sample_sso_env ''approve'')) ?t"
    by (simp add: sso_decide_def bindE_run requireE_run thenE_run [of "requireE b e" for b e] get_sso_def get_config_def
        get_content_def challenge_expired_def sso_world_run read_clock_run sample_sso_def sample_sso_config_def fresh_sso_def
        sample_sso_env_def sample_env_def sample_world_def identity_baseline_def identity_baseline_content_def
        get_field_def ditem_def dmerge_def)
  obtain u where u: "thenE count_push clear_challenge ?t = (Inr (), u)" "map_of (ic_mfa (is_content (sy_identity u))) (sc_identity_id (sy_config u)) \<noteq> None"
    by (auto simp: count_push_def clear_challenge_def upd_sso_def thenE_run bindE_run get_config_def change_identity_def
        get_content_def sample_sso_def sample_sso_config_def identity_baseline_def identity_baseline_content_def
        incr_field_def set_field_def get_field_def ditem_def vincr_def num_of_def map_result_def thenE_run updE_run)
  obtain v where "mfa_field ''decision'' (VStr ''approved'') u = (Inr (), v)"
    using u(2) by (auto simp: mfa_field_def bindE_run get_config_def change_identity_def get_content_def set_field_def
        map_result_def)
  then have "ss_signed_in (sy_sso (snd (decide_valid sample_sso_env ''approve'' u)))"
    using decide_valid_result [of "''approve''" u "Inr ()" v] by simp
  moreover have "snd (thenE count_push (thenE clear_challenge (decide_valid sample_sso_env ''approve'')) ?t)
      = snd (decide_valid sample_sso_env ''approve'' u)"
    using u(1) by (auto simp: thenE_run split: prod.splits sum.splits)
  ultimately show ?thesis by (simp add: sso_run_def run)
qed

lemma signed_in_was_approved_witness:
  "\<exists>before i after. [SsoDecide (VStr ''c1'') (VStr ''approve'')] = before @ SsoDecide (VStr i) (VStr ''approve'') # after
    \<and> approvable sample_sso_env i (sso_run sample_sso_env before sample_sso)"
proof -
  have "\<not> ss_signed_in (sy_sso sample_sso)" by (simp add: sample_sso_def fresh_sso_def)
  from signed_in_was_approved [OF this sample_signs_in] show ?thesis .
qed

end
