(* ===== verification/Aar.thy ===== *)
theory Aar
  imports Support
begin

text \<open>
  \<^verbatim>\<open>orchestrator/aar.py\<close>: the offline review of the learning objectives. A bundle freezes the events and the
  submissions of a run; it is accepted when its digest, its ledgers and every judgment in it hold. Bundles, events
  and payloads are parsed JSON of any shape; SHA-256 and the event schema are fields of \<open>env\<close>. A report has fixed
  keys and is a record.
\<close>

section \<open>Rubrics\<close>

definition AAR_VERSION :: string where "AAR_VERSION = ''1.0.0''"

definition RATINGS :: "string list" where
  "RATINGS = [''performed'', ''performed_with_support'', ''partially_performed'', ''not_performed'', ''not_observed'']"

record checkpoint_rubric =
  cr_objective_ids :: "string list"
  cr_criteria :: "string list"
  cr_meaning :: string

definition CHECKPOINT_RUBRICS :: "checkpoint_rubric dict" where
  "CHECKPOINT_RUBRICS =
    [(''DP1'', \<lparr>cr_objective_ids = [''LO1'', ''LO2''],
       cr_criteria = [''identity_correct'', ''classification_supported'', ''artifact_count_met'', ''source_diversity_met''],
       cr_meaning = ''Identity triage branch; timeline quality remains human review.''\<rparr>),
     (''DP2'', \<lparr>cr_objective_ids = [''LO2'', ''LO3''],
       cr_criteria = [''malicious_session_revoked'', ''unauthorized_factor_removed'', ''credential_rotated'',
         ''endpoint_remote_path_isolated'', ''endpoint_evidence_preserved''],
       cr_meaning = ''Identity/endpoint containment branch; sequence and collateral impact need review.''\<rparr>),
     (''DP3'', \<lparr>cr_objective_ids = [''LO4''],
       cr_criteria = [''cloud_steps_observed'', ''principal_identified'', ''key_revoked'', ''approved_policy_restored'',
         ''exposure_count_supported'', ''transfer_not_overclaimed'', ''exposure_evidence_cited''],
       cr_meaning = ''Mock-cloud containment branch; no real external transfer is inferred.''\<rparr>),
     (''DP4'', \<lparr>cr_objective_ids = [''LO3'', ''LO5''],
       cr_criteria = [''source_prepared'', ''persistence_removed'', ''impact_task_disabled'', ''host_isolated''],
       cr_meaning = ''Prevention branch only; final recovery observation is separate, not a fifth branch.''\<rparr>)]"

record objective_rubric =
  ob_title :: string
  ob_checkpoints :: "string list"
  ob_criteria :: "string list"
  ob_human_review :: "string list"
  ob_next_step :: string

definition OBJECTIVES :: "objective_rubric dict" where
  "OBJECTIVES =
    [(''LO1'', \<lparr>ob_title = ''Triage the identity incident'', ob_checkpoints = [''DP1''],
       ob_criteria = [''Correct identity and classification'', ''Three relevant artifacts from two sources'',
         ''Within 25 minutes of the first inject''],
       ob_human_review = [''Artifact relevance and defensible classification''],
       ob_next_step = ''Practise correlating identity and helpdesk evidence before deciding scope.''\<rparr>),
     (''LO2'', \<lparr>ob_title = ''Reconstruct the intrusion'', ob_checkpoints = [''DP1'', ''DP2''],
       ob_criteria = [''Six significant events across the required sources'',
         ''At least five events correct and materially ordered'',
         ''Facts distinguished from inference before containment checkpoint''],
       ob_human_review = [''Timeline correctness, ordering, source coverage and fact/inference labels''],
       ob_next_step = ''Build a sourced timeline and clearly separate observations from inference.''\<rparr>),
     (''LO3'', \<lparr>ob_title = ''Contain identity and endpoint access'', ob_checkpoints = [''DP2''],
       ob_criteria = [''Session, credential, factor and endpoint containment verified'',
         ''Evidence preserved before destructive remediation'', ''No more than one unrelated target disrupted''],
       ob_human_review = [''Evidence-preservation order and collateral disruption''],
       ob_next_step = ''Practise evidence preservation and coordinated containment, then verify the result.''\<rparr>),
     (''LO4'', \<lparr>ob_title = ''Determine and contain cloud data exposure'', ob_checkpoints = [''DP3''],
       ob_criteria = [''Correct principal, bucket and evidenced access count'',
         ''Unauthorized access disabled and approved policy restored'', ''No unsupported external-transfer claim''],
       ob_human_review = [''Bucket identification, evidence interpretation and exposure explanation''],
       ob_next_step = ''Explain confirmed data access separately from unproven external transfer.''\<rparr>),
     (''LO5'', \<lparr>ob_title = ''Recover and communicate'', ob_checkpoints = [''DP4''],
       ob_criteria = [''Known-good recovery and health verification by exercise end'',
         ''Brief covers scope, impact, actions, remaining risk and two prioritized recommendations'',
         ''Conclusions do not overstate evidence''],
       ob_human_review = [''Truth, clarity, remaining risk and prioritization of recommendations''],
       ob_next_step = ''Validate recovery and write a concise, evidence-supported incident brief.''\<rparr>)]"

definition JUDGMENT_FIELDS :: "string list" where
  "JUDGMENT_FIELDS = [''objective_id'', ''rating'', ''rationale'', ''evidence_ids'', ''expected_revision'',
     ''override_reason'', ''platform_reason'', ''improvement_actions'']"

definition ACTION_FIELDS :: "string list" where
  "ACTION_FIELDS = [''description'', ''owner'', ''priority'', ''target_date'']"

section \<open>Fields\<close>

definition invalid :: "string \<Rightarrow> exc + 'a" where
  "invalid message = Inl (ValueError message)"

text \<open>\<open>_text\<close>, and \<open>_digest\<close>.\<close>

definition aar_text :: "val \<Rightarrow> string \<Rightarrow> nat \<Rightarrow> exc + unit" where
  "aar_text v name maximum = (case v of
     VStr s \<Rightarrow> if strip s = [] \<or> maximum < char_count s then invalid (''invalid '' @ name) else Inr ()
   | _ \<Rightarrow> invalid (''invalid '' @ name))"

definition aar_digest :: "env \<Rightarrow> row \<Rightarrow> val" where
  "aar_digest env payload = VStr (e_sha256 env (json_dumps (VDict payload)))"

definition is_str :: "val \<Rightarrow> bool" where
  "is_str v \<longleftrightarrow> (case v of VStr s \<Rightarrow> True | _ \<Rightarrow> False)"

text \<open>\<open>[x for x in xs if p(x)]\<close>, and \<open>(event.get("target") or {}).get("id")\<close>.\<close>

fun filterR :: "('a \<Rightarrow> exc + bool) \<Rightarrow> 'a list \<Rightarrow> exc + 'a list" where
  "filterR p [] = Inr []"
| "filterR p (x # xs) = bindR (p x) (\<lambda>b. bindR (filterR p xs) (\<lambda>ys. Inr (if b then x # ys else ys)))"

definition target_id :: "val \<Rightarrow> exc + val" where
  "target_id ev = bindR (get_of ev ''target'' VNone) (\<lambda>t. if truthy t then get_of t ''id'' VNone else Inr VNone)"

section \<open>What the machine observed\<close>

record observation =
  on_status :: string
  on_event_ids :: "val list"
  on_checks :: "val option"
  on_explanation :: string

definition unobserved :: "string \<Rightarrow> val list \<Rightarrow> string \<Rightarrow> observation" where
  "unobserved status ids explanation =
     \<lparr>on_status = status, on_event_ids = ids, on_checks = None, on_explanation = explanation\<rparr>"

definition observed :: "val \<Rightarrow> val \<Rightarrow> exc + observation" where
  "observed ev passed = (case passed of
     VBool b \<Rightarrow> bindR (path ev [''event_id'']) (\<lambda>i.
       bindR (path ev [''data'']) (\<lambda>data. bindR (get_of data ''verifier_checks'' (VDict [])) (\<lambda>verifier.
       bindR (get_of data ''checks'' verifier) (\<lambda>checks.
         Inr \<lparr>on_status = (if b then ''met'' else ''not_met''), on_event_ids = [i], on_checks = Some checks,
              on_explanation = ''Machine-verifiable subset only; human criteria still require review.''\<rparr>))))
   | _ \<Rightarrow> invalid ''invalid frozen observation'')"

text \<open>The second until which the first objective counts as timely: none without an inject.\<close>

definition is_inject :: "val \<Rightarrow> exc + bool" where
  "is_inject ev = both (isR (path ev [''event_type'']) (VStr ''scenario.item.delivered''))
     (isR (ev_get ev ''data'' ''item_kind'') (VStr ''inject''))"

definition strict_int :: "val \<Rightarrow> int option" where
  "strict_int v = (case v of VInt n \<Rightarrow> Some n | _ \<Rightarrow> None)"

definition inject_deadline :: "val list \<Rightarrow> exc + int option" where
  "inject_deadline events =
    bindR (filterR is_inject events) (\<lambda>injects.
    bindR (mapR (\<lambda>ev. ev_get ev ''data'' ''elapsed_seconds'') injects) (\<lambda>times.
      if list_ex (\<lambda>v. strict_int v = None) times then invalid ''invalid inject elapsed time''
      else Inr (case List.map_filter strict_int times of [] \<Rightarrow> None
        | n # ns \<Rightarrow> Some (fold min ns n + 1500))))"

text \<open>The checkpoint objectives, after the resolution of the checkpoint has been found.\<close>

definition verifier_missing :: "val \<Rightarrow> exc + bool" where
  "verifier_missing ev = bindR (path ev [''data'']) (\<lambda>data. bindR (get_of data ''reason'' (VStr [])) (\<lambda>reason.
     case reason of VStr s \<Rightarrow> Inr (starts_with ''Verifier state is missing'' s)
     | _ \<Rightarrow> Inl (OtherError ''AttributeError''
         (quoted (type_name reason) @ '' object has no attribute '' @ quoted ''startswith''))))"

definition finish_observation :: "val \<Rightarrow> bool \<Rightarrow> exc + observation" where
  "finish_observation ev passed =
    bindR (verifier_missing ev) (\<lambda>missing.
      if missing then bindR (path ev [''event_id'']) (\<lambda>i.
        Inr (unobserved ''not_observed'' [i] ''Verifier state missing; platform review required.''))
      else observed ev (VBool passed))"

definition checkpoint_observation :: "val list \<Rightarrow> string \<Rightarrow> val \<Rightarrow> exc + observation" where
  "checkpoint_observation events objective_id ev =
    bindR (ev_get ev ''data'' ''result'') (\<lambda>result.
    bindR (in_strings result [''pass'', ''miss'']) (\<lambda>known.
      if \<not> known then invalid ''invalid checkpoint result''
      else (let passed = val_eq result (VStr ''pass'') in
        if objective_id = ''LO1'' then
          bindR (inject_deadline events) (\<lambda>deadline.
          bindR (ev_get ev ''data'' ''elapsed_seconds'') (\<lambda>elapsed.
            case (deadline, num_of elapsed) of
              (Some d, Some n) \<Rightarrow> finish_observation ev (passed \<and> n \<le> d)
            | _ \<Rightarrow> bindR (path ev [''event_id'']) (\<lambda>i.
                Inr (unobserved ''not_observed'' [i] ''Identity timing telemetry unavailable.''))))
        else finish_observation ev passed)))"

text \<open>\<open>objective_observation\<close>; of the bundle it reads the events.\<close>

definition objective_checkpoint :: "string \<Rightarrow> val" where
  "objective_checkpoint objective_id = (case map_of [(''LO1'', ''DP1''), (''LO3'', ''DP2''), (''LO4'', ''DP3'')] objective_id of
     None \<Rightarrow> VNone | Some c \<Rightarrow> VStr c)"

definition resolves :: "val \<Rightarrow> val \<Rightarrow> exc + bool" where
  "resolves cp ev = both (isR (path ev [''event_type'']) (VStr ''scenario.checkpoint.resolved''))
     (isR (target_id ev) cp)"

definition observation_of :: "val list \<Rightarrow> string \<Rightarrow> exc + observation" where
  "observation_of events objective_id =
    (if objective_id = ''LO2'' then Inr (unobserved ''human_review_required'' []
       ''No automatic timeline-quality verifier exists; review learner artifacts.'')
     else if objective_id = ''LO5'' then
       bindR (filterR (\<lambda>ev. isR (path ev [''event_type'']) (VStr ''recovery.review.completed'')) events) (\<lambda>candidates.
         if candidates = [] then Inr (unobserved ''not_observed'' [] ''Final recovery observation unavailable.'')
         else bindR (ev_get (List.last candidates) ''data'' ''passed'') (observed (List.last candidates)))
     else bindR (filterR (resolves (objective_checkpoint objective_id)) events) (\<lambda>candidates. case candidates of
         [] \<Rightarrow> Inr (unobserved ''not_observed'' [] ''Checkpoint observation unavailable.'')
       | [ev] \<Rightarrow> checkpoint_observation events objective_id ev
       | _ \<Rightarrow> invalid ''duplicate checkpoint resolution''))"

definition objective_observation :: "val list \<Rightarrow> val \<Rightarrow> exc + observation" where
  "objective_observation events objective_id =
    bindR (in_strings objective_id (map fst OBJECTIVES)) (\<lambda>known.
      case objective_id of VStr s \<Rightarrow> if known then observation_of events s else invalid ''unknown learning objective''
      | _ \<Rightarrow> invalid ''unknown learning objective'')"

section \<open>Judgments\<close>

definition check_text :: "val \<Rightarrow> nat \<Rightarrow> bool" where
  "check_text v maximum \<longleftrightarrow> (case v of VStr s \<Rightarrow> char_count s \<le> maximum | _ \<Rightarrow> False)"

definition check_action :: "val \<Rightarrow> exc + unit" where
  "check_action v = (case v of
     VDict d \<Rightarrow> if \<not> keys_are d ACTION_FIELDS then invalid ''invalid improvement action fields''
       else bindR (mapR (\<lambda>f. bindR (ditem d f) (\<lambda>x. aar_text x f 512)) ACTION_FIELDS) (\<lambda>_.
         bindR (ditem d ''priority'') (\<lambda>p. bindR (in_strings p [''high'', ''medium'', ''low'']) (\<lambda>known.
           if known then Inr () else invalid ''invalid improvement priority'')))
   | _ \<Rightarrow> invalid ''invalid improvement action fields'')"

definition check_actions :: "val \<Rightarrow> exc + unit" where
  "check_actions v = (case v of
     VList xs \<Rightarrow> if 5 < length xs then invalid ''invalid improvement actions''
       else bindR (mapR check_action xs) (\<lambda>_. Inr ())
   | _ \<Rightarrow> invalid ''invalid improvement actions'')"

definition check_evidence :: "val list \<Rightarrow> val \<Rightarrow> exc + val list" where
  "check_evidence references v = (case v of
     VList xs \<Rightarrow> if 20 < length xs \<or> \<not> list_all is_str xs \<or> \<not> distinct xs \<or> \<not> list_all (\<lambda>x. vmem x references) xs
       then invalid ''evidence references must be unique current-run event or submission IDs'' else Inr xs
   | _ \<Rightarrow> invalid ''evidence references must be unique current-run event or submission IDs'')"

text \<open>\<open>expected_revision\<close> against the revision of the previous judgment.\<close>

definition check_revision :: "val \<Rightarrow> row option \<Rightarrow> exc + int" where
  "check_revision v previous = (case strict_int v of
     None \<Rightarrow> invalid ''invalid expected revision''
   | Some n \<Rightarrow> if n < 0 then invalid ''invalid expected revision''
     else bindR (case previous of None \<Rightarrow> Inr (VInt 0) | Some p \<Rightarrow> ditem p ''revision'') (\<lambda>current.
       if val_eq v current then Inr n
       else invalid ''judgment revision conflict; refresh before submitting''))"

text \<open>A judgment against the observation, or of an earlier judgment, has to be explained.\<close>

definition needs_reason :: "val \<Rightarrow> row option \<Rightarrow> observation \<Rightarrow> exc + bool" where
  "needs_reason rating previous seen =
    bindR (in_strings rating [''performed'', ''performed_with_support'']) (\<lambda>positive.
      Inr (positive \<and> on_status seen = ''not_met''
        \<or> on_status seen = ''not_observed'' \<and> \<not> val_eq rating (VStr ''not_observed'')
        \<or> previous \<noteq> None))"

definition require_invalid :: "bool \<Rightarrow> string \<Rightarrow> exc + unit" where
  "require_invalid ok message = (if ok then Inr () else invalid message)"

text \<open>\<open>validate_judgment\<close>; \<open>previous\<close> is never an empty dictionary.\<close>

definition validate_judgment :: "val \<Rightarrow> val list \<Rightarrow> row option \<Rightarrow> observation \<Rightarrow> exc + unit" where
  "validate_judgment payload references previous seen = (case payload of
     VDict d \<Rightarrow> if \<not> keys_are d JUDGMENT_FIELDS then invalid ''invalid evaluator judgment fields'' else
       bindR (ditem d ''objective_id'') (\<lambda>objective. bindR (ditem d ''rating'') (\<lambda>rating.
       bindR (in_strings objective (map fst OBJECTIVES)) (\<lambda>known.
       bindR (require_invalid (known \<and> vmem rating (map VStr RATINGS)) ''invalid objective or rating'') (\<lambda>_.
       bindR (bindR (ditem d ''rationale'') (\<lambda>v. aar_text v ''rationale'' 2048)) (\<lambda>_.
       bindR (bindR (ditem d ''expected_revision'') (\<lambda>v. check_revision v previous)) (\<lambda>_.
       bindR (bindR (ditem d ''evidence_ids'') (check_evidence references)) (\<lambda>evidence.
       bindR (ditem d ''override_reason'') (\<lambda>override. bindR (ditem d ''platform_reason'') (\<lambda>platform.
       bindR (require_invalid (check_text override 2048) ''invalid override_reason'') (\<lambda>_.
       bindR (require_invalid (check_text platform 2048) ''invalid platform_reason'') (\<lambda>_.
       bindR (if val_eq rating (VStr ''not_observed'') then aar_text platform ''platform/exercise-control reason'' 2048
              else require_invalid (evidence \<noteq> []) ''observed ratings require cited evidence'') (\<lambda>_.
       bindR (needs_reason rating previous seen) (\<lambda>needed.
       bindR (if needed then aar_text override ''override/revision reason'' 2048 else Inr ()) (\<lambda>_.
       bindR (ditem d ''improvement_actions'') check_actions))))))))))))))
   | _ \<Rightarrow> invalid ''invalid evaluator judgment fields'')"

section \<open>Bundles\<close>

definition BUNDLE_FIELDS :: "string list" where
  "BUNDLE_FIELDS = [''bundle_version'', ''rubric_version'', ''exercise_id'', ''run_id'', ''scenario_id'', ''run_state'',
     ''checkpoint_ids'', ''events'', ''submissions'', ''content_sha256'']"

definition RUN_STATES :: "string list" where
  "RUN_STATES = [''idle'', ''ready'', ''running'', ''paused'', ''stopped'', ''completed'']"

text \<open>\<open>_event_references\<close>: one round of its loop, with the identifiers seen and the last sequence number.\<close>

definition event_reference :: "env \<Rightarrow> val \<Rightarrow> val \<Rightarrow> val list \<times> int \<Rightarrow> val \<Rightarrow> exc + (val list \<times> int)" where
  "event_reference env exercise run st ev = (case ev of
     VDict d \<Rightarrow>
       bindR (validate_event env d) (\<lambda>_.
       bindR (fail_if (any_of
         [notR (isR (path ev [''exercise_id'']) exercise), notR (isR (path ev [''run_id'']) run),
          bindR (path ev [''sequence'']) (\<lambda>n. at_most n (snd st)),
          bindR (path ev [''event_id'']) (\<lambda>i. hashed i (vmem i (fst st)))])
         ''AAR requires unique, ordered events from one run'') (\<lambda>_.
       bindR (path ev [''event_id'']) (\<lambda>i. bindR (path ev [''sequence'']) (\<lambda>n. case num_of n of
         Some k \<Rightarrow> Inr (i # fst st, k) | None \<Rightarrow> Inl (TypeError [])))))
   | _ \<Rightarrow> invalid ''invalid canonical event'')"

fun event_references :: "env \<Rightarrow> val \<Rightarrow> val \<Rightarrow> val list \<times> int \<Rightarrow> val list \<Rightarrow> exc + val list" where
  "event_references env exercise run st [] = Inr (fst st)"
| "event_references env exercise run st (ev # evs) =
     bindR (event_reference env exercise run st ev) (\<lambda>st'. event_references env exercise run st' evs)"

definition bundle_events :: "val \<Rightarrow> exc + val list" where
  "bundle_events v = (case v of
     VList evs \<Rightarrow> if 100000 < length evs then invalid ''invalid event ledger size'' else Inr evs
   | _ \<Rightarrow> invalid ''invalid event ledger size'')"

text \<open>\<open>_submission_references\<close>.\<close>

definition submission_ref :: "int \<Rightarrow> string" where
  "submission_ref n = ''submission:'' @ int_str n"

definition is_dict :: "val \<Rightarrow> bool" where
  "is_dict v \<longleftrightarrow> (case v of VDict d \<Rightarrow> True | _ \<Rightarrow> False)"

definition SUBMISSION_FIELDS :: "string list" where
  "SUBMISSION_FIELDS = [''submission_id'', ''actor_id'', ''submission_type'', ''submitted_at'', ''payload'', ''result'']"

definition submission_reference :: "val list \<Rightarrow> val \<Rightarrow> exc + val list" where
  "submission_reference refs v = (case v of
     VDict d \<Rightarrow> if \<not> keys_are d SUBMISSION_FIELDS then invalid ''invalid submission record'' else
       bindR (ditem d ''submission_id'') (\<lambda>i. case strict_int i of
         None \<Rightarrow> invalid ''invalid submission id''
       | Some n \<Rightarrow> if n < 1 then invalid ''invalid submission id''
         else if vmem (VStr (submission_ref n)) refs then invalid ''duplicate submission id''
         else bindR (mapR (\<lambda>f. bindR (ditem d f) (\<lambda>x. aar_text x f 256)) [''actor_id'', ''submission_type'', ''submitted_at'']) (\<lambda>_.
           bindR (ditem d ''payload'') (\<lambda>p. bindR (ditem d ''result'') (\<lambda>r.
             if is_dict p \<and> is_dict r then Inr (VStr (submission_ref n) # refs)
             else invalid ''invalid submission payload''))))
   | _ \<Rightarrow> invalid ''invalid submission record'')"

fun submission_references :: "val list \<Rightarrow> val list \<Rightarrow> exc + val list" where
  "submission_references refs [] = Inr refs"
| "submission_references refs (v # vs) = bindR (submission_reference refs v) (\<lambda>refs'. submission_references refs' vs)"

definition bundle_submissions :: "val \<Rightarrow> exc + val list" where
  "bundle_submissions v = (case v of
     VList xs \<Rightarrow> if 10000 < length xs then invalid ''invalid submission ledger size'' else Inr xs
   | _ \<Rightarrow> invalid ''invalid submission ledger size'')"

section \<open>Judgments of a ledger\<close>

text \<open>\<open>_validate_judgments\<close>: the latest judgment of each objective, and the evidence an event may cite.\<close>

record review_state =
  rs_judgments :: "(val \<times> row) list"
  rs_earlier :: "val list"

definition earlier_submission :: "val \<Rightarrow> exc + bool" where
  "earlier_submission v = (case v of VStr s \<Rightarrow> Inr (starts_with ''submission:'' s)
   | _ \<Rightarrow> Inl (OtherError ''AttributeError''
       (quoted (type_name v) @ '' object has no attribute '' @ quoted ''startswith'')))"

definition attributable :: "val \<Rightarrow> exc + unit" where
  "attributable ev = fail_if (any_of
     [notinR (ev_get ev ''actor'' ''role'') [''evaluator'', ''facilitator''],
      notR (isR (path ev [''actor'', ''type'']) (VStr ''facilitator'')),
      notR (isR (path ev [''visibility'']) (VStr ''evaluator''))])
     ''objective judgment must be attributable to an evaluator''"

text \<open>The payload of a persisted judgment; data that is no object does not have the fields.\<close>

definition judgment_payload :: "val \<Rightarrow> exc + (row \<times> row)" where
  "judgment_payload ev = bindR (path ev [''data'']) (\<lambda>data. case data of
     VDict d \<Rightarrow> if keys_are d (JUDGMENT_FIELDS @ [''revision'', ''supersedes_event_id''])
       then Inr (d, map (\<lambda>f. (f, get_or d f VNone)) JUDGMENT_FIELDS)
       else invalid ''invalid persisted judgment fields''
   | _ \<Rightarrow> invalid ''invalid persisted judgment fields'')"

definition superseded :: "row option \<Rightarrow> exc + val" where
  "superseded previous = (case previous of None \<Rightarrow> Inr VNone | Some p \<Rightarrow> ditem p ''event_id'')"

definition expected_int :: "val \<Rightarrow> exc + int" where
  "expected_int v = (case strict_int v of Some n \<Rightarrow> Inr n | None \<Rightarrow> Inl (TypeError []))"

definition vput :: "val \<Rightarrow> 'a \<Rightarrow> (val \<times> 'a) list \<Rightarrow> (val \<times> 'a) list" where
  "vput k x d = (k, x) # filter (\<lambda>e. \<not> val_eq (fst e) k) d"

definition review_judgment :: "val list \<Rightarrow> review_state \<Rightarrow> val \<Rightarrow> exc + review_state" where
  "review_judgment events st ev =
    bindR (attributable ev) (\<lambda>_.
    bindR (judgment_payload ev) (\<lambda>(data, payload).
    bindR (ditem payload ''objective_id'') (\<lambda>objective.
    bindR (fail_if (any_of
       [notR (isR (get_of ev ''objective_ids'' VNone) (VList [objective])), notR (isR (target_id ev) objective)])
       ''judgment objective binding mismatch'') (\<lambda>_.
    bindR (hashed objective (vfind objective (rs_judgments st))) (\<lambda>previous.
    bindR (objective_observation events objective) (\<lambda>seen.
    bindR (validate_judgment (VDict payload) (rs_earlier st) previous seen) (\<lambda>_.
    bindR (bindR (ditem payload ''expected_revision'') expected_int) (\<lambda>n.
    bindR (fail_if (notR (isR (ditem data ''revision'') (VInt (n + 1)))) ''invalid judgment revision'') (\<lambda>_.
    bindR (superseded previous) (\<lambda>last_id.
    bindR (fail_if (notR (isR (ditem data ''supersedes_event_id'') last_id)) ''invalid judgment supersession'') (\<lambda>_.
    bindR (path ev [''event_id'']) (\<lambda>i.
      Inr (st\<lparr>rs_judgments := vput objective (dset ''event_id'' i data) (rs_judgments st)\<rparr>)))))))))))))"

definition review_event :: "val list \<Rightarrow> review_state \<Rightarrow> val \<Rightarrow> exc + review_state" where
  "review_event events st ev =
    bindR (isR (path ev [''event_type'']) (VStr ''evaluation.objective.judged'')) (\<lambda>judged.
    bindR (if judged then review_judgment events st ev else Inr st) (\<lambda>st'.
    bindR (path ev [''event_id'']) (\<lambda>i. Inr (st'\<lparr>rs_earlier := i # rs_earlier st'\<rparr>))))"

fun review_events :: "val list \<Rightarrow> review_state \<Rightarrow> val list \<Rightarrow> exc + review_state" where
  "review_events events st [] = Inr st"
| "review_events events st (ev # evs) = bindR (review_event events st ev) (\<lambda>st'. review_events events st' evs)"

definition validate_judgments :: "val list \<Rightarrow> val list \<Rightarrow> exc + unit" where
  "validate_judgments events references =
    bindR (filterR earlier_submission references) (\<lambda>earlier.
    bindR (review_events events \<lparr>rs_judgments = [], rs_earlier = earlier\<rparr> events) (\<lambda>_. Inr ()))"

text \<open>\<open>validate_bundle\<close>; \<open>keys_are\<close> makes every field present.\<close>

definition check_scope :: "val \<Rightarrow> exc + unit" where
  "check_scope v = (case v of
     VList xs \<Rightarrow> require_invalid (list_all is_str xs \<and> distinct xs \<and> set xs \<subseteq> set (map VStr [''DP1'', ''DP2'', ''DP3'', ''DP4'']))
       ''invalid checkpoint scope''
   | _ \<Rightarrow> invalid ''invalid checkpoint scope'')"

definition check_header :: "row \<Rightarrow> exc + unit" where
  "check_header b =
    (let fld = (\<lambda>k. get_or b k VNone) in
    bindR (require_invalid (keys_are b BUNDLE_FIELDS) ''invalid AAR bundle fields'') (\<lambda>_.
    bindR (require_invalid (val_eq (fld ''bundle_version'') (VStr AAR_VERSION) \<and> val_eq (fld ''rubric_version'') (VStr AAR_VERSION))
      ''unsupported AAR bundle or rubric version'') (\<lambda>_.
    bindR (mapR (\<lambda>k. aar_text (fld k) k 128) [''exercise_id'', ''run_id'', ''scenario_id'']) (\<lambda>_.
    bindR (require_invalid (fld ''run_state'' \<in> set (map VStr RUN_STATES)) ''invalid run state'') (\<lambda>_.
      check_scope (fld ''checkpoint_ids''))))))"

definition validate_bundle :: "env \<Rightarrow> val \<Rightarrow> exc + unit" where
  "validate_bundle env bundle = (case bundle of
     VDict b \<Rightarrow>
      (let fld = (\<lambda>k. get_or b k VNone) in
       bindR (check_header b) (\<lambda>_.
       bindR (require_invalid (val_eq (fld ''content_sha256'') (aar_digest env (filter (\<lambda>kv. fst kv \<noteq> ''content_sha256'') b)))
         ''AAR bundle integrity check failed'') (\<lambda>_.
       bindR (bundle_events (fld ''events'')) (\<lambda>events.
       bindR (event_references env (fld ''exercise_id'') (fld ''run_id'') ([], 0) events) (\<lambda>ids.
       bindR (bundle_submissions (fld ''submissions'')) (\<lambda>submissions.
       bindR (submission_references ids submissions) (\<lambda>references.
       bindR (support_index events) (\<lambda>_. validate_judgments events references))))))))
   | _ \<Rightarrow> invalid ''invalid AAR bundle fields'')"

text \<open>\<open>build_bundle\<close>; the sequence numbers of the events it is given are integers.\<close>

definition sequence_of :: "val \<Rightarrow> exc + int" where
  "sequence_of ev = bindR (path ev [''sequence'']) (\<lambda>n. case num_of n of Some k \<Rightarrow> Inr k | None \<Rightarrow> Inl (TypeError []))"

definition by_sequence :: "val list \<Rightarrow> exc + val list" where
  "by_sequence events = bindR (mapR sequence_of events) (\<lambda>ns. Inr (map snd (sort_key fst (zip ns events))))"

definition build_bundle :: "env \<Rightarrow> string \<Rightarrow> string \<Rightarrow> string \<Rightarrow> string \<Rightarrow> string list \<Rightarrow> val list \<Rightarrow> val \<Rightarrow> exc + row" where
  "build_bundle env exercise_id run_id scenario_id run_state scope events submissions =
    bindR (by_sequence events) (\<lambda>ordered.
    (let bundle = redact_row
       [(''bundle_version'', VStr AAR_VERSION), (''rubric_version'', VStr AAR_VERSION), (''exercise_id'', VStr exercise_id),
        (''run_id'', VStr run_id), (''scenario_id'', VStr scenario_id), (''run_state'', VStr run_state),
        (''checkpoint_ids'', str_list (sort scope)), (''events'', VList ordered), (''submissions'', submissions)];
       signed = dset ''content_sha256'' (aar_digest env bundle) bundle in
     bindR (validate_bundle env (VDict signed)) (\<lambda>_. Inr signed)))"

section \<open>The report\<close>

record objective_report =
  or_objective_id :: string
  or_rubric :: objective_rubric
  or_observation :: observation
  or_judgment :: "row option"
  or_history :: "row list"

record checkpoint_entry =
  ce_checkpoint_id :: val
  ce_result :: val
  ce_event_id :: val
  ce_elapsed :: val
  ce_verifier_checks :: val

record timeline_entry =
  te_event_id :: val
  te_sequence :: val
  te_timestamp :: val
  te_event_type :: val
  te_actor_id :: val
  te_message :: val
  te_elapsed :: val

record aar_report =
  rp_exercise_id :: val
  rp_run_id :: val
  rp_scenario_id :: val
  rp_run_state :: val
  rp_bundle_sha :: val
  rp_status :: string
  rp_reviewed :: nat
  rp_objectives :: "objective_report list"
  rp_checkpoint_rubrics :: "(string \<times> checkpoint_rubric \<times> bool) list"
  rp_path :: "checkpoint_entry list"
  rp_timeline :: "timeline_entry list"
  rp_submissions :: val
  rp_support :: "support_record list"
  rp_platform :: "(string \<times> val) list"
  rp_actions :: "row list"

definition SCOPE_NOTE :: string where
  "SCOPE_NOTE = ''Local synthetic observations; not confirmation of Cyber Range or Splunk acceptance.''"

definition AGGREGATE_NOTE :: string where
  "AGGREGATE_NOTE = ''Charter dimension weights retained; no numeric grade until criterion weights and evaluator calibration are approved.''"

definition SUPPORT_NOTE :: string where
  "SUPPORT_NOTE = ''Human assistance labels are evidence, not automatic objective ratings.''"

text \<open>The judgments of one objective, as \<open>{**data, event_id, evaluator_id, timestamp}\<close>.\<close>

definition judges :: "string \<Rightarrow> val \<Rightarrow> exc + bool" where
  "judges identifier ev = both (isR (path ev [''event_type'']) (VStr ''evaluation.objective.judged''))
     (isR (path ev [''data'', ''objective_id'']) (VStr identifier))"

definition history_entry :: "val \<Rightarrow> exc + row" where
  "history_entry ev =
    bindR (path ev [''data'']) (\<lambda>data. bindR (case data of VDict d \<Rightarrow> Inr d | _ \<Rightarrow> Inl (TypeError [])) (\<lambda>d.
    bindR (path ev [''event_id'']) (\<lambda>i. bindR (path ev [''actor'', ''id'']) (\<lambda>evaluator.
    bindR (path ev [''timestamp'']) (\<lambda>t.
      Inr (dmerge d [(''event_id'', i), (''evaluator_id'', evaluator), (''timestamp'', t)]))))))"

definition objective_report :: "val list \<Rightarrow> string \<times> objective_rubric \<Rightarrow> exc + objective_report" where
  "objective_report events entry =
    bindR (filterR (judges (fst entry)) events) (\<lambda>judged. bindR (mapR history_entry judged) (\<lambda>history.
    bindR (objective_observation events (VStr (fst entry))) (\<lambda>seen.
      Inr \<lparr>or_objective_id = fst entry, or_rubric = snd entry, or_observation = seen,
           or_judgment = (if history = [] then None else Some (List.last history)), or_history = history\<rparr>)))"

definition checkpoint_entry :: "val \<Rightarrow> exc + checkpoint_entry" where
  "checkpoint_entry ev =
    bindR (target_id ev) (\<lambda>t. bindR (path ev [''data'', ''result'']) (\<lambda>r. bindR (path ev [''event_id'']) (\<lambda>i.
    bindR (ev_get ev ''data'' ''elapsed_seconds'') (\<lambda>n. bindR (path ev [''data'']) (\<lambda>data.
    bindR (get_of data ''verifier_checks'' (VDict [])) (\<lambda>checks.
      Inr \<lparr>ce_checkpoint_id = t, ce_result = r, ce_event_id = i, ce_elapsed = n, ce_verifier_checks = checks\<rparr>))))))"

definition timeline_entry :: "val \<Rightarrow> exc + timeline_entry" where
  "timeline_entry ev =
    bindR (path ev [''event_id'']) (\<lambda>i. bindR (path ev [''sequence'']) (\<lambda>n. bindR (path ev [''timestamp'']) (\<lambda>t.
    bindR (path ev [''event_type'']) (\<lambda>ty. bindR (path ev [''actor'', ''id'']) (\<lambda>a. bindR (path ev [''message'']) (\<lambda>m.
    bindR (ev_get ev ''data'' ''elapsed_seconds'') (\<lambda>e.
      Inr \<lparr>te_event_id = i, te_sequence = n, te_timestamp = t, te_event_type = ty, te_actor_id = a, te_message = m,
           te_elapsed = e\<rparr>)))))))"

definition platform_entry :: "objective_report \<Rightarrow> exc + (string \<times> val) list" where
  "platform_entry item = (case or_judgment item of None \<Rightarrow> Inr []
   | Some j \<Rightarrow> bindR (ditem j ''rating'') (\<lambda>rating. if val_eq rating (VStr ''not_observed'')
       then bindR (ditem j ''platform_reason'') (\<lambda>r. Inr [(or_objective_id item, r)]) else Inr []))"

definition action_entries :: "objective_report \<Rightarrow> exc + row list" where
  "action_entries item = (case or_judgment item of None \<Rightarrow> Inr []
   | Some j \<Rightarrow> bindR (ditem j ''improvement_actions'') (\<lambda>actions. case actions of
       VList xs \<Rightarrow> mapR (\<lambda>a. case a of VDict d \<Rightarrow> Inr (dmerge [(''objective_id'', VStr (or_objective_id item))] d)
         | _ \<Rightarrow> Inl (TypeError [])) xs
     | _ \<Rightarrow> Inl (TypeError [])))"

text \<open>\<open>build_report\<close>.\<close>

definition report_of :: "row \<Rightarrow> val list \<Rightarrow> exc + aar_report" where
  "report_of b events =
    (let fld = (\<lambda>k. get_or b k VNone) in
    bindR (mapR (objective_report events) OBJECTIVES) (\<lambda>objectives.
    bindR (bindR (filterR (\<lambda>ev. isR (path ev [''event_type'']) (VStr ''scenario.checkpoint.resolved'')) events)
      (mapR checkpoint_entry)) (\<lambda>resolved.
    bindR (mapR timeline_entry events) (\<lambda>timeline.
    bindR (support_index events) (\<lambda>support.
    bindR (mapR platform_entry objectives) (\<lambda>platform.
    bindR (mapR action_entries objectives) (\<lambda>actions.
    (let reviewed = length (filter (\<lambda>item. or_judgment item \<noteq> None) objectives);
       terminal = fld ''run_state'' \<in> set [VStr ''stopped'', VStr ''completed''] in
      Inr \<lparr>rp_exercise_id = fld ''exercise_id'', rp_run_id = fld ''run_id'', rp_scenario_id = fld ''scenario_id'',
           rp_run_state = fld ''run_state'', rp_bundle_sha = fld ''content_sha256'',
           rp_status = (if reviewed = 5 \<and> terminal then ''reviewed'' else ''provisional''), rp_reviewed = reviewed,
           rp_objectives = objectives,
           rp_checkpoint_rubrics = map (\<lambda>(i, r). (i, r, case fld ''checkpoint_ids'' of VList xs \<Rightarrow> vmem (VStr i) xs | _ \<Rightarrow> False))
             CHECKPOINT_RUBRICS,
           rp_path = resolved, rp_timeline = timeline, rp_submissions = fld ''submissions'', rp_support = support,
           rp_platform = concat platform, rp_actions = concat actions\<rparr>))))))))"

definition build_report :: "env \<Rightarrow> val \<Rightarrow> exc + aar_report" where
  "build_report env bundle =
    bindR (validate_bundle env bundle) (\<lambda>_. case bundle of
      VDict b \<Rightarrow> bindR (bundle_events (get_or b ''events'' VNone)) (report_of b)
    | _ \<Rightarrow> invalid ''invalid AAR bundle fields'')"

text \<open>\<open>participant_feedback\<close>.\<close>

definition feedback_row :: "objective_report \<Rightarrow> exc + row" where
  "feedback_row item =
    bindR (case or_judgment item of None \<Rightarrow> Inl (TypeError []) | Some j \<Rightarrow> ditem j ''rating'') (\<lambda>rating.
      Inr [(''objective_id'', VStr (or_objective_id item)), (''title'', VStr (ob_title (or_rubric item))),
           (''rating'', rating), (''next_step'', VStr (ob_next_step (or_rubric item)))])"

definition participant_feedback :: "aar_report \<Rightarrow> exc + row" where
  "participant_feedback report =
    (if rp_status report \<noteq> ''reviewed''
     then invalid ''feedback requires a terminal run and all five reviewed objectives''
     else bindR (mapR feedback_row (rp_objectives report)) (\<lambda>rows.
       Inr [(''run_id'', rp_run_id report), (''status'', VStr ''reviewed''), (''objectives'', VList (map VDict rows))]))"

end
