(* ===== verification/AarText.thy ===== *)
theory AarText
  imports Aar
begin

text \<open>
  The Markdown report of \<^verbatim>\<open>orchestrator/aar.py\<close> (\<open>_md\<close>, \<open>render_markdown\<close>). Text is UTF-8: the dash and the
  middle dot are their bytes.
\<close>

section \<open>Escaping\<close>

text \<open>\<open>str.replace\<close> of one character, and \<open>html.escape\<close>.\<close>

definition replace_char :: "char \<Rightarrow> string \<Rightarrow> string \<Rightarrow> string" where
  "replace_char c r s = concat (map (\<lambda>x. if x = c then r else [x]) s)"

definition html_escape :: "string \<Rightarrow> string" where
  "html_escape s = fold (\<lambda>(c, r). replace_char c r)
     [(CHR ''&'', ''&amp;''), (CHR ''<'', ''&lt;''), (CHR ''>'', ''&gt;''), (CHR 0x22, ''&quot;''), (CHR 0x27, ''&#x27;'')] s"

definition MD_CHARS :: string where
  "MD_CHARS = CHR 0x5C # CHR 0x60 # ''*_[]#|>''"

definition md :: "val \<Rightarrow> string" where
  "md v = fold (\<lambda>c. replace_char c [CHR 0x5C, c]) MD_CHARS (replace_char (CHR 0x0A) '' '' (html_escape (py_str v)))"

section \<open>The document\<close>

definition dash :: string where "dash = [CHR 0x20, CHR 0xE2, CHR 0x80, CHR 0x94, CHR 0x20]"
definition dot :: string where "dot = [CHR 0x20, CHR 0xC2, CHR 0xB7, CHR 0x20]"

definition md_at :: "row \<Rightarrow> string \<Rightarrow> exc + string" where
  "md_at r k = bindR (ditem r k) (\<lambda>v. Inr (md v))"

definition str_at :: "row \<Rightarrow> string \<Rightarrow> exc + string" where
  "str_at r k = bindR (ditem r k) (\<lambda>v. Inr (py_str v))"

text \<open>\<open>", ".join(v)\<close>.\<close>

definition joined :: "val \<Rightarrow> exc + string" where
  "joined v = (case v of
     VList xs \<Rightarrow> if list_all is_str xs then Inr (join '', '' (map py_str xs)) else Inl (TypeError [])
   | _ \<Rightarrow> Inl (TypeError []))"

definition reason_lines :: "row \<Rightarrow> string \<times> string \<Rightarrow> exc + string list" where
  "reason_lines j fld = bindR (ditem j (fst fld)) (\<lambda>v.
     Inr (if truthy v then [snd fld @ '': '' @ md v, []] else []))"

definition history_line :: "row \<Rightarrow> exc + string" where
  "history_line p =
    bindR (str_at p ''revision'') (\<lambda>n. bindR (md_at p ''rating'') (\<lambda>rating. bindR (md_at p ''evaluator_id'') (\<lambda>who.
    bindR (md_at p ''rationale'') (\<lambda>why. bindR (md_at p ''override_reason'') (\<lambda>change.
      Inr (''- Revision '' @ n @ '': '' @ rating @ '' by '' @ who @ ''; '' @ why @ ''; change reason: '' @ change))))))"

definition judgment_lines :: "row \<Rightarrow> row list \<Rightarrow> exc + string list" where
  "judgment_lines j history =
    bindR (md_at j ''evaluator_id'') (\<lambda>who. bindR (str_at j ''revision'') (\<lambda>n. bindR (md_at j ''timestamp'') (\<lambda>t.
    bindR (md_at j ''rationale'') (\<lambda>why.
    bindR (bindR (ditem j ''evidence_ids'') joined) (\<lambda>evidence.
    bindR (mapR (reason_lines j) [(''override_reason'', ''Override Reason''), (''platform_reason'', ''Platform Reason'')]) (\<lambda>reasons.
    bindR (if 1 < length history then mapR history_line history else Inr []) (\<lambda>past.
      Inr ([''Evaluator: '' @ who @ dot @ ''Revision '' @ n @ dot @ t, [], ''Rationale: '' @ why, [],
           ''Evidence: '' @ md (VStr (if evidence = [] then ''not observed'' else evidence)), []]
         @ concat reasons
         @ (if 1 < length history then [''Review history:'', []] @ past @ [[]] else [])))))))))"

definition objective_lines :: "objective_report \<Rightarrow> exc + string list" where
  "objective_lines item =
    bindR (case or_judgment item of None \<Rightarrow> Inr ''awaiting evaluator review'' | Some j \<Rightarrow> str_at j ''rating'') (\<lambda>rating.
    bindR (case or_judgment item of None \<Rightarrow> Inr [] | Some j \<Rightarrow> judgment_lines j (or_history item)) (\<lambda>details.
      Inr ([''### '' @ or_objective_id item @ dash @ ob_title (or_rubric item), [],
            ''Machine observation: '' @ on_status (or_observation item), [], ''Rating: '' @ rating, []] @ details)))"

definition support_lines :: "support_record \<Rightarrow> string list" where
  "support_lines r =
    [''- Request '' @ md (su_request_id r) @ '' by '' @ md (su_requester_id r) @ '' for '' @ md (VStr (su_objective_id r))
       @ '' at '' @ int_str (su_elapsed r) @ '' seconds: '' @ md (VStr (su_question r)),
     (case su_response r of
        Some x \<Rightarrow> ''  - '' @ md (sr_kind x) @ '' by '' @ md (sr_responder_id x) @ '' at '' @ int_str (sr_elapsed x)
          @ '' seconds; event '' @ md (sr_event_id x) @ ''; scope '' @ md (VStr (join '', '' (sr_objective_ids x))) @ '': ''
          @ md (VStr (sr_text x))
      | None \<Rightarrow> ''  - No staff reply recorded; request alone does not prove assistance was given.'')]"

definition action_line :: "row \<Rightarrow> exc + string" where
  "action_line a =
    bindR (str_at a ''objective_id'') (\<lambda>i. bindR (md_at a ''description'') (\<lambda>d. bindR (md_at a ''owner'') (\<lambda>owner.
    bindR (md_at a ''priority'') (\<lambda>p. bindR (md_at a ''target_date'') (\<lambda>t.
      Inr (''- '' @ i @ '': '' @ d @ dash @ ''owner '' @ owner @ '', priority '' @ p @ '', target '' @ t))))))"

definition checkpoint_line :: "checkpoint_entry \<Rightarrow> string" where
  "checkpoint_line c = ''- '' @ md (ce_checkpoint_id c) @ '': '' @ md (ce_result c) @ '' at '' @ py_str (ce_elapsed c)
     @ '' seconds; event '' @ md (ce_event_id c)"

definition timeline_line :: "timeline_entry \<Rightarrow> string" where
  "timeline_line e = ''- #'' @ py_str (te_sequence e) @ '' '' @ md (te_timestamp e) @ dot @ md (te_event_type e) @ dot
     @ md (te_message e) @ dot @ md (te_event_id e)"

definition or_note :: "string list \<Rightarrow> string \<Rightarrow> string list" where
  "or_note ls note = (if ls = [] then [note] else ls)"

definition header_lines :: "aar_report \<Rightarrow> string list" where
  "header_lines report =
    [''# Operation Silent Spider'' @ dash @ ''After-action review'', [],
     ''Run: '' @ md (rp_run_id report) @ dot @ ''State: '' @ md (rp_run_state report) @ dot @ ''Report: ''
       @ md (VStr (rp_status report)), [],
     SCOPE_NOTE, [], AGGREGATE_NOTE, [],
     ''Reviewed objectives: '' @ nat_str (rp_reviewed report) @ ''/5'', [], ''## Objective results'', []]"

definition report_lines :: "aar_report \<Rightarrow> exc + string list" where
  "report_lines report =
    bindR (mapR objective_lines (rp_objectives report)) (\<lambda>objectives.
    bindR (mapR action_line (rp_actions report)) (\<lambda>actions.
      Inr (header_lines report @ concat objectives
        @ [''## Human assistance'', [], SUPPORT_NOTE, []]
        @ or_note (concat (map support_lines (rp_support report)))
            ''No portal support requests recorded; off-platform assistance is not excluded.''
        @ [[], ''## Corrective actions'', []] @ or_note actions ''No corrective actions recorded.''
        @ [[], ''## Checkpoint path'', []] @ map checkpoint_line (rp_path report)
        @ [[], ''## Facilitator timeline (ingestion order)'', []] @ map timeline_line (rp_timeline report))))"

definition render_markdown :: "aar_report \<Rightarrow> exc + string" where
  "render_markdown report = bindR (report_lines report) (\<lambda>ls. Inr (join [CHR 0x0A] ls @ [CHR 0x0A]))"

section \<open>What escaping leaves\<close>

text \<open>The replacements one after the other are one pass over the characters.\<close>

lemma replace_char_append: "replace_char c r (s @ t) = replace_char c r s @ replace_char c r t"
  by (simp add: replace_char_def)

lemma fold_replace_append: "fold (\<lambda>(c, r). replace_char c r) cs (s @ t)
    = fold (\<lambda>(c, r). replace_char c r) cs s @ fold (\<lambda>(c, r). replace_char c r) cs t"
  by (induction cs arbitrary: s t) (auto simp: replace_char_append)

lemma html_escape_append: "html_escape (s @ t) = html_escape s @ html_escape t"
  unfolding html_escape_def by (rule fold_replace_append)

definition md_text :: "string \<Rightarrow> string" where
  "md_text s = md (VStr s)"

lemma md_text_append: "md_text (s @ t) = md_text s @ md_text t"
proof -
  have e: "fold (\<lambda>c. replace_char c [CHR 0x5C, c]) cs (x @ y)
      = fold (\<lambda>c. replace_char c [CHR 0x5C, c]) cs x @ fold (\<lambda>c. replace_char c [CHR 0x5C, c]) cs y" for cs x y
    by (induction cs arbitrary: x y) (simp_all add: replace_char_append)
  show ?thesis by (simp add: md_text_def md_def py_str_def html_escape_append replace_char_append e)
qed

lemma md_text_Nil: "md_text [] = []"
  by (simp add: md_text_def md_def py_str_def html_escape_def replace_char_def MD_CHARS_def)

lemma md_text_chars: "md_text s = concat (map (\<lambda>c. md_text [c]) s)"
proof (induction s)
  case (Cons c s)
  then show ?case using md_text_append [of "[c]" s] by simp
qed (simp add: md_text_Nil)

text \<open>What one character becomes.\<close>

definition md_char :: "char \<Rightarrow> string" where
  "md_char c = (if c = CHR 0x0A then '' '' else if c = CHR ''<'' then ''&lt;'' else if c = CHR ''>'' then ''&gt;''
     else if c = CHR ''&'' then ''&amp;'' else if c = CHR 0x22 then ''&quot;''
     else if c = CHR 0x27 then [CHR ''&'', CHR 0x5C, CHR ''#'', CHR ''x'', CHR ''2'', CHR ''7'', CHR '';'']
     else if c \<in> set MD_CHARS then [CHR 0x5C, c] else [c])"

lemma md_text_single: "md_text [c] = md_char c"
  by (simp add: md_text_def md_def py_str_def html_escape_def replace_char_def md_char_def MD_CHARS_def)

end
