(* ===== verification/AarProps.thy ===== *)
theory AarProps
  imports AarText Samples
begin

text \<open>
  The after-action review: the judgments of an accepted bundle form revision chains that cite earlier evidence,
  feedback depends on the ratings alone, and escaped text cannot break out of its line.
\<close>

section \<open>Accepted judgments\<close>

lemma val_eq_VNone [simp]: "val_eq v VNone \<longleftrightarrow> v = VNone"
  by (cases v) (auto simp: num_of_def)

lemma val_eq_VInt [simp]: "val_eq v (VInt n) \<longleftrightarrow> num_of v = Some n"
  by (cases v) (auto simp: num_of_def)

lemma isR_Inr [simp]: "isR r w = Inr b \<longleftrightarrow> (\<exists>v. r = Inr v \<and> b = val_eq v w)"
  by (auto simp: isR_def)

lemma notR_Inr [simp]: "notR r = Inr b \<longleftrightarrow> r = Inr (\<not> b)"
  by (auto simp: notR_def)

lemma in_strings_Inr: "in_strings v ss = Inr b \<longleftrightarrow> \<not> unhashable v \<and> b = (\<exists>s\<in>set ss. v = VStr s)"
  by (cases v) (auto simp: in_strings_def)

lemma require_invalid_Inr [simp]: "require_invalid ok m = Inr u \<longleftrightarrow> ok"
  by (simp add: require_invalid_def invalid_def)

lemma vmem_VStr [simp]: "vmem (VStr s) vs \<longleftrightarrow> VStr s \<in> set vs"
  by (auto simp: vmem_def list_ex_iff)

lemma is_str_VStr: "is_str v \<longleftrightarrow> (\<exists>s. v = VStr s)"
  by (simp add: is_str_def split: val.splits)

lemma check_evidence_Inr:
  assumes "check_evidence refs v = Inr xs"
  shows "v = VList xs" and "set xs \<subseteq> set refs"
proof -
  show v: "v = VList xs" using assms by (auto simp: check_evidence_def invalid_def split: val.splits if_splits)
  have "list_all is_str xs \<and> list_all (\<lambda>x. vmem x refs) xs"
    using assms v by (auto simp: check_evidence_def invalid_def split: if_splits)
  then show "set xs \<subseteq> set refs"
    by (auto simp: list_all_iff is_str_VStr) (metis vmem_VStr)
qed

lemma strict_int_Some: "strict_int v = Some n \<longleftrightarrow> v = VInt n"
  by (simp add: strict_int_def split: val.splits)

lemma check_revision_Inr:
  assumes "check_revision v previous = Inr n"
  shows "v = VInt n" and "case previous of None \<Rightarrow> n = 0 | Some p \<Rightarrow> \<exists>w. map_of p ''revision'' = Some w \<and> num_of w = Some n"
  using assms by (auto simp: check_revision_def invalid_def strict_int_Some num_of_def split: option.splits if_splits)

text \<open>What an accepted judgment satisfies.\<close>

lemma validate_judgment_Inr:
  assumes "validate_judgment (VDict d) refs previous seen = Inr u"
  obtains ob rating n xs where "map_of d ''objective_id'' = Some (VStr ob)" and "ob \<in> set (map fst OBJECTIVES)"
    and "map_of d ''rating'' = Some (VStr rating)" and "rating \<in> set RATINGS"
    and "map_of d ''expected_revision'' = Some (VInt n)" and "check_revision (VInt n) previous = Inr n"
    and "map_of d ''evidence_ids'' = Some (VList xs)" and "set xs \<subseteq> set refs"
    and "rating \<noteq> ''not_observed'' \<longrightarrow> xs \<noteq> []"
    and "previous \<noteq> None \<or> rating \<in> set [''performed'', ''performed_with_support''] \<and> on_status seen = ''not_met'' \<longrightarrow>
      (\<exists>s. map_of d ''override_reason'' = Some (VStr s) \<and> strip s \<noteq> [])"
proof -
  obtain objective rating known x n v evidence override needed where f:
      "map_of d ''objective_id'' = Some objective" "map_of d ''rating'' = Some rating"
      "in_strings objective (map fst OBJECTIVES) = Inr known" "known \<and> vmem rating (map VStr RATINGS)"
      "map_of d ''expected_revision'' = Some x" "check_revision x previous = Inr n"
      "map_of d ''evidence_ids'' = Some v" "check_evidence refs v = Inr evidence"
      "map_of d ''override_reason'' = Some override"
      "\<not> val_eq rating (VStr ''not_observed'') \<longrightarrow> evidence \<noteq> []"
      "needs_reason rating previous seen = Inr needed" "needed \<longrightarrow> aar_text override ''override/revision reason'' 2048 = Inr ()"
    using assms by (simp add: validate_judgment_def invalid_def split: if_splits) blast+
  obtain ob where ob: "objective = VStr ob" "ob \<in> set (map fst OBJECTIVES)"
    using f(3,4) by (auto simp: in_strings_Inr)
  obtain r where r: "rating = VStr r" "r \<in> set RATINGS"
    using f(4) by (auto simp: vmem_def list_ex_iff)
  have reason: "\<exists>s. override = VStr s \<and> strip s \<noteq> []" if "needed"
    using f(12) that by (auto simp: aar_text_def invalid_def split: val.splits if_splits)
  have x: "x = VInt n" by (rule check_revision_Inr(1) [OF f(6)])
  have v: "v = VList evidence" "set evidence \<subseteq> set refs" by (rule check_evidence_Inr [OF f(8)])+
  have needed: "needed" if "previous \<noteq> None \<or> r \<in> set [''performed'', ''performed_with_support''] \<and> on_status seen = ''not_met''"
    using f(11) that by (auto simp: needs_reason_def in_strings_Inr r(1))
  show ?thesis
  proof (rule that [OF f(1) [unfolded ob(1)] ob(2) f(2) [unfolded r(1)] r(2) f(5) [unfolded x] f(6) [unfolded x]
      f(7) [unfolded v(1)] v(2)])
    show "r \<noteq> ''not_observed'' \<longrightarrow> evidence \<noteq> []" using f(10) r(1) by simp
    show "previous \<noteq> None \<or> r \<in> set [''performed'', ''performed_with_support''] \<and> on_status seen = ''not_met'' \<longrightarrow>
      (\<exists>s. map_of d ''override_reason'' = Some (VStr s) \<and> strip s \<noteq> [])"
      using needed reason f(9) by blast
  qed
qed

section \<open>The judgments of a ledger\<close>

definition judged :: "val \<Rightarrow> bool" where
  "judged ev \<longleftrightarrow> path ev [''event_type''] = Inr (VStr ''evaluation.objective.judged'')"

definition event_id_of :: "val \<Rightarrow> val" where
  "event_id_of ev = (case path ev [''event_id''] of Inr i \<Rightarrow> i | Inl _ \<Rightarrow> VNone)"

definition data_of :: "val \<Rightarrow> row" where
  "data_of ev = (case path ev [''data''] of Inr (VDict d) \<Rightarrow> d | _ \<Rightarrow> [])"

text \<open>The judgments of one objective among the events, in order.\<close>

definition reviews :: "string \<Rightarrow> val list \<Rightarrow> val list" where
  "reviews ob evs = filter (\<lambda>ev. judged ev \<and> map_of (data_of ev) ''objective_id'' = Some (VStr ob)) evs"

text \<open>What has to hold of a judgment after the events before it; \<open>cited\<close> are the references of submissions.\<close>

definition sound_judgment :: "val set \<Rightarrow> val list \<Rightarrow> val \<Rightarrow> bool" where
  "sound_judgment cited before ev \<longleftrightarrow> (\<exists>ob rating xs n w.
     map_of (data_of ev) ''objective_id'' = Some (VStr ob) \<and> ob \<in> set (map fst OBJECTIVES)
   \<and> map_of (data_of ev) ''rating'' = Some (VStr rating) \<and> rating \<in> set RATINGS
   \<and> map_of (data_of ev) ''revision'' = Some n \<and> num_of n = Some (int (length (reviews ob before)) + 1)
   \<and> map_of (data_of ev) ''supersedes_event_id'' = Some w
   \<and> val_eq w (if reviews ob before = [] then VNone else event_id_of (List.last (reviews ob before)))
   \<and> map_of (data_of ev) ''evidence_ids'' = Some (VList xs) \<and> set xs \<subseteq> event_id_of ` set before \<union> cited
   \<and> (rating \<noteq> ''not_observed'' \<longrightarrow> xs \<noteq> [])
   \<and> (reviews ob before \<noteq> [] \<longrightarrow> (\<exists>s. map_of (data_of ev) ''override_reason'' = Some (VStr s) \<and> strip s \<noteq> []))
   \<and> (\<exists>role\<in>set [''evaluator'', ''facilitator'']. ev_get ev ''actor'' ''role'' = Inr (VStr role)))"

lemma payload_of:
  assumes "judgment_payload ev = Inr (d, payload)"
  shows "data_of ev = d" and "k \<in> set JUDGMENT_FIELDS \<Longrightarrow> map_of payload k = map_of d k"
proof -
  have d: "path ev [''data''] = Inr (VDict d)" "payload = map (\<lambda>f. (f, get_or d f VNone)) JUDGMENT_FIELDS"
      "keys_are d (JUDGMENT_FIELDS @ [''revision'', ''supersedes_event_id''])"
  proof -
    obtain v where v: "path ev [''data''] = Inr v" using assms by (auto simp: judgment_payload_def simp del: path.simps)
    show "path ev [''data''] = Inr (VDict d)" "payload = map (\<lambda>f. (f, get_or d f VNone)) JUDGMENT_FIELDS"
      "keys_are d (JUDGMENT_FIELDS @ [''revision'', ''supersedes_event_id''])"
      using assms v by (cases v; auto simp: judgment_payload_def invalid_def simp del: path.simps split: if_splits)+
  qed
  show "data_of ev = d" using d(1) by (simp add: data_of_def)
  assume k: "k \<in> set JUDGMENT_FIELDS"
  then have "k \<in> fst ` set d" using d(3) by (auto simp: keys_are_def)
  then obtain x where "map_of d k = Some x" by (metis map_of_eq_None_iff not_None_eq)
  then show "map_of payload k = map_of d k"
    using k by (auto simp: d(2) map_of_map_restrict restrict_map_def get_or_def map_of_map_keys)
qed

lemma vfind_vput: "vfind (VStr o') (vput (VStr ob) x d) = (if o' = ob then Some x else vfind (VStr o') d)"
proof -
  have "List.find (\<lambda>kv. val_eq (fst kv) (VStr o')) (filter (\<lambda>e. fst e \<noteq> VStr ob) d)
      = List.find (\<lambda>kv. val_eq (fst kv) (VStr o')) d" if "o' \<noteq> ob"
    using that by (induction d) auto
  then show ?thesis by (auto simp: vfind_def vput_def)
qed

text \<open>The state of the replay after some events.\<close>

definition latest_ok :: "string \<Rightarrow> val list \<Rightarrow> row option \<Rightarrow> bool" where
  "latest_ok ob before previous \<longleftrightarrow> (case previous of
     None \<Rightarrow> reviews ob before = []
   | Some p \<Rightarrow> reviews ob before \<noteq> [] \<and> map_of p ''event_id'' = Some (event_id_of (List.last (reviews ob before)))
       \<and> (\<exists>n. map_of p ''revision'' = Some n \<and> num_of n = Some (int (length (reviews ob before)))))"

definition replayed :: "val set \<Rightarrow> val list \<Rightarrow> review_state \<Rightarrow> bool" where
  "replayed cited before st \<longleftrightarrow> set (rs_earlier st) = event_id_of ` set before \<union> cited
     \<and> (\<forall>ob. latest_ok ob before (vfind (VStr ob) (rs_judgments st)))"

lemma latest_revision:
  assumes "latest_ok ob before previous" and "check_revision (VInt n) previous = Inr n"
  shows "n = int (length (reviews ob before))"
  using assms(1) check_revision_Inr(2) [OF assms(2)] by (auto simp: latest_ok_def split: option.splits)

lemma latest_superseded:
  assumes "latest_ok ob before previous" and "superseded previous = Inr i"
  shows "i = (if reviews ob before = [] then VNone else event_id_of (List.last (reviews ob before)))"
  using assms by (auto simp: latest_ok_def superseded_def split: option.splits)

lemma path_cons: "path ev (k # ks) = bindR (item_of ev k) (\<lambda>w. path w ks)"
  by simp

text \<open>One judgment.\<close>

lemma review_judgment_sound:
  assumes "replayed cited before st" and "review_judgment events st ev = Inr st'"
  obtains ob where "sound_judgment cited before ev" and "map_of (data_of ev) ''objective_id'' = Some (VStr ob)"
    and "st' = st\<lparr>rs_judgments := vput (VStr ob) (dset ''event_id'' (event_id_of ev) (data_of ev)) (rs_judgments st)\<rparr>"
proof -
  obtain d payload objective seen n x last_id i where f: "attributable ev = Inr ()" "judgment_payload ev = Inr (d, payload)"
      "map_of payload ''objective_id'' = Some objective"
      "validate_judgment (VDict payload) (rs_earlier st) (vfind objective (rs_judgments st)) seen = Inr ()"
      "map_of payload ''expected_revision'' = Some x" "expected_int x = Inr n"
      "\<exists>v. map_of d ''revision'' = Some v \<and> num_of v = Some (n + 1)"
      "superseded (vfind objective (rs_judgments st)) = Inr last_id"
      "\<exists>v. map_of d ''supersedes_event_id'' = Some v \<and> val_eq v last_id"
      "path ev [''event_id''] = Inr i"
      "st' = st\<lparr>rs_judgments := vput objective (dset ''event_id'' i d) (rs_judgments st)\<rparr>"
    using assms(2) unfolding review_judgment_def
    by (elim bindR_InrE) (auto simp del: path.simps)
  note p = payload_of [OF f(2)]
  obtain ob rating m xs where v: "map_of payload ''objective_id'' = Some (VStr ob)" "ob \<in> set (map fst OBJECTIVES)"
      "map_of payload ''rating'' = Some (VStr rating)" "rating \<in> set RATINGS"
      "map_of payload ''expected_revision'' = Some (VInt m)"
      "check_revision (VInt m) (vfind objective (rs_judgments st)) = Inr m"
      "map_of payload ''evidence_ids'' = Some (VList xs)" "set xs \<subseteq> set (rs_earlier st)"
      "rating \<noteq> ''not_observed'' \<longrightarrow> xs \<noteq> []"
      "vfind objective (rs_judgments st) \<noteq> None \<longrightarrow> (\<exists>s. map_of payload ''override_reason'' = Some (VStr s) \<and> strip s \<noteq> [])"
    by (rule validate_judgment_Inr [OF f(4)]) blast
  have ob: "objective = VStr ob" using f(3) v(1) by simp
  have latest: "latest_ok ob before (vfind (VStr ob) (rs_judgments st))"
    using assms(1) by (simp add: replayed_def)
  have earlier: "reviews ob before \<noteq> [] \<Longrightarrow> vfind objective (rs_judgments st) \<noteq> None"
    using latest ob by (cases "vfind objective (rs_judgments st)") (simp_all add: latest_ok_def)
  have n: "n = int (length (reviews ob before))"
    using latest_revision [OF latest] v(5,6) f(5,6) ob by (simp add: expected_int_def strict_int_def)
  have role: "\<exists>role\<in>set [''evaluator'', ''facilitator'']. ev_get ev ''actor'' ''role'' = Inr (VStr role)"
    using f(1) by (auto simp: attributable_def any_of_False notinR_def in_strings_Inr)
  have same: "k \<in> set JUDGMENT_FIELDS \<Longrightarrow> map_of (data_of ev) k = map_of payload k" for k
    by (simp add: p)
  obtain rev w where rev: "map_of (data_of ev) ''revision'' = Some rev" "num_of rev = Some (n + 1)"
      "map_of (data_of ev) ''supersedes_event_id'' = Some w" "val_eq w last_id"
    using f(7,9) p(1) by blast
  have sound: "sound_judgment cited before ev"
    unfolding sound_judgment_def
  proof (intro exI conjI)
    show "map_of (data_of ev) ''objective_id'' = Some (VStr ob)" "map_of (data_of ev) ''rating'' = Some (VStr rating)"
      "map_of (data_of ev) ''evidence_ids'' = Some (VList xs)"
      using v(1,3,7) by (simp_all add: same JUDGMENT_FIELDS_def)
    show "val_eq w (if reviews ob before = [] then VNone else event_id_of (List.last (reviews ob before)))"
      using rev(4) latest_superseded [OF latest] f(8) ob by simp
    show "set xs \<subseteq> event_id_of ` set before \<union> cited"
      using v(8) assms(1) by (simp add: replayed_def)
    show "reviews ob before \<noteq> [] \<longrightarrow> (\<exists>s. map_of (data_of ev) ''override_reason'' = Some (VStr s) \<and> strip s \<noteq> [])"
      using earlier v(10) by (simp add: same JUDGMENT_FIELDS_def)
    show "num_of rev = Some (int (length (reviews ob before)) + 1)" using rev(2) n by simp
  qed (use v(2,4,9) rev(1,3) role in simp_all)
  show ?thesis
    by (rule that [OF sound]) (use f(10,11) p ob v(1) in \<open>simp_all add: event_id_of_def JUDGMENT_FIELDS_def\<close>)
qed

lemma reviews_snoc: "reviews ob (before @ [ev])
    = reviews ob before @ (if judged ev \<and> map_of (data_of ev) ''objective_id'' = Some (VStr ob) then [ev] else [])"
  by (simp add: reviews_def)

lemma latest_other:
  assumes "\<not> (judged ev \<and> map_of (data_of ev) ''objective_id'' = Some (VStr ob))"
  shows "latest_ok ob (before @ [ev]) p = latest_ok ob before p"
  using assms by (cases p) (auto simp: latest_ok_def reviews_snoc)

lemma review_event_step:
  assumes r: "replayed cited before st" and e: "review_event events st ev = Inr st'"
  shows "replayed cited (before @ [ev]) st'" and "judged ev \<Longrightarrow> sound_judgment cited before ev"
proof -
  obtain ty st1 i where f: "path ev [''event_type''] = Inr ty" "path ev [''event_id''] = Inr i"
      "(if val_eq ty (VStr ''evaluation.objective.judged'') then review_judgment events st ev else Inr st) = Inr st1"
      "st' = st1\<lparr>rs_earlier := i # rs_earlier st1\<rparr>"
    using e unfolding review_event_def by (elim bindR_InrE) (auto simp del: path.simps)
  have i: "event_id_of ev = i" using f(2) by (simp add: event_id_of_def)
  have j: "judged ev \<longleftrightarrow> ty = VStr ''evaluation.objective.judged''"
    using f(1) by (simp add: judged_def del: path.simps)
  show "judged ev \<Longrightarrow> sound_judgment cited before ev"
    using f(3) j by (auto elim: review_judgment_sound [OF r])
  show "replayed cited (before @ [ev]) st'"
  proof (cases "judged ev")
    case False
    then have "st1 = st" using f(3) j by simp
    then show ?thesis
      using r f(4) i False by (simp add: replayed_def latest_other)
  next
    case True
    have "review_judgment events st ev = Inr st1" using f(3) j True by simp
    then obtain ob where ob: "sound_judgment cited before ev" "map_of (data_of ev) ''objective_id'' = Some (VStr ob)"
        "st1 = st\<lparr>rs_judgments := vput (VStr ob) (dset ''event_id'' (event_id_of ev) (data_of ev)) (rs_judgments st)\<rparr>"
      by (rule review_judgment_sound [OF r])
    obtain n where n: "map_of (data_of ev) ''revision'' = Some n" "num_of n = Some (int (length (reviews ob before)) + 1)"
      using ob(1,2) by (auto simp: sound_judgment_def)
    have "latest_ok ob' (before @ [ev]) (vfind (VStr ob') (rs_judgments st'))" for ob'
      using r n ob(2) True
      by (cases "ob' = ob") (simp_all add: f(4) ob(3) vfind_vput latest_other replayed_def, simp add: latest_ok_def reviews_snoc)
    then show ?thesis using r i by (auto simp: replayed_def f(4) ob(3))
  qed
qed

lemma review_events_sound:
  assumes "replayed cited before st" and "review_events events st evs = Inr st'" and "k < length evs" and "judged (evs ! k)"
  shows "sound_judgment cited (before @ take k evs) (evs ! k)"
  using assms
proof (induction evs arbitrary: before st k)
  case (Cons ev evs)
  obtain st1 where st1: "review_event events st ev = Inr st1" "review_events events st1 evs = Inr st'"
    using Cons.prems(2) by auto
  show ?case
  proof (cases k)
    case 0
    then show ?thesis using review_event_step(2) [OF Cons.prems(1) st1(1)] Cons.prems(4) by simp
  next
    case (Suc m)
    then show ?thesis
      using Cons.IH [OF review_event_step(1) [OF Cons.prems(1) st1(1)] st1(2), of m] Cons.prems(3,4) by simp
  qed
qed simp

text \<open>The references of the submissions.\<close>

definition submission_refs :: "val list \<Rightarrow> val set" where
  "submission_refs subs = {VStr (submission_ref n) | n v. v \<in> set subs \<and> path v [''submission_id''] = Inr (VInt n)}"

lemma submission_refs_Cons: "submission_refs (v # vs) = submission_refs [v] \<union> submission_refs vs"
  by (auto simp: submission_refs_def)

lemma submission_reference_refs:
  assumes "submission_reference refs v = Inr out"
  shows "set out \<subseteq> set refs \<union> submission_refs [v]"
proof -
  obtain d where v: "v = VDict d" using assms by (cases v) (auto simp: submission_reference_def invalid_def)
  obtain n where "map_of d ''submission_id'' = Some (VInt n)" "out = VStr (submission_ref n) # refs"
    using assms by (auto simp: v submission_reference_def invalid_def strict_int_Some split: option.splits if_splits)
  then show ?thesis by (auto simp: submission_refs_def v item_of_def)
qed

lemma submission_references_refs:
  "submission_references refs vs = Inr out \<Longrightarrow> set out \<subseteq> set refs \<union> submission_refs vs"
proof (induction vs arbitrary: refs)
  case (Cons v vs)
  then obtain mid where m: "submission_reference refs v = Inr mid" "submission_references mid vs = Inr out" by auto
  have "set out \<subseteq> set mid \<union> submission_refs vs" by (rule Cons.IH [OF m(2)])
  also have "\<dots> \<subseteq> set refs \<union> submission_refs [v] \<union> submission_refs vs"
    using submission_reference_refs [OF m(1)] by blast
  finally show ?case by (simp add: submission_refs_Cons [of v vs] Un_assoc)
qed simp

lemma event_references_ids:
  "event_references env exercise run st evs = Inr ids \<Longrightarrow> set ids = set (fst st) \<union> event_id_of ` set evs"
proof (induction evs arbitrary: st)
  case (Cons ev evs)
  then obtain st1 where st1: "event_reference env exercise run st ev = Inr st1"
      "event_references env exercise run st1 evs = Inr ids" by auto
  have "fst st1 = event_id_of ev # fst st"
    using st1(1) by (cases ev) (auto simp: event_reference_def invalid_def event_id_of_def simp del: path.simps split: option.splits)
  then show ?case using Cons.IH [OF st1(2)] by auto
qed simp

lemma filterR_set: "filterR p xs = Inr ys \<Longrightarrow> set ys = {x \<in> set xs. p x = Inr True}"
  by (induction xs arbitrary: ys) (auto split: if_splits)

text \<open>What a judgment may cite beside earlier events: the submissions, and events whose name looks like one.\<close>

definition portable_refs :: "val list \<Rightarrow> val list \<Rightarrow> val set" where
  "portable_refs evs subs = submission_refs subs \<union>
     {VStr s | s. VStr s \<in> event_id_of ` set evs \<and> starts_with ''submission:'' s}"

lemma sound_judgment_mono: "sound_judgment cited before ev \<Longrightarrow> cited \<subseteq> cited' \<Longrightarrow> sound_judgment cited' before ev"
  unfolding sound_judgment_def by blast


section \<open>Feedback\<close>

definition rating_of :: "objective_report \<Rightarrow> val option" where
  "rating_of item = Option.bind (or_judgment item) (\<lambda>j. map_of j ''rating'')"

lemma feedback_row_Inr: "feedback_row item = Inr r \<longleftrightarrow> (\<exists>v. rating_of item = Some v \<and>
    r = [(''objective_id'', VStr (or_objective_id item)), (''title'', VStr (ob_title (or_rubric item))),
      (''rating'', v), (''next_step'', VStr (ob_next_step (or_rubric item)))])"
  by (auto simp: feedback_row_def rating_of_def split: option.splits)

lemma report_objectives:
  assumes "build_report env b = Inr r"
  shows "map (\<lambda>i. (or_objective_id i, or_rubric i)) (rp_objectives r) = OBJECTIVES"
proof -
  obtain d evs where "report_of d evs = Inr r"
    using assms by (auto simp: build_report_def invalid_def split: val.splits)
  then have "list_all2 (\<lambda>e i. objective_report evs e = Inr i) OBJECTIVES (rp_objectives r)"
    unfolding report_of_def Let_def by (elim bindR_InrE) (auto simp: mapR_Inr)
  then have "list_all2 (\<lambda>e i. (or_objective_id i, or_rubric i) = e) OBJECTIVES (rp_objectives r)"
    by (rule list_all2_mono) (auto simp: objective_report_def)
  then show ?thesis
    by (auto simp: list_all2_conv_all_nth intro: nth_equalityI)
qed

lemma map_pair_eq: "map f xs = map f ys \<Longrightarrow> map g xs = map g ys \<Longrightarrow> map (\<lambda>x. (f x, g x)) xs = map (\<lambda>x. (f x, g x)) ys"
  by (simp add: list_eq_iff_nth_eq)

text \<open>C25: Feedback tells a participant the ratings and nothing else of a run: two reviewed runs with the same
  identifier and the same ratings give the same feedback, whatever staff wrote and the machine observed.\<close>

theorem feedback_tells_ratings_only:
  assumes "build_report env b1 = Inr r1" and "build_report env b2 = Inr r2" and "rp_run_id r1 = rp_run_id r2"
    and "map rating_of (rp_objectives r1) = map rating_of (rp_objectives r2)"
    and "participant_feedback r1 = Inr f1" and "participant_feedback r2 = Inr f2"
  shows "f1 = f2"
proof -
  let ?key = "\<lambda>i. ((or_objective_id i, or_rubric i), rating_of i)"
  have keys: "map ?key (rp_objectives r1) = map ?key (rp_objectives r2)"
    by (rule map_pair_eq [OF _ assms(4)]) (simp only: report_objectives [OF assms(1)] report_objectives [OF assms(2)])
  have "list_all2 (=) (map ?key (rp_objectives r1)) (map ?key (rp_objectives r2))"
    by (simp only: keys list.rel_eq)
  then have same: "list_all2 (\<lambda>i j. ?key i = ?key j) (rp_objectives r1) (rp_objectives r2)"
    by (simp only: list_all2_map1 list_all2_map2)
  have "mapR feedback_row (rp_objectives r1) = Inr rows \<Longrightarrow> mapR feedback_row (rp_objectives r2) = Inr rows" for rows
    using same by (induction arbitrary: rows rule: list_all2_induct) (auto simp: feedback_row_Inr)
  then show ?thesis
    using assms(3,5,6) by (auto simp: participant_feedback_def invalid_def split: if_splits)
qed

section \<open>Escaped text\<close>

text \<open>Text without markup: special characters stand only after a backslash, and there is no line feed.\<close>

definition plain_char :: "char \<Rightarrow> bool" where
  "plain_char c \<longleftrightarrow> c \<notin> set MD_CHARS \<and> c \<notin> set [CHR ''<'', CHR 0x22, CHR 0x27, CHR 0x0A]"

fun markup_free :: "string \<Rightarrow> bool" where
  "markup_free [] = True"
| "markup_free [c] = plain_char c"
| "markup_free (c # d # s) = (if c = CHR 0x5C then d \<in> set MD_CHARS \<and> markup_free s else plain_char c \<and> markup_free (d # s))"

lemma not_plain_backslash: "\<not> plain_char (CHR 0x5C)"
  by (simp add: plain_char_def MD_CHARS_def)

lemma markup_free_append: "markup_free s \<Longrightarrow> markup_free t \<Longrightarrow> markup_free (s @ t)"
proof (induction s rule: markup_free.induct)
  case (2 c)
  then show ?case using not_plain_backslash by (cases t) auto
qed (auto split: if_splits)

lemma md_char_free: "markup_free (md_char c)"
  by (simp add: md_char_def plain_char_def MD_CHARS_def)

lemma markup_free_chars: "markup_free (concat (map md_char s))"
  by (induction s) (simp_all add: markup_free_append md_char_free)

text \<open>Escaped prose is inert: in the Markdown of any value every special character stands after a backslash, no
  angle bracket or quote is left and there is no line feed; the escape of a text is that of its characters.\<close>

theorem escaped_prose_is_inert:
  "markup_free (md v) \<and> CHR 0x0A \<notin> set (md v) \<and> md v = concat (map md_char (py_str v))"
proof -
  have m: "md v = concat (map md_char (py_str v))"
    using md_text_chars [of "py_str v"] by (simp add: md_text_single) (simp add: md_text_def md_def py_str_def)
  have "CHR 0x0A \<notin> set (md_char c)" for c
    by (simp add: md_char_def MD_CHARS_def)
  then show ?thesis by (auto simp: m markup_free_chars)
qed

text \<open>Two things the escape does not do: a carriage return stays one, which Markdown reads as the end of a line,
  and the entity of an apostrophe is broken by the backslash before its number sign.\<close>

lemma carriage_return_stays: "md (VStr (''a'' @ [CHR 0x0D] @ ''- b'')) = ''a'' @ [CHR 0x0D] @ ''- b''"
  by (simp add: md_def py_str_def html_escape_def replace_char_def MD_CHARS_def)

lemma apostrophe_entity_is_broken: "md (VStr [CHR 0x27]) = CHR ''&'' # CHR 0x5C # ''#x27;''"
  by (simp add: md_def py_str_def html_escape_def replace_char_def MD_CHARS_def)

section \<open>A reviewed run\<close>

declare path.simps [simp del]

definition review_data :: "string \<Rightarrow> string \<Rightarrow> string list \<Rightarrow> int \<Rightarrow> val \<Rightarrow> row" where
  "review_data ob why cited n previous = [(''objective_id'', VStr ob), (''rating'', VStr ''not_observed''), (''rationale'', VStr why),
     (''evidence_ids'', str_list cited), (''expected_revision'', VInt n), (''override_reason'', VStr why),
     (''platform_reason'', VStr ''p''), (''improvement_actions'', VList []), (''revision'', VInt (n + 1)),
     (''supersedes_event_id'', previous)]"

definition review_ev :: "int \<Rightarrow> string \<Rightarrow> string \<Rightarrow> string \<Rightarrow> string list \<Rightarrow> int \<Rightarrow> val \<Rightarrow> val" where
  "review_ev k i ob why cited n previous = VDict [(''schema_version'', VStr ''1.0.0''), (''event_id'', VStr i), (''timestamp'', VStr ''t''),
     (''exercise_id'', VStr ''x''), (''run_id'', VStr ''r''), (''sequence'', VInt k),
     (''event_type'', VStr ''evaluation.objective.judged''), (''source'', VDict [(''component'', VStr ''portal'')]),
     (''actor'', VDict [(''type'', VStr ''facilitator''), (''id'', VStr ''e''), (''role'', VStr ''evaluator'')]),
     (''target'', VDict [(''id'', VStr ob)]), (''visibility'', VStr ''evaluator''), (''message'', VStr ''m''),
     (''objective_ids'', str_list [ob]), (''data'', VDict (review_data ob why cited n previous))]"

definition sample_reviews :: "string \<Rightarrow> val list" where
  "sample_reviews why = [review_ev 1 ''a'' ''LO1'' why [] 0 VNone, review_ev 2 ''b'' ''LO1'' why [''a''] 1 (VStr ''a''),
     review_ev 3 ''c'' ''LO2'' why [] 0 VNone, review_ev 4 ''d'' ''LO3'' why [] 0 VNone,
     review_ev 5 ''e'' ''LO4'' why [] 0 VNone, review_ev 6 ''f'' ''LO5'' why [] 0 VNone]"

definition sample_bundle :: "string \<Rightarrow> row" where
  "sample_bundle why = [(''bundle_version'', VStr ''1.0.0''), (''rubric_version'', VStr ''1.0.0''), (''exercise_id'', VStr ''x''),
     (''run_id'', VStr ''r''), (''scenario_id'', VStr ''s''), (''run_state'', VStr ''completed''), (''checkpoint_ids'', VList []),
     (''events'', VList (sample_reviews why)), (''submissions'', VList []), (''content_sha256'', VStr ''0'')]"

definition plain_env :: env where
  "plain_env = sample_env\<lparr>e_sha256 := (\<lambda>_. ''0'')\<rparr>"

definition good_text :: "string \<Rightarrow> bool" where
  "good_text s \<longleftrightarrow> strip s \<noteq> [] \<and> char_count s \<le> 512"

lemma good_text_ok: "good_text s \<Longrightarrow> 512 \<le> m \<Longrightarrow> aar_text (VStr s) name m = Inr ()"
  by (simp add: good_text_def aar_text_def)

lemma plain_digest: "aar_digest plain_env r = VStr ''0''"
  by (simp add: aar_digest_def plain_env_def)

lemma schema_one: "schema_major (Some (VStr ''1.0.0'')) = Inr 1"
  by (simp add: schema_major_def version_parts_def is_digit_def digits09_def digits_value_def digit_value_def upt_rec)

lemma review_ev_valid: "review_ev k i ob why cited n previous = VDict d \<Longrightarrow> validate_event plain_env d = Inr ()"
  by (auto simp: review_ev_def validate_event_def schema_one plain_env_def sample_env_def SUPPORTED_SCHEMA_MAJOR_def)

definition is_review :: "val \<Rightarrow> bool" where
  "is_review ev \<longleftrightarrow> (\<exists>k i ob why cited n previous. ev = review_ev k i ob why cited n previous)"

lemma is_review_ev [simp]: "is_review (review_ev k i ob why cited n previous)"
  unfolding is_review_def by blast

lemma review_paths [simp]:
  "path (review_ev k i ob why cited n previous) [''event_type''] = Inr (VStr ''evaluation.objective.judged'')"
  "path (review_ev k i ob why cited n previous) [''event_id''] = Inr (VStr i)"
  "path (review_ev k i ob why cited n previous) [''sequence''] = Inr (VInt k)"
  "path (review_ev k i ob why cited n previous) [''exercise_id''] = Inr (VStr ''x'')"
  "path (review_ev k i ob why cited n previous) [''run_id''] = Inr (VStr ''r'')"
  "path (review_ev k i ob why cited n previous) [''timestamp''] = Inr (VStr ''t'')"
  "path (review_ev k i ob why cited n previous) [''message''] = Inr (VStr ''m'')"
  "path (review_ev k i ob why cited n previous) [''visibility''] = Inr (VStr ''evaluator'')"
  "path (review_ev k i ob why cited n previous) [''actor'', ''id''] = Inr (VStr ''e'')"
  "path (review_ev k i ob why cited n previous) [''actor'', ''type''] = Inr (VStr ''facilitator'')"
  "path (review_ev k i ob why cited n previous) [''source'', ''component''] = Inr (VStr ''portal'')"
  "path (review_ev k i ob why cited n previous) [''data''] = Inr (VDict (review_data ob why cited n previous))"
  "path (review_ev k i ob why cited n previous) [''data'', ''objective_id''] = Inr (VStr ob)"
  "ev_get (review_ev k i ob why cited n previous) ''actor'' ''role'' = Inr (VStr ''evaluator'')"
  "ev_get (review_ev k i ob why cited n previous) ''data'' ''elapsed_seconds'' = Inr VNone"
  "get_of (review_ev k i ob why cited n previous) ''objective_ids'' VNone = Inr (VList [VStr ob])"
  "target_id (review_ev k i ob why cited n previous) = Inr (VStr ob)"
  by (simp_all add: review_ev_def review_data_def item_of_def ditem_def ev_get_def get_of_def target_id_def str_list_def path.simps)

lemma review_type:
  assumes "is_review ev"
  shows "isR (path ev [''event_type'']) (VStr s) = Inr (''evaluation.objective.judged'' = s)"
proof -
  obtain k i ob why cited n previous where "ev = review_ev k i ob why cited n previous"
    using assms unfolding is_review_def by blast
  then show ?thesis by (simp only: review_paths isR_def bindR_simps val_eq_VStr val.inject)
qed

lemma filterR_none: "list_all is_review evs \<Longrightarrow> (\<And>ev. is_review ev \<Longrightarrow> p ev = Inr False) \<Longrightarrow> filterR p evs = Inr []"
  by (induction evs) simp_all

lemma review_observation:
  assumes "list_all is_review evs" and "ob \<in> set (map fst OBJECTIVES)"
  shows "\<exists>seen. objective_observation evs (VStr ob) = Inr seen"
proof -
  note none = filterR_none [OF assms(1)]
  have r: "filterR (\<lambda>ev. isR (path ev [''event_type'']) (VStr ''recovery.review.completed'')) evs = Inr []"
    by (rule none) (simp add: review_type del: path.simps isR_Inr)
  have c: "filterR (resolves cp) evs = Inr []" for cp
    by (rule none) (simp add: resolves_def both_def review_type del: path.simps isR_Inr)
  show ?thesis
    using assms(2) by (auto simp: objective_observation_def in_strings_def hashed_def observation_of_def r c)
qed

definition review_payload :: "string \<Rightarrow> string \<Rightarrow> string list \<Rightarrow> int \<Rightarrow> row" where
  "review_payload ob why cited n = [(''objective_id'', VStr ob), (''rating'', VStr ''not_observed''), (''rationale'', VStr why),
     (''evidence_ids'', str_list cited), (''expected_revision'', VInt n), (''override_reason'', VStr why),
     (''platform_reason'', VStr ''p''), (''improvement_actions'', VList [])]"

lemma review_ev_payload: "judgment_payload (review_ev k i ob why cited n previous)
    = Inr (review_data ob why cited n previous, review_payload ob why cited n)"
proof -
  have "keys_are (review_data ob why cited n previous) (JUDGMENT_FIELDS @ [''revision'', ''supersedes_event_id''])"
    by (simp add: keys_are_def review_data_def JUDGMENT_FIELDS_def)
  moreover have "map (\<lambda>f. (f, get_or (review_data ob why cited n previous) f VNone)) JUDGMENT_FIELDS = review_payload ob why cited n"
    by (simp add: JUDGMENT_FIELDS_def get_or_def review_data_def review_payload_def)
  ultimately show ?thesis by (simp only: judgment_payload_def review_paths bindR_simps val.case if_True)
qed

lemma review_payload_items [simp]:
  "map_of (review_payload ob why cited n) ''objective_id'' = Some (VStr ob)"
  "map_of (review_payload ob why cited n) ''rating'' = Some (VStr ''not_observed'')"
  "map_of (review_payload ob why cited n) ''rationale'' = Some (VStr why)"
  "map_of (review_payload ob why cited n) ''evidence_ids'' = Some (str_list cited)"
  "map_of (review_payload ob why cited n) ''expected_revision'' = Some (VInt n)"
  "map_of (review_payload ob why cited n) ''override_reason'' = Some (VStr why)"
  "map_of (review_payload ob why cited n) ''platform_reason'' = Some (VStr ''p'')"
  "map_of (review_payload ob why cited n) ''improvement_actions'' = Some (VList [])"
  "keys_are (review_payload ob why cited n) JUDGMENT_FIELDS"
  by (simp_all add: review_payload_def keys_are_def JUDGMENT_FIELDS_def)

definition fits :: "row option \<Rightarrow> int \<Rightarrow> val \<Rightarrow> bool" where
  "fits p n previous \<longleftrightarrow> (case p of None \<Rightarrow> n = 0 \<and> previous = VNone
     | Some r \<Rightarrow> map_of r ''revision'' = Some (VInt n) \<and> map_of r ''event_id'' = Some previous \<and> is_str previous)"

lemma good_judgment:
  assumes "good_text why" and "ob \<in> set (map fst OBJECTIVES)" and "distinct cited" and "length cited \<le> 20"
    and "set (map VStr cited) \<subseteq> set refs" and "0 \<le> n" and "fits p n previous"
  shows "validate_judgment (VDict (review_payload ob why cited n)) refs p seen = Inr ()"
proof -
  have p: "strip ''p'' \<noteq> []" "char_count ''p'' \<le> 2048" by (simp_all add: strip_def is_space_def char_count_def)
  have "check_revision (VInt n) p = Inr n"
    using assms(6,7) by (auto simp: fits_def check_revision_def strict_int_def ditem_def num_of_def split: option.splits)
  moreover have "check_evidence refs (str_list cited) = Inr (map VStr cited)"
    using assms(3-5) by (auto simp: check_evidence_def str_list_def list_all_iff is_str_VStr distinct_map inj_on_def)
  moreover have "check_text (VStr why) 2048" using assms(1) by (simp add: check_text_def good_text_def)
  moreover have "strip why \<noteq> []" using assms(1) by (simp add: good_text_def)
  ultimately show ?thesis
    using assms(2) p by (simp add: validate_judgment_def ditem_def in_strings_def hashed_def require_invalid_def RATINGS_def
        good_text_ok [OF assms(1)] aar_text_def check_text_def needs_reason_def check_actions_def)
qed

lemma review_ev_step:
  assumes "good_text why" and "list_all is_review events" and "ob \<in> set (map fst OBJECTIVES)" and "distinct cited" and "length cited \<le> 20"
    and "set (map VStr cited) \<subseteq> set (rs_earlier st)" and "0 \<le> n" and "fits (vfind (VStr ob) (rs_judgments st)) n previous"
  shows "review_event events st (review_ev k i ob why cited n previous)
    = Inr (st\<lparr>rs_judgments := vput (VStr ob) (dset ''event_id'' (VStr i) (review_data ob why cited n previous)) (rs_judgments st),
        rs_earlier := VStr i # rs_earlier st\<rparr>)"
proof -
  obtain seen where seen: "objective_observation events (VStr ob) = Inr seen"
    using review_observation [OF assms(2,3)] by blast
  obtain last_id where l: "superseded (vfind (VStr ob) (rs_judgments st)) = Inr last_id" "val_eq previous last_id"
    using assms(8) by (auto simp: fits_def superseded_def ditem_def is_str_VStr split: option.splits)
  have d: "map_of (review_data ob why cited n previous) ''revision'' = Some (VInt (n + 1))"
      "map_of (review_data ob why cited n previous) ''supersedes_event_id'' = Some previous"
    by (simp_all add: review_data_def)
  have r: "review_judgment events st (review_ev k i ob why cited n previous)
    = Inr (st\<lparr>rs_judgments := vput (VStr ob) (dset ''event_id'' (VStr i) (review_data ob why cited n previous)) (rs_judgments st)\<rparr>)"
    by (simp add: review_judgment_def attributable_def notinR_def in_strings_def hashed_def isR_def notR_def fail_if_def
        review_ev_payload ditem_def seen good_judgment [OF assms(1,3-8)] expected_int_def strict_int_def l d num_of_def)
  show ?thesis by (simp add: review_event_def isR_def r)
qed

lemma sample_objective_ids: "ob \<in> set [''LO1'', ''LO2'', ''LO3'', ''LO4'', ''LO5''] \<Longrightarrow> ob \<in> set (map fst OBJECTIVES)"
  by (simp add: OBJECTIVES_def)

lemma sample_reviews_replay:
  assumes "good_text why" and "list_all is_review evs"
  shows "\<exists>st. review_events evs \<lparr>rs_judgments = [], rs_earlier = []\<rparr> (sample_reviews why) = Inr st"
  by (simp add: sample_reviews_def review_ev_step [OF assms sample_objective_ids] fits_def vfind_def vput_def review_data_def
      is_str_def)

lemma review_not_support: "index_event st (review_ev k i ob why cited n previous) = Inr st"
  by (simp add: index_event_def in_strings_def hashed_def isR_def REQUEST_def RESPONSE_def COMPONENT_def)

lemma sample_reviews_support: "support_index (sample_reviews why) = Inr []"
  by (simp add: support_index_def sample_reviews_def review_not_support start_index_def)

lemma review_ev_reference:
  assumes "\<not> vmem (VStr i) (fst st)" and "snd st < k"
  shows "event_reference plain_env (VStr ''x'') (VStr ''r'') st (review_ev k i ob why cited n previous) = Inr (VStr i # fst st, k)"
proof -
  obtain d where d: "review_ev k i ob why cited n previous = VDict d" by (simp add: review_ev_def)
  have p: "path (VDict d) [''exercise_id''] = Inr (VStr ''x'')" "path (VDict d) [''run_id''] = Inr (VStr ''r'')"
      "path (VDict d) [''sequence''] = Inr (VInt k)" "path (VDict d) [''event_id''] = Inr (VStr i)"
    unfolding d [symmetric] by simp_all
  show ?thesis
    using assms by (simp add: d event_reference_def review_ev_valid [OF d] p isR_def notR_def fail_if_def at_most_def hashed_def num_of_def)
qed

lemma sample_references:
  "event_references plain_env (VStr ''x'') (VStr ''r'') ([], 0) (sample_reviews why) = Inr [VStr ''f'', VStr ''e'', VStr ''d'', VStr ''c'', VStr ''b'', VStr ''a'']"
  by (simp add: sample_reviews_def review_ev_reference)

lemma sample_all_reviews: "list_all is_review (sample_reviews why)"
  by (simp add: sample_reviews_def)

lemma sample_accepted:
  assumes "good_text why"
  shows "validate_bundle plain_env (VDict (sample_bundle why)) = Inr ()"
proof -
  have h: "check_header (sample_bundle why) = Inr ()"
    by (simp add: check_header_def sample_bundle_def keys_are_def BUNDLE_FIELDS_def get_or_def AAR_VERSION_def aar_text_def strip_def
        is_space_def char_count_def RUN_STATES_def check_scope_def Let_def)
  have f: "filterR earlier_submission [VStr ''f'', VStr ''e'', VStr ''d'', VStr ''c'', VStr ''b'', VStr ''a''] = Inr []"
    by (simp add: earlier_submission_def starts_with_def)
  have l: "length (sample_reviews why) \<le> 100000" by (simp add: sample_reviews_def)
  have i: "get_or (sample_bundle why) ''content_sha256'' VNone = VStr ''0''"
      "get_or (sample_bundle why) ''exercise_id'' VNone = VStr ''x''" "get_or (sample_bundle why) ''run_id'' VNone = VStr ''r''"
      "get_or (sample_bundle why) ''events'' VNone = VList (sample_reviews why)" "get_or (sample_bundle why) ''submissions'' VNone = VList []"
    by (simp_all add: get_or_def sample_bundle_def)
  show ?thesis
    using sample_reviews_replay [OF assms sample_all_reviews] l
    by (auto simp del: filterR.simps simp: validate_bundle_def h plain_digest i bundle_events_def bundle_submissions_def sample_references
        sample_reviews_support validate_judgments_def f require_invalid_def)
qed

text \<open>The report of the sample, and its feedback.\<close>

lemma sample_judges: "judges ob (review_ev k i ob' why cited n previous) = Inr (ob' = ob)"
  by (simp add: judges_def both_def isR_def)

definition sample_row :: "row \<Rightarrow> bool" where
  "sample_row r \<longleftrightarrow> map_of r ''rating'' = Some (VStr ''not_observed'') \<and> map_of r ''platform_reason'' = Some (VStr ''p'')
     \<and> map_of r ''improvement_actions'' = Some (VList [])"

lemma sample_history: "\<exists>r. history_entry (review_ev k i ob why cited n previous) = Inr r \<and> sample_row r"
  by (simp add: history_entry_def map_of_dmerge review_data_def sample_row_def)

lemma sample_histories: "list_all is_review evs \<Longrightarrow> \<exists>hs. mapR history_entry evs = Inr hs \<and> length hs = length evs \<and> list_all sample_row hs"
proof (induction evs)
  case (Cons ev evs)
  obtain r where "history_entry ev = Inr r" "sample_row r"
  proof -
    have "is_review ev" using Cons.prems by simp
    then show thesis using that sample_history unfolding is_review_def by blast
  qed
  moreover obtain hs where "mapR history_entry evs = Inr hs" "length hs = length evs" "list_all sample_row hs"
    using Cons by auto
  ultimately show ?case by simp
qed simp

lemma sample_objective:
  assumes "ob \<in> set [''LO1'', ''LO2'', ''LO3'', ''LO4'', ''LO5'']"
  shows "\<exists>item. objective_report (sample_reviews why) (ob, rubric) = Inr item \<and> rating_of item = Some (VStr ''not_observed'')
    \<and> platform_entry item = Inr [(ob, VStr ''p'')] \<and> action_entries item = Inr []"
proof -
  obtain seen where seen: "objective_observation (sample_reviews why) (VStr ob) = Inr seen"
    using review_observation [OF sample_all_reviews sample_objective_ids [OF assms]] by blast
  obtain ys where f: "filterR (judges ob) (sample_reviews why) = Inr ys" "list_all is_review ys" "ys \<noteq> []"
    using assms by (auto simp: sample_reviews_def sample_judges)
  obtain hs where hs: "mapR history_entry ys = Inr hs" "length hs = length ys" "list_all sample_row hs"
    using sample_histories [OF f(2)] by blast
  have "hs \<noteq> []" using f(3) hs(2) by auto
  then have "sample_row (List.last hs)" using hs(3) by (simp add: list_all_iff)
  then show ?thesis
    using \<open>hs \<noteq> []\<close> by (simp add: objective_report_def f(1) hs(1) seen rating_of_def platform_entry_def action_entries_def sample_row_def)
qed

lemma sample_timeline: "list_all is_review evs \<Longrightarrow> \<exists>ts. mapR timeline_entry evs = Inr ts"
  by (induction evs) (auto simp: is_review_def timeline_entry_def)

lemma rated: "rating_of item = Some v \<Longrightarrow> or_judgment item \<noteq> None"
  by (cases "or_judgment item") (simp_all add: rating_of_def)

lemma sample_report:
  assumes "good_text why"
  shows "\<exists>r f. build_report plain_env (VDict (sample_bundle why)) = Inr r \<and> rp_run_id r = VStr ''r''
    \<and> map rating_of (rp_objectives r) = replicate 5 (Some (VStr ''not_observed'')) \<and> participant_feedback r = Inr f"
proof -
  obtain rub1 rub2 rub3 rub4 rub5 where ob: "OBJECTIVES = [(''LO1'', rub1), (''LO2'', rub2), (''LO3'', rub3), (''LO4'', rub4), (''LO5'', rub5)]"
    by (simp add: OBJECTIVES_def)
  obtain i1 i2 i3 i4 i5 where items: "mapR (objective_report (sample_reviews why)) OBJECTIVES = Inr [i1, i2, i3, i4, i5]"
      "mapR platform_entry [i1, i2, i3, i4, i5] = Inr [[(''LO1'', VStr ''p'')], [(''LO2'', VStr ''p'')], [(''LO3'', VStr ''p'')],
         [(''LO4'', VStr ''p'')], [(''LO5'', VStr ''p'')]]"
      "mapR action_entries [i1, i2, i3, i4, i5] = Inr [[], [], [], [], []]"
      "map rating_of [i1, i2, i3, i4, i5] = replicate 5 (Some (VStr ''not_observed''))"
    using sample_objective [of "''LO1''" why rub1] sample_objective [of "''LO2''" why rub2] sample_objective [of "''LO3''" why rub3]
      sample_objective [of "''LO4''" why rub4] sample_objective [of "''LO5''" why rub5]
    by (auto simp: ob numeral_eq_Suc)
  then have judged: "length (filter (\<lambda>item. or_judgment item \<noteq> None) [i1, i2, i3, i4, i5]) = 5"
    using rated [of i1] rated [of i2] rated [of i3] rated [of i4] rated [of i5] by (simp add: numeral_eq_Suc)
  have r: "filterR (\<lambda>ev. isR (path ev [''event_type'']) (VStr ''scenario.checkpoint.resolved'')) (sample_reviews why) = Inr []"
    by (rule filterR_none [OF sample_all_reviews]) (simp add: review_type del: isR_Inr)
  obtain ts where ts: "mapR timeline_entry (sample_reviews why) = Inr ts"
    using sample_timeline [OF sample_all_reviews] by blast
  have i: "get_or (sample_bundle why) ''run_state'' VNone = VStr ''completed''" "get_or (sample_bundle why) ''run_id'' VNone = VStr ''r''"
      "get_or (sample_bundle why) ''events'' VNone = VList (sample_reviews why)"
    by (simp_all add: get_or_def sample_bundle_def)
  have l: "bundle_events (VList (sample_reviews why)) = Inr (sample_reviews why)"
    by (simp add: bundle_events_def sample_reviews_def)
  obtain r where rep: "report_of (sample_bundle why) (sample_reviews why) = Inr r" "rp_status r = ''reviewed''"
      "rp_objectives r = [i1, i2, i3, i4, i5]" "rp_run_id r = VStr ''r''"
    using items(1-3) judged by (simp add: report_of_def Let_def r ts sample_reviews_support i del: mapR.simps(2))
  moreover have "\<exists>rows. mapR feedback_row [i1, i2, i3, i4, i5] = Inr rows"
    using items(4) by (auto simp: feedback_row_Inr numeral_eq_Suc)
  ultimately show ?thesis
    using items(4) by (auto simp: build_report_def sample_accepted [OF assms] i(3) l participant_feedback_def simp del: mapR.simps(2))
qed

lemma sample_texts: "good_text ''v''" "good_text ''w''"
  by (simp_all add: good_text_def strip_def is_space_def char_count_def)


lemma feedback_tells_ratings_only_witness:
  "\<exists>r1 r2 f. build_report plain_env (VDict (sample_bundle ''v'')) = Inr r1 \<and> build_report plain_env (VDict (sample_bundle ''w'')) = Inr r2
    \<and> participant_feedback r1 = Inr f \<and> participant_feedback r2 = Inr f"
proof -
  obtain r1 f1 where 1: "build_report plain_env (VDict (sample_bundle ''v'')) = Inr r1" "rp_run_id r1 = VStr ''r''"
      "map rating_of (rp_objectives r1) = replicate 5 (Some (VStr ''not_observed''))" "participant_feedback r1 = Inr f1"
    using sample_report [OF sample_texts(1)] by blast
  obtain r2 f2 where 2: "build_report plain_env (VDict (sample_bundle ''w'')) = Inr r2" "rp_run_id r2 = VStr ''r''"
      "map rating_of (rp_objectives r2) = replicate 5 (Some (VStr ''not_observed''))" "participant_feedback r2 = Inr f2"
    using sample_report [OF sample_texts(2)] by blast
  have "f1 = f2"
    by (rule feedback_tells_ratings_only [OF 1(1) 2(1) _ _ 1(4) 2(4)]) (simp_all only: 1(2,3) 2(2,3))
  then show ?thesis using 1(1,4) 2(1,4) by blast
qed

end
