(* ===== verification/ReleaseCheck.thy ===== *)
theory ReleaseCheck
  imports Support
begin

text \<open>
  \<^verbatim>\<open>dashboard/release_check.py\<close>: the read-only comparison of an unpacked release with its inventory. The file
  system is a function from paths (lists of names) to nodes that does not change during the check; it may be
  infinite. SHA-256 gives the bytes of a digest, \<open>parse\<close> is \<open>json.loads\<close> and keeps every pair of an object.
\<close>

section \<open>Limits and file system\<close>

definition SOURCE_TREES :: "string list" where
  "SOURCE_TREES = [''modules'', ''dashboard'', ''citef-config'', ''shared'', ''orchestrator'', ''schemas'']"

definition MAX_INVENTORY_BYTES :: nat where "MAX_INVENTORY_BYTES = 2 * 1024 * 1024"
definition MAX_FILE_BYTES :: nat where "MAX_FILE_BYTES = 64 * 1024 * 1024"
definition MAX_TREE_BYTES :: nat where "MAX_TREE_BYTES = 128 * 1024 * 1024"
definition MAX_TREE_ENTRIES :: nat where "MAX_TREE_ENTRIES = 10000"
definition MAX_DEPTH :: nat where "MAX_DEPTH = 32"

text \<open>What \<open>lstat\<close> and \<open>scandir\<close> tell of a path; a regular file has a number of links and its bytes.\<close>

datatype node = Directory "string list" | Regular nat string | Link | Special

type_synonym fs_path = "string list"
type_synonym tree_fs = "fs_path \<Rightarrow> node option"

definition missing :: "exc + 'a" where
  "missing = Inl (OtherError ''FileNotFoundError'' [])"

definition bad_release :: "string \<Rightarrow> exc + 'a" where
  "bad_release message = Inl (ValueError message)"

text \<open>\<open>_hex\<close>, \<open>_same\<close>, \<open>_directory\<close>, \<open>_read_regular\<close>.\<close>

definition hex_digits :: string where "hex_digits = ''0123456789abcdef''"

definition hex_of :: "val \<Rightarrow> nat \<Rightarrow> exc + string" where
  "hex_of v width = (case v of
     VStr s \<Rightarrow> if length s = width \<and> list_all (\<lambda>c. c \<in> set hex_digits) s then Inr s else bad_release ''invalid identity''
   | _ \<Rightarrow> bad_release ''invalid identity'')"

definition same_identity :: "string \<Rightarrow> string \<Rightarrow> exc + string" where
  "same_identity value expected = (if value = expected then Inr value else bad_release ''identity mismatch'')"

definition directory :: "tree_fs \<Rightarrow> fs_path \<Rightarrow> exc + string list" where
  "directory fs p = (case fs p of
     None \<Rightarrow> missing | Some (Directory names) \<Rightarrow> Inr names | Some _ \<Rightarrow> bad_release ''not a real directory'')"

definition read_regular :: "tree_fs \<Rightarrow> fs_path \<Rightarrow> nat \<Rightarrow> exc + string" where
  "read_regular fs p maximum = (case fs p of
     None \<Rightarrow> missing
   | Some (Regular links content) \<Rightarrow>
       if links \<noteq> 1 \<or> maximum < length content then bad_release ''unsafe or oversized file'' else Inr content
   | Some _ \<Rightarrow> bad_release ''unsafe or oversized file'')"

section \<open>The inventory\<close>

definition destination_char :: "char \<Rightarrow> bool" where
  "destination_char c \<longleftrightarrow> is_alnum c \<or> c \<in> set ''_-''"

definition unique_metadata :: "val \<Rightarrow> exc + val" where
  "unique_metadata v = (if wf_val v then Inr v else bad_release ''duplicate metadata'')"

text \<open>One record of the inventory; the comparison of the name with the tuple does not hash it.\<close>

definition inventory_entry :: "string \<Rightarrow> val \<Rightarrow> (string \<times> string) list \<Rightarrow> val \<Rightarrow> exc + (string \<times> string) list" where
  "inventory_entry revision destination entries entry =
    bindR (item_of entry ''name'') (\<lambda>v.
    bindR (case v of VStr s \<Rightarrow> if s \<in> set SOURCE_TREES then Inr s else bad_release ''invalid source record''
      | _ \<Rightarrow> bad_release ''invalid source record'') (\<lambda>name.
    bindR (fail_if (any_of
       [Inr (has_key entries name),
        notR (isR (item_of entry ''path'') (VStr (''source/'' @ name))),
        notR (isR (item_of entry ''version'') (VStr revision)),
        notR (isR (item_of entry ''destination_vm'') destination)]) ''invalid source record'') (\<lambda>_.
    bindR (bindR (item_of entry ''sha256'') (\<lambda>w. hex_of w 64)) (\<lambda>digest.
      Inr (dset name digest entries)))))"

fun inventory_entries :: "string \<Rightarrow> val \<Rightarrow> (string \<times> string) list \<Rightarrow> val list \<Rightarrow> exc + (string \<times> string) list" where
  "inventory_entries revision destination entries [] = Inr entries"
| "inventory_entries revision destination entries (v # vs) =
     bindR (inventory_entry revision destination entries v) (\<lambda>es. inventory_entries revision destination es vs)"

definition release_metadata :: "(string \<Rightarrow> exc + val) \<Rightarrow> string \<Rightarrow> exc + (string \<times> (string \<times> string) list)" where
  "release_metadata parse content =
    bindR (bindR (parse content) unique_metadata) (\<lambda>inventory.
    bindR (bindR (item_of inventory ''repository_revision'') (\<lambda>v. hex_of v 40)) (\<lambda>revision.
    bindR (item_of inventory ''destination_vm'') (\<lambda>destination.
    bindR (case destination of
        VStr s \<Rightarrow> if 1 \<le> length s \<and> length s \<le> 32 \<and> list_all destination_char s then Inr ()
          else bad_release ''invalid destination''
      | _ \<Rightarrow> bad_release ''invalid destination'') (\<lambda>_.
    bindR (item_of inventory ''source_artifacts'') (\<lambda>artifacts.
    bindR (case artifacts of
        VList xs \<Rightarrow> if length xs = length SOURCE_TREES then Inr xs else bad_release ''incomplete source inventory''
      | _ \<Rightarrow> bad_release ''incomplete source inventory'') (\<lambda>xs.
    bindR (inventory_entries revision destination [] xs) (\<lambda>entries. Inr (revision, entries))))))))"

section \<open>The hash of a tree\<close>

text \<open>The local variables of \<open>_tree_hash\<close>: the files found, the entries counted, the stack of directories.\<close>

record walk_state =
  wk_paths :: "fs_path list"
  wk_total :: nat
  wk_pending :: "(fs_path \<times> nat) list"

fun scan_entries :: "tree_fs \<Rightarrow> fs_path \<Rightarrow> nat \<Rightarrow> string list \<Rightarrow> walk_state \<Rightarrow> exc + walk_state" where
  "scan_entries fs parent depth [] st = Inr st"
| "scan_entries fs parent depth (name # names) st =
    (let p = parent @ [name]; count = wk_total st + 1 in
     if MAX_TREE_ENTRIES < count \<or> fs p = Some Link then bad_release ''unsafe or oversized source tree''
     else case fs p of
       Some (Directory _) \<Rightarrow>
         if MAX_DEPTH < depth + 1 then bad_release ''source tree exceeds depth limit''
         else scan_entries fs parent depth names (st\<lparr>wk_total := count, wk_pending := wk_pending st @ [(p, depth + 1)]\<rparr>)
     | _ \<Rightarrow> scan_entries fs parent depth names (st\<lparr>wk_total := count, wk_paths := wk_paths st @ [p]\<rparr>))"

definition visit_next :: "tree_fs \<Rightarrow> walk_state \<Rightarrow> exc + walk_state" where
  "visit_next fs st =
    (let (parent, depth) = List.last (wk_pending st) in
     bindR (directory fs parent) (\<lambda>names.
       scan_entries fs parent depth names (st\<lparr>wk_pending := butlast (wk_pending st)\<rparr>)))"

text \<open>The \<open>while\<close> loop; that it ends is a theorem, not a feature of the definition.\<close>

partial_function (option) walk :: "tree_fs \<Rightarrow> walk_state \<Rightarrow> (exc + fs_path list) option" where
  "walk fs st = (if wk_pending st = [] then Some (Inr (wk_paths st))
     else case visit_next fs st of Inl e \<Rightarrow> Some (Inl e) | Inr st' \<Rightarrow> walk fs st')"

definition byte_hex :: "char \<Rightarrow> string" where
  "byte_hex c = [hex_digits ! (of_char c div 16), hex_digits ! (of_char c mod 16)]"

text \<open>One file: its path relative to the root, a zero byte, the digest of its content.\<close>

definition posix :: "fs_path \<Rightarrow> string" where
  "posix p = join ''/'' p"

fun tree_bytes :: "(string \<Rightarrow> string) \<Rightarrow> tree_fs \<Rightarrow> fs_path \<Rightarrow> nat \<Rightarrow> fs_path list \<Rightarrow> exc + string" where
  "tree_bytes sha fs root used [] = Inr []"
| "tree_bytes sha fs root used (p # ps) =
    bindR (read_regular fs p (min MAX_FILE_BYTES (MAX_TREE_BYTES - used))) (\<lambda>content.
    bindR (tree_bytes sha fs root (used + length content) ps) (\<lambda>rest.
      Inr (posix (drop (length root) p) @ CHR 0x00 # sha content @ rest)))"

definition hexdigest :: "(string \<Rightarrow> string) \<Rightarrow> string \<Rightarrow> string" where
  "hexdigest sha content = concat (map byte_hex (sha content))"

definition start_walk :: "fs_path \<Rightarrow> walk_state" where
  "start_walk root = \<lparr>wk_paths = [], wk_total = 0, wk_pending = [(root, 0)]\<rparr>"

definition tree_hash :: "(string \<Rightarrow> string) \<Rightarrow> tree_fs \<Rightarrow> fs_path \<Rightarrow> (exc + string) option" where
  "tree_hash sha fs root = (case directory fs root of
     Inl e \<Rightarrow> Some (Inl e)
   | Inr _ \<Rightarrow> map_option (\<lambda>r. bindR r (\<lambda>paths. bindR (tree_bytes sha fs root 0 (sort paths)) (\<lambda>bytes.
       Inr (hexdigest sha bytes)))) (walk fs (start_walk root)))"

section \<open>Inspection\<close>

definition source_root :: "tree_fs \<Rightarrow> exc + fs_path" where
  "source_root fs =
    bindR (directory fs [''source'']) (\<lambda>names.
      if set names \<subseteq> set SOURCE_TREES \<and> distinct names \<and> set names = set SOURCE_TREES then Inr [''source'']
      else bad_release ''unexpected source root entries'')"

text \<open>The report; its constant entries are left out.\<close>

record release_report =
  rr_source_verified :: bool
  rr_revision :: "string option"
  rr_inventory :: "string option"
  rr_artifacts :: "(string \<times> string) list"
  rr_checks :: "(string \<times> bool) list"
  rr_blockers :: "string list"

definition empty_report :: release_report where
  "empty_report = \<lparr>rr_source_verified = False, rr_revision = None, rr_inventory = None, rr_artifacts = [], rr_checks = [],
     rr_blockers = []\<rparr>"

text \<open>\<open>probe\<close>: any exception is a failed check and a blocker.\<close>

definition noted :: "string \<Rightarrow> exc + 'a \<Rightarrow> release_report \<Rightarrow> release_report" where
  "noted name r rep = (case r of
     Inl _ \<Rightarrow> rep\<lparr>rr_checks := rr_checks rep @ [(name, False)], rr_blockers := rr_blockers rep @ [name]\<rparr>
   | Inr _ \<Rightarrow> rep\<lparr>rr_checks := rr_checks rep @ [(name, True)]\<rparr>)"

definition note_tree :: "string \<Rightarrow> exc + string \<Rightarrow> release_report \<Rightarrow> release_report" where
  "note_tree name r rep = (let rep' = noted (''source_'' @ name) r rep in
     case r of Inl _ \<Rightarrow> rep' | Inr digest \<Rightarrow> rep'\<lparr>rr_artifacts := rr_artifacts rep' @ [(name, digest)]\<rparr>)"

fun check_trees :: "(string \<Rightarrow> string) \<Rightarrow> tree_fs \<Rightarrow> (string \<times> string) list \<Rightarrow> string list \<Rightarrow> release_report
    \<Rightarrow> release_report option" where
  "check_trees sha fs entries [] rep = Some rep"
| "check_trees sha fs entries (name # names) rep =
     Option.bind (tree_hash sha fs [''source'', name]) (\<lambda>r.
       check_trees sha fs entries names
         (note_tree name (bindR r (\<lambda>digest. bindR (ditem entries name) (same_identity digest))) rep))"

definition inventory_content :: "(string \<Rightarrow> string) \<Rightarrow> tree_fs \<Rightarrow> exc + string" where
  "inventory_content sha fs = bindR (directory fs []) (\<lambda>_. read_regular fs [''inventory.json''] MAX_INVENTORY_BYTES)"

definition verified :: "release_report \<Rightarrow> release_report" where
  "verified rep = rep\<lparr>rr_source_verified := (rr_blockers rep = [])\<rparr>"

text \<open>\<open>inspect_release\<close>: the value is none only if the walk of a tree did not end.\<close>

definition inspect_release :: "(string \<Rightarrow> string) \<Rightarrow> (string \<Rightarrow> exc + val) \<Rightarrow> tree_fs \<Rightarrow> val \<Rightarrow> val \<Rightarrow> release_report option" where
  "inspect_release sha parse fs expected_revision expected_sha256 =
    (let expected = bindR (hex_of expected_revision 40) (\<lambda>v. bindR (hex_of expected_sha256 64) (\<lambda>d. Inr (v, d)));
       rep1 = noted ''expected_release_identity'' expected empty_report in
     case expected of Inl _ \<Rightarrow> Some rep1 | Inr (wanted, digest) \<Rightarrow>
    (let content = inventory_content sha fs;
       found = bindR content (\<lambda>c. if hexdigest sha c = digest then Inr c else bad_release ''inventory does not match expected digest'');
       rep2 = noted ''inventory_digest'' found (case content of Inl _ \<Rightarrow> rep1 | Inr c \<Rightarrow> rep1\<lparr>rr_inventory := Some (hexdigest sha c)\<rparr>) in
     case found of Inl _ \<Rightarrow> Some rep2 | Inr c \<Rightarrow>
    (let metadata = release_metadata parse c; rep3 = noted ''source_inventory'' metadata rep2 in
     case metadata of Inl _ \<Rightarrow> Some rep3 | Inr (revision, entries) \<Rightarrow>
    (let rep4 = noted ''expected_repository_revision'' (same_identity revision wanted) (rep3\<lparr>rr_revision := Some revision\<rparr>);
       source = source_root fs; rep5 = noted ''source_root'' source rep4 in
     case source of Inl _ \<Rightarrow> Some rep5
     | Inr _ \<Rightarrow> map_option verified (check_trees sha fs entries SOURCE_TREES rep5)))))"

section \<open>Every walk ends\<close>

text \<open>Each entry counts towards the limit and puts at most one directory on the stack, so that twice the entries
  left plus the stack goes down with every directory visited.\<close>

definition walk_measure :: "walk_state \<Rightarrow> nat" where
  "walk_measure st = 2 * (MAX_TREE_ENTRIES - wk_total st) + length (wk_pending st)"

lemma scan_entries_measure:
  assumes "scan_entries fs parent depth names st = Inr st'"
  shows "walk_measure st' \<le> walk_measure st"
  using assms
proof (induction names arbitrary: st)
  case (Cons name names)
  have small: "wk_total st < MAX_TREE_ENTRIES"
    using Cons.prems by (auto simp: Let_def bad_release_def split: if_splits)
  obtain st1 where "scan_entries fs parent depth names st1 = Inr st'" "walk_measure st1 \<le> walk_measure st"
  proof (cases "fs (parent @ [name])")
    case None
    then show ?thesis using that Cons.prems small
      by (force simp: Let_def bad_release_def walk_measure_def split: if_splits)
  next
    case (Some n)
    then show ?thesis using that Cons.prems small
      by (cases n; force simp: Let_def bad_release_def walk_measure_def split: if_splits)
  qed
  then show ?case using Cons.IH by fastforce
qed simp

lemma visit_next_measure:
  assumes "visit_next fs st = Inr st'" and "wk_pending st \<noteq> []"
  shows "walk_measure st' < walk_measure st"
proof -
  obtain parent depth names where "scan_entries fs parent depth names (st\<lparr>wk_pending := butlast (wk_pending st)\<rparr>) = Inr st'"
    using assms(1) by (auto simp: visit_next_def split: prod.splits)
  then have "walk_measure st' \<le> walk_measure (st\<lparr>wk_pending := butlast (wk_pending st)\<rparr>)"
    by (rule scan_entries_measure)
  also have "\<dots> < walk_measure st" using assms(2) by (simp add: walk_measure_def)
  finally show ?thesis .
qed

lemma walk_ends: "\<exists>r. walk fs st = Some r"
proof (induction st rule: measure_induct_rule [of walk_measure])
  case (less st)
  show ?case
  proof (cases "wk_pending st = []")
    case True
    then show ?thesis by (simp add: walk.simps)
  next
    case False
    then show ?thesis
      using less visit_next_measure [of fs st] by (cases "visit_next fs st") (simp_all add: walk.simps [of fs st])
  qed
qed

end
