(* ===== verification/ReleaseProps.thy ===== *)
theory ReleaseProps
  imports ReleaseCheck
begin

text \<open>The release check: it always ends, and what it calls verified matches the inventory.\<close>

section \<open>Termination\<close>

lemma tree_hash_ends: "\<exists>r. tree_hash sha fs root = Some r"
  using walk_ends [of fs "start_walk root"] by (auto simp: tree_hash_def split: sum.split)

lemma check_trees_ends: "\<exists>rep'. check_trees sha fs entries names rep = Some rep'"
proof (induction names arbitrary: rep)
  case (Cons name names)
  obtain r where "tree_hash sha fs [''source'', name] = Some r" using tree_hash_ends by blast
  then show ?case using Cons by simp
qed simp

text \<open>C27: The inspection of a release ends with a report on every file system, however deep, wide or cyclic its
  directories are: the limit on entries bounds the loop over the stack of directories.\<close>

theorem release_inspection_ends: "\<exists>rep. inspect_release sha parse fs expected_revision expected_sha256 = Some rep"
  using check_trees_ends by (simp add: inspect_release_def Let_def split: sum.split prod.split)

text \<open>It reads a bounded number of files as well.\<close>

lemma scan_entries_paths:
  "scan_entries fs parent depth names st = Inr st' \<Longrightarrow> length (wk_paths st) \<le> wk_total st \<Longrightarrow> wk_total st \<le> MAX_TREE_ENTRIES
    \<Longrightarrow> length (wk_paths st') \<le> wk_total st' \<and> wk_total st' \<le> MAX_TREE_ENTRIES"
proof (induction names arbitrary: st)
  case (Cons name names)
  have small: "wk_total st < MAX_TREE_ENTRIES"
    using Cons.prems(1) by (auto simp: Let_def bad_release_def split: if_splits)
  obtain st1 where "scan_entries fs parent depth names st1 = Inr st'" "length (wk_paths st1) \<le> wk_total st1" "wk_total st1 \<le> MAX_TREE_ENTRIES"
  proof (cases "fs (parent @ [name])")
    case None
    then show ?thesis using that Cons.prems small by (force simp: Let_def bad_release_def split: if_splits)
  next
    case (Some n)
    then show ?thesis using that Cons.prems small by (cases n; force simp: Let_def bad_release_def split: if_splits)
  qed
  then show ?case using Cons.IH by blast
qed simp

lemma walk_paths:
  "walk fs st = Some (Inr ps) \<Longrightarrow> length (wk_paths st) \<le> wk_total st \<Longrightarrow> wk_total st \<le> MAX_TREE_ENTRIES
    \<Longrightarrow> length ps \<le> MAX_TREE_ENTRIES"
proof (induction st rule: measure_induct_rule [of walk_measure])
  case (less st)
  show ?case
  proof (cases "wk_pending st = []")
    case True
    then show ?thesis using less.prems by (simp add: walk.simps)
  next
    case False
    then obtain st1 where st1: "visit_next fs st = Inr st1" "walk fs st1 = Some (Inr ps)"
      using less.prems(1) by (simp add: walk.simps [of fs st] split: sum.splits)
    then obtain parent depth names where
        "scan_entries fs parent depth names (st\<lparr>wk_pending := butlast (wk_pending st)\<rparr>) = Inr st1"
      by (auto simp: visit_next_def split: prod.splits)
    from scan_entries_paths [OF this] show ?thesis
      using less.IH [OF visit_next_measure [OF st1(1) False] st1(2)] less.prems(2,3) by simp
  qed
qed

section \<open>Verified sources\<close>

definition tree_matches :: "(string \<Rightarrow> string) \<Rightarrow> tree_fs \<Rightarrow> (string \<times> string) list \<Rightarrow> string \<Rightarrow> bool" where
  "tree_matches sha fs entries name \<longleftrightarrow> (\<exists>h. tree_hash sha fs [''source'', name] = Some (Inr h) \<and> map_of entries name = Some h)"

lemma noted_blockers: "rr_blockers (noted name r rep) = [] \<longleftrightarrow> rr_blockers rep = [] \<and> (\<exists>x. r = Inr x)"
  by (simp add: noted_def split: sum.split)

lemma note_tree_blockers: "rr_blockers (note_tree name r rep) = [] \<longleftrightarrow> rr_blockers rep = [] \<and> (\<exists>x. r = Inr x)"
  by (cases r) (simp_all add: note_tree_def noted_blockers Let_def)

lemma check_trees_blockers:
  "check_trees sha fs entries names rep = Some rep' \<Longrightarrow>
    rr_blockers rep' = [] \<longleftrightarrow> rr_blockers rep = [] \<and> list_all (tree_matches sha fs entries) names"
proof (induction names arbitrary: rep)
  case (Cons name names)
  obtain r where r: "tree_hash sha fs [''source'', name] = Some r" using tree_hash_ends by blast
  have "(\<exists>x. bindR r (\<lambda>digest. bindR (ditem entries name) (same_identity digest)) = Inr x) \<longleftrightarrow> tree_matches sha fs entries name"
    by (auto simp: tree_matches_def r same_identity_def bad_release_def split: if_splits)
  then show ?case using Cons.IH Cons.prems by (simp add: r note_tree_blockers)
qed simp

lemma unverified: "rr_source_verified (noted name r rep) = rr_source_verified rep"
  by (simp add: noted_def split: sum.split)

text \<open>C28: The source of a release is reported as verified exactly when the expected identities are well formed, the
  inventory has the expected digest and names the expected revision, the source directory holds the six trees and
  nothing else, and the hash of every tree is the one of the inventory.\<close>

theorem verified_release_matches:
  "(\<exists>rep. inspect_release sha parse fs expected_revision expected_sha256 = Some rep \<and> rr_source_verified rep)
   \<longleftrightarrow> (\<exists>revision digest content entries. hex_of expected_revision 40 = Inr revision \<and> hex_of expected_sha256 64 = Inr digest
      \<and> inventory_content sha fs = Inr content \<and> hexdigest sha content = digest
      \<and> release_metadata parse content = Inr (revision, entries) \<and> source_root fs = Inr [''source'']
      \<and> list_all (tree_matches sha fs entries) SOURCE_TREES)"
  (is "?lhs \<longleftrightarrow> ?rhs")
proof
  assume ?lhs
  then obtain rep where rep: "inspect_release sha parse fs expected_revision expected_sha256 = Some rep" "rr_source_verified rep" by blast
  obtain expected where e: "bindR (hex_of expected_revision 40) (\<lambda>v. bindR (hex_of expected_sha256 64) (\<lambda>d. Inr (v, d))) = expected"
    by simp
  obtain revision digest where 1: "expected = Inr (revision, digest)"
    using rep by (cases expected) (auto simp: inspect_release_def Let_def e unverified empty_report_def)
  obtain content where 2: "inventory_content sha fs = Inr content" "hexdigest sha content = digest"
    using rep by (cases "inventory_content sha fs")
      (auto simp: inspect_release_def Let_def e 1 unverified empty_report_def bad_release_def split: if_splits)
  obtain rev entries where 3: "release_metadata parse content = Inr (rev, entries)"
    using rep by (cases "release_metadata parse content") (auto simp: inspect_release_def Let_def e 1 2 unverified empty_report_def)
  obtain root where 4: "source_root fs = Inr root"
    using rep by (cases "source_root fs") (auto simp: inspect_release_def Let_def e 1 2 3 unverified empty_report_def)
  have root: "root = [''source'']"
    using 4 by (auto simp: source_root_def bad_release_def split: if_splits)
  obtain before rep' where c: "check_trees sha fs entries SOURCE_TREES (noted ''source_root'' (source_root fs)
      (noted ''expected_repository_revision'' (same_identity rev revision) before)) = Some rep'" "rep = verified rep'"
    using rep(1) by (auto simp: inspect_release_def Let_def e 1 2 3 4)
  have "rr_blockers rep' = []" using rep(2) c(2) by (simp add: verified_def)
  then have f: "list_all (tree_matches sha fs entries) SOURCE_TREES" "\<exists>x. same_identity rev revision = Inr x"
    using check_trees_blockers [OF c(1)] by (simp_all add: noted_blockers)
  then have "rev = revision" by (auto simp: same_identity_def bad_release_def split: if_splits)
  then show ?rhs using e 1 2 3 4 root f(1) by auto
next
  assume ?rhs
  then obtain revision digest content entries where f: "hex_of expected_revision 40 = Inr revision" "hex_of expected_sha256 64 = Inr digest"
      "inventory_content sha fs = Inr content" "hexdigest sha content = digest"
      "release_metadata parse content = Inr (revision, entries)" "source_root fs = Inr [''source'']"
      "list_all (tree_matches sha fs entries) SOURCE_TREES" by blast
  let ?rep = "noted ''source_root'' (source_root fs) (noted ''expected_repository_revision'' (same_identity revision revision)
      ((noted ''source_inventory'' (release_metadata parse content) (noted ''inventory_digest'' (Inr content :: exc + string)
        ((noted ''expected_release_identity'' (Inr (revision, digest) :: exc + string \<times> string) empty_report)\<lparr>rr_inventory := Some digest\<rparr>)))\<lparr>rr_revision := Some revision\<rparr>))"
  obtain rep' where rep': "check_trees sha fs entries SOURCE_TREES ?rep = Some rep'" using check_trees_ends by blast
  have "rr_blockers ?rep = []"
    by (simp add: noted_def f same_identity_def empty_report_def)
  then have "rr_blockers rep' = []" using check_trees_blockers [OF rep'] f(7) by simp
  moreover have "inspect_release sha parse fs expected_revision expected_sha256 = Some (verified rep')"
    using rep' by (simp add: inspect_release_def Let_def f)
  ultimately show ?lhs by (simp add: verified_def)
qed

section \<open>A verified release\<close>

definition zero_sha :: "string \<Rightarrow> string" where
  "zero_sha s = replicate 32 (CHR 0x00)"

definition sample_fs :: tree_fs where
  "sample_fs p = (if p = [] then Some (Directory [''inventory.json'', ''source''])
     else if p = [''inventory.json''] then Some (Regular 1 ''i'')
     else if p = [''source''] then Some (Directory SOURCE_TREES)
     else if length p = 2 \<and> hd p = ''source'' \<and> p ! 1 \<in> set SOURCE_TREES then Some (Directory []) else None)"

definition sample_record :: "string \<Rightarrow> val" where
  "sample_record name = VDict [(''name'', VStr name), (''path'', VStr (''source/'' @ name)),
     (''version'', VStr (replicate 40 (CHR ''a''))), (''destination_vm'', VStr ''vm''), (''sha256'', VStr (replicate 64 (CHR ''0'')))]"

definition sample_inventory :: val where
  "sample_inventory = VDict [(''repository_revision'', VStr (replicate 40 (CHR ''a''))), (''destination_vm'', VStr ''vm''),
     (''source_artifacts'', VList (map sample_record SOURCE_TREES))]"

lemma sample_hexdigest: "hexdigest zero_sha s = replicate 64 (CHR ''0'')"
proof -
  have "concat (replicate n [c, c]) = replicate (2 * n) c" for n and c :: char
    by (induction n) simp_all
  from this [of 32] show ?thesis by (simp add: hexdigest_def zero_sha_def byte_hex_def hex_digits_def)
qed

lemma sample_hex: "hex_of (VStr (replicate n (CHR ''a''))) n = Inr (replicate n (CHR ''a''))"
    "hex_of (VStr (replicate n (CHR ''0''))) n = Inr (replicate n (CHR ''0''))"
  by (simp_all add: hex_of_def hex_digits_def list_all_iff)

lemma sample_tree:
  assumes "name \<in> set SOURCE_TREES"
  shows "tree_hash zero_sha sample_fs [''source'', name] = Some (Inr (replicate 64 (CHR ''0'')))"
proof -
  have d: "directory sample_fs [''source'', name] = Inr []"
    using assms by (simp add: directory_def sample_fs_def)
  have "visit_next sample_fs (start_walk [''source'', name]) = Inr \<lparr>wk_paths = [], wk_total = 0, wk_pending = []\<rparr>"
    by (simp add: visit_next_def start_walk_def d)
  then have "walk sample_fs (start_walk [''source'', name]) = Some (Inr [])"
    by (simp add: walk.simps [of _ "start_walk _"] walk.simps [of _ "\<lparr>wk_paths = [], wk_total = 0, wk_pending = []\<rparr>"])
      (simp add: start_walk_def)
  then show ?thesis by (simp add: tree_hash_def d sample_hexdigest)
qed

definition sample_entries :: "(string \<times> string) list" where
  "sample_entries = map (\<lambda>name. (name, replicate 64 (CHR ''0''))) SOURCE_TREES"

lemma sample_metadata: "release_metadata (\<lambda>_. Inr sample_inventory) c = Inr (replicate 40 (CHR ''a''), sample_entries)"
proof -
  have e: "inventory_entry (replicate 40 (CHR ''a'')) (VStr ''vm'') es (sample_record name)
      = Inr (dset name (replicate 64 (CHR ''0'')) es)" if "name \<in> set SOURCE_TREES" and "\<not> has_key es name" for es name
    using that by (simp add: inventory_entry_def sample_record_def item_of_def ditem_def isR_def notR_def fail_if_def sample_hex)
  have "inventory_entries (replicate 40 (CHR ''a'')) (VStr ''vm'') [] (map sample_record SOURCE_TREES) = Inr sample_entries"
    by (simp add: SOURCE_TREES_def e [unfolded SOURCE_TREES_def] has_key_def sample_entries_def)
  moreover have "wf_val sample_inventory"
    by (simp add: sample_inventory_def sample_record_def list_all_iff)
  moreover have "item_of sample_inventory ''repository_revision'' = Inr (VStr (replicate 40 (CHR ''a'')))"
      "item_of sample_inventory ''destination_vm'' = Inr (VStr ''vm'')"
      "item_of sample_inventory ''source_artifacts'' = Inr (VList (map sample_record SOURCE_TREES))"
    by (simp_all add: sample_inventory_def item_of_def ditem_def)
  moreover have "list_all destination_char ''vm''"
    by (simp add: destination_char_def is_alnum_def lower_az_def)
  ultimately show ?thesis
    by (simp add: release_metadata_def unique_metadata_def sample_hex)
qed

lemma verified_release_matches_witness:
  "\<exists>rep. inspect_release zero_sha (\<lambda>_. Inr sample_inventory) sample_fs (VStr (replicate 40 (CHR ''a'')))
     (VStr (replicate 64 (CHR ''0''))) = Some rep \<and> rr_source_verified rep"
proof (rule verified_release_matches [THEN iffD2], intro exI conjI)
  show "hex_of (VStr (replicate 40 (CHR ''a''))) 40 = Inr (replicate 40 (CHR ''a''))" by (rule sample_hex)
  show "hex_of (VStr (replicate 64 (CHR ''0''))) 64 = Inr (replicate 64 (CHR ''0''))" by (rule sample_hex)
  show "inventory_content zero_sha sample_fs = Inr ''i''"
    by (simp add: inventory_content_def directory_def read_regular_def sample_fs_def MAX_INVENTORY_BYTES_def)
  show "hexdigest zero_sha ''i'' = replicate 64 (CHR ''0'')" by (rule sample_hexdigest)
  show "release_metadata (\<lambda>_. Inr sample_inventory) ''i'' = Inr (replicate 40 (CHR ''a''), sample_entries)" by (rule sample_metadata)
  show "source_root sample_fs = Inr [''source'']"
    by (simp add: source_root_def directory_def sample_fs_def) (simp add: SOURCE_TREES_def)
  have "tree_matches zero_sha sample_fs sample_entries name" if "name \<in> set SOURCE_TREES" for name
    using that sample_tree [OF that] by (simp add: tree_matches_def sample_entries_def map_of_map_restrict restrict_map_def)
  then show "list_all (tree_matches zero_sha sample_fs sample_entries) SOURCE_TREES" by (simp add: list_all_iff)
qed

end
