(* ===== verification/TelemetryCheck.thy ===== *)
theory TelemetryCheck
  imports ReleaseCheck
begin

text \<open>
  \<^verbatim>\<open>dashboard/telemetry_check.py\<close>: the comparison of the canonical events of a run with what a receiver exported.
  Files are nodes of \<open>ReleaseCheck\<close> that do not change while they are read; \<open>parse\<close> decodes and parses one line,
  keeps every pair of an object and raises for what is not JSON.
\<close>

section \<open>Reading\<close>

definition MAX_EXPORT_BYTES :: nat where "MAX_EXPORT_BYTES = 32 * 1024 * 1024"
definition MAX_EVENT_BYTES :: nat where "MAX_EVENT_BYTES = 256 * 1024"
definition MAX_EVENTS :: nat where "MAX_EVENTS = 10000"

definition telemetry_error :: "string \<Rightarrow> exc" where
  "telemetry_error message = OtherError ''TelemetryCheckError'' message"

definition read_export :: "node option \<Rightarrow> exc + string" where
  "read_export file = (case file of
     None \<Rightarrow> missing
   | Some (Regular links content) \<Rightarrow>
       if links \<noteq> 1 \<or> MAX_EXPORT_BYTES < length content then Inl (telemetry_error ''unsafe or oversized input file'') else Inr content
   | Some _ \<Rightarrow> Inl (telemetry_error ''unsafe or oversized input file''))"

text \<open>\<open>stream.readline(n)\<close>: up to the next line feed, at most \<open>n\<close> bytes; and the loop over the chunks.\<close>

definition read_line :: "nat \<Rightarrow> string \<Rightarrow> string" where
  "read_line n s = (let l = takeWhile (\<lambda>c. c \<noteq> CHR 0x0A) s in take (min n (length l + 1)) s)"

function chunks :: "string \<Rightarrow> string list" where
  "chunks s = (let chunk = read_line (MAX_EVENT_BYTES + 3) s in
     if chunk = [] then [] else chunk # chunks (drop (length chunk) s))"
  by pat_completeness auto
termination
  by (relation "measure length") (auto simp: read_line_def Let_def min_def split: if_splits)

declare chunks.simps [simp del]

definition removesuffix :: "char \<Rightarrow> string \<Rightarrow> string" where
  "removesuffix c s = (if s \<noteq> [] \<and> List.last s = c then butlast s else s)"

section \<open>Events\<close>

definition canonical :: "row \<Rightarrow> string" where
  "canonical d = json_dumps (VDict d)"

definition unique_fields_only :: "val \<Rightarrow> exc + val" where
  "unique_fields_only v = (if wf_val v then Inr v else Inl (telemetry_error ''duplicate JSON field''))"

text \<open>One round of \<open>_events\<close>: the event and its canonical text.\<close>

definition export_event :: "env \<Rightarrow> (string \<Rightarrow> exc + val) \<Rightarrow> string \<Rightarrow> string \<Rightarrow> string \<Rightarrow> exc + (row \<times> string)" where
  "export_event env parse exercise run chunk =
    (let line = removesuffix (CHR 0x0D) (removesuffix (CHR 0x0A) chunk) in
     if line = [] \<or> MAX_EVENT_BYTES < length line then Inl (telemetry_error ''empty or oversized event line'')
     else bindR (bindR (parse line) unique_fields_only) (\<lambda>v. case v of
       VDict d \<Rightarrow>
         bindR (validate_event env d) (\<lambda>_.
         bindR (any_of [notR (isR (ditem d ''exercise_id'') (VStr exercise)), notR (isR (ditem d ''run_id'') (VStr run))]) (\<lambda>outside.
         if outside then Inl (telemetry_error ''event outside selected exercise/run'')
         else if canonical d \<noteq> canonical (redact_row d) then Inl (telemetry_error ''unredacted event input'')
         else Inr (d, canonical d)))
     | _ \<Rightarrow> Inl (telemetry_error ''expected a canonical event object'')))"

text \<open>A loop over the events, with what its body does to the local variables.\<close>

fun consume :: "(string \<Rightarrow> exc + 'e) \<Rightarrow> ('e \<Rightarrow> 's \<Rightarrow> exc + 's) \<Rightarrow> nat \<Rightarrow> string list \<Rightarrow> 's \<Rightarrow> exc + 's" where
  "consume event body k [] st = Inr st"
| "consume event body k (chunk # cs) st =
    (if MAX_EVENTS < k + 1 then Inl (telemetry_error ''too many events'')
     else bindR (event chunk) (\<lambda>e. bindR (body e st) (\<lambda>st'. consume event body (k + 1) cs st')))"

section \<open>Comparison\<close>

record baseline =
  bs_encoded :: "(val \<times> string) list"
  bs_source :: "(val \<times> val) list"

definition baseline_event :: "row \<times> string \<Rightarrow> baseline \<Rightarrow> exc + baseline" where
  "baseline_event e st =
    bindR (ditem (fst e) ''event_id'') (\<lambda>i. bindR (hashed i (vfind i (bs_encoded st))) (\<lambda>known.
    bindR (any_of [Inr (known \<noteq> None), notR (isR (ditem (fst e) ''sequence'') (VInt (int (length (bs_encoded st)) + 1)))]) (\<lambda>bad.
    if bad then Inl (telemetry_error ''baseline must have unique contiguous events from one'')
    else bindR (path (VDict (fst e)) [''source'', ''component'']) (\<lambda>component.
      Inr \<lparr>bs_encoded = bs_encoded st @ [(i, snd e)], bs_source = bs_source st @ [(i, component)]\<rparr>))))"

record seen_state =
  sn_seen :: "val list"
  sn_changed :: "val list"
  sn_observed :: nat
  sn_duplicates :: nat
  sn_unexpected :: nat

definition vinsert :: "val \<Rightarrow> val list \<Rightarrow> val list" where
  "vinsert v vs = (if vmem v vs then vs else v # vs)"

definition observed_event :: "baseline \<Rightarrow> row \<times> string \<Rightarrow> seen_state \<Rightarrow> exc + seen_state" where
  "observed_event base e st =
    bindR (ditem (fst e) ''event_id'') (\<lambda>i. bindR (hashed i (vfind i (bs_encoded base))) (\<lambda>known.
      Inr \<lparr>sn_seen = vinsert i (sn_seen st),
        sn_changed = (case known of Some enc \<Rightarrow> if enc \<noteq> snd e then vinsert i (sn_changed st) else sn_changed st
          | None \<Rightarrow> sn_changed st),
        sn_observed = sn_observed st + 1,
        sn_duplicates = sn_duplicates st + (if vmem i (sn_seen st) then 1 else 0),
        sn_unexpected = sn_unexpected st + (if known = None then 1 else 0)\<rparr>))"

record comparison =
  cm_match :: bool
  cm_expected :: nat
  cm_observed :: nat
  cm_missing :: nat
  cm_changed :: nat
  cm_duplicates :: nat
  cm_unexpected :: nat
  cm_sources :: nat
  cm_sources_missing :: nat
  cm_expected_sha :: string
  cm_observed_sha :: string

definition different_values :: "val list \<Rightarrow> exc + nat" where
  "different_values vs = (if list_ex unhashable vs then Inl (TypeError []) else Inr (length (fold vinsert vs [])))"

definition selection_ok :: "val \<Rightarrow> bool" where
  "selection_ok v \<longleftrightarrow> (case v of VStr s \<Rightarrow> s \<noteq> [] \<and> char_count s \<le> 128 | _ \<Rightarrow> False)"

definition text_of :: "val \<Rightarrow> string" where
  "text_of v = (case v of VStr s \<Rightarrow> s | _ \<Rightarrow> [])"

definition no_events :: baseline where
  "no_events = \<lparr>bs_encoded = [], bs_source = []\<rparr>"

definition nothing_seen :: seen_state where
  "nothing_seen = \<lparr>sn_seen = [], sn_changed = [], sn_observed = 0, sn_duplicates = 0, sn_unexpected = 0\<rparr>"

text \<open>\<open>compare\<close>; \<open>same\<close> says whether both paths name one file, \<open>sha\<close> gives the bytes of a digest.\<close>

definition compare_exports :: "env \<Rightarrow> (string \<Rightarrow> exc + val) \<Rightarrow> (string \<Rightarrow> string) \<Rightarrow> bool \<Rightarrow> node option \<Rightarrow> node option
    \<Rightarrow> val \<Rightarrow> val \<Rightarrow> exc + comparison" where
  "compare_exports env parse sha same expected received exercise run =
    bindR (requireR (selection_ok exercise \<and> selection_ok run) (telemetry_error ''explicit exercise/run identifiers required'')) (\<lambda>_.
    bindR (read_export expected) (\<lambda>expected_bytes. bindR (read_export received) (\<lambda>received_bytes.
    bindR (requireR (\<not> same) (telemetry_error ''baseline and receiver export must be separate files'')) (\<lambda>_.
    (let event = export_event env parse (text_of exercise) (text_of run) in
    bindR (consume event baseline_event 0 (chunks expected_bytes) no_events) (\<lambda>base.
    bindR (requireR (bs_encoded base \<noteq> []) (telemetry_error ''empty baseline cannot verify evidence'')) (\<lambda>_.
    bindR (consume event (observed_event base) 0 (chunks received_bytes) nothing_seen) (\<lambda>st.
    (let missing_ids = filter (\<lambda>i. \<not> vmem i (sn_seen st)) (map fst (bs_encoded base)) in
    bindR (different_values (map snd (bs_source base))) (\<lambda>sources.
    bindR (different_values (map snd (filter (\<lambda>(i, c). vmem i missing_ids) (bs_source base)))) (\<lambda>sources_missing.
      Inr \<lparr>cm_match = (missing_ids = [] \<and> sn_changed st = [] \<and> sn_duplicates st = 0 \<and> sn_unexpected st = 0),
        cm_expected = length (bs_encoded base), cm_observed = sn_observed st, cm_missing = length missing_ids,
        cm_changed = length (sn_changed st), cm_duplicates = sn_duplicates st, cm_unexpected = sn_unexpected st,
        cm_sources = sources, cm_sources_missing = sources_missing, cm_expected_sha = hexdigest sha expected_bytes,
        cm_observed_sha = hexdigest sha received_bytes\<rparr>)))))))))))"

end
