(* ===== verification/TelemetryProps.thy ===== *)
theory TelemetryProps
  imports TelemetryCheck ReleaseProps Samples "HOL-Library.Multiset"
begin

text \<open>The comparison of an export: a match is equality of the events as multisets.\<close>

section \<open>The events of an export\<close>

text \<open>The schema of the events asks for an identifier that is a string.\<close>

definition schema_names_events :: "env \<Rightarrow> bool" where
  "schema_names_events env \<longleftrightarrow> (\<forall>d. e_event_errors env (VDict d) = [] \<longrightarrow> (\<exists>s. map_of d ''event_id'' = Some (VStr s)))"

definition exported :: "env \<Rightarrow> (string \<Rightarrow> exc + val) \<Rightarrow> string \<Rightarrow> string \<Rightarrow> string \<Rightarrow> (val \<times> string) list \<Rightarrow> bool" where
  "exported env parse exercise run content es \<longleftrightarrow>
     list_all2 (\<lambda>chunk e. \<exists>d. export_event env parse exercise run chunk = Inr (d, snd e) \<and> map_of d ''event_id'' = Some (fst e))
       (chunks content) es"

text \<open>A loop that ends without an exception has folded its body over the events of all lines.\<close>

fun foldR :: "('e \<Rightarrow> 's \<Rightarrow> exc + 's) \<Rightarrow> 'e list \<Rightarrow> 's \<Rightarrow> exc + 's" where
  "foldR f [] st = Inr st"
| "foldR f (e # es) st = bindR (f e st) (foldR f es)"

lemma consume_fold:
  "consume event body k cs st = Inr st' \<Longrightarrow> \<exists>es. list_all2 (\<lambda>c e. event c = Inr e) cs es \<and> foldR body es st = Inr st'"
proof (induction cs arbitrary: k st)
  case (Cons c cs)
  then obtain e st1 where e: "event c = Inr e" "body e st = Inr st1" "consume event body (k + 1) cs st1 = Inr st'"
    by (auto split: if_splits)
  from Cons.IH [OF e(3)] obtain es where "list_all2 (\<lambda>c e. event c = Inr e) cs es" "foldR body es st1 = Inr st'" by blast
  then have "list_all2 (\<lambda>c e. event c = Inr e) (c # cs) (e # es) \<and> foldR body (e # es) st = Inr st'" using e by simp
  then show ?case by blast
qed simp

definition named :: "(row \<times> string) list \<Rightarrow> (val \<times> string) list" where
  "named es = map (\<lambda>e. (the (map_of (fst e) ''event_id''), snd e)) es"

definition strings_only :: "(row \<times> string) list \<Rightarrow> bool" where
  "strings_only es \<longleftrightarrow> list_all (\<lambda>e. \<exists>s. map_of (fst e) ''event_id'' = Some (VStr s)) es"

lemma export_event_valid:
  assumes "export_event env parse exercise run chunk = Inr (d, enc)"
  shows "e_event_errors env (VDict d) = []"
proof -
  let ?line = "removesuffix (CHR 0x0D) (removesuffix (CHR 0x0A) chunk)"
  from assms obtain v where v: "bindR (parse ?line) unique_fields_only = Inr v"
    by (auto simp: export_event_def Let_def split: if_splits)
  show ?thesis
  proof (cases v)
    case (VDict d')
    with assms v have "validate_event env d' = Inr ()" "d' = d"
      by (auto simp: export_event_def Let_def split: if_splits)
    then show ?thesis by (auto dest: validate_event_major)
  qed (use assms v in \<open>auto simp: export_event_def Let_def split: if_splits\<close>)
qed

lemma exported_strings:
  assumes "schema_names_events env" and "list_all2 (\<lambda>c e. export_event env parse exercise run c = Inr e) (chunks content) es"
  shows "strings_only es" and "exported env parse exercise run content (named es)"
proof -
  have s: "\<exists>i. map_of (fst e) ''event_id'' = Some (VStr i)" if "export_event env parse exercise run c = Inr e" for c e
    using assms(1) export_event_valid [of env parse exercise run c "fst e" "snd e"] that by (simp add: schema_names_events_def)
  show "strings_only es"
    unfolding strings_only_def list_all_length
  proof (intro allI impI)
    fix n assume "n < length es"
    with assms(2) have "export_event env parse exercise run (chunks content ! n) = Inr (es ! n)"
      by (simp add: list_all2_conv_all_nth)
    then show "\<exists>s. map_of (fst (es ! n)) ''event_id'' = Some (VStr s)" by (rule s)
  qed
  have "\<exists>d. export_event env parse exercise run c = Inr (d, snd e) \<and> map_of d ''event_id'' = Some (the (map_of (fst e) ''event_id''))"
    if "export_event env parse exercise run c = Inr e" for c e
    using s [OF that] that by (intro exI [of _ "fst e"]) auto
  then show "exported env parse exercise run content (named es)"
    unfolding exported_def named_def list.rel_map
    by (intro list.rel_mono_strong [OF assms(2)]) simp
qed

lemma named_strings: "strings_only es \<Longrightarrow> i \<in> set (map fst (named es)) \<Longrightarrow> \<exists>s. i = VStr s"
  by (auto simp: named_def strings_only_def list_all_iff)

section \<open>The loops\<close>

lemma vfind_VStr [simp]: "vfind (VStr s) d = map_of d (VStr s)"
  by (induction d) (auto simp: vfind_def)

lemma vmem_string [simp]: "vmem (VStr s) vs \<longleftrightarrow> VStr s \<in> set vs"
  by (induction vs) (auto simp: vmem_def)

lemma named_Cons: "map_of (fst e) ''event_id'' = Some i \<Longrightarrow> named (e # es) = (i, snd e) # named es"
  by (simp add: named_def)

lemma baseline_fold:
  "foldR baseline_event es st = Inr st' \<Longrightarrow> strings_only es \<Longrightarrow> distinct (map fst (bs_encoded st))
    \<Longrightarrow> bs_encoded st' = bs_encoded st @ named es \<and> distinct (map fst (bs_encoded st'))"
proof (induction es arbitrary: st)
  case (Cons e es)
  from Cons.prems(2) obtain s where s: "map_of (fst e) ''event_id'' = Some (VStr s)" by (auto simp: strings_only_def)
  from Cons.prems(1) obtain st1 where b: "baseline_event e st = Inr st1" and rest: "foldR baseline_event es st1 = Inr st'"
    by auto
  from b s have st1: "bs_encoded st1 = bs_encoded st @ [(VStr s, snd e)]" and new: "map_of (bs_encoded st) (VStr s) = None"
    by (auto simp: baseline_event_def ditem_def isR_def notR_def split: if_splits)
  have "distinct (map fst (bs_encoded st1))" using Cons.prems(3) new st1 by (auto simp: map_of_eq_None_iff)
  moreover have "strings_only es" using Cons.prems(2) by (simp add: strings_only_def)
  ultimately have ih: "bs_encoded st' = bs_encoded st1 @ named es" "distinct (map fst (bs_encoded st'))"
    using Cons.IH [OF rest] by blast+
  from ih(1) st1 have "bs_encoded st' = bs_encoded st @ named (e # es)" by (simp add: named_Cons [OF s])
  with ih(2) show ?case by blast
qed (simp add: named_def)

text \<open>What the loop over the export leaves of its events \<open>es\<close>, with \<open>known\<close> the identifiers of the baseline.\<close>

definition all_known :: "(val \<times> string) list \<Rightarrow> (val \<times> string) list \<Rightarrow> bool" where
  "all_known known es \<longleftrightarrow> fst ` set es \<subseteq> fst ` set known"

definition none_changed :: "(val \<times> string) list \<Rightarrow> (val \<times> string) list \<Rightarrow> bool" where
  "none_changed known es \<longleftrightarrow> (\<forall>e \<in> set es. map_of known (fst e) = None \<or> map_of known (fst e) = Some (snd e))"

lemma observed_fold:
  "foldR (observed_event base) es st = Inr st' \<Longrightarrow> strings_only es \<Longrightarrow>
     set (sn_seen st') = set (sn_seen st) \<union> fst ` set (named es)
   \<and> sn_observed st' = sn_observed st + length es
   \<and> (sn_changed st' = [] \<longleftrightarrow> sn_changed st = [] \<and> none_changed (bs_encoded base) (named es))
   \<and> (sn_duplicates st' = 0 \<longleftrightarrow> sn_duplicates st = 0 \<and> distinct (map fst (named es)) \<and> fst ` set (named es) \<inter> set (sn_seen st) = {})
   \<and> (sn_unexpected st' = 0 \<longleftrightarrow> sn_unexpected st = 0 \<and> all_known (bs_encoded base) (named es))"
proof (induction es arbitrary: st)
  case (Cons e es)
  from Cons.prems(2) obtain s where s: "map_of (fst e) ''event_id'' = Some (VStr s)" by (auto simp: strings_only_def)
  from Cons.prems(1) obtain st1 where b: "observed_event base e st = Inr st1" and rest: "foldR (observed_event base) es st1 = Inr st'"
    by auto
  have n: "named (e # es) = (VStr s, snd e) # named es" using s by (simp add: named_def)
  from b s have st1: "set (sn_seen st1) = insert (VStr s) (set (sn_seen st))" "sn_observed st1 = sn_observed st + 1"
    "sn_changed st1 = [] \<longleftrightarrow> sn_changed st = [] \<and> none_changed (bs_encoded base) [(VStr s, snd e)]"
    "sn_duplicates st1 = 0 \<longleftrightarrow> sn_duplicates st = 0 \<and> VStr s \<notin> set (sn_seen st)"
    "sn_unexpected st1 = 0 \<longleftrightarrow> sn_unexpected st = 0 \<and> map_of (bs_encoded base) (VStr s) \<noteq> None"
    by (auto simp: observed_event_def ditem_def vinsert_def none_changed_def split: if_splits option.splits)
  from Cons.IH [OF rest] Cons.prems(2) st1 show ?case unfolding n
    by (auto simp: strings_only_def all_known_def none_changed_def map_of_eq_None_iff simp del: not_None_eq)
qed (simp add: named_def all_known_def none_changed_def)

text \<open>Four conditions on lists of named events, one equality of multisets.\<close>

lemma match_is_mset:
  assumes known: "distinct (map fst known)"
  shows "fst ` set known \<subseteq> fst ` set es \<and> none_changed known es \<and> distinct (map fst es) \<and> all_known known es
     \<longleftrightarrow> mset es = mset known" (is "?l \<longleftrightarrow> ?r")
proof
  assume l: ?l
  have "set es = set known"
  proof
    show sub: "set es \<subseteq> set known"
    proof
      fix e assume e: "e \<in> set es"
      with l have "fst e \<in> fst ` set known" by (auto simp: all_known_def)
      then have "map_of known (fst e) \<noteq> None" by (simp add: map_of_eq_None_iff)
      with l e have "map_of known (fst e) = Some (snd e)" by (auto simp: none_changed_def)
      then show "e \<in> set known" by (metis map_of_SomeD prod.collapse)
    qed
    show "set known \<subseteq> set es"
    proof
      fix e assume e: "e \<in> set known"
      with l obtain e' where e': "e' \<in> set es" "fst e' = fst e" by (metis imageE imageI subset_iff)
      with sub have "e' \<in> set known" by blast
      with e e'(2) known have "e' = e" by (metis eq_key_imp_eq_value prod.collapse)
      with e'(1) show "e \<in> set es" by simp
    qed
  qed
  with l known show ?r by (intro set_eq_iff_mset_eq_distinct [THEN iffD1]) (auto simp: distinct_map)
next
  assume r: ?r
  then have "mset (map fst es) = mset (map fst known)" by simp
  with known have "distinct (map fst es)" by (metis mset_eq_imp_distinct_iff)
  moreover have "set es = set known" using r by (metis set_mset_mset)
  moreover have "none_changed known known" using known by (auto simp: none_changed_def)
  ultimately show ?l by (auto simp: none_changed_def all_known_def)
qed

section \<open>The comparison\<close>

text \<open>C29: A comparison that returns has read two single, distinct files of events that are valid, redacted and of the
  selected run; the baseline has events, each identifier once. It reports a match exactly when the export holds the same
  events, each as often, in any order: the schema only has to ask for a textual event identifier.\<close>

theorem match_is_equal_export:
  assumes "schema_names_events env"
    and "compare_exports env parse sha same expected received (VStr exercise) (VStr run) = Inr c"
  shows "\<exists>eb rb es os. read_export expected = Inr eb \<and> read_export received = Inr rb \<and> \<not> same
    \<and> exported env parse exercise run eb es \<and> exported env parse exercise run rb os \<and> es \<noteq> [] \<and> distinct (map fst es)
    \<and> cm_expected c = length es \<and> cm_observed c = length os \<and> (cm_match c \<longleftrightarrow> mset os = mset es)"
proof -
  let ?ev = "export_event env parse exercise run"
  from assms(2) obtain eb rb base st where
    read: "read_export expected = Inr eb" "read_export received = Inr rb" "\<not> same"
    and base: "consume ?ev baseline_event 0 (chunks eb) no_events = Inr base" "bs_encoded base \<noteq> []"
    and st: "consume ?ev (observed_event base) 0 (chunks rb) nothing_seen = Inr st"
    and c: "cm_match c \<longleftrightarrow> filter (\<lambda>i. \<not> vmem i (sn_seen st)) (map fst (bs_encoded base)) = [] \<and> sn_changed st = []
        \<and> sn_duplicates st = 0 \<and> sn_unexpected st = 0"
      "cm_expected c = length (bs_encoded base)" "cm_observed c = sn_observed st"
    by (auto simp: compare_exports_def text_of_def Let_def)
  from consume_fold [OF base(1)] obtain es where
    es: "list_all2 (\<lambda>c e. ?ev c = Inr e) (chunks eb) es" "foldR baseline_event es no_events = Inr base" by blast
  from consume_fold [OF st] obtain os where
    os: "list_all2 (\<lambda>c e. ?ev c = Inr e) (chunks rb) os" "foldR (observed_event base) os nothing_seen = Inr st" by blast
  note E = exported_strings [OF assms(1) es(1)] and Ob = exported_strings [OF assms(1) os(1)]
  from baseline_fold [OF es(2) E(1)] have b: "bs_encoded base = named es" "distinct (map fst (named es))"
    by (auto simp: no_events_def)
  note o = observed_fold [OF os(2) Ob(1)]
  have seen: "set (sn_seen st) = fst ` set (named os)" using o by (simp add: nothing_seen_def)
  have "vmem i (sn_seen st) \<longleftrightarrow> i \<in> fst ` set (named os)" if "i \<in> set (map fst (named es))" for i
    using named_strings [OF E(1) that] seen by (elim exE) simp
  then have "filter (\<lambda>i. \<not> vmem i (sn_seen st)) (map fst (named es)) = [] \<longleftrightarrow> fst ` set (named es) \<subseteq> fst ` set (named os)"
    unfolding filter_empty_conv subset_iff by auto
  with c(1) o b have "cm_match c \<longleftrightarrow> mset (named os) = mset (named es)"
    by (simp add: match_is_mset [OF b(2), symmetric] nothing_seen_def)
  with read E(2) Ob(2) base(2) b c o show ?thesis
    by (intro exI [of _ eb] exI [of _ rb] exI [of _ "named es"] exI [of _ "named os"]) (simp add: nothing_seen_def named_def)
qed

text \<open>A baseline of two events and an export of both in the other order.\<close>

definition naming_env :: env where
  "naming_env = sample_env\<lparr>e_event_errors := (\<lambda>v. case v of
     VDict d \<Rightarrow> (case map_of d ''event_id'' of Some (VStr s) \<Rightarrow> [] | _ \<Rightarrow> [([], ''event_id'')]) | _ \<Rightarrow> [])\<rparr>"

definition sample_row :: "string \<Rightarrow> int \<Rightarrow> row" where
  "sample_row i n = [(''schema_version'', VStr ''1.0.0''), (''event_id'', VStr i), (''exercise_id'', VStr ''x''),
     (''run_id'', VStr ''r''), (''sequence'', VInt n), (''source'', VDict [(''component'', VStr ''p'')])]"

definition sample_lines :: "string \<Rightarrow> exc + val" where
  "sample_lines line = Inr (VDict (sample_row line (if line = ''a'' then 1 else 2)))"

lemma naming_env_names: "schema_names_events naming_env"
  by (auto simp: schema_names_events_def naming_env_def split: option.splits val.splits)

definition two_lines :: "char \<Rightarrow> char \<Rightarrow> string" where
  "two_lines a b = [a, CHR 0x0A, b, CHR 0x0A]"

lemma sample_chunks: "a \<noteq> CHR 0x0A \<Longrightarrow> b \<noteq> CHR 0x0A \<Longrightarrow> chunks (two_lines a b) = [[a, CHR 0x0A], [b, CHR 0x0A]]"
  by (simp add: chunks.simps two_lines_def read_line_def MAX_EVENT_BYTES_def Let_def)

lemma sample_row_redacted: "redact_row (sample_row i n) = sample_row i n"
  by (simp add: sample_row_def redact_row_eq redact_field_def event_key_open)

lemma sample_row_valid: "validate_event naming_env (sample_row i n) = Inr ()"
proof -
  have "schema_major (Some (VStr ''1.0.0'')) = Inr 1" by code_simp
  then show ?thesis by (simp add: validate_event_def sample_row_def naming_env_def SUPPORTED_SCHEMA_MAJOR_def Let_def)
qed

lemma sample_event:
  assumes "a \<in> {CHR ''a'', CHR ''b''}"
  shows "export_event naming_env sample_lines ''x'' ''r'' [a, CHR 0x0A]
     = Inr (sample_row [a] (if a = CHR ''a'' then 1 else 2), canonical (sample_row [a] (if a = CHR ''a'' then 1 else 2)))"
proof -
  have l: "removesuffix (CHR 0x0D) (removesuffix (CHR 0x0A) [a, CHR 0x0A]) = [a]"
    using assms by (auto simp: removesuffix_def)
  have w: "distinct (map fst (sample_row i n))" "list_all (\<lambda>(k, y). wf_val y) (sample_row i n)" for i n
    by (simp_all add: sample_row_def)
  have d: "ditem (sample_row i n) ''exercise_id'' = Inr (VStr ''x'')" "ditem (sample_row i n) ''run_id'' = Inr (VStr ''r'')" for i n
    by (simp_all add: sample_row_def ditem_def)
  show ?thesis unfolding export_event_def l Let_def
    by (simp add: MAX_EVENT_BYTES_def sample_lines_def unique_fields_only_def w d sample_row_valid sample_row_redacted isR_def notR_def)
qed

lemma sample_comparison:
  "\<exists>c. compare_exports naming_env sample_lines zero_sha False (Some (Regular 1 (two_lines (CHR ''a'') (CHR ''b''))))
     (Some (Regular 1 (two_lines (CHR ''b'') (CHR ''a'')))) (VStr ''x'') (VStr ''r'') = Inr c \<and> cm_match c"
proof -
  let ?a = "sample_row ''a'' 1" and ?b = "sample_row ''b'' 2"
  have d: "ditem (sample_row i n) ''event_id'' = Inr (VStr i)" "ditem (sample_row i n) ''sequence'' = Inr (VInt n)"
    "ditem (sample_row i n) ''source'' = Inr (VDict [(''component'', VStr ''p'')])" for i n
    by (simp_all add: sample_row_def ditem_def item_of_def)
  let ?base = "\<lparr>bs_encoded = [(VStr ''a'', canonical ?a), (VStr ''b'', canonical ?b)],
    bs_source = [(VStr ''a'', VStr ''p''), (VStr ''b'', VStr ''p'')]\<rparr>"
  have item_of_VDict: "item_of (VDict r) k = ditem r k" for r k by (simp add: item_of_def)
  have step: "map_of (bs_encoded st) (VStr i) = None \<Longrightarrow> n = int (length (bs_encoded st)) + 1 \<Longrightarrow>
      baseline_event (sample_row i n, canonical (sample_row i n)) st = Inr \<lparr>bs_encoded = bs_encoded st @ [(VStr i, canonical (sample_row i n))],
        bs_source = bs_source st @ [(VStr i, VStr ''p'')]\<rparr>" for i n st
    by (simp add: baseline_event_def d isR_def notR_def item_of_VDict num_of_def ex_bool_eq)
  have base: "consume (export_event naming_env sample_lines ''x'' ''r'') baseline_event 0 [''a'' @ [CHR 0x0A], ''b'' @ [CHR 0x0A]] no_events
    = Inr ?base"
    by (simp add: sample_event MAX_EVENTS_def step no_events_def)
  have st: "consume (export_event naming_env sample_lines ''x'' ''r'') (observed_event ?base) 0 [''b'' @ [CHR 0x0A], ''a'' @ [CHR 0x0A]] nothing_seen
    = Inr \<lparr>sn_seen = [VStr ''a'', VStr ''b''], sn_changed = [], sn_observed = 2, sn_duplicates = 0, sn_unexpected = 0\<rparr>"
    by (simp add: sample_event MAX_EVENTS_def observed_event_def d nothing_seen_def vinsert_def)
  have "length (two_lines a b) = 4" for a b by (simp add: two_lines_def)
  then show ?thesis
    using base st
    by (simp add: compare_exports_def text_of_def selection_ok_def read_export_def MAX_EXPORT_BYTES_def
        sample_chunks different_values_def vinsert_def char_count_def)
qed

lemma match_is_equal_export_witness:
  "\<exists>eb rb es os. exported naming_env sample_lines ''x'' ''r'' eb es \<and> exported naming_env sample_lines ''x'' ''r'' rb os
     \<and> es \<noteq> [] \<and> distinct (map fst es) \<and> mset os = mset es"
proof -
  obtain c where "compare_exports naming_env sample_lines zero_sha False (Some (Regular 1 (two_lines (CHR ''a'') (CHR ''b''))))
     (Some (Regular 1 (two_lines (CHR ''b'') (CHR ''a'')))) (VStr ''x'') (VStr ''r'') = Inr c" "cm_match c" using sample_comparison by blast
  with match_is_equal_export [OF naming_env_names this(1)] show ?thesis by blast
qed

end
