(* ===== verification/Archive.thy ===== *)
theory Archive
  imports Aar Ledger
begin

text \<open>
  \<^verbatim>\<open>dashboard/archive.py\<close>: a review snapshot, its metadata derived from the bundle and from the event that audits
  the capture, and the check that recomputes both.
\<close>

section \<open>Identifiers\<close>

definition ARCHIVE_VERSION :: string where "ARCHIVE_VERSION = ''1.0.0''"
definition MAX_BYTES :: nat where "MAX_BYTES = 20 * 1024 * 1024"
definition BOUNDARY :: string where "BOUNDARY = ''terminal_review_snapshot_before_archive_audit''"
definition REASONS :: "string list" where "REASONS = [''staff_capture'', ''application_reset'']"
definition ARCHIVE_ROLES :: "string list" where
  "ARCHIVE_ROLES = [''evaluator'', ''facilitator'', ''technical_operator'', ''system'']"

text \<open>\<open>archive_id\<close>: the canonical text of a version 4 UUID.\<close>

definition lower_hex :: "char \<Rightarrow> bool" where
  "lower_hex c \<longleftrightarrow> is_digit c \<or> c \<in> set ''abcdef''"

definition canonical_uuid4 :: "string \<Rightarrow> bool" where
  "canonical_uuid4 s \<longleftrightarrow> length s = 36
     \<and> list_all (\<lambda>i. if i \<in> set [8, 13, 18, 23] then s ! i = CHR ''-'' else lower_hex (s ! i)) [0..<36]
     \<and> s ! 14 = CHR ''4'' \<and> s ! 19 \<in> set ''89ab''"

definition archive_id :: "val \<Rightarrow> exc + string" where
  "archive_id v = (case v of VStr s \<Rightarrow> if canonical_uuid4 s then Inr s else invalid ''invalid review archive id''
   | _ \<Rightarrow> invalid ''invalid review archive id'')"

section \<open>The snapshot\<close>

text \<open>\<open>encode_bundle\<close>; a report exists only for a bundle that is an object with all fields.\<close>

definition complete_prefix :: "val list \<Rightarrow> exc + bool" where
  "complete_prefix events = bindR (mapR (\<lambda>ev. path ev [''sequence'']) events) (\<lambda>ns.
     Inr (list_all2 (\<lambda>v n. num_of v = Some n) ns (map int [1..<length events + 1])))"

definition encode_bundle :: "env \<Rightarrow> val \<Rightarrow> exc + string" where
  "encode_bundle env bundle =
    bindR (build_report env bundle) (\<lambda>report.
    bindR (bindR (path bundle [''events'']) bundle_events) (\<lambda>events.
    bindR (complete_prefix events) (\<lambda>complete.
    bindR (require_invalid complete ''review archive requires a complete event prefix'') (\<lambda>_.
    bindR (require_invalid (rp_run_state report \<in> set [VStr ''stopped'', VStr ''completed''])
      ''review archive requires stopped or completed play'') (\<lambda>_.
    bindR (require_invalid (val_eq (redact_sensitive bundle None) bundle)
      ''review archive contains unredacted sensitive fields'') (\<lambda>_.
    (let encoded = json_dumps bundle in
    bindR (require_invalid (length encoded \<le> MAX_BYTES) ''review archive exceeds the offline review limit'') (\<lambda>_.
      Inr encoded))))))))"

text \<open>What the audit event has to say.\<close>

definition expected_audit :: "row \<Rightarrow> row" where
  "expected_audit m = map (\<lambda>k. (k, get_or m k VNone)) [''archive_id'', ''bundle_sha256'', ''last_sequence'', ''capture_reason'']"

definition actor_ok :: "val \<Rightarrow> bool" where
  "actor_ok v \<longleftrightarrow> (case v of VStr s \<Rightarrow> 1 \<le> char_count s \<and> char_count s \<le> 256 | _ \<Rightarrow> False)"

definition audit_mismatch :: "row \<Rightarrow> val list \<Rightarrow> row \<Rightarrow> val \<Rightarrow> val \<Rightarrow> val \<Rightarrow> int \<Rightarrow> val \<Rightarrow> exc + bool" where
  "audit_mismatch b events m reason role actor last_sequence audit = any_of
    [notR (in_strings reason REASONS),
     notR (in_strings role ARCHIVE_ROLES),
     Inr (\<not> actor_ok actor),
     notR (isR (path audit [''event_type'']) (VStr ''evaluation.archive.created'')),
     notR (isR (path audit [''action'']) (VStr ''evaluation.archive.capture'')),
     notR (isR (path audit [''target'', ''type'']) (VStr ''review_archive'')),
     notR (isR (path audit [''exercise_id'']) (get_or b ''exercise_id'' VNone)),
     notR (isR (path audit [''run_id'']) (get_or b ''run_id'' VNone)),
     notR (isR (path audit [''sequence'']) (VInt (last_sequence + 1))),
     notR (isR (path audit [''visibility'']) (VStr ''evaluator'')),
     notR (isR (path audit [''outcome'', ''status'']) (VStr ''success'')),
     notR (isR (path audit [''data'']) (VDict (expected_audit m))),
     bindR (path audit [''event_id'']) (\<lambda>i. any_of (map (\<lambda>ev. isR (path ev [''event_id'']) i) events))]"

definition role_allowed :: "val \<Rightarrow> val \<Rightarrow> exc + unit" where
  "role_allowed reason role =
    bindR (in_strings role [''evaluator'', ''facilitator'']) (\<lambda>review.
    bindR (in_strings role [''facilitator'', ''technical_operator'', ''system'']) (\<lambda>control.
    bindR (require_invalid (val_eq reason (VStr ''staff_capture'') \<longrightarrow> review) ''review archive capture requires a review role'') (\<lambda>_.
      require_invalid (val_eq reason (VStr ''application_reset'') \<longrightarrow> control)
        ''review archive reset capture requires a control role'')))"

definition captured_time :: "val \<Rightarrow> exc + unit" where
  "captured_time v = (case v of
     VStr s \<Rightarrow> require_invalid (from_iso (replace_Z s) \<noteq> None) ''Invalid isoformat string''
   | _ \<Rightarrow> Inl (OtherError ''AttributeError'' []))"

text \<open>\<open>metadata\<close>; the audit event is an object, since its fields are read after the validator took it.\<close>

definition last_sequence_of :: "val list \<Rightarrow> exc + int" where
  "last_sequence_of events = (if events = [] then Inr 0 else sequence_of (List.last events))"

definition metadata_record :: "row \<Rightarrow> aar_report \<Rightarrow> string \<Rightarrow> val \<Rightarrow> val \<Rightarrow> val \<Rightarrow> val \<Rightarrow> nat \<Rightarrow> nat \<Rightarrow> int \<Rightarrow> val \<Rightarrow> row" where
  "metadata_record b report identifier captured_at reason actor role events submissions last_sequence event_id =
    (let fld = (\<lambda>k. get_or b k VNone) in
    [(''archive_id'', VStr identifier), (''archive_version'', VStr ARCHIVE_VERSION), (''captured_at'', captured_at),
     (''capture_reason'', reason), (''capture_boundary'', VStr BOUNDARY),
     (''captured_by'', VDict [(''actor_id'', actor), (''role'', role)]),
     (''exercise_id'', fld ''exercise_id''), (''run_id'', fld ''run_id''), (''scenario_id'', fld ''scenario_id''),
     (''run_state'', fld ''run_state''), (''bundle_sha256'', fld ''content_sha256''), (''event_count'', VInt (int events)),
     (''submission_count'', VInt (int submissions)), (''last_sequence'', VInt last_sequence),
     (''review_status'', VStr (rp_status report)), (''reviewed_objectives'', VInt (int (rp_reviewed report))),
     (''audit_event_id'', event_id)])"

definition archive_metadata :: "env \<Rightarrow> val \<Rightarrow> val \<Rightarrow> exc + row" where
  "archive_metadata env bundle audit =
    bindR (encode_bundle env bundle) (\<lambda>_.
    bindR (case audit of VDict a \<Rightarrow> validate_event env a | _ \<Rightarrow> Inl (OtherError ''AttributeError'' [])) (\<lambda>_.
    bindR (build_report env bundle) (\<lambda>report.
    bindR (case bundle of VDict b \<Rightarrow> Inr b | _ \<Rightarrow> invalid ''invalid AAR bundle fields'') (\<lambda>b.
    bindR (bundle_events (get_or b ''events'' VNone)) (\<lambda>events.
    bindR (bundle_submissions (get_or b ''submissions'' VNone)) (\<lambda>submissions.
    bindR (bindR (path audit [''target'', ''id'']) archive_id) (\<lambda>identifier.
    bindR (path audit [''timestamp'']) (\<lambda>captured_at.
    bindR (path audit [''data'', ''capture_reason'']) (\<lambda>reason.
    bindR (path audit [''actor'', ''id'']) (\<lambda>actor. bindR (path audit [''actor'', ''role'']) (\<lambda>role.
    bindR (last_sequence_of events) (\<lambda>last_sequence.
    bindR (path audit [''event_id'']) (\<lambda>event_id.
    (let m = metadata_record b report identifier captured_at reason actor role (length events) (length submissions) last_sequence event_id in
    bindR (fail_if (audit_mismatch b events m reason role actor last_sequence audit)
      ''review archive audit correlation is invalid'') (\<lambda>_.
    bindR (role_allowed reason role) (\<lambda>_.
    bindR (captured_time captured_at) (\<lambda>_. Inr m)))))))))))))))))"

text \<open>\<open>validate_snapshot\<close>: the errors it turns into its own are the classes of Python's \<open>except\<close>.\<close>

definition snapshot_error :: "exc \<Rightarrow> exc" where
  "snapshot_error e = (if is_value_error e \<or> (case e of KeyError _ \<Rightarrow> True | TypeError _ \<Rightarrow> True
       | OtherError c _ \<Rightarrow> c = ''AttributeError'' | _ \<Rightarrow> False)
     then ValueError ''review archive validation failed'' else e)"

definition validate_snapshot :: "env \<Rightarrow> row \<Rightarrow> val \<Rightarrow> val \<Rightarrow> exc + aar_report" where
  "validate_snapshot env recorded bundle audit =
    (case bindR (archive_metadata env bundle audit) (\<lambda>m.
       bindR (require_invalid (val_eq (VDict recorded) (VDict m)) ''review archive metadata is inconsistent'') (\<lambda>_.
         build_report env bundle)) of
     Inl e \<Rightarrow> Inl (snapshot_error e) | Inr report \<Rightarrow> Inr report)"

end
