(* ===== verification/Store.thy ===== *)
theory Store
  imports Archive
begin

text \<open>
  \<^verbatim>\<open>dashboard/store.py\<close>: the tables of the portal. A table is the list of its rows in the order of their
  insertion; a transaction either takes effect or leaves all tables as they were. \<open>json.loads\<close> gives back what
  \<open>json.dumps\<close> wrote, so that a payload column holds the value itself. Foreign keys are declared, but SQLite does not enforce them
  unless told to.
\<close>

section \<open>Tables\<close>

record event_entry =
  ve_event_id :: val
  ve_exercise_id :: val
  ve_run_id :: val
  ve_sequence :: val
  ve_visibility :: val
  ve_payload :: val

record submission_entry =
  vs_submission_id :: nat
  vs_exercise_id :: string
  vs_run_id :: string
  vs_actor_id :: string
  vs_submission_type :: string
  vs_submitted_at :: string
  vs_payload :: val
  vs_result :: val

record audit_entry =
  va_audit_id :: val
  va_event_id :: val
  va_exercise_id :: val
  va_run_id :: val
  va_phase :: val
  va_synthetic_identity :: val
  va_occurred_at :: val
  va_action :: val
  va_result :: val
  va_source_service :: val
  va_source_event_id :: val
  va_credential_kind :: val
  va_submission_reference :: val

record archive_entry =
  vr_sequence :: nat
  vr_archive_id :: val
  vr_exercise_id :: val
  vr_run_id :: val
  vr_bundle_sha256 :: val
  vr_audit_event_id :: val
  vr_metadata :: row
  vr_bundle :: val

text \<open>An automatic key is larger than every key the table has had.\<close>

record portal_store =
  po_events :: "event_entry list"
  po_submissions :: "submission_entry list"
  po_audit :: "audit_entry list"
  po_archives :: "archive_entry list"
  po_next_submission :: nat
  po_next_archive :: nat

definition empty_store :: portal_store where
  "empty_store = \<lparr>po_events = [], po_submissions = [], po_audit = [], po_archives = [], po_next_submission = 1,
     po_next_archive = 1\<rparr>"

definition integrity_error :: "string \<Rightarrow> exc" where
  "integrity_error message = OtherError ''IntegrityError'' message"

section \<open>Inserting\<close>

text \<open>What a column keeps of a parameter: a text column turns numbers into text; a container cannot be bound.\<close>

definition bind_error :: "exc + 'a" where
  "bind_error = Inl (OtherError ''InterfaceError'' ''type is not supported'')"

definition text_column :: "val \<Rightarrow> exc + val" where
  "text_column v = (case v of
     VNone \<Rightarrow> Inr VNone | VStr s \<Rightarrow> Inr (VStr s) | VInt n \<Rightarrow> Inr (VStr (int_str n))
   | VBool b \<Rightarrow> Inr (VStr (if b then ''1'' else ''0'')) | _ \<Rightarrow> bind_error)"

definition integer_column :: "val \<Rightarrow> exc + val" where
  "integer_column v = (case v of
     VNone \<Rightarrow> Inr VNone | VStr s \<Rightarrow> Inr (VStr s) | VInt n \<Rightarrow> Inr (VInt n)
   | VBool b \<Rightarrow> Inr (VInt (if b then 1 else 0)) | _ \<Rightarrow> bind_error)"

text \<open>The constraints of the event table: no column is null, the identifier and the place in the run are new.\<close>

definition place_of :: "event_entry \<Rightarrow> val \<times> val \<times> val" where
  "place_of e = (ve_exercise_id e, ve_run_id e, ve_sequence e)"

definition insert_event :: "event_entry \<Rightarrow> portal_store \<Rightarrow> exc + portal_store" where
  "insert_event e s =
    bindR (requireR (list_all (\<lambda>v. v \<noteq> VNone) [ve_event_id e, ve_exercise_id e, ve_run_id e, ve_sequence e, ve_visibility e])
      (integrity_error ''NOT NULL constraint failed'')) (\<lambda>_.
    bindR (requireR (ve_event_id e \<notin> ve_event_id ` set (po_events s) \<and> place_of e \<notin> place_of ` set (po_events s))
      (integrity_error ''UNIQUE constraint failed'')) (\<lambda>_. Inr (s\<lparr>po_events := po_events s @ [e]\<rparr>)))"

definition event_entry_of :: "row \<Rightarrow> exc + event_entry" where
  "event_entry_of d =
    bindR (mapR (ditem d) [''event_id'', ''exercise_id'', ''run_id'', ''sequence'', ''visibility'']) (\<lambda>_.
    (let column = (\<lambda>k. text_column (get_or d k VNone)) in
    bindR (column ''event_id'') (\<lambda>i. bindR (column ''exercise_id'') (\<lambda>x. bindR (column ''run_id'') (\<lambda>r.
    bindR (integer_column (get_or d ''sequence'' VNone)) (\<lambda>n. bindR (column ''visibility'') (\<lambda>v.
      Inr \<lparr>ve_event_id = i, ve_exercise_id = x, ve_run_id = r, ve_sequence = n, ve_visibility = v, ve_payload = VDict d\<rparr>)))))))"

text \<open>A transaction on the tables.\<close>

definition transact :: "(portal_store \<Rightarrow> exc + 'a \<times> portal_store) \<Rightarrow> (portal_store, 'a) prog" where
  "transact f = (\<lambda>s. case f s of Inl e \<Rightarrow> (Inl e, s) | Inr (x, s') \<Rightarrow> (Inr x, s'))"

text \<open>\<open>append_event\<close>.\<close>

definition portal_append_event :: "env \<Rightarrow> row \<Rightarrow> (portal_store, row) prog" where
  "portal_append_event env event = (let sanitized = redact_row event in
    transact (\<lambda>s. bindR (validate_event env sanitized) (\<lambda>_. bindR (event_entry_of sanitized) (\<lambda>e.
      bindR (insert_event e s) (\<lambda>s'. Inr (sanitized, s'))))))"

text \<open>\<open>events\<close>: in the order of the sequence numbers, all or those with one of the visibilities.\<close>

definition sequence_key :: "event_entry \<Rightarrow> int" where
  "sequence_key e = (case num_of (ve_sequence e) of Some n \<Rightarrow> n | None \<Rightarrow> 0)"

definition portal_events :: "string \<Rightarrow> string \<Rightarrow> string list \<Rightarrow> portal_store \<Rightarrow> val list" where
  "portal_events exercise run visibilities s = map ve_payload (sort_key sequence_key
     (filter (\<lambda>e. ve_exercise_id e = VStr exercise \<and> ve_run_id e = VStr run
        \<and> (visibilities = [] \<or> ve_visibility e \<in> set (map VStr visibilities))) (po_events s)))"

text \<open>\<open>save_submission\<close> and \<open>submissions\<close>; \<open>now\<close> is the text of the time.\<close>

definition save_submission :: "string \<Rightarrow> string \<Rightarrow> string \<Rightarrow> string \<Rightarrow> string \<Rightarrow> row \<Rightarrow> row \<Rightarrow> (portal_store, nat) prog" where
  "save_submission now exercise run actor submission_type payload result = transact (\<lambda>s.
     Inr (po_next_submission s, s\<lparr>po_submissions := po_submissions s @
       [\<lparr>vs_submission_id = po_next_submission s, vs_exercise_id = exercise, vs_run_id = run, vs_actor_id = actor,
         vs_submission_type = submission_type, vs_submitted_at = now, vs_payload = VDict (redact_row payload),
         vs_result = VDict (redact_row result)\<rparr>], po_next_submission := po_next_submission s + 1\<rparr>))"

definition submission_val :: "submission_entry \<Rightarrow> val" where
  "submission_val e = VDict [(''submission_id'', VInt (int (vs_submission_id e))), (''actor_id'', VStr (vs_actor_id e)),
     (''submission_type'', VStr (vs_submission_type e)), (''submitted_at'', VStr (vs_submitted_at e)),
     (''payload'', vs_payload e), (''result'', vs_result e)]"

definition portal_submissions :: "string \<Rightarrow> portal_store \<Rightarrow> val list" where
  "portal_submissions run s = map submission_val (sort_key vs_submission_id (filter (\<lambda>e. vs_run_id e = run) (po_submissions s)))"

section \<open>Identity audit\<close>

definition RECORD_KEYS :: "string list" where
  "RECORD_KEYS = [''audit_id'', ''exercise_id'', ''run_id'', ''phase'', ''synthetic_identity'', ''occurred_at'', ''action'', ''result'',
     ''source_service'', ''source_event_id'']"

definition audit_entry_of :: "val \<Rightarrow> row \<Rightarrow> exc + audit_entry" where
  "audit_entry_of event_id record =
    bindR (mapR (ditem record) RECORD_KEYS) (\<lambda>_.
    (let column = (\<lambda>k. text_column (get_or record k VNone)) in
    bindR (text_column event_id) (\<lambda>ev.
    bindR (column ''audit_id'') (\<lambda>a. bindR (column ''exercise_id'') (\<lambda>x. bindR (column ''run_id'') (\<lambda>r.
    bindR (column ''phase'') (\<lambda>ph. bindR (column ''synthetic_identity'') (\<lambda>i. bindR (column ''occurred_at'') (\<lambda>t.
    bindR (column ''action'') (\<lambda>act. bindR (column ''result'') (\<lambda>res. bindR (column ''source_service'') (\<lambda>src.
    bindR (column ''source_event_id'') (\<lambda>sid.
    bindR (column ''credential_kind'') (\<lambda>kind. bindR (column ''submission_reference'') (\<lambda>reference.
      Inr \<lparr>va_audit_id = a, va_event_id = ev, va_exercise_id = x, va_run_id = r, va_phase = ph, va_synthetic_identity = i,
        va_occurred_at = t, va_action = act, va_result = res, va_source_service = src, va_source_event_id = sid,
        va_credential_kind = kind, va_submission_reference = reference\<rparr>)))))))))))))))"

definition source_key :: "audit_entry \<Rightarrow> val \<times> val \<times> val \<times> val" where
  "source_key a = (va_exercise_id a, va_run_id a, va_source_service a, va_source_event_id a)"

definition insert_audit :: "audit_entry \<Rightarrow> portal_store \<Rightarrow> exc + portal_store" where
  "insert_audit a s =
    bindR (requireR (list_all (\<lambda>v. v \<noteq> VNone) [va_audit_id a, va_event_id a, va_exercise_id a, va_run_id a, va_phase a,
        va_synthetic_identity a, va_occurred_at a, va_action a, va_result a, va_source_service a, va_source_event_id a])
      (integrity_error ''NOT NULL constraint failed'')) (\<lambda>_.
    bindR (requireR (va_audit_id a \<notin> va_audit_id ` set (po_audit s) \<and> va_event_id a \<notin> va_event_id ` set (po_audit s)
        \<and> source_key a \<notin> source_key ` set (po_audit s))
      (integrity_error ''UNIQUE constraint failed'')) (\<lambda>_. Inr (s\<lparr>po_audit := po_audit s @ [a]\<rparr>)))"

text \<open>\<open>_identity_audit_result\<close>: from the record given or from a row of the table.\<close>

definition AUDIT_FIELDS :: "string list" where
  "AUDIT_FIELDS = [''audit_id'', ''event_id'', ''exercise_id'', ''run_id'', ''phase'', ''synthetic_identity'', ''occurred_at'',
     ''action'', ''result'', ''source_service'', ''source_event_id'', ''credential_kind'', ''submission_reference'']"

definition identity_audit_result :: "row \<Rightarrow> val \<Rightarrow> exc + row" where
  "identity_audit_result record origin =
    bindR (mapR (\<lambda>k. bindR (ditem record k) (\<lambda>v. Inr (k, v))) AUDIT_FIELDS) (\<lambda>kvs. case origin of
      VDict d \<Rightarrow> Inr (kvs @ [(''provenance'', VDict d)]) | _ \<Rightarrow> Inl (TypeError []))"

definition audit_row :: "audit_entry \<Rightarrow> row" where
  "audit_row a = zip AUDIT_FIELDS [va_audit_id a, va_event_id a, va_exercise_id a, va_run_id a, va_phase a, va_synthetic_identity a,
     va_occurred_at a, va_action a, va_result a, va_source_service a, va_source_event_id a, va_credential_kind a,
     va_submission_reference a]"

text \<open>\<open>append_identity_audit\<close>: the event and its projection in one transaction.\<close>

definition insert_identity_audit :: "env \<Rightarrow> row \<Rightarrow> row \<Rightarrow> portal_store \<Rightarrow> exc + unit \<times> portal_store" where
  "insert_identity_audit env sanitized record s =
    bindR (validate_event env sanitized) (\<lambda>_.
    bindR (event_entry_of sanitized) (\<lambda>e.
    bindR (insert_event e s) (\<lambda>s1.
    bindR (audit_entry_of (get_or sanitized ''event_id'' VNone) record) (\<lambda>a.
    bindR (insert_audit a s1) (\<lambda>s2. Inr ((), s2))))))"

definition append_identity_audit :: "env \<Rightarrow> row \<Rightarrow> row \<Rightarrow> (portal_store, row) prog" where
  "append_identity_audit env event record = (let sanitized = redact_row event in
    thenE (transact (insert_identity_audit env sanitized record))
      (liftE (bindR (ditem sanitized ''provenance'') (identity_audit_result record))))"

text \<open>\<open>identity_audit\<close>, \<open>identity_audit_by_source\<close>, \<open>delete_identity_audit\<close>: the join with the event table.\<close>

definition event_of_audit :: "portal_store \<Rightarrow> audit_entry \<Rightarrow> event_entry option" where
  "event_of_audit s a = List.find (\<lambda>e. ve_event_id e = va_event_id a) (po_events s)"

definition joined_audit :: "portal_store \<Rightarrow> (audit_entry \<times> event_entry) list" where
  "joined_audit s = List.map_filter (\<lambda>a. map_option (Pair a) (event_of_audit s a)) (po_audit s)"

definition audit_result :: "audit_entry \<times> event_entry \<Rightarrow> exc + row" where
  "audit_result ae = bindR (path (ve_payload (snd ae)) [''provenance'']) (identity_audit_result (audit_row (fst ae)))"

definition occurred_key :: "audit_entry \<times> event_entry \<Rightarrow> string \<times> int" where
  "occurred_key ae = ((case va_occurred_at (fst ae) of VStr t \<Rightarrow> t | _ \<Rightarrow> []), sequence_key (snd ae))"

definition portal_identity_audit :: "string \<Rightarrow> string \<Rightarrow> portal_store \<Rightarrow> exc + row list" where
  "portal_identity_audit exercise run s = mapR audit_result (sort_key occurred_key
     (filter (\<lambda>(a, e). va_exercise_id a = VStr exercise \<and> va_run_id a = VStr run) (joined_audit s)))"

definition identity_audit_by_source :: "string \<Rightarrow> string \<Rightarrow> string \<Rightarrow> string \<Rightarrow> portal_store \<Rightarrow> exc + row option" where
  "identity_audit_by_source exercise run source_service source_event_id s =
    (case List.find (\<lambda>(a, e). source_key a = (VStr exercise, VStr run, VStr source_service, VStr source_event_id)) (joined_audit s) of
       None \<Rightarrow> Inr None | Some ae \<Rightarrow> bindR (audit_result ae) (\<lambda>r. Inr (Some r)))"

definition delete_identity_audit :: "string \<Rightarrow> string \<Rightarrow> (portal_store, nat) prog" where
  "delete_identity_audit exercise run = transact (\<lambda>s.
     let mine = (\<lambda>a. va_exercise_id a = VStr exercise \<and> va_run_id a = VStr run) in
     Inr (length (filter mine (po_audit s)), s\<lparr>po_audit := filter (\<lambda>a. \<not> mine a) (po_audit s)\<rparr>))"

section \<open>Review archives\<close>

definition insert_archive :: "(nat \<Rightarrow> archive_entry) \<Rightarrow> portal_store \<Rightarrow> exc + portal_store" where
  "insert_archive entry s = (let a = entry (po_next_archive s) in
    bindR (requireR (list_all (\<lambda>v. v \<noteq> VNone) [vr_archive_id a, vr_exercise_id a, vr_run_id a, vr_bundle_sha256 a, vr_audit_event_id a])
      (integrity_error ''NOT NULL constraint failed'')) (\<lambda>_.
    bindR (requireR (vr_archive_id a \<notin> vr_archive_id ` set (po_archives s) \<and> vr_audit_event_id a \<notin> vr_audit_event_id ` set (po_archives s)
        \<and> (vr_exercise_id a, vr_run_id a, vr_bundle_sha256 a)
            \<notin> (\<lambda>b. (vr_exercise_id b, vr_run_id b, vr_bundle_sha256 b)) ` set (po_archives s))
      (integrity_error ''UNIQUE constraint failed'')) (\<lambda>_.
      Inr (s\<lparr>po_archives := po_archives s @ [a], po_next_archive := po_next_archive s + 1\<rparr>))))"

text \<open>\<open>append_review_archive\<close>: the snapshot and its audit event in one transaction.\<close>

definition archive_entry_of :: "row \<Rightarrow> val \<Rightarrow> exc + (nat \<Rightarrow> archive_entry)" where
  "archive_entry_of m bundle =
    (let column = (\<lambda>k. text_column (get_or m k VNone)) in
    bindR (column ''archive_id'') (\<lambda>i. bindR (column ''exercise_id'') (\<lambda>x. bindR (column ''run_id'') (\<lambda>r.
    bindR (column ''bundle_sha256'') (\<lambda>h. bindR (column ''audit_event_id'') (\<lambda>a.
      Inr (\<lambda>n. \<lparr>vr_sequence = n, vr_archive_id = i, vr_exercise_id = x, vr_run_id = r, vr_bundle_sha256 = h,
        vr_audit_event_id = a, vr_metadata = m, vr_bundle = bundle\<rparr>)))))))"

definition insert_review_archive :: "env \<Rightarrow> val \<Rightarrow> val \<Rightarrow> portal_store \<Rightarrow> exc + row \<times> portal_store" where
  "insert_review_archive env bundle audit s =
    bindR (encode_bundle env bundle) (\<lambda>_.
    bindR (archive_metadata env bundle audit) (\<lambda>m.
    bindR (archive_entry_of m bundle) (\<lambda>entry.
    bindR (insert_archive entry s) (\<lambda>s1.
    bindR (case audit of VDict a \<Rightarrow> event_entry_of a | _ \<Rightarrow> Inl (TypeError [])) (\<lambda>e.
    bindR (insert_event e s1) (\<lambda>s2. Inr (m, s2)))))))"

definition append_review_archive :: "env \<Rightarrow> val \<Rightarrow> val \<Rightarrow> (portal_store, row) prog" where
  "append_review_archive env bundle audit = transact (insert_review_archive env bundle audit)"

text \<open>\<open>_review_snapshot\<close>: a stored snapshot is validated again when it is read.\<close>

record review_snapshot =
  sh_metadata :: row
  sh_bundle :: val
  sh_report :: aar_report

definition review_snapshot :: "env \<Rightarrow> portal_store \<Rightarrow> archive_entry \<Rightarrow> exc + review_snapshot" where
  "review_snapshot env s a =
    bindR (require_invalid (length (json_dumps (vr_bundle a)) \<le> MAX_BYTES) ''review archive exceeds the offline review limit'') (\<lambda>_.
    bindR (case List.find (\<lambda>e. ve_event_id e = vr_audit_event_id a) (po_events s) of
        None \<Rightarrow> invalid ''review archive audit is missing'' | Some e \<Rightarrow> Inr e) (\<lambda>e.
    bindR (validate_snapshot env (vr_metadata a) (vr_bundle a) (ve_payload e)) (\<lambda>report.
    bindR (fail_if (any_of (map (\<lambda>(v, k). notR (isR (ditem (vr_metadata a) k) v))
        [(vr_archive_id a, ''archive_id''), (vr_exercise_id a, ''exercise_id''), (vr_run_id a, ''run_id''),
         (vr_bundle_sha256 a, ''bundle_sha256''), (vr_audit_event_id a, ''audit_event_id'')]))
      ''review archive storage correlation is invalid'') (\<lambda>_.
      Inr \<lparr>sh_metadata = dset ''archive_sequence'' (VInt (int (vr_sequence a))) (vr_metadata a), sh_bundle = vr_bundle a,
           sh_report = report\<rparr>))))"

definition read_archive :: "env \<Rightarrow> portal_store \<Rightarrow> (archive_entry \<Rightarrow> bool) \<Rightarrow> exc + review_snapshot option" where
  "read_archive env s p = (case List.find p (po_archives s) of
     None \<Rightarrow> Inr None | Some a \<Rightarrow> bindR (review_snapshot env s a) (\<lambda>r. Inr (Some r)))"

definition review_archive :: "env \<Rightarrow> string \<Rightarrow> val \<Rightarrow> portal_store \<Rightarrow> exc + review_snapshot option" where
  "review_archive env exercise identifier s =
    bindR (archive_id identifier) (\<lambda>i. read_archive env s (\<lambda>a. vr_exercise_id a = VStr exercise \<and> vr_archive_id a = VStr i))"

definition review_archive_by_hash :: "env \<Rightarrow> string \<Rightarrow> string \<Rightarrow> string \<Rightarrow> portal_store \<Rightarrow> exc + review_snapshot option" where
  "review_archive_by_hash env exercise run digest s =
    read_archive env s (\<lambda>a. vr_exercise_id a = VStr exercise \<and> vr_run_id a = VStr run \<and> vr_bundle_sha256 a = VStr digest)"

text \<open>\<open>review_archives\<close>: one page of metadata.\<close>

record archive_page =
  ap_archives :: "row list"
  ap_has_more :: bool
  ap_next :: int

definition page_rows :: "string \<Rightarrow> int \<Rightarrow> int \<Rightarrow> portal_store \<Rightarrow> archive_entry list" where
  "page_rows exercise after limit s = take (nat (limit + 1)) (sort_key vr_sequence
     (filter (\<lambda>a. vr_exercise_id a = VStr exercise \<and> after < int (vr_sequence a)) (po_archives s)))"

definition page_entry :: "env \<Rightarrow> string \<Rightarrow> portal_store \<Rightarrow> archive_entry \<Rightarrow> exc + row" where
  "page_entry env exercise s a = bindR (review_archive env exercise (vr_archive_id a) s) (\<lambda>found. case found of
     None \<Rightarrow> invalid ''review archive changed during listing'' | Some snapshot \<Rightarrow> Inr (sh_metadata snapshot))"

definition review_archives :: "env \<Rightarrow> string \<Rightarrow> val \<Rightarrow> val \<Rightarrow> portal_store \<Rightarrow> exc + archive_page" where
  "review_archives env exercise after_sequence limit s =
    bindR (case strict_int after_sequence of Some n \<Rightarrow> if n < 0 then invalid ''invalid review archive page'' else Inr n
      | None \<Rightarrow> invalid ''invalid review archive page'') (\<lambda>after.
    bindR (case strict_int limit of Some n \<Rightarrow> if 1 \<le> n \<and> n \<le> 100 then Inr n else invalid ''invalid review archive page''
      | None \<Rightarrow> invalid ''invalid review archive page'') (\<lambda>n.
    (let rows = page_rows exercise after n s in
    bindR (mapR (page_entry env exercise s) (take (nat n) rows)) (\<lambda>page.
    bindR (if page = [] then Inr after else bindR (bindR (ditem (List.last page) ''archive_sequence'') expected_int) Inr) (\<lambda>following.
      Inr \<lparr>ap_archives = page, ap_has_more = n < int (length rows), ap_next = following\<rparr>)))))"

end
