(* ===== verification/StoreSteps.thy ===== *)
theory StoreSteps
  imports Store "HOL-Library.Sublist"
begin

text \<open>
  The portal's tables under any series of its operations: which rows an operation adds, and what that keeps.
\<close>

lemma find_by_key: "distinct (map f xs) \<Longrightarrow> x \<in> set xs \<Longrightarrow> List.find (\<lambda>y. f y = f x) xs = Some x"
  by (induction xs) (auto simp: image_iff)

section \<open>Tables that only grow\<close>

text \<open>The contract of an append-only table with a key, for any steps on a state that keep \<open>good\<close>.\<close>

locale append_only =
  fixes step :: "'c \<Rightarrow> 's \<Rightarrow> 's" and rows :: "'s \<Rightarrow> 'r list" and key :: "'r \<Rightarrow> 'k" and good :: "'s \<Rightarrow> bool"
  assumes good_step: "good s \<Longrightarrow> good (step c s)"
    and appends: "good s \<Longrightarrow> rows (step c s) = rows s \<or> (\<exists>r. rows (step c s) = rows s @ [r] \<and> key r \<notin> key ` set (rows s))"
begin

lemma good_steps: "good s \<Longrightarrow> good (fold step cs s)"
  by (induction cs arbitrary: s) (auto intro: good_step)

lemma rows_grow: "good s \<Longrightarrow> prefix (rows s) (rows (fold step cs s))"
proof (induction cs arbitrary: s)
  case (Cons c cs)
  have "prefix (rows s) (rows (step c s))" using appends [OF Cons.prems, of c] by auto
  also have "prefix (rows (step c s)) (rows (fold step cs (step c s)))" by (rule Cons.IH) (rule good_step [OF Cons.prems])
  finally show ?case by simp
qed simp

lemma keys_distinct: "good s \<Longrightarrow> distinct (map key (rows s)) \<Longrightarrow> distinct (map key (rows (fold step cs s)))"
proof (induction cs arbitrary: s)
  case (Cons c cs)
  have "distinct (map key (rows (step c s)))" using appends [OF Cons.prems(1), of c] Cons.prems(2) by auto
  with Cons.IH [OF good_step [OF Cons.prems(1)]] show ?case by simp
qed simp

lemma row_stays: "good s \<Longrightarrow> r \<in> set (rows s) \<Longrightarrow> r \<in> set (rows (fold step cs s))"
  using rows_grow [of s cs] by (auto simp: prefix_def)

text \<open>With distinct keys a row is found under its key, now and later.\<close>

lemma row_found:
  assumes "good s" and "distinct (map key (rows s))" and "r \<in> set (rows s)"
  shows "List.find (\<lambda>x. key x = key r) (rows (fold step cs s)) = Some r"
proof -
  have "r \<in> set (rows (fold step cs s))" by (rule row_stays [OF assms(1,3)])
  moreover have "distinct (map key (rows (fold step cs s)))" by (rule keys_distinct [OF assms(1,2)])
  ultimately show ?thesis by (rule find_by_key [rotated])
qed

end

section \<open>Operations\<close>

datatype store_command =
  AppendEvent row
| SaveSubmission string string string string string row row
| AppendIdentityAudit row row
| DeleteIdentityAudit string string
| AppendReviewArchive val val

definition run_store :: "env \<Rightarrow> store_command \<Rightarrow> portal_store \<Rightarrow> portal_store" where
  "run_store env c s = (case c of
     AppendEvent e \<Rightarrow> snd (portal_append_event env e s)
   | SaveSubmission now x r actor ty payload result \<Rightarrow> snd (save_submission now x r actor ty payload result s)
   | AppendIdentityAudit e record \<Rightarrow> snd (append_identity_audit env e record s)
   | DeleteIdentityAudit x r \<Rightarrow> snd (delete_identity_audit x r s)
   | AppendReviewArchive bundle audit \<Rightarrow> snd (append_review_archive env bundle audit s))"

lemma insert_event_Inr: "insert_event e s = Inr s' \<longleftrightarrow>
    list_all (\<lambda>v. v \<noteq> VNone) [ve_event_id e, ve_exercise_id e, ve_run_id e, ve_sequence e, ve_visibility e]
    \<and> ve_event_id e \<notin> ve_event_id ` set (po_events s) \<and> place_of e \<notin> place_of ` set (po_events s)
    \<and> s' = s\<lparr>po_events := po_events s @ [e]\<rparr>"
  by (auto simp: insert_event_def)

definition archive_place :: "archive_entry \<Rightarrow> val \<times> val \<times> val" where
  "archive_place a = (vr_exercise_id a, vr_run_id a, vr_bundle_sha256 a)"

lemma insert_archive_Inr: "insert_archive f s = Inr s' \<longleftrightarrow> (let a = f (po_next_archive s) in
    list_all (\<lambda>v. v \<noteq> VNone) [vr_archive_id a, vr_exercise_id a, vr_run_id a, vr_bundle_sha256 a, vr_audit_event_id a]
    \<and> vr_archive_id a \<notin> vr_archive_id ` set (po_archives s) \<and> vr_audit_event_id a \<notin> vr_audit_event_id ` set (po_archives s)
    \<and> archive_place a \<notin> archive_place ` set (po_archives s)
    \<and> s' = s\<lparr>po_archives := po_archives s @ [a], po_next_archive := po_next_archive s + 1\<rparr>)"
  by (auto simp: insert_archive_def archive_place_def Let_def)

lemma insert_audit_Inr: "insert_audit a s = Inr s' \<Longrightarrow>
    va_audit_id a \<notin> va_audit_id ` set (po_audit s) \<and> va_event_id a \<notin> va_event_id ` set (po_audit s)
    \<and> source_key a \<notin> source_key ` set (po_audit s) \<and> s' = s\<lparr>po_audit := po_audit s @ [a]\<rparr>"
  by (auto simp: insert_audit_def)

text \<open>An archive and its audit event.\<close>

definition archived :: "env \<Rightarrow> archive_entry \<Rightarrow> event_entry \<Rightarrow> bool" where
  "archived env a e \<longleftrightarrow> (\<exists>enc entry d. encode_bundle env (vr_bundle a) = Inr enc
     \<and> archive_metadata env (vr_bundle a) (ve_payload e) = Inr (vr_metadata a)
     \<and> archive_entry_of (vr_metadata a) (vr_bundle a) = Inr entry \<and> a = entry (vr_sequence a)
     \<and> ve_payload e = VDict d \<and> event_entry_of d = Inr e)"

text \<open>What one operation does to the tables.\<close>

inductive store_step :: "env \<Rightarrow> portal_store \<Rightarrow> portal_store \<Rightarrow> bool" for env where
  refused: "store_step env s s"
| event_added: "insert_event e s = Inr s' \<Longrightarrow> store_step env s s'"
| submission_added: "vs_submission_id b = po_next_submission s \<Longrightarrow>
    store_step env s (s\<lparr>po_submissions := po_submissions s @ [b], po_next_submission := Suc (po_next_submission s)\<rparr>)"
| audit_added: "insert_event e s = Inr s1 \<Longrightarrow> insert_audit a s1 = Inr s' \<Longrightarrow> va_event_id a = ve_event_id e \<Longrightarrow> store_step env s s'"
| audit_deleted: "store_step env s (s\<lparr>po_audit := filter p (po_audit s)\<rparr>)"
| archive_added: "insert_archive f s = Inr s1 \<Longrightarrow> insert_event e s1 = Inr s' \<Longrightarrow> archived env (f (po_next_archive s)) e
    \<Longrightarrow> vr_sequence (f (po_next_archive s)) = po_next_archive s \<Longrightarrow> store_step env s s'"

inductive_cases store_stepE: "store_step env s s'"

lemma snd_transact: "snd (transact f s) = (case f s of Inl e \<Rightarrow> s | Inr (x, s') \<Rightarrow> s')"
  by (auto simp: transact_def split: sum.splits)

lemma transact_step: "(\<And>x s'. f s = Inr (x, s') \<Longrightarrow> store_step env s s') \<Longrightarrow> store_step env s (snd (transact f s))"
  by (auto simp: snd_transact refused split: sum.splits)

lemma thenE_liftE_state: "snd (thenE m (liftE r) s) = snd (m s)"
  by (auto simp: thenE_def bindE_def liftE_def split: prod.splits sum.splits)

lemma event_entry_of_Inr: "event_entry_of d = Inr e \<Longrightarrow> ve_payload e = VDict d \<and> text_column (get_or d ''event_id'' VNone) = Inr (ve_event_id e)"
  by (auto simp: event_entry_of_def Let_def)

lemma archive_entry_of_Inr: "archive_entry_of m bundle = Inr f \<Longrightarrow> vr_sequence (f n) = n \<and> vr_metadata (f n) = m \<and> vr_bundle (f n) = bundle"
  by (auto simp: archive_entry_of_def Let_def)

theorem run_store_step: "store_step env s (run_store env c s)"
proof (cases c)
  case (AppendEvent event)
  show ?thesis unfolding AppendEvent run_store_def portal_append_event_def Let_def store_command.case
    by (rule transact_step) (auto intro: event_added)
next
  case (SaveSubmission now x r actor ty payload result)
  show ?thesis unfolding SaveSubmission run_store_def save_submission_def store_command.case
    by (rule transact_step) (auto intro!: submission_added)
next
  case (AppendIdentityAudit event rec)
  have "store_step env s s'" if ins: "insert_identity_audit env sanitized rec s = Inr (x, s')" for sanitized x s'
  proof -
    from ins obtain e s1 a where e: "event_entry_of sanitized = Inr e" "insert_event e s = Inr s1"
        and a: "audit_entry_of (get_or sanitized ''event_id'' VNone) rec = Inr a" "insert_audit a s1 = Inr s'"
      by (auto simp: insert_identity_audit_def)
    moreover have "va_event_id a = ve_event_id e"
      using event_entry_of_Inr [OF e(1)] a(1) by (auto simp: audit_entry_of_def Let_def)
    ultimately show ?thesis by (blast intro: audit_added)
  qed
  then show ?thesis
    unfolding AppendIdentityAudit run_store_def append_identity_audit_def Let_def store_command.case thenE_liftE_state
    by (intro transact_step)
next
  case (DeleteIdentityAudit x r)
  show ?thesis unfolding DeleteIdentityAudit run_store_def delete_identity_audit_def store_command.case
    by (rule transact_step) (auto intro: audit_deleted simp: Let_def)
next
  case (AppendReviewArchive b audit)
  have "store_step env s s'" if ins: "insert_review_archive env b audit s = Inr (x, s')" for x s'
  proof -
    from ins obtain enc m f s1 e where k: "encode_bundle env b = Inr enc" "archive_metadata env b audit = Inr m"
        "archive_entry_of m b = Inr f" "insert_archive f s = Inr s1"
        "(case audit of VDict a \<Rightarrow> event_entry_of a | _ \<Rightarrow> Inl (TypeError [])) = Inr e" "insert_event e s1 = Inr s'"
      by (auto simp: insert_review_archive_def)
    from k(5) obtain d where d: "audit = VDict d" "event_entry_of d = Inr e" by (cases audit) auto
    note a = archive_entry_of_Inr [OF k(3), of "po_next_archive s"] and p = event_entry_of_Inr [OF d(2)]
    have "archived env (f (po_next_archive s)) e"
      unfolding archived_def using k(1-3) d a p by (intro exI [of _ enc] exI [of _ f] exI [of _ d]) auto
    with k(4,6) a show ?thesis by (blast intro: archive_added)
  qed
  then show ?thesis unfolding AppendReviewArchive run_store_def append_review_archive_def store_command.case
    by (intro transact_step)
qed

end
