(* ===== verification/StoreProps.thy ===== *)
theory StoreProps
  imports StoreSteps TelemetryProps AarProps
begin

text \<open>
  The portal's tables: keys, append-only evidence, archives that read back unchanged and pages that list them all.
\<close>

declare path.simps [simp del]

section \<open>Keys and growth\<close>

definition counters_ok :: "portal_store \<Rightarrow> bool" where
  "counters_ok s \<longleftrightarrow> (\<forall>b \<in> set (po_submissions s). vs_submission_id b < po_next_submission s)
     \<and> (\<forall>a \<in> set (po_archives s). vr_sequence a < po_next_archive s)"

lemma counters_step: "store_step env s s' \<Longrightarrow> counters_ok s \<Longrightarrow> counters_ok s'"
  by (induction rule: store_step.induct)
     (auto simp: counters_ok_def insert_event_Inr insert_archive_Inr Let_def less_Suc_eq dest!: insert_audit_Inr)

lemma counters_run: "counters_ok s \<Longrightarrow> counters_ok (run_store env c s)"
  by (rule counters_step [OF run_store_step])

lemma events_step: "store_step env s s' \<Longrightarrow> po_events s' = po_events s
    \<or> (\<exists>e. po_events s' = po_events s @ [e] \<and> ve_event_id e \<notin> ve_event_id ` set (po_events s) \<and> place_of e \<notin> place_of ` set (po_events s))"
  by (induction rule: store_step.induct) (auto simp: insert_event_Inr insert_archive_Inr Let_def dest!: insert_audit_Inr)

lemma submissions_step: "store_step env s s' \<Longrightarrow> counters_ok s \<Longrightarrow> po_submissions s' = po_submissions s
    \<or> (\<exists>b. po_submissions s' = po_submissions s @ [b] \<and> vs_submission_id b \<notin> vs_submission_id ` set (po_submissions s))"
  by (induction rule: store_step.induct)
     (auto simp: counters_ok_def insert_event_Inr insert_archive_Inr Let_def dest!: insert_audit_Inr)

lemma archives_step: "store_step env s s' \<Longrightarrow> po_archives s' = po_archives s
    \<or> (\<exists>a. po_archives s' = po_archives s @ [a] \<and> vr_archive_id a \<notin> vr_archive_id ` set (po_archives s)
        \<and> archive_place a \<notin> archive_place ` set (po_archives s))"
  by (induction rule: store_step.induct) (auto simp: insert_event_Inr insert_archive_Inr Let_def dest!: insert_audit_Inr)

interpretation event_rows: append_only "run_store env" po_events ve_event_id "\<lambda>_. True" for env
  by unfold_locales (use events_step [OF run_store_step] in blast)+

interpretation event_places: append_only "run_store env" po_events place_of "\<lambda>_. True" for env
  by unfold_locales (use events_step [OF run_store_step] in blast)+

interpretation submission_rows: append_only "run_store env" po_submissions vs_submission_id counters_ok for env
  by unfold_locales (rule counters_run, assumption, rule submissions_step [OF run_store_step])

interpretation archive_rows: append_only "run_store env" po_archives vr_archive_id "\<lambda>_. True" for env
  by unfold_locales (use archives_step [OF run_store_step] in blast)+

interpretation archive_places: append_only "run_store env" po_archives archive_place "\<lambda>_. True" for env
  by unfold_locales (use archives_step [OF run_store_step] in blast)+

definition audits_ok :: "portal_store \<Rightarrow> bool" where
  "audits_ok s \<longleftrightarrow> distinct (map va_audit_id (po_audit s)) \<and> distinct (map source_key (po_audit s))
     \<and> (\<forall>a \<in> set (po_audit s). va_event_id a \<in> ve_event_id ` set (po_events s))"

lemma audits_step: "store_step env s s' \<Longrightarrow> audits_ok s \<Longrightarrow> audits_ok s'"
  by (induction rule: store_step.induct)
     (auto simp: audits_ok_def insert_event_Inr insert_archive_Inr Let_def intro: distinct_map_filter dest!: insert_audit_Inr)

lemma audits_run: "audits_ok s \<Longrightarrow> audits_ok (fold (run_store env) cs s)"
  by (induction cs arbitrary: s) (auto intro: audits_step [OF run_store_step])

definition archives_ok :: "env \<Rightarrow> portal_store \<Rightarrow> bool" where
  "archives_ok env s \<longleftrightarrow> sorted_wrt (\<lambda>a b. vr_sequence a < vr_sequence b) (po_archives s)
     \<and> (\<forall>a \<in> set (po_archives s). 0 < vr_sequence a \<and> (\<exists>e \<in> set (po_events s). ve_event_id e = vr_audit_event_id a \<and> archived env a e))"

text \<open>The metadata that a bundle and its audit event determine.\<close>

definition sound_metadata :: "env \<Rightarrow> val \<Rightarrow> val \<Rightarrow> row \<Rightarrow> bool" where
  "sound_metadata env bundle audit m \<longleftrightarrow> (\<exists>b d report i t reason actor role n k l ev.
     bundle = VDict b \<and> audit = VDict d \<and> validate_event env d = Inr () \<and> validate_bundle env bundle = Inr ()
   \<and> canonical_uuid4 i \<and> path audit [''event_id''] = Inr ev
   \<and> m = metadata_record b report i (VStr t) (VStr reason) (VStr actor) (VStr role) n k l ev)"

lemma archive_metadata_sound:
  assumes "archive_metadata env bundle audit = Inr m"
  shows "sound_metadata env bundle audit m"
proof -
  from assms obtain d where d: "audit = VDict d" by (cases audit) (auto simp: archive_metadata_def)
  from assms obtain b where b: "bundle = VDict b" by (cases "bundle") (auto simp: archive_metadata_def invalid_def)
  from assms obtain report i captured_at reason actor role n k l ev where
    f: "validate_event env d = Inr ()" "build_report env bundle = Inr report"
      "bindR (path audit [''target'', ''id'']) archive_id = Inr i" "path audit [''event_id''] = Inr ev"
      "m = metadata_record b report i captured_at reason actor role n k l ev"
    and g: "\<exists>events. audit_mismatch b events m reason role actor l audit = Inr False" "captured_time captured_at = Inr ()"
    by (auto simp: archive_metadata_def d b Let_def) blast
  have v: "validate_bundle env bundle = Inr ()" using f(2) by (auto simp: build_report_def)
  obtain v where "archive_id v = Inr i" using f(3) by auto
  then have i: "canonical_uuid4 i" by (cases v) (auto simp: archive_id_def invalid_def split: if_splits)
  have "in_strings reason REASONS = Inr True" "in_strings role ARCHIVE_ROLES = Inr True" and act: "actor_ok actor"
    using g(1) by (auto simp: audit_mismatch_def any_of_False simp del: any_of.simps)
  then obtain r ro where r: "reason = VStr r" and ro: "role = VStr ro" by (auto simp: in_strings_Inr)
  obtain a where a: "actor = VStr a" using act by (cases actor) (auto simp: actor_ok_def)
  obtain t where t: "captured_at = VStr t" using g(2) by (cases captured_at) (auto simp: captured_time_def)
  show ?thesis unfolding sound_metadata_def using b d f v i
    unfolding r ro a t by blast
qed

lemma metadata_items [simp]:
  "map_of (metadata_record b report i t reason actor role n k l ev) ''archive_id'' = Some (VStr i)"
  "map_of (metadata_record b report i t reason actor role n k l ev) ''exercise_id'' = Some (get_or b ''exercise_id'' VNone)"
  "map_of (metadata_record b report i t reason actor role n k l ev) ''run_id'' = Some (get_or b ''run_id'' VNone)"
  "map_of (metadata_record b report i t reason actor role n k l ev) ''bundle_sha256'' = Some (get_or b ''content_sha256'' VNone)"
  "map_of (metadata_record b report i t reason actor role n k l ev) ''audit_event_id'' = Some ev"
  by (simp_all add: metadata_record_def Let_def)

lemma bundle_strings:
  assumes "validate_bundle env (VDict b) = Inr ()"
  shows "\<exists>s. get_or b ''exercise_id'' VNone = VStr s" "\<exists>s. get_or b ''run_id'' VNone = VStr s"
    "\<exists>s. get_or b ''scenario_id'' VNone = VStr s" "\<exists>s. get_or b ''run_state'' VNone = VStr s"
    "\<exists>s. get_or b ''content_sha256'' VNone = VStr s"
proof -
  have t: "aar_text v name k = Inr u \<Longrightarrow> \<exists>s. v = VStr s" for v name k u
    by (auto simp: aar_text_def invalid_def split: val.splits)
  from assms have h: "check_header b = Inr ()" by (auto simp: validate_bundle_def Let_def)
  then show "\<exists>s. get_or b ''exercise_id'' VNone = VStr s" "\<exists>s. get_or b ''run_id'' VNone = VStr s"
    "\<exists>s. get_or b ''scenario_id'' VNone = VStr s" "\<exists>s. get_or b ''run_state'' VNone = VStr s"
    by (auto simp: check_header_def Let_def dest!: t)
  show "\<exists>s. get_or b ''content_sha256'' VNone = VStr s"
    using assms by (auto simp: validate_bundle_def Let_def aar_digest_def)
qed

lemma sound_metadata_event:
  assumes "sound_metadata env bundle audit m" and "schema_names_events env"
  shows "\<exists>s. map_of m ''audit_event_id'' = Some (VStr s)"
proof -
  from assms(1) obtain b d report i t reason actor role n k l ev where
    d: "audit = VDict d" "validate_event env d = Inr ()" and ev: "path audit [''event_id''] = Inr ev"
    and m: "m = metadata_record b report i (VStr t) (VStr reason) (VStr actor) (VStr role) n k l ev"
    unfolding sound_metadata_def by blast
  from validate_event_major [OF d(2)] assms(2) obtain s where "map_of d ''event_id'' = Some (VStr s)"
    by (auto simp: schema_names_events_def)
  with ev m d(1) show ?thesis by (auto simp: path.simps item_of_def)
qed

lemma sound_metadata_wf:
  assumes "sound_metadata env bundle audit m" and "schema_names_events env"
  shows "wf_val (VDict m)"
proof -
  from assms(1) obtain b d report i t reason actor role n k l ev where
    b: "bundle = VDict b" "validate_bundle env bundle = Inr ()"
    and m: "m = metadata_record b report i (VStr t) (VStr reason) (VStr actor) (VStr role) n k l ev"
    unfolding sound_metadata_def by blast
  from sound_metadata_event [OF assms] m obtain s where "ev = VStr s" by auto
  moreover obtain x r c q h where "get_or b ''exercise_id'' VNone = VStr x" "get_or b ''run_id'' VNone = VStr r"
    "get_or b ''scenario_id'' VNone = VStr c" "get_or b ''run_state'' VNone = VStr q" "get_or b ''content_sha256'' VNone = VStr h"
    using bundle_strings [OF b(2) [unfolded b(1)]] by blast
  ultimately show ?thesis unfolding m by (simp add: metadata_record_def Let_def)
qed

lemma archived_event:
  assumes "archived env a e"
  shows "ve_event_id e = vr_audit_event_id a"
proof -
  from assms obtain f d where k: "archive_metadata env (vr_bundle a) (ve_payload e) = Inr (vr_metadata a)"
    "archive_entry_of (vr_metadata a) (vr_bundle a) = Inr f" "a = f (vr_sequence a)" "ve_payload e = VDict d" "event_entry_of d = Inr e"
    unfolding archived_def by blast
  from archive_metadata_sound [OF k(1)] obtain ev where ev: "path (ve_payload e) [''event_id''] = Inr ev"
    "map_of (vr_metadata a) ''audit_event_id'' = Some ev"
    unfolding sound_metadata_def by auto
  have "text_column ev = Inr (ve_event_id e)"
    using event_entry_of_Inr [OF k(5)] ev(1) k(4) by (auto simp: path.simps item_of_def get_or_def)
  moreover have "text_column ev = Inr (vr_audit_event_id a)"
  proof -
    have "text_column (get_or (vr_metadata a) ''audit_event_id'' VNone) = Inr (vr_audit_event_id (f n))" for n
      using k(2) by (auto simp: archive_entry_of_def Let_def)
    then show ?thesis using k(3) ev(2) by (metis get_or_def option.simps(5))
  qed
  ultimately show ?thesis by simp
qed

lemma archives_ok_step: "store_step env s s' \<Longrightarrow> counters_ok s \<and> 0 < po_next_archive s \<and> archives_ok env s
   \<Longrightarrow> 0 < po_next_archive s' \<and> archives_ok env s'"
proof (induction rule: store_step.induct)
  case (archive_added f s s1 e s')
  then show ?case
    using archived_event [OF archive_added(3)]
    by (auto simp: archives_ok_def counters_ok_def insert_event_Inr insert_archive_Inr Let_def sorted_wrt_append)
qed (auto simp: archives_ok_def insert_event_Inr dest!: insert_audit_Inr)

section \<open>All tables of a run\<close>

definition store_ok :: "env \<Rightarrow> portal_store \<Rightarrow> bool" where
  "store_ok env s \<longleftrightarrow> counters_ok s \<and> 0 < po_next_archive s \<and> archives_ok env s \<and> audits_ok s"

lemma store_ok_step: "store_step env s s' \<Longrightarrow> store_ok env s \<Longrightarrow> store_ok env s'"
  unfolding store_ok_def using archives_ok_step [of env s s'] counters_step audits_step by blast

lemma store_ok_run: "store_ok env s \<Longrightarrow> store_ok env (fold (run_store env) cs s)"
  by (induction cs arbitrary: s) (auto intro: store_ok_step [OF run_store_step])

lemma store_ok_empty: "store_ok env empty_store"
  by (simp add: store_ok_def empty_store_def counters_ok_def archives_ok_def audits_ok_def)

definition reached :: "env \<Rightarrow> store_command list \<Rightarrow> portal_store" where
  "reached env cs = fold (run_store env) cs empty_store"

lemma reached_ok: "store_ok env (reached env cs)"
  unfolding reached_def by (rule store_ok_run [OF store_ok_empty])

lemma reached_events: "distinct (map ve_event_id (po_events (reached env cs)))"
  unfolding reached_def by (rule event_rows.keys_distinct) (simp_all add: empty_store_def)

lemma reached_archives: "distinct (map vr_archive_id (po_archives (reached env cs)))"
  unfolding reached_def by (rule archive_rows.keys_distinct) (simp_all add: empty_store_def)

lemma reached_archive_places: "distinct (map archive_place (po_archives (reached env cs)))"
  unfolding reached_def by (rule archive_places.keys_distinct) (simp_all add: empty_store_def)

text \<open>C33: Whatever series of operations the portal runs on its tables, refused ones included, every event has an
  identifier and a place in its run of its own, every submission a number of its own; every identity audit record has its
  own number and source and an event; archives are numbered upwards, each with its own identifier and content, and each
  with the audit event it was derived from.\<close>

theorem tables_keep_their_keys:
  "(let s = fold (run_store env) cs empty_store in
     distinct (map ve_event_id (po_events s)) \<and> distinct (map place_of (po_events s))
   \<and> distinct (map vs_submission_id (po_submissions s))
   \<and> distinct (map va_audit_id (po_audit s)) \<and> distinct (map source_key (po_audit s))
   \<and> va_event_id ` set (po_audit s) \<subseteq> ve_event_id ` set (po_events s)
   \<and> sorted_wrt (\<lambda>a b. vr_sequence a < vr_sequence b) (po_archives s)
   \<and> distinct (map vr_archive_id (po_archives s)) \<and> distinct (map archive_place (po_archives s))
   \<and> vr_audit_event_id ` set (po_archives s) \<subseteq> ve_event_id ` set (po_events s))"
proof -
  let ?s = "fold (run_store env) cs empty_store"
  note ok = reached_ok [of env cs, unfolded store_ok_def archives_ok_def audits_ok_def reached_def]
  have "distinct (map place_of (po_events ?s))" by (rule event_places.keys_distinct) (simp_all add: empty_store_def)
  moreover have "distinct (map vs_submission_id (po_submissions ?s))"
    by (rule submission_rows.keys_distinct) (simp_all add: empty_store_def counters_ok_def)
  moreover have "vr_audit_event_id ` set (po_archives ?s) \<subseteq> ve_event_id ` set (po_events ?s)"
  proof
    fix v assume "v \<in> vr_audit_event_id ` set (po_archives ?s)"
    then obtain a where "a \<in> set (po_archives ?s)" "v = vr_audit_event_id a" by blast
    with ok show "v \<in> ve_event_id ` set (po_events ?s)" by (metis imageI)
  qed
  ultimately show ?thesis
    using ok reached_events [of env cs] reached_archives [of env cs] reached_archive_places [of env cs]
    by (simp add: Let_def reached_def image_subset_iff)
qed

text \<open>C34: No operation changes or removes an event, a submission or an archive that the tables hold: every table of
  evidence only grows at its end. Deleting the identity audit of one run removes records of that run only.\<close>

theorem evidence_only_grows:
  "(let s = fold (run_store env) cs empty_store; s' = fold (run_store env) ds s in
     prefix (po_events s) (po_events s') \<and> prefix (po_submissions s) (po_submissions s') \<and> prefix (po_archives s) (po_archives s'))
   \<and> po_audit (run_store env (DeleteIdentityAudit x r) s)
        = filter (\<lambda>a. \<not> (va_exercise_id a = VStr x \<and> va_run_id a = VStr r)) (po_audit s)"
proof -
  let ?s = "fold (run_store env) cs empty_store"
  have "prefix (po_submissions ?s) (po_submissions (fold (run_store env) ds ?s))"
    by (rule submission_rows.rows_grow) (use reached_ok [of env cs] in \<open>simp add: reached_def store_ok_def\<close>)
  then show ?thesis
    by (auto simp: Let_def event_rows.rows_grow archive_rows.rows_grow run_store_def delete_identity_audit_def transact_def)
qed

text \<open>The optional fields of an identity audit record are optional for the table only: the answer requires them, after the
  transaction took effect.\<close>

lemma mapR_missing: "k \<in> set ks \<Longrightarrow> map_of d k = None \<Longrightarrow> \<exists>e. mapR (\<lambda>k. bindR (ditem d k) (\<lambda>v. Inr (k, v))) ks = Inl e"
proof (induction ks)
  case (Cons k' ks)
  show ?case
  proof (cases "ditem d k'")
    case (Inr v)
    with Cons.prems have "k \<in> set ks" by (auto simp: ditem_def)
    with Cons.IH Cons.prems(2) obtain e where "mapR (\<lambda>k. bindR (ditem d k) (\<lambda>v. Inr (k, v))) ks = Inl e" by blast
    then show ?thesis by (simp only: mapR.simps Inr bindR_simps) blast
  qed simp
qed simp

lemma optional_field_fails_after_commit:
  assumes "insert_identity_audit env (redact_row event) r s = Inr (u, s')" and "ditem (redact_row event) ''provenance'' = Inr p"
    and "map_of r ''credential_kind'' = None"
  shows "\<exists>e. append_identity_audit env event r s = (Inl e, s')"
proof -
  have "''credential_kind'' \<in> set AUDIT_FIELDS" by (simp add: AUDIT_FIELDS_def)
  then obtain e where "mapR (\<lambda>k. bindR (ditem r k) (\<lambda>v. Inr (k, v))) AUDIT_FIELDS = Inl e"
    using mapR_missing assms(3) by blast
  then show ?thesis
    using assms(1,2)
    by (simp only: append_identity_audit_def transact_def thenE_def bindE_def liftE_def identity_audit_result_def Let_def
        sum.case prod.case bindR_simps prod.inject) blast
qed

section \<open>Archives read back\<close>

lemma text_column_VStr: "text_column (VStr s) = Inr v \<longleftrightarrow> v = VStr s"
  by (auto simp: text_column_def)

lemma archived_columns:
  assumes "archived env a e" and "schema_names_events env"
  shows "\<exists>i x r h ev. canonical_uuid4 i \<and> vr_archive_id a = VStr i \<and> vr_exercise_id a = VStr x \<and> vr_run_id a = VStr r
     \<and> vr_bundle_sha256 a = VStr h \<and> vr_audit_event_id a = VStr ev
     \<and> map_of (vr_metadata a) ''archive_id'' = Some (VStr i) \<and> map_of (vr_metadata a) ''exercise_id'' = Some (VStr x)
     \<and> map_of (vr_metadata a) ''run_id'' = Some (VStr r) \<and> map_of (vr_metadata a) ''bundle_sha256'' = Some (VStr h)
     \<and> map_of (vr_metadata a) ''audit_event_id'' = Some (VStr ev)"
proof -
  from assms(1) obtain f where k: "archive_metadata env (vr_bundle a) (ve_payload e) = Inr (vr_metadata a)"
    "archive_entry_of (vr_metadata a) (vr_bundle a) = Inr f" "a = f (vr_sequence a)"
    unfolding archived_def by blast
  note sound = archive_metadata_sound [OF k(1)]
  from sound obtain b report i t reason actor role n k' l ev where
    b: "vr_bundle a = VDict b" "validate_bundle env (vr_bundle a) = Inr ()" "canonical_uuid4 i"
    and m: "vr_metadata a = metadata_record b report i (VStr t) (VStr reason) (VStr actor) (VStr role) n k' l ev"
    unfolding sound_metadata_def by blast
  obtain s where ev: "map_of (vr_metadata a) ''audit_event_id'' = Some (VStr s)"
    using sound_metadata_event [OF sound assms(2)] by blast
  obtain x r h where xs: "get_or b ''exercise_id'' VNone = VStr x" "get_or b ''run_id'' VNone = VStr r"
    "get_or b ''content_sha256'' VNone = VStr h"
    using bundle_strings [OF b(2) [unfolded b(1)]] by blast
  have items: "map_of (vr_metadata a) ''archive_id'' = Some (VStr i)" "map_of (vr_metadata a) ''exercise_id'' = Some (VStr x)"
    "map_of (vr_metadata a) ''run_id'' = Some (VStr r)" "map_of (vr_metadata a) ''bundle_sha256'' = Some (VStr h)"
    by (simp_all add: m xs)
  have "vr_archive_id (f q) = VStr i \<and> vr_exercise_id (f q) = VStr x \<and> vr_run_id (f q) = VStr r
     \<and> vr_bundle_sha256 (f q) = VStr h \<and> vr_audit_event_id (f q) = VStr s" for q
    using k(2) items ev by (auto simp: archive_entry_of_def Let_def get_or_def text_column_VStr)
  then show ?thesis using k(3) items ev b(3) by metis
qed

definition snapshot_of :: "archive_entry \<Rightarrow> aar_report \<Rightarrow> review_snapshot" where
  "snapshot_of a report = \<lparr>sh_metadata = dset ''archive_sequence'' (VInt (int (vr_sequence a))) (vr_metadata a),
     sh_bundle = vr_bundle a, sh_report = report\<rparr>"

lemma snapshot_reads:
  assumes "schema_names_events env" and "distinct (map ve_event_id (po_events s))" and "archived env a e" and "e \<in> set (po_events s)"
  shows "\<exists>report. build_report env (vr_bundle a) = Inr report \<and> review_snapshot env s a = Inr (snapshot_of a report)"
proof -
  from assms(3) obtain enc where k: "archive_metadata env (vr_bundle a) (ve_payload e) = Inr (vr_metadata a)"
    "encode_bundle env (vr_bundle a) = Inr enc"
    unfolding archived_def by blast
  from k(2) obtain report where report: "build_report env (vr_bundle a) = Inr report" and bytes: "length (json_dumps (vr_bundle a)) \<le> MAX_BYTES"
    by (auto simp: encode_bundle_def Let_def)
  have find: "List.find (\<lambda>e'. ve_event_id e' = vr_audit_event_id a) (po_events s) = Some e"
    using find_by_key [OF assms(2,4)] archived_event [OF assms(3)] by simp
  have "val_eq (VDict (vr_metadata a)) (VDict (vr_metadata a))"
    by (rule val_eq_refl [OF sound_metadata_wf [OF archive_metadata_sound [OF k(1)] assms(1)]])
  then have valid: "validate_snapshot env (vr_metadata a) (vr_bundle a) (ve_payload e) = Inr report"
    using k(1) report by (simp add: validate_snapshot_def require_invalid_def requireR_def)
  show ?thesis
    using archived_columns [OF assms(3,1)] bytes find valid report
    by (auto simp: review_snapshot_def snapshot_of_def any_of_False ditem_def simp del: any_of.simps)
qed

lemma find_unique: "x \<in> set xs \<Longrightarrow> P x \<Longrightarrow> (\<And>y. y \<in> set xs \<Longrightarrow> P y \<Longrightarrow> y = x) \<Longrightarrow> List.find P xs = Some x"
proof (induction xs)
  case (Cons z zs)
  show ?case
  proof (cases "P z")
    case True
    with Cons.prems(3) [of z] show ?thesis by simp
  next
    case False
    have "x \<in> set zs" using Cons.prems(1,2) False set_ConsD [of x z zs] by blast
    moreover have "y = x" if "y \<in> set zs" "P y" for y using that by (intro Cons.prems(3)) simp_all
    ultimately have "List.find P zs = Some x" using Cons.prems(2) by (intro Cons.IH)
    with False show ?thesis by (simp only: List.find.simps if_False)
  qed
qed simp

lemma archive_readable:
  assumes env: "schema_names_events env" and a: "a \<in> set (po_archives (reached env cs))"
  shows "\<exists>i x r h report. vr_archive_id a = VStr i \<and> vr_exercise_id a = VStr x \<and> vr_run_id a = VStr r \<and> vr_bundle_sha256 a = VStr h
     \<and> map_of (vr_metadata a) ''archive_id'' = Some (VStr i) \<and> map_of (vr_metadata a) ''exercise_id'' = Some (VStr x)
     \<and> map_of (vr_metadata a) ''run_id'' = Some (VStr r) \<and> map_of (vr_metadata a) ''bundle_sha256'' = Some (VStr h)
     \<and> build_report env (vr_bundle a) = Inr report
     \<and> review_archive env x (VStr i) (reached env cs) = Inr (Some (snapshot_of a report))
     \<and> review_archive_by_hash env x r h (reached env cs) = Inr (Some (snapshot_of a report))"
proof -
  let ?s = "reached env cs"
  from reached_ok [of env cs] a obtain e where e: "e \<in> set (po_events ?s)" "archived env a e"
    unfolding store_ok_def archives_ok_def by blast
  obtain i x r h where c: "canonical_uuid4 i" "vr_archive_id a = VStr i" "vr_exercise_id a = VStr x" "vr_run_id a = VStr r"
    "vr_bundle_sha256 a = VStr h" and items: "map_of (vr_metadata a) ''archive_id'' = Some (VStr i)"
    "map_of (vr_metadata a) ''exercise_id'' = Some (VStr x)" "map_of (vr_metadata a) ''run_id'' = Some (VStr r)"
    "map_of (vr_metadata a) ''bundle_sha256'' = Some (VStr h)"
    using archived_columns [OF e(2) env] by blast
  obtain report where report: "build_report env (vr_bundle a) = Inr report" "review_snapshot env ?s a = Inr (snapshot_of a report)"
    using snapshot_reads [OF env reached_events e(2,1)] by blast
  have "List.find (\<lambda>b. vr_exercise_id b = VStr x \<and> vr_archive_id b = VStr i) (po_archives ?s) = Some a"
    by (rule find_unique [OF a]) (use c a reached_archives [of env cs] in \<open>auto simp: distinct_map inj_on_def\<close>)
  moreover have "List.find (\<lambda>b. vr_exercise_id b = VStr x \<and> vr_run_id b = VStr r \<and> vr_bundle_sha256 b = VStr h) (po_archives ?s) = Some a"
    by (rule find_unique [OF a]) (use c a reached_archive_places [of env cs] in \<open>auto simp: distinct_map inj_on_def archive_place_def\<close>)
  ultimately have "review_archive env x (VStr i) ?s = Inr (Some (snapshot_of a report))"
    "review_archive_by_hash env x r h ?s = Inr (Some (snapshot_of a report))"
    using c(1) report(2) by (simp_all add: review_archive_def review_archive_by_hash_def read_archive_def archive_id_def)
  then show ?thesis using c items report(1) by blast
qed

lemma appended_archive:
  assumes "append_review_archive env b audit s = (Inr m, s')"
  shows "s' = run_store env (AppendReviewArchive b audit) s"
    and "\<exists>a. a \<in> set (po_archives s') \<and> vr_metadata a = m \<and> vr_bundle a = b"
proof -
  show "s' = run_store env (AppendReviewArchive b audit) s" using assms by (simp add: run_store_def)
  from assms have "insert_review_archive env b audit s = Inr (m, s')"
    by (auto simp: append_review_archive_def transact_def split: sum.splits)
  then obtain f s1 e where f: "archive_entry_of m b = Inr f" "insert_archive f s = Inr s1" "insert_event e s1 = Inr s'"
    by (auto simp: insert_review_archive_def)
  then show "\<exists>a. a \<in> set (po_archives s') \<and> vr_metadata a = m \<and> vr_bundle a = b"
    using archive_entry_of_Inr [OF f(1), of "po_next_archive s"]
    by (intro exI [of _ "f (po_next_archive s)"]) (auto simp: insert_archive_Inr insert_event_Inr Let_def)
qed

text \<open>C35: An archive that was stored is read back, by its identifier or by its digest, with the metadata, the bundle and
  the report it was stored with, plus its number, after any later operations; it is validated again on the way. The schema
  of the events only has to ask for a textual identifier.\<close>

theorem archive_reads_back:
  assumes "schema_names_events env"
    and "append_review_archive env b audit (fold (run_store env) cs empty_store) = (Inr m, s')"
  shows "\<exists>i x r h n report. map_of m ''archive_id'' = Some (VStr i) \<and> map_of m ''exercise_id'' = Some (VStr x)
     \<and> map_of m ''run_id'' = Some (VStr r) \<and> map_of m ''bundle_sha256'' = Some (VStr h) \<and> build_report env b = Inr report
     \<and> (let found = Inr (Some \<lparr>sh_metadata = dset ''archive_sequence'' (VInt n) m, sh_bundle = b, sh_report = report\<rparr>);
           later = fold (run_store env) ds s' in
         review_archive env x (VStr i) later = found \<and> review_archive_by_hash env x r h later = found)"
proof -
  let ?c = "AppendReviewArchive b audit"
  note app = appended_archive [OF assms(2)]
  from app(2) obtain a where a: "a \<in> set (po_archives s')" "vr_metadata a = m" "vr_bundle a = b" by blast
  have later: "fold (run_store env) ds s' = reached env (cs @ ?c # ds)" unfolding app(1) by (simp add: reached_def)
  have "a \<in> set (po_archives (reached env (cs @ ?c # ds)))"
    unfolding later [symmetric] by (rule archive_rows.row_stays [OF TrueI a(1)])
  from archive_readable [OF assms(1) this] show ?thesis
    unfolding later a(2,3) snapshot_of_def Let_def by blast
qed

section \<open>Pages\<close>

text \<open>A client that follows the pages: \<open>fuel\<close> bounds the number of requests.\<close>

primrec all_pages :: "env \<Rightarrow> string \<Rightarrow> int \<Rightarrow> portal_store \<Rightarrow> int \<Rightarrow> nat \<Rightarrow> exc + row list" where
  "all_pages env x limit s after 0 = Inl (OtherError ''TooManyPages'' [])"
| "all_pages env x limit s after (Suc fuel) = bindR (review_archives env x (VInt after) (VInt limit) s) (\<lambda>page.
     if ap_has_more page then bindR (all_pages env x limit s (ap_next page) fuel) (\<lambda>rest. Inr (ap_archives page @ rest))
     else Inr (ap_archives page))"

definition listing :: "archive_entry \<Rightarrow> row" where
  "listing a = dset ''archive_sequence'' (VInt (int (vr_sequence a))) (vr_metadata a)"

definition numbered :: "archive_entry list \<Rightarrow> bool" where
  "numbered as \<longleftrightarrow> sorted_wrt (\<lambda>a b. vr_sequence a < vr_sequence b) as"

definition after_number :: "int \<Rightarrow> archive_entry list \<Rightarrow> archive_entry list" where
  "after_number n as = filter (\<lambda>a. n < int (vr_sequence a)) as"

lemma numbered_filter: "numbered as \<Longrightarrow> numbered (filter p as)"
  unfolding numbered_def by (rule sorted_wrt_filter)

lemma numbered_sort: "numbered as \<Longrightarrow> sort_key vr_sequence as = as"
  unfolding numbered_def by (rule sort_key_id_if_sorted) (auto simp: sorted_map elim: sorted_wrt_mono_rel [rotated])

lemma after_drop:
  assumes "numbered as" and "0 < k" and "k \<le> length as"
  shows "after_number (int (vr_sequence (as ! (k - 1)))) as = drop k as"
proof -
  let ?p = "\<lambda>a. int (vr_sequence (as ! (k - 1))) < int (vr_sequence a)"
  note less = sorted_wrt_nth_less [OF assms(1) [unfolded numbered_def]]
  have "\<not> ?p a" if "a \<in> set (take k as)" for a
  proof -
    from that obtain i where i: "i < k" "a = as ! i" using assms(3) by (auto simp: in_set_conv_nth)
    show ?thesis
    proof (cases "i = k - 1")
      case False
      then have "i < k - 1" "k - 1 < length as" using i(1) assms(2,3) by auto
      from less [OF this] i(2) show ?thesis by simp
    qed (use i(2) in simp)
  qed
  then have "filter ?p (take k as) = []" by (simp add: filter_empty_conv)
  moreover have "?p a" if "a \<in> set (drop k as)" for a
  proof -
    from that obtain j where "j < length (drop k as)" "a = drop k as ! j" unfolding in_set_conv_nth by blast
    then have "k + j < length as" "a = as ! (k + j)" using assms(3) by auto
    with less [of "k - 1" "k + j"] assms(2) show ?thesis by simp
  qed
  then have "filter ?p (drop k as) = drop k as" by simp
  ultimately have "filter ?p (take k as @ drop k as) = drop k as" by (simp only: filter_append append_Nil)
  then show ?thesis by (simp add: after_number_def)
qed

definition of_exercise :: "string \<Rightarrow> portal_store \<Rightarrow> archive_entry list" where
  "of_exercise x s = filter (\<lambda>a. vr_exercise_id a = VStr x) (po_archives s)"

lemma page_rows_after:
  "numbered (po_archives s) \<Longrightarrow> 1 \<le> limit \<Longrightarrow> page_rows x after limit s = take (Suc (nat limit)) (after_number after (of_exercise x s))"
  by (simp add: page_rows_def after_number_def of_exercise_def numbered_sort numbered_filter conj_commute nat_add_distrib)

lemma page_entries:
  assumes "schema_names_events env" and "set as \<subseteq> set (of_exercise x (reached env cs))"
  shows "mapR (page_entry env x (reached env cs)) as = Inr (map listing as)"
proof -
  have "page_entry env x (reached env cs) a = Inr (listing a)" if "a \<in> set as" for a
  proof -
    from that assms(2) have a: "a \<in> set (po_archives (reached env cs))" "vr_exercise_id a = VStr x" by (auto simp: of_exercise_def)
    from archive_readable [OF assms(1) a(1)] a(2) show ?thesis
      by (auto simp: page_entry_def snapshot_of_def listing_def)
  qed
  then show ?thesis by (simp add: mapR_Inr list_all2_map2 list_all2_same)
qed

lemma one_page:
  assumes env: "schema_names_events env" and limit: "1 \<le> limit" "limit \<le> 100" and after: "0 \<le> after"
    and F_def: "F = after_number after (of_exercise x (reached env cs))"
  shows "review_archives env x (VInt after) (VInt limit) (reached env cs)
    = Inr \<lparr>ap_archives = map listing (take (nat limit) F), ap_has_more = nat limit < length F,
        ap_next = (if F = [] then after else int (vr_sequence (List.last (take (nat limit) F))))\<rparr>"
proof -
  have num: "numbered (po_archives (reached env cs))"
    using reached_ok [of env cs] by (simp add: store_ok_def archives_ok_def numbered_def)
  have rows: "page_rows x after limit (reached env cs) = take (Suc (nat limit)) F"
    unfolding F_def by (rule page_rows_after [OF num limit(1)])
  have sub: "set (take (nat limit) F) \<subseteq> set (of_exercise x (reached env cs))"
    using set_take_subset [of "nat limit" F] by (auto simp: F_def after_number_def)
  have following: "(if map listing (take (nat limit) F) = [] then Inr after
      else bindR (bindR (ditem (List.last (map listing (take (nat limit) F))) ''archive_sequence'') expected_int) Inr)
    = Inr (if F = [] then after else int (vr_sequence (List.last (take (nat limit) F))))"
    using limit(1) by (auto simp: last_map listing_def ditem_def expected_int_def strict_int_def)
  show ?thesis
    unfolding review_archives_def strict_int_def
    using limit after
    by (simp add: rows page_entries [OF env sub] following min_def Let_def) (auto simp: last_map listing_def expected_int_def strict_int_def)
qed

lemma pages_from:
  assumes env: "schema_names_events env" and limit: "1 \<le> limit" "limit \<le> 100"
  shows "0 \<le> after \<Longrightarrow> length (after_number after (of_exercise x (reached env cs))) < fuel \<Longrightarrow>
    all_pages env x limit (reached env cs) after fuel = Inr (map listing (after_number after (of_exercise x (reached env cs))))"
proof (induction fuel arbitrary: after)
  case (Suc fuel)
  let ?L = "of_exercise x (reached env cs)" and ?n = "nat limit"
  let ?F = "after_number after ?L"
  have num: "numbered ?F"
    using reached_ok [of env cs] numbered_filter by (simp add: store_ok_def archives_ok_def numbered_def after_number_def of_exercise_def sorted_wrt_filter)
  show ?case
  proof (cases "?n < length ?F")
    case False
    with one_page [OF env limit Suc.prems(1) refl, of x cs] show ?thesis by simp
  next
    case True
    let ?a = "?F ! (?n - 1)"
    have n: "0 < ?n" using limit(1) by simp
    have a: "List.last (take ?n ?F) = ?a" 
    proof -
      have "take ?n ?F \<noteq> []" using True n by auto
      from last_conv_nth [OF this] True n show ?thesis by simp
    qed
    have in_F: "?a \<in> set ?F" using True n by (intro nth_mem) simp
    then have later: "after < int (vr_sequence ?a)" by (simp add: after_number_def)
    have "after_number (int (vr_sequence ?a)) ?L = after_number (int (vr_sequence ?a)) ?F"
      unfolding after_number_def filter_filter by (rule filter_cong) (use later in \<open>auto simp: after_number_def\<close>)
    with after_drop [OF num n] True have rest: "after_number (int (vr_sequence ?a)) ?L = drop ?n ?F" by simp
    have "all_pages env x limit (reached env cs) (int (vr_sequence ?a)) fuel = Inr (map listing (drop ?n ?F))"
    proof -
      have "length (drop ?n ?F) < fuel" using Suc.prems(2) n True by simp
      with Suc.IH [of "int (vr_sequence ?a)"] rest show ?thesis by simp
    qed
    with one_page [OF env limit Suc.prems(1) refl, of x cs] True a show ?thesis
      by (auto simp flip: map_append)
  qed
qed simp

text \<open>C36: Following the pages from the start, with any page size, lists the archives of the exercise: all of them, each
  once, in the order they were stored; one request more than there are archives is always enough.\<close>

theorem pages_list_every_archive:
  assumes "schema_names_events env" and "1 \<le> limit" and "limit \<le> 100"
  shows "(let s = fold (run_store env) cs empty_store in
    all_pages env x limit s 0 (Suc (length (po_archives s))) = Inr (map listing (filter (\<lambda>a. vr_exercise_id a = VStr x) (po_archives s))))"
proof -
  have pos: "0 < vr_sequence a" if "a \<in> set (po_archives (reached env cs))" for a
    using reached_ok [of env cs] that by (simp add: store_ok_def archives_ok_def)
  then have "after_number 0 (of_exercise x (reached env cs)) = of_exercise x (reached env cs)"
    by (auto simp: after_number_def of_exercise_def intro!: filter_cong)
  moreover have "length (of_exercise x (reached env cs)) < Suc (length (po_archives (reached env cs)))"
    by (simp add: of_exercise_def less_Suc_eq_le)
  ultimately show ?thesis
    using pages_from [OF assms, of 0 x cs "Suc (length (po_archives (reached env cs)))"]
    by (simp add: reached_def of_exercise_def Let_def)
qed

end
