(* ===== verification/StoreSamples.thy ===== *)
theory StoreSamples
  imports StoreProps
begin

text \<open>A review snapshot without events, captured twice: the properties of the archives at work.\<close>

definition store_env :: env where
  "store_env = naming_env\<lparr>e_sha256 := (\<lambda>_. ''0'')\<rparr>"

definition stopped_bundle :: row where
  "stopped_bundle = [(''bundle_version'', VStr ''1.0.0''), (''rubric_version'', VStr ''1.0.0''), (''exercise_id'', VStr ''x''),
     (''run_id'', VStr ''r''), (''scenario_id'', VStr ''s''), (''run_state'', VStr ''stopped''), (''checkpoint_ids'', VList []),
     (''events'', VList []), (''submissions'', VList []), (''content_sha256'', VStr ''0'')]"

definition sample_uuid :: string where "sample_uuid = ''00000000-0000-4000-8000-000000000000''"

definition capture_event :: row where
  "capture_event = [(''schema_version'', VStr ''1.0.0''), (''event_id'', VStr ''e''), (''exercise_id'', VStr ''x''), (''run_id'', VStr ''r''),
     (''sequence'', VInt 1), (''visibility'', VStr ''evaluator''), (''timestamp'', VStr ''2026-01-01T00:00:00Z''),
     (''event_type'', VStr ''evaluation.archive.created''), (''action'', VStr ''evaluation.archive.capture''),
     (''actor'', VDict [(''id'', VStr ''staff''), (''role'', VStr ''evaluator'')]),
     (''target'', VDict [(''type'', VStr ''review_archive''), (''id'', VStr sample_uuid)]),
     (''outcome'', VDict [(''status'', VStr ''success'')]),
     (''data'', VDict [(''archive_id'', VStr sample_uuid), (''bundle_sha256'', VStr ''0''), (''last_sequence'', VInt 0),
        (''capture_reason'', VStr ''staff_capture'')])]"

lemma store_env_names: "schema_names_events store_env"
  by (auto simp: schema_names_events_def store_env_def naming_env_def split: option.splits val.splits)

lemma uuid_ok: "canonical_uuid4 sample_uuid"
  by (simp add: canonical_uuid4_def sample_uuid_def lower_hex_def is_digit_def digits09_def upt_rec)

lemma stopped_items:
  "get_or stopped_bundle ''exercise_id'' VNone = VStr ''x''" "get_or stopped_bundle ''run_id'' VNone = VStr ''r''"
  "get_or stopped_bundle ''scenario_id'' VNone = VStr ''s''" "get_or stopped_bundle ''run_state'' VNone = VStr ''stopped''"
  "get_or stopped_bundle ''content_sha256'' VNone = VStr ''0''" "get_or stopped_bundle ''events'' VNone = VList []"
  "get_or stopped_bundle ''submissions'' VNone = VList []" "path (VDict stopped_bundle) [''events''] = Inr (VList [])"
  by (simp_all add: stopped_bundle_def get_or_def path.simps item_of_def ditem_def)

lemma stopped_accepted: "validate_bundle store_env (VDict stopped_bundle) = Inr ()"
proof -
  have h: "check_header stopped_bundle = Inr ()"
    by (simp add: check_header_def stopped_bundle_def keys_are_def BUNDLE_FIELDS_def get_or_def AAR_VERSION_def aar_text_def strip_def
        is_space_def char_count_def RUN_STATES_def check_scope_def Let_def)
  show ?thesis
    by (simp add: validate_bundle_def h stopped_items aar_digest_def store_env_def bundle_events_def bundle_submissions_def
        require_invalid_def support_index_def validate_judgments_def)
qed

lemma unjudged_objective:
  assumes "ob \<in> set (map fst OBJECTIVES)"
  shows "\<exists>item. objective_report [] (ob, rubric) = Inr item \<and> or_judgment item = None"
proof -
  obtain seen where "objective_observation [] (VStr ob) = Inr seen"
    using review_observation [of "[]" ob] assms by auto
  then show ?thesis by (simp add: objective_report_def)
qed

lemma unjudged_entries: "or_judgment item = None \<Longrightarrow> platform_entry item = Inr [] \<and> action_entries item = Inr []"
  by (simp add: platform_entry_def action_entries_def)

lemma unjudged_all:
  "set obs \<subseteq> set OBJECTIVES \<Longrightarrow> \<exists>items. mapR (objective_report []) obs = Inr items
     \<and> (\<exists>ps. mapR platform_entry items = Inr ps) \<and> (\<exists>as. mapR action_entries items = Inr as)"
proof (induction obs)
  case (Cons entry obs)
  obtain ob rubric where e: "entry = (ob, rubric)" by (cases entry)
  have "fst entry \<in> fst ` set OBJECTIVES" using Cons.prems by simp
  then have "ob \<in> set (map fst OBJECTIVES)" by (simp add: e)
  from unjudged_objective [OF this, of rubric] obtain item where
    item: "objective_report [] entry = Inr item" "or_judgment item = None" unfolding e by blast
  from Cons obtain items ps as where "mapR (objective_report []) obs = Inr items" "mapR platform_entry items = Inr ps"
    "mapR action_entries items = Inr as" by auto
  with item unjudged_entries [OF item(2)] show ?case by simp
qed simp

lemma stopped_report: "\<exists>r. build_report store_env (VDict stopped_bundle) = Inr r \<and> rp_run_state r = VStr ''stopped''"
proof -
  obtain items ps as where "mapR (objective_report []) OBJECTIVES = Inr items" "mapR platform_entry items = Inr ps"
    "mapR action_entries items = Inr as" using unjudged_all [of OBJECTIVES] by auto
  then show ?thesis
    by (simp add: build_report_def stopped_accepted stopped_items bundle_events_def report_of_def support_index_def Let_def)
qed

lemma bundle_fields_open: "list_all (\<lambda>k. \<not> List.member SENSITIVE_KEYS (normalized_key k)) BUNDLE_FIELDS"
  by code_simp

lemmas bundle_field_open = bundle_fields_open [unfolded BUNDLE_FIELDS_def, simplified]

lemma stopped_redacted: "redact_sensitive (VDict stopped_bundle) None = VDict stopped_bundle"
  by (simp add: stopped_bundle_def redact_sensitive_None redact_field_def bundle_field_open)

lemma stopped_size: "length (json_dumps (VDict stopped_bundle)) \<le> MAX_BYTES"
proof -
  have "length (json_dumps (VDict stopped_bundle)) < 400" by code_simp
  then show ?thesis by (simp add: MAX_BYTES_def del: json_dumps.simps)
qed

lemma stopped_wf: "wf_val (VDict stopped_bundle)"
  by (simp add: stopped_bundle_def)

lemma stopped_encoded: "\<exists>enc. encode_bundle store_env (VDict stopped_bundle) = Inr enc"
  using stopped_report val_eq_refl [OF stopped_wf]
  by (auto simp: encode_bundle_def stopped_items bundle_events_def complete_prefix_def stopped_redacted stopped_size Let_def simp del: json_dumps.simps val_eq.simps)

lemma capture_valid: "validate_event store_env capture_event = Inr ()"
proof -
  have "schema_major (Some (VStr ''1.0.0'')) = Inr 1" by code_simp
  then show ?thesis
    by (simp add: validate_event_def capture_event_def store_env_def naming_env_def SUPPORTED_SCHEMA_MAJOR_def Let_def)
qed

lemma capture_items:
  "path (VDict capture_event) [''target'', ''id''] = Inr (VStr sample_uuid)" "path (VDict capture_event) [''timestamp''] = Inr (VStr ''2026-01-01T00:00:00Z'')"
  "path (VDict capture_event) [''data'', ''capture_reason''] = Inr (VStr ''staff_capture'')"
  "path (VDict capture_event) [''actor'', ''id''] = Inr (VStr ''staff'')" "path (VDict capture_event) [''actor'', ''role''] = Inr (VStr ''evaluator'')"
  "path (VDict capture_event) [''event_id''] = Inr (VStr ''e'')" "path (VDict capture_event) [''event_type''] = Inr (VStr ''evaluation.archive.created'')"
  "path (VDict capture_event) [''action''] = Inr (VStr ''evaluation.archive.capture'')" "path (VDict capture_event) [''target'', ''type''] = Inr (VStr ''review_archive'')"
  "path (VDict capture_event) [''exercise_id''] = Inr (VStr ''x'')" "path (VDict capture_event) [''run_id''] = Inr (VStr ''r'')"
  "path (VDict capture_event) [''sequence''] = Inr (VInt 1)" "path (VDict capture_event) [''visibility''] = Inr (VStr ''evaluator'')"
  "path (VDict capture_event) [''outcome'', ''status''] = Inr (VStr ''success'')"
  "path (VDict capture_event) [''data''] = Inr (VDict [(''archive_id'', VStr sample_uuid), (''bundle_sha256'', VStr ''0''),
     (''last_sequence'', VInt 0), (''capture_reason'', VStr ''staff_capture'')])"
  by (simp_all add: capture_event_def path.simps item_of_def ditem_def)

lemma capture_time: "captured_time (VStr ''2026-01-01T00:00:00Z'') = Inr ()"
proof -
  have "from_iso (replace_Z ''2026-01-01T00:00:00Z'') \<noteq> None" by code_simp
  then show ?thesis by (simp add: captured_time_def require_invalid_def)
qed

lemma capture_metadata: "\<exists>rep. archive_metadata store_env (VDict stopped_bundle) (VDict capture_event)
    = Inr (metadata_record stopped_bundle rep sample_uuid (VStr ''2026-01-01T00:00:00Z'') (VStr ''staff_capture'') (VStr ''staff'')
        (VStr ''evaluator'') 0 0 0 (VStr ''e''))"
proof -
  obtain enc where enc: "encode_bundle store_env (VDict stopped_bundle) = Inr enc" using stopped_encoded by blast
  obtain rep where rep: "build_report store_env (VDict stopped_bundle) = Inr rep" using stopped_report by blast
  let ?m = "metadata_record stopped_bundle rep sample_uuid (VStr ''2026-01-01T00:00:00Z'') (VStr ''staff_capture'') (VStr ''staff'')
    (VStr ''evaluator'') 0 0 0 (VStr ''e'')"
  have "audit_mismatch stopped_bundle [] ?m (VStr ''staff_capture'') (VStr ''evaluator'') (VStr ''staff'') 0 (VDict capture_event) = Inr False"
    by (simp add: audit_mismatch_def any_of_False capture_items stopped_items in_strings_Inr REASONS_def ARCHIVE_ROLES_def actor_ok_def
        char_count_def expected_audit_def get_or_def stopped_items [unfolded get_or_def] num_of_def metadata_record_def Let_def del: any_of.simps)
  moreover have "role_allowed (VStr ''staff_capture'') (VStr ''evaluator'') = Inr ()"
    by (simp add: role_allowed_def in_strings_def hashed_def require_invalid_def)
  ultimately have "archive_metadata store_env (VDict stopped_bundle) (VDict capture_event) = Inr ?m"
    by (simp add: archive_metadata_def enc rep capture_valid stopped_items capture_items bundle_events_def bundle_submissions_def archive_id_def
        uuid_ok last_sequence_of_def capture_time fail_if_def Let_def)
  then show ?thesis by blast
qed

lemma capture_entry: "\<exists>e. event_entry_of capture_event = Inr e \<and> ve_event_id e = VStr ''e'' \<and> ve_exercise_id e = VStr ''x''
    \<and> ve_run_id e = VStr ''r'' \<and> ve_sequence e = VInt 1 \<and> ve_visibility e = VStr ''evaluator''"
  by (simp add: event_entry_of_def capture_event_def get_or_def ditem_def text_column_def integer_column_def Let_def)

lemma sample_archive:
  "\<exists>m s a. append_review_archive store_env (VDict stopped_bundle) (VDict capture_event) empty_store = (Inr m, s)
     \<and> po_archives s = [a] \<and> vr_exercise_id a = VStr ''x''"
proof -
  obtain rep where m: "archive_metadata store_env (VDict stopped_bundle) (VDict capture_event)
    = Inr (metadata_record stopped_bundle rep sample_uuid (VStr ''2026-01-01T00:00:00Z'') (VStr ''staff_capture'') (VStr ''staff'')
        (VStr ''evaluator'') 0 0 0 (VStr ''e''))" (is "_ = Inr ?m") using capture_metadata by blast
  obtain enc where enc: "encode_bundle store_env (VDict stopped_bundle) = Inr enc" using stopped_encoded by blast
  obtain e where e: "event_entry_of capture_event = Inr e" "ve_event_id e = VStr ''e''" "ve_exercise_id e = VStr ''x''"
    "ve_run_id e = VStr ''r''" "ve_sequence e = VInt 1" "ve_visibility e = VStr ''evaluator''" using capture_entry by blast
  have g: "get_or ?m ''archive_id'' VNone = VStr sample_uuid" "get_or ?m ''exercise_id'' VNone = VStr ''x''"
    "get_or ?m ''run_id'' VNone = VStr ''r''" "get_or ?m ''bundle_sha256'' VNone = VStr ''0''" "get_or ?m ''audit_event_id'' VNone = VStr ''e''"
    by (simp_all add: stopped_items get_or_def [of ?m])
  show ?thesis
    by (simp add: append_review_archive_def transact_def insert_review_archive_def enc m archive_entry_of_def g text_column_def
        insert_archive_def insert_event_def empty_store_def e requireR_def Let_def)
qed

lemma archive_reads_back_witness:
  "\<exists>m s x i found. append_review_archive store_env (VDict stopped_bundle) (VDict capture_event) empty_store = (Inr m, s)
     \<and> review_archive store_env x (VStr i) s = Inr (Some found) \<and> sh_bundle found = VDict stopped_bundle"
proof -
  obtain m s where app: "append_review_archive store_env (VDict stopped_bundle) (VDict capture_event) (fold (run_store store_env) [] empty_store) = (Inr m, s)"
    using sample_archive by auto
  from archive_reads_back [OF store_env_names app, of "[]"] app show ?thesis
    by (auto simp: Let_def) (metis review_snapshot.select_convs(2))
qed

lemma pages_list_every_archive_witness:
  "\<exists>a. all_pages store_env ''x'' 1 (fold (run_store store_env) [AppendReviewArchive (VDict stopped_bundle) (VDict capture_event)] empty_store) 0 2
     = Inr [listing a]"
proof -
  let ?c = "AppendReviewArchive (VDict stopped_bundle) (VDict capture_event)"
  obtain m s a where s: "append_review_archive store_env (VDict stopped_bundle) (VDict capture_event) empty_store = (Inr m, s)"
    "po_archives s = [a]" "vr_exercise_id a = VStr ''x''" using sample_archive by blast
  have run: "fold (run_store store_env) [?c] empty_store = s" using appended_archive(1) [OF s(1)] by simp
  have "all_pages store_env ''x'' 1 s 0 (Suc (length (po_archives s)))
    = Inr (map listing (filter (\<lambda>a. vr_exercise_id a = VStr ''x'') (po_archives s)))"
    using pages_list_every_archive [OF store_env_names, of 1 "[?c]" "''x''"] unfolding run Let_def by simp
  moreover have "Suc (length (po_archives s)) = 2" "filter (\<lambda>a. vr_exercise_id a = VStr ''x'') (po_archives s) = [a]"
    using s(2,3) by simp_all
  ultimately show ?thesis unfolding run by (intro exI [of _ a]) (simp only: list.map)
qed

end
