(* ===== verification/Clock.thy ===== *)
theory Clock
  imports SliceRun Scheduler
begin

text \<open>
  \<^verbatim>\<open>dashboard/clock.py\<close>: the supervisor of the scheduler. Its own clock \<open>mon\<close> gives a reading at a time: a
  time, a number that is not finite, or an exception. The run's event sink is the portal's \<open>append_event\<close>, so that
  the audit of a fault goes to the sink of the run. A local failure is a value of the supervisor's record.
\<close>

section \<open>State\<close>

datatype reading = At rat | Unbounded | NoReading exc

record clock_state =
  cl_attached :: bool
  cl_managed :: bool
  cl_heartbeat :: "reading option"
  cl_ticks :: nat
  cl_fault :: "string option"
  cl_cleanup :: "bool option"
  cl_audit :: "bool option"
  cl_reads :: nat

record clocked =
  ck_sys :: "run_rest ssys"
  ck_clock :: clock_state

definition new_clock :: clock_state where
  "new_clock = \<lparr>cl_attached = False, cl_managed = False, cl_heartbeat = None, cl_ticks = 0, cl_fault = None,
     cl_cleanup = None, cl_audit = None, cl_reads = 0\<rparr>"

definition STALE_AFTER :: rat where "STALE_AFTER = 30"

definition get_clock :: "(clock_state \<Rightarrow> 'a) \<Rightarrow> (clocked, 'a) prog" where
  "get_clock f = getE (\<lambda>k. f (ck_clock k))"

definition upd_clock :: "(clock_state \<Rightarrow> clock_state) \<Rightarrow> (clocked, unit) prog" where
  "upd_clock f = updE (\<lambda>k. k\<lparr>ck_clock := f (ck_clock k)\<rparr>)"

definition on_scheduler :: "(run_rest ssys, 'a) prog \<Rightarrow> (clocked, 'a) prog" where
  "on_scheduler = zoomE ck_sys (\<lambda>y k. k\<lparr>ck_sys := y\<rparr>)"

definition on_run :: "(play_run, 'a) prog \<Rightarrow> (clocked, 'a) prog" where
  "on_run m = on_scheduler (on_sys m)"

definition run_of :: "clocked \<Rightarrow> play_run" where
  "run_of k = sy_sys (ck_sys k)"

section \<open>Health\<close>

definition read_clock_now :: "(nat \<Rightarrow> reading) \<Rightarrow> (clocked, reading) prog" where
  "read_clock_now mon = bindE (get_clock cl_reads) (\<lambda>n.
     thenE (upd_clock (\<lambda>c. c\<lparr>cl_reads := Suc n\<rparr>)) (case mon n of NoReading e \<Rightarrow> raise e | now \<Rightarrow> ret now))"

text \<open>A difference with a number that is not finite is not finite.\<close>

definition age_of :: "reading \<Rightarrow> reading \<Rightarrow> rat option" where
  "age_of now heartbeat = (case (now, heartbeat) of
     (At t, At h) \<Rightarrow> if 0 \<le> t - h then Some (t - h) else None | _ \<Rightarrow> None)"

definition clock_age :: "(nat \<Rightarrow> reading) \<Rightarrow> (clocked, rat option) prog" where
  "clock_age mon = bindE (get_clock cl_heartbeat) (\<lambda>heartbeat. case heartbeat of
     None \<Rightarrow> ret None
   | Some h \<Rightarrow> bindE (attemptE (read_clock_now mon)) (\<lambda>r. ret (case r of Inl _ \<Rightarrow> None | Inr now \<Rightarrow> age_of now h)))"

definition clock_status :: "clock_state \<Rightarrow> rat option \<Rightarrow> string" where
  "clock_status c age =
    (if cl_fault c \<noteq> None then ''faulted''
     else if \<not> cl_managed c then ''unmonitored''
     else if \<not> cl_attached c then ''detached''
     else case age of None \<Rightarrow> ''invalid_clock'' | Some a \<Rightarrow> if STALE_AFTER < a then ''stale'' else ''healthy'')"

text \<open>\<open>snapshot\<close>; \<open>round\<close> to three places goes to the even neighbour when both are as near.\<close>

record clock_health =
  ch_run_id :: string
  ch_status :: string
  ch_supervised :: bool
  ch_age :: "rat option"
  ch_stale_after :: rat
  ch_ticks :: nat
  ch_fault :: "string option"
  ch_cleanup :: "bool option"
  ch_audit :: "bool option"

definition half_even :: "rat \<Rightarrow> int" where
  "half_even x = (let n = \<lfloor>x\<rfloor>; d = x - of_int n in
     if d < 1 / 2 then n else if 1 / 2 < d then n + 1 else if even n then n else n + 1)"

definition clock_snapshot :: "(nat \<Rightarrow> reading) \<Rightarrow> (clocked, clock_health) prog" where
  "clock_snapshot mon = bindE (clock_age mon) (\<lambda>age. bindE (get_clock id) (\<lambda>c. bindE (on_run (get_ctl ctl_run_id)) (\<lambda>run_id.
     ret \<lparr>ch_run_id = run_id, ch_status = clock_status c age, ch_supervised = cl_attached c,
       ch_age = map_option (\<lambda>a. of_int (half_even (a * 1000)) / 1000) age, ch_stale_after = STALE_AFTER, ch_ticks = cl_ticks c,
       ch_fault = cl_fault c, ch_cleanup = cl_cleanup c, ch_audit = cl_audit c\<rparr>)))"

section \<open>Faults\<close>

definition FAULT_CODES :: "string list" where
  "FAULT_CODES = [''heartbeat_stale'', ''invalid_monotonic'', ''driver_unavailable'', ''scheduler_tick_failed'', ''driver_failed'']"

definition clock_actor :: entity where
  "clock_actor = entity ''system'' ''exercise-clock'' None (Some ''technical_operator'')"

definition clock_event :: "string \<Rightarrow> string \<Rightarrow> bool \<Rightarrow> event_args" where
  "clock_event run_id code cleanup =
    (event_args ''exercise.clock.faulted'' ''control'' clock_actor ''exercise.clock.stop''
       (Some (entity ''scenario_run'' run_id None None)) ''failure''
       ''Exercise clock fault latched; preserve evidence before recovery'')
      \<lparr>ea_visibility := ''facilitator'', ea_dry_run := False,
       ea_safety_controls := [''fail-closed'', ''single-process'', ''no-catch-up''],
       ea_data := [(''fault_code'', VStr code), (''cleanup_complete'', VBool cleanup)]\<rparr>"

text \<open>A builder made for one event, on the run's sequencer, and the sink.\<close>

definition event_context_of :: "string \<Rightarrow> string \<Rightarrow> play_run \<Rightarrow> event_context" where
  "event_context_of kind component s = \<lparr>cx_exercise_id = exercise_of s, cx_run_id = ctl_run_id (cy_ctl s),
     cx_source_kind = kind, cx_source_component = component, cx_producer_version = ''1.0.0'', cx_source_host = None\<rparr>"

definition emit_event :: "env \<Rightarrow> string \<Rightarrow> string \<Rightarrow> event_args \<Rightarrow> (play_run, event) prog" where
  "emit_event env kind component args = bindE (getE (event_context_of kind component)) (\<lambda>cx.
     zoomE (\<lambda>s. (cy_world s, fresh_builder cx True)) (\<lambda>(w, b) s. s\<lparr>cy_world := w\<rparr>) (build_and_sink env args))"

definition clock_fault_audit :: "run_env \<Rightarrow> string \<Rightarrow> bool \<Rightarrow> (play_run, event) prog" where
  "clock_fault_audit rn code cleanup = bindE (get_ctl ctl_run_id) (\<lambda>run_id.
     emit_event (rn_env rn) ''controller'' ''exercise-clock-supervisor'' (clock_event run_id code cleanup))"

text \<open>\<open>fault\<close>: the first fault stays; the run is stopped and the fault audited, as far as both succeed.\<close>

definition fault_stop :: "run_env \<Rightarrow> (clocked, unit) prog" where
  "fault_stop rn = bindE (on_run (get_ctl ctl_state)) (\<lambda>st. if st = Completed then ret ()
     else bindE (attemptE (on_run (stop_play rn ''exercise clock safety stop'' (Some clock_actor)))) (\<lambda>r.
       if r = Inr () then ret () else upd_clock (\<lambda>c. c\<lparr>cl_cleanup := Some False\<rparr>)))"

definition fault_audit :: "run_env \<Rightarrow> string \<Rightarrow> (clocked, unit) prog" where
  "fault_audit rn code = thenE (upd_clock (\<lambda>c. c\<lparr>cl_audit := Some False\<rparr>))
    (bindE (get_clock cl_cleanup) (\<lambda>cleanup.
     bindE (attemptE (on_run (clock_fault_audit rn code (cleanup = Some True)))) (\<lambda>r.
       upd_clock (\<lambda>c. c\<lparr>cl_audit := Some (case r of Inl _ \<Rightarrow> False | Inr _ \<Rightarrow> True)\<rparr>))))"

definition clock_fault :: "run_env \<Rightarrow> string \<Rightarrow> (clocked, unit) prog" where
  "clock_fault rn code = bindE (get_clock cl_fault) (\<lambda>before. if before \<noteq> None then ret () else
    (let known = if code \<in> set FAULT_CODES then code else ''driver_failed'' in
     thenE (upd_clock (\<lambda>c. c\<lparr>cl_fault := Some known, cl_cleanup := Some True\<rparr>))
      (thenE (fault_stop rn) (fault_audit rn known))))"

section \<open>Operations\<close>

definition clock_attach :: "run_env \<Rightarrow> (nat \<Rightarrow> reading) \<Rightarrow> (clocked, unit) prog" where
  "clock_attach rn mon = bindE (get_clock cl_attached) (\<lambda>attached.
    thenE (requireE (\<not> attached) (ControllerError ''exercise clock already has a driver''))
   (thenE (upd_clock (\<lambda>c. c\<lparr>cl_managed := True, cl_attached := True\<rparr>))
   (bindE (attemptE (bindE (read_clock_now mon) (\<lambda>now.
       thenE (upd_clock (\<lambda>c. c\<lparr>cl_heartbeat := Some now\<rparr>))
      (bindE (clock_age mon) (\<lambda>age. if age = None then clock_fault rn ''invalid_monotonic'' else ret ()))))) (\<lambda>r.
     case r of Inl _ \<Rightarrow> clock_fault rn ''invalid_monotonic'' | Inr _ \<Rightarrow> ret ()))))"

definition any_failed :: "controller \<Rightarrow> bool" where
  "any_failed c \<longleftrightarrow> list_ex (\<lambda>(i, r). rt_status r = Failed) (ctl_items c)"

text \<open>\<open>require_healthy\<close>.\<close>

definition status_code :: "string \<Rightarrow> string" where
  "status_code status = (if status = ''stale'' then ''heartbeat_stale''
     else if status = ''invalid_clock'' then ''invalid_monotonic'' else ''driver_unavailable'')"

definition clock_unavailable :: exc where
  "clock_unavailable = ControllerError ''exercise clock unavailable; preserve evidence and reset safely''"

definition require_healthy :: "run_env \<Rightarrow> (nat \<Rightarrow> reading) \<Rightarrow> (clocked, unit) prog" where
  "require_healthy rn mon =
    bindE (clock_snapshot mon) (\<lambda>health. bindE (on_run (get_ctl id)) (\<lambda>ctl.
    bindE (if ch_status health = ''healthy'' \<and> (ctl_state ctl = Running \<or> ctl_state ctl = Paused) \<and> any_failed ctl
       then thenE (clock_fault rn ''scheduler_tick_failed'') (ret ''faulted'') else ret (ch_status health)) (\<lambda>status.
    if status = ''healthy'' \<or> status = ''unmonitored'' then ret ()
    else thenE (bindE (get_clock cl_fault) (\<lambda>f. if f = None then clock_fault rn (status_code status) else ret ()))
      (raise clock_unavailable))))"

definition scheduler_tick :: "run_env \<Rightarrow> (nat \<Rightarrow> rat) \<Rightarrow> (clocked, int) prog" where
  "scheduler_tick rn clk = bindE (on_run (get_ctl ctl_definition)) (\<lambda>sd. on_scheduler (tick (run_deps rn sd) clk))"

definition supervised_tick :: "run_env \<Rightarrow> (nat \<Rightarrow> rat) \<Rightarrow> (nat \<Rightarrow> reading) \<Rightarrow> (clocked, unit) prog" where
  "supervised_tick rn clk mon =
    thenE (require_healthy rn mon)
   (bindE (on_run (get_ctl ctl_state)) (\<lambda>was.
    thenE (scheduler_tick rn clk)
   (bindE (on_run (get_ctl id)) (\<lambda>ctl.
    thenE (requireE (\<not> (was = Running \<and> (ctl_state ctl = Stopped \<or> any_failed ctl)))
      (ControllerError ''scheduled handler failed or stopped delivery''))
   (thenE (require_healthy rn mon)
   (bindE (read_clock_now mon) (\<lambda>now.
    thenE (upd_clock (\<lambda>c. c\<lparr>cl_heartbeat := Some now, cl_ticks := cl_ticks c + 1\<rparr>))
      (require_healthy rn mon))))))))"

definition clock_tick :: "run_env \<Rightarrow> (nat \<Rightarrow> rat) \<Rightarrow> (nat \<Rightarrow> reading) \<Rightarrow> (clocked, unit) prog" where
  "clock_tick rn clk mon = bindE (get_clock id) (\<lambda>c.
     if cl_fault c \<noteq> None \<or> \<not> cl_attached c then ret ()
     else bindE (attemptE (supervised_tick rn clk mon)) (\<lambda>r.
       case r of Inl _ \<Rightarrow> clock_fault rn ''scheduler_tick_failed'' | Inr _ \<Rightarrow> ret ()))"

definition clock_reset :: "(nat \<Rightarrow> reading) \<Rightarrow> (clocked, unit) prog" where
  "clock_reset mon = bindE (get_clock cl_attached) (\<lambda>attached.
    bindE (if attached then bindE (read_clock_now mon) (\<lambda>now. ret (Some now)) else ret None) (\<lambda>heartbeat.
    thenE (requireE (heartbeat \<noteq> Some Unbounded) (ControllerError ''exercise clock reset requires valid monotonic time''))
      (upd_clock (\<lambda>c. c\<lparr>cl_fault := None, cl_cleanup := None, cl_audit := None, cl_ticks := 0, cl_heartbeat := heartbeat\<rparr>))))"

definition clock_detach :: "run_env \<Rightarrow> (clocked, unit) prog" where
  "clock_detach rn = thenE (upd_clock (\<lambda>c. c\<lparr>cl_attached := False\<rparr>))
    (bindE (on_run (get_ctl ctl_state)) (\<lambda>st. if st \<noteq> Running \<and> st \<noteq> Paused then ret ()
     else bindE (attemptE (on_run (stop_play rn ''exercise clock driver shutdown'' (Some clock_actor)))) (\<lambda>r.
       case r of Inl _ \<Rightarrow> clock_fault rn ''driver_failed'' | Inr _ \<Rightarrow> ret ())))"

end
