(* ===== verification/ClockProps.thy ===== *)
theory ClockProps
  imports Clock SliceProps
begin

text \<open>
  The supervisor: a fault is latched with the run, a stale heartbeat never advances play, and a tick without a fault is
  exactly one tick of the scheduler.
\<close>

section \<open>How the operations run\<close>

lemma clock_runs [prog_simps]:
  "get_clock f k = (Inr (f (ck_clock k)), k)"
  "upd_clock g k = (Inr (), k\<lparr>ck_clock := g (ck_clock k)\<rparr>)"
  "on_scheduler p k = (case p (ck_sys k) of (r, y) \<Rightarrow> (r, k\<lparr>ck_sys := y\<rparr>))"
  "on_run m k = (case m (run_of k) of (r, s) \<Rightarrow> (r, k\<lparr>ck_sys := (ck_sys k)\<lparr>sy_sys := s\<rparr>\<rparr>))"
  "attemptE (n :: (clocked, 'b) prog) k = (case n k of (r, k') \<Rightarrow> (Inr r, k'))"
  by (simp_all add: get_clock_def upd_clock_def on_scheduler_def on_run_def zoomE_run run_of_def attemptE_def sched_runs
      split: prod.splits)

lemma on_run_ctl: "on_run (get_ctl f) k = (Inr (f (cy_ctl (run_of k))), k)"
  by (simp add: clock_runs get_ctl_run run_of_def)

text \<open>The age is known only from two finite readings in order; reading the clock changes the count of readings only.\<close>

definition reading_age :: "(nat \<Rightarrow> reading) \<Rightarrow> clock_state \<Rightarrow> rat option" where
  "reading_age mon c = (case cl_heartbeat c of None \<Rightarrow> None | Some h \<Rightarrow> age_of (mon (cl_reads c)) h)"

definition fresh :: "(nat \<Rightarrow> reading) \<Rightarrow> clock_state \<Rightarrow> bool" where
  "fresh mon c \<longleftrightarrow> (\<exists>a. reading_age mon c = Some a \<and> a \<le> STALE_AFTER)"

definition counted :: "clock_state \<Rightarrow> clock_state" where
  "counted c = c\<lparr>cl_reads := (if cl_heartbeat c = None then cl_reads c else Suc (cl_reads c))\<rparr>"

lemma clock_age_run: "clock_age mon k = (Inr (reading_age mon (ck_clock k)), k\<lparr>ck_clock := counted (ck_clock k)\<rparr>)"
proof (cases "cl_heartbeat (ck_clock k)")
  case (Some h)
  then show ?thesis
    by (cases "mon (cl_reads (ck_clock k))")
       (simp_all add: clock_age_def read_clock_now_def clock_runs bindE_run thenE_run reading_age_def counted_def age_of_def)
qed (simp add: clock_age_def clock_runs bindE_run reading_age_def counted_def)

lemma clock_snapshot_run: "\<exists>h. clock_snapshot mon k = (Inr h, k\<lparr>ck_clock := counted (ck_clock k)\<rparr>)
    \<and> ch_status h = clock_status (ck_clock k) (reading_age mon (ck_clock k))"
  by (simp add: clock_snapshot_def bindE_run clock_age_run clock_runs(1) on_run_ctl) (simp add: clock_status_def counted_def)

section \<open>Faults\<close>

lemma clock_fault_again: "cl_fault (ck_clock k) \<noteq> None \<Longrightarrow> clock_fault rn code k = (Inr (), k)"
  by (simp add: clock_fault_def bindE_run clock_runs)

lemma emit_event_world: "\<exists>r w. emit_event env kind component args s = (r, s\<lparr>cy_world := w\<rparr>)"
  by (cases "build_and_sink env args (cy_world s, fresh_builder (event_context_of kind component s) True)")
     (auto simp: emit_event_def bindE_run zoomE_run split: prod.splits)

lemma clock_fault_audit_world: "\<exists>r w. clock_fault_audit rn code cleanup s = (r, s\<lparr>cy_world := w\<rparr>)"
  using emit_event_world by (simp add: clock_fault_audit_def bindE_run get_ctl_run)

lemma halted_world: "halted_run i (s\<lparr>cy_world := w\<rparr>) = halted_run i s" "run_play (s\<lparr>cy_world := w\<rparr>) = run_play s"
  by (simp_all add: halted_run_def latched_def coherent_def run_adapters_def run_play_def)

lemma clock_actor_controls: "case Some clock_actor of None \<Rightarrow> True | Some e \<Rightarrow> role_in e CONTROL_ROLES"
  by (simp add: clock_actor_def role_in_def CONTROL_ROLES_def entity_def opt_text_def)

definition same_driver :: "clock_state \<Rightarrow> clock_state \<Rightarrow> bool" where
  "same_driver c c' \<longleftrightarrow> cl_attached c' = cl_attached c \<and> cl_managed c' = cl_managed c \<and> cl_heartbeat c' = cl_heartbeat c
     \<and> cl_ticks c' = cl_ticks c"

lemma fault_stop_run: "\<exists>k'. fault_stop rn k = (Inr (), k') \<and> cl_fault (ck_clock k') = cl_fault (ck_clock k)
    \<and> same_driver (ck_clock k) (ck_clock k') \<and> sy_sched (ck_sys k') = sy_sched (ck_sys k)
    \<and> (coherent (run_of k) \<longrightarrow> ctl_state (cy_ctl (run_of k)) \<noteq> Completed \<longrightarrow> halted_run (ctl_run_id (cy_ctl (run_of k))) (run_of k'))"
proof (cases "ctl_state (cy_ctl (run_of k)) = Completed")
  case True
  then show ?thesis by (simp add: fault_stop_def bindE_run on_run_ctl same_driver_def)
next
  case False
  obtain r s where stop: "stop_play rn ''exercise clock safety stop'' (Some clock_actor) (run_of k) = (r, s)" by fastforce
  have "halted_run (ctl_run_id (cy_ctl (run_of k))) s" if "coherent (run_of k)"
  proof -
    have "r = Inr () \<or> r = Inl stop_incomplete"
      using stop_play_returns [OF _ clock_actor_controls False, of "''exercise clock safety stop''" rn] stop
      by (simp add: strip_def is_space_def)
    from stop_play_latches [OF stop this that] show ?thesis by (simp add: halted_run_def)
  qed
  then show ?thesis using stop False
    by (simp add: fault_stop_def bindE_run get_ctl_run clock_runs same_driver_def run_of_def)
qed

lemma fault_audit_run: "\<exists>k' w a. fault_audit rn code k = (Inr (), k') \<and> run_of k' = (run_of k)\<lparr>cy_world := w\<rparr>
    \<and> ck_clock k' = (ck_clock k)\<lparr>cl_audit := a\<rparr> \<and> sy_sched (ck_sys k') = sy_sched (ck_sys k)"
proof -
  obtain q w where "clock_fault_audit rn code (cl_cleanup (ck_clock k) = Some True) (run_of k) = (q, (run_of k)\<lparr>cy_world := w\<rparr>)"
    using clock_fault_audit_world by blast
  then show ?thesis by (auto simp: fault_audit_def bindE_run thenE_run clock_runs run_of_def)
qed

text \<open>What a first fault does, whatever the state of the run.\<close>

lemma clock_fault_run:
  assumes "cl_fault (ck_clock k) = None"
  shows "\<exists>k'. clock_fault rn code k = (Inr (), k') \<and> cl_fault (ck_clock k') = Some (if code \<in> set FAULT_CODES then code else ''driver_failed'')
    \<and> same_driver (ck_clock k) (ck_clock k') \<and> sy_sched (ck_sys k') = sy_sched (ck_sys k)
    \<and> (coherent (run_of k) \<longrightarrow> ctl_state (cy_ctl (run_of k)) \<noteq> Completed \<longrightarrow> halted_run (ctl_run_id (cy_ctl (run_of k))) (run_of k'))"
proof -
  define known where "known = (if code \<in> set FAULT_CODES then code else ''driver_failed'')"
  define k1 where "k1 = k\<lparr>ck_clock := (ck_clock k)\<lparr>cl_fault := Some known, cl_cleanup := Some True\<rparr>\<rparr>"
  have k1: "run_of k1 = run_of k" "cl_fault (ck_clock k1) = Some known" "same_driver (ck_clock k) (ck_clock k1)"
      "sy_sched (ck_sys k1) = sy_sched (ck_sys k)"
    by (simp_all add: k1_def run_of_def same_driver_def)
  obtain k2 where k2: "fault_stop rn k1 = (Inr (), k2)" "cl_fault (ck_clock k2) = Some known" "same_driver (ck_clock k1) (ck_clock k2)"
      "sy_sched (ck_sys k2) = sy_sched (ck_sys k1)"
      "coherent (run_of k1) \<longrightarrow> ctl_state (cy_ctl (run_of k1)) \<noteq> Completed \<longrightarrow> halted_run (ctl_run_id (cy_ctl (run_of k1))) (run_of k2)"
    using fault_stop_run [of rn k1] k1(2) by auto
  obtain k3 w a where k3: "fault_audit rn known k2 = (Inr (), k3)" "run_of k3 = (run_of k2)\<lparr>cy_world := w\<rparr>"
      "ck_clock k3 = (ck_clock k2)\<lparr>cl_audit := a\<rparr>" "sy_sched (ck_sys k3) = sy_sched (ck_sys k2)"
    using fault_audit_run by blast
  have "clock_fault rn code k = (Inr (), k3)"
    using assms k2(1) k3(1) by (simp add: clock_fault_def bindE_run thenE_run clock_runs known_def [symmetric] k1_def [symmetric] Let_def)
  moreover have "same_driver (ck_clock k) (ck_clock k3)" using k1(3) k2(3) k3(3) by (simp add: same_driver_def)
  ultimately show ?thesis
    unfolding known_def [symmetric] using k1 k2 k3 by (intro exI [of _ k3]) (simp add: halted_world)
qed

section \<open>A stale heartbeat\<close>

text \<open>What the supervisor finds wrong before it does anything.\<close>

definition failing :: "clocked \<Rightarrow> bool" where
  "failing k \<longleftrightarrow> (ctl_state (cy_ctl (run_of k)) = Running \<or> ctl_state (cy_ctl (run_of k)) = Paused) \<and> any_failed (cy_ctl (run_of k))"

definition sound_clock :: "(nat \<Rightarrow> reading) \<Rightarrow> clocked \<Rightarrow> bool" where
  "sound_clock mon k \<longleftrightarrow> cl_fault (ck_clock k) = None \<and> cl_managed (ck_clock k) \<and> cl_attached (ck_clock k) \<and> fresh mon (ck_clock k)"

lemma status_healthy: "clock_status (ck_clock k) (reading_age mon (ck_clock k)) = ''healthy'' \<longleftrightarrow> sound_clock mon k"
  by (auto simp: clock_status_def sound_clock_def fresh_def split: option.splits)

lemma status_unmonitored: "clock_status (ck_clock k) (reading_age mon (ck_clock k)) = ''unmonitored'' \<longleftrightarrow>
    cl_fault (ck_clock k) = None \<and> \<not> cl_managed (ck_clock k)"
  by (auto simp: clock_status_def split: option.splits)

text \<open>\<open>require_healthy\<close>: nothing but a reading, or a fault.\<close>

lemma require_healthy_ok:
  assumes "sound_clock mon k" and "\<not> failing k"
  shows "require_healthy rn mon k = (Inr (), k\<lparr>ck_clock := counted (ck_clock k)\<rparr>)"
proof -
  obtain h where h: "clock_snapshot mon k = (Inr h, k\<lparr>ck_clock := counted (ck_clock k)\<rparr>)" "ch_status h = ''healthy''"
    using clock_snapshot_run [of mon k] status_healthy assms(1) by metis
  have "\<not> ((ctl_state (cy_ctl (run_of k)) = Running \<or> ctl_state (cy_ctl (run_of k)) = Paused) \<and> any_failed (cy_ctl (run_of k)))"
    using assms(2) by (simp add: failing_def)
  then show ?thesis
    using h by (auto simp: require_healthy_def bindE_run on_run_ctl run_of_def)
qed

lemma require_healthy_bad:
  assumes "cl_managed (ck_clock k)" and "\<not> (sound_clock mon k \<and> \<not> failing k)"
  shows "\<exists>k'. require_healthy rn mon k = (Inl clock_unavailable, k') \<and> cl_fault (ck_clock k') \<noteq> None
    \<and> same_driver (ck_clock k) (ck_clock k') \<and> sy_sched (ck_sys k') = sy_sched (ck_sys k)
    \<and> (cl_fault (ck_clock k) \<noteq> None \<longrightarrow> ck_sys k' = ck_sys k \<and> cl_fault (ck_clock k') = cl_fault (ck_clock k))
    \<and> (cl_fault (ck_clock k) = None \<longrightarrow> coherent (run_of k) \<longrightarrow> ctl_state (cy_ctl (run_of k)) \<noteq> Completed
        \<longrightarrow> halted_run (ctl_run_id (cy_ctl (run_of k))) (run_of k'))"
proof -
  define k1 where "k1 = k\<lparr>ck_clock := counted (ck_clock k)\<rparr>"
  have k1: "run_of k1 = run_of k" "ck_sys k1 = ck_sys k" "cl_fault (ck_clock k1) = cl_fault (ck_clock k)"
    "same_driver (ck_clock k) (ck_clock k1)"
    by (simp_all add: k1_def run_of_def counted_def same_driver_def)
  obtain h where h: "clock_snapshot mon k = (Inr h, k1)" "ch_status h = clock_status (ck_clock k) (reading_age mon (ck_clock k))"
    using clock_snapshot_run [of mon k] unfolding k1_def by blast
  have trans: "same_driver (ck_clock k1) c \<Longrightarrow> same_driver (ck_clock k) c" for c using k1(4) by (simp add: same_driver_def)
  show ?thesis
  proof (cases "sound_clock mon k")
    case True
    then have f: "failing k" "ch_status h = ''healthy''" and none: "cl_fault (ck_clock k1) = None"
      using assms(2) h(2) status_healthy k1(3) by (auto simp: sound_clock_def)
    obtain k2 where k2: "clock_fault rn ''scheduler_tick_failed'' k1 = (Inr (), k2)" "cl_fault (ck_clock k2) \<noteq> None"
      "same_driver (ck_clock k1) (ck_clock k2)" "sy_sched (ck_sys k2) = sy_sched (ck_sys k1)"
      "coherent (run_of k1) \<longrightarrow> ctl_state (cy_ctl (run_of k1)) \<noteq> Completed \<longrightarrow> halted_run (ctl_run_id (cy_ctl (run_of k1))) (run_of k2)"
      using clock_fault_run [OF none, of rn "''scheduler_tick_failed''"] by auto
    have "require_healthy rn mon k = (Inl clock_unavailable, k2)"
      using h(1) f k2(1,2) by (auto simp: require_healthy_def bindE_run thenE_run on_run_ctl k1(1) failing_def clock_runs(1))
    with k2 k1 none trans show ?thesis by (intro exI [of _ k2]) simp
  next
    case False
    then have st: "ch_status h \<noteq> ''healthy''" "ch_status h \<noteq> ''unmonitored''"
      using h(2) status_healthy status_unmonitored assms(1) by auto
    show ?thesis
    proof (cases "cl_fault (ck_clock k1)")
      case None
      obtain k2 where k2: "clock_fault rn (status_code (ch_status h)) k1 = (Inr (), k2)" "cl_fault (ck_clock k2) \<noteq> None"
        "same_driver (ck_clock k1) (ck_clock k2)" "sy_sched (ck_sys k2) = sy_sched (ck_sys k1)"
        "coherent (run_of k1) \<longrightarrow> ctl_state (cy_ctl (run_of k1)) \<noteq> Completed \<longrightarrow> halted_run (ctl_run_id (cy_ctl (run_of k1))) (run_of k2)"
        using clock_fault_run [OF None, of rn "status_code (ch_status h)"] by auto
      have "require_healthy rn mon k = (Inl clock_unavailable, k2)"
        using h(1) st k2(1) None by (simp add: require_healthy_def bindE_run thenE_run on_run_ctl clock_runs(1))
      with k2 k1 None trans show ?thesis by (intro exI [of _ k2]) simp
    next
      case (Some c)
      have "require_healthy rn mon k = (Inl clock_unavailable, k1)"
        using h(1) st Some by (simp add: require_healthy_def bindE_run thenE_run on_run_ctl clock_runs(1))
      moreover have "cl_fault (ck_clock k) = Some c" using Some k1(3) by simp
      ultimately show ?thesis using k1 by (intro exI [of _ k1]) simp
    qed
  qed
qed

section \<open>The properties\<close>

text \<open>Everything that happens to a supervised run between two resets: the driver, the gate of the routes and the calls on
  the run itself.\<close>

datatype clock_command = Attach | Detach | Tick | Gate | Fault string | PlayCall play_command

primrec perform_clock :: "run_env \<Rightarrow> (nat \<Rightarrow> rat) \<Rightarrow> (nat \<Rightarrow> reading) \<Rightarrow> clock_command \<Rightarrow> (clocked, unit) prog" where
  "perform_clock rn clk mon Attach = clock_attach rn mon"
| "perform_clock rn clk mon Detach = clock_detach rn"
| "perform_clock rn clk mon Tick = clock_tick rn clk mon"
| "perform_clock rn clk mon Gate = require_healthy rn mon"
| "perform_clock rn clk mon (Fault code) = clock_fault rn code"
| "perform_clock rn clk mon (PlayCall c) = on_run (perform_play rn c)"

definition run_clock :: "run_env \<Rightarrow> (nat \<Rightarrow> rat) \<Rightarrow> (nat \<Rightarrow> reading) \<Rightarrow> clock_command list \<Rightarrow> clocked \<Rightarrow> clocked" where
  "run_clock rn clk mon cs k = fold (\<lambda>c k. snd (perform_clock rn clk mon c k)) cs k"

definition faulted :: "string \<Rightarrow> string \<Rightarrow> play \<Rightarrow> clocked \<Rightarrow> bool" where
  "faulted code i p k \<longleftrightarrow> cl_managed (ck_clock k) \<and> cl_fault (ck_clock k) = Some code \<and> halted_run i (run_of k) \<and> run_play (run_of k) = p"

lemma faulted_attach:
  assumes "faulted code i p k"
  shows "faulted code i p (snd (clock_attach rn mon k))"
proof (cases "cl_attached (ck_clock k)")
  case True
  then show ?thesis using assms by (simp add: clock_attach_def bindE_run thenE_run clock_runs(1) requireE_run)
next
  case False
  define k1 where "k1 = k\<lparr>ck_clock := (ck_clock k)\<lparr>cl_managed := True, cl_attached := True\<rparr>\<rparr>"
  let ?beat = "bindE (read_clock_now mon) (\<lambda>now. thenE (upd_clock (\<lambda>c. c\<lparr>cl_heartbeat := Some now\<rparr>))
      (bindE (clock_age mon) (\<lambda>age. if age = None then clock_fault rn ''invalid_monotonic'' else ret ())))"
  have k1: "faulted code i p k1" using assms by (simp add: faulted_def k1_def run_of_def)
  have tried: "faulted code i p (snd (?beat k1))"
    using k1 by (cases "mon (cl_reads (ck_clock k1))")
      (auto simp: read_clock_now_def bindE_run thenE_run clock_runs clock_age_run clock_fault_again faulted_def run_of_def counted_def)
  have "clock_attach rn mon k = (case ?beat k1 of (r, k2) \<Rightarrow> case r of Inl _ \<Rightarrow> clock_fault rn ''invalid_monotonic'' k2 | Inr _ \<Rightarrow> (Inr (), k2))"
    using False by (simp add: clock_attach_def bindE_run [of "get_clock cl_attached"] bindE_run [of "attemptE n" for n] thenE_run [of "requireE b e" for b e]
        thenE_run [of "upd_clock f" "bindE m g" for f m g] clock_runs(1,2,5) requireE_run k1_def split: prod.splits sum.splits)
  moreover have "clock_fault rn ''invalid_monotonic'' (snd (?beat k1)) = (Inr (), snd (?beat k1))"
    using tried by (intro clock_fault_again) (simp add: faulted_def)
  ultimately show ?thesis using tried by (auto split: prod.splits sum.splits)
qed

lemma faulted_step:
  assumes "faulted code i p k"
  shows "faulted code i p (snd (perform_clock rn clk mon c k))"
proof -
  have f: "cl_fault (ck_clock k) = Some code" and m: "cl_managed (ck_clock k)" and h: "halted_run i (run_of k)"
    using assms by (simp_all add: faulted_def)
  show ?thesis
  proof (cases c)
    case Attach
    with faulted_attach [OF assms] show ?thesis by simp
  next
    case Detach
    have "ctl_state (cy_ctl (run_of k)) = Stopped" using h by (simp add: halted_run_def latched_def)
    with Detach assms show ?thesis
      by (simp add: clock_detach_def bindE_run thenE_run clock_runs(2) on_run_ctl faulted_def run_of_def get_ctl_run)
  next
    case Tick
    with assms f show ?thesis by (simp add: clock_tick_def bindE_run clock_runs(1))
  next
    case Gate
    have "\<not> (sound_clock mon k \<and> \<not> failing k)" using f by (simp add: sound_clock_def)
    from require_healthy_bad [OF m this, of rn] obtain k' where "require_healthy rn mon k = (Inl clock_unavailable, k')"
      "same_driver (ck_clock k) (ck_clock k')" "ck_sys k' = ck_sys k" "cl_fault (ck_clock k') = cl_fault (ck_clock k)"
      using f by auto
    with assms Gate show ?thesis by (simp add: faulted_def same_driver_def run_of_def)
  next
    case (Fault code')
    with assms f clock_fault_again [of k rn code'] show ?thesis by simp
  next
    case (PlayCall c')
    have "run_play (snd (perform_play rn c' (run_of k))) = run_play (run_of k) \<and> halted_run i (snd (perform_play rn c' (run_of k)))"
      using inertD [OF inert_perform h] by simp
    with assms PlayCall show ?thesis
      by (cases "perform_play rn c' (run_of k)") (simp add: faulted_def clock_runs(4) run_of_def)
  qed
qed

lemma faulted_steps: "faulted code i p k \<Longrightarrow> faulted code i p (run_clock rn clk mon cs k)"
  unfolding run_clock_def by (induction cs arbitrary: k) (auto intro: faulted_step)

lemma clock_fault_latches: "\<exists>k'. clock_fault rn code k = (Inr (), k') \<and> cl_fault (ck_clock k') \<noteq> None"
  using clock_fault_run [of k rn code] clock_fault_again [of k rn code] by (cases "cl_fault (ck_clock k)") auto

lemma clock_tick_run:
  assumes "cl_attached (ck_clock k)" and "cl_fault (ck_clock k) = None"
  shows "clock_tick rn clk mon k = (case supervised_tick rn clk mon k of
      (Inl e, k1) \<Rightarrow> clock_fault rn ''scheduler_tick_failed'' k1 | (Inr _, k1) \<Rightarrow> (Inr (), k1))"
  using assms by (simp add: clock_tick_def bindE_run clock_runs(1,5) split: prod.splits sum.splits)

lemma require_healthy_Inr:
  assumes "require_healthy rn mon k = (Inr u, k')" and "cl_managed (ck_clock k)"
  shows "sound_clock mon k \<and> \<not> failing k \<and> k' = k\<lparr>ck_clock := counted (ck_clock k)\<rparr>"
proof (cases "sound_clock mon k \<and> \<not> failing k")
  case True
  with require_healthy_ok [of mon k rn] assms(1) show ?thesis by auto
next
  case False
  with require_healthy_bad [OF assms(2), of mon rn] assms(1) show ?thesis by auto
qed

lemma failing_sys: "failing (k\<lparr>ck_clock := c\<rparr>) = failing k" "run_of (k\<lparr>ck_clock := c\<rparr>) = run_of k"
  by (simp_all add: failing_def run_of_def)

lemma supervised_tick_Inr:
  assumes "supervised_tick rn clk mon k = (Inr u, k')" and "cl_managed (ck_clock k)"
  shows "sound_clock mon k \<and> \<not> failing k \<and> \<not> failing k'
    \<and> (\<exists>n. tick (run_deps rn (ctl_definition (cy_ctl (run_of k)))) clk (ck_sys k) = (Inr n, ck_sys k'))
    \<and> (ctl_state (cy_ctl (run_of k)) = Running \<longrightarrow> ctl_state (cy_ctl (run_of k')) \<noteq> Stopped)
    \<and> cl_ticks (ck_clock k') = cl_ticks (ck_clock k) + 1 \<and> (\<exists>t. cl_heartbeat (ck_clock k') = Some (At t)) \<and> cl_attached (ck_clock k')"
proof -
  obtain u1 k1 where k1: "require_healthy rn mon k = (Inr u1, k1)" and rest1: "bindE (on_run (get_ctl ctl_state)) (\<lambda>was.
      thenE (scheduler_tick rn clk) (bindE (on_run (get_ctl id)) (\<lambda>ctl.
      thenE (requireE (\<not> (was = Running \<and> (ctl_state ctl = Stopped \<or> any_failed ctl)))
        (ControllerError ''scheduled handler failed or stopped delivery''))
     (thenE (require_healthy rn mon) (bindE (read_clock_now mon) (\<lambda>now.
      thenE (upd_clock (\<lambda>c. c\<lparr>cl_heartbeat := Some now, cl_ticks := cl_ticks c + 1\<rparr>)) (require_healthy rn mon))))))) k1 = (Inr u, k')"
    using assms(1) unfolding supervised_tick_def by (elim thenE_InrE)
  from require_healthy_Inr [OF k1 assms(2)] have s1: "sound_clock mon k" "\<not> failing k" and k1_def: "k1 = k\<lparr>ck_clock := counted (ck_clock k)\<rparr>"
    by blast+
  have run1: "run_of k1 = run_of k" "ck_sys k1 = ck_sys k" by (simp_all add: k1_def run_of_def)
  let ?tick = "tick (run_deps rn (ctl_definition (cy_ctl (run_of k)))) clk (ck_sys k)"
  from rest1 obtain n k2 where t: "scheduler_tick rn clk k1 = (Inr n, k2)" and rest2: "bindE (on_run (get_ctl id)) (\<lambda>ctl.
      thenE (requireE (\<not> (ctl_state (cy_ctl (run_of k)) = Running \<and> (ctl_state ctl = Stopped \<or> any_failed ctl)))
        (ControllerError ''scheduled handler failed or stopped delivery''))
     (thenE (require_healthy rn mon) (bindE (read_clock_now mon) (\<lambda>now.
      thenE (upd_clock (\<lambda>c. c\<lparr>cl_heartbeat := Some now, cl_ticks := cl_ticks c + 1\<rparr>)) (require_healthy rn mon))))) k2 = (Inr u, k')"
    unfolding bindE_run [of "on_run (get_ctl ctl_state)"] on_run_ctl run1 by (auto elim!: thenE_InrE)
  have tick2: "?tick = (Inr n, ck_sys k2)" and k2: "ck_clock k2 = counted (ck_clock k)"
    using t by (auto simp: scheduler_tick_def bindE_run on_run_ctl run1 clock_runs(3) k1_def failing_sys(2) split: prod.splits)
  from rest2 obtain v k3 where st: "ctl_state (cy_ctl (run_of k)) = Running \<longrightarrow> ctl_state (cy_ctl (run_of k2)) \<noteq> Stopped"
    and h3: "require_healthy rn mon k2 = (Inr v, k3)" and rest3: "bindE (read_clock_now mon) (\<lambda>now.
      thenE (upd_clock (\<lambda>c. c\<lparr>cl_heartbeat := Some now, cl_ticks := cl_ticks c + 1\<rparr>)) (require_healthy rn mon)) k3 = (Inr u, k')"
    unfolding bindE_run [of "on_run (get_ctl id)"] on_run_ctl by (auto elim!: thenE_InrE simp: requireE_run split: if_splits)
  have m2: "cl_managed (ck_clock k2)" using assms(2) by (simp add: k2 counted_def)
  from require_healthy_Inr [OF h3 m2] have k3: "ck_sys k3 = ck_sys k2" "ck_clock k3 = counted (ck_clock k2)" by auto
  from rest3 obtain now k4 where now: "read_clock_now mon k3 = (Inr now, k4)" and rest4:
      "require_healthy rn mon (k4\<lparr>ck_clock := (ck_clock k4)\<lparr>cl_heartbeat := Some now, cl_ticks := cl_ticks (ck_clock k4) + 1\<rparr>\<rparr>) = (Inr u, k')"
    by (elim bindE_InrE) (simp add: thenE_run clock_runs(2))
  have k4: "ck_sys k4 = ck_sys k3" "ck_clock k4 = (ck_clock k3)\<lparr>cl_reads := cl_reads (ck_clock k4)\<rparr>"
    using now by (auto simp: read_clock_now_def bindE_run thenE_run clock_runs(1,2) split: reading.splits)
  let ?k5 = "k4\<lparr>ck_clock := (ck_clock k4)\<lparr>cl_heartbeat := Some now, cl_ticks := cl_ticks (ck_clock k4) + 1\<rparr>\<rparr>"
  have "cl_managed (ck_clock k4) = cl_managed (ck_clock k2)" by (subst k4(2)) (simp add: k3(2) counted_def)
  then have m5: "cl_managed (ck_clock ?k5)" using m2 by simp
  from require_healthy_Inr [OF rest4 m5] have s5: "sound_clock mon ?k5" "\<not> failing ?k5" and k': "k' = ?k5\<lparr>ck_clock := counted (ck_clock ?k5)\<rparr>"
    by blast+
  have "ck_sys k' = ck_sys k2" using k' k4(1) k3(1) by simp
  moreover have "\<exists>t. now = At t"
    using s5(1) by (cases now) (auto simp: sound_clock_def fresh_def reading_age_def age_of_def split: reading.splits)
  moreover have "cl_ticks (ck_clock k') = cl_ticks (ck_clock k) + 1"
  proof -
    have "cl_ticks (ck_clock k4) = cl_ticks (ck_clock k)"
      by (subst k4(2)) (simp add: k3(2) k2 counted_def)
    then show ?thesis by (simp add: k' counted_def)
  qed
  ultimately show ?thesis
    using s1 s5 st tick2 by (auto simp: k' failing_sys counted_def run_of_def sound_clock_def)
qed

text \<open>C37: A tick that finds the heartbeat stale, or cannot tell its age, does not advance play: the scheduler is not
  ticked, the fault is latched and the run is stopped as by its fail-safe stop; the tick itself does not raise. Whatever
  happens then (further ticks, attaching or detaching the driver, guarded routes, calls on the run), the fault stays and
  the play stays as it is; only a reset clears it.\<close>

theorem stale_clock_stops_play:
  assumes "coherent (run_of k)" and "ctl_state (cy_ctl (run_of k)) \<noteq> Completed"
    and "cl_attached (ck_clock k)" and "cl_managed (ck_clock k)" and "cl_fault (ck_clock k) = None"
    and "\<not> fresh mon (ck_clock k)" and "clock_tick rn clk mon k = (r, k')"
  shows "r = Inr () \<and> sy_sched (ck_sys k') = sy_sched (ck_sys k) \<and> cl_ticks (ck_clock k') = cl_ticks (ck_clock k)
    \<and> (\<exists>code. cl_fault (ck_clock k') = Some code \<and> latched (ctl_run_id (cy_ctl (run_of k))) (run_of k')
        \<and> cl_fault (ck_clock (run_clock rn clk mon cs k')) = Some code
        \<and> run_play (run_of (run_clock rn clk mon cs k')) = run_play (run_of k')
        \<and> latched (ctl_run_id (cy_ctl (run_of k))) (run_of (run_clock rn clk mon cs k')))"
proof -
  have "\<not> (sound_clock mon k \<and> \<not> failing k)" using assms(6) by (simp add: sound_clock_def)
  from require_healthy_bad [OF assms(4) this, of rn] assms(1,2,5) obtain k1 where
    k1: "require_healthy rn mon k = (Inl clock_unavailable, k1)" "cl_fault (ck_clock k1) \<noteq> None" "same_driver (ck_clock k) (ck_clock k1)"
    "sy_sched (ck_sys k1) = sy_sched (ck_sys k)" and h: "halted_run (ctl_run_id (cy_ctl (run_of k))) (run_of k1)"
    by auto
  have "supervised_tick rn clk mon k = (Inl clock_unavailable, k1)" using k1(1) by (simp add: supervised_tick_def thenE_run)
  then have k': "r = Inr ()" "k' = k1"
    using clock_tick_run [OF assms(3,5), of rn clk mon] clock_fault_again [OF k1(2)] assms(7) by simp_all
  obtain code where code: "cl_fault (ck_clock k1) = Some code" using k1(2) by blast
  have "faulted code (ctl_run_id (cy_ctl (run_of k))) (run_play (run_of k1)) k1"
    using code h k1(3) assms(4) by (simp add: faulted_def same_driver_def)
  from faulted_steps [OF this] show ?thesis
    using k1(3,4) code h by (simp add: k' faulted_def halted_run_def same_driver_def)
qed

text \<open>C38: A tick of a driven, supervised clock that ends without a fault is exactly one tick of the scheduler, begun
  within the allowed age of the last heartbeat and after which no item has failed and the run was not stopped; it counts
  once and its reading is the new heartbeat.\<close>

theorem sound_tick_is_one_tick:
  assumes "cl_attached (ck_clock k)" and "cl_managed (ck_clock k)" and "cl_fault (ck_clock k) = None"
    and "clock_tick rn clk mon k = (r, k')"
  shows "r = Inr () \<and> (cl_fault (ck_clock k') \<noteq> None
     \<or> fresh mon (ck_clock k) \<and> \<not> failing k \<and> \<not> failing k'
        \<and> (\<exists>n. tick (run_deps rn (ctl_definition (cy_ctl (run_of k)))) clk (ck_sys k) = (Inr n, ck_sys k'))
        \<and> (ctl_state (cy_ctl (run_of k)) = Running \<longrightarrow> ctl_state (cy_ctl (run_of k')) \<noteq> Stopped)
        \<and> cl_ticks (ck_clock k') = cl_ticks (ck_clock k) + 1
        \<and> (\<exists>t. cl_heartbeat (ck_clock k') = Some (At t)) \<and> cl_attached (ck_clock k'))"
proof -
  note run = clock_tick_run [OF assms(1,3), of rn clk mon]
  obtain q k1 where q: "supervised_tick rn clk mon k = (q, k1)" by fastforce
  show ?thesis
  proof (cases q)
    case (Inl e)
    with run q assms(4) clock_fault_latches [of rn "''scheduler_tick_failed''" k1] show ?thesis by auto
  next
    case (Inr u)
    with run q assms(4) have "r = Inr ()" "k' = k1" by simp_all
    with supervised_tick_Inr [of rn clk mon k u k1] q Inr assms(2) show ?thesis by (auto simp: sound_clock_def)
  qed
qed

text \<open>A running run whose driver was last heard of 100 seconds ago, and one just heard of.\<close>

definition sample_clocked :: clocked where
  "sample_clocked = \<lparr>ck_sys = \<lparr>sy_sched = new_sched, sy_sys = sample_play_run\<rparr>,
     ck_clock = new_clock\<lparr>cl_attached := True, cl_managed := True, cl_heartbeat := Some (At 0)\<rparr>\<rparr>"

lemma stale_clock_stops_play_witness:
  "\<exists>k' code. clock_tick sample_run_env (\<lambda>_. 0) (\<lambda>_. At 100) sample_clocked = (Inr (), k') \<and> cl_fault (ck_clock k') = Some code
     \<and> cl_fault (ck_clock (run_clock sample_run_env (\<lambda>_. 0) (\<lambda>_. At 100) [Tick, Attach, Detach] k')) = Some code"
proof -
  obtain r k' where t: "clock_tick sample_run_env (\<lambda>_. 0) (\<lambda>_. At 100) sample_clocked = (r, k')" by fastforce
  have c: "coherent (run_of sample_clocked)" "ctl_state (cy_ctl (run_of sample_clocked)) \<noteq> Completed"
    by (simp_all add: sample_clocked_def run_of_def sample_play_run_def coherent_def run_play_def run_adapters_def)
  have d: "cl_attached (ck_clock sample_clocked)" "cl_managed (ck_clock sample_clocked)" "cl_fault (ck_clock sample_clocked) = None"
    "\<not> fresh (\<lambda>_. At 100) (ck_clock sample_clocked)"
    by (simp_all add: sample_clocked_def new_clock_def fresh_def reading_age_def age_of_def STALE_AFTER_def)
  from stale_clock_stops_play [OF c d t, of "[Tick, Attach, Detach]"] t show ?thesis by auto
qed

lemma sound_tick_is_one_tick_witness:
  "\<exists>k' n. clock_tick sample_run_env (\<lambda>_. 0) (\<lambda>_. At 1) sample_clocked = (Inr (), k') \<and> cl_ticks (ck_clock k') = 1
     \<and> cl_heartbeat (ck_clock k') = Some (At 1)
     \<and> tick (run_deps sample_run_env (ctl_definition (cy_ctl sample_play_run))) (\<lambda>_. 0) (ck_sys sample_clocked) = (Inr n, ck_sys k')"
proof -
  let ?k = sample_clocked and ?mon = "\<lambda>_::nat. At 1"
  obtain r k' where t: "clock_tick sample_run_env (\<lambda>_. 0) ?mon ?k = (r, k')" by fastforce
  have d: "cl_attached (ck_clock ?k)" "cl_managed (ck_clock ?k)" "cl_fault (ck_clock ?k) = None"
    by (simp_all add: sample_clocked_def new_clock_def)
  have idle: "\<not> any_failed (cy_ctl sample_play_run)"
    by (simp add: any_failed_def sample_play_run_def new_controller_def sample_loaded_def fresh_items_def sample_parsed_def new_runtime_def)
  define K where "K z n h m = \<lparr>ck_sys = z, ck_clock = ck_clock ?k\<lparr>cl_reads := n, cl_heartbeat := Some (At h), cl_ticks := m\<rparr>\<rparr>"
    for z n h m
  define z where "z = ck_sys ?k"
  define y where "y = \<lparr>sy_sched = new_sched\<lparr>sc_reads := 1, sc_last := Some 0\<rparr>, sy_sys = sample_play_run\<rparr>"
  have start: "?k = K z 0 0 0" by (simp add: K_def z_def sample_clocked_def new_clock_def)
  have zy: "sy_sys z = sample_play_run" "sy_sys y = sample_play_run" by (simp_all add: z_def y_def sample_clocked_def)
  have run: "run_of (K x n h m) = sy_sys x" for x n h m by (simp add: K_def run_of_def)
  have gate: "require_healthy sample_run_env ?mon (K x n h m) = (Inr (), K x (Suc n) h m)"
    if "h = 0 \<or> h = 1" "sy_sys x = sample_play_run" for x n h m
  proof -
    have "sound_clock ?mon (K x n h m)"
      using that(1) by (auto simp: K_def sound_clock_def sample_clocked_def new_clock_def fresh_def reading_age_def age_of_def STALE_AFTER_def)
    moreover have "\<not> failing (K x n h m)" using idle that(2) by (simp add: failing_def run)
    ultimately show ?thesis by (subst require_healthy_ok) (simp_all add: K_def counted_def)
  qed
  have tick: "tick dp (\<lambda>_. 0) z = (Inr (ctl_elapsed (cy_ctl sample_play_run)), y)" for dp
    by (simp add: tick_def z_def sample_clocked_def y_def new_sched_def sample_play_run_def prog_simps get_ctl_run sched_runs)
  have sched: "scheduler_tick sample_run_env (\<lambda>_. 0) (K z n h m) = (Inr (ctl_elapsed (cy_ctl sample_play_run)), K y n h m)" for n h m
    by (simp add: scheduler_tick_def bindE_run on_run_ctl run clock_runs(3) K_def tick)
  have now: "read_clock_now ?mon (K x n h m) = (Inr (At 1), K x (Suc n) h m)" for x n h m
    by (simp add: read_clock_now_def bindE_run thenE_run clock_runs(1,2) K_def)
  have state: "ctl_state (cy_ctl sample_play_run) = Running" by (simp add: sample_play_run_def)
  have beat: "upd_clock (\<lambda>c. c\<lparr>cl_heartbeat := Some (At 1), cl_ticks := Suc (cl_ticks c)\<rparr>) (K x n h m) = (Inr (), K x n 1 (Suc m))" for x n h m
    by (simp add: clock_runs(2) K_def)
  have "supervised_tick sample_run_env (\<lambda>_. 0) ?mon (K z 0 0 0) = (Inr (), K y 4 1 1)"
    by (simp add: supervised_tick_def bindE_run thenE_run gate zy on_run_ctl run sched requireE_run state idle now beat eval_nat_numeral)
  then have k': "r = Inr ()" "k' = K y 4 1 1"
    using clock_tick_run [OF d(1,3), of sample_run_env "\<lambda>_. 0" ?mon] t by (simp_all add: start)
  then have "cl_fault (ck_clock k') = None" by (simp add: K_def sample_clocked_def new_clock_def)
  with sound_tick_is_one_tick [OF d t] obtain n where
    "tick (run_deps sample_run_env (ctl_definition (cy_ctl (run_of ?k)))) (\<lambda>_. 0) (ck_sys ?k) = (Inr n, ck_sys k')" by blast
  moreover have "run_of ?k = sample_play_run" by (simp add: start run zy)
  moreover have "cl_ticks (ck_clock k') = 1" "cl_heartbeat (ck_clock k') = Some (At 1)" by (simp_all add: k'(2) K_def)
  ultimately show ?thesis using t k'(1) by (intro exI [of _ k'] exI [of _ n]) simp
qed

end
