(* ===== verification/Json.thy ===== *)
theory Json
  imports PyData
begin

text \<open>
  \<open>json.loads\<close> on bytes: the value of a text and the round trip with \<open>json.dumps\<close>. An object keeps every pair, so that a
  caller may refuse duplicates. A number with a fraction or an exponent is no value of the model, and neither are the
  constants that JSON does not have; both are refused.
\<close>

section \<open>Parsing\<close>

definition json_space :: "char \<Rightarrow> bool" where
  "json_space c \<longleftrightarrow> c = CHR 0x20 \<or> c = CHR 0x09 \<or> c = CHR 0x0A \<or> c = CHR 0x0D"

definition skip_space :: "string \<Rightarrow> string" where
  "skip_space s = dropWhile json_space s"

definition hex_value :: "char \<Rightarrow> nat option" where
  "hex_value c = map_of (zip (HEX_DIGITS @ ''ABCDEF'') ([0..<16] @ [10..<16])) c"

definition hex4 :: "string \<Rightarrow> nat option" where
  "hex4 s = (case s of [a, b, c, d] \<Rightarrow>
      (case (hex_value a, hex_value b, hex_value c, hex_value d) of
         (Some w, Some x, Some y, Some z) \<Rightarrow> Some (((w * 16 + x) * 16 + y) * 16 + z) | _ \<Rightarrow> None)
    | _ \<Rightarrow> None)"

text \<open>The bytes of a character outside the surrogates.\<close>

definition utf8 :: "nat \<Rightarrow> string" where
  "utf8 n = map char_of
    (if n < 0x80 then [n]
     else if n < 0x800 then [0xC0 + n div 64, 0x80 + n mod 64]
     else if n < 0x10000 then [0xE0 + n div 4096, 0x80 + n div 64 mod 64, 0x80 + n mod 64]
     else [0xF0 + n div 262144, 0x80 + n div 4096 mod 64, 0x80 + n div 64 mod 64, 0x80 + n mod 64])"

definition simple_escape :: "char \<Rightarrow> string option" where
  "simple_escape c = map_of [(CHR 0x22, [CHR 0x22]), (CHR 0x5C, [CHR 0x5C]), (CHR ''/'', ''/''), (CHR ''b'', [CHR 0x08]),
     (CHR ''f'', [CHR 0x0C]), (CHR ''n'', [CHR 0x0A]), (CHR ''r'', [CHR 0x0D]), (CHR ''t'', [CHR 0x09])] c"

text \<open>One numeric escape, or a pair of surrogates: its bytes and what follows. A surrogate alone has no bytes.\<close>

definition numeric_escape :: "string \<Rightarrow> (string \<times> string) option" where
  "numeric_escape s = (case hex4 (take 4 s) of None \<Rightarrow> None | Some n \<Rightarrow>
     if n < 0xD800 \<or> 0xDFFF < n then Some (utf8 n, drop 4 s)
     else if n < 0xDC00 \<and> take 2 (drop 4 s) = [CHR 0x5C, CHR ''u''] then
       (case hex4 (take 4 (drop 6 s)) of None \<Rightarrow> None | Some m \<Rightarrow>
          if 0xDC00 \<le> m \<and> m \<le> 0xDFFF then Some (utf8 (0x10000 + (n - 0xD800) * 0x400 + (m - 0xDC00)), drop 10 s) else None)
     else None)"

text \<open>The rest of a string after its first quotation mark: the text and what follows the closing mark.\<close>

function parse_string :: "string \<Rightarrow> (string \<times> string) option" where
  "parse_string [] = None"
| "parse_string (c # s) =
    (if c = CHR 0x22 then Some ([], s)
     else if c = CHR 0x5C then (case s of [] \<Rightarrow> None | e # s' \<Rightarrow>
       (if e = CHR ''u'' then (case numeric_escape s' of None \<Rightarrow> None
          | Some (t, r) \<Rightarrow> map_option (map_prod ((@) t) id) (parse_string (drop (length s' - length r) s')))
        else (case simple_escape e of None \<Rightarrow> None | Some t \<Rightarrow> map_option (map_prod ((@) t) id) (parse_string s'))))
     else if (of_char c :: nat) < 32 then None
     else map_option (map_prod ((#) c) id) (parse_string s))"
  by pat_completeness auto
termination by (relation "measure length") auto

declare parse_string.simps [simp del]

text \<open>An integer: no leading zero, no fraction, no exponent.\<close>

definition parse_nat :: "string \<Rightarrow> (nat \<times> string) option" where
  "parse_nat s = (let ds = takeWhile is_digit s; rest = dropWhile is_digit s in
     if ds = [] \<or> (hd ds = CHR ''0'' \<and> ds \<noteq> ''0'') \<or> (rest \<noteq> [] \<and> hd rest \<in> set ''.eE'') then None
     else Some (digits_value ds, rest))"

definition parse_int :: "string \<Rightarrow> (val \<times> string) option" where
  "parse_int s = (case s of
     c # r \<Rightarrow> if c = CHR ''-'' then map_option (map_prod (\<lambda>n. VInt (- int n)) id) (parse_nat r)
       else map_option (map_prod (\<lambda>n. VInt (int n)) id) (parse_nat s)
   | [] \<Rightarrow> None)"

definition literal :: "string \<Rightarrow> val \<Rightarrow> string \<Rightarrow> (val \<times> string) option" where
  "literal name v s = (if starts_with name s then Some (v, drop (length name) s) else None)"

text \<open>Values, the elements of a list after its bracket, the members of an object after its brace; the fuel bounds the calls.\<close>

fun parse_value :: "nat \<Rightarrow> string \<Rightarrow> (val \<times> string) option"
  and parse_elements :: "nat \<Rightarrow> string \<Rightarrow> (val list \<times> string) option"
  and parse_members :: "nat \<Rightarrow> string \<Rightarrow> (row \<times> string) option" where
  "parse_value 0 s = None"
| "parse_value (Suc n) s = (case skip_space s of
     [] \<Rightarrow> None
   | c # r \<Rightarrow>
      if c = CHR 0x22 then map_option (map_prod VStr id) (parse_string r)
      else if c = CHR ''['' then
        (case skip_space r of [] \<Rightarrow> None | d # r' \<Rightarrow> if d = CHR '']'' then Some (VList [], r')
           else map_option (map_prod VList id) (parse_elements n r))
      else if c = CHR 0x7B then
        (case skip_space r of [] \<Rightarrow> None | d # r' \<Rightarrow> if d = CHR 0x7D then Some (VDict [], r')
           else map_option (map_prod VDict id) (parse_members n r))
      else if c = CHR ''n'' then literal ''null'' VNone (c # r)
      else if c = CHR ''t'' then literal ''true'' (VBool True) (c # r)
      else if c = CHR ''f'' then literal ''false'' (VBool False) (c # r)
      else parse_int (c # r))"
| "parse_elements 0 s = None"
| "parse_elements (Suc n) s = (case parse_value n s of None \<Rightarrow> None | Some (v, r) \<Rightarrow>
     (case skip_space r of [] \<Rightarrow> None | d # r' \<Rightarrow>
        if d = CHR '']'' then Some ([v], r')
        else if d = CHR '','' then map_option (map_prod ((#) v) id) (parse_elements n r') else None))"
| "parse_members 0 s = None"
| "parse_members (Suc n) s = (case skip_space s of [] \<Rightarrow> None | q # t \<Rightarrow> if q \<noteq> CHR 0x22 then None else
     (case parse_string t of None \<Rightarrow> None | Some (k, t') \<Rightarrow>
     (case skip_space t' of [] \<Rightarrow> None | colon # u \<Rightarrow> if colon \<noteq> CHR '':'' then None else
     (case parse_value n u of None \<Rightarrow> None | Some (v, r) \<Rightarrow>
     (case skip_space r of [] \<Rightarrow> None | d # r' \<Rightarrow>
        if d = CHR 0x7D then Some ([(k, v)], r')
        else if d = CHR '','' then map_option (map_prod ((#) (k, v)) id) (parse_members n r') else None)))))"

definition json_loads :: "string \<Rightarrow> exc + val" where
  "json_loads s = (case parse_value (2 * length s + 1) s of
     Some (v, r) \<Rightarrow> if skip_space r = [] then Inr v else Inl (OtherError ''JSONDecodeError'' ''Extra data'')
   | None \<Rightarrow> Inl (OtherError ''JSONDecodeError'' ''Expecting value''))"

text \<open>What a round trip makes of a value: lists for tuples, and the members of every object in the order of their keys.\<close>

primrec json_value :: "val \<Rightarrow> val" where
  "json_value VNone = VNone"
| "json_value (VBool b) = VBool b"
| "json_value (VInt n) = VInt n"
| "json_value (VStr s) = VStr s"
| "json_value (VList xs) = VList (map json_value xs)"
| "json_value (VTuple xs) = VList (map json_value xs)"
| "json_value (VDict d) = VDict (sort_key fst (map (map_prod id json_value) d))"


section \<open>The round trip\<close>

lemma less_16_cases:
  fixes n :: nat
  shows "n < 16 \<longleftrightarrow> n < 10 \<or> n = 10 \<or> n = 11 \<or> n = 12 \<or> n = 13 \<or> n = 14 \<or> n = 15"
  by arith

lemma hex_value_nth: "n < 16 \<Longrightarrow> hex_value (HEX_DIGITS ! n) = Some n"
  unfolding less_16_cases less_10_cases by (elim disjE) (simp_all add: hex_value_def HEX_DIGITS_def upt_rec)

lemma hex_value_0: "hex_value (CHR ''0'') = Some 0"
  by (simp add: hex_value_def HEX_DIGITS_def upt_rec)

lemma parse_string_numeric:
  assumes "numeric_escape s = Some (t, drop k s)"
  shows "parse_string (CHR 0x5C # CHR ''u'' # s) = map_option (map_prod ((@) t) id) (parse_string (drop k s))"
proof -
  have "drop (length s - (length s - k)) s = drop k s" by (cases "k \<le> length s") simp_all
  with assms show ?thesis by (simp add: parse_string.simps)
qed

lemma numeric_escape_low:
  assumes "n < 128"
  shows "numeric_escape (''00'' @ [HEX_DIGITS ! (n div 16), HEX_DIGITS ! (n mod 16)] @ s) = Some ([char_of n], s)"
proof -
  have "n div 16 < 16" "n mod 16 < 16" using assms by simp_all
  then have "hex4 (''00'' @ [HEX_DIGITS ! (n div 16), HEX_DIGITS ! (n mod 16)]) = Some n"
    by (simp add: hex4_def hex_value_nth hex_value_0)
  then show ?thesis using assms by (simp add: numeric_escape_def utf8_def)
qed

lemma parse_string_simple: "simple_escape e = Some t \<Longrightarrow> e \<noteq> CHR ''u''
    \<Longrightarrow> parse_string (CHR 0x5C # e # s) = map_option (map_prod ((@) t) id) (parse_string s)"
  by (subst parse_string.simps) simp

lemma append_one: "(@) [c] = (#) c"
  by (rule ext) simp

lemma parse_json_char: "parse_string (json_char c @ s) = map_option (map_prod ((#) c) id) (parse_string s)"
proof (cases "c \<in> set [CHR 0x22, CHR 0x5C, CHR 0x0A, CHR 0x0D, CHR 0x09, CHR 0x08, CHR 0x0C]")
  case True
  then consider "c = CHR 0x22" | "c = CHR 0x5C" | "c = CHR 0x0A" | "c = CHR 0x0D" | "c = CHR 0x09" | "c = CHR 0x08" | "c = CHR 0x0C"
    by auto
  then show ?thesis
    by cases (simp_all add: json_char_def parse_string_simple [of _ "[_]"] append_one simple_escape_def)
next
  case False
  show ?thesis
  proof (cases "(of_char c :: nat) < 32 \<or> c = CHR 0x7F")
    case True
    let ?n = "of_char c :: nat"
    have "?n < 128" using True by auto
    from numeric_escape_low [OF this, of s]
    have "numeric_escape (''00'' @ [HEX_DIGITS ! (?n div 16), HEX_DIGITS ! (?n mod 16)] @ s)
        = Some ([c], drop 4 (''00'' @ [HEX_DIGITS ! (?n div 16), HEX_DIGITS ! (?n mod 16)] @ s))" by simp
    from parse_string_numeric [OF this] True False show ?thesis by (simp add: json_char_def append_one)
  next
    case ordinary: False
    with False show ?thesis by (simp add: json_char_def parse_string.simps)
  qed
qed

lemma parse_json_chars: "parse_string (concat (map json_char s) @ CHR 0x22 # r) = Some (s, r)"
proof (induction s)
  case Nil
  show ?case by (simp add: parse_string.simps(2))
next
  case (Cons c s)
  then show ?case by (simp only: list.map concat.simps append_assoc parse_json_char) simp
qed

definition stops :: "string \<Rightarrow> bool" where
  "stops r \<longleftrightarrow> r = [] \<or> \<not> is_digit (hd r) \<and> hd r \<notin> set ''.eE''"

lemma nat_str_head: "n \<noteq> 0 \<Longrightarrow> hd (nat_str n) \<noteq> CHR ''0''"
proof (induction n rule: nat_str.induct)
  case (1 n)
  show ?case
  proof (cases "n < 10")
    case True
    with "1.prems" show ?thesis unfolding less_10_cases by (elim disjE) (simp_all add: nat_str.simps digits09_def)
  next
    case False
    with "1.IH" show ?thesis by (subst nat_str.simps) (simp add: hd_append)
  qed
qed

lemma parse_nat_str: "stops r \<Longrightarrow> parse_nat (nat_str n @ r) = Some (n, r)"
proof -
  assume r: "stops r"
  have d: "\<forall>c\<in>set (nat_str n). is_digit c" using nat_str_digits [of n] by (simp add: list_all_iff)
  have "takeWhile is_digit r = []" "dropWhile is_digit r = r"
    using r by (cases r; simp add: stops_def)+
  then have "takeWhile is_digit (nat_str n @ r) = nat_str n" "dropWhile is_digit (nat_str n @ r) = r"
    using d by (simp_all add: takeWhile_append2 dropWhile_append2)
  moreover have "hd (nat_str n) = CHR ''0'' \<Longrightarrow> nat_str n = ''0''"
    using nat_str_head [of n] by (cases "n = 0") (simp_all add: nat_str.simps digits09_def)
  ultimately show ?thesis
    using r by (auto simp: parse_nat_def Let_def digits_value_nat_str stops_def)
qed

lemma digit_range: "is_digit c \<Longrightarrow> c \<noteq> CHR ''-'' \<and> \<not> json_space c \<and> c \<notin> set [CHR 0x22, CHR ''['', CHR '']'', CHR 0x7B, CHR 0x7D, CHR ''n'', CHR ''t'', CHR ''f'']"
  by (auto simp: is_digit_def digits09_def json_space_def)

lemma nat_str_hd: "is_digit (hd (nat_str n))"
  using nat_str_digits [of n] by (cases "nat_str n") simp_all

lemma parse_int_str: "stops r \<Longrightarrow> parse_int (int_str i @ r) = Some (VInt i, r)"
  using digit_range [OF nat_str_hd [of "nat i"]] parse_nat_str [of r "nat i"] parse_nat_str [of r "nat (- i)"]
  by (cases "nat_str (nat i)") (auto simp: parse_int_def int_str_def)

lemma int_str_hd: "int_str i \<noteq> [] \<and> (hd (int_str i) = CHR ''-'' \<or> is_digit (hd (int_str i)))"
  by (simp add: int_str_def nat_str_hd)

definition value_head :: "char \<Rightarrow> bool" where
  "value_head c \<longleftrightarrow> \<not> json_space c \<and> c \<noteq> CHR '']'' \<and> c \<noteq> CHR 0x7D"

lemma dumps_head: "json_dumps v \<noteq> [] \<and> value_head (hd (json_dumps v))"
proof (cases v)
  case (VInt i)
  with int_str_hd [of i] digit_range [of "hd (int_str i)"] show ?thesis
    by (auto simp: value_head_def json_space_def)
qed (auto simp: value_head_def json_space_def json_quote_def)

text \<open>A text stands for a value if it is read as the value wherever it may end.\<close>

definition reads :: "string \<Rightarrow> val \<Rightarrow> bool" where
  "reads t v \<longleftrightarrow> t \<noteq> [] \<and> value_head (hd t)
     \<and> (\<forall>n r. 2 * length t \<le> n \<longrightarrow> stops r \<longrightarrow> parse_value n (t @ r) = Some (v, r))"

lemma reads_run: "reads t v \<Longrightarrow> 2 * length t \<le> n \<Longrightarrow> stops r \<Longrightarrow> parse_value n (t @ r) = Some (v, r)"
  by (simp add: reads_def)

lemma stops_marks: "stops (CHR '','' # r)" "stops (CHR '']'' # r)" "stops (CHR 0x7D # r)" "stops (CHR 0x0A # r)" "stops []"
  by (simp_all add: stops_def is_digit_def digits09_def)

lemma skip_marks: "skip_space (CHR '','' # r) = CHR '','' # r" "skip_space (CHR '']'' # r) = CHR '']'' # r"
  "skip_space (CHR 0x7D # r) = CHR 0x7D # r" "skip_space (CHR 0x22 # r) = CHR 0x22 # r" "skip_space (CHR '':'' # r) = CHR '':'' # r"
  by (simp_all add: skip_space_def json_space_def)

lemma skip_head: "t \<noteq> [] \<Longrightarrow> value_head (hd t) \<Longrightarrow> skip_space (t @ r) = t @ r"
  by (cases t) (simp_all add: skip_space_def value_head_def)

lemma parse_elements_join:
  "list_all2 reads ts vs \<Longrightarrow> ts \<noteq> [] \<Longrightarrow> 2 * length (join '','' ts) + 1 \<le> n
    \<Longrightarrow> parse_elements n (join '','' ts @ CHR '']'' # r) = Some (vs, r)"
proof (induction ts arbitrary: vs n)
  case (Cons t ts)
  from Cons.prems(1) obtain v ws where vs: "vs = v # ws" "reads t v" "list_all2 reads ts ws" by (auto simp: list_all2_Cons1)
  obtain m where n: "n = Suc m" using Cons.prems(3) by (cases n) auto
  show ?case
  proof (cases ts)
    case Nil
    with vs Cons.prems(3) n reads_run [OF vs(2), of m "CHR '']'' # r"] show ?thesis by (simp add: stops_marks skip_marks)
  next
    case (Cons u us)
    then have j: "join '','' (t # ts) = t @ '','' @ join '','' ts" by simp
    have "parse_elements m (join '','' ts @ CHR '']'' # r) = Some (ws, r)"
      using Cons Cons.prems(3) n by (intro Cons.IH [OF vs(3)]) (simp_all add: j)
    moreover have "parse_value m (t @ CHR '','' # join '','' ts @ CHR '']'' # r) = Some (v, CHR '','' # join '','' ts @ CHR '']'' # r)"
      using Cons.prems(3) n by (intro reads_run [OF vs(2)]) (simp_all add: j stops_marks)
    ultimately show ?thesis by (simp add: j n vs(1) skip_marks)
  qed
qed simp

lemma parse_members_join:
  "list_all2 (\<lambda>kt kv. fst kt = fst kv \<and> reads (snd kt) (snd kv)) ts vs \<Longrightarrow> ts \<noteq> []
    \<Longrightarrow> 2 * length (join '','' (map json_member ts)) + 1 \<le> n
    \<Longrightarrow> parse_members n (join '','' (map json_member ts) @ CHR 0x7D # r) = Some (vs, r)"
proof (induction ts arbitrary: vs n)
  case (Cons t ts)
  from Cons.prems(1) obtain kv ws where vs: "vs = kv # ws" "fst t = fst kv" "reads (snd t) (snd kv)"
    "list_all2 (\<lambda>kt kv. fst kt = fst kv \<and> reads (snd kt) (snd kv)) ts ws" by (auto simp: list_all2_Cons1)
  obtain m where n: "n = Suc m" using Cons.prems(3) by (cases n) auto
  show ?case
  proof (cases ts)
    case Nil
    with vs Cons.prems(3) n reads_run [OF vs(3), of m "CHR 0x7D # r"] show ?thesis
      by (simp add: stops_marks skip_marks json_member_def json_quote_def parse_json_chars)
  next
    case (Cons u us)
    define more where "more = join '','' (map json_member ts)"
    from Cons have j: "join '','' (map json_member (t # ts)) = json_member t @ '','' @ more" by (simp add: more_def)
    have len: "length (json_member t) + length more + 1 \<le> m \<and> 2 * length more + 1 \<le> m \<and> 2 * length (snd t) \<le> m"
      using Cons.prems(3) n unfolding j by (simp add: json_member_def)
    have "parse_members m (more @ CHR 0x7D # r) = Some (ws, r)"
      unfolding more_def using Cons len by (intro Cons.IH [OF vs(4)]) (simp_all add: more_def)
    moreover have "parse_value m (snd t @ CHR '','' # more @ CHR 0x7D # r) = Some (snd kv, CHR '','' # more @ CHR 0x7D # r)"
      using len by (intro reads_run [OF vs(3)]) (simp_all add: stops_marks)
    ultimately show ?thesis
      using vs(2) unfolding j by (simp add: n vs(1) skip_marks json_member_def json_quote_def parse_json_chars)
  qed
qed simp

lemma insort_key_map_prod: "insort_key fst (map_prod id f x) (map (map_prod id f) d) = map (map_prod id f) (insort_key fst x d)"
  by (induction d) auto

lemma sort_key_map_prod: "sort_key fst (map (map_prod id f) d) = map (map_prod id f) (sort_key fst d)"
proof (induction d)
  case (Cons x d)
  then show ?case by (simp only: list.map sort_key_simps insort_key_map_prod)
qed simp

lemma reads_list:
  assumes "list_all2 reads ts vs"
  shows "reads (''['' @ join '','' ts @ '']'') (VList vs)"
proof -
  have "parse_value n (''['' @ (join '','' ts @ '']'') @ r) = Some (VList vs, r)" if n: "2 * length (''['' @ join '','' ts @ '']'') \<le> n" for n r
  proof (cases ts)
    case Nil
    with assms n show ?thesis by (cases n) (simp_all add: skip_marks, simp add: skip_space_def json_space_def)
  next
    case (Cons t us)
    obtain m where m: "n = Suc m" using n by (cases n) auto
    have "t \<noteq> [] \<and> value_head (hd t)" using assms Cons by (auto simp: list_all2_Cons1 reads_def)
    moreover obtain w where "join '','' ts = t @ w" using Cons by (cases us) auto
    ultimately obtain c rest where h: "join '','' ts = c # rest" "value_head c" by (cases t) auto
    have e: "parse_elements m (join '','' ts @ CHR '']'' # r) = Some (vs, r)"
      using Cons n m by (intro parse_elements_join [OF assms]) simp_all
    have "skip_space (CHR ''['' # x) = CHR ''['' # x" for x by (simp add: skip_space_def json_space_def)
    moreover have "skip_space (join '','' ts @ CHR '']'' # r) = c # rest @ CHR '']'' # r" using h by (simp add: skip_space_def value_head_def)
    ultimately show ?thesis using e h by (simp add: m value_head_def)
  qed
  then show ?thesis by (simp add: reads_def value_head_def json_space_def)
qed

lemma reads_dict:
  assumes "list_all2 (\<lambda>kt kv. fst kt = fst kv \<and> reads (snd kt) (snd kv)) ts vs"
  shows "reads (CHR 0x7B # join '','' (map json_member ts) @ [CHR 0x7D]) (VDict vs)"
proof -
  let ?t = "join '','' (map json_member ts)"
  have sk: "skip_space (CHR 0x7B # x) = CHR 0x7B # x" for x by (simp add: skip_space_def json_space_def)
  have "parse_value n (CHR 0x7B # (?t @ [CHR 0x7D]) @ r) = Some (VDict vs, r)" if n: "2 * length (CHR 0x7B # ?t @ [CHR 0x7D]) \<le> n" for n r
  proof (cases ts)
    case Nil
    with assms n show ?thesis by (cases n) (simp_all add: skip_marks sk)
  next
    case (Cons t us)
    obtain m where m: "n = Suc m" using n by (cases n) auto
    obtain rest where h: "?t = CHR 0x22 # rest" using Cons by (cases us) (simp_all add: json_member_def json_quote_def)
    have e: "parse_members m (?t @ CHR 0x7D # r) = Some (vs, r)"
      using Cons n m by (intro parse_members_join [OF assms]) simp_all
    have "skip_space (?t @ CHR 0x7D # r) = CHR 0x22 # rest @ CHR 0x7D # r" using h by (simp add: skip_marks)
    then show ?thesis using e h by (simp add: m sk)
  qed
  then show ?thesis by (simp add: reads_def value_head_def json_space_def)
qed

lemma literals:
  "0 < n \<Longrightarrow> parse_value n (CHR ''n'' # CHR ''u'' # CHR ''l'' # CHR ''l'' # r) = Some (VNone, r)"
  "0 < n \<Longrightarrow> parse_value n (CHR ''t'' # CHR ''r'' # CHR ''u'' # CHR ''e'' # r) = Some (VBool True, r)"
  "0 < n \<Longrightarrow> parse_value n (CHR ''f'' # CHR ''a'' # CHR ''l'' # CHR ''s'' # CHR ''e'' # r) = Some (VBool False, r)"
  by (cases n; simp add: skip_space_def json_space_def literal_def starts_with_def)+

lemma reads_dumps: "reads (json_dumps v) (json_value v)"
proof (induction v)
  case (VInt i)
  have sk: "skip_space (int_str i @ r) = int_str i @ r" for r
    using dumps_head [of "VInt i"] by (simp add: skip_head)
  have "parse_value n (int_str i @ r) = Some (VInt i, r)" if fuel: "2 * length (int_str i) \<le> n" "stops r" for n r
  proof -
    obtain c cs where c: "int_str i = c # cs" "c = CHR ''-'' \<or> is_digit c" using int_str_hd [of i] by (cases "int_str i") auto
    obtain m where m: "n = Suc m" using fuel(1) unfolding c(1) by (cases n) simp_all
    show ?thesis using sk [of r] parse_int_str [OF fuel(2), of i] c digit_range [of c] by (auto simp: m)
  qed
  then show ?case using dumps_head [of "VInt i"] by (simp add: reads_def)
next
  case (VStr s)
  have "parse_value n (json_quote s @ r) = Some (VStr s, r)" if "2 * length (json_quote s) \<le> n" for n r
    using that by (cases n) (simp_all add: json_quote_def skip_marks parse_json_chars)
  then show ?case using dumps_head [of "VStr s"] by (simp add: reads_def)
next
  case (VList xs)
  then have "list_all2 reads (map json_dumps xs) (map json_value xs)" by (simp add: list_all2_map1 list_all2_map2 list_all2_same)
  from reads_list [OF this] show ?case by simp
next
  case (VTuple xs)
  then have "list_all2 reads (map json_dumps xs) (map json_value xs)" by (simp add: list_all2_map1 list_all2_map2 list_all2_same)
  from reads_list [OF this] show ?case by simp
next
  case (VDict d)
  have "reads (json_dumps (snd kv)) (json_value (snd kv))" if "kv \<in> set d" for kv
    using VDict [of kv "snd kv"] that by (cases kv) auto
  then have "list_all2 (\<lambda>kt kv. fst kt = fst kv \<and> reads (snd kt) (snd kv))
      (map (map_prod id json_dumps) (sort_key fst d)) (map (map_prod id json_value) (sort_key fst d))"
    by (simp add: list_all2_map1 list_all2_map2 list_all2_same)
  from reads_dict [OF this] show ?case by (simp add: sort_key_map_prod)
qed (auto simp: reads_def value_head_def json_space_def intro: literals)

theorem json_round_trip: "json_loads (json_dumps v @ [CHR 0x0A]) = Inr (json_value v)" "json_loads (json_dumps v) = Inr (json_value v)"
proof -
  have "parse_value n (json_dumps v @ r) = Some (json_value v, r)" if "2 * length (json_dumps v) \<le> n" "stops r" for n r
    by (rule reads_run [OF reads_dumps that])
  from this [of _ "[CHR 0x0A]"] this [of _ "[]"]
  show "json_loads (json_dumps v @ [CHR 0x0A]) = Inr (json_value v)" "json_loads (json_dumps v) = Inr (json_value v)"
    by (simp_all only: json_loads_def) (simp_all add: stops_marks skip_space_def json_space_def del: parse_value.simps)
qed

end
