(* ===== verification/EventSpool.thy ===== *)
theory EventSpool
  imports Store Json "HOL-Library.Word" "HOL-Library.Sublist"
begin

unbundle bit_operations_syntax

text \<open>
  \<^verbatim>\<open>dashboard/event_spool.py\<close>: the publication of an exercise's events from the portal's database to a directory of
  batches. The directory is a tree of nodes with their mode bits. A call of the operating system is one step, and the process
  may be killed before any step, or in the middle of a write; what the steps before did stays. SHA-256 is \<open>e_sha256\<close>, and
  \<open>uuid4().hex\<close> the sequence \<open>ids\<close>. The umask takes no bit from the owner.
\<close>

section \<open>Values and files\<close>

definition VERSION :: string where "VERSION = ''1.0.0''"
definition MAX_EVENT_SIZE :: nat where "MAX_EVENT_SIZE = 256 * 1024"
definition MAX_BATCH_SIZE :: nat where "MAX_BATCH_SIZE = 20 * 1024 * 1024"

definition spool_error :: "string \<Rightarrow> exc" where
  "spool_error message = OtherError ''SpoolError'' message"

definition json_line :: "val \<Rightarrow> string" where
  "json_line v = json_dumps v @ [CHR 0x0A]"

text \<open>\<open>_pairs\<close> and \<open>_load\<close>.\<close>

definition unique_pairs :: "val \<Rightarrow> exc + val" where
  "unique_pairs v = (if wf_val v then Inr v else Inl (spool_error ''duplicate JSON field''))"

definition spool_load :: "string \<Rightarrow> exc + val" where
  "spool_load s = bindR (json_loads s) unique_pairs"

text \<open>A node: a file with its mode bits, its number of links and its bytes, a directory, a link (does its target exist?), or
  something else.\<close>

type_synonym mode = "12 word"

datatype spool_node = SFile mode nat string | SDir mode "spool_node dict" | SLink bool | SSpecial

definition os_error :: "exc + 'a" where
  "os_error = Inl (OtherError ''OSError'' [])"

definition no_file :: "exc + 'a" where
  "no_file = Inl (OtherError ''FileNotFoundError'' [])"

definition safe_file :: "spool_node option \<Rightarrow> nat \<Rightarrow> exc + string" where
  "safe_file file maximum = (case file of
     None \<Rightarrow> no_file
   | Some (SLink _) \<Rightarrow> os_error
   | Some (SFile m links content) \<Rightarrow>
       bindR (requireR (\<not> (maximum < length content \<or> links \<noteq> 1)) (spool_error ''unsafe or oversized spool file'')) (\<lambda>_.
       bindR (requireR (\<not> (m AND 7 \<noteq> 0 \<or> m AND 16 \<noteq> 0)) (spool_error ''spool files must be private and not group-writable'')) (\<lambda>_.
         Inr content))
   | Some _ \<Rightarrow> Inl (spool_error ''unsafe or oversized spool file''))"

definition spool_directory :: "spool_node \<Rightarrow> exc + spool_node dict" where
  "spool_directory node = (case node of
     SDir m es \<Rightarrow> if m AND 23 \<noteq> 0 then Inl (spool_error ''spool directories must be private and not group-writable'') else Inr es
   | _ \<Rightarrow> Inl (spool_error ''spool directories must be private and not group-writable''))"

text \<open>\<open>_path\<close>; \<open>resolve\<close> is \<open>resolve(strict=True)\<close> of the parent directory.\<close>

definition local_path :: "(string list \<Rightarrow> exc + string list) \<Rightarrow> string list \<Rightarrow> exc + string list" where
  "local_path resolve p = (if ''..'' \<in> set p \<or> p = [] then Inl (spool_error ''invalid local path'')
     else bindR (resolve (butlast p)) (\<lambda>parent. Inr (parent @ [List.last p])))"

section \<open>Checkpoints\<close>

text \<open>\<open>_state\<close>: the parts that vary; version and exercise are added when it is written.\<close>

record spool_state =
  ss_cursor :: int
  ss_count :: int
  ss_digest :: string

definition empty_state :: "env \<Rightarrow> spool_state" where
  "empty_state env = \<lparr>ss_cursor = 0, ss_count = 0, ss_digest = e_sha256 env []\<rparr>"

definition state_val :: "string \<Rightarrow> spool_state \<Rightarrow> val" where
  "state_val exercise st = VDict [(''version'', VStr VERSION), (''exercise_id'', VStr exercise), (''cursor'', VInt (ss_cursor st)),
     (''event_count'', VInt (ss_count st)), (''prefix_sha256'', VStr (ss_digest st))]"

definition STATE_KEYS :: "string list" where
  "STATE_KEYS = [''version'', ''exercise_id'', ''cursor'', ''event_count'', ''prefix_sha256'']"

definition hex64 :: "string \<Rightarrow> bool" where
  "hex64 s \<longleftrightarrow> length s = 64 \<and> list_all lower_hex s"

definition digest_of :: "val \<Rightarrow> string option" where
  "digest_of v = (case v of VStr s \<Rightarrow> if hex64 s then Some s else None | _ \<Rightarrow> None)"

text \<open>\<open>_check_state\<close>, with the state it lets pass.\<close>

definition check_state :: "env \<Rightarrow> string \<Rightarrow> val \<Rightarrow> exc + spool_state" where
  "check_state env exercise v = (case v of
     VDict d \<Rightarrow>
       bindR (requireR (keys_are d STATE_KEYS) (spool_error ''invalid publication checkpoint'')) (\<lambda>_.
       bindR (requireR (val_eq (get_or d ''version'' VNone) (VStr VERSION) \<and> val_eq (get_or d ''exercise_id'' VNone) (VStr exercise))
         (spool_error ''incompatible publication scope'')) (\<lambda>_.
       (case (strict_int (get_or d ''cursor'' VNone), strict_int (get_or d ''event_count'' VNone)) of
          (Some cursor, Some count) \<Rightarrow>
            bindR (requireR (0 \<le> cursor \<and> 0 \<le> count) (spool_error ''invalid checkpoint counters'')) (\<lambda>_.
            (case digest_of (get_or d ''prefix_sha256'' VNone) of
               None \<Rightarrow> Inl (spool_error ''invalid checkpoint digest'')
             | Some digest \<Rightarrow>
                 bindR (requireR (count \<le> cursor) (spool_error ''invalid checkpoint digest'')) (\<lambda>_.
                 (let st = \<lparr>ss_cursor = cursor, ss_count = count, ss_digest = digest\<rparr> in
                 bindR (requireR (\<not> (count = 0 \<and> st \<noteq> empty_state env)) (spool_error ''invalid empty checkpoint'')) (\<lambda>_. Inr st)))))
        | _ \<Rightarrow> Inl (spool_error ''invalid checkpoint counters''))))
   | _ \<Rightarrow> Inl (spool_error ''invalid publication checkpoint''))"

section \<open>Batches\<close>

record manifest =
  mf_previous :: spool_state
  mf_next :: spool_state
  mf_first :: int
  mf_count :: int
  mf_bytes :: int
  mf_sha :: string

definition MANIFEST_KEYS :: "string list" where
  "MANIFEST_KEYS = [''version'', ''exercise_id'', ''previous'', ''next'', ''first_cursor'', ''event_count'', ''bytes'', ''events_sha256'']"

definition manifest_val :: "string \<Rightarrow> manifest \<Rightarrow> val" where
  "manifest_val exercise m = VDict [(''version'', VStr VERSION), (''exercise_id'', VStr exercise),
     (''previous'', state_val exercise (mf_previous m)), (''next'', state_val exercise (mf_next m)),
     (''first_cursor'', VInt (mf_first m)), (''event_count'', VInt (mf_count m)), (''bytes'', VInt (mf_bytes m)),
     (''events_sha256'', VStr (mf_sha m))]"

definition batch_name_of :: "int \<Rightarrow> int \<Rightarrow> string" where
  "batch_name_of first cursor = ''batch-'' @ pad0 20 first @ ''-'' @ pad0 20 cursor"

text \<open>\<open>set(v)\<close> of a loaded value.\<close>

definition elements_of :: "val \<Rightarrow> exc + val list" where
  "elements_of v = (case v of
     VDict d \<Rightarrow> Inr (map (VStr \<circ> fst) d)
   | VStr s \<Rightarrow> Inr (map (\<lambda>c. VStr [c]) s)
   | VList xs \<Rightarrow> if list_ex unhashable xs then Inl (TypeError []) else Inr xs
   | VTuple xs \<Rightarrow> if list_ex unhashable xs then Inl (TypeError []) else Inr xs
   | _ \<Rightarrow> Inl (TypeError []))"

text \<open>\<open>bytes.splitlines()\<close>.\<close>

fun split_lines :: "string \<Rightarrow> string list" where
  "split_lines [] = []"
| "split_lines (c # s) =
    (if c = CHR 0x0A then [] # split_lines s
     else if c = CHR 0x0D then (case s of [] \<Rightarrow> [[]] | d # s' \<Rightarrow> if d = CHR 0x0A then [] # split_lines s' else [] # split_lines (d # s'))
     else (case split_lines s of [] \<Rightarrow> [[c]] | l # ls \<Rightarrow> (c # l) # ls))"

definition batch_counters :: "row \<Rightarrow> exc + (int \<times> int \<times> int)" where
  "batch_counters d =
    (case (strict_int (get_or d ''first_cursor'' VNone), strict_int (get_or d ''event_count'' VNone), strict_int (get_or d ''bytes'' VNone)) of
       (Some first, Some count, Some bytes) \<Rightarrow> Inr (first, count, bytes)
     | _ \<Rightarrow> Inl (spool_error ''invalid batch counters''))"

text \<open>The version and the exercise of \<open>next\<close> are those of the checkpoint that \<open>_check_state\<close> let pass, so the test of the
  batch's scope and of its second digest cannot fail there.\<close>

definition spool_batch :: "env \<Rightarrow> string \<Rightarrow> string \<Rightarrow> spool_node dict \<Rightarrow> spool_state \<Rightarrow> exc + manifest" where
  "spool_batch env exercise name files previous =
    bindR (requireR (keys_are files [''manifest.json'', ''events.jsonl'']) (spool_error ''unexpected batch contents'')) (\<lambda>_.
    bindR (bindR (safe_file (map_of files ''manifest.json'') 4096) spool_load) (\<lambda>loaded.
    bindR (safe_file (map_of files ''events.jsonl'') MAX_BATCH_SIZE) (\<lambda>content.
    bindR (elements_of loaded) (\<lambda>fields.
    bindR (requireR (set fields = VStr ` set MANIFEST_KEYS) (spool_error ''invalid batch manifest'')) (\<lambda>_.
    bindR (item_of loaded ''next'') (\<lambda>next_val.
    bindR (check_state env exercise next_val) (\<lambda>following.
    bindR (bindR (item_of loaded ''previous'') (check_state env exercise)) (\<lambda>before.
    (case loaded of VDict d \<Rightarrow>
      bindR (requireR (val_eq (get_or d ''version'' VNone) (VStr VERSION) \<and> val_eq (get_or d ''exercise_id'' VNone) (VStr exercise)
          \<and> before = previous) (spool_error ''invalid batch chain'')) (\<lambda>_.
      bindR (batch_counters d) (\<lambda>(first, count, bytes).
      bindR (requireR (ss_cursor previous < first \<and> first \<le> ss_cursor following \<and> 1 \<le> count \<and> count \<le> 1000
          \<and> ss_count following = ss_count previous + count \<and> name = batch_name_of first (ss_cursor following))
        (spool_error ''invalid batch range'')) (\<lambda>_.
      bindR (requireR (bytes = int (length content) \<and> ends_with [CHR 0x0A] content \<and> int (length (split_lines content)) = count
          \<and> val_eq (get_or d ''events_sha256'' VNone) (VStr (e_sha256 env content)))
        (spool_error ''invalid batch integrity'')) (\<lambda>_.
        Inr \<lparr>mf_previous = before, mf_next = following, mf_first = first, mf_count = count, mf_bytes = bytes,
             mf_sha = e_sha256 env content\<rparr>))))
    | _ \<Rightarrow> Inl (TypeError []))))))))))"

text \<open>The names of the entries of a spool.\<close>

definition batch_name :: "string \<Rightarrow> bool" where
  "batch_name s \<longleftrightarrow> length s = 47 \<and> take 6 s = ''batch-'' \<and> list_all is_digit (take 20 (drop 6 s))
     \<and> take 1 (drop 26 s) = ''-'' \<and> list_all is_digit (drop 27 s)"

definition hex_name :: "string \<Rightarrow> string \<Rightarrow> bool" where
  "hex_name start s \<longleftrightarrow> starts_with start s \<and> length s = length start + 32 \<and> list_all lower_hex (drop (length start) s)"

text \<open>\<open>_batch_paths\<close>: the batches found, sorted by name.\<close>

definition batch_path :: "string \<times> spool_node \<Rightarrow> exc + (string \<times> spool_node dict) list" where
  "batch_path entry = (case entry of (name, node) \<Rightarrow>
     if name = ''HEAD.json'' \<or> name = ''.lock'' then bindR (safe_file (Some node) 4096) (\<lambda>_. Inr [])
     else if batch_name name then bindR (spool_directory node) (\<lambda>files. Inr [(name, files)])
     else if hex_name ''.pending-'' name then bindR (spool_directory node) (\<lambda>_. Inr [])
     else if hex_name ''.head-'' name then bindR (safe_file (Some node) 4096) (\<lambda>_. Inr [])
     else Inl (spool_error ''unrecognized spool contents''))"

definition batch_paths :: "spool_node dict \<Rightarrow> exc + (string \<times> spool_node dict) list" where
  "batch_paths es = bindR (mapR batch_path es) (\<lambda>found. Inr (sort_key fst (concat found)))"

text \<open>The loop of \<open>_batches\<close> over the chain.\<close>

fun spool_chain :: "env \<Rightarrow> string \<Rightarrow> spool_state \<Rightarrow> (string \<times> spool_node dict) list \<Rightarrow> spool_state \<Rightarrow> bool
    \<Rightarrow> exc + (spool_state \<times> bool \<times> manifest list)" where
  "spool_chain env exercise head [] previous seen = Inr (previous, seen, [])"
| "spool_chain env exercise head ((name, files) # ps) previous seen =
    bindR (spool_batch env exercise name files previous) (\<lambda>m.
    bindR (spool_chain env exercise head ps (mf_next m) (seen \<or> head = mf_next m)) (\<lambda>(st, s, ms). Inr (st, s, m # ms)))"

definition headless_entry :: "string \<times> spool_node \<Rightarrow> exc + string" where
  "headless_entry entry = (case entry of (name, node) \<Rightarrow>
     if name = ''.lock'' then safe_file (Some node) 0
     else if hex_name ''.head-'' name then safe_file (Some node) 4096
     else Inl (spool_error ''missing checkpoint; preserve evidence''))"

definition spool_batches :: "env \<Rightarrow> string \<Rightarrow> spool_node option \<Rightarrow> exc + (spool_state \<times> bool \<times> manifest list)" where
  "spool_batches env exercise root = (case root of
     None \<Rightarrow> Inr (empty_state env, False, [])
   | Some node \<Rightarrow>
     bindR (requireR (node \<noteq> SLink False) (spool_error ''linked spool root'')) (\<lambda>_.
     bindR (spool_directory node) (\<lambda>es.
     if es = [] then Inr (empty_state env, False, [])
     else if map_of es ''HEAD.json'' = None
     then bindR (mapR headless_entry es) (\<lambda>_. Inr (empty_state env, False, []))
     else
       bindR (bindR (bindR (safe_file (map_of es ''HEAD.json'') 4096) spool_load) (check_state env exercise)) (\<lambda>head.
       bindR (batch_paths es) (\<lambda>paths.
       bindR (spool_chain env exercise head paths (empty_state env) (head = empty_state env)) (\<lambda>(st, seen, ms).
       bindR (requireR seen (spool_error ''checkpoint missing from published chain; preserve evidence'')) (\<lambda>_.
         Inr (st, True, ms))))))))"

section \<open>The source\<close>

text \<open>A row of the event table with its \<open>rowid\<close>: rows are never deleted, so it is the place in the table.\<close>

type_synonym event_row = "int \<times> event_entry"

definition exercise_rows :: "string \<Rightarrow> portal_store \<Rightarrow> event_row list" where
  "exercise_rows exercise s = filter (\<lambda>(n, e). ve_exercise_id e = VStr exercise)
     (zip (map int [1..<Suc (length (po_events s))]) (po_events s))"

definition open_database :: "portal_store option \<Rightarrow> exc + portal_store" where
  "open_database db = (case db of None \<Rightarrow> Inl (spool_error ''database must be an existing real file'') | Some s \<Rightarrow> Inr s)"

type_synonym sequences = "(val \<times> int) list"

definition column_of :: "event_entry \<Rightarrow> string \<Rightarrow> val" where
  "column_of e k = get_or [(''event_id'', ve_event_id e), (''exercise_id'', ve_exercise_id e), (''run_id'', ve_run_id e),
     (''sequence'', ve_sequence e), (''visibility'', ve_visibility e)] k VNone"

definition next_sequence :: "sequences \<Rightarrow> val \<Rightarrow> int" where
  "next_sequence seqs run = (case vfind run seqs of None \<Rightarrow> 0 | Some n \<Rightarrow> n) + 1"

definition checked_event :: "env \<Rightarrow> sequences \<Rightarrow> event_entry \<Rightarrow> exc + (string \<times> sequences)" where
  "checked_event env seqs e =
    bindR (requireR (length (json_dumps (ve_payload e)) \<le> MAX_EVENT_SIZE) (spool_error ''source event exceeds publication limit'')) (\<lambda>_.
    bindR (unique_pairs (ve_payload e)) (\<lambda>event. case event of
      VDict d \<Rightarrow>
        bindR (validate_event env d) (\<lambda>_.
        bindR (requireR (val_eq (VDict (redact_row d)) (VDict d)) (spool_error ''source event contains unredacted fields'')) (\<lambda>_.
        bindR (fail_if (any_of (map (\<lambda>k. notR (isR (ditem d k) (column_of e k)))
            [''event_id'', ''exercise_id'', ''run_id'', ''sequence'', ''visibility''])) ''source event index mismatch'') (\<lambda>_.
        bindR (ditem d ''run_id'') (\<lambda>run.
        bindR (hashed run (next_sequence seqs run)) (\<lambda>expected.
        bindR (fail_if (notR (isR (ditem d ''sequence'') (VInt expected))) ''source run sequence gap'') (\<lambda>_.
        (let line = json_line event in
        bindR (requireR (length line \<le> MAX_EVENT_SIZE) (spool_error ''encoded event exceeds publication limit'')) (\<lambda>_.
          Inr (line, (run, expected) # seqs)))))))))
    | _ \<Rightarrow> Inl (OtherError ''AttributeError'' [])))"

text \<open>\<open>_event\<close>: every failure is one error.\<close>

definition spool_event :: "env \<Rightarrow> sequences \<Rightarrow> event_entry \<Rightarrow> exc + (string \<times> sequences)" where
  "spool_event env seqs e = (case checked_event env seqs e of
     Inl _ \<Rightarrow> Inl (spool_error ''source event validation failed; preserve evidence'') | Inr r \<Rightarrow> Inr r)"

text \<open>\<open>_read\<close>: the local variables, a running hash as the text it has taken.\<close>

record source_read =
  sr_sequences :: sequences
  sr_text :: string
  sr_count :: int
  sr_cursor :: int
  sr_batches :: "manifest list"
  sr_batch_text :: string
  sr_batch_count :: int
  sr_batch_size :: int

definition start_read :: "manifest list \<Rightarrow> source_read" where
  "start_read manifests = \<lparr>sr_sequences = [], sr_text = [], sr_count = 0, sr_cursor = 0, sr_batches = manifests, sr_batch_text = [],
     sr_batch_count = 0, sr_batch_size = 0\<rparr>"

definition digest_line :: "event_row \<Rightarrow> string" where
  "digest_line row = json_line (VDict [(''cursor'', VInt (fst row)), (''event'', ve_payload (snd row))])"

definition read_state :: "env \<Rightarrow> source_read \<Rightarrow> spool_state" where
  "read_state env r = \<lparr>ss_cursor = sr_cursor r, ss_count = sr_count r, ss_digest = e_sha256 env (sr_text r)\<rparr>"

text \<open>The end of a batch in the old prefix.\<close>

definition close_batch :: "env \<Rightarrow> manifest \<Rightarrow> manifest list \<Rightarrow> source_read \<Rightarrow> exc + source_read" where
  "close_batch env batch later r =
    bindR (requireR (e_sha256 env (sr_batch_text r) = mf_sha batch \<and> sr_batch_count r = mf_count batch
        \<and> sr_batch_size r = mf_bytes batch \<and> read_state env r = mf_next batch)
      (spool_error ''published batch no longer matches source'')) (\<lambda>_.
      Inr (r\<lparr>sr_batches := later, sr_batch_text := [], sr_batch_count := 0, sr_batch_size := 0\<rparr>))"

definition read_old :: "env \<Rightarrow> event_row \<Rightarrow> source_read \<Rightarrow> exc + source_read" where
  "read_old env row r =
    bindR (spool_event env (sr_sequences r) (snd row)) (\<lambda>(line, seqs).
    (case sr_batches r of
       [] \<Rightarrow> Inl (spool_error ''source prefix has no published batch'')
     | batch # later \<Rightarrow>
       bindR (requireR (mf_first batch \<le> fst row \<and> fst row \<le> ss_cursor (mf_next batch)) (spool_error ''source batch range changed'')) (\<lambda>_.
       (let r' = r\<lparr>sr_sequences := seqs, sr_text := sr_text r @ digest_line row, sr_count := sr_count r + 1, sr_cursor := fst row,
          sr_batch_text := sr_batch_text r @ line, sr_batch_count := sr_batch_count r + 1,
          sr_batch_size := sr_batch_size r + int (length line)\<rparr> in
        if fst row = ss_cursor (mf_next batch) then close_batch env batch later r' else Inr r'))))"

fun read_rows :: "(event_row \<Rightarrow> 's \<Rightarrow> exc + 's) \<Rightarrow> event_row list \<Rightarrow> 's \<Rightarrow> exc + 's" where
  "read_rows body [] r = Inr r"
| "read_rows body (row # rows) r = bindR (body row r) (read_rows body rows)"

text \<open>The new rows: one batch of bounded size. What \<open>_read\<close> returns.\<close>

record source_batch =
  sb_content :: string
  sb_first :: "int option"
  sb_next :: spool_state
  sb_pending :: int

fun read_new :: "env \<Rightarrow> event_row list \<Rightarrow> source_read \<Rightarrow> string \<Rightarrow> int option \<Rightarrow> exc + (source_read \<times> string \<times> int option)" where
  "read_new env [] r content first = Inr (r, content, first)"
| "read_new env (row # rows) r content first =
    bindR (spool_event env (sr_sequences r) (snd row)) (\<lambda>(line, seqs).
    if MAX_BATCH_SIZE < length content + length line then Inr (r, content, first)
    else read_new env rows (r\<lparr>sr_sequences := seqs, sr_text := sr_text r @ digest_line row, sr_count := sr_count r + 1, sr_cursor := fst row\<rparr>)
      (content @ line) (Some (case first of None \<Rightarrow> fst row | Some n \<Rightarrow> n)))"

text \<open>SQLite binds integers of 64 bits.\<close>

definition bound_integer :: "int \<Rightarrow> exc + int" where
  "bound_integer n = (if n < 2 ^ 63 then Inr n else Inl (OtherError ''OverflowError'' []))"

definition spool_read :: "env \<Rightarrow> event_row list \<Rightarrow> spool_state \<Rightarrow> int \<Rightarrow> manifest list \<Rightarrow> exc + source_batch" where
  "spool_read env rows st limit manifests =
    bindR (bound_integer (ss_cursor st)) (\<lambda>upto.
    bindR (read_rows (read_old env) (filter (\<lambda>row. fst row \<le> upto) rows) (start_read manifests)) (\<lambda>r.
    bindR (requireR (sr_batches r = []) (spool_error ''published source events are missing'')) (\<lambda>_.
    bindR (requireR (read_state env r = st) (spool_error ''exported source prefix changed or rolled back'')) (\<lambda>_.
    bindR (read_new env (take (nat limit) (filter (\<lambda>row. sr_cursor r < fst row) rows)) r [] None) (\<lambda>(r', content, first).
      Inr \<lparr>sb_content = content, sb_first = first, sb_next = read_state env r',
           sb_pending = int (length (filter (\<lambda>row. sr_cursor r' < fst row) rows))\<rparr>)))))"

section \<open>System calls\<close>

text \<open>The spool's place in the file system, and the number of steps left before the process is killed (none: never). A write
  that is cut off leaves the first \<open>sw_partial\<close> bytes.\<close>

record spool_world =
  sw_root :: "spool_node option"
  sw_left :: "nat option"
  sw_partial :: nat
  sw_ids :: nat
  sw_locked :: bool

definition killed :: exc where
  "killed = OtherError ''Killed'' []"

definition fs_call :: "(spool_node option \<Rightarrow> exc + spool_node option) \<Rightarrow> (spool_world, unit) prog" where
  "fs_call f = (\<lambda>w. if sw_left w = Some 0 then (Inl killed, w)
     else let w' = w\<lparr>sw_left := map_option (\<lambda>n. n - 1) (sw_left w)\<rparr> in
       (case f (sw_root w) of Inl e \<Rightarrow> (Inl e, w') | Inr root \<Rightarrow> (Inr (), w'\<lparr>sw_root := root\<rparr>)))"

text \<open>A change below the root, at a path of names.\<close>

fun at_path :: "string list \<Rightarrow> (spool_node option \<Rightarrow> exc + spool_node option) \<Rightarrow> spool_node option \<Rightarrow> exc + spool_node option" where
  "at_path [] f node = f node"
| "at_path (k # ks) f node = (case node of
     Some (SDir m es) \<Rightarrow> bindR (at_path ks f (map_of es k)) (\<lambda>r.
       Inr (Some (SDir m (case r of None \<Rightarrow> dpop k es | Some n \<Rightarrow> dset k n es))))
   | _ \<Rightarrow> no_file)"

definition create_node :: "spool_node \<Rightarrow> spool_node option \<Rightarrow> exc + spool_node option" where
  "create_node new node = (case node of None \<Rightarrow> Inr (Some new) | Some _ \<Rightarrow> Inl (OtherError ''FileExistsError'' []))"

definition write_node :: "string \<Rightarrow> spool_node option \<Rightarrow> exc + spool_node option" where
  "write_node content node = (case node of Some (SFile m links _) \<Rightarrow> Inr (Some (SFile m links content)) | _ \<Rightarrow> no_file)"

definition write_bytes :: "string list \<Rightarrow> string \<Rightarrow> (spool_world, unit) prog" where
  "write_bytes p content = (\<lambda>w. if sw_left w = Some 0
     then (Inl killed, case at_path p (write_node (take (sw_partial w) content)) (sw_root w) of Inl _ \<Rightarrow> w | Inr root \<Rightarrow> w\<lparr>sw_root := root\<rparr>)
     else fs_call (at_path p (write_node content)) w)"

text \<open>Renaming an entry of the root; only a file replaces what the new name stands for, and only a file.\<close>

definition is_dir :: "spool_node \<Rightarrow> bool" where
  "is_dir node = (case node of SDir _ _ \<Rightarrow> True | _ \<Rightarrow> False)"

definition rename_node :: "string \<Rightarrow> string \<Rightarrow> spool_node option \<Rightarrow> exc + spool_node option" where
  "rename_node a b node = (case node of
     Some (SDir m es) \<Rightarrow> (case map_of es a of
        None \<Rightarrow> no_file
      | Some n \<Rightarrow> if (case map_of es b of None \<Rightarrow> False | Some t \<Rightarrow> is_dir n \<or> is_dir t) then os_error
          else Inr (Some (SDir m (dset b n (dpop a es)))))
   | _ \<Rightarrow> no_file)"

definition sync :: "(spool_world, unit) prog" where
  "sync = fs_call Inr"

definition new_id :: "(nat \<Rightarrow> string) \<Rightarrow> (spool_world, string) prog" where
  "new_id ids = bindE (getE sw_ids) (\<lambda>n. thenE (updE (\<lambda>w. w\<lparr>sw_ids := Suc n\<rparr>)) (ret (ids n)))"

text \<open>\<open>_write\<close>: a new private file.\<close>

definition spool_write :: "string list \<Rightarrow> string \<Rightarrow> (spool_world, unit) prog" where
  "spool_write p content = thenE (fs_call (at_path p (create_node (SFile 0x180 1 []))))
    (thenE (write_bytes p content) sync)"

section \<open>Publishing\<close>

definition spool_head :: "(nat \<Rightarrow> string) \<Rightarrow> string \<Rightarrow> spool_state \<Rightarrow> (spool_world, unit) prog" where
  "spool_head ids exercise st = bindE (new_id ids) (\<lambda>i. (let pending = ''.head-'' @ i in
    thenE (spool_write [pending] (json_line (state_val exercise st)))
   (thenE (fs_call (rename_node pending ''HEAD.json'')) sync)))"

definition new_manifest :: "env \<Rightarrow> spool_state \<Rightarrow> spool_state \<Rightarrow> int \<Rightarrow> string \<Rightarrow> manifest" where
  "new_manifest env previous following first content = \<lparr>mf_previous = previous, mf_next = following, mf_first = first,
     mf_count = ss_count following - ss_count previous, mf_bytes = int (length content), mf_sha = e_sha256 env content\<rparr>"

definition entry_of :: "string \<Rightarrow> spool_node option \<Rightarrow> spool_node option" where
  "entry_of k root = (case root of Some (SDir m es) \<Rightarrow> map_of es k | _ \<Rightarrow> None)"

definition spool_publish :: "env \<Rightarrow> (nat \<Rightarrow> string) \<Rightarrow> string \<Rightarrow> spool_state \<Rightarrow> spool_state \<Rightarrow> int \<Rightarrow> string \<Rightarrow> (spool_world, unit) prog" where
  "spool_publish env ids exercise previous following first content = bindE (new_id ids) (\<lambda>i. (let stage = ''.pending-'' @ i in
    thenE (fs_call (at_path [stage] (create_node (SDir 0x1C0 []))))
   (thenE (spool_write [stage, ''events.jsonl''] content)
   (thenE (spool_write [stage, ''manifest.json''] (json_line (manifest_val exercise (new_manifest env previous following first content))))
   (thenE sync
   (let destination = batch_name_of first (ss_cursor following) in
   (bindE (getE sw_root) (\<lambda>root.
    thenE (requireE (entry_of destination root = None) (spool_error ''batch destination already exists''))
   (thenE (fs_call (rename_node stage destination)) sync)))))))))"

text \<open>\<open>_lock\<close>; \<open>sw_locked\<close>: another process holds the lock.\<close>

definition open_lock :: "spool_node option \<Rightarrow> exc + spool_node option" where
  "open_lock node = (case node of
     None \<Rightarrow> Inr (Some (SFile 0x180 1 []))
   | Some (SFile m links content) \<Rightarrow> if links \<noteq> 1 \<or> m AND 23 \<noteq> 0 then Inl (spool_error ''unsafe publisher lock'') else Inr node
   | Some SSpecial \<Rightarrow> Inl (spool_error ''unsafe publisher lock'')
   | Some _ \<Rightarrow> os_error)"

definition spool_lock :: "(spool_world, unit) prog" where
  "spool_lock = thenE (fs_call (at_path [''.lock''] open_lock))
    (bindE (getE sw_locked) (\<lambda>locked. requireE (\<not> locked) (spool_error ''another publisher owns the spool'')))"

record spool_report =
  sp_exercise :: string
  sp_written :: bool
  sp_selected :: int
  sp_bytes :: nat
  sp_remaining :: int
  sp_published :: int

definition publish_batch :: "env \<Rightarrow> (nat \<Rightarrow> string) \<Rightarrow> string \<Rightarrow> spool_state \<Rightarrow> bool \<Rightarrow> source_batch \<Rightarrow> (spool_world, unit) prog" where
  "publish_batch env ids exercise previous initialized batch =
    thenE (if \<not> initialized then spool_head ids exercise previous
       else bindE (getE sw_root) (\<lambda>root. bindE (liftE (bindR (safe_file (entry_of ''HEAD.json'' root) 4096) spool_load)) (\<lambda>head.
         if val_eq head (state_val exercise previous) then ret () else spool_head ids exercise previous)))
    (case sb_first batch of
       None \<Rightarrow> ret ()
     | Some first \<Rightarrow> if sb_content batch = [] then ret () else thenE (spool_publish env ids exercise previous (sb_next batch) first (sb_content batch))
         (spool_head ids exercise (sb_next batch)))"

definition inspect_and_publish :: "env \<Rightarrow> (nat \<Rightarrow> string) \<Rightarrow> portal_store option \<Rightarrow> string \<Rightarrow> int \<Rightarrow> bool \<Rightarrow> (spool_world, spool_report) prog" where
  "inspect_and_publish env ids db exercise limit writing =
    bindE (getE sw_root) (\<lambda>root.
    bindE (liftE (spool_batches env exercise root)) (\<lambda>(previous, initialized, manifests).
    bindE (liftE (bindR (open_database db) (\<lambda>s. spool_read env (exercise_rows exercise s) previous limit manifests))) (\<lambda>batch.
    thenE (if writing then publish_batch env ids exercise previous initialized batch else ret ())
      (ret \<lparr>sp_exercise = exercise, sp_written = writing, sp_selected = ss_count (sb_next batch) - ss_count previous,
         sp_bytes = length (sb_content batch), sp_remaining = sb_pending batch,
         sp_published = (if writing then ss_count (sb_next batch) else ss_count previous)\<rparr>))))"

text \<open>\<open>export\<close>: the database as it is at the first and at the second reading; a preview reads once.\<close>

definition export_scope :: "val \<Rightarrow> val \<Rightarrow> exc + (string \<times> int)" where
  "export_scope exercise limit = (case (exercise, strict_int limit) of
     (VStr x, Some n) \<Rightarrow> if 1 \<le> char_count x \<and> char_count x \<le> 128 \<and> 1 \<le> n \<and> n \<le> 1000 then Inr (x, n)
       else Inl (spool_error ''invalid export scope or limit'')
   | _ \<Rightarrow> Inl (spool_error ''invalid export scope or limit''))"

definition make_root :: "(spool_world, unit) prog" where
  "make_root = bindE (getE sw_root) (\<lambda>root. if root = None then thenE (fs_call (create_node (SDir 0x1C0 []))) sync else ret ())"

definition spool_export :: "env \<Rightarrow> (nat \<Rightarrow> string) \<Rightarrow> (string list \<Rightarrow> exc + string list) \<Rightarrow> string list \<Rightarrow> string list
    \<Rightarrow> portal_store option \<Rightarrow> portal_store option \<Rightarrow> val \<Rightarrow> val \<Rightarrow> bool \<Rightarrow> (spool_world, spool_report) prog" where
  "spool_export env ids resolve database output first_db second_db exercise limit writing =
    bindE (liftE (export_scope exercise limit)) (\<lambda>(x, n).
    bindE (liftE (local_path resolve database)) (\<lambda>source.
    bindE (liftE (local_path resolve output)) (\<lambda>root_path.
    thenE (requireE (\<not> prefix root_path source) (spool_error ''database cannot be inside the spool''))
   (if \<not> writing then inspect_and_publish env ids second_db x n False
    else
      thenE (inspect_and_publish env ids first_db x n False)
     (thenE make_root
     (bindE (getE sw_root) (\<lambda>root. thenE (liftE (case root of None \<Rightarrow> no_file | Some node \<Rightarrow> spool_directory node))
     (thenE spool_lock (inspect_and_publish env ids second_db x n True)))))))))"

end
