(* ===== verification/SpoolText.thy ===== *)
theory SpoolText
  imports EventSpool StoreProps
begin

text \<open>
  The texts of a spool: what is written is read back, the size of what is written, the number of lines, and the order of
  the names of batches.
\<close>

section \<open>What is written is read back\<close>

lemma map_of_sort_key: "distinct (map fst d) \<Longrightarrow> map_of (sort_key fst d) = map_of d"
proof -
  assume d: "distinct (map fst d)"
  have "mset (map fst (sort_key fst d)) = mset (map fst d)" by simp
  then have "distinct (map fst (sort_key fst d))" using d by (metis mset_eq_imp_distinct_iff)
  with d show ?thesis by (simp add: map_of_inject_set)
qed

lemma keys_json_value: "set (map fst (sort_key fst (map (map_prod id f) d))) = set (map fst d)"
  by force

lemma wf_json_value: "wf_val v \<Longrightarrow> wf_val (json_value v)"
proof (induction v)
  case (VDict d)
  have "mset (map fst (sort_key fst (map (map_prod id json_value) d))) = mset (map fst d)"
    by (simp add: image_mset.compositionality comp_def)
  then have "distinct (map fst (sort_key fst (map (map_prod id json_value) d)))"
    using VDict.prems by (metis mset_eq_imp_distinct_iff wf_val.simps(3))
  moreover have "\<forall>kv\<in>set d. wf_val (json_value (snd kv))"
    using VDict.prems VDict.IH by (force simp: list_all_iff)
  ultimately show ?case by (auto simp: list_all_iff)
qed (auto simp: list_all_iff)

lemma load_line: "wf_val v \<Longrightarrow> spool_load (json_line v) = Inr (json_value v)"
  by (simp add: spool_load_def json_line_def json_round_trip unique_pairs_def wf_json_value)

lemma json_value_item: "distinct (map fst d) \<Longrightarrow> json_value (VDict d) = VDict e \<Longrightarrow> map_of e k = map_option json_value (map_of d k)"
proof -
  assume d: "distinct (map fst d)" and e: "json_value (VDict d) = VDict e"
  have "distinct (map fst (map (map_prod id json_value) d))" using d by (simp add: comp_def)
  from map_of_sort_key [OF this] e have "map_of e k = map_of (map (map_prod id json_value) d) k" by simp
  also have "\<dots> = map_option json_value (map_of d k)" by (induction d) auto
  finally show ?thesis .
qed

lemma json_value_dict: "\<exists>e. json_value (VDict d) = VDict e \<and> set (map fst e) = set (map fst d)"
  by (force simp: keys_json_value)

section \<open>Sizes\<close>

lemma length_join: "length (join sep ts) = sum_list (map length ts) + (length ts - 1) * length sep"
  by (induction sep ts rule: join.induct) simp_all

lemma sum_list_sort_key: "sum_list (map f (sort_key k xs)) = (sum_list (map f xs) :: nat)"
  by (metis mset_map mset_sort sum_mset_sum_list)

lemma length_dumps_dict: "length (json_dumps (VDict d)) =
    2 + (\<Sum>kv\<leftarrow>d. length (json_quote (fst kv)) + 1 + length (json_dumps (snd kv))) + (length d - 1)"
  by (simp add: length_join sum_list_sort_key json_member_def comp_def)

lemma nat_str_length: "n < 10 ^ k \<Longrightarrow> 0 < k \<Longrightarrow> length (nat_str n) \<le> k"
proof (induction k arbitrary: n)
  case (Suc k)
  show ?case
  proof (cases "n < 10")
    case True
    then show ?thesis by (simp add: nat_str.simps)
  next
    case False
    with Suc.prems(1) have "0 < k" by (cases k) auto
    with Suc.prems(1) Suc.IH [of "n div 10"] have "length (nat_str (n div 10)) \<le> k" by (simp add: less_mult_imp_div_less mult.commute)
    with False show ?thesis by (subst nat_str.simps) simp
  qed
qed simp

lemma int_str_length: "0 \<le> i \<Longrightarrow> i < 10 ^ k \<Longrightarrow> 0 < k \<Longrightarrow> length (int_str i) \<le> k"
proof -
  assume i: "0 \<le> i" "i < 10 ^ k" "0 < k"
  have "nat i < 10 ^ k" using i(1,2) by (simp add: nat_less_iff)
  with nat_str_length i show ?thesis by (simp add: int_str_def)
qed

lemma lower_hex_char: "lower_hex c \<Longrightarrow> json_char c = [c]"
  by (auto simp: lower_hex_def is_digit_def digits09_def json_char_def)

lemma quote_hex: "list_all lower_hex s \<Longrightarrow> json_quote s = CHR 0x22 # s @ [CHR 0x22]"
  by (induction s) (simp_all add: json_quote_def lower_hex_char)

lemma length_quote_hex64: "hex64 s \<Longrightarrow> length (json_quote s) = 66"
  by (simp add: hex64_def quote_hex)

definition short_state :: "spool_state \<Rightarrow> bool" where
  "short_state st \<longleftrightarrow> 0 \<le> ss_cursor st \<and> ss_cursor st < 10 ^ 20 \<and> 0 \<le> ss_count st \<and> ss_count st < 10 ^ 20 \<and> hex64 (ss_digest st)"

lemma length_state:
  assumes "short_state st"
  shows "length (json_dumps (state_val x st)) \<le> 200 + length (json_quote x)"
proof -
  have "length (int_str (ss_cursor st)) \<le> 20" "length (int_str (ss_count st)) \<le> 20" "length (json_quote (ss_digest st)) = 66"
    using assms by (simp_all add: short_state_def int_str_length length_quote_hex64)
  moreover have "length (json_quote ''version'') = 9" "length (json_quote ''exercise_id'') = 13" "length (json_quote ''cursor'') = 8"
    "length (json_quote ''event_count'') = 13" "length (json_quote ''prefix_sha256'') = 15" "length (json_quote VERSION) = 7"
    by (simp_all add: json_quote_def json_char_def VERSION_def)
  ultimately show ?thesis by (simp add: state_val_def length_dumps_dict del: json_dumps.simps(7))
qed

definition short_manifest :: "manifest \<Rightarrow> bool" where
  "short_manifest m \<longleftrightarrow> short_state (mf_previous m) \<and> short_state (mf_next m) \<and> 0 \<le> mf_first m \<and> mf_first m < 10 ^ 20
     \<and> 0 \<le> mf_count m \<and> mf_count m < 10 ^ 20 \<and> 0 \<le> mf_bytes m \<and> mf_bytes m < 10 ^ 20 \<and> hex64 (mf_sha m)"

lemma length_manifest:
  assumes "short_manifest m"
  shows "length (json_dumps (manifest_val x m)) \<le> 700 + 3 * length (json_quote x)"
proof -
  have "length (int_str (mf_first m)) \<le> 20" "length (int_str (mf_count m)) \<le> 20" "length (int_str (mf_bytes m)) \<le> 20"
    "length (json_quote (mf_sha m)) = 66"
    using assms by (simp_all add: short_manifest_def int_str_length length_quote_hex64)
  moreover have "length (json_dumps (state_val x (mf_previous m))) \<le> 200 + length (json_quote x)"
    "length (json_dumps (state_val x (mf_next m))) \<le> 200 + length (json_quote x)"
    using assms by (simp_all add: short_manifest_def length_state)
  moreover have "length (json_quote ''version'') = 9" "length (json_quote ''exercise_id'') = 13" "length (json_quote ''previous'') = 10"
    "length (json_quote ''next'') = 6" "length (json_quote ''first_cursor'') = 14" "length (json_quote ''event_count'') = 13"
    "length (json_quote ''bytes'') = 7" "length (json_quote ''events_sha256'') = 15" "length (json_quote VERSION) = 7"
    by (simp_all add: json_quote_def json_char_def VERSION_def)
  ultimately show ?thesis by (simp add: manifest_val_def length_dumps_dict del: json_dumps.simps(7))
qed

section \<open>Lines\<close>

definition line_mark :: "char \<Rightarrow> bool" where
  "line_mark c \<longleftrightarrow> c = CHR 0x0A \<or> c = CHR 0x0D"

lemma no_mark_join: "(\<forall>t\<in>set ts. \<forall>c\<in>set t. \<not> line_mark c) \<Longrightarrow> c \<in> set (join '','' ts) \<Longrightarrow> \<not> line_mark c"
  by (induction "'',''" ts rule: join.induct) (auto simp: line_mark_def)

lemma hex_digit_mark: "n < 16 \<Longrightarrow> \<not> line_mark (HEX_DIGITS ! n)"
  unfolding less_16_cases less_10_cases by (elim disjE) (simp_all add: HEX_DIGITS_def line_mark_def)

lemma json_char_mark: "d \<in> set (json_char c) \<Longrightarrow> \<not> line_mark d"
proof -
  assume d: "d \<in> set (json_char c)"
  have "(of_char c :: nat) mod 256 < 256" by simp
  then have "(of_char c :: nat) < 256" by (simp only: of_char_mod_256)
  then have h: "\<not> line_mark (HEX_DIGITS ! (of_char c div 16))" "\<not> line_mark (HEX_DIGITS ! (of_char c mod 16))"
    by (simp_all add: hex_digit_mark less_mult_imp_div_less)
  from d h show ?thesis by (auto simp: json_char_def line_mark_def split: if_splits)
qed

lemma json_quote_mark: "d \<in> set (json_quote s) \<Longrightarrow> \<not> line_mark d"
  by (auto simp: json_quote_def json_char_mark) (simp_all add: line_mark_def)

lemma digits_mark: "d \<in> set (int_str i) \<Longrightarrow> \<not> line_mark d"
proof -
  assume d: "d \<in> set (int_str i)"
  have "d = CHR ''-'' \<or> is_digit d"
    using d nat_str_digits [of "nat i"] nat_str_digits [of "nat (- i)"] by (simp add: int_str_def list_all_iff split: if_splits) blast
  then show ?thesis by (auto simp: line_mark_def is_digit_def digits09_def)
qed

lemma dumps_mark: "d \<in> set (json_dumps v) \<Longrightarrow> \<not> line_mark d"
proof (induction v arbitrary: d)
  case (VDict e)
  have "\<forall>t\<in>set (map json_member (sort_key fst (map (map_prod id json_dumps) e))). \<forall>c\<in>set t. \<not> line_mark c"
    using VDict.IH by (fastforce simp: json_member_def json_quote_mark line_mark_def [of "CHR '':''"])
  from no_mark_join [OF this] VDict.prems show ?case by (auto simp: line_mark_def)
next
  case (VList vs)
  have "\<forall>t\<in>set (map json_dumps vs). \<forall>c\<in>set t. \<not> line_mark c" using VList.IH by auto
  from no_mark_join [OF this] VList.prems show ?case by (auto simp: line_mark_def)
next
  case (VTuple vs)
  have "\<forall>t\<in>set (map json_dumps vs). \<forall>c\<in>set t. \<not> line_mark c" using VTuple.IH by auto
  from no_mark_join [OF this] VTuple.prems show ?case by (auto simp: line_mark_def)
next
  case (VBool b)
  then show ?case by (auto simp: line_mark_def split: if_splits)
qed (auto simp: json_quote_mark digits_mark, simp_all add: line_mark_def)

lemma split_one_line: "\<forall>c\<in>set t. \<not> line_mark c \<Longrightarrow> split_lines (t @ CHR 0x0A # s) = t # split_lines s"
  by (induction t) (simp_all add: line_mark_def)

lemma split_json_lines: "length (split_lines (concat (map json_line vs))) = length vs"
proof (induction vs)
  case (Cons v vs)
  have "split_lines (json_line v @ s) = json_dumps v # split_lines s" for s
    using split_one_line [of "json_dumps v" s] dumps_mark by (simp add: json_line_def)
  with Cons show ?case by simp
qed simp

section \<open>Names of batches\<close>

lemma digits_value_Cons: "digits_value (c # s) = digit_value c * 10 ^ length s + digits_value s"
proof -
  have "foldl (\<lambda>n c. 10 * n + digit_value c) k s = k * 10 ^ length s + foldl (\<lambda>n c. 10 * n + digit_value c) 0 s" for k
  proof (induction s arbitrary: k)
    case (Cons c s)
    from Cons [of "10 * k + digit_value c"] Cons [of "digit_value c"] show ?case by (simp add: algebra_simps)
  qed simp
  from this [of "digit_value c"] show ?thesis by (simp add: digits_value_def)
qed

lemma digit_of_char: "is_digit c \<Longrightarrow> of_char c = 48 + digit_value c \<and> digit_value c < 10"
  by (auto simp: is_digit_def digits09_def digit_value_def upt_rec)

lemma digits_bound: "list_all is_digit s \<Longrightarrow> digits_value s < 10 ^ length s"
proof (induction s)
  case Nil
  show ?case by (simp add: digits_value_def)
next
  case (Cons c s)
  then have "digits_value s < 10 ^ length s" "digit_value c \<le> 9" using digit_of_char [of c] by auto
  then have "digit_value c * 10 ^ length s + digits_value s < 9 * 10 ^ length s + 10 ^ length s"
    by (intro add_le_less_mono mult_right_mono) simp_all
  then show ?case by (simp add: digits_value_Cons)
qed

lemma digits_order:
  "list_all is_digit s \<Longrightarrow> list_all is_digit t \<Longrightarrow> length s = length t \<Longrightarrow> digits_value s < digits_value t \<Longrightarrow> s @ u < t @ v"
proof (induction s arbitrary: t)
  case (Cons c s)
  then obtain d t' where t: "t = d # t'" "list_all is_digit t'" "is_digit d" "length s = length t'" by (cases t) auto
  have b: "digits_value s < 10 ^ length t'" "digits_value t' < 10 ^ length t'"
    using digits_bound [of s] digits_bound [of t'] Cons.prems(1) t by simp_all
  have le: "digit_value c \<le> digit_value d"
  proof (rule ccontr)
    assume "\<not> digit_value c \<le> digit_value d"
    then have "Suc (digit_value d) * 10 ^ length t' \<le> digit_value c * 10 ^ length t'" by (intro mult_right_mono) simp_all
    with Cons.prems(4) b t show False by (simp add: digits_value_Cons)
  qed
  note dc = digit_of_char [of c] digit_of_char [of d]
  show ?case
  proof (cases "digit_value c = digit_value d")
    case True
    moreover have "is_digit c" using Cons.prems(1) by simp
    ultimately have "(of_char c :: nat) = of_char d" using dc t(3) by simp
    then have "c = d" by simp
    moreover have "s @ u < t' @ v" using Cons.IH [of t'] Cons.prems t True by (simp add: digits_value_Cons)
    ultimately show ?thesis by (simp add: t)
  next
    case False
    with le dc Cons.prems(1) t have "c < d" by (simp add: less_char_def)
    then show ?thesis by (simp add: t)
  qed
qed simp

lemma pad_digits:
  assumes "0 \<le> n" and "n < 10 ^ 20"
  shows "length (pad0 20 n) = 20 \<and> list_all is_digit (pad0 20 n) \<and> digits_value (pad0 20 n) = nat n"
proof -
  have "length (nat_str (nat n)) \<le> 20" using assms by (intro nat_str_length) (simp_all add: nat_less_iff)
  moreover have "digits_value (replicate k (CHR ''0'') @ s) = digits_value s" for k s
    by (induction k) (simp_all add: digits_value_Cons digit_value_def digits09_def upt_rec)
  moreover have "is_digit (CHR ''0'')" by (simp add: is_digit_def digits09_def)
  ultimately show ?thesis
    using assms nat_str_digits [of "nat n"] by (auto simp: pad0_def int_str_def Let_def digits_value_nat_str list_all_iff)
qed

lemma append_less [simp]: "u @ s < u @ t \<longleftrightarrow> s < (t :: string)"
  by (induction u) simp_all

lemma batch_names_ordered:
  assumes "0 \<le> a" "a < b" "b < 10 ^ 20"
  shows "batch_name_of a c < batch_name_of b d"
  unfolding batch_name_of_def append_less using assms pad_digits [of a] pad_digits [of b]
  by (intro digits_order) simp_all

lemma batch_name_ok: "0 \<le> a \<Longrightarrow> a < 10 ^ 20 \<Longrightarrow> 0 \<le> b \<Longrightarrow> b < 10 ^ 20 \<Longrightarrow> batch_name (batch_name_of a b)"
  using pad_digits [of a] pad_digits [of b] by (simp add: batch_name_def batch_name_of_def)

lemma other_names:
  "\<not> batch_name ''HEAD.json''" "\<not> batch_name ''.lock''" "\<not> batch_name (''.pending-'' @ i)" "\<not> batch_name (''.head-'' @ i)"
  by (simp_all add: batch_name_def)

lemma batch_name_start: "batch_name n \<Longrightarrow> take 6 n = ''batch-''"
  by (simp add: batch_name_def)

end
