(* ===== verification/SpoolChain.thy ===== *)
theory SpoolChain
  imports SpoolText
begin

text \<open>
  The chain of batches that belongs to the rows of a source, and how the exporter reads it back and compares it with the rows.
\<close>

section \<open>Rows and their chain\<close>

definition rows_ok :: "event_row list \<Rightarrow> bool" where
  "rows_ok rows \<longleftrightarrow> sorted_wrt (<) (map fst rows) \<and> (\<forall>r\<in>set rows. 1 \<le> fst r \<and> fst r < 2 ^ 63)"

definition row_line :: "event_row \<Rightarrow> string" where
  "row_line r = json_line (ve_payload (snd r))"

definition lines_of :: "event_row list \<Rightarrow> string" where
  "lines_of rows = concat (map row_line rows)"

definition segment :: "nat \<Rightarrow> nat \<Rightarrow> 'a list \<Rightarrow> 'a list" where
  "segment a b xs = take (b - a) (drop a xs)"

definition cursor_at :: "event_row list \<Rightarrow> nat \<Rightarrow> int" where
  "cursor_at rows n = (if n = 0 then 0 else fst (rows ! (n - 1)))"

definition text_at :: "event_row list \<Rightarrow> nat \<Rightarrow> string" where
  "text_at rows n = concat (map digest_line (take n rows))"

definition state_at :: "env \<Rightarrow> event_row list \<Rightarrow> nat \<Rightarrow> spool_state" where
  "state_at env rows n = \<lparr>ss_cursor = cursor_at rows n, ss_count = int n, ss_digest = e_sha256 env (text_at rows n)\<rparr>"

definition manifest_at :: "env \<Rightarrow> event_row list \<Rightarrow> nat \<Rightarrow> nat \<Rightarrow> manifest" where
  "manifest_at env rows a b = new_manifest env (state_at env rows a) (state_at env rows b) (fst (rows ! a)) (lines_of (segment a b rows))"

definition batch_files :: "env \<Rightarrow> string \<Rightarrow> event_row list \<Rightarrow> nat \<Rightarrow> nat \<Rightarrow> spool_node dict" where
  "batch_files env x rows a b = [(''events.jsonl'', SFile 0x180 1 (lines_of (segment a b rows))),
     (''manifest.json'', SFile 0x180 1 (json_line (manifest_val x (manifest_at env rows a b))))]"

definition name_at :: "event_row list \<Rightarrow> nat \<Rightarrow> nat \<Rightarrow> string" where
  "name_at rows a b = batch_name_of (fst (rows ! a)) (cursor_at rows b)"

fun chain_files :: "env \<Rightarrow> string \<Rightarrow> event_row list \<Rightarrow> nat \<Rightarrow> nat list \<Rightarrow> (string \<times> spool_node dict) list" where
  "chain_files env x rows a [] = []"
| "chain_files env x rows a (b # ns) = (name_at rows a b, batch_files env x rows a b) # chain_files env x rows b ns"

fun chain_manifests :: "env \<Rightarrow> event_row list \<Rightarrow> nat \<Rightarrow> nat list \<Rightarrow> manifest list" where
  "chain_manifests env rows a [] = []"
| "chain_manifests env rows a (b # ns) = manifest_at env rows a b # chain_manifests env rows b ns"

text \<open>The cuts of a chain: growing, at most 1000 events and 20 MB a batch.\<close>

fun cuts_ok :: "event_row list \<Rightarrow> nat \<Rightarrow> nat list \<Rightarrow> bool" where
  "cuts_ok rows a [] \<longleftrightarrow> a \<le> length rows"
| "cuts_ok rows a (b # ns) \<longleftrightarrow> a < b \<and> b \<le> a + 1000 \<and> length (lines_of (segment a b rows)) \<le> MAX_BATCH_SIZE \<and> cuts_ok rows b ns"

abbreviation end_of :: "nat \<Rightarrow> nat list \<Rightarrow> nat" where
  "end_of a ns \<equiv> List.last (a # ns)"

lemma cuts_le: "cuts_ok rows a ns \<Longrightarrow> a \<le> end_of a ns \<and> end_of a ns \<le> length rows"
  by (induction rows a ns rule: cuts_ok.induct) fastforce+

lemma cuts_bound: "cuts_ok rows a ns \<Longrightarrow> n \<in> set (a # ns) \<Longrightarrow> a \<le> n \<and> n \<le> end_of a ns"
proof (induction rows a ns rule: cuts_ok.induct)
  case (2 rows a b ns)
  then show ?case using cuts_le [of rows b ns] by auto
qed simp

lemma segment_append: "a \<le> b \<Longrightarrow> b \<le> c \<Longrightarrow> segment a b xs @ segment b c xs = segment a c xs"
proof -
  assume "a \<le> b" "b \<le> c"
  then have "c - a = (b - a) + (c - b)" "drop b xs = drop (b - a) (drop a xs)" by simp_all
  then show ?thesis by (simp only: segment_def take_add)
qed

lemma segment_same [simp]: "segment a a xs = []" and segment_0 [simp]: "segment 0 b xs = take b xs"
  by (simp_all add: segment_def)

lemma segment_Suc: "a < length xs \<Longrightarrow> a < b \<Longrightarrow> segment a b xs = xs ! a # segment (Suc a) b xs"
  by (simp add: segment_def Cons_nth_drop_Suc [symmetric] take_Cons' flip: diff_Suc_1)

lemma lines_append [simp]: "lines_of (xs @ ys) = lines_of xs @ lines_of ys"
  by (simp add: lines_of_def)

lemma row_at: "rows_ok rows \<Longrightarrow> i < j \<Longrightarrow> j < length rows \<Longrightarrow> fst (rows ! i) < fst (rows ! j)"
  by (simp add: rows_ok_def sorted_wrt_iff_nth_less)

lemma row_range: "rows_ok rows \<Longrightarrow> i < length rows \<Longrightarrow> 1 \<le> fst (rows ! i) \<and> fst (rows ! i) < 2 ^ 63"
  by (simp add: rows_ok_def)

lemma row_index: "rows_ok rows \<Longrightarrow> i < length rows \<Longrightarrow> int i < fst (rows ! i)"
proof (induction i)
  case 0
  then show ?case using row_range [of rows 0] by simp
next
  case (Suc i)
  then show ?case using row_at [of rows i "Suc i"] by simp
qed

lemma cursor_before: "rows_ok rows \<Longrightarrow> n \<le> i \<Longrightarrow> i < length rows \<Longrightarrow> cursor_at rows n < fst (rows ! i)"
  using row_at [of rows "n - 1" i] row_range [of rows i] by (cases "n = 0") (simp_all add: cursor_at_def)

lemma cursor_after: "rows_ok rows \<Longrightarrow> i < n \<Longrightarrow> n \<le> length rows \<Longrightarrow> fst (rows ! i) \<le> cursor_at rows n"
proof -
  assume a: "rows_ok rows" "i < n" "n \<le> length rows"
  have "n - 1 < length rows" "i = n - 1 \<or> i < n - 1" using a(2,3) by arith+
  then show ?thesis using row_at [OF a(1), of i "n - 1"] a by (auto simp: cursor_at_def)
qed

lemma cursor_mono: "rows_ok rows \<Longrightarrow> a < b \<Longrightarrow> b \<le> length rows \<Longrightarrow> cursor_at rows a < cursor_at rows b"
  using cursor_before [of rows a "b - 1"] by (simp add: cursor_at_def)

lemma cursor_range: "rows_ok rows \<Longrightarrow> n \<le> length rows \<Longrightarrow> int n \<le> cursor_at rows n \<and> cursor_at rows n < 2 ^ 63"
  using row_index [of rows "n - 1"] row_range [of rows "n - 1"] by (cases n) (auto simp: cursor_at_def)

lemma filter_upto:
  assumes "rows_ok rows" and "n \<le> length rows"
  shows "filter (\<lambda>r. fst r \<le> cursor_at rows n) rows = take n rows" and "filter (\<lambda>r. cursor_at rows n < fst r) rows = drop n rows"
proof -
  have t: "\<forall>r\<in>set (take n rows). fst r \<le> cursor_at rows n"
  proof
    fix r assume "r \<in> set (take n rows)"
    then obtain i where "i < n" "r = rows ! i" by (auto simp: in_set_conv_nth)
    then show "fst r \<le> cursor_at rows n" using cursor_after [OF assms(1) _ assms(2)] by simp
  qed
  have d: "\<forall>r\<in>set (drop n rows). cursor_at rows n < fst r"
  proof
    fix r assume "r \<in> set (drop n rows)"
    then obtain i where "i < length (drop n rows)" "r = drop n rows ! i" by (metis in_set_conv_nth)
    then have "n + i < length rows" "r = rows ! (n + i)" by simp_all
    then show "cursor_at rows n < fst r" using cursor_before [OF assms(1), of n "n + i"] by simp
  qed
  have "filter p rows = filter p (take n rows) @ filter p (drop n rows)" for p by (simp flip: filter_append)
  then show "filter (\<lambda>r. fst r \<le> cursor_at rows n) rows = take n rows" "filter (\<lambda>r. cursor_at rows n < fst r) rows = drop n rows"
    using t d by (auto simp: filter_empty_conv filter_id_conv)
qed

section \<open>The states and batches are accepted\<close>

definition sha_ok :: "env \<Rightarrow> bool" where
  "sha_ok env \<longleftrightarrow> (\<forall>t. hex64 (e_sha256 env t))"

lemma state_val_items: "\<exists>d. json_value (state_val x st) = VDict d \<and> keys_are d STATE_KEYS
    \<and> get_or d ''version'' VNone = VStr VERSION \<and> get_or d ''exercise_id'' VNone = VStr x
    \<and> get_or d ''cursor'' VNone = VInt (ss_cursor st) \<and> get_or d ''event_count'' VNone = VInt (ss_count st)
    \<and> get_or d ''prefix_sha256'' VNone = VStr (ss_digest st)"
proof -
  obtain d where d: "state_val x st = VDict d" "distinct (map fst d)" "set (map fst d) = set STATE_KEYS" by (simp add: state_val_def STATE_KEYS_def)
  obtain e where e: "json_value (VDict d) = VDict e" "set (map fst e) = set (map fst d)" using json_value_dict by blast
  note item = json_value_item [OF d(2) e(1)]
  from d(1) e d(3) show ?thesis by (auto simp: keys_are_def get_or_def item) (auto simp: state_val_def)
qed

lemma wf_state: "wf_val (state_val x st)"
  by (simp add: state_val_def)

lemma state_at_0: "state_at env rows 0 = empty_state env"
  by (simp add: state_at_def empty_state_def cursor_at_def text_at_def)

lemma check_state_at:
  assumes "rows_ok rows" and "n \<le> length rows" and "sha_ok env"
  shows "check_state env x (json_value (state_val x (state_at env rows n))) = Inr (state_at env rows n)"
proof -
  let ?st = "state_at env rows n"
  obtain d where d: "json_value (state_val x ?st) = VDict d" "keys_are d STATE_KEYS"
    "get_or d ''version'' VNone = VStr VERSION" "get_or d ''exercise_id'' VNone = VStr x"
    "get_or d ''cursor'' VNone = VInt (ss_cursor ?st)" "get_or d ''event_count'' VNone = VInt (ss_count ?st)"
    "get_or d ''prefix_sha256'' VNone = VStr (ss_digest ?st)" using state_val_items by blast
  have "0 \<le> ss_cursor ?st" "0 \<le> ss_count ?st" "ss_count ?st \<le> ss_cursor ?st"
    using cursor_range [OF assms(1,2)] by (simp_all add: state_at_def)
  moreover have "digest_of (VStr (ss_digest ?st)) = Some (ss_digest ?st)"
    using assms(3) by (simp add: digest_of_def state_at_def sha_ok_def)
  moreover have "ss_count ?st = 0 \<Longrightarrow> ?st = empty_state env" by (simp add: state_at_def empty_state_def cursor_at_def text_at_def)
  ultimately show ?thesis
    by (simp add: check_state_def d strict_int_def Let_def requireR_def)
qed

lemma manifest_val_items: "\<exists>d. json_value (manifest_val x m) = VDict d \<and> set (map fst d) = set MANIFEST_KEYS
    \<and> map_of d ''version'' = Some (VStr VERSION) \<and> map_of d ''exercise_id'' = Some (VStr x)
    \<and> map_of d ''previous'' = Some (json_value (state_val x (mf_previous m))) \<and> map_of d ''next'' = Some (json_value (state_val x (mf_next m)))
    \<and> map_of d ''first_cursor'' = Some (VInt (mf_first m)) \<and> map_of d ''event_count'' = Some (VInt (mf_count m))
    \<and> map_of d ''bytes'' = Some (VInt (mf_bytes m)) \<and> map_of d ''events_sha256'' = Some (VStr (mf_sha m))"
proof -
  obtain d where d: "manifest_val x m = VDict d" "distinct (map fst d)" "set (map fst d) = set MANIFEST_KEYS"
    by (simp add: manifest_val_def MANIFEST_KEYS_def)
  obtain e where e: "json_value (VDict d) = VDict e" "set (map fst e) = set (map fst d)" using json_value_dict by blast
  note item = json_value_item [OF d(2) e(1)]
  from d(1) e d(3) show ?thesis by (auto simp: item) (auto simp: manifest_val_def)
qed

lemma wf_manifest: "wf_val (manifest_val x m)"
  by (simp add: manifest_val_def wf_state)

definition small_name :: "string \<Rightarrow> bool" where
  "small_name x \<longleftrightarrow> length (json_quote x) \<le> 1000"

lemma short_state_at: "rows_ok rows \<Longrightarrow> n \<le> length rows \<Longrightarrow> sha_ok env \<Longrightarrow> short_state (state_at env rows n)"
  using cursor_range [of rows n] by (simp add: short_state_def state_at_def sha_ok_def)

lemma state_line_size: "short_state st \<Longrightarrow> small_name x \<Longrightarrow> length (json_line (state_val x st)) \<le> 4096"
  using length_state [of st x] by (simp add: json_line_def small_name_def)

lemma safe_file_new: "safe_file (Some (SFile 0x180 1 c)) n = (if n < length c then Inl (spool_error ''unsafe or oversized spool file'') else Inr c)"
  "safe_file (Some (SFile 0x180 (Suc 0) c)) n = (if n < length c then Inl (spool_error ''unsafe or oversized spool file'') else Inr c)"
  by (simp_all add: safe_file_def requireR_def)

lemma manifest_at_size:
  assumes "rows_ok rows" "b \<le> length rows" "a < b" "sha_ok env" "small_name x" "length (lines_of (segment a b rows)) \<le> MAX_BATCH_SIZE"
  shows "length (json_line (manifest_val x (manifest_at env rows a b))) \<le> 4096"
proof -
  have "cursor_at rows b < 2 ^ 63" "int b \<le> cursor_at rows b" using cursor_range [OF assms(1,2)] by simp_all
  then have "short_manifest (manifest_at env rows a b)"
    using assms row_range [of rows a] short_state_at [of rows a env] short_state_at [of rows b env]
    by (simp add: short_manifest_def manifest_at_def new_manifest_def state_at_def sha_ok_def MAX_BATCH_SIZE_def)
  from length_manifest [OF this, of x] assms(5) show ?thesis by (simp add: json_line_def small_name_def)
qed

lemma lines_mark: "rs \<noteq> [] \<Longrightarrow> ends_with [CHR 0x0A] (lines_of rs)"
proof -
  assume "rs \<noteq> []"
  then have "lines_of rs = lines_of (butlast rs) @ row_line (List.last rs)"
    by (metis append_butlast_last_id lines_append lines_of_def concat.simps list.simps(8,9) append_Nil2)
  then show ?thesis by (simp add: ends_with_def starts_with_def row_line_def json_line_def)
qed

lemma split_lines_of: "length (split_lines (lines_of rs)) = length rs"
  using split_json_lines [of "map (ve_payload \<circ> snd) rs"] by (simp add: lines_of_def row_line_def [abs_def] comp_def)

lemma spool_batch_at:
  assumes "rows_ok rows" "b \<le> length rows" "a < b" "b \<le> a + 1000" "length (lines_of (segment a b rows)) \<le> MAX_BATCH_SIZE"
    "sha_ok env" "small_name x"
  shows "spool_batch env x (name_at rows a b) (batch_files env x rows a b) (state_at env rows a) = Inr (manifest_at env rows a b)"
proof -
  let ?m = "manifest_at env rows a b" and ?c = "lines_of (segment a b rows)"
  obtain d where d: "json_value (manifest_val x ?m) = VDict d" "set (map fst d) = set MANIFEST_KEYS"
    "map_of d ''version'' = Some (VStr VERSION)" "map_of d ''exercise_id'' = Some (VStr x)"
    "map_of d ''previous'' = Some (json_value (state_val x (mf_previous ?m)))" "map_of d ''next'' = Some (json_value (state_val x (mf_next ?m)))"
    "map_of d ''first_cursor'' = Some (VInt (mf_first ?m))" "map_of d ''event_count'' = Some (VInt (mf_count ?m))"
    "map_of d ''bytes'' = Some (VInt (mf_bytes ?m))" "map_of d ''events_sha256'' = Some (VStr (mf_sha ?m))"
    using manifest_val_items by blast
  have files: "keys_are (batch_files env x rows a b) [''manifest.json'', ''events.jsonl'']"
    "bindR (safe_file (map_of (batch_files env x rows a b) ''manifest.json'') 4096) spool_load = Inr (VDict d)"
    "safe_file (map_of (batch_files env x rows a b) ''events.jsonl'') MAX_BATCH_SIZE = Inr ?c"
    using manifest_at_size [OF assms(1,2,3,6,7,5)] assms(5)
    by (auto simp: keys_are_def batch_files_def safe_file_new load_line wf_manifest d(1) simp del: One_nat_def)
  have m: "mf_previous ?m = state_at env rows a" "mf_next ?m = state_at env rows b" "mf_first ?m = fst (rows ! a)"
    "mf_count ?m = int b - int a" "mf_bytes ?m = int (length ?c)" "mf_sha ?m = e_sha256 env ?c"
    by (simp_all add: manifest_at_def new_manifest_def state_at_def)
  have fields: "elements_of (VDict d) = Inr (map (VStr \<circ> fst) d)" "(\<lambda>kv. VStr (fst kv)) ` set d = VStr ` set MANIFEST_KEYS"
    using arg_cong [where f = "image VStr", OF d(2)] by (simp_all add: elements_of_def image_image)
  have ck: "check_state env x (json_value (state_val x (mf_previous ?m))) = Inr (state_at env rows a)"
    "check_state env x (json_value (state_val x (mf_next ?m))) = Inr (state_at env rows b)"
    unfolding m using assms by (simp_all add: check_state_at)
  have count: "int (length (split_lines ?c)) = int b - int a" and segment: "segment a b rows \<noteq> []"
    using assms(2,3) by (simp_all add: split_lines_of segment_def)
  have "cursor_at rows a < fst (rows ! a)" "fst (rows ! a) \<le> cursor_at rows b"
    using cursor_before [OF assms(1), of a a] cursor_after [OF assms(1) assms(3,2)] assms(2,3) by simp_all
  then have range: "ss_cursor (state_at env rows a) < mf_first ?m \<and> mf_first ?m \<le> ss_cursor (state_at env rows b) \<and> 1 \<le> mf_count ?m
      \<and> mf_count ?m \<le> 1000 \<and> ss_count (state_at env rows b) = ss_count (state_at env rows a) + mf_count ?m
      \<and> name_at rows a b = batch_name_of (mf_first ?m) (ss_cursor (state_at env rows b))"
    using assms(3,4) by (simp add: m name_at_def state_at_def)
  have "batch_counters d = Inr (mf_first ?m, mf_count ?m, mf_bytes ?m)"
    by (simp add: batch_counters_def get_or_def d strict_int_def)
  then have "spool_batch env x (name_at rows a b) (batch_files env x rows a b) (state_at env rows a)
      = Inr \<lparr>mf_previous = state_at env rows a, mf_next = state_at env rows b, mf_first = mf_first ?m, mf_count = mf_count ?m,
          mf_bytes = mf_bytes ?m, mf_sha = e_sha256 env ?c\<rparr>"
    using range lines_mark [OF segment] count
    by (simp add: spool_batch_def files fields requireR_def item_of_def ditem_def d get_or_def ck m(4,5,6) del: bindR_Inr)
  also have "\<dots> = Inr ?m" by (simp add: m [symmetric])
  finally show ?thesis .
qed


lemma spool_chain_at:
  assumes "rows_ok rows" "sha_ok env" "small_name x"
  shows "cuts_ok rows a ns \<Longrightarrow> spool_chain env x head (chain_files env x rows a ns) (state_at env rows a) seen
    = Inr (state_at env rows (end_of a ns), seen \<or> (\<exists>k\<in>set ns. head = state_at env rows k), chain_manifests env rows a ns)"
proof (induction ns arbitrary: a seen)
  case (Cons b ns)
  have b: "b \<le> length rows" using cuts_le [of rows b ns] Cons.prems by simp
  have nxt: "mf_next (manifest_at env rows a b) = state_at env rows b" by (simp add: manifest_at_def new_manifest_def)
  from Cons.prems Cons.IH [of b "seen \<or> head = state_at env rows b"] spool_batch_at [OF assms(1) b, of a env x] assms(2,3) nxt
  show ?case by (auto simp: bindR_def)
qed simp

section \<open>The directory\<close>

definition state_file :: "env \<Rightarrow> string \<Rightarrow> event_row list \<Rightarrow> nat \<Rightarrow> string" where
  "state_file env x rows k = json_line (state_val x (state_at env rows k))"

text \<open>What an entry of the spool may be; identifiers below \<open>m\<close> have been used.\<close>

definition spool_entry :: "env \<Rightarrow> (nat \<Rightarrow> string) \<Rightarrow> string \<Rightarrow> event_row list \<Rightarrow> nat \<Rightarrow> nat list \<Rightarrow> string \<times> spool_node \<Rightarrow> bool" where
  "spool_entry env ids x rows m ns e \<longleftrightarrow>
     (fst e = ''HEAD.json'' \<and> (\<exists>k\<in>set (0 # ns). snd e = SFile 0x180 1 (state_file env x rows k)))
   \<or> (fst e = ''.lock'' \<and> snd e = SFile 0x180 1 [])
   \<or> (batch_name (fst e) \<and> (\<exists>fs. snd e = SDir 0x1C0 fs))
   \<or> (\<exists>j<m. fst e = ''.pending-'' @ ids j \<and> (\<exists>fs. snd e = SDir 0x1C0 fs))
   \<or> (\<exists>j<m. fst e = ''.head-'' @ ids j \<and> (\<exists>k\<in>set (0 # ns). \<exists>c. prefix c (state_file env x rows k) \<and> snd e = SFile 0x180 1 c))"

definition batch_dirs :: "spool_node dict \<Rightarrow> spool_node dict" where
  "batch_dirs es = filter (\<lambda>e. batch_name (fst e)) es"

definition good_dir :: "env \<Rightarrow> (nat \<Rightarrow> string) \<Rightarrow> string \<Rightarrow> event_row list \<Rightarrow> nat \<Rightarrow> nat list \<Rightarrow> spool_node dict \<Rightarrow> bool" where
  "good_dir env ids x rows m ns es \<longleftrightarrow> distinct (map fst es) \<and> cuts_ok rows 0 ns
     \<and> batch_dirs es = map (map_prod id (SDir 0x1C0)) (chain_files env x rows 0 ns)
     \<and> (\<forall>e\<in>set es. spool_entry env ids x rows m ns e)
     \<and> (map_of es ''HEAD.json'' = None \<longrightarrow> ns = [] \<and> (\<forall>e\<in>set es. fst e = ''.lock'' \<or> (\<exists>j. fst e = ''.head-'' @ ids j)))"

definition ids_ok :: "(nat \<Rightarrow> string) \<Rightarrow> bool" where
  "ids_ok ids \<longleftrightarrow> (\<forall>n. length (ids n) = 32 \<and> list_all lower_hex (ids n))"

lemma hex_names: "ids_ok ids \<Longrightarrow> hex_name ''.pending-'' (''.pending-'' @ ids j) \<and> hex_name ''.head-'' (''.head-'' @ ids j)
    \<and> \<not> hex_name ''.pending-'' (''.head-'' @ ids j)"
  by (simp add: ids_ok_def hex_name_def starts_with_def)

lemma state_file_size: "rows_ok rows \<Longrightarrow> k \<le> length rows \<Longrightarrow> sha_ok env \<Longrightarrow> small_name x \<Longrightarrow> length (state_file env x rows k) \<le> 4096"
  unfolding state_file_def by (intro state_line_size short_state_at)

lemma cut_range: "cuts_ok rows 0 ns \<Longrightarrow> k \<in> set (0 # ns) \<Longrightarrow> k \<le> length rows"
  using cuts_bound [of rows 0 ns k] cuts_le [of rows 0 ns] by simp

definition node_files :: "spool_node \<Rightarrow> spool_node dict" where
  "node_files nd = (case nd of SDir m fs \<Rightarrow> fs | _ \<Rightarrow> [])"

lemma batch_path_entry:
  assumes "rows_ok rows" "sha_ok env" "small_name x" "ids_ok ids" "cuts_ok rows 0 ns" "spool_entry env ids x rows m ns e"
  shows "batch_path e = Inr (if batch_name (fst e) then [(fst e, node_files (snd e))] else [])"
proof -
  have size: "\<And>k. k \<in> set (0 # ns) \<Longrightarrow> length (state_file env x rows k) \<le> 4096"
    using state_file_size [OF assms(1) _ assms(2,3)] cut_range [OF assms(5)] by blast
  have short: "\<And>k c. k \<in> set (0 # ns) \<Longrightarrow> prefix c (state_file env x rows k) \<Longrightarrow> length c \<le> 4096"
    using size prefix_length_le by (metis le_trans)
  have nb: "\<not> batch_name (''.pending-'' @ i)" "\<not> batch_name (''.head-'' @ i)" "\<not> batch_name ''HEAD.json''" "\<not> batch_name ''.lock''" for i
    by (rule other_names)+
  obtain n nd where e: "e = (n, nd)" by (cases e)
  from assms(6) consider
    k where "n = ''HEAD.json''" "k \<in> set (0 # ns)" "nd = SFile 0x180 1 (state_file env x rows k)"
  | "n = ''.lock''" "nd = SFile 0x180 1 []"
  | fs where "batch_name n" "nd = SDir 0x1C0 fs"
  | j fs where "n = ''.pending-'' @ ids j" "nd = SDir 0x1C0 fs"
  | j k c where "n = ''.head-'' @ ids j" "k \<in> set (0 # ns)" "prefix c (state_file env x rows k)" "nd = SFile 0x180 1 c"
    unfolding spool_entry_def e fst_conv snd_conv by blast
  then show ?thesis
  proof cases
    case 1
    then show ?thesis using size [of k] nb by (simp add: e batch_path_def safe_file_new)
  next
    case 2
    then show ?thesis using nb by (simp add: e batch_path_def safe_file_new)
  next
    case 3
    then have "n \<noteq> ''HEAD.json''" "n \<noteq> ''.lock''" using nb by auto
    with 3 show ?thesis by (simp add: e batch_path_def spool_directory_def node_files_def)
  next
    case 4
    then show ?thesis using nb hex_names [OF assms(4), of j] by (simp add: e batch_path_def spool_directory_def)
  next
    case 5
    then show ?thesis using nb hex_names [OF assms(4), of j] short [of k c] by (simp add: e batch_path_def safe_file_new)
  qed
qed

lemma chain_sorted:
  assumes "rows_ok rows"
  shows "cuts_ok rows a ns \<Longrightarrow> sorted_wrt (<) (map fst (chain_files env x rows a ns))
    \<and> (\<forall>f\<in>set (chain_files env x rows a ns). \<exists>i c. a \<le> i \<and> i < length rows \<and> fst f = batch_name_of (fst (rows ! i)) c)"
proof (induction ns arbitrary: a)
  case (Cons b ns)
  have b: "a < b" "b \<le> length rows" using cuts_le [of rows b ns] Cons.prems by simp_all
  note IH = Cons.IH [of b]
  have "\<forall>f\<in>set (chain_files env x rows b ns). name_at rows a b < fst f"
  proof
    fix f assume "f \<in> set (chain_files env x rows b ns)"
    with IH Cons.prems obtain i c where i: "b \<le> i" "i < length rows" "fst f = batch_name_of (fst (rows ! i)) c" by auto
    have "fst (rows ! a) < fst (rows ! i)" using b i by (intro row_at [OF assms]) simp_all
    then show "name_at rows a b < fst f"
      unfolding name_at_def i(3) using row_range [OF assms, of a] row_range [OF assms, of i] b i
      by (intro batch_names_ordered) simp_all
  qed
  moreover have "\<exists>i c. a \<le> i \<and> i < length rows \<and> name_at rows a b = batch_name_of (fst (rows ! i)) c"
    using b by (auto simp: name_at_def)
  moreover have "\<forall>f\<in>set (chain_files env x rows b ns). \<exists>i c. a \<le> i \<and> i < length rows \<and> fst f = batch_name_of (fst (rows ! i)) c"
  proof
    fix f assume "f \<in> set (chain_files env x rows b ns)"
    with IH Cons.prems obtain i c where "b \<le> i" "i < length rows" "fst f = batch_name_of (fst (rows ! i)) c" by auto
    with b(1) show "\<exists>i c. a \<le> i \<and> i < length rows \<and> fst f = batch_name_of (fst (rows ! i)) c" by (intro exI [of _ i] exI [of _ c]) simp
  qed
  ultimately show ?case using IH Cons.prems by auto
qed simp

lemma mapR_all: "(\<And>e. e \<in> set es \<Longrightarrow> f e = Inr (g e)) \<Longrightarrow> mapR f es = Inr (map g es)"
  by (induction es) simp_all

lemma concat_if: "concat (map (\<lambda>e. if p e then [f e] else []) es) = map f (filter p es)"
  by (induction es) simp_all

lemma batch_paths_at:
  assumes "rows_ok rows" "sha_ok env" "small_name x" "ids_ok ids" "good_dir env ids x rows m ns es"
  shows "batch_paths es = Inr (chain_files env x rows 0 ns)"
proof -
  have cuts: "cuts_ok rows 0 ns" using assms(5) by (simp add: good_dir_def)
  have "mapR batch_path es = Inr (map (\<lambda>e. if batch_name (fst e) then [(fst e, node_files (snd e))] else []) es)"
    using assms(5) by (intro mapR_all batch_path_entry [OF assms(1-4) cuts, where m = m]) (simp add: good_dir_def)
  moreover have "map (\<lambda>e. (fst e, node_files (snd e))) (batch_dirs es) = chain_files env x rows 0 ns"
    using assms(5) by (simp add: good_dir_def comp_def node_files_def)
  moreover have "sort_key fst (chain_files env x rows 0 ns) = chain_files env x rows 0 ns"
    using chain_sorted [OF assms(1) cuts, of env x] by (intro sort_key_id_if_sorted) (simp add: strict_sorted_imp_sorted)
  ultimately show ?thesis by (simp add: batch_paths_def concat_if batch_dirs_def)
qed

lemma spool_batches_at:
  assumes "rows_ok rows" "sha_ok env" "small_name x" "ids_ok ids" "good_dir env ids x rows m ns es"
  shows "spool_batches env x (Some (SDir 0x1C0 es))
    = Inr (state_at env rows (end_of 0 ns), map_of es ''HEAD.json'' \<noteq> None, chain_manifests env rows 0 ns)"
proof (cases "map_of es ''HEAD.json''")
  case None
  with assms(5) have ns: "ns = []" and only: "\<And>e. e \<in> set es \<Longrightarrow> fst e = ''.lock'' \<or> (\<exists>j. fst e = ''.head-'' @ ids j)"
    and entry: "\<And>e. e \<in> set es \<Longrightarrow> spool_entry env ids x rows m [] e" by (auto simp: good_dir_def)
  have size: "length (state_file env x rows 0) \<le> 4096" by (rule state_file_size [OF assms(1) _ assms(2,3)]) simp
  have "\<exists>c. headless_entry e = Inr c" if e: "e \<in> set es" for e
  proof (cases "fst e = ''.lock''")
    case True
    with entry [OF e] other_names show ?thesis by (cases e) (auto simp: spool_entry_def headless_entry_def safe_file_new)
  next
    case False
    with only [OF e] obtain j where j: "fst e = ''.head-'' @ ids j" by blast
    with entry [OF e] other_names obtain c where c: "prefix c (state_file env x rows 0)" "snd e = SFile 0x180 1 c" by (auto simp: spool_entry_def)
    have "length c \<le> 4096" using prefix_length_le [OF c(1)] size by simp
    with j c hex_names [OF assms(4), of j] show ?thesis by (cases e) (simp add: headless_entry_def safe_file_new)
  qed
  then obtain g where "\<And>e. e \<in> set es \<Longrightarrow> headless_entry e = Inr (g e)" by metis
  then have "mapR headless_entry es = Inr (map g es)" by (rule mapR_all)
  then show ?thesis using None ns by (simp add: spool_batches_def spool_directory_def requireR_def state_at_0)
next
  case (Some nd)
  then have "(''HEAD.json'', nd) \<in> set es" by (rule map_of_SomeD)
  with assms(5) obtain k where k: "k \<in> set (0 # ns)" "nd = SFile 0x180 1 (state_file env x rows k)"
    using other_names by (fastforce simp: good_dir_def spool_entry_def)
  have cuts: "cuts_ok rows 0 ns" using assms(5) by (simp add: good_dir_def)
  have "k \<le> length rows" by (rule cut_range [OF cuts k(1)])
  then have head: "bindR (bindR (safe_file (Some nd) 4096) spool_load) (check_state env x) = Inr (state_at env rows k)"
    using state_file_size [OF assms(1) _ assms(2,3), of k] check_state_at [OF assms(1) _ assms(2), of k x]
    unfolding k(2) by (simp add: safe_file_new state_file_def load_line wf_state del: bindR_Inr)
  have "es \<noteq> []" using Some by auto
  moreover have "state_at env rows k = state_at env rows 0 \<or> (\<exists>j\<in>set ns. state_at env rows k = state_at env rows j)" using k(1) by auto
  ultimately show ?thesis
    using Some head batch_paths_at [OF assms] spool_chain_at [OF assms(1-3) cuts, of "state_at env rows k" "state_at env rows k = state_at env rows 0"]
    by (simp add: spool_batches_def spool_directory_def requireR_def state_at_0 [of env rows, symmetric] del: bindR_Inr)
qed

end
