(* ===== verification/SpoolRead.thy ===== *)
theory SpoolRead
  imports SpoolChain
begin

text \<open>
  Reading the source: the old prefix is compared with the chain batch by batch, then one batch of new rows is taken.
\<close>

section \<open>The rows are valid events\<close>

fun check_all :: "env \<Rightarrow> sequences \<Rightarrow> event_row list \<Rightarrow> exc + sequences" where
  "check_all env seqs [] = Inr seqs"
| "check_all env seqs (row # rows) = bindR (spool_event env seqs (snd row)) (\<lambda>(line, s). check_all env s rows)"

lemma check_all_append: "check_all env seqs (xs @ ys) = bindR (check_all env seqs xs) (\<lambda>s. check_all env s ys)"
  by (induction xs arbitrary: seqs) (auto simp: bindR_def split: sum.splits)

lemma spool_event_line:
  assumes "spool_event env seqs e = Inr (line, s)"
  shows "line = json_line (ve_payload e) \<and> length line \<le> MAX_EVENT_SIZE"
proof -
  have c: "checked_event env seqs e = Inr (line, s)" using assms by (simp add: spool_event_def split: sum.splits)
  show ?thesis
  proof (cases "ve_payload e")
    case (VDict d)
    with c show ?thesis
      by (auto simp: checked_event_def unique_pairs_def Let_def simp del: val_eq.simps list.map split: if_splits)
  qed (use c in \<open>auto simp: checked_event_def unique_pairs_def split: if_splits\<close>)
qed

lemma segment_snoc: "a \<le> j \<Longrightarrow> j < length rows \<Longrightarrow> segment a (Suc j) rows = segment a j rows @ [rows ! j]"
  using segment_append [of a j "Suc j" rows] by (simp add: segment_Suc)

lemma text_Suc: "j < length rows \<Longrightarrow> text_at rows (Suc j) = text_at rows j @ digest_line (rows ! j)"
  by (simp add: text_at_def take_Suc_conv_app_nth)

lemma segment_start: "j < b \<Longrightarrow> b \<le> length rows \<Longrightarrow> segment j b rows = rows ! j # segment (Suc j) b rows"
  by (simp add: segment_Suc)

section \<open>The old prefix\<close>

definition read_at :: "env \<Rightarrow> event_row list \<Rightarrow> sequences \<Rightarrow> nat \<Rightarrow> nat \<Rightarrow> manifest list \<Rightarrow> source_read" where
  "read_at env rows seqs a j ms = \<lparr>sr_sequences = seqs, sr_text = text_at rows j, sr_count = int j, sr_cursor = cursor_at rows j,
     sr_batches = ms, sr_batch_text = lines_of (segment a j rows), sr_batch_count = int j - int a,
     sr_batch_size = int (length (lines_of (segment a j rows)))\<rparr>"

lemma read_state_at: "read_state env (read_at env rows seqs a j ms) = state_at env rows j"
  by (simp add: read_state_def read_at_def state_at_def)

lemma read_old_at:
  assumes "rows_ok rows" "a \<le> j" "j < b" "b \<le> length rows"
  shows "read_old env (rows ! j) (read_at env rows seqs a j (manifest_at env rows a b # later))
    = bindR (spool_event env seqs (snd (rows ! j))) (\<lambda>(line, s). Inr (if Suc j = b then read_at env rows s b b later
        else read_at env rows s a (Suc j) (manifest_at env rows a b # later)))"
proof (cases "spool_event env seqs (snd (rows ! j))")
  case (Inl e)
  then show ?thesis by (simp add: read_old_def read_at_def)
next
  case (Inr r)
  then obtain line s where r: "r = (line, s)" "line = row_line (rows ! j)"
    using spool_event_line by (cases r) (force simp: row_line_def)
  have range: "mf_first (manifest_at env rows a b) \<le> fst (rows ! j) \<and> fst (rows ! j) \<le> ss_cursor (mf_next (manifest_at env rows a b))"
    using assms row_at [OF assms(1), of a j] cursor_after [OF assms(1,3,4)]
    by (cases "a = j") (simp_all add: manifest_at_def new_manifest_def state_at_def)
  have step: "(read_at env rows seqs a j ms)\<lparr>sr_sequences := s, sr_text := text_at rows j @ digest_line (rows ! j), sr_count := int j + 1,
      sr_cursor := fst (rows ! j), sr_batch_text := lines_of (segment a j rows) @ line, sr_batch_count := int j - int a + 1,
      sr_batch_size := int (length (lines_of (segment a j rows))) + int (length line)\<rparr> = read_at env rows s a (Suc j) ms" for ms
    using assms by (simp add: read_at_def text_Suc segment_snoc cursor_at_def lines_of_def r(2))
  show ?thesis
  proof (cases "Suc j = b")
    case True
    then have c: "fst (rows ! j) = cursor_at rows b" by (auto simp: cursor_at_def)
    have "close_batch env (manifest_at env rows a b) later (read_at env rows s a b (manifest_at env rows a b # later)) = Inr (read_at env rows s b b later)"
      using read_state_at [of env rows s a b "manifest_at env rows a b # later"] assms
      by (simp add: close_batch_def requireR_def) (simp add: read_at_def manifest_at_def new_manifest_def lines_of_def state_at_def)
    then show ?thesis using Inr r(1) range step c True
      by (simp add: read_old_def requireR_def read_at_def [of env rows seqs] Let_def) (simp add: manifest_at_def new_manifest_def state_at_def)
  next
    case False
    then have "j < b - 1" "b - 1 < length rows" using assms(3,4) by arith+
    then have "fst (rows ! j) \<noteq> cursor_at rows b"
      using row_at [OF assms(1), of j "b - 1"] assms(3) by (simp add: cursor_at_def)
    then show ?thesis using Inr r(1) range step False
      by (simp add: read_old_def requireR_def read_at_def [of env rows seqs] Let_def) (simp add: manifest_at_def new_manifest_def state_at_def)
  qed
qed

lemma read_segment:
  assumes "rows_ok rows" "b \<le> length rows"
  shows "a \<le> j \<Longrightarrow> j < b \<Longrightarrow> read_rows (read_old env) (segment j b rows) (read_at env rows seqs a j (manifest_at env rows a b # later))
    = bindR (check_all env seqs (segment j b rows)) (\<lambda>s. Inr (read_at env rows s b b later))"
proof (induction "b - j" arbitrary: j seqs)
  case (Suc n)
  note start = segment_start [OF Suc.prems(2) assms(2)] and old = read_old_at [OF assms(1) Suc.prems assms(2)]
  show ?case
  proof (cases "Suc j = b")
    case True
    then have "segment (Suc j) b rows = []" by simp
    then show ?thesis unfolding start by (simp add: old True bindR_def split: sum.splits prod.splits)
  next
    case False
    with Suc.hyps(2) Suc.prems have h: "n = b - Suc j" "a \<le> Suc j" "Suc j < b" by simp_all
    show ?thesis
      unfolding start using Suc.hyps(1) [OF h] False by (auto simp: old bindR_def split: sum.splits)
  qed
qed simp

lemma read_chain:
  assumes "rows_ok rows"
  shows "cuts_ok rows a ns \<Longrightarrow> read_rows (read_old env) (segment a (end_of a ns) rows) (read_at env rows seqs a a (chain_manifests env rows a ns))
    = bindR (check_all env seqs (segment a (end_of a ns) rows)) (\<lambda>s. Inr (read_at env rows s (end_of a ns) (end_of a ns) []))"
proof (induction ns arbitrary: a seqs)
  case (Cons b ns)
  have b: "b \<le> length rows" "a < b" "b \<le> end_of b ns" using cuts_le [of rows b ns] Cons.prems by simp_all
  have split: "segment a (end_of a (b # ns)) rows = segment a b rows @ segment b (end_of b ns) rows"
    using segment_append [of a b "end_of b ns" rows] b by simp
  have app: "read_rows f (xs @ ys) r = bindR (read_rows f xs r) (read_rows f ys)" for f :: "event_row \<Rightarrow> source_read \<Rightarrow> exc + source_read" and xs ys r
    by (induction xs arbitrary: r) (auto simp: bindR_def split: sum.splits)
  show ?case
    unfolding split app check_all_append using read_segment [OF assms b(1) _ b(2), of a] Cons.IH [of b] Cons.prems
    by (auto simp: bindR_def split: sum.splits)
qed simp

section \<open>New rows\<close>

lemma read_new_from:
  assumes "rows_ok rows"
  shows "xs = segment n (n + length xs) rows \<Longrightarrow> n + length xs \<le> length rows
    \<Longrightarrow> read_new env xs (read_at env rows seqs a n []\<lparr>sr_batch_text := t, sr_batch_count := c, sr_batch_size := z\<rparr>) content first
        = Inr (r', content', first')
    \<Longrightarrow> \<exists>m s. n \<le> m \<and> m \<le> n + length xs \<and> r' = read_at env rows s a m []\<lparr>sr_batch_text := t, sr_batch_count := c, sr_batch_size := z\<rparr>
        \<and> content' = content @ lines_of (segment n m rows)
        \<and> first' = (if m = n then first else Some (case first of None \<Rightarrow> fst (rows ! n) | Some f \<Rightarrow> f))
        \<and> (length content \<le> MAX_BATCH_SIZE \<longrightarrow> length content' \<le> MAX_BATCH_SIZE) \<and> (xs \<noteq> [] \<and> content = [] \<longrightarrow> n < m)"
proof (induction xs arbitrary: n seqs content first)
  case Nil
  then show ?case by (intro exI [of _ n] exI [of _ seqs]) (simp add: lines_of_def)
next
  case (Cons row xs)
  have n: "n < length rows" "segment n (n + length (row # xs)) rows = rows ! n # segment (Suc n) (Suc n + length xs) rows"
    using Cons.prems(2) by (simp_all add: segment_Suc)
  have "row # xs = rows ! n # segment (Suc n) (Suc n + length xs) rows" by (rule trans [OF Cons.prems(1) n(2)])
  then have row: "row = rows ! n" and xs: "xs = segment (Suc n) (Suc n + length xs) rows" by simp_all
  from Cons.prems(3) obtain line s where ev: "spool_event env seqs (snd row) = Inr (line, s)"
    by (auto simp: read_at_def bindR_def split: sum.splits)
  from spool_event_line [OF ev] have line: "line = row_line row" "length line \<le> MAX_EVENT_SIZE" unfolding row_line_def by blast+
  have small: "length line \<le> MAX_BATCH_SIZE" using line(2) by (simp add: MAX_EVENT_SIZE_def MAX_BATCH_SIZE_def)
  show ?case
  proof (cases "MAX_BATCH_SIZE < length content + length line")
    case True
    with Cons.prems(3) ev have "r' = read_at env rows seqs a n []\<lparr>sr_batch_text := t, sr_batch_count := c, sr_batch_size := z\<rparr>"
      "content' = content" "first' = first" by (simp_all add: read_at_def)
    moreover have "content \<noteq> []" using True small by auto
    ultimately show ?thesis by (intro exI [of _ n] exI [of _ seqs]) (simp add: lines_of_def)
  next
    case False
    have step: "(read_at env rows seqs a n []\<lparr>sr_batch_text := t, sr_batch_count := c, sr_batch_size := z\<rparr>)
        \<lparr>sr_sequences := s, sr_text := text_at rows n @ digest_line row, sr_count := int n + 1, sr_cursor := fst row\<rparr>
      = read_at env rows s a (Suc n) []\<lparr>sr_batch_text := t, sr_batch_count := c, sr_batch_size := z\<rparr>"
      using n(1) by (simp add: read_at_def row text_Suc cursor_at_def)
    have more: "read_new env xs (read_at env rows s a (Suc n) []\<lparr>sr_batch_text := t, sr_batch_count := c, sr_batch_size := z\<rparr>)
        (content @ line) (Some (case first of None \<Rightarrow> fst row | Some f \<Rightarrow> f)) = Inr (r', content', first')"
      using Cons.prems(3) ev False step by (simp add: read_at_def [of env rows seqs])
    have room: "Suc n + length xs \<le> length rows" using Cons.prems(2) by simp
    from Cons.IH [OF xs room more] obtain m s' where m: "Suc n \<le> m" "m \<le> Suc n + length xs"
      "r' = read_at env rows s' a m []\<lparr>sr_batch_text := t, sr_batch_count := c, sr_batch_size := z\<rparr>"
      "content' = content @ line @ lines_of (segment (Suc n) m rows)"
      "first' = Some (case first of None \<Rightarrow> fst row | Some f \<Rightarrow> f)"
      "length (content @ line) \<le> MAX_BATCH_SIZE \<longrightarrow> length content' \<le> MAX_BATCH_SIZE"
      by (elim exE conjE) (rule that, assumption+, simp_all split: if_splits)
    have "segment n m rows = rows ! n # segment (Suc n) m rows" using m(1,2) Cons.prems(2) n(1) by (simp add: segment_Suc)
    then show ?thesis
      using m False line(1) unfolding row by (intro exI [of _ m] exI [of _ s']) (simp add: lines_of_def)
  qed
qed

lemma read_new_ok:
  "check_all env (sr_sequences r) xs = Inr s \<Longrightarrow> \<exists>r' content' first'. read_new env xs r content first = Inr (r', content', first')"
proof (induction xs arbitrary: r content first)
  case (Cons row xs)
  then obtain line s1 where "spool_event env (sr_sequences r) (snd row) = Inr (line, s1)" "check_all env s1 xs = Inr s"
    by (auto simp: bindR_def split: sum.splits)
  with Cons.IH [of "r\<lparr>sr_sequences := s1, sr_text := sr_text r @ digest_line row, sr_count := sr_count r + 1, sr_cursor := fst row\<rparr>"]
  show ?case by simp
qed simp

section \<open>The whole reading\<close>

text \<open>Where the reading succeeds, it takes the rows from where the chain ends.\<close>

definition batch_from :: "env \<Rightarrow> event_row list \<Rightarrow> nat \<Rightarrow> nat \<Rightarrow> source_batch" where
  "batch_from env rows n m = \<lparr>sb_content = lines_of (segment n m rows), sb_first = (if m = n then None else Some (fst (rows ! n))),
     sb_next = state_at env rows m, sb_pending = int (length rows - m)\<rparr>"

lemma start_read_at: "start_read ms = read_at env rows [] 0 0 ms"
  by (simp add: start_read_def read_at_def text_at_def cursor_at_def lines_of_def)

lemma spool_read_at:
  assumes "rows_ok rows" "cuts_ok rows 0 ns" "n = end_of 0 ns" "0 \<le> limit"
    and "spool_read env rows (state_at env rows (n)) limit (chain_manifests env rows 0 ns) = Inr batch"
  shows "\<exists>m. n \<le> m \<and> m \<le> length rows \<and> m \<le> n + nat limit \<and> batch = batch_from env rows (n) m
    \<and> length (lines_of (segment (n) m rows)) \<le> MAX_BATCH_SIZE \<and> (n < length rows \<and> 0 < limit \<longrightarrow> n < m)"
proof -
  have n: "n \<le> length rows" using cuts_le [OF assms(2)] assms(3) by simp
  have upto: "bound_integer (cursor_at rows n) = Inr (cursor_at rows n)" using cursor_range [OF assms(1) n] by (simp add: bound_integer_def)
  have old: "read_rows (read_old env) (take n rows) (start_read (chain_manifests env rows 0 ns))
      = bindR (check_all env [] (take n rows)) (\<lambda>s. Inr (read_at env rows s n n []))"
    using read_chain [OF assms(1,2), of env "[]"] unfolding start_read_at [of _ env rows] assms(3) [symmetric] by simp
  define xs where "xs = take (nat limit) (drop n rows)"
  from assms(5) obtain s r' content first where new: "read_new env xs (read_at env rows s n n []) [] None = Inr (r', content, first)"
    and batch: "batch = \<lparr>sb_content = content, sb_first = first, sb_next = read_state env r',
        sb_pending = int (length (filter (\<lambda>row. sr_cursor r' < fst row) rows))\<rparr>"
    by (auto simp: spool_read_def upto state_at_def [of _ _ n] filter_upto [OF assms(1) n] old xs_def read_at_def [of _ _ _ n])
  have len: "n + length xs \<le> length rows" "length xs \<le> nat limit" and xs: "xs = segment n (n + length xs) rows"
    using n by (auto simp: xs_def segment_def min_def)
  have "read_at env rows s n n [] = read_at env rows s n n []\<lparr>sr_batch_text := [], sr_batch_count := 0, sr_batch_size := 0\<rparr>"
    by (simp add: read_at_def lines_of_def)
  with new have new': "read_new env xs (read_at env rows s n n []\<lparr>sr_batch_text := [], sr_batch_count := 0, sr_batch_size := 0\<rparr>) [] None = Inr (r', content, first)"
    by simp
  note taken = read_new_from [OF assms(1) xs len(1) new']
  have empty: "length [] \<le> MAX_BATCH_SIZE" by simp
  from taken obtain m s' where m: "n \<le> m" "m \<le> n + length xs"
    "r' = read_at env rows s' n m []\<lparr>sr_batch_text := [], sr_batch_count := 0, sr_batch_size := 0\<rparr>"
    "content = lines_of (segment n m rows)" "first = (if m = n then None else Some (fst (rows ! n)))"
    "length content \<le> MAX_BATCH_SIZE" "xs \<noteq> [] \<longrightarrow> n < m"
    using empty by (elim exE conjE) (rule that, assumption+, simp_all)
  have ml: "m \<le> length rows" using m(2) len(1) by simp
  have "read_state env r' = state_at env rows m" "sr_cursor r' = cursor_at rows m"
    using read_state_at [of env rows s' n m "[]"] by (simp_all add: m(3) read_state_def) (simp add: read_at_def)
  then have "batch = batch_from env rows n m"
    using m(4,5) ml by (simp add: batch batch_from_def filter_upto [OF assms(1) ml])
  moreover have "xs \<noteq> []" if "n < length rows" "0 < limit" using that by (simp add: xs_def)
  ultimately show ?thesis using m ml len(2) by (intro exI [of _ m]) auto
qed

lemma spool_read_ok:
  assumes "rows_ok rows" "cuts_ok rows 0 ns" "n = end_of 0 ns" "check_all env [] rows = Inr s"
  shows "\<exists>batch. spool_read env rows (state_at env rows (n)) limit (chain_manifests env rows 0 ns) = Inr batch"
proof -
  have n: "n \<le> length rows" using cuts_le [OF assms(2)] assms(3) by simp
  have upto: "bound_integer (cursor_at rows n) = Inr (cursor_at rows n)" using cursor_range [OF assms(1) n] by (simp add: bound_integer_def)
  define xs where "xs = take (nat limit) (drop n rows)"
  have "rows = take n rows @ xs @ drop (nat limit) (drop n rows)" unfolding xs_def by (simp only: append_take_drop_id)
  with assms(4) have "check_all env [] (take n rows @ xs @ drop (nat limit) (drop n rows)) = Inr s" by simp
  then obtain s1 s2 where s1: "check_all env [] (take n rows) = Inr s1" and s2: "check_all env s1 xs = Inr s2"
    by (auto simp: check_all_append)
  have old: "read_rows (read_old env) (take n rows) (start_read (chain_manifests env rows 0 ns)) = Inr (read_at env rows s1 n n [])"
    using read_chain [OF assms(1,2), of env "[]"] s1 unfolding start_read_at [of _ env rows] assms(3) [symmetric] by simp
  have "sr_sequences (read_at env rows s1 n n []) = s1" by (simp add: read_at_def)
  with read_new_ok [of env "read_at env rows s1 n n []" xs s2 "[]" None] s2 obtain r' content first where
    new: "read_new env xs (read_at env rows s1 n n []) [] None = Inr (r', content, first)" by auto
  have "sr_batches (read_at env rows s1 n n []) = []" "sr_cursor (read_at env rows s1 n n []) = cursor_at rows n"
    by (simp_all add: read_at_def)
  then show ?thesis
    using new by (auto simp: spool_read_def upto state_at_def [of _ _ n] filter_upto [OF assms(1) n] old requireR_def xs_def [symmetric]
        read_state_at [unfolded state_at_def])
qed

end
