(* ===== verification/SpoolDir.thy ===== *)
theory SpoolDir
  imports SpoolRead
begin

text \<open>
  The directory under the exporter's steps: each step keeps the directory in order, whether the process is killed there or
  not, and fails only when it is killed.
\<close>

section \<open>Entries\<close>

lemma batch_dirs_dset: "\<not> batch_name k \<Longrightarrow> batch_dirs (dset k v es) = batch_dirs es"
  by (induction es) (auto simp: batch_dirs_def)

lemma batch_dirs_dpop: "\<not> batch_name k \<Longrightarrow> batch_dirs (dpop k es) = batch_dirs es"
  by (induction es) (auto simp: batch_dirs_def)

lemma dset_new: "map_of es k = None \<Longrightarrow> dset k v es = es @ [(k, v)]"
  by (induction es) (auto split: if_splits)

lemma dset_elem: "e \<in> set (dset k v es) \<Longrightarrow> e = (k, v) \<or> e \<in> set es"
  by (induction es) (auto split: if_splits)

lemma dpop_elem: "e \<in> set (dpop k es) \<Longrightarrow> e \<in> set es \<and> fst e \<noteq> k"
  by (induction es) (auto split: if_splits)

lemma map_of_popped: "map_of (dpop k es) j = (if j = k then None else map_of es j)"
  by (simp add: delete_conv')

definition setting :: "env \<Rightarrow> (nat \<Rightarrow> string) \<Rightarrow> string \<Rightarrow> event_row list \<Rightarrow> bool" where
  "setting env ids x rows \<longleftrightarrow> rows_ok rows \<and> sha_ok env \<and> small_name x \<and> ids_ok ids"

lemma spool_entry_mono: "spool_entry env ids x rows m ns e \<Longrightarrow> m \<le> m' \<Longrightarrow> set ns \<subseteq> set ns' \<Longrightarrow> spool_entry env ids x rows m' ns' e"
proof -
  assume e: "spool_entry env ids x rows m ns e" and m: "m \<le> m'" and sub: "set ns \<subseteq> set ns'"
  have "\<And>j. j < m \<Longrightarrow> j < m'" "set (0 # ns) \<subseteq> set (0 # ns')" using m sub by auto
  with e show ?thesis unfolding spool_entry_def by (elim disjE) blast+
qed

lemma good_dir_more_ids: "good_dir env ids x rows m ns es \<Longrightarrow> m \<le> m' \<Longrightarrow> good_dir env ids x rows m' ns es"
  unfolding good_dir_def using spool_entry_mono [of env ids x rows m ns _ m' ns] by blast

lemma put_entry:
  assumes "good_dir env ids x rows m ns es" and "\<not> batch_name n" and "spool_entry env ids x rows m ns (n, v)"
    and "map_of es ''HEAD.json'' = None \<Longrightarrow> n = ''HEAD.json'' \<or> n = ''.lock'' \<or> (\<exists>j. n = ''.head-'' @ ids j)"
  shows "good_dir env ids x rows m ns (dset n v es)"
  unfolding good_dir_def
proof (intro conjI ballI impI)
  fix e assume e: "e \<in> set (dset n v es)"
  then show "spool_entry env ids x rows m ns e" using dset_elem [OF e] assms(1,3) by (auto simp: good_dir_def)
  assume "map_of (dset n v es) ''HEAD.json'' = None"
  then have "n \<noteq> ''HEAD.json''" "map_of es ''HEAD.json'' = None" by (auto split: if_splits)
  then show "fst e = ''.lock'' \<or> (\<exists>j. fst e = ''.head-'' @ ids j)" using dset_elem [OF e] assms(1,4) by (auto simp: good_dir_def)
next
  assume "map_of (dset n v es) ''HEAD.json'' = None"
  then show "ns = []" using assms(1) by (auto simp: good_dir_def split: if_splits)
qed (use assms(1,2) in \<open>simp_all add: good_dir_def batch_dirs_dset distinct_update\<close>)

lemma pop_entry:
  assumes "good_dir env ids x rows m ns es" and "\<not> batch_name n" and "n \<noteq> ''HEAD.json''"
  shows "good_dir env ids x rows m ns (dpop n es)"
  using assms by (auto simp: good_dir_def batch_dirs_dpop distinct_delete map_of_popped dest: dpop_elem)

lemma chain_files_snoc: "chain_files env x rows a (ns @ [b])
    = chain_files env x rows a ns @ [(name_at rows (end_of a ns) b, batch_files env x rows (end_of a ns) b)]"
  by (induction ns arbitrary: a) simp_all

lemma cuts_snoc: "cuts_ok rows a (ns @ [b]) \<longleftrightarrow> cuts_ok rows a ns \<and> end_of a ns < b \<and> b \<le> end_of a ns + 1000 \<and> b \<le> length rows
    \<and> length (lines_of (segment (end_of a ns) b rows)) \<le> MAX_BATCH_SIZE"
  by (induction ns arbitrary: a) auto

lemma new_name:
  assumes "rows_ok rows" "good_dir env ids x rows m ns es" "cuts_ok rows 0 (ns @ [b])"
  shows "map_of es (name_at rows (end_of 0 ns) b) = None \<and> batch_name (name_at rows (end_of 0 ns) b)"
proof -
  let ?n = "end_of 0 ns" and ?k = "name_at rows (end_of 0 ns) b"
  have b: "?n < b" "b \<le> length rows" using assms(3) by (simp_all only: cuts_snoc)
  have ok: "batch_name ?k"
    unfolding name_at_def using row_range [OF assms(1), of ?n] cursor_range [OF assms(1) b(2)] b by (intro batch_name_ok) simp_all
  have "sorted_wrt (<) (map fst (chain_files env x rows 0 (ns @ [b])))" using chain_sorted [OF assms(1,3)] by blast
  then have "?k \<notin> fst ` set (chain_files env x rows 0 ns)" unfolding chain_files_snoc by (auto simp: sorted_wrt_append)
  moreover have "fst ` set (batch_dirs es) = fst ` set (chain_files env x rows 0 ns)"
    using assms(2) by (simp add: good_dir_def image_image)
  ultimately show ?thesis using ok by (force simp: map_of_eq_None_iff batch_dirs_def)
qed

lemma publish_entry:
  assumes "rows_ok rows" "good_dir env ids x rows m ns es" "cuts_ok rows 0 (ns @ [b])" "map_of es ''HEAD.json'' \<noteq> None"
  shows "good_dir env ids x rows m (ns @ [b]) (dset (name_at rows (end_of 0 ns) b) (SDir 0x1C0 (batch_files env x rows (end_of 0 ns) b)) es)"
proof -
  let ?k = "name_at rows (end_of 0 ns) b" and ?v = "SDir 0x1C0 (batch_files env x rows (end_of 0 ns) b)"
  note new = new_name [OF assms(1-3)]
  have es: "dset ?k ?v es = es @ [(?k, ?v)]" by (rule dset_new) (simp only: new)
  have "?k \<noteq> ''HEAD.json''" using new other_names by metis
  then have "map_of (dset ?k ?v es) ''HEAD.json'' \<noteq> None" using assms(4) by simp
  moreover have "distinct (map fst (dset ?k ?v es))" using assms(2) by (simp add: good_dir_def distinct_update)
  moreover have "batch_dirs (dset ?k ?v es) = map (map_prod id (SDir 0x1C0)) (chain_files env x rows 0 (ns @ [b]))"
    using assms(2) new unfolding es chain_files_snoc by (simp add: good_dir_def batch_dirs_def)
  moreover have "\<forall>e\<in>set (dset ?k ?v es). spool_entry env ids x rows m (ns @ [b]) e"
  proof
    fix e assume "e \<in> set (dset ?k ?v es)"
    then have "e = (?k, ?v) \<or> spool_entry env ids x rows m ns e" using assms(2) by (auto simp: good_dir_def dest: dset_elem)
    then show "spool_entry env ids x rows m (ns @ [b]) e"
    proof
      assume "e = (?k, ?v)"
      then show ?thesis using new by (simp only: spool_entry_def fst_conv snd_conv) blast
    qed (erule spool_entry_mono, auto)
  qed
  ultimately show ?thesis using assms(3) unfolding good_dir_def by blast
qed

text \<open>An identifier that has not been used names no entry.\<close>

lemma fresh_name:
  assumes "inj_on ids {..<Suc m}" "good_dir env ids x rows m ns es"
  shows "map_of es (''.head-'' @ ids m) = None" and "map_of es (''.pending-'' @ ids m) = None"
proof -
  have "j < m \<Longrightarrow> ids j \<noteq> ids m" for j using assms(1) by (auto dest: inj_onD)
  then have "(''.head-'' @ ids m, v) \<notin> set es" "(''.pending-'' @ ids m, v) \<notin> set es" for v
    using assms(2) other_names unfolding good_dir_def spool_entry_def by fastforce+
  then show "map_of es (''.head-'' @ ids m) = None" "map_of es (''.pending-'' @ ids m) = None"
    by (auto simp: map_of_eq_None_iff)
qed

section \<open>What the exporter publishes\<close>

definition event_text :: "spool_node \<Rightarrow> string" where
  "event_text node = (case entry_of ''events.jsonl'' (Some node) of Some (SFile m links content) \<Rightarrow> content | _ \<Rightarrow> [])"

definition published_batches :: "spool_node option \<Rightarrow> spool_node dict" where
  "published_batches root = (case root of Some (SDir m es) \<Rightarrow> sort_key fst (batch_dirs es) | _ \<Rightarrow> [])"

definition published :: "spool_node option \<Rightarrow> string" where
  "published root = concat (map (event_text \<circ> snd) (published_batches root))"

lemma published_batches_at:
  assumes "rows_ok rows" "good_dir env ids x rows m ns es"
  shows "published_batches (Some (SDir 0x1C0 es)) = map (map_prod id (SDir 0x1C0)) (chain_files env x rows 0 ns)"
proof -
  have "cuts_ok rows 0 ns" using assms(2) by (simp add: good_dir_def)
  from chain_sorted [OF assms(1) this] have "sorted (map fst (map (map_prod id (SDir 0x1C0)) (chain_files env x rows 0 ns)))"
    by (simp add: comp_def strict_sorted_imp_sorted)
  then show ?thesis using assms(2) by (simp add: published_batches_def good_dir_def sort_key_id_if_sorted)
qed

lemma published_chain:
  "cuts_ok rows a ns \<Longrightarrow> concat (map (event_text \<circ> snd) (map (map_prod id (SDir 0x1C0)) (chain_files env x rows a ns)))
    = lines_of (segment a (end_of a ns) rows)"
proof (induction ns arbitrary: a)
  case (Cons b ns)
  have b: "a \<le> b" "b \<le> end_of b ns" using cuts_le [of rows b ns] Cons.prems by simp_all
  have "segment a (end_of a (b # ns)) rows = segment a b rows @ segment b (end_of b ns) rows"
    using segment_append [OF b, of rows] by simp
  moreover have "event_text (SDir 0x1C0 (batch_files env x rows a b)) = lines_of (segment a b rows)"
    by (simp add: event_text_def entry_of_def batch_files_def)
  ultimately show ?case using Cons by simp
qed (simp add: lines_of_def)

lemma published_at:
  assumes "rows_ok rows" "good_dir env ids x rows m ns es"
  shows "published (Some (SDir 0x1C0 es)) = lines_of (take (end_of 0 ns) rows)"
proof -
  have "cuts_ok rows 0 ns" using assms(2) by (simp add: good_dir_def)
  from published_chain [OF this] show ?thesis
    unfolding published_def published_batches_at [OF assms] by (simp only: segment_0)
qed

section \<open>Steps\<close>

text \<open>\<open>triple P m Q E\<close>: from \<open>P\<close>, \<open>m\<close> ends in \<open>Q\<close> or raises in \<open>E\<close>.\<close>

definition triple :: "('s \<Rightarrow> bool) \<Rightarrow> ('s, 'a) prog \<Rightarrow> ('a \<Rightarrow> 's \<Rightarrow> bool) \<Rightarrow> ('s \<Rightarrow> bool) \<Rightarrow> bool" where
  "triple P m Q E \<longleftrightarrow> (\<forall>s. P s \<longrightarrow> (case m s of (Inr x, s') \<Rightarrow> Q x s' | (Inl e, s') \<Rightarrow> E s'))"

lemma triple_bind: "triple P m Q E \<Longrightarrow> (\<And>x. triple (Q x) (f x) R E) \<Longrightarrow> triple P (bindE m f) R E"
  unfolding triple_def bindE_run by (fastforce split: prod.splits sum.splits)

lemma triple_then: "triple P m (\<lambda>_. Q) E \<Longrightarrow> triple Q n R E \<Longrightarrow> triple P (thenE m n) R E"
  unfolding thenE_def by (rule triple_bind)

lemma triple_ret: "(\<And>s. P s \<Longrightarrow> Q x s) \<Longrightarrow> triple P (ret x) Q E"
  by (simp add: triple_def)

lemma triple_weaken: "triple P m Q E \<Longrightarrow> (\<And>s. P' s \<Longrightarrow> P s) \<Longrightarrow> (\<And>x s. Q x s \<Longrightarrow> Q' x s) \<Longrightarrow> (\<And>s. E s \<Longrightarrow> E' s) \<Longrightarrow> triple P' m Q' E'"
  unfolding triple_def by (fastforce split: prod.splits sum.splits)

lemma triple_run: "triple P m Q E \<Longrightarrow> P s \<Longrightarrow> case m s of (Inr x, s') \<Rightarrow> Q x s' | (Inl e, s') \<Rightarrow> E s'"
  by (simp add: triple_def)

text \<open>Assertions on the root and the used identifiers; \<open>kill\<close>: the process may be killed; \<open>locked\<close>: another process holds the lock.\<close>

definition holds :: "bool \<Rightarrow> bool \<Rightarrow> (spool_node option \<Rightarrow> nat \<Rightarrow> bool) \<Rightarrow> spool_world \<Rightarrow> bool" where
  "holds kill locked A w \<longleftrightarrow> (sw_left w \<noteq> None \<longrightarrow> kill) \<and> sw_locked w = locked \<and> A (sw_root w) (sw_ids w)"

text \<open>What may end a program early: being killed, or an identifier that \<open>uuid4\<close> gave before.\<close>

definition cut_off :: "(nat \<Rightarrow> string) \<Rightarrow> bool \<Rightarrow> bool \<Rightarrow> (spool_node option \<Rightarrow> nat \<Rightarrow> bool) \<Rightarrow> spool_world \<Rightarrow> bool" where
  "cut_off ids kill locked E w \<longleftrightarrow> (kill \<or> \<not> inj_on ids {..<sw_ids w}) \<and> holds kill locked E w"

lemma fs_create_triple:
  assumes "\<And>r m. A r m \<Longrightarrow> E r m" and "\<And>r m r'. A r m \<Longrightarrow> f r = Inr r' \<Longrightarrow> B r' m"
    and "\<And>r m. A r m \<Longrightarrow> inj_on ids {..<m} \<Longrightarrow> \<exists>r'. f r = Inr r'"
  shows "triple (holds k l A) (fs_call f) (\<lambda>_. holds k l B) (cut_off ids k l E)"
  unfolding triple_def
proof (intro allI impI)
  fix w assume w: "holds k l A w"
  then have A: "A (sw_root w) (sw_ids w)" by (simp add: holds_def)
  show "case fs_call f w of (Inr x, w') \<Rightarrow> holds k l B w' | (Inl e, w') \<Rightarrow> cut_off ids k l E w'"
    using w assms(1) [OF A] assms(2) [OF A] assms(3) [OF A]
    by (cases "f (sw_root w)") (auto simp: fs_call_def holds_def cut_off_def)
qed

lemma fs_call_triple:
  assumes "\<And>r m. A r m \<Longrightarrow> E r m" and "\<And>r m. A r m \<Longrightarrow> \<exists>r'. f r = Inr r' \<and> B r' m"
  shows "triple (holds k l A) (fs_call f) (\<lambda>_. holds k l B) (cut_off ids k l E)"
  by (rule fs_create_triple) (use assms in \<open>fastforce+\<close>)

lemma write_bytes_triple:
  assumes "\<And>r m c. A r m \<Longrightarrow> prefix c content \<Longrightarrow> \<exists>r'. at_path p (write_node c) r = Inr r' \<and> E r' m"
    and "\<And>r m. A r m \<Longrightarrow> \<exists>r'. at_path p (write_node content) r = Inr r' \<and> B r' m"
  shows "triple (holds k l A) (write_bytes p content) (\<lambda>_. holds k l B) (cut_off ids k l E)"
  unfolding triple_def
proof (intro allI impI)
  fix w assume w: "holds k l A w"
  from w assms(1) [of "sw_root w" "sw_ids w" "take (sw_partial w) content"] obtain r1 where
    r1: "at_path p (write_node (take (sw_partial w) content)) (sw_root w) = Inr r1" "E r1 (sw_ids w)"
    by (auto simp: holds_def take_is_prefix)
  from w assms(2) obtain r2 where r2: "at_path p (write_node content) (sw_root w) = Inr r2" "B r2 (sw_ids w)" unfolding holds_def by blast
  from w r1 r2 show "case write_bytes p content w of (Inr x, w') \<Rightarrow> holds k l B w' | (Inl e, w') \<Rightarrow> cut_off ids k l E w'"
    by (auto simp: write_bytes_def fs_call_def holds_def cut_off_def)
qed

lemma sync_triple: "(\<And>r m. A r m \<Longrightarrow> E r m) \<Longrightarrow> triple (holds k l A) sync (\<lambda>_. holds k l A) (cut_off ids k l E)"
  unfolding sync_def by (rule fs_call_triple) auto

lemma write_triple:
  assumes "\<And>r m. A r m \<Longrightarrow> E r m"
    and "\<And>r m r'. A r m \<Longrightarrow> at_path p (create_node (SFile 0x180 1 [])) r = Inr r' \<Longrightarrow> B [] r' m"
    and "\<And>r m. A r m \<Longrightarrow> inj_on ids {..<m} \<Longrightarrow> \<exists>r'. at_path p (create_node (SFile 0x180 1 [])) r = Inr r'"
    and "\<And>r m c. B [] r m \<Longrightarrow> prefix c content \<Longrightarrow> \<exists>r'. at_path p (write_node c) r = Inr r' \<and> B c r' m"
    and "\<And>r m c. B c r m \<Longrightarrow> prefix c content \<Longrightarrow> E r m"
  shows "triple (holds k l A) (spool_write p content) (\<lambda>_. holds k l (B content)) (cut_off ids k l E)"
  unfolding spool_write_def
proof (intro triple_then)
  show "triple (holds k l A) (fs_call (at_path p (create_node (SFile 0x180 1 [])))) (\<lambda>_. holds k l (B [])) (cut_off ids k l E)"
    by (rule fs_create_triple) (use assms(1-3) in blast)+
  show "triple (holds k l (B [])) (write_bytes p content) (\<lambda>_. holds k l (B content)) (cut_off ids k l E)"
  proof (rule write_bytes_triple)
    fix r m c assume "B [] r m" "prefix c content"
    with assms(4,5) show "\<exists>r'. at_path p (write_node c) r = Inr r' \<and> E r' m" by blast
  qed (use assms(4) in blast)
  show "triple (holds k l (B content)) sync (\<lambda>_. holds k l (B content)) (cut_off ids k l E)"
    by (rule sync_triple) (use assms(5) in blast)
qed

end
