(* ===== verification/SpoolSteps.thy ===== *)
theory SpoolSteps
  imports SpoolDir
begin

text \<open>
  The exporter's operations on a directory in order: a checkpoint, a batch, a whole export.
\<close>

section \<open>More rules for programs\<close>

lemma triple_new_id:
  assumes "\<And>j. triple (holds k l (\<lambda>r m. m = Suc j \<and> A r j)) (f (ids j)) Q E"
  shows "triple (holds k l A) (bindE (new_id ids) f) Q E"
  unfolding triple_def
proof (intro allI impI)
  fix w assume "holds k l A w"
  then have "holds k l (\<lambda>r m. m = Suc (sw_ids w) \<and> A r (sw_ids w)) (w\<lparr>sw_ids := Suc (sw_ids w)\<rparr>)" by (simp add: holds_def)
  from triple_run [OF assms this] show "case bindE (new_id ids) f w of (Inr x, s') \<Rightarrow> Q x s' | (Inl e, s') \<Rightarrow> E s'"
    by (simp add: new_id_def bindE_run thenE_run)
qed

lemma triple_get: "(\<And>v. triple (\<lambda>s. P s \<and> g s = v) (f v) Q E) \<Longrightarrow> triple P (bindE (getE g) f) Q E"
  by (simp add: triple_def bindE_run)

lemma triple_require: "(\<And>s. P s \<Longrightarrow> b) \<Longrightarrow> triple P (requireE b e) (\<lambda>_. P) E"
  by (auto simp: triple_def requireE_run)

lemma triple_lift:
  assumes "\<And>s e. P s \<Longrightarrow> q = Inl e \<Longrightarrow> E s" and "\<And>x. q = Inr x \<Longrightarrow> triple P (f x) Q E"
  shows "triple P (bindE (liftE q) f) Q E"
  using assms by (cases q) (simp_all add: triple_def bindE_run)

lemma triple_pre: "triple P m Q E \<Longrightarrow> (\<And>s. P' s \<Longrightarrow> P s) \<Longrightarrow> triple P' m Q E"
  by (erule triple_weaken)

lemma dotted_names [simp]: "\<not> batch_name (CHR ''.'' # s)"
  by (simp add: batch_name_def)

section \<open>A checkpoint\<close>

definition in_order :: "env \<Rightarrow> (nat \<Rightarrow> string) \<Rightarrow> string \<Rightarrow> event_row list \<Rightarrow> nat list \<Rightarrow> spool_node option \<Rightarrow> nat \<Rightarrow> bool" where
  "in_order env ids x rows ns r m \<longleftrightarrow> (\<exists>es. r = Some (SDir 0x1C0 es) \<and> good_dir env ids x rows m ns es)"

definition with_head :: "env \<Rightarrow> (nat \<Rightarrow> string) \<Rightarrow> string \<Rightarrow> event_row list \<Rightarrow> nat list \<Rightarrow> spool_node option \<Rightarrow> nat \<Rightarrow> bool" where
  "with_head env ids x rows ns r m \<longleftrightarrow> (\<exists>es. r = Some (SDir 0x1C0 es) \<and> good_dir env ids x rows m ns es \<and> map_of es ''HEAD.json'' \<noteq> None)"

lemma with_head_in_order: "with_head env ids x rows ns r m \<Longrightarrow> in_order env ids x rows ns r m"
  by (auto simp: with_head_def in_order_def)

lemma head_is_file:
  assumes "good_dir env ids x rows m ns es" "map_of es ''HEAD.json'' = Some nd"
  shows "\<exists>k\<in>set (0 # ns). nd = SFile 0x180 1 (state_file env x rows k)"
  using map_of_SomeD [OF assms(2)] assms(1) other_names by (fastforce simp: good_dir_def spool_entry_def)

lemma spool_head_triple:
  assumes "setting env ids x rows" and "j \<in> set (0 # ns)"
  shows "triple (holds k l (in_order env ids x rows ns)) (spool_head ids x (state_at env rows j))
    (\<lambda>_. holds k l (with_head env ids x rows ns)) (cut_off ids k l (in_order env ids x rows ns))"
  unfolding spool_head_def Let_def
proof (intro triple_new_id triple_then)
  fix i
  let ?p = "''.head-'' @ ids i" and ?c = "state_file env x rows j"
  let ?A = "\<lambda>r m. m = Suc i \<and> in_order env ids x rows ns r i"
  let ?B = "\<lambda>c r m. m = Suc i \<and> (\<exists>es. r = Some (SDir 0x1C0 es) \<and> good_dir env ids x rows m ns es \<and> map_of es ?p = Some (SFile 0x180 1 c))"
  have put: "good_dir env ids x rows (Suc i) ns (dset ?p (SFile 0x180 1 c) es)"
    if "good_dir env ids x rows (Suc i) ns es" "prefix c ?c" for c es
  proof (rule put_entry [OF that(1)])
    show "spool_entry env ids x rows (Suc i) ns (?p, SFile 0x180 1 c)"
      unfolding spool_entry_def fst_conv snd_conv using that(2) assms(2) by blast
  qed auto
  have line: "json_line (state_val x (state_at env rows j)) = ?c" by (simp add: state_file_def)
  show "triple (holds k l ?A) (spool_write [?p] (json_line (state_val x (state_at env rows j)))) (\<lambda>_. holds k l (?B ?c)) (cut_off ids k l (in_order env ids x rows ns))"
    unfolding line
  proof (rule write_triple)
    fix r m assume A: "?A r m"
    then obtain es where es: "r = Some (SDir 0x1C0 es)" "good_dir env ids x rows i ns es" by (auto simp: in_order_def)
    have es': "good_dir env ids x rows (Suc i) ns es" by (rule good_dir_more_ids [OF es(2)]) simp
    then show "in_order env ids x rows ns r m" using A es(1) by (simp add: in_order_def)
    show "?B [] r' m" if "at_path [?p] (create_node (SFile 0x180 1 [])) r = Inr r'" for r'
      using that A es(1) put [OF es', of "[]"] by (auto simp: create_node_def split: option.splits)
    show "\<exists>r'. at_path [?p] (create_node (SFile 0x180 1 [])) r = Inr r'" if "inj_on ids {..<m}"
      using that A es(1) fresh_name(1) [OF _ es(2)] by (simp add: create_node_def)
  next
    fix r m c assume "?B [] r m" and c: "prefix c ?c"
    then obtain es where es: "m = Suc i" "r = Some (SDir 0x1C0 es)" "good_dir env ids x rows (Suc i) ns es" "map_of es ?p = Some (SFile 0x180 1 [])" by auto
    then show "\<exists>r'. at_path [?p] (write_node c) r = Inr r' \<and> ?B c r' m" using put [OF es(3) c] by (simp add: write_node_def)
  next
    fix r m c assume "?B c r m" then show "in_order env ids x rows ns r m" by (auto simp: in_order_def)
  qed
  show "triple (holds k l (?B ?c)) (fs_call (rename_node ?p ''HEAD.json'')) (\<lambda>_. holds k l (with_head env ids x rows ns)) (cut_off ids k l (in_order env ids x rows ns))"
  proof (rule fs_call_triple)
    fix r m assume "?B ?c r m"
    then obtain es where es: "m = Suc i" "r = Some (SDir 0x1C0 es)" "good_dir env ids x rows m ns es" "map_of es ?p = Some (SFile 0x180 1 ?c)" by auto
    then show "in_order env ids x rows ns r m" by (simp add: in_order_def)
    have "good_dir env ids x rows m ns (dpop ?p es)" by (rule pop_entry [OF es(3)]) (simp_all add: other_names)
    then have "good_dir env ids x rows m ns (dset ''HEAD.json'' (SFile 0x180 1 ?c) (dpop ?p es))"
    proof (rule put_entry)
      show "spool_entry env ids x rows m ns (''HEAD.json'', SFile 0x180 1 ?c)"
        unfolding spool_entry_def fst_conv snd_conv using assms(2) by blast
    qed (simp_all add: other_names)
    then show "\<exists>r'. rename_node ?p ''HEAD.json'' r = Inr r' \<and> with_head env ids x rows ns r' m"
      using es head_is_file [OF es(3)]
      by (cases "map_of es ''HEAD.json''") (auto simp: rename_node_def with_head_def is_dir_def)
  qed
  show "triple (holds k l (with_head env ids x rows ns)) sync (\<lambda>_. holds k l (with_head env ids x rows ns)) (cut_off ids k l (in_order env ids x rows ns))"
    by (rule sync_triple) (rule with_head_in_order)
qed

section \<open>A batch\<close>

definition staged :: "env \<Rightarrow> (nat \<Rightarrow> string) \<Rightarrow> string \<Rightarrow> event_row list \<Rightarrow> nat list \<Rightarrow> nat \<Rightarrow> spool_node dict \<Rightarrow> spool_node option \<Rightarrow> nat \<Rightarrow> bool" where
  "staged env ids x rows ns i fs r m \<longleftrightarrow> m = Suc i \<and> (\<exists>es. r = Some (SDir 0x1C0 es) \<and> good_dir env ids x rows m ns es
     \<and> map_of es ''HEAD.json'' \<noteq> None \<and> map_of es (''.pending-'' @ ids i) = Some (SDir 0x1C0 fs))"

lemma staged_in_order: "staged env ids x rows ns i fs r m \<Longrightarrow> with_head env ids x rows ns r m"
  by (auto simp: staged_def with_head_def)

lemma put_stage:
  assumes "good_dir env ids x rows (Suc i) ns es" "map_of es ''HEAD.json'' \<noteq> None"
  shows "staged env ids x rows ns i fs (Some (SDir 0x1C0 (dset (''.pending-'' @ ids i) (SDir 0x1C0 fs) es))) (Suc i)"
proof -
  have "good_dir env ids x rows (Suc i) ns (dset (''.pending-'' @ ids i) (SDir 0x1C0 fs) es)"
  proof (rule put_entry [OF assms(1)])
    show "spool_entry env ids x rows (Suc i) ns (''.pending-'' @ ids i, SDir 0x1C0 fs)"
      unfolding spool_entry_def fst_conv snd_conv by blast
  qed (use assms(2) in \<open>simp_all add: other_names\<close>)
  then show ?thesis using assms(2) by (simp add: staged_def)
qed

lemma stage_write_triple:
  assumes "map_of fs n = None" and "\<And>r m. in_order env ids x rows ns r m \<Longrightarrow> E r m"
  shows "triple (holds k l (staged env ids x rows ns i fs)) (spool_write [''.pending-'' @ ids i, n] content)
    (\<lambda>_. holds k l (staged env ids x rows ns i (fs @ [(n, SFile 0x180 1 content)]))) (cut_off ids k l E)"
proof (rule write_triple [where B = "\<lambda>c. staged env ids x rows ns i (fs @ [(n, SFile 0x180 1 c)])"])
  fix r m assume "staged env ids x rows ns i fs r m"
  then show "E r m" by (intro assms(2) with_head_in_order staged_in_order)
next
  fix r m c assume "staged env ids x rows ns i (fs @ [(n, SFile 0x180 1 c)]) r m"
  then show "E r m" by (intro assms(2) with_head_in_order staged_in_order)
next
  fix r m assume "staged env ids x rows ns i fs r m"
  then obtain es where es: "m = Suc i" "r = Some (SDir 0x1C0 es)" "good_dir env ids x rows (Suc i) ns es" "map_of es ''HEAD.json'' \<noteq> None"
    "map_of es (''.pending-'' @ ids i) = Some (SDir 0x1C0 fs)" by (auto simp: staged_def)
  then show "\<exists>r'. at_path [''.pending-'' @ ids i, n] (create_node (SFile 0x180 1 [])) r = Inr r'"
    using assms(1) by (simp add: create_node_def)
  from es show "staged env ids x rows ns i (fs @ [(n, SFile 0x180 1 [])]) r' m"
    if "at_path [''.pending-'' @ ids i, n] (create_node (SFile 0x180 1 [])) r = Inr r'" for r'
    using that put_stage [OF es(3,4), of "fs @ [(n, SFile 0x180 1 [])]"] assms(1) by (auto simp: create_node_def dset_new)
next
  fix r m c assume "staged env ids x rows ns i (fs @ [(n, SFile 0x180 1 [])]) r m"
  then obtain es where es: "m = Suc i" "r = Some (SDir 0x1C0 es)" "good_dir env ids x rows (Suc i) ns es" "map_of es ''HEAD.json'' \<noteq> None"
    "map_of es (''.pending-'' @ ids i) = Some (SDir 0x1C0 (fs @ [(n, SFile 0x180 1 [])]))" by (auto simp: staged_def)
  have "map_of (fs @ [(n, SFile 0x180 1 [])]) n = Some (SFile 0x180 1 [])" using assms(1) by (simp add: map_add_def)
  moreover have "dset n (SFile 0x180 1 c) (fs @ [(n, SFile 0x180 1 [])]) = fs @ [(n, SFile 0x180 1 c)]"
    using assms(1) by (induction fs) (auto split: if_splits)
  ultimately show "\<exists>r'. at_path [''.pending-'' @ ids i, n] (write_node c) r = Inr r' \<and> staged env ids x rows ns i (fs @ [(n, SFile 0x180 1 c)]) r' m"
    using es put_stage [OF es(3,4), of "fs @ [(n, SFile 0x180 1 c)]"] by (simp add: write_node_def)
qed

lemma rename_stage:
  assumes "setting env ids x rows" "cuts_ok rows 0 (ns @ [b])"
    and "staged env ids x rows ns i (batch_files env x rows (end_of 0 ns) b) r m"
  shows "entry_of (name_at rows (end_of 0 ns) b) r = None
    \<and> (\<exists>r'. rename_node (''.pending-'' @ ids i) (name_at rows (end_of 0 ns) b) r = Inr r' \<and> with_head env ids x rows (ns @ [b]) r' m)"
proof -
  let ?p = "''.pending-'' @ ids i" and ?k = "name_at rows (end_of 0 ns) b" and ?v = "SDir 0x1C0 (batch_files env x rows (end_of 0 ns) b)"
  from assms(3) obtain es where es: "r = Some (SDir 0x1C0 es)" "good_dir env ids x rows m ns es" "map_of es ''HEAD.json'' \<noteq> None"
    "map_of es ?p = Some ?v" by (auto simp: staged_def)
  have rows: "rows_ok rows" using assms(1) by (simp add: setting_def)
  have none: "map_of es ?k = None" using new_name [OF rows es(2) assms(2)] by blast
  have pop: "good_dir env ids x rows m ns (dpop ?p es)" by (rule pop_entry [OF es(2)]) (simp_all add: other_names)
  have "map_of (dpop ?p es) ''HEAD.json'' \<noteq> None" using es(3) by (simp add: map_of_popped)
  note good = publish_entry [OF rows pop assms(2) this]
  have "?k \<noteq> ''HEAD.json''" using new_name [OF rows es(2) assms(2)] other_names by metis
  then have "map_of (dset ?k ?v (dpop ?p es)) ''HEAD.json'' \<noteq> None" using es(3) by (simp add: map_of_popped)
  with good show ?thesis using es(1,4) none by (simp add: entry_of_def rename_node_def with_head_def)
qed

lemma spool_publish_triple:
  assumes "setting env ids x rows" "cuts_ok rows 0 (ns @ [b])" "n = end_of 0 ns"
  shows "triple (holds k l (with_head env ids x rows ns))
    (spool_publish env ids x (state_at env rows n) (state_at env rows b) (fst (rows ! n)) (lines_of (segment n b rows)))
    (\<lambda>_. holds k l (with_head env ids x rows (ns @ [b]))) (cut_off ids k l (\<lambda>r m. in_order env ids x rows ns r m \<or> in_order env ids x rows (ns @ [b]) r m))"
  unfolding spool_publish_def Let_def
proof (intro triple_new_id triple_then triple_get)
  fix i root
  let ?p = "''.pending-'' @ ids i" and ?S = "staged env ids x rows ns i" and ?I = "\<lambda>r m. in_order env ids x rows ns r m \<or> in_order env ids x rows (ns @ [b]) r m"
  let ?ev = "(''events.jsonl'', SFile 0x180 1 (lines_of (segment n b rows)))"
  have files: "[?ev] @ [(''manifest.json'', SFile 0x180 1 (json_line (manifest_val x (new_manifest env (state_at env rows n) (state_at env rows b)
      (fst (rows ! n)) (lines_of (segment n b rows))))))] = batch_files env x rows n b"
    by (simp add: batch_files_def manifest_at_def)
  have dest: "batch_name_of (fst (rows ! n)) (ss_cursor (state_at env rows b)) = name_at rows n b"
    by (simp add: name_at_def state_at_def)
  have inI: "\<And>fs r m. ?S fs r m \<Longrightarrow> ?I r m" by (intro disjI1 with_head_in_order staged_in_order)
  show "triple (holds k l (\<lambda>r m. m = Suc i \<and> with_head env ids x rows ns r i)) (fs_call (at_path [?p] (create_node (SDir 0x1C0 []))))
      (\<lambda>_. holds k l (?S [])) (cut_off ids k l ?I)"
  proof (rule fs_create_triple)
    fix r m assume "m = Suc i \<and> with_head env ids x rows ns r i"
    then obtain es where es: "m = Suc i" "r = Some (SDir 0x1C0 es)" "good_dir env ids x rows i ns es" "map_of es ''HEAD.json'' \<noteq> None"
      by (auto simp: with_head_def)
    have es': "good_dir env ids x rows (Suc i) ns es" by (rule good_dir_more_ids [OF es(3)]) simp
    then show "?I r m" using es by (simp add: in_order_def)
    show "?S [] r' m" if "at_path [?p] (create_node (SDir 0x1C0 [])) r = Inr r'" for r'
      using that put_stage [OF es' es(4), of "[]"] es(1,2) by (auto simp: create_node_def split: option.splits)
    show "\<exists>r'. at_path [?p] (create_node (SDir 0x1C0 [])) r = Inr r'" if "inj_on ids {..<m}"
      using that fresh_name(2) [OF _ es(3)] es(1,2) by (simp add: create_node_def)
  qed
  show "triple (holds k l (?S [])) (spool_write [?p, ''events.jsonl''] (lines_of (segment n b rows))) (\<lambda>_. holds k l (?S [?ev])) (cut_off ids k l ?I)"
    using stage_write_triple [of "[]" "''events.jsonl''" env ids x rows ns ?I k l i] by simp
  show "triple (holds k l (?S [?ev])) (spool_write [?p, ''manifest.json''] (json_line (manifest_val x (new_manifest env (state_at env rows n)
      (state_at env rows b) (fst (rows ! n)) (lines_of (segment n b rows)))))) (\<lambda>_. holds k l (?S (batch_files env x rows n b))) (cut_off ids k l ?I)"
    unfolding files [symmetric] by (rule stage_write_triple) simp_all
  show "triple (holds k l (?S (batch_files env x rows n b))) sync (\<lambda>_. holds k l (?S (batch_files env x rows n b))) (cut_off ids k l ?I)"
    by (rule sync_triple) (rule inI)
  note rename = rename_stage [OF assms(1,2), folded assms(3)]
  show "triple (\<lambda>s. holds k l (?S (batch_files env x rows n b)) s \<and> sw_root s = root)
      (requireE (entry_of (batch_name_of (fst (rows ! n)) (ss_cursor (state_at env rows b))) root = None) (spool_error ''batch destination already exists''))
      (\<lambda>_ s. holds k l (?S (batch_files env x rows n b)) s \<and> sw_root s = root) (cut_off ids k l ?I)"
    unfolding dest by (rule triple_require) (use rename in \<open>auto simp: holds_def\<close>)
  show "triple (\<lambda>s. holds k l (?S (batch_files env x rows n b)) s \<and> sw_root s = root)
      (fs_call (rename_node ?p (batch_name_of (fst (rows ! n)) (ss_cursor (state_at env rows b)))))
      (\<lambda>_. holds k l (with_head env ids x rows (ns @ [b]))) (cut_off ids k l ?I)"
    unfolding dest
  proof (rule triple_pre [OF fs_call_triple])
    fix r m assume "?S (batch_files env x rows n b) r m"
    then show "?I r m" "\<exists>r'. rename_node ?p (name_at rows n b) r = Inr r' \<and> with_head env ids x rows (ns @ [b]) r' m"
      using inI rename by blast+
  qed blast
  show "triple (holds k l (with_head env ids x rows (ns @ [b]))) sync (\<lambda>_. holds k l (with_head env ids x rows (ns @ [b]))) (cut_off ids k l ?I)"
    by (rule sync_triple) (rule disjI2, rule with_head_in_order)
qed

end
