(* ===== verification/SpoolExport.thy ===== *)
theory SpoolExport
  imports SpoolSteps
begin

text \<open>
  A whole export: from a directory in order it ends in one that continues it, and it fails only when it is killed, when
  another process holds the lock, or when the source has an event that does not pass.
\<close>

section \<open>Publishing one batch\<close>

definition next_cuts :: "nat list \<Rightarrow> nat \<Rightarrow> nat list" where
  "next_cuts ns m = (if m = end_of 0 ns then ns else ns @ [m])"

lemma next_cuts_end: "end_of 0 (next_cuts ns m) = m \<or> next_cuts ns m = ns \<and> m = end_of 0 ns"
  by (auto simp: next_cuts_def)

lemma next_cuts_ok:
  assumes "cuts_ok rows 0 ns" "end_of 0 ns \<le> m" "m \<le> length rows" "m \<le> end_of 0 ns + 1000"
    "length (lines_of (segment (end_of 0 ns) m rows)) \<le> MAX_BATCH_SIZE"
  shows "m \<noteq> end_of 0 ns \<Longrightarrow> cuts_ok rows 0 (ns @ [m])"
  using assms unfolding cuts_snoc by linarith

lemma load_head:
  assumes "setting env ids x rows" "good_dir env ids x rows m ns es" "map_of es ''HEAD.json'' = Some nd"
  shows "\<exists>v. bindR (safe_file (Some nd) 4096) spool_load = Inr v"
proof -
  from head_is_file [OF assms(2,3)] obtain k where k: "k \<in> set (0 # ns)" "nd = SFile 0x180 1 (state_file env x rows k)" by blast
  have "cuts_ok rows 0 ns" using assms(2) by (simp add: good_dir_def)
  from cut_range [OF this k(1)] state_file_size [of rows k env x] assms(1) have "length (state_file env x rows k) \<le> 4096" by (simp add: setting_def)
  then show ?thesis unfolding k(2) by (simp add: safe_file_new state_file_def load_line wf_state del: bindR_Inr)
qed

definition either_cuts :: "env \<Rightarrow> (nat \<Rightarrow> string) \<Rightarrow> string \<Rightarrow> event_row list \<Rightarrow> nat list \<Rightarrow> spool_node option \<Rightarrow> nat \<Rightarrow> bool" where
  "either_cuts env ids x rows ns r m \<longleftrightarrow> (\<exists>ns'. prefix ns ns' \<and> in_order env ids x rows ns' r m)"

lemma either_cutsI: "in_order env ids x rows ns r m \<Longrightarrow> either_cuts env ids x rows ns r m"
  "in_order env ids x rows (ns @ [b]) r m \<Longrightarrow> either_cuts env ids x rows ns r m"
  unfolding either_cuts_def by (blast, rule exI [of _ "ns @ [b]"], simp)

lemma cut_off_mono: "cut_off ids k l A s \<Longrightarrow> (\<And>r m. A r m \<Longrightarrow> B r m) \<Longrightarrow> cut_off ids k l B s"
  by (auto simp: cut_off_def holds_def)

lemma holds_mono: "holds k l A s \<Longrightarrow> (\<And>r m. A r m \<Longrightarrow> B r m) \<Longrightarrow> holds k l B s"
  by (auto simp: holds_def)

definition found_head :: "env \<Rightarrow> (nat \<Rightarrow> string) \<Rightarrow> string \<Rightarrow> event_row list \<Rightarrow> nat list \<Rightarrow> bool \<Rightarrow> spool_node option \<Rightarrow> nat \<Rightarrow> bool" where
  "found_head env ids x rows ns initialized r m \<longleftrightarrow> (\<exists>es. r = Some (SDir 0x1C0 es) \<and> good_dir env ids x rows m ns es
     \<and> initialized = (map_of es ''HEAD.json'' \<noteq> None))"

lemma repair_head:
  assumes "setting env ids x rows" and "n = end_of 0 ns"
  shows "triple (holds k l (found_head env ids x rows ns initialized))
    (if \<not> initialized then spool_head ids x (state_at env rows n)
     else bindE (getE sw_root) (\<lambda>root. bindE (liftE (bindR (safe_file (entry_of ''HEAD.json'' root) 4096) spool_load)) (\<lambda>head.
       if val_eq head (state_val x (state_at env rows n)) then ret () else spool_head ids x (state_at env rows n))))
    (\<lambda>_. holds k l (with_head env ids x rows ns)) (cut_off ids k l (either_cuts env ids x rows ns))"
proof -
  let ?F = "found_head env ids x rows ns initialized"
  have n: "n \<in> set (0 # ns)" using assms(2) by (metis last_in_set list.distinct(1))
  have order: "?F r m \<Longrightarrow> in_order env ids x rows ns r m" for r m by (auto simp: found_head_def in_order_def)
  have head: "triple (holds k l ?F) (spool_head ids x (state_at env rows n)) (\<lambda>_. holds k l (with_head env ids x rows ns)) (cut_off ids k l (either_cuts env ids x rows ns))"
    by (rule triple_weaken [OF spool_head_triple [OF assms(1) n]]) (auto elim!: cut_off_mono holds_mono intro: either_cutsI order)
  have load: "\<exists>v. bindR (safe_file (entry_of ''HEAD.json'' r) 4096) spool_load = Inr v" if "?F r m" initialized for r m
    using that load_head [OF assms(1)] by (fastforce simp: found_head_def entry_of_def)
  show ?thesis
  proof (cases initialized)
    case True
    have "triple (holds k l ?F) (bindE (getE sw_root) (\<lambda>root. bindE (liftE (bindR (safe_file (entry_of ''HEAD.json'' root) 4096) spool_load)) (\<lambda>head.
       if val_eq head (state_val x (state_at env rows n)) then ret () else spool_head ids x (state_at env rows n))))
      (\<lambda>_. holds k l (with_head env ids x rows ns)) (cut_off ids k l (either_cuts env ids x rows ns))"
    proof (intro triple_get triple_lift)
      fix root s e assume "holds k l ?F s \<and> sw_root s = root" "bindR (safe_file (entry_of ''HEAD.json'' root) 4096) spool_load = Inl e"
      with load [OF _ True, of root "sw_ids s"] show "cut_off ids k l (either_cuts env ids x rows ns) s" by (auto simp: holds_def)
    next
      fix root v
      show "triple (\<lambda>s. holds k l ?F s \<and> sw_root s = root) (if val_eq v (state_val x (state_at env rows n)) then ret () else spool_head ids x (state_at env rows n))
          (\<lambda>_. holds k l (with_head env ids x rows ns)) (cut_off ids k l (either_cuts env ids x rows ns))"
      proof (cases "val_eq v (state_val x (state_at env rows n))")
        case eq: True
        show ?thesis unfolding if_P [OF eq]
          by (rule triple_ret) (use True in \<open>auto elim!: holds_mono simp: found_head_def with_head_def\<close>)
      next
        case False
        show ?thesis unfolding if_not_P [OF False] by (rule triple_pre [OF head]) blast
      qed
    qed
    with True show ?thesis by simp
  next
    case False
    then have "(if \<not> initialized then p else q) = p" for p q :: "(spool_world, unit) prog" by simp
    then show ?thesis using head by simp
  qed
qed

lemma publish_batch_triple:
  assumes "setting env ids x rows" "cuts_ok rows 0 ns" "n = end_of 0 ns" "n \<le> m" "m \<le> length rows" "m \<le> n + 1000"
    "length (lines_of (segment n m rows)) \<le> MAX_BATCH_SIZE"
  shows "triple (holds k l (found_head env ids x rows ns initialized))
    (publish_batch env ids x (state_at env rows n) initialized (batch_from env rows n m))
    (\<lambda>_. holds k l (in_order env ids x rows (next_cuts ns m))) (cut_off ids k l (either_cuts env ids x rows ns))"
  unfolding publish_batch_def
proof (rule triple_then [OF repair_head [OF assms(1,3)]])
  show "triple (holds k l (with_head env ids x rows ns)) (case sb_first (batch_from env rows n m) of None \<Rightarrow> ret ()
      | Some first \<Rightarrow> if sb_content (batch_from env rows n m) = [] then ret () else
          thenE (spool_publish env ids x (state_at env rows n) (sb_next (batch_from env rows n m)) first (sb_content (batch_from env rows n m)))
            (spool_head ids x (sb_next (batch_from env rows n m))))
     (\<lambda>_. holds k l (in_order env ids x rows (next_cuts ns m))) (cut_off ids k l (either_cuts env ids x rows ns))"
  proof (cases "m = n")
    case True
    have "triple (holds k l (with_head env ids x rows ns)) (ret ()) (\<lambda>_. holds k l (in_order env ids x rows (next_cuts ns m)))
        (cut_off ids k l (either_cuts env ids x rows ns))"
      by (rule triple_ret) (use True assms(3) in \<open>auto elim!: holds_mono simp: next_cuts_def with_head_in_order\<close>)
    with True show ?thesis by (simp add: batch_from_def)
  next
    case False
    with next_cuts_ok [OF assms(2) assms(4-7) [unfolded assms(3)]] assms(3) have cuts: "cuts_ok rows 0 (ns @ [m])" by blast
    have "segment n m rows = rows ! n # segment (Suc n) m rows" using False assms(4,5) by (simp add: segment_Suc)
    then have content: "lines_of (segment n m rows) \<noteq> []" by (simp add: lines_of_def row_line_def json_line_def)
    have m: "m \<in> set (0 # ns @ [m])" by simp
    have ns': "next_cuts ns m = ns @ [m]" using False assms(3) by (simp add: next_cuts_def)
    have "triple (holds k l (with_head env ids x rows ns))
        (thenE (spool_publish env ids x (state_at env rows n) (state_at env rows m) (fst (rows ! n)) (lines_of (segment n m rows)))
          (spool_head ids x (state_at env rows m)))
        (\<lambda>_. holds k l (in_order env ids x rows (next_cuts ns m))) (cut_off ids k l (either_cuts env ids x rows ns))"
    proof (rule triple_then)
      show "triple (holds k l (with_head env ids x rows ns))
          (spool_publish env ids x (state_at env rows n) (state_at env rows m) (fst (rows ! n)) (lines_of (segment n m rows)))
          (\<lambda>_. holds k l (with_head env ids x rows (ns @ [m]))) (cut_off ids k l (either_cuts env ids x rows ns))"
        by (rule triple_weaken [OF spool_publish_triple [OF assms(1) cuts assms(3)]]) (auto elim!: cut_off_mono intro: either_cutsI)
      show "triple (holds k l (with_head env ids x rows (ns @ [m]))) (spool_head ids x (state_at env rows m))
          (\<lambda>_. holds k l (in_order env ids x rows (next_cuts ns m))) (cut_off ids k l (either_cuts env ids x rows ns))"
        unfolding ns'
        by (rule triple_weaken [OF spool_head_triple [OF assms(1) m]]) (auto elim!: cut_off_mono holds_mono intro: either_cutsI with_head_in_order)
    qed
    with False content show ?thesis by (simp add: batch_from_def)
  qed
qed

section \<open>Reading and publishing\<close>

text \<open>The root before the first export, or in order.\<close>

definition spool_at :: "env \<Rightarrow> (nat \<Rightarrow> string) \<Rightarrow> string \<Rightarrow> event_row list \<Rightarrow> nat list \<Rightarrow> spool_node option \<Rightarrow> nat \<Rightarrow> bool" where
  "spool_at env ids x rows ns r m \<longleftrightarrow> r = None \<and> ns = [] \<or> in_order env ids x rows ns r m"

lemma spool_at_cuts: "spool_at env ids x rows ns r m \<Longrightarrow> cuts_ok rows 0 ns"
  by (auto simp: spool_at_def in_order_def good_dir_def)

lemma batches_found:
  assumes "setting env ids x rows" "spool_at env ids x rows ns r m"
  shows "spool_batches env x r = Inr (state_at env rows (end_of 0 ns), entry_of ''HEAD.json'' r \<noteq> None, chain_manifests env rows 0 ns)"
proof (cases r)
  case None
  with assms(2) show ?thesis by (simp add: spool_at_def in_order_def spool_batches_def entry_of_def state_at_0)
next
  case (Some nd)
  with assms(2) obtain es where es: "r = Some (SDir 0x1C0 es)" "good_dir env ids x rows m ns es" by (auto simp: spool_at_def in_order_def)
  from spool_batches_at [OF _ _ _ _ es(2)] assms(1) show ?thesis by (simp add: es(1) setting_def entry_of_def)
qed

definition spool_report_of :: "env \<Rightarrow> string \<Rightarrow> event_row list \<Rightarrow> nat \<Rightarrow> nat \<Rightarrow> bool \<Rightarrow> spool_report" where
  "spool_report_of env x rows n m writing = \<lparr>sp_exercise = x, sp_written = writing, sp_selected = int m - int n,
     sp_bytes = length (lines_of (segment n m rows)), sp_remaining = int (length rows - m),
     sp_published = (if writing then int m else int n)\<rparr>"

definition valid_rows :: "env \<Rightarrow> event_row list \<Rightarrow> bool" where
  "valid_rows env rows \<longleftrightarrow> (\<exists>s. check_all env [] rows = Inr s)"

lemma read_found:
  assumes "setting env ids x rows" "spool_at env ids x rows ns r m" "1 \<le> limit" "limit \<le> 1000" "rows = exercise_rows x s"
  shows "(\<exists>e. bindR (open_database (Some s)) (\<lambda>s. spool_read env (exercise_rows x s) (state_at env rows (end_of 0 ns)) limit (chain_manifests env rows 0 ns)) = Inl e)
      \<and> \<not> valid_rows env rows
    \<or> (\<exists>b. bindR (open_database (Some s)) (\<lambda>s. spool_read env (exercise_rows x s) (state_at env rows (end_of 0 ns)) limit (chain_manifests env rows 0 ns))
          = Inr (batch_from env rows (end_of 0 ns) b)
        \<and> end_of 0 ns \<le> b \<and> b \<le> length rows \<and> b \<le> end_of 0 ns + 1000 \<and> length (lines_of (segment (end_of 0 ns) b rows)) \<le> MAX_BATCH_SIZE
        \<and> (end_of 0 ns < length rows \<longrightarrow> end_of 0 ns < b))"
proof -
  have rows: "rows_ok rows" using assms(1) by (simp add: setting_def)
  note cuts = spool_at_cuts [OF assms(2)]
  let ?read = "spool_read env rows (state_at env rows (end_of 0 ns)) limit (chain_manifests env rows 0 ns)"
  show ?thesis
  proof (cases ?read)
    case (Inl e)
    with spool_read_ok [OF rows cuts refl, of env _ limit] have "\<not> valid_rows env rows" by (auto simp: valid_rows_def)
    with Inl assms(5) show ?thesis by (simp add: open_database_def)
  next
    case (Inr batch)
    have "0 \<le> limit" using assms(3) by simp
    from spool_read_at [OF rows cuts refl this Inr] obtain b where b: "end_of 0 ns \<le> b" "b \<le> length rows" "b \<le> end_of 0 ns + nat limit"
      "batch = batch_from env rows (end_of 0 ns) b" "length (lines_of (segment (end_of 0 ns) b rows)) \<le> MAX_BATCH_SIZE"
      "end_of 0 ns < length rows \<and> 0 < limit \<longrightarrow> end_of 0 ns < b" by blast
    have "nat limit \<le> 1000" using assms(4) by simp
    with b(3) have "b \<le> end_of 0 ns + 1000" by linarith
    moreover have "end_of 0 ns < length rows \<longrightarrow> end_of 0 ns < b" using b(6) assms(3) by simp
    ultimately show ?thesis using Inr assms(5) b(1,2,4,5) by (intro disjI2 exI [of _ b]) (simp add: open_database_def)
  qed
qed

definition stopped_export :: "(nat \<Rightarrow> string) \<Rightarrow> bool \<Rightarrow> bool \<Rightarrow> bool \<Rightarrow> (spool_node option \<Rightarrow> nat \<Rightarrow> bool) \<Rightarrow> spool_world \<Rightarrow> bool" where
  "stopped_export ids k l valid A w \<longleftrightarrow> holds k l A w \<and> (k \<or> \<not> inj_on ids {..<sw_ids w} \<or> l \<or> \<not> valid)"

lemma report_selected: "ss_count (sb_next (batch_from env rows n m)) - ss_count (state_at env rows n) = int m - int n"
  by (simp add: batch_from_def state_at_def)

lemma preview_run:
  assumes "setting env ids x rows" "spool_at env ids x rows ns (sw_root w) m" "1 \<le> limit" "limit \<le> 1000" "rows = exercise_rows x s"
  shows "(\<exists>e. inspect_and_publish env ids (Some s) x limit False w = (Inl e, w)) \<and> \<not> valid_rows env rows
    \<or> (\<exists>b. inspect_and_publish env ids (Some s) x limit False w = (Inr (spool_report_of env x rows (end_of 0 ns) b False), w))"
  using read_found [OF assms] unfolding inspect_and_publish_def
  by (elim disjE exE conjE) (simp_all add: bindE_run thenE_run batches_found [OF assms(1,2)] spool_report_of_def report_selected del: bindR_Inr,
      auto simp: batch_from_def state_at_def)

lemma publish_triple:
  assumes "setting env ids x rows" "1 \<le> limit" "limit \<le> 1000" "rows = exercise_rows x s"
  shows "triple (holds k l (in_order env ids x rows ns)) (inspect_and_publish env ids (Some s) x limit True)
    (\<lambda>rep w. \<exists>b. end_of 0 ns \<le> b \<and> b \<le> length rows \<and> (end_of 0 ns < length rows \<longrightarrow> end_of 0 ns < b)
        \<and> rep = spool_report_of env x rows (end_of 0 ns) b True \<and> holds k l (in_order env ids x rows (next_cuts ns b)) w)
    (stopped_export ids k l (valid_rows env rows) (either_cuts env ids x rows ns))"
  unfolding inspect_and_publish_def
proof (intro triple_get triple_lift)
  fix root s' e assume "holds k l (in_order env ids x rows ns) s' \<and> sw_root s' = root" "spool_batches env x root = Inl e"
  with batches_found [OF assms(1), of ns root "sw_ids s'"] show "stopped_export ids k l (valid_rows env rows) (either_cuts env ids x rows ns) s'"
    by (auto simp: holds_def spool_at_def)
next
  fix root r1
  assume r1: "spool_batches env x root = Inr r1"
  let ?P = "\<lambda>s. holds k l (in_order env ids x rows ns) s \<and> sw_root s = root"
  show "triple ?P (case r1 of (previous, initialized, manifests) \<Rightarrow>
      bindE (liftE (bindR (open_database (Some s)) (\<lambda>s. spool_read env (exercise_rows x s) previous limit manifests))) (\<lambda>batch.
      thenE (if True then publish_batch env ids x previous initialized batch else ret ())
        (ret \<lparr>sp_exercise = x, sp_written = True, sp_selected = ss_count (sb_next batch) - ss_count previous, sp_bytes = length (sb_content batch),
           sp_remaining = sb_pending batch, sp_published = (if True then ss_count (sb_next batch) else ss_count previous)\<rparr>)))
    (\<lambda>rep w. \<exists>b. end_of 0 ns \<le> b \<and> b \<le> length rows \<and> (end_of 0 ns < length rows \<longrightarrow> end_of 0 ns < b)
        \<and> rep = spool_report_of env x rows (end_of 0 ns) b True \<and> holds k l (in_order env ids x rows (next_cuts ns b)) w)
    (stopped_export ids k l (valid_rows env rows) (either_cuts env ids x rows ns))"
  proof (cases "\<exists>m. in_order env ids x rows ns root m")
    case False
    then show ?thesis by (auto simp: triple_def holds_def)
  next
    case True
    then obtain m where m: "in_order env ids x rows ns root m" by blast
    then have at: "spool_at env ids x rows ns root m" by (simp add: spool_at_def)
    define n where "n = end_of 0 ns"
    have r1': "r1 = (state_at env rows n, entry_of ''HEAD.json'' root \<noteq> None, chain_manifests env rows 0 ns)"
      using r1 batches_found [OF assms(1) at] by (simp add: n_def)
    have found: "?P s' \<Longrightarrow> holds k l (found_head env ids x rows ns (entry_of ''HEAD.json'' root \<noteq> None)) s'" for s'
      by (auto simp: holds_def found_head_def in_order_def entry_of_def)
    note cuts = spool_at_cuts [OF at]
    have ends: "stopped_export ids k l v (either_cuts env ids x rows ns) s'" if "cut_off ids k l (either_cuts env ids x rows ns) s'" for s' v
      using that unfolding stopped_export_def cut_off_def by blast
    show ?thesis
      unfolding r1' prod.case
    proof (rule triple_lift)
      fix s' e assume "?P s'" and "bindR (open_database (Some s)) (\<lambda>s. spool_read env (exercise_rows x s) (state_at env rows n) limit (chain_manifests env rows 0 ns)) = Inl e"
      with read_found [OF assms(1) at assms(2-4)] show "stopped_export ids k l (valid_rows env rows) (either_cuts env ids x rows ns) s'"
        unfolding n_def by (auto simp: stopped_export_def simp del: bindR_Inr elim!: holds_mono intro: either_cutsI)
    next
      fix batch assume "bindR (open_database (Some s)) (\<lambda>s. spool_read env (exercise_rows x s) (state_at env rows n) limit (chain_manifests env rows 0 ns)) = Inr batch"
      with read_found [OF assms(1) at assms(2-4), folded n_def] obtain b where b: "batch = batch_from env rows n b" "n \<le> b" "b \<le> length rows"
        "b \<le> n + 1000" "length (lines_of (segment n b rows)) \<le> MAX_BATCH_SIZE" "n < length rows \<longrightarrow> n < b"
        by (auto simp del: bindR_Inr)
      have "triple ?P (publish_batch env ids x (state_at env rows n) (entry_of ''HEAD.json'' root \<noteq> None) batch)
          (\<lambda>_. holds k l (in_order env ids x rows (next_cuts ns b))) (stopped_export ids k l (valid_rows env rows) (either_cuts env ids x rows ns))"
        unfolding b(1)
        by (rule triple_weaken [OF publish_batch_triple [OF assms(1) cuts n_def b(2-5)] found _ ends])
      then show "triple ?P (thenE (if True then publish_batch env ids x (state_at env rows n) (entry_of ''HEAD.json'' root \<noteq> None) batch else ret ())
          (ret \<lparr>sp_exercise = x, sp_written = True, sp_selected = ss_count (sb_next batch) - ss_count (state_at env rows n), sp_bytes = length (sb_content batch),
             sp_remaining = sb_pending batch, sp_published = (if True then ss_count (sb_next batch) else ss_count (state_at env rows n))\<rparr>))
        (\<lambda>rep w. \<exists>b. end_of 0 ns \<le> b \<and> b \<le> length rows \<and> (end_of 0 ns < length rows \<longrightarrow> end_of 0 ns < b)
          \<and> rep = spool_report_of env x rows (end_of 0 ns) b True \<and> holds k l (in_order env ids x rows (next_cuts ns b)) w)
        (stopped_export ids k l (valid_rows env rows) (either_cuts env ids x rows ns))"
        unfolding if_P [OF TrueI] n_def [symmetric]
        by (rule triple_then) (rule triple_ret, rule exI [of _ b], use b in \<open>simp add: spool_report_of_def batch_from_def state_at_def\<close>)
    qed
  qed
qed

end
