(* ===== verification/SpoolProps.thy ===== *)
theory SpoolProps
  imports SpoolExport
begin

text \<open>
  The spool beside the portal's database: whatever operations the portal makes and however exports are cut off, the
  published events are the first events of the exercise in their order, each once; and exports that are not disturbed
  publish all of them.
\<close>

section \<open>The rows of a growing database\<close>

lemma exercise_rows_ok:
  assumes "length (po_events s) < 2 ^ 63"
  shows "rows_ok (exercise_rows x s)"
proof -
  let ?z = "zip (map int [1..<Suc (length (po_events s))]) (po_events s)"
  have "sorted_wrt (<) (map fst ?z)" by (simp add: sorted_wrt_map sorted_wrt_upt del: upt_Suc)
  then have "sorted_wrt (\<lambda>r r'. fst r < fst r') ?z" by (simp only: sorted_wrt_map)
  from sorted_wrt_filter [OF this] have "sorted_wrt (<) (map fst (exercise_rows x s))"
    unfolding exercise_rows_def sorted_wrt_map .
  moreover have "1 \<le> n \<and> n < 2 ^ 63" if "(n, e) \<in> set (exercise_rows x s)" for n e
  proof -
    have "n \<in> int ` set [1..<Suc (length (po_events s))]" using that by (auto simp: exercise_rows_def dest: set_zip_leftD simp del: upt_Suc)
    then show ?thesis using assms by auto
  qed
  ultimately show ?thesis by (fastforce simp: rows_ok_def)
qed

lemma exercise_rows_grow:
  assumes "prefix (po_events s) (po_events s')"
  shows "prefix (exercise_rows x s) (exercise_rows x s')"
proof -
  obtain t where t: "po_events s' = po_events s @ t" using assms by (auto simp: prefix_def)
  have "[1..<Suc (length (po_events s'))] = [1..<Suc (length (po_events s))] @ [Suc (length (po_events s))..<Suc (length (po_events s'))]"
    using upt_add_eq_append [of 1 "Suc (length (po_events s))" "length t"] t by (simp del: upt_Suc)
  then show ?thesis by (simp add: exercise_rows_def t del: upt_Suc)
qed

lemma prefix_nth: "prefix xs ys \<Longrightarrow> i < length xs \<Longrightarrow> ys ! i = xs ! i"
  by (auto simp: prefix_def nth_append)

lemma prefix_take: "prefix xs ys \<Longrightarrow> n \<le> length xs \<Longrightarrow> take n ys = take n xs"
  by (auto simp: prefix_def)

lemma prefix_segment: "prefix xs ys \<Longrightarrow> b \<le> length xs \<Longrightarrow> segment a b ys = segment a b xs"
  by (auto simp: prefix_def segment_def)

lemma state_at_grow: "prefix rows rows' \<Longrightarrow> n \<le> length rows \<Longrightarrow> state_at env rows' n = state_at env rows n"
  using prefix_nth [of rows rows' "n - 1"] by (simp add: state_at_def cursor_at_def text_at_def prefix_take)

lemma chain_grow:
  assumes "prefix rows rows'"
  shows "cuts_ok rows a ns \<Longrightarrow> cuts_ok rows' a ns \<and> chain_files env x rows' a ns = chain_files env x rows a ns"
proof (induction ns arbitrary: a)
  case Nil
  then show ?case using prefix_length_le [OF assms] by simp
next
  case (Cons b ns)
  have b: "a < b" "b \<le> length rows" using cuts_le [of rows b ns] Cons.prems by simp_all
  have "name_at rows' a b = name_at rows a b" "batch_files env x rows' a b = batch_files env x rows a b"
    using b prefix_nth [OF assms, of a] state_at_grow [OF assms, of b env] state_at_grow [OF assms, of a env]
    by (simp_all add: name_at_def batch_files_def manifest_at_def prefix_segment [OF assms] state_at_def)
  then show ?case using Cons b by (simp add: prefix_segment [OF assms])
qed

lemma good_dir_grow:
  assumes "prefix rows rows'" "good_dir env ids x rows m ns es"
  shows "good_dir env ids x rows' m ns es"
proof -
  have cuts: "cuts_ok rows 0 ns" using assms(2) by (simp add: good_dir_def)
  have same: "k \<in> set (0 # ns) \<Longrightarrow> state_file env x rows' k = state_file env x rows k" for k
    using cut_range [OF cuts] state_at_grow [OF assms(1)] by (simp add: state_file_def)
  have "spool_entry env ids x rows' m ns e = spool_entry env ids x rows m ns e" for e
    unfolding spool_entry_def using same by (metis (no_types, lifting))
  with assms(2) chain_grow [OF assms(1) cuts] show ?thesis by (simp add: good_dir_def)
qed

lemma spool_at_grow: "prefix rows rows' \<Longrightarrow> spool_at env ids x rows ns r m \<Longrightarrow> spool_at env ids x rows' ns r m"
  by (auto simp: spool_at_def in_order_def dest: good_dir_grow)

lemma valid_grow: "prefix rows rows' \<Longrightarrow> valid_rows env rows' \<Longrightarrow> valid_rows env rows"
  by (auto simp: prefix_def valid_rows_def check_all_append)

section \<open>A whole export\<close>

definition arguments_ok :: "(string list \<Rightarrow> exc + string list) \<Rightarrow> string list \<Rightarrow> string list \<Rightarrow> string \<Rightarrow> int \<Rightarrow> bool" where
  "arguments_ok resolve database output x limit \<longleftrightarrow> 1 \<le> char_count x \<and> char_count x \<le> 128 \<and> 1 \<le> limit \<and> limit \<le> 1000
     \<and> (\<exists>source root. local_path resolve database = Inr source \<and> local_path resolve output = Inr root \<and> \<not> prefix root source)"

lemma make_root_triple:
  assumes "setting env ids x rows"
  shows "triple (holds k l (spool_at env ids x rows ns)) make_root (\<lambda>_. holds k l (in_order env ids x rows ns))
    (cut_off ids k l (\<lambda>r m. \<exists>ns'. prefix ns ns' \<and> spool_at env ids x rows ns' r m))"
  unfolding make_root_def
proof (rule triple_get)
  fix root
  let ?E = "cut_off ids k l (\<lambda>r m. \<exists>ns'. prefix ns ns' \<and> spool_at env ids x rows ns' r m)"
  let ?P = "\<lambda>s. holds k l (spool_at env ids x rows ns) s \<and> sw_root s = root"
  have new: "good_dir env ids x rows m [] []" for m by (simp add: good_dir_def batch_dirs_def)
  show "triple ?P (if root = None then thenE (fs_call (create_node (SDir 0x1C0 []))) sync else ret ()) (\<lambda>_. holds k l (in_order env ids x rows ns)) ?E"
  proof (cases "root = None")
    case True
    let ?A = "\<lambda>r m. r = None \<and> ns = []"
    have pre: "?P s \<Longrightarrow> holds k l ?A s" for s using True by (auto simp: holds_def spool_at_def in_order_def)
    have "triple (holds k l ?A) (thenE (fs_call (create_node (SDir 0x1C0 []))) sync) (\<lambda>_. holds k l (in_order env ids x rows ns)) ?E"
    proof (rule triple_then)
      show "triple (holds k l ?A) (fs_call (create_node (SDir 0x1C0 []))) (\<lambda>_. holds k l (in_order env ids x rows ns)) ?E"
        by (rule fs_call_triple) (use new in \<open>auto simp: spool_at_def create_node_def in_order_def\<close>)
      show "triple (holds k l (in_order env ids x rows ns)) sync (\<lambda>_. holds k l (in_order env ids x rows ns)) ?E"
        by (rule sync_triple) (auto simp: spool_at_def)
    qed
    from triple_pre [OF this pre] True show ?thesis by simp
  next
    case False
    have "triple ?P (ret ()) (\<lambda>_. holds k l (in_order env ids x rows ns)) ?E"
      by (rule triple_ret) (use False in \<open>auto simp: holds_def spool_at_def\<close>)
    then show ?thesis unfolding if_not_P [OF False] .
  qed
qed

lemma lock_triple:
  "triple (holds k l (in_order env ids x rows ns)) spool_lock (\<lambda>_. holds k l (in_order env ids x rows ns))
    (\<lambda>w. holds k l (in_order env ids x rows ns) w \<and> (k \<or> \<not> inj_on ids {..<sw_ids w} \<or> l))"
  unfolding spool_lock_def
proof (rule triple_then)
  have "triple (holds k l (in_order env ids x rows ns)) (fs_call (at_path [''.lock''] open_lock)) (\<lambda>_. holds k l (in_order env ids x rows ns))
      (cut_off ids k l (in_order env ids x rows ns))"
  proof (rule fs_call_triple)
    fix r m assume "in_order env ids x rows ns r m"
    then obtain es where es: "r = Some (SDir 0x1C0 es)" "good_dir env ids x rows m ns es" by (auto simp: in_order_def)
    have put: "good_dir env ids x rows m ns (dset ''.lock'' (SFile 0x180 1 []) es)"
      by (rule put_entry [OF es(2)]) (simp_all add: spool_entry_def)
    show "\<exists>r'. at_path [''.lock''] open_lock r = Inr r' \<and> in_order env ids x rows ns r' m"
    proof (cases "map_of es ''.lock''")
      case None
      then show ?thesis using put es(1) by (simp add: open_lock_def in_order_def)
    next
      case (Some nd)
      with es(2) have "nd = SFile 0x180 1 []" using other_names by (auto simp: good_dir_def spool_entry_def dest!: map_of_SomeD)
      then show ?thesis using Some put es(1) by (simp add: open_lock_def in_order_def)
    qed
  qed
  then show "triple (holds k l (in_order env ids x rows ns)) (fs_call (at_path [''.lock''] open_lock)) (\<lambda>_. holds k l (in_order env ids x rows ns))
      (\<lambda>w. holds k l (in_order env ids x rows ns) w \<and> (k \<or> \<not> inj_on ids {..<sw_ids w} \<or> l))"
    by (rule triple_weaken) (auto simp: cut_off_def)
  show "triple (holds k l (in_order env ids x rows ns)) (bindE (getE sw_locked) (\<lambda>locked. requireE (\<not> locked) (spool_error ''another publisher owns the spool'')))
      (\<lambda>_. holds k l (in_order env ids x rows ns)) (\<lambda>w. holds k l (in_order env ids x rows ns) w \<and> (k \<or> \<not> inj_on ids {..<sw_ids w} \<or> l))"
    by (auto simp: triple_def bindE_run requireE_run holds_def)
qed

lemma export_run:
  assumes rows: "rows1 = exercise_rows x s1" "rows2 = exercise_rows x s2" "prefix rows1 rows2" and set: "setting env ids x rows1" "setting env ids x rows2"
    and at: "spool_at env ids x rows1 ns (sw_root w) (sw_ids w)"
  shows "case spool_export env ids resolve database output (Some s1) (Some s2) (VStr x) (VInt limit) True w of
      (Inr rep, w') \<Rightarrow> \<exists>b. end_of 0 ns \<le> b \<and> b \<le> length rows2 \<and> (end_of 0 ns < length rows2 \<longrightarrow> end_of 0 ns < b)
        \<and> rep = spool_report_of env x rows2 (end_of 0 ns) b True \<and> spool_at env ids x rows2 (next_cuts ns b) (sw_root w') (sw_ids w')
    | (Inl e, w') \<Rightarrow> (\<exists>ns'. prefix ns ns' \<and> spool_at env ids x rows2 ns' (sw_root w') (sw_ids w'))
        \<and> (sw_left w \<noteq> None \<or> \<not> inj_on ids {..<sw_ids w'} \<or> sw_locked w \<or> \<not> valid_rows env rows2 \<or> \<not> arguments_ok resolve database output x limit)"
proof -
  let ?k = "sw_left w \<noteq> None" and ?l = "sw_locked w" and ?v = "valid_rows env rows2"
  have at2: "spool_at env ids x rows2 ns (sw_root w) (sw_ids w)" by (rule spool_at_grow [OF rows(3) at])
  let ?E = "\<lambda>w'. (\<exists>ns'. prefix ns ns' \<and> spool_at env ids x rows2 ns' (sw_root w') (sw_ids w')) \<and> (?k \<or> \<not> inj_on ids {..<sw_ids w'} \<or> ?l \<or> \<not> ?v \<or> \<not> arguments_ok resolve database output x limit)"
  let ?Q = "\<lambda>rep w'. \<exists>b. end_of 0 ns \<le> b \<and> b \<le> length rows2 \<and> (end_of 0 ns < length rows2 \<longrightarrow> end_of 0 ns < b)
        \<and> rep = spool_report_of env x rows2 (end_of 0 ns) b True \<and> spool_at env ids x rows2 (next_cuts ns b) (sw_root w') (sw_ids w')"
  have stay: "\<exists>ns'. prefix ns ns' \<and> spool_at env ids x rows2 ns' (sw_root w) (sw_ids w)" using at2 by blast
  have "triple (\<lambda>s. s = w) (spool_export env ids resolve database output (Some s1) (Some s2) (VStr x) (VInt limit) True) ?Q ?E"
    unfolding spool_export_def
  proof (rule triple_lift)
    fix s e assume "s = w" "export_scope (VStr x) (VInt limit) = Inl e"
    then show "?E s" using stay by (auto simp: export_scope_def strict_int_def arguments_ok_def split: if_splits)
  next
    fix xn assume "export_scope (VStr x) (VInt limit) = Inr xn"
    then have xn: "xn = (x, limit)" and lim: "1 \<le> limit" "limit \<le> 1000" and cc: "1 \<le> char_count x" "char_count x \<le> 128"
      by (auto simp: export_scope_def strict_int_def split: if_splits)
    show "triple (\<lambda>s. s = w) (case xn of (x, n) \<Rightarrow> bindE (liftE (local_path resolve database)) (\<lambda>source.
        bindE (liftE (local_path resolve output)) (\<lambda>root_path.
        thenE (requireE (\<not> prefix root_path source) (spool_error ''database cannot be inside the spool''))
       (if \<not> True then inspect_and_publish env ids (Some s2) x n False
        else thenE (inspect_and_publish env ids (Some s1) x n False) (thenE make_root
         (bindE (getE sw_root) (\<lambda>root. thenE (liftE (case root of None \<Rightarrow> no_file | Some node \<Rightarrow> spool_directory node))
         (thenE spool_lock (inspect_and_publish env ids (Some s2) x n True))))))))) ?Q ?E"
      unfolding xn prod.case
    proof (intro triple_lift)
      fix source root_path assume paths: "local_path resolve database = Inr source" "local_path resolve output = Inr root_path"
      let ?rest = "if \<not> True then inspect_and_publish env ids (Some s2) x limit False
        else thenE (inspect_and_publish env ids (Some s1) x limit False) (thenE make_root
         (bindE (getE sw_root) (\<lambda>root. thenE (liftE (case root of None \<Rightarrow> no_file | Some node \<Rightarrow> spool_directory node))
         (thenE spool_lock (inspect_and_publish env ids (Some s2) x limit True)))))"
      show "triple (\<lambda>s. s = w) (thenE (requireE (\<not> prefix root_path source) (spool_error ''database cannot be inside the spool'')) ?rest) ?Q ?E"
      proof (cases "prefix root_path source")
        case True
        then have "\<not> arguments_ok resolve database output x limit" using paths by (simp add: arguments_ok_def)
        with True stay show ?thesis by (auto simp: triple_def)
      next
        case False
        let ?H = "holds ?k ?l"
        let ?A = "spool_at env ids x rows2 ns" and ?O = "in_order env ids x rows2 ns"
        have end1: "?E s" if "cut_off ids ?k ?l (\<lambda>r m. \<exists>ns'. prefix ns ns' \<and> spool_at env ids x rows2 ns' r m) s" for s
          using that by (auto simp: cut_off_def holds_def)
        have end2: "?E s" if "stopped_export ids ?k ?l ?v (either_cuts env ids x rows2 ns) s" for s
          using that by (auto simp: stopped_export_def holds_def either_cuts_def spool_at_def)
        have preview: "triple (\<lambda>s. s = w) (inspect_and_publish env ids (Some s1) x limit False) (\<lambda>_. ?H ?A) ?E"
        proof -
          have "\<not> valid_rows env rows1 \<Longrightarrow> \<not> ?v" using valid_grow [OF rows(3)] by blast
          moreover have "?H ?A w" using at2 by (simp add: holds_def)
          ultimately show ?thesis using preview_run [OF set(1) at lim rows(1)] stay
            unfolding triple_def by (elim disjE conjE exE; simp; blast?)
        qed
        have lock: "triple (?H ?O) spool_lock (\<lambda>_. ?H ?O) ?E"
          by (rule triple_weaken [OF lock_triple]) (auto simp: holds_def spool_at_def)
        have last: "triple (?H ?O) (inspect_and_publish env ids (Some s2) x limit True) ?Q ?E"
        proof (rule triple_weaken [OF publish_triple [OF set(2) lim rows(2)] _ _ end2])
          fix rep w'
          assume "\<exists>b. end_of 0 ns \<le> b \<and> b \<le> length rows2 \<and> (end_of 0 ns < length rows2 \<longrightarrow> end_of 0 ns < b)
            \<and> rep = spool_report_of env x rows2 (end_of 0 ns) b True \<and> ?H (in_order env ids x rows2 (next_cuts ns b)) w'"
          then show "?Q rep w'" unfolding holds_def spool_at_def by blast
        qed
        have mk: "triple (?H ?A) make_root (\<lambda>_. ?H ?O) ?E"
          by (rule triple_weaken [OF make_root_triple [OF set(2)] _ _ end1]) assumption+
        have tail: "triple (?H ?O) (bindE (getE sw_root) (\<lambda>root. thenE (liftE (case root of None \<Rightarrow> no_file | Some node \<Rightarrow> spool_directory node))
           (thenE spool_lock (inspect_and_publish env ids (Some s2) x limit True)))) ?Q ?E"
        proof (rule triple_get)
          fix root
          show "triple (\<lambda>s. ?H ?O s \<and> sw_root s = root) (thenE (liftE (case root of None \<Rightarrow> no_file | Some node \<Rightarrow> spool_directory node))
              (thenE spool_lock (inspect_and_publish env ids (Some s2) x limit True))) ?Q ?E"
            unfolding thenE_def [of "liftE _"]
          proof (rule triple_lift)
            fix s e assume "?H ?O s \<and> sw_root s = root" "(case root of None \<Rightarrow> no_file | Some node \<Rightarrow> spool_directory node) = Inl e"
            then show "?E s" by (auto simp: holds_def in_order_def spool_directory_def)
          next
            fix es
            show "triple (\<lambda>s. ?H ?O s \<and> sw_root s = root) (thenE spool_lock (inspect_and_publish env ids (Some s2) x limit True)) ?Q ?E"
              by (rule triple_pre [OF triple_then [OF lock last]]) blast
          qed
        qed
        from triple_then [OF preview triple_then [OF mk tail]]
        show ?thesis using False by simp
      qed
    qed (use stay in \<open>auto simp: arguments_ok_def\<close>)
  qed
  from triple_run [OF this refl] show ?thesis by simp
qed

end
