(* ===== verification/SpoolClaims.thy ===== *)
theory SpoolClaims
  imports SpoolProps
begin

text \<open>
  The spool under any series of the portal's operations and of exports, killed or not.
\<close>

section \<open>Series of operations\<close>

datatype spool_command =
  StoreOp store_command
| ExportOp "store_command list" int bool "nat option" nat bool

text \<open>An export, with what the portal stores between its two readings, the limit, whether it writes, the step before which it is
  killed, the bytes of a write that is cut off, and whether another process holds the lock.\<close>

definition run_spool :: "env \<Rightarrow> (nat \<Rightarrow> string) \<Rightarrow> (string list \<Rightarrow> exc + string list) \<Rightarrow> string list \<Rightarrow> string list \<Rightarrow> string
    \<Rightarrow> spool_command \<Rightarrow> portal_store \<times> spool_world \<Rightarrow> portal_store \<times> spool_world" where
  "run_spool env ids resolve database out x c st = (case c of
     StoreOp sc \<Rightarrow> (run_store env sc (fst st), snd st)
   | ExportOp between limit writing left part locked \<Rightarrow>
       (let s = fold (run_store env) between (fst st) in
        (s, snd (spool_export env ids resolve database out (Some (fst st)) (Some s) (VStr x) (VInt limit) writing
              ((snd st)\<lparr>sw_left := left, sw_partial := part, sw_locked := locked\<rparr>)))))"

definition empty_world :: spool_world where
  "empty_world = \<lparr>sw_root = None, sw_left = None, sw_partial = 0, sw_ids = 0, sw_locked = False\<rparr>"

text \<open>A preview does not write.\<close>

lemma preview_keeps: "snd (inspect_and_publish env ids db x n False w) = w"
  by (auto simp: inspect_and_publish_def bindE_run thenE_run split: sum.splits prod.splits)

lemma preview_export_keeps: "snd (spool_export env ids resolve database out db1 db2 v limit False w) = w"
  by (auto simp: spool_export_def bindE_run thenE_run requireE_run preview_keeps split: sum.splits prod.splits)

lemma events_grow: "prefix (po_events s) (po_events (fold (run_store env) cs s))"
  by (rule event_rows.rows_grow) simp

lemma run_spool_events: "prefix (po_events (fst st)) (po_events (fst (fold (run_spool env ids resolve database out x) cs st)))"
proof (induction cs arbitrary: st)
  case (Cons c cs)
  have "prefix (po_events (fst st)) (po_events (fst (run_spool env ids resolve database out x c st)))"
    using events_grow [of "fst st" env "[_]"] events_grow [of "fst st" env]
    by (cases c) (simp_all add: run_spool_def Let_def)
  with Cons.IH [of "run_spool env ids resolve database out x c st"] show ?case by (simp add: prefix_order.trans)
qed simp

definition spool_now :: "env \<Rightarrow> (nat \<Rightarrow> string) \<Rightarrow> string \<Rightarrow> nat list \<Rightarrow> portal_store \<times> spool_world \<Rightarrow> bool" where
  "spool_now env ids x ns st \<longleftrightarrow> spool_at env ids x (exercise_rows x (fst st)) ns (sw_root (snd st)) (sw_ids (snd st))"

lemma run_spool_step:
  assumes "sha_ok env" "ids_ok ids" "small_name x" "spool_now env ids x ns st"
    and "length (po_events (fst (run_spool env ids resolve database out x c st))) < 2 ^ 63"
  shows "\<exists>ns'. prefix ns ns' \<and> spool_now env ids x ns' (run_spool env ids resolve database out x c st)"
proof -
  let ?st = "run_spool env ids resolve database out x c st"
  have grow: "prefix (po_events (fst st)) (po_events (fst ?st))" using run_spool_events [of st env ids resolve database out x "[c]"] by simp
  note rows = exercise_rows_grow [OF grow, of x]
  have len: "length (po_events (fst st)) < 2 ^ 63" using prefix_length_le [OF grow] assms(5) by simp
  have stay: "spool_at env ids x (exercise_rows x (fst ?st)) ns (sw_root (snd st)) (sw_ids (snd st))"
    using spool_at_grow [OF rows] assms(4) by (simp add: spool_now_def)
  show ?thesis
  proof (cases c)
    case (StoreOp sc)
    with stay show ?thesis by (auto simp: spool_now_def run_spool_def)
  next
    case (ExportOp between limit writing left part locked)
    define s where "s = fold (run_store env) between (fst st)"
    let ?w = "(snd st)\<lparr>sw_left := left, sw_partial := part, sw_locked := locked\<rparr>"
    have s: "fst ?st = s" by (simp add: ExportOp run_spool_def s_def Let_def)
    show ?thesis
    proof (cases writing)
      case False
      with stay show ?thesis by (auto simp: spool_now_def ExportOp run_spool_def Let_def preview_export_keeps s s_def)
    next
      case True
      obtain q w' where run: "spool_export env ids resolve database out (Some (fst st)) (Some s) (VStr x) (VInt limit) True ?w = (q, w')" by fastforce
      have st': "?st = (s, w')" using run True by (simp add: ExportOp run_spool_def s_def Let_def)
      have set: "setting env ids x (exercise_rows x (fst st))" "setting env ids x (exercise_rows x s)"
        using assms(1-3,5) len exercise_rows_ok by (simp_all add: setting_def s)
      have at: "spool_at env ids x (exercise_rows x (fst st)) ns (sw_root ?w) (sw_ids ?w)" using assms(4) by (simp add: spool_now_def)
      from export_run [OF refl refl rows [unfolded s] set at, of resolve database out limit] run
      have "\<exists>ns'. prefix ns ns' \<and> spool_at env ids x (exercise_rows x s) ns' (sw_root w') (sw_ids w')"
      proof (cases q)
        case (Inr rep)
        with export_run [OF refl refl rows [unfolded s] set at, of resolve database out limit] run obtain b where
          "spool_at env ids x (exercise_rows x s) (next_cuts ns b) (sw_root w') (sw_ids w')" by auto
        then show ?thesis by (intro exI [of _ "next_cuts ns b"]) (simp add: next_cuts_def)
      qed (auto simp: run)
      then show ?thesis by (simp add: spool_now_def st')
    qed
  qed
qed

lemma run_spool_steps:
  assumes "sha_ok env" "ids_ok ids" "small_name x"
  shows "spool_now env ids x ns st \<Longrightarrow> length (po_events (fst (fold (run_spool env ids resolve database out x) cs st))) < 2 ^ 63
    \<Longrightarrow> \<exists>ns'. prefix ns ns' \<and> spool_now env ids x ns' (fold (run_spool env ids resolve database out x) cs st)"
proof (induction cs arbitrary: ns st)
  case (Cons c cs)
  let ?st = "run_spool env ids resolve database out x c st"
  have "length (po_events (fst ?st)) < 2 ^ 63"
    using prefix_length_le [OF run_spool_events [of ?st env ids resolve database out x cs]] Cons.prems(2) by simp
  from run_spool_step [OF assms Cons.prems(1) this] obtain ns1 where ns1: "prefix ns ns1" "spool_now env ids x ns1 ?st" by blast
  from Cons.IH [OF ns1(2)] Cons.prems(2) obtain ns2 where "prefix ns1 ns2" "spool_now env ids x ns2 (fold (run_spool env ids resolve database out x) (c # cs) st)"
    by auto
  with ns1(1) show ?case by (meson prefix_order.trans)
qed auto

lemma spool_now_empty: "spool_now env ids x [] (empty_store, empty_world)"
  by (simp add: spool_now_def spool_at_def empty_world_def)

text \<open>What is published, when the directory is in order.\<close>

lemma chain_files_prefix: "chain_files env x rows a (ns @ ms) = chain_files env x rows a ns @ chain_files env x rows (end_of a ns) ms"
  by (induction ns arbitrary: a) auto

lemma cuts_prefix: "cuts_ok rows a (ns @ ms) \<Longrightarrow> cuts_ok rows a ns \<and> cuts_ok rows (end_of a ns) ms"
proof (induction ns arbitrary: a)
  case Nil
  then show ?case using cuts_le [of rows a ms] by simp
qed auto

lemma spool_now_published:
  assumes "spool_now env ids x ns st" "length (po_events (fst st)) < 2 ^ 63"
  shows "published (sw_root (snd st)) = lines_of (take (end_of 0 ns) (exercise_rows x (fst st)))
    \<and> published_batches (sw_root (snd st)) = map (map_prod id (SDir 0x1C0)) (chain_files env x (exercise_rows x (fst st)) 0 ns)
    \<and> cuts_ok (exercise_rows x (fst st)) 0 ns"
proof -
  have rows: "rows_ok (exercise_rows x (fst st))" by (rule exercise_rows_ok [OF assms(2)])
  from assms(1) consider "sw_root (snd st) = None" "ns = []"
    | es where "sw_root (snd st) = Some (SDir 0x1C0 es)" "good_dir env ids x (exercise_rows x (fst st)) (sw_ids (snd st)) ns es"
    by (auto simp: spool_now_def spool_at_def in_order_def)
  then show ?thesis
  proof cases
    case 1
    then show ?thesis by (simp add: published_def published_batches_def lines_of_def)
  next
    case 2
    have "cuts_ok (exercise_rows x (fst st)) 0 ns" using 2(2) by (simp add: good_dir_def)
    with 2(1) published_at [OF rows 2(2)] published_batches_at [OF rows 2(2)] show ?thesis by simp
  qed
qed

section \<open>Claims\<close>

text \<open>C30: Whatever series of operations the portal runs and however its exports are cut off (killed before any system call or in the
  middle of a write, refused, with a locked spool), the lines of the published batches in the order of their names are exactly
  the lines of the first \<open>n\<close> events of the exercise, in the order of the database and each once; further operations only
  add batches, and no published batch is changed.\<close>

theorem published_is_prefix:
  assumes "sha_ok env" "ids_ok ids" "small_name x"
    and "st = fold (run_spool env ids resolve database out x) cs (empty_store, empty_world)"
    and "st' = fold (run_spool env ids resolve database out x) ds st"
    and "length (po_events (fst st')) < 2 ^ 63"
  shows "prefix (exercise_rows x (fst st)) (exercise_rows x (fst st'))
    \<and> (\<exists>n n'. n \<le> n' \<and> n \<le> length (exercise_rows x (fst st)) \<and> n' \<le> length (exercise_rows x (fst st'))
        \<and> published (sw_root (snd st)) = lines_of (take n (exercise_rows x (fst st)))
        \<and> published (sw_root (snd st')) = lines_of (take n' (exercise_rows x (fst st'))))
    \<and> prefix (published_batches (sw_root (snd st))) (published_batches (sw_root (snd st')))"
proof -
  have grow: "prefix (po_events (fst st)) (po_events (fst st'))" unfolding assms(5) by (rule run_spool_events)
  note rows = exercise_rows_grow [OF grow, of x]
  have len: "length (po_events (fst st)) < 2 ^ 63" using prefix_length_le [OF grow] assms(6) by simp
  from run_spool_steps [OF assms(1-3) spool_now_empty, of resolve database out cs] len assms(4) obtain ns where
    ns: "spool_now env ids x ns st" by auto
  from run_spool_steps [OF assms(1-3) ns, of resolve database out ds] assms(5,6) obtain ms where
    ms: "spool_now env ids x (ns @ ms) st'" by (auto simp: prefix_def)
  note p = spool_now_published [OF ns len] and p' = spool_now_published [OF ms assms(6)]
  have cuts: "cuts_ok (exercise_rows x (fst st)) 0 ns" "cuts_ok (exercise_rows x (fst st')) 0 (ns @ ms)" using p p' by blast+
  have "end_of 0 ns \<le> end_of 0 (ns @ ms)"
    using cuts_le [of _ "end_of 0 ns" ms] cuts_prefix [OF cuts(2)] by (cases "ms = []") auto
  moreover have "end_of 0 ns \<le> length (exercise_rows x (fst st))" "end_of 0 (ns @ ms) \<le> length (exercise_rows x (fst st'))"
    using cuts_le [OF cuts(1)] cuts_le [OF cuts(2)] by blast+
  moreover have "prefix (published_batches (sw_root (snd st))) (published_batches (sw_root (snd st')))"
    using p p' chain_grow [OF rows cuts(1), of env x] by (simp add: chain_files_prefix)
  ultimately show ?thesis using rows p p' by blast
qed

text \<open>A program uses up at most \<open>k\<close> identifiers.\<close>

definition uses_ids :: "nat \<Rightarrow> (spool_world, 'a) prog \<Rightarrow> bool" where
  "uses_ids k m \<longleftrightarrow> (\<forall>w. sw_ids w \<le> sw_ids (snd (m w)) \<and> sw_ids (snd (m w)) \<le> sw_ids w + k)"

lemma uses_le: "uses_ids j m \<Longrightarrow> j \<le> k \<Longrightarrow> uses_ids k m"
  unfolding uses_ids_def by (meson add_left_mono le_trans)

lemma uses_bind:
  assumes "uses_ids j m" and "\<And>x. uses_ids k (f x)"
  shows "uses_ids (j + k) (bindE m f)"
  unfolding uses_ids_def
proof
  fix w
  obtain q w1 where m: "m w = (q, w1)" by fastforce
  have 1: "sw_ids w \<le> sw_ids w1" "sw_ids w1 \<le> sw_ids w + j" using assms(1) m by (auto simp: uses_ids_def dest: spec [of _ w])
  show "sw_ids w \<le> sw_ids (snd (bindE m f w)) \<and> sw_ids (snd (bindE m f w)) \<le> sw_ids w + (j + k)"
  proof (cases q)
    case (Inl e)
    with 1 m show ?thesis by (simp add: bindE_run)
  next
    case (Inr x)
    have "sw_ids w1 \<le> sw_ids (snd (f x w1))" "sw_ids (snd (f x w1)) \<le> sw_ids w1 + k" using assms(2) by (auto simp: uses_ids_def)
    with 1 m Inr show ?thesis by (simp add: bindE_run)
  qed
qed

lemma uses_then: "uses_ids j m \<Longrightarrow> uses_ids k n \<Longrightarrow> uses_ids (j + k) (thenE m n)"
  unfolding thenE_def by (rule uses_bind)

lemma uses_basic: "uses_ids 0 (ret y)" "uses_ids 0 (liftE q)" "uses_ids 0 (getE g)" "uses_ids 0 (requireE b e)" "uses_ids 0 (fs_call f)" "uses_ids 0 sync"
  "uses_ids 0 (write_bytes p content)" "uses_ids 1 (new_id ids)"
  by (auto simp: uses_ids_def requireE_run fs_call_def sync_def write_bytes_def new_id_def bindE_run thenE_run Let_def split: sum.splits)

lemma uses_if: "uses_ids k m \<Longrightarrow> uses_ids k n \<Longrightarrow> uses_ids k (if b then m else n)"
  by simp

lemmas uses_rules = uses_bind uses_then uses_basic

lemma uses_head: "uses_ids 1 (spool_head ids x st)"
  unfolding spool_head_def spool_write_def Let_def by (rule uses_le, (rule uses_rules)+, simp)

lemma uses_publish: "uses_ids 1 (spool_publish env ids x a b f c)"
  unfolding spool_publish_def spool_write_def Let_def by (rule uses_le, (rule uses_rules)+, simp)

lemma uses_batch: "uses_ids 3 (publish_batch env ids x previous initialized batch)"
proof -
  have one: "uses_ids 1 (if c then ret () else spool_head ids x previous)" for c
    by (rule uses_if) (rule uses_le [OF uses_basic(1)], simp, rule uses_head)
  have "uses_ids 2 (case sb_first batch of None \<Rightarrow> ret () | Some first \<Rightarrow> if sb_content batch = [] then ret ()
      else thenE (spool_publish env ids x previous (sb_next batch) first (sb_content batch)) (spool_head ids x (sb_next batch)))"
  proof (cases "sb_first batch")
    case None
    show ?thesis unfolding None option.case by (rule uses_le [OF uses_basic(1)]) simp
  next
    case (Some first)
    show ?thesis unfolding Some option.case
      by (intro uses_if uses_le [OF uses_basic(1)] uses_le [OF uses_then [OF uses_publish uses_head]]) simp_all
  qed
  moreover have "uses_ids (0 + (0 + 1)) (bindE (getE sw_root) (\<lambda>root. bindE (liftE (bindR (safe_file (entry_of ''HEAD.json'' root) 4096) spool_load)) (\<lambda>head.
         if val_eq head (state_val x previous) then ret () else spool_head ids x previous)))"
    by (intro uses_bind uses_basic one)
  then have "uses_ids 1 (if \<not> initialized then spool_head ids x previous
       else bindE (getE sw_root) (\<lambda>root. bindE (liftE (bindR (safe_file (entry_of ''HEAD.json'' root) 4096) spool_load)) (\<lambda>head.
         if val_eq head (state_val x previous) then ret () else spool_head ids x previous)))"
    using uses_head by simp
  ultimately show ?thesis unfolding publish_batch_def by (rule uses_le [OF uses_then [rotated]]) simp
qed

lemma uses_inspect: "uses_ids (if writing then 3 else 0) (inspect_and_publish env ids db x n writing)"
proof -
  have step: "uses_ids 3 (if writing then publish_batch env ids x previous initialized batch else ret ())" if writing for previous initialized batch
    using that uses_batch by simp
  show ?thesis
  proof (cases writing)
    case True
    have "uses_ids (0 + (0 + (0 + (3 + 0)))) (inspect_and_publish env ids db x n writing)"
      unfolding inspect_and_publish_def
      by (intro uses_bind uses_basic) (simp only: split_beta, intro uses_bind uses_then uses_basic step True)
    with True show ?thesis by simp
  next
    case False
    then show ?thesis using preview_keeps by (simp add: uses_ids_def)
  qed
qed

lemma uses_export: "uses_ids 3 (spool_export env ids resolve database out db1 db2 v limit True)"
proof -
  have root: "uses_ids 0 make_root"
  proof -
    have "uses_ids 0 (if root = None then thenE (fs_call (create_node (SDir 0x1C0 []))) sync else ret ())" for root :: "spool_node option"
      by (rule uses_if) (rule uses_then [OF uses_basic(5,6), simplified], rule uses_basic)
    from uses_bind [OF uses_basic(3) this] show ?thesis by (simp add: make_root_def)
  qed
  have lock: "uses_ids 0 spool_lock"
    using uses_then [OF uses_basic(5) uses_bind [OF uses_basic(3,4)]] by (simp add: spool_lock_def)
  have "uses_ids 3 (thenE (inspect_and_publish env ids db1 x n False) (thenE make_root
       (bindE (getE sw_root) (\<lambda>root. thenE (liftE (case root of None \<Rightarrow> no_file | Some node \<Rightarrow> spool_directory node))
       (thenE spool_lock (inspect_and_publish env ids db2 x n True))))))" for x n
    by (rule uses_le, (rule uses_then uses_bind uses_basic uses_inspect root lock)+, simp)
  then have "uses_ids (0 + (0 + (0 + (0 + 3)))) (spool_export env ids resolve database out db1 db2 v limit True)"
    unfolding spool_export_def
    by (intro uses_bind uses_basic) (simp only: split_beta not_True_eq_False if_False, intro uses_bind uses_then uses_basic)
  then show ?thesis by simp
qed

text \<open>Exports that nothing disturbs, one after another.\<close>

abbreviation undisturbed :: "int \<Rightarrow> spool_command" where
  "undisturbed limit \<equiv> ExportOp [] limit True None 0 False"

lemma undisturbed_export:
  assumes set: "setting env ids x (exercise_rows x s)" and now: "spool_now env ids x ns (s, w)"
    and args: "arguments_ok resolve database out x limit" and valid: "valid_rows env (exercise_rows x s)"
    and w: "sw_left w = None" "\<not> sw_locked w"
    and run: "spool_export env ids resolve database out (Some s) (Some s) (VStr x) (VInt limit) True w = (q, w')"
    and fresh: "inj_on ids {..<sw_ids w'}"
  shows "\<exists>b. end_of 0 ns \<le> b \<and> b \<le> length (exercise_rows x s) \<and> (end_of 0 ns < length (exercise_rows x s) \<longrightarrow> end_of 0 ns < b)
    \<and> q = Inr (spool_report_of env x (exercise_rows x s) (end_of 0 ns) b True) \<and> spool_now env ids x (next_cuts ns b) (s, w')"
proof -
  have at: "spool_at env ids x (exercise_rows x s) ns (sw_root w) (sw_ids w)" using now by (simp add: spool_now_def)
  from export_run [OF refl refl prefix_order.refl set set at, of resolve database out limit] run args valid w fresh
  show ?thesis by (cases q) (auto simp: spool_now_def)
qed

lemma run_spool_ids:
  "sw_ids (snd st) \<le> sw_ids (snd (run_spool env ids resolve database out x c st))
    \<and> sw_ids (snd (run_spool env ids resolve database out x c st)) \<le> sw_ids (snd st) + 3"
proof (cases c)
  case (ExportOp between limit writing left part locked)
  let ?s = "fold (run_store env) between (fst st)" and ?w = "(snd st)\<lparr>sw_left := left, sw_partial := part, sw_locked := locked\<rparr>"
  have "uses_ids 3 (spool_export env ids resolve database out (Some (fst st)) (Some ?s) (VStr x) (VInt limit) writing)"
    using uses_export preview_export_keeps by (cases writing) (simp_all add: uses_ids_def)
  then have "sw_ids ?w \<le> sw_ids (snd (spool_export env ids resolve database out (Some (fst st)) (Some ?s) (VStr x) (VInt limit) writing ?w))
      \<and> sw_ids (snd (spool_export env ids resolve database out (Some (fst st)) (Some ?s) (VStr x) (VInt limit) writing ?w)) \<le> sw_ids ?w + 3"
    unfolding uses_ids_def by blast
  then show ?thesis by (simp add: ExportOp run_spool_def Let_def)
qed (simp add: run_spool_def)

lemma run_spools_ids:
  "sw_ids (snd st) \<le> sw_ids (snd (fold (run_spool env ids resolve database out x) cs st))
    \<and> sw_ids (snd (fold (run_spool env ids resolve database out x) cs st)) \<le> sw_ids (snd st) + 3 * length cs"
proof (induction cs arbitrary: st)
  case (Cons c cs)
  from run_spool_ids [of st env ids resolve database out x c] Cons [of "run_spool env ids resolve database out x c st"] show ?case by simp
qed simp

lemma undisturbed_run:
  "run_spool env ids resolve database out x (undisturbed limit) st = (fst st,
     snd (spool_export env ids resolve database out (Some (fst st)) (Some (fst st)) (VStr x) (VInt limit) True
       ((snd st)\<lparr>sw_left := None, sw_partial := 0, sw_locked := False\<rparr>)))"
  by (simp add: run_spool_def Let_def)

lemma undisturbed_progress:
  assumes "setting env ids x (exercise_rows x (fst st))" "arguments_ok resolve database out x limit" "valid_rows env (exercise_rows x (fst st))"
    and "spool_now env ids x ns st"
  shows "inj_on ids {..<sw_ids (snd (fold (run_spool env ids resolve database out x) (replicate k (undisturbed limit)) st))}
    \<Longrightarrow> \<exists>ns'. spool_now env ids x ns' (fold (run_spool env ids resolve database out x) (replicate k (undisturbed limit)) st)
      \<and> min (length (exercise_rows x (fst st))) (end_of 0 ns + k) \<le> end_of 0 ns'
      \<and> fst (fold (run_spool env ids resolve database out x) (replicate k (undisturbed limit)) st) = fst st"
  using assms
proof (induction k arbitrary: st ns)
  case 0
  then show ?case by (intro exI [of _ ns]) simp
next
  case (Suc k)
  let ?c = "undisturbed limit" and ?run = "run_spool env ids resolve database out x" and ?w = "(snd st)\<lparr>sw_left := None, sw_partial := 0, sw_locked := False\<rparr>"
  obtain q w' where run: "spool_export env ids resolve database out (Some (fst st)) (Some (fst st)) (VStr x) (VInt limit) True ?w = (q, w')" by fastforce
  have st1: "?run ?c st = (fst st, w')" by (simp add: undisturbed_run run)
  have "sw_ids w' \<le> sw_ids (snd (fold ?run (replicate k ?c) (?run ?c st)))"
    using run_spools_ids [of "?run ?c st" env ids resolve database out x "replicate k ?c"] by (simp only: st1 snd_conv)
  moreover have "inj_on ids {..<sw_ids (snd (fold ?run (replicate k ?c) (?run ?c st)))}" using Suc.prems(1) by simp
  ultimately have fresh: "inj_on ids {..<sw_ids w'}" by (elim inj_on_subset) auto
  have now: "spool_now env ids x ns (fst st, ?w)" using Suc.prems(5) by (simp add: spool_now_def)
  from undisturbed_export [OF Suc.prems(2) now Suc.prems(3,4) _ _ run fresh] obtain b where
    b: "end_of 0 ns \<le> b" "b \<le> length (exercise_rows x (fst st))" "end_of 0 ns < length (exercise_rows x (fst st)) \<longrightarrow> end_of 0 ns < b"
      "spool_now env ids x (next_cuts ns b) (fst st, w')" by auto
  have "inj_on ids {..<sw_ids (snd (fold ?run (replicate k ?c) (fst st, w')))}" using Suc.prems(1) st1 by simp
  from Suc.IH [OF this] Suc.prems(2-4) b(4) obtain ns' where
    ns': "spool_now env ids x ns' (fold ?run (replicate k ?c) (fst st, w'))"
      "min (length (exercise_rows x (fst st))) (end_of 0 (next_cuts ns b) + k) \<le> end_of 0 ns'" "fst (fold ?run (replicate k ?c) (fst st, w')) = fst st"
    by auto
  have "end_of 0 (next_cuts ns b) = b" using next_cuts_end [of ns b] by auto
  then show ?case using ns' b(1-3) st1 by (intro exI [of _ ns']) auto
qed


section \<open>A spool that somebody else changed\<close>

text \<open>Nothing is assumed here about the directory: only that the exporter accepted it.\<close>

lemma case_dict_Inr: "(case v of VDict d \<Rightarrow> f d | _ \<Rightarrow> Inl e) = Inr y \<longleftrightarrow> (\<exists>d. v = VDict d \<and> f d = Inr y)"
  by (cases v) auto

lemma case_list_Inr: "(case xs of [] \<Rightarrow> Inl e | y # ys \<Rightarrow> f y ys) = Inr z \<longleftrightarrow> (\<exists>y ys. xs = y # ys \<and> f y ys = Inr z)"
  by (cases xs) auto

lemma batch_accepted:
  assumes "spool_batch env x name files previous = Inr m"
  shows "mf_sha m = e_sha256 env (event_text (SDir mo files)) \<and> mf_bytes m = int (length (event_text (SDir mo files)))"
proof -
  from assms obtain content where c: "safe_file (map_of files ''events.jsonl'') MAX_BATCH_SIZE = Inr content"
    "mf_sha m = e_sha256 env content" "mf_bytes m = int (length content)"
    by (auto simp: spool_batch_def case_dict_Inr)
  then have "event_text (SDir mo files) = content"
    by (auto simp: event_text_def entry_of_def safe_file_def no_file_def os_error_def split: option.splits spool_node.splits)
  with c show ?thesis by simp
qed

lemma chain_accepted:
  "spool_chain env x head paths previous seen = Inr (st, s, ms)
    \<Longrightarrow> list_all2 (\<lambda>f m. mf_sha m = e_sha256 env (event_text (SDir 0 (snd f))) \<and> mf_bytes m = int (length (event_text (SDir 0 (snd f))))) paths ms"
proof (induction paths arbitrary: previous seen ms)
  case (Cons f paths)
  obtain name files where f: "f = (name, files)" by (cases f)
  with Cons.prems obtain m ms' seen' where m: "spool_batch env x name files previous = Inr m" "ms = m # ms'"
    "spool_chain env x head paths (mf_next m) seen' = Inr (st, s, ms')" by auto
  from batch_accepted [OF m(1)] Cons.IH [OF m(3)] show ?case by (simp add: f m(2))
qed simp

lemma paths_published:
  assumes "batch_paths es = Inr paths"
  shows "paths = map (\<lambda>e. (fst e, node_files (snd e))) (sort_key fst (batch_dirs es))
    \<and> (\<forall>e\<in>set (batch_dirs es). \<exists>mo. snd e = SDir mo (node_files (snd e)))"
proof -
  from assms obtain found where found: "mapR batch_path es = Inr found" "paths = sort_key fst (concat found)" by (auto simp: batch_paths_def)
  have one: "ps = (if batch_name (fst e) then [(fst e, node_files (snd e))] else []) \<and> (batch_name (fst e) \<longrightarrow> (\<exists>mo. snd e = SDir mo (node_files (snd e))))"
    if "batch_path e = Inr ps" for e ps
    using that other_names by (cases e) (auto simp: batch_path_def spool_directory_def node_files_def split: if_splits spool_node.splits)
  from found(1) have "list_all2 (\<lambda>e ps. batch_path e = Inr ps) es found" by (simp add: mapR_Inr)
  then have "concat found = map (\<lambda>e. (fst e, node_files (snd e))) (batch_dirs es) \<and> (\<forall>e\<in>set (batch_dirs es). \<exists>mo. snd e = SDir mo (node_files (snd e)))"
    by (induction es found rule: list_all2_induct) (auto simp: batch_dirs_def dest!: one)
  moreover have "sort_key fst (map (\<lambda>e. (fst e, node_files (snd e))) l) = map (\<lambda>e. (fst e, node_files (snd e))) (sort_key fst l)" for l :: "spool_node dict"
  proof -
    let ?g = "\<lambda>e. (fst e, node_files (snd e))"
    have "insort_key fst (?g e) (map ?g l) = map ?g (insort_key fst e l)" for e and l :: "spool_node dict"
      by (induction l) auto
    then show ?thesis by (induction l) simp_all
  qed
  ultimately show ?thesis using found(2) by simp
qed

definition batch_matches :: "env \<Rightarrow> event_row list \<Rightarrow> manifest \<Rightarrow> event_row list \<Rightarrow> bool" where
  "batch_matches env rows m g \<longleftrightarrow> e_sha256 env (lines_of g) = mf_sha m \<and> int (length (lines_of g)) = mf_bytes m
     \<and> (\<exists>a b. g = segment a b rows)"

text \<open>The old rows fall into groups, one for each batch.\<close>

lemma read_groups:
  "read_rows (read_old env) (drop n rows) r = Inr r' \<Longrightarrow> a \<le> n \<Longrightarrow> n \<le> length rows \<Longrightarrow> sr_batch_text r = lines_of (segment a n rows)
    \<Longrightarrow> sr_batch_size r = int (length (lines_of (segment a n rows))) \<Longrightarrow> (sr_batches r = [] \<longrightarrow> a = n) \<Longrightarrow> sr_batches r' = []
    \<Longrightarrow> \<exists>gs. segment a (length rows) rows = concat gs \<and> list_all2 (batch_matches env rows) (sr_batches r) gs"
proof (induction "length rows - n" arbitrary: n a r)
  case 0
  then have "n = length rows" "r' = r" by simp_all
  with 0 show ?case by (intro exI [of _ "[]"]) simp
next
  case (Suc k)
  then have n: "n < length rows" by simp
  then have d: "drop n rows = rows ! n # drop (Suc n) rows" by (simp add: Cons_nth_drop_Suc)
  from Suc.prems(1) obtain r1 where r1: "read_old env (rows ! n) r = Inr r1" "read_rows (read_old env) (drop (Suc n) rows) r1 = Inr r'"
    unfolding d by auto
  from r1(1) obtain line seqs m later where ev: "spool_event env (sr_sequences r) (snd (rows ! n)) = Inr (line, seqs)" and bs: "sr_batches r = m # later"
    by (auto simp: read_old_def case_list_Inr)
  have line: "line = row_line (rows ! n)" using spool_event_line [OF ev] by (simp add: row_line_def)
  have seg: "lines_of (segment a (Suc n) rows) = lines_of (segment a n rows) @ line"
    using segment_snoc [OF Suc.prems(2) n] line by (simp add: lines_of_def)
  have k: "k = length rows - Suc n" using Suc.hyps(2) by simp
  show ?case
  proof (cases "fst (rows ! n) = ss_cursor (mf_next m)")
    case True
    with r1(1) ev bs Suc.prems(4,5) seg have m: "e_sha256 env (lines_of (segment a (Suc n) rows)) = mf_sha m"
      "int (length (lines_of (segment a (Suc n) rows))) = mf_bytes m"
      and after: "sr_batches r1 = later" "sr_batch_text r1 = []" "sr_batch_size r1 = 0"
      by (auto simp: read_old_def Let_def close_batch_def)
    from Suc.hyps(1) [OF k r1(2), of "Suc n"] n after Suc.prems(7) obtain gs where
      gs: "segment (Suc n) (length rows) rows = concat gs" "list_all2 (batch_matches env rows) later gs"
      by (auto simp: lines_of_def)
    have "segment a (length rows) rows = segment a (Suc n) rows @ concat gs"
      using segment_append [of a "Suc n" "length rows" rows] Suc.prems(2) n gs(1) by simp
    moreover have "batch_matches env rows m (segment a (Suc n) rows)" using m by (auto simp: batch_matches_def)
    ultimately show ?thesis using bs gs(2) by (intro exI [of _ "segment a (Suc n) rows # gs"]) simp
  next
    case False
    with r1(1) ev bs Suc.prems(4,5) have "sr_batches r1 = m # later" "sr_batch_text r1 = lines_of (segment a n rows) @ line"
      "sr_batch_size r1 = int (length (lines_of (segment a n rows))) + int (length line)"
      by (auto simp: read_old_def Let_def)
    with Suc.hyps(1) [OF k r1(2), of a] n Suc.prems(2,7) seg bs show ?thesis by simp
  qed
qed

lemma manifests_match:
  assumes "spool_batches env x root = Inr (st, initialized, ms)"
  shows "list_all2 (\<lambda>f m. mf_sha m = e_sha256 env (event_text (snd f)) \<and> mf_bytes m = int (length (event_text (snd f)))) (published_batches root) ms"
proof (cases root)
  case None
  with assms show ?thesis by (auto simp: spool_batches_def published_batches_def)
next
  case (Some node)
  with assms obtain mo es where node: "node = SDir mo es"
    by (auto simp: spool_batches_def spool_directory_def split: spool_node.splits)
  consider "es = []" | "es \<noteq> []" "map_of es ''HEAD.json'' = None" | "es \<noteq> []" "map_of es ''HEAD.json'' \<noteq> None" by blast
  then show ?thesis
  proof cases
    case 1
    with assms Some node show ?thesis by (auto simp: spool_batches_def spool_directory_def published_batches_def batch_dirs_def split: if_splits)
  next
    case 2
    with assms Some node obtain cs where cs: "mapR headless_entry es = Inr cs" "ms = []"
      by (auto simp: spool_batches_def spool_directory_def split: if_splits)
    from cs(1) have "list_all2 (\<lambda>e c. headless_entry e = Inr c) es cs" by (simp add: mapR_Inr)
    then have "\<forall>e\<in>set es. \<exists>c. headless_entry e = Inr c" by (induction es cs rule: list_all2_induct) auto
    moreover have "\<not> batch_name (fst e)" if "headless_entry e = Inr c" for e c
      using that other_names by (cases e) (auto simp: headless_entry_def hex_name_def starts_with_def batch_name_def split: if_splits)
    ultimately have "batch_dirs es = []" by (auto simp: batch_dirs_def filter_empty_conv)
    then show ?thesis by (simp add: Some node published_batches_def cs(2))
  next
    case 3
    with assms Some node obtain head paths seen where
      paths: "batch_paths es = Inr paths" "spool_chain env x head paths (empty_state env) (head = empty_state env) = Inr (st, seen, ms)"
      by (auto simp: spool_batches_def spool_directory_def split: if_splits)
    note p = paths_published [OF paths(1)]
    have dir: "event_text (SDir 0 (node_files (snd e))) = event_text (snd e)" if "e \<in> set (sort_key fst (batch_dirs es))" for e
      using p that by (cases "snd e") (auto simp: event_text_def entry_of_def node_files_def)
    have "list_all2 (\<lambda>e m. mf_sha m = e_sha256 env (event_text (SDir 0 (node_files (snd e))))
        \<and> mf_bytes m = int (length (event_text (SDir 0 (node_files (snd e)))))) (sort_key fst (batch_dirs es)) ms"
      using chain_accepted [OF paths(2)] p by (simp add: list_all2_map1)
    then have "list_all2 (\<lambda>e m. mf_sha m = e_sha256 env (event_text (snd e)) \<and> mf_bytes m = int (length (event_text (snd e))))
        (sort_key fst (batch_dirs es)) ms"
      by (rule list.rel_mono_strong) (simp add: dir)
    then show ?thesis by (simp add: Some node published_batches_def)
  qed
qed

text \<open>C32: The exporter never builds on a spool that does not match its source: whatever the directory holds, if the exporter
  accepts it against the rows of the database, then the text of every published batch has the digest and the length of
  its rows, the batches cover exactly the rows up to the checkpoint, and so, unless SHA-256 collides on one of these texts,
  the published text is the text of these rows.\<close>

theorem accepted_spool_matches_source:
  assumes "spool_batches env x root = Inr (st, initialized, ms)" and "spool_read env rows st limit ms = Inr batch"
  shows "\<exists>gs. concat gs = filter (\<lambda>row. fst row \<le> ss_cursor st) rows
      \<and> list_all2 (\<lambda>f g. e_sha256 env (event_text (snd f)) = e_sha256 env (lines_of g)
          \<and> length (event_text (snd f)) = length (lines_of g)) (published_batches root) gs
      \<and> ((\<forall>f\<in>set (published_batches root). \<forall>g\<in>set gs. e_sha256 env (event_text (snd f)) = e_sha256 env (lines_of g)
            \<longrightarrow> event_text (snd f) = lines_of g)
          \<longrightarrow> published root = lines_of (filter (\<lambda>row. fst row \<le> ss_cursor st) rows))"
proof -
  define old where "old = filter (\<lambda>row. fst row \<le> ss_cursor st) rows"
  have "\<exists>r. read_rows (read_old env) old (start_read ms) = Inr r \<and> sr_batches r = []"
    using assms(2) by (auto simp: spool_read_def bound_integer_def old_def split: if_splits)
  then obtain r where r: "read_rows (read_old env) (drop 0 old) (start_read ms) = Inr r" "sr_batches r = []" by auto
  from read_groups [OF r(1), of 0] r(2) obtain gs where gs: "old = concat gs" "list_all2 (batch_matches env old) ms gs"
    by (auto simp: start_read_def lines_of_def)
  note match = manifests_match [OF assms(1)]
  have both: "list_all2 (\<lambda>f g. e_sha256 env (event_text (snd f)) = e_sha256 env (lines_of g) \<and> length (event_text (snd f)) = length (lines_of g))
      (published_batches root) gs"
    by (rule list_all2_trans [OF _ match gs(2)]) (auto simp: batch_matches_def)
  moreover have "published root = lines_of old"
    if "\<forall>f\<in>set (published_batches root). \<forall>g\<in>set gs. e_sha256 env (event_text (snd f)) = e_sha256 env (lines_of g) \<longrightarrow> event_text (snd f) = lines_of g"
  proof -
    have "list_all2 (\<lambda>f g. event_text (snd f) = lines_of g) (published_batches root) gs"
      using both by (rule list.rel_mono_strong) (use that in blast)
    then have "map (event_text \<circ> snd) (published_batches root) = map lines_of gs" by (simp add: list_all2_eq list_all2_map1 list_all2_map2)
    moreover have "concat (map lines_of gs) = lines_of (concat gs)" by (induction gs) (simp_all add: lines_of_def)
    ultimately show ?thesis by (simp add: published_def gs(1))
  qed
  ultimately show ?thesis using gs(1) unfolding old_def [symmetric] by blast
qed

end
