(* ===== verification/SpoolSamples.thy ===== *)
theory SpoolSamples
  imports SpoolClaims
begin

text \<open>Two events and an export that is killed in the middle of a write.\<close>

definition spool_env :: env where
  "spool_env = sample_env\<lparr>e_sha256 := (\<lambda>_. replicate 64 (CHR ''0''))\<rparr>"

definition spool_ids :: "nat \<Rightarrow> string" where
  "spool_ids n = replicate 12 (CHR ''0'') @ pad0 20 (int (n mod 10 ^ 20))"

definition spool_row :: "string \<Rightarrow> int \<Rightarrow> row" where
  "spool_row i n = [(''schema_version'', VStr ''1.0.0''), (''event_id'', VStr i), (''exercise_id'', VStr ''x''), (''run_id'', VStr ''r''),
     (''sequence'', VInt n), (''visibility'', VStr ''facilitator'')]"

definition spool_entry_row :: "string \<Rightarrow> int \<Rightarrow> event_entry" where
  "spool_entry_row i n = \<lparr>ve_event_id = VStr i, ve_exercise_id = VStr ''x'', ve_run_id = VStr ''r'', ve_sequence = VInt n,
     ve_visibility = VStr ''facilitator'', ve_payload = VDict (spool_row i n)\<rparr>"

definition spool_ops :: "spool_command list" where
  "spool_ops = [StoreOp (AppendEvent (spool_row ''a'' 1)), ExportOp [] 500 True (Some 5) 3 False, StoreOp (AppendEvent (spool_row ''b'' 2)),
     ExportOp [] 500 True (Some 20) 3 False]"

abbreviation run_sample :: "spool_command \<Rightarrow> portal_store \<times> spool_world \<Rightarrow> portal_store \<times> spool_world" where
  "run_sample \<equiv> run_spool spool_env spool_ids Inr [''data'', ''portal.db''] [''data'', ''spool''] ''x''"

lemma sample_sha: "sha_ok spool_env"
  by (simp add: sha_ok_def spool_env_def hex64_def list_all_iff lower_hex_def is_digit_def digits09_def)

lemma sample_ids: "ids_ok spool_ids"
proof -
  have "length (spool_ids n) = 32 \<and> list_all lower_hex (spool_ids n)" for n
  proof -
    have "int (n mod 10 ^ 20) < 10 ^ 20"
      by (metis mod_less_divisor of_nat_less_iff of_nat_numeral of_nat_power zero_less_numeral zero_less_power)
    from pad_digits [OF _ this] have p: "length (pad0 20 (int (n mod 10 ^ 20))) = 20" "list_all is_digit (pad0 20 (int (n mod 10 ^ 20)))" by simp_all
    from p(2) have "list_all lower_hex (pad0 20 (int (n mod 10 ^ 20)))" by (simp add: list_all_iff lower_hex_def)
    with p(1) show ?thesis by (simp add: spool_ids_def list_all_iff lower_hex_def is_digit_def digits09_def)
  qed
  then show ?thesis by (simp add: ids_ok_def)
qed

lemma sample_ids_inj: "m \<le> 10 ^ 20 \<Longrightarrow> inj_on spool_ids {..<m}"
proof (rule inj_onI)
  fix i j assume m: "m \<le> 10 ^ 20" and ij: "i \<in> {..<m}" "j \<in> {..<m}" "spool_ids i = spool_ids j"
  then have r: "i mod 10 ^ 20 = i" "j mod 10 ^ 20 = j" by simp_all
  have b: "int i < 10 ^ 20" "int j < 10 ^ 20" using m ij(1,2) by (metis lessThan_iff less_le_trans of_nat_less_iff of_nat_numeral of_nat_power)+
  have "pad0 20 (int i) = pad0 20 (int j)" using ij(3) unfolding spool_ids_def r by simp
  with pad_digits [OF _ b(1)] pad_digits [OF _ b(2)] show "i = j" by (metis nat_int of_nat_0_le_iff)
qed

lemma sample_small: "small_name ''x''"
  by (simp add: small_name_def json_quote_def json_char_def)

lemma sample_arguments: "arguments_ok Inr [''data'', ''portal.db''] [''data'', ''spool''] ''x'' 500"
  by (simp add: arguments_ok_def char_count_def local_path_def)

lemma spool_row_clean: "redact_row (spool_row i n) = spool_row i n"
  by (simp add: redact_row_eq spool_row_def redact_field_def normalized_key_def lower_def lower_char_def SENSITIVE_KEYS_def
      lower_az_def upper_az_def is_digit_def digits09_def)

lemma spool_row_valid: "validate_event spool_env (spool_row i n) = Inr ()"
  by (simp add: validate_event_def spool_row_def schema_one spool_env_def sample_env_def SUPPORTED_SCHEMA_MAJOR_def)

lemma spool_row_entry: "event_entry_of (spool_row i n) = Inr (spool_entry_row i n)"
  by (simp add: event_entry_of_def spool_row_def spool_entry_row_def get_or_def text_column_def integer_column_def ditem_def)

lemma append_sample:
  "ve_event_id ` set (po_events s) \<subseteq> {VStr ''a''} - {VStr i} \<Longrightarrow> (VStr ''x'', VStr ''r'', VInt n) \<notin> place_of ` set (po_events s)
    \<Longrightarrow> po_events (run_store spool_env (AppendEvent (spool_row i n)) s) = po_events s @ [spool_entry_row i n]"
  by (auto simp: run_store_def portal_append_event_def Let_def spool_row_clean snd_transact spool_row_valid spool_row_entry insert_event_def requireR_def
      place_of_def spool_entry_row_def)

lemma sample_events: "po_events (fst (fold run_sample spool_ops (empty_store, empty_world))) = [spool_entry_row ''a'' 1, spool_entry_row ''b'' 2]"
proof -
  let ?s1 = "run_store spool_env (AppendEvent (spool_row ''a'' 1)) empty_store"
  have s1: "po_events ?s1 = [spool_entry_row ''a'' 1]" using append_sample [of empty_store "''a''" 1] by (simp add: empty_store_def)
  have "po_events (run_store spool_env (AppendEvent (spool_row ''b'' 2)) ?s1) = [spool_entry_row ''a'' 1, spool_entry_row ''b'' 2]"
    using append_sample [of ?s1 "''b''" 2] by (simp add: s1 place_of_def spool_entry_row_def)
  then show ?thesis by (simp add: spool_ops_def run_spool_def Let_def)
qed

lemma sample_rows: "exercise_rows ''x'' (fst (fold run_sample spool_ops (empty_store, empty_world))) = [(1, spool_entry_row ''a'' 1), (2, spool_entry_row ''b'' 2)]"
  unfolding exercise_rows_def sample_events by (simp add: upt_rec spool_entry_row_def)

lemma sample_payload: "length (json_dumps (VDict (spool_row ''a'' 1))) < 300" "length (json_dumps (VDict (spool_row ''b'' 2))) < 300"
  by code_simp+

lemma sample_event_items:
  "ditem (spool_row i n) ''event_id'' = Inr (VStr i)" "ditem (spool_row i n) ''exercise_id'' = Inr (VStr ''x'')"
  "ditem (spool_row i n) ''run_id'' = Inr (VStr ''r'')" "ditem (spool_row i n) ''sequence'' = Inr (VInt n)"
  "ditem (spool_row i n) ''visibility'' = Inr (VStr ''facilitator'')"
  "column_of (spool_entry_row i n) ''event_id'' = VStr i" "column_of (spool_entry_row i n) ''exercise_id'' = VStr ''x''"
  "column_of (spool_entry_row i n) ''run_id'' = VStr ''r''" "column_of (spool_entry_row i n) ''sequence'' = VInt n"
  "column_of (spool_entry_row i n) ''visibility'' = VStr ''facilitator''"
  by (simp_all add: spool_row_def ditem_def column_of_def get_or_def spool_entry_row_def)

lemma sample_unique: "unique_pairs (VDict (spool_row i n)) = Inr (VDict (spool_row i n))"
  by (simp add: unique_pairs_def spool_row_def)

lemma sample_checked:
  assumes "length (json_dumps (VDict (spool_row i n))) < 300" "next_sequence seqs (VStr ''r'') = n"
  shows "spool_event spool_env seqs (spool_entry_row i n) = Inr (json_line (VDict (spool_row i n)), (VStr ''r'', n) # seqs)"
proof -
  have payload: "ve_payload (spool_entry_row i n) = VDict (spool_row i n)" by (simp add: spool_entry_row_def)
  have "wf_val (VDict (spool_row i n))" by (simp add: spool_row_def)
  then have "val_eq (VDict (spool_row i n)) (VDict (spool_row i n))" by (rule val_eq_refl)
  then have clean: "requireR (val_eq (VDict (redact_row (spool_row i n))) (VDict (spool_row i n))) e = Inr ()" for e
    by (simp only: spool_row_clean requireR_def if_True)
  have "length (json_dumps (VDict (spool_row i n))) \<le> MAX_EVENT_SIZE" "length (json_line (VDict (spool_row i n))) \<le> MAX_EVENT_SIZE"
    using assms(1) unfolding json_line_def length_append MAX_EVENT_SIZE_def by simp_all
  then have short: "requireR (length (json_dumps (VDict (spool_row i n))) \<le> MAX_EVENT_SIZE) e = Inr ()"
    "requireR (length (json_line (VDict (spool_row i n))) \<le> MAX_EVENT_SIZE) e = Inr ()" for e
    by (simp_all only: requireR_def if_True)
  have columns: "fail_if (any_of (map (\<lambda>k. notR (isR (ditem (spool_row i n) k) (column_of (spool_entry_row i n) k)))
      [''event_id'', ''exercise_id'', ''run_id'', ''sequence'', ''visibility''])) e = Inr ()" for e
    by (simp add: fail_if_def notR_def isR_def sample_event_items num_of_def)
  have number: "fail_if (notR (isR (Inr (VInt n)) (VInt n))) e = Inr ()" for e
    by (simp add: fail_if_def notR_def isR_def num_of_def)
  have seq: "hashed (VStr ''r'') m = Inr m" for m :: int by (simp add: hashed_def)
  show ?thesis
    unfolding spool_event_def checked_event_def payload
    by (simp only: short sample_unique val.case bindR_def spool_row_valid clean columns sample_event_items seq assms(2) number Let_def sum.case)
qed

lemma sample_valid: "valid_rows spool_env [(1, spool_entry_row ''a'' 1), (2, spool_entry_row ''b'' 2)]"
  using sample_checked [OF sample_payload(1), of "[]"] sample_checked [OF sample_payload(2), of "[(VStr ''r'', 1)]"]
  by (simp add: valid_rows_def next_sequence_def vfind_def)

lemma fold_from: "fold f xs s = fold f (drop n xs) (fold f (take n xs) s)"
  by (metis append_take_drop_id fold_append comp_apply)

lemma published_is_prefix_witness:
  "\<exists>n n'. n \<le> n' \<and> n' \<le> 2
     \<and> published (sw_root (snd (fold run_sample (take 2 spool_ops) (empty_store, empty_world))))
         = lines_of (take n (exercise_rows ''x'' (fst (fold run_sample (take 2 spool_ops) (empty_store, empty_world)))))
     \<and> published (sw_root (snd (fold run_sample spool_ops (empty_store, empty_world))))
         = lines_of (take n' [(1, spool_entry_row ''a'' 1), (2, spool_entry_row ''b'' 2)])"
proof -
  let ?st = "fold run_sample (take 2 spool_ops) (empty_store, empty_world)"
  have "fold run_sample spool_ops (empty_store, empty_world) = fold run_sample (drop 2 spool_ops) ?st"
    by (rule fold_from)
  note p = published_is_prefix [OF sample_sha sample_ids sample_small refl this]
  have "length (po_events (fst (fold run_sample spool_ops (empty_store, empty_world)))) < 2 ^ 63" unfolding sample_events by simp
  from p [OF this] obtain n n' where "n \<le> n'" "n' \<le> length (exercise_rows ''x'' (fst (fold run_sample spool_ops (empty_store, empty_world))))"
    "published (sw_root (snd ?st)) = lines_of (take n (exercise_rows ''x'' (fst ?st)))"
    "published (sw_root (snd (fold run_sample spool_ops (empty_store, empty_world))))
       = lines_of (take n' (exercise_rows ''x'' (fst (fold run_sample spool_ops (empty_store, empty_world)))))" by blast
  moreover from this(2) have "n' \<le> 2" unfolding sample_rows by simp
  ultimately show ?thesis unfolding sample_rows by blast
qed


lemma accepted_spool_matches_source_witness:
  "\<exists>st initialized ms batch gs. let root = sw_root (snd (fold run_sample spool_ops (empty_store, empty_world)));
       rows = [(1, spool_entry_row ''a'' 1), (2, spool_entry_row ''b'' 2)] in
     spool_batches spool_env ''x'' root = Inr (st, initialized, ms) \<and> spool_read spool_env rows st 500 ms = Inr batch
     \<and> concat gs = filter (\<lambda>row. fst row \<le> ss_cursor st) rows
     \<and> list_all2 (\<lambda>f g. length (event_text (snd f)) = length (lines_of g)) (published_batches root) gs"
proof -
  let ?st = "fold run_sample spool_ops (empty_store, empty_world)" and ?rows = "[(1, spool_entry_row ''a'' 1), (2, spool_entry_row ''b'' 2)]"
  have events: "length (po_events (fst ?st)) < 2 ^ 63" unfolding sample_events by simp
  from run_spool_steps [OF sample_sha sample_ids sample_small spool_now_empty events] obtain ns where ns: "spool_now spool_env spool_ids ''x'' ns ?st" by blast
  then have at: "spool_at spool_env spool_ids ''x'' ?rows ns (sw_root (snd ?st)) (sw_ids (snd ?st))" unfolding spool_now_def sample_rows .
  have rows: "rows_ok ?rows" using exercise_rows_ok [OF events, of "''x''"] unfolding sample_rows .
  then have "setting spool_env spool_ids ''x'' ?rows" using sample_sha sample_small sample_ids by (simp add: setting_def)
  note found = batches_found [OF this at]
  from sample_valid obtain s where "check_all spool_env [] ?rows = Inr s" unfolding valid_rows_def by blast
  from spool_read_ok [OF rows spool_at_cuts [OF at] refl this] obtain batch where
    batch: "spool_read spool_env ?rows (state_at spool_env ?rows (end_of 0 ns)) 500 (chain_manifests spool_env ?rows 0 ns) = Inr batch" by blast
  from accepted_spool_matches_source [OF found batch] obtain gs where
    gs: "concat gs = filter (\<lambda>row. fst row \<le> ss_cursor (state_at spool_env ?rows (end_of 0 ns))) ?rows"
      "list_all2 (\<lambda>f g. e_sha256 spool_env (event_text (snd f)) = e_sha256 spool_env (lines_of g)
          \<and> length (event_text (snd f)) = length (lines_of g)) (published_batches (sw_root (snd ?st))) gs" by blast
  from gs(2) have "list_all2 (\<lambda>f g. length (event_text (snd f)) = length (lines_of g)) (published_batches (sw_root (snd ?st))) gs"
    by (rule list.rel_mono_strong) blast
  with found batch gs(1) show ?thesis unfolding Let_def by blast
qed

end
