(* ===== verification/Spec2Isabelle.thy ===== *)
theory Spec2Isabelle
  imports CoreProps ModuleProps Scheduler SupportProps MfaProps IdentityController ImpactProps SliceProps
    CloudProps ProfileProps SsoProps AarProps ReleaseProps TelemetryProps StoreSamples
    ClockProps SpoolSamples
begin

text \<open>
  NetStrike is a simulated cyber exercise: the module actions of a synthetic attack and of the response
  run through one safe-action contract, everything they do is reported as events of a common contract, and
  the orchestrator drives a reviewed scenario (an MSEL) in exercise time.

  \<^bold>\<open>Parts and theories.\<close>

  \<^item> \<open>NsPrelude\<close>: exceptions, the state and exception monad \<open>prog\<close>, results \<open>exc + 'a\<close>, and \<open>keeps\<close> (which
    part of the state a program leaves alone). \<open>PyData\<close>: JSON-like values, dictionaries, strings,
    \<open>json.dumps\<close>, calendar dates.
  \<^item> \<open>Events\<close>, \<open>Ledger\<close>: \<^verbatim>\<open>shared/events.py\<close> (sequencer, builder, validation, redaction, event ledger).
  \<^item> \<open>Actions\<close>: \<^verbatim>\<open>shared/actions.py\<close> (registry, admission, execution, fail-safe stop, rollback).
    \<open>AdapterSafety\<close>: what any call may change; \<open>AdapterTrails\<close>: what each path answers and audits when the
    surroundings do not object. \<open>Samples\<close>: a small module; \<open>CoreProps\<close>: the properties of these parts.
  \<^item> \<open>ModuleStore\<close>: what the module states share, and the contracts \<open>rollback_store\<close>, \<open>snapshot_store\<close> and
    \<open>cooperative_module\<close> as locales. \<open>IdentityState\<close>, \<open>EndpointState\<close>, \<open>CloudState\<close>: the states and registered
    actions of \<^verbatim>\<open>modules/04-mfa-fatigue-sim/identity_actions.py\<close>,
    \<^verbatim>\<open>modules/05-lateral-movement/endpoint_actions.py\<close> and \<^verbatim>\<open>modules/06-cloud-exfil/cloud_actions.py\<close>, each
    an interpretation of the contracts. \<open>ModuleProps\<close>: their properties.
  \<^item> \<open>ImpactFixture\<close>: \<^verbatim>\<open>modules/07-ransomware-sim/impact_actions.py\<close> (the disposable files, markers, recovery);
    \<open>ImpactProps\<close>: all or nothing under faults, no original lost, recovery and rollback exact.
  \<^item> \<open>IdentityController\<close>: \<^verbatim>\<open>modules/04-mfa-fatigue-sim/identity_controller.py\<close> (tokens, submission).
  \<^item> \<open>Scenario\<close>: \<^verbatim>\<open>orchestrator/scenario.py\<close>. \<open>Controller\<close>: \<^verbatim>\<open>orchestrator/controller.py\<close>; \<open>ControllerSafety\<close>
    (items only move forward), \<open>ControllerTime\<close> (branches and time), \<open>ControllerLive\<close> (the operations
    return), \<open>ControllerProps\<close> (properties). \<open>Scheduler\<close>: \<^verbatim>\<open>orchestrator/scheduler.py\<close>.
  \<^item> \<open>Checkpoints\<close>: \<^verbatim>\<open>orchestrator/checkpoints.py\<close>. \<open>Mfa\<close>, \<open>MfaProps\<close>: \<^verbatim>\<open>orchestrator/mfa.py\<close>. \<open>Support\<close>,
    \<open>SupportProps\<close>: \<^verbatim>\<open>orchestrator/support.py\<close>.
  \<^item> \<open>Profiles\<close>, \<open>ProfileProps\<close>: \<^verbatim>\<open>shared/profiles.py\<close> (the catalogue of reviewed profiles).
  \<^item> \<open>Sso\<close>, \<open>SsoProps\<close>: \<^verbatim>\<open>dashboard/sso.py\<close> (the contained sign-in; nobody is signed in without an approval).
  \<^item> \<open>Aar\<close>, \<open>AarText\<close>: \<^verbatim>\<open>orchestrator/aar.py\<close> (the after-action review and its Markdown). \<open>AarProps\<close>: accepted
    judgments are revision chains, feedback tells the ratings only, escaped prose is inert.
  \<^item> \<open>ReleaseCheck\<close>: \<^verbatim>\<open>dashboard/release_check.py\<close>; \<open>ReleaseProps\<close>: the inspection ends on any tree, and what a verified
    release is. \<open>TelemetryCheck\<close>: \<^verbatim>\<open>dashboard/telemetry_check.py\<close>; \<open>TelemetryProps\<close>: a match is equality of multisets.
  \<^item> \<open>Archive\<close>: \<^verbatim>\<open>dashboard/archive.py\<close>; \<open>Store\<close>: \<^verbatim>\<open>dashboard/store.py\<close>. \<open>StoreSteps\<close>: the contract \<open>append_only\<close> of a
    table and the steps of the portal's tables; \<open>StoreProps\<close>: keys, growth, archives and pages; \<open>StoreSamples\<close>: an example.
  \<^item> \<open>Clock\<close>, \<open>ClockProps\<close>: \<^verbatim>\<open>dashboard/clock.py\<close> (the supervisor of the scheduler; a stale heartbeat stops play).
  \<^item> \<open>Json\<close>: \<open>json.loads\<close>, and that it reads back what \<open>json.dumps\<close> writes. \<open>EventSpool\<close>: \<^verbatim>\<open>dashboard/event_spool.py\<close> on a tree of
    files, with a process that may be killed before any system call. \<open>SpoolText\<close>, \<open>SpoolChain\<close>: the texts and the chain of
    batches; \<open>SpoolRead\<close>: reading the source; \<open>SpoolDir\<close>, \<open>SpoolSteps\<close>, \<open>SpoolExport\<close>, \<open>SpoolProps\<close>: the invariant of the
    directory and what each step does to it; \<open>SpoolClaims\<close>: what is published is a prefix of the events, exports resume, and
    what is accepted matches the source; \<open>SpoolSamples\<close>: two events and two killed exports.
  \<^item> \<open>Play\<close>: the state one run shares, and how an adapter or a handler works on its part of it. \<open>CloudStage\<close>,
    \<open>CloudProps\<close>: \<^verbatim>\<open>orchestrator/cloud.py\<close>; \<open>ImpactStage\<close>: \<^verbatim>\<open>orchestrator/impact.py\<close>; \<open>SliceAutomation\<close>,
    \<open>SliceRun\<close>: \<^verbatim>\<open>orchestrator/identity_slice.py\<close>. \<open>SliceSafety\<close>, \<open>SliceProps\<close>: the stop of a run is final
    for every way into the play.

  \<^bold>\<open>State.\<close> A Python object is a record, a method a \<open>prog\<close> on the record (or on a larger state of which it is
  a part); what was written before a raise stays written. Handlers of the safe-action contract are programs
  on the module's state, handlers of the controller programs on the whole system \<open>csys\<close>. Challenges of
  \<open>Mfa\<close> are updated in place through an index, as the source shares one dictionary.

  \<^bold>\<open>Surroundings.\<close> The JSON schema validator, the clocks, \<open>uuid\<close>, \<open>sha256\<close> and the event sink are not in the
  repository; they are the fields of \<open>env\<close>, arbitrary unless a lemma assumes \<open>quiet_env\<close> (the sink and the
  validator do not object, times carry a zone). \<open>json.load\<close> (outside the event spool), \<open>uuid5\<close> and the scheduler's monotonic clock are
  parameters. Locks are not modelled: every operation is one step, except that an action's admission and its
  run are two (\<open>begin_execution\<close>, \<open>finish_execution\<close>), since the source releases the lock between them.

  \<^bold>\<open>Bounds.\<close> Python integers are \<open>int\<close>; the scheduler's floats are rationals, without rounding. Loops run
  over finite lists; the walk of a directory tree is a partial function that is proved to return. Fuel is used only by
  the client that follows the pages of archives, one request more than there are archives.

  \<^bold>\<open>Not modelled.\<close> The rest of the dashboard and its storage, the profiler and ransomware modules, evidence
  generators and the scripts: not yet, or file, network and process input and output.
\<close>

end
